(* ===== verification/Prelude.thy ===== *)
theory Prelude
  imports
    Complex_Main
    "HOL-Library.Word"
    "HOL-Library.Multiset"
    "HOL-Library.AList"
    "HOL-Library.Char_ord"
    "HOL-Library.List_Lexorder"
    "HOL-Library.Product_Lexorder"
    "HOL-Library.Sublist"
begin

text \<open>
  The part of Go and of its standard library that NodeHarvest uses, as the other theories need it:
  byte strings with the \<open>strings\<close> package, 64-bit integers, \<open>float64\<close> as exact reals, instants and
  durations, Go maps as association lists in some iteration order, \<open>sort.SliceStable\<close>, and the
  two SQL shapes (filtered, ordered, limited SELECTs and keyed UPDATEs) the database layer relies on.

  Conventions.
  \<^item> A Go string is a \<open>string\<close>: a list of bytes. Case mapping and trimming act on ASCII letters and
    ASCII white space (protocol names, hosts, country codes, configuration keywords); other bytes
    are left alone.
  \<^item> \<open><\<close> on strings is Go's bytewise order (theories \<open>Char_ord\<close> and \<open>List_Lexorder\<close>).
  \<^item> \<open>int\<close> and \<open>int64\<close> values are \<open>int\<close>; where a product or a shift can leave the 64-bit range, the
    model applies \<open>wrap64\<close>.
  \<^item> \<open>float64\<close> is \<open>real\<close>: comparisons are exact, rounding errors of the arithmetic are not modelled.
  \<^item> A \<open>time.Time\<close> is the number of nanoseconds since Go's zero time, so \<open>IsZero t\<close> is \<open>t = 0\<close>, and a
    \<open>time.Duration\<close> a number of nanoseconds.
  \<^item> A Go map is an association list with distinct keys whose order is the (arbitrary) iteration
    order of one \<open>range\<close>; results that must not depend on it are proved not to.
\<close>

named_theorems go_defs \<open>definitions of the Go standard library functions used by the model\<close>
named_theorems sort_facts \<open>what sorting and limiting keep of a list\<close>

subsection \<open>Integers, floats and time\<close>

type_synonym float64 = real
type_synonym time = int
type_synonym duration = int

definition wrap64 :: "int \<Rightarrow> int" where
  "wrap64 x = (x + 2 ^ 63) mod 2 ^ 64 - 2 ^ 63"

definition IsZero :: "time \<Rightarrow> bool" where
  "IsZero t \<longleftrightarrow> t = 0"

definition millisecond :: duration where "millisecond = 1000000"
definition second :: duration where "second = 1000000000"
definition minute :: duration where "minute = 60 * second"
definition hour :: duration where "hour = 60 * minute"

text \<open>\<open>Duration.Milliseconds\<close>: Go's integer division truncates towards zero.\<close>

definition quot :: "int \<Rightarrow> int \<Rightarrow> int" where
  "quot a b = sgn a * sgn b * (\<bar>a\<bar> div \<bar>b\<bar>)"

definition Milliseconds :: "duration \<Rightarrow> int" where
  "Milliseconds d = quot d millisecond"

text \<open>\<open>math.Round\<close> (half away from zero) and the truncating conversion \<open>int(x)\<close>.\<close>

definition go_round :: "float64 \<Rightarrow> float64" where
  "go_round x = (if x < 0 then - of_int \<lfloor>- x + 1 / 2\<rfloor> else of_int \<lfloor>x + 1 / 2\<rfloor>)"

definition go_int :: "float64 \<Rightarrow> int" where
  "go_int x = (if x < 0 then - \<lfloor>- x\<rfloor> else \<lfloor>x\<rfloor>)"

definition clamp :: "float64 \<Rightarrow> float64 \<Rightarrow> float64 \<Rightarrow> float64" where
  "clamp v lo hi = (if v < lo then lo else if v > hi then hi else v)"

lemma wrap64_range: "- (2 ^ 63) \<le> wrap64 x \<and> wrap64 x < 2 ^ 63"
  by (simp add: wrap64_def)

lemma wrap64_id: "- (2 ^ 63) \<le> x \<Longrightarrow> x < 2 ^ 63 \<Longrightarrow> wrap64 x = x"
  by (simp add: wrap64_def)

lemma wrap64_signed_word: "wrap64 x = sint (word_of_int x :: 64 word)"
  by (simp add: wrap64_def sint_sbintrunc' signed_take_bit_eq_take_bit_shift take_bit_eq_mod)

lemma clamp_bounds [simp]: "lo \<le> hi \<Longrightarrow> lo \<le> clamp v lo hi \<and> clamp v lo hi \<le> hi"
  by (simp add: clamp_def)

lemma clamp_id: "lo \<le> v \<Longrightarrow> v \<le> hi \<Longrightarrow> clamp v lo hi = v"
  by (simp add: clamp_def)

lemma clamp_mono: "v \<le> w \<Longrightarrow> lo \<le> hi \<Longrightarrow> clamp v lo hi \<le> clamp w lo hi"
  by (simp add: clamp_def)

lemma go_round_mono: "x \<le> y \<Longrightarrow> go_round x \<le> go_round y"
proof -
  assume le: "x \<le> y"
  consider "0 \<le> x" | "x < 0" "0 \<le> y" | "y < 0" by linarith
  then show ?thesis
  proof cases
    case 1
    with le show ?thesis by (simp add: go_round_def floor_mono)
  next
    case 2
    have "0 \<le> real_of_int \<lfloor>- x + 1 / 2\<rfloor>" using 2 by (intro of_int_nonneg) simp
    moreover have "0 \<le> real_of_int \<lfloor>y + 1 / 2\<rfloor>" using 2 by (intro of_int_nonneg) simp
    ultimately show ?thesis
      using 2 by (simp only: go_round_def if_True if_False not_less [symmetric])
  next
    case 3
    with le show ?thesis by (simp add: go_round_def floor_mono)
  qed
qed

lemma go_round_of_int [simp]: "go_round (of_int k) = of_int k"
proof -
  have "\<lfloor>of_int k + (1 / 2 :: real)\<rfloor> = k" for k
    by (simp add: floor_unique)
  moreover have "\<lfloor>- of_int k + (1 / 2 :: real)\<rfloor> = - k"
    by (rule floor_unique) simp_all
  ultimately show ?thesis by (simp add: go_round_def)
qed

lemma go_round_numeral [simp]: "go_round (numeral k) = numeral k"
  using go_round_of_int [of "numeral k"] by simp

lemma go_round_0 [simp]: "go_round 0 = 0"
  using go_round_of_int [of 0] by simp

subsection \<open>Strings\<close>

definition lower_char :: "char \<Rightarrow> char" where
  "lower_char c = (let n = (of_char c :: nat) in if 65 \<le> n \<and> n \<le> 90 then char_of (n + 32) else c)"

definition upper_char :: "char \<Rightarrow> char" where
  "upper_char c = (let n = (of_char c :: nat) in if 97 \<le> n \<and> n \<le> 122 then char_of (n - 32) else c)"

definition is_space :: "char \<Rightarrow> bool" where
  "is_space c = (let n = (of_char c :: nat) in (9 \<le> n \<and> n \<le> 13) \<or> n = 32)"

definition ToLower :: "string \<Rightarrow> string" where
  "ToLower s = map lower_char s"

definition ToUpper :: "string \<Rightarrow> string" where
  "ToUpper s = map upper_char s"

definition trim_by :: "(char \<Rightarrow> bool) \<Rightarrow> string \<Rightarrow> string" where
  "trim_by p s = rev (dropWhile p (rev (dropWhile p s)))"

definition TrimSpace :: "string \<Rightarrow> string" where
  "TrimSpace s = trim_by is_space s"

definition TrimRight :: "string \<Rightarrow> string \<Rightarrow> string" where
  "TrimRight s cutset = rev (dropWhile (\<lambda>c. c \<in> set cutset) (rev s))"

definition Trim :: "string \<Rightarrow> string \<Rightarrow> string" where
  "Trim s cutset = trim_by (\<lambda>c. c \<in> set cutset) s"

definition HasPrefix :: "string \<Rightarrow> string \<Rightarrow> bool" where
  "HasPrefix s p \<longleftrightarrow> take (length p) s = p"

definition HasSuffix :: "string \<Rightarrow> string \<Rightarrow> bool" where
  "HasSuffix s p \<longleftrightarrow> HasPrefix (rev s) (rev p)"

definition TrimPrefix :: "string \<Rightarrow> string \<Rightarrow> string" where
  "TrimPrefix s p = (if HasPrefix s p then drop (length p) s else s)"

definition TrimSuffix :: "string \<Rightarrow> string \<Rightarrow> string" where
  "TrimSuffix s p = (if HasSuffix s p then take (length s - length p) s else s)"

fun Contains :: "string \<Rightarrow> string \<Rightarrow> bool" where
  "Contains [] sub = (sub = [])"
| "Contains (c # s) sub = (HasPrefix (c # s) sub \<or> Contains s sub)"

definition ContainsAny :: "string \<Rightarrow> string \<Rightarrow> bool" where
  "ContainsAny s chars \<longleftrightarrow> list_ex (\<lambda>c. c \<in> set chars) s"

definition EqualFold :: "string \<Rightarrow> string \<Rightarrow> bool" where
  "EqualFold a b \<longleftrightarrow> ToLower a = ToLower b"

fun Split :: "char \<Rightarrow> string \<Rightarrow> string list" where
  "Split sep [] = [[]]"
| "Split sep (c # s) =
     (if c = sep then [] # Split sep s
      else (case Split sep s of [] \<Rightarrow> [[c]] | w # ws \<Rightarrow> (c # w) # ws))"

fun Join :: "string list \<Rightarrow> string \<Rightarrow> string" where
  "Join [] sep = []"
| "Join [s] sep = s"
| "Join (s # t # ss) sep = s @ sep @ Join (t # ss) sep"

text \<open>\<open>strings.FieldsFunc\<close>: the maximal runs of bytes that are not separators.\<close>

fun fields_acc :: "(char \<Rightarrow> bool) \<Rightarrow> string \<Rightarrow> string \<Rightarrow> string list" where
  "fields_acc p acc [] = (if acc = [] then [] else [rev acc])"
| "fields_acc p acc (c # s) =
     (if p c then (if acc = [] then fields_acc p [] s else rev acc # fields_acc p [] s)
      else fields_acc p (c # acc) s)"

definition FieldsFunc :: "string \<Rightarrow> (char \<Rightarrow> bool) \<Rightarrow> string list" where
  "FieldsFunc s p = fields_acc p [] s"

fun nat_dec :: "nat \<Rightarrow> string" where
  "nat_dec n = (if n < 10 then [char_of (48 + n)] else nat_dec (n div 10) @ [char_of (48 + n mod 10)])"

declare nat_dec.simps [simp del]

text \<open>\<open>fmt.Sprintf\<close> with \<open>%d\<close> and \<open>%t\<close>.\<close>

definition itoa :: "int \<Rightarrow> string" where
  "itoa i = (if i < 0 then ''-'' @ nat_dec (nat (- i)) else nat_dec (nat i))"

definition btoa :: "bool \<Rightarrow> string" where
  "btoa b = (if b then ''true'' else ''false'')"

lemmas [go_defs] = lower_char_def upper_char_def is_space_def ToLower_def ToUpper_def trim_by_def
  TrimSpace_def TrimRight_def Trim_def HasPrefix_def HasSuffix_def TrimPrefix_def TrimSuffix_def
  ContainsAny_def EqualFold_def itoa_def btoa_def IsZero_def

lemma is_space_lower [simp]: "is_space (lower_char c) = is_space c"
proof -
  have "of_char (char_of (of_char c + 32 :: nat) :: char) = (of_char c + 32 :: nat)"
    if "of_char c \<le> (90 :: nat)"
    using that by simp
  then show ?thesis by (auto simp: lower_char_def is_space_def Let_def)
qed

lemma is_space_upper [simp]: "is_space (upper_char c) = is_space c"
proof -
  have "of_char (char_of (of_char c - 32 :: nat) :: char) = (of_char c - 32 :: nat)"
    if "of_char c \<le> (122 :: nat)"
    using that by simp
  then show ?thesis by (auto simp: upper_char_def is_space_def Let_def)
qed

lemma lower_char_idem [simp]: "lower_char (lower_char c) = lower_char c"
proof -
  have "of_char (char_of (of_char c + 32 :: nat) :: char) = (of_char c + 32 :: nat)"
    if "of_char c \<le> (90 :: nat)"
    using that by simp
  then show ?thesis by (auto simp: lower_char_def Let_def)
qed

lemma upper_char_idem [simp]: "upper_char (upper_char c) = upper_char c"
proof -
  have "of_char (char_of (of_char c - 32 :: nat) :: char) = (of_char c - 32 :: nat)"
    if "of_char c \<le> (122 :: nat)"
    using that by simp
  then show ?thesis by (auto simp: upper_char_def Let_def)
qed

lemma lower_char_eq_NUL [simp]: "lower_char c = CHR 0x00 \<longleftrightarrow> c = CHR 0x00"
proof -
  have "of_char (char_of (of_char c + 32 :: nat) :: char) = (of_char c + 32 :: nat)"
    if "of_char c \<le> (90 :: nat)"
    using that by simp
  then have "char_of (of_char c + 32 :: nat) \<noteq> (CHR 0x00 :: char)" if "of_char c \<le> (90 :: nat)"
    using that by (auto dest: arg_cong [of _ _ "of_char :: char \<Rightarrow> nat"])
  then show ?thesis by (auto simp: lower_char_def Let_def)
qed

lemma NUL_in_ToLower [simp]: "CHR 0x00 \<in> set (ToLower s) \<longleftrightarrow> CHR 0x00 \<in> set s"
proof -
  have "CHR 0x00 \<in> lower_char ` set s \<longleftrightarrow> CHR 0x00 \<in> set s"
    by (metis (no_types, lifting) imageE image_eqI lower_char_eq_NUL)
  then show ?thesis by (simp add: ToLower_def)
qed

lemma ToLower_idem [simp]: "ToLower (ToLower s) = ToLower s"
  by (simp add: ToLower_def)

lemma ToUpper_idem [simp]: "ToUpper (ToUpper s) = ToUpper s"
  by (simp add: ToUpper_def)

lemma ToLower_Nil [simp]: "ToLower s = [] \<longleftrightarrow> s = []" "ToLower [] = []"
  by (simp_all add: ToLower_def)

lemma ToUpper_Nil [simp]: "ToUpper s = [] \<longleftrightarrow> s = []" "ToUpper [] = []"
  by (simp_all add: ToUpper_def)

lemma length_ToLower [simp]: "length (ToLower s) = length s"
  by (simp add: ToLower_def)

lemma length_ToUpper [simp]: "length (ToUpper s) = length s"
  by (simp add: ToUpper_def)

lemma dropWhile_rev_keeps_hd:
  assumes "xs = [] \<or> \<not> p (hd xs)"
  shows "dropWhile p (rev (dropWhile p (rev xs))) = rev (dropWhile p (rev xs))"
proof (cases "dropWhile p (rev xs)")
  case Nil
  then show ?thesis by (simp only: rev.simps dropWhile.simps)
next
  case (Cons y ys)
  then have "xs \<noteq> []" by auto
  with assms have h: "\<not> p (hd xs)" by simp
  obtain zs where zs: "rev xs = zs @ y # ys"
    using Cons takeWhile_dropWhile_id [of p "rev xs"] by metis
  then have "xs = rev ys @ [y] @ rev zs"
    by (metis append.assoc append_Cons append_Nil rev.simps(2) rev_append rev_rev_ident)
  with h have "\<not> p (hd (rev ys @ [y]))" by (cases ys rule: rev_cases) auto
  with Cons show ?thesis by (cases "rev ys") auto
qed

lemma trim_by_idem [simp]: "trim_by p (trim_by p s) = trim_by p s"
proof -
  have hd: "dropWhile p s = [] \<or> \<not> p (hd (dropWhile p s))"
    using hd_dropWhile [of p s] by blast
  show ?thesis
    using dropWhile_rev_keeps_hd [of "dropWhile p s" p] hd
    by (simp only: trim_by_def) simp
qed

lemma TrimSpace_idem [simp]: "TrimSpace (TrimSpace s) = TrimSpace s"
  by (simp add: TrimSpace_def)

lemma TrimSpace_Nil [simp]: "TrimSpace [] = []"
  by (simp add: TrimSpace_def trim_by_def)

lemma trim_by_map: "(\<And>c. p (f c) = p c) \<Longrightarrow> trim_by p (map f s) = map f (trim_by p s)"
  by (simp add: trim_by_def dropWhile_map rev_map comp_def)

lemma TrimSpace_ToLower: "TrimSpace (ToLower s) = ToLower (TrimSpace s)"
  by (simp add: TrimSpace_def ToLower_def trim_by_map)

lemma TrimSpace_ToUpper: "TrimSpace (ToUpper s) = ToUpper (TrimSpace s)"
  by (simp add: TrimSpace_def ToUpper_def trim_by_map)

lemma TrimSpace_ToLower_TrimSpace [simp]:
  "TrimSpace (ToLower (TrimSpace s)) = ToLower (TrimSpace s)"
  by (simp add: TrimSpace_ToLower)

lemma TrimSpace_ToUpper_TrimSpace [simp]:
  "TrimSpace (ToUpper (TrimSpace s)) = ToUpper (TrimSpace s)"
  by (simp add: TrimSpace_ToUpper)

lemma EqualFold_refl [simp]: "EqualFold a a"
  by (simp add: EqualFold_def)

subsection \<open>Decimal rendering is injective\<close>

lemma nat_dec_digits: "\<forall>c \<in> set (nat_dec n). 48 \<le> (of_char c :: nat) \<and> (of_char c :: nat) < 58"
proof (induction n rule: nat_dec.induct)
  case (1 n)
  then show ?case
    by (cases "n < 10") (auto simp: nat_dec.simps [of n])
qed

fun dec_value :: "string \<Rightarrow> nat" where
  "dec_value s = foldl (\<lambda>v c. 10 * v + (of_char c - 48)) 0 s"

lemma dec_value_nat_dec: "dec_value (nat_dec n) = n"
proof (induction n rule: nat_dec.induct)
  case (1 n)
  show ?case
  proof (cases "n < 10")
    case True
    then show ?thesis by (simp add: nat_dec.simps [of n])
  next
    case False
    with 1 have "dec_value (nat_dec (n div 10)) = n div 10" by simp
    with False show ?thesis by (simp add: nat_dec.simps [of n])
  qed
qed

lemma nat_dec_inject [simp]: "nat_dec m = nat_dec n \<longleftrightarrow> m = n"
  by (metis dec_value_nat_dec)

lemma nat_dec_no_minus: "nat_dec n \<noteq> CHR ''-'' # s"
  using nat_dec_digits [of n] by auto

lemma nat_dec_not_Nil [simp]: "nat_dec n \<noteq> []"
  by (simp add: nat_dec.simps [of n])

lemma NUL_notin_itoa [simp]: "CHR 0x00 \<notin> set (itoa i)"
  using nat_dec_digits [of "nat i"] nat_dec_digits [of "nat (- i)"] by (auto simp: itoa_def)

lemma NUL_notin_btoa [simp]: "CHR 0x00 \<notin> set (btoa b)"
  by (simp add: btoa_def)

lemma btoa_inject [simp]: "btoa a = btoa b \<longleftrightarrow> a = b"
  by (simp add: btoa_def)

lemma itoa_inject [simp]: "itoa i = itoa j \<longleftrightarrow> i = j"
  using nat_dec_no_minus nat_dec_no_minus [symmetric]
  by (auto simp: itoa_def split: if_splits)

subsection \<open>Splitting and joining\<close>

lemma Split_not_Nil [simp]: "Split sep s \<noteq> []"
  by (induction s) (auto split: list.splits)

lemma Split_no_sep: "w \<in> set (Split sep s) \<Longrightarrow> sep \<notin> set w"
proof (induction s arbitrary: w)
  case Nil
  then show ?case by simp
next
  case (Cons c s)
  then show ?case by (cases "Split sep s") (auto split: if_splits)
qed

lemma Split_id: "sep \<notin> set s \<Longrightarrow> Split sep s = [s]"
  by (induction s) auto

lemma Split_append: "sep \<notin> set a \<Longrightarrow> Split sep (a @ sep # b) = a # Split sep b"
  by (induction a) auto

lemma Split_Join: "ws \<noteq> [] \<Longrightarrow> \<forall>w \<in> set ws. sep \<notin> set w \<Longrightarrow> Split sep (Join ws [sep]) = ws"
  by (induction ws "[sep]" rule: Join.induct) (auto simp: Split_id Split_append)

lemma Split_Join_snoc:
  "\<forall>w \<in> set ws. sep \<notin> set w \<Longrightarrow> Split sep (Join (ws @ [x]) [sep]) = ws @ Split sep x"
proof (induction ws)
  case Nil
  then show ?case by simp
next
  case (Cons w ws)
  then have "Join ((w # ws) @ [x]) [sep] = w @ sep # Join (ws @ [x]) [sep]"
    by (cases ws) auto
  with Cons show ?case by (simp add: Split_append)
qed

lemma Join_Split: "Join (Split sep s) [sep] = s"
proof (induction s)
  case Nil
  then show ?case by simp
next
  case (Cons c s)
  then show ?case by (cases "Split sep s" rule: list.exhaust; cases "tl (Split sep s)") auto
qed

lemma Split_inject: "Split sep s = Split sep t \<longleftrightarrow> s = t"
  by (metis Join_Split)

subsection \<open>Go maps as association lists\<close>

type_synonym ('k, 'v) gmap = "('k \<times> 'v) list"

abbreviation keys :: "('k, 'v) gmap \<Rightarrow> 'k list" where
  "keys m \<equiv> map fst m"

abbreviation vals :: "('k, 'v) gmap \<Rightarrow> 'v list" where
  "vals m \<equiv> map snd m"

text \<open>\<open>m[k]\<close> with the zero value as default, \<open>m[k] = v\<close>, and \<open>m[k]++\<close>.\<close>

definition gget :: "'v \<Rightarrow> ('k, 'v) gmap \<Rightarrow> 'k \<Rightarrow> 'v" where
  "gget z m k = (case map_of m k of None \<Rightarrow> z | Some v \<Rightarrow> v)"

definition gput :: "'k \<Rightarrow> 'v \<Rightarrow> ('k, 'v) gmap \<Rightarrow> ('k, 'v) gmap" where
  "gput k v m = AList.update k v m"

definition gincr :: "'k \<Rightarrow> ('k, int) gmap \<Rightarrow> ('k, int) gmap" where
  "gincr k m = gput k (gget 0 m k + 1) m"

lemma map_of_gput [simp]: "map_of (gput k v m) = (map_of m)(k \<mapsto> v)"
  by (simp add: gput_def update_conv')

lemma distinct_gput [simp]: "distinct (keys m) \<Longrightarrow> distinct (keys (gput k v m))"
  by (simp add: gput_def distinct_update)

lemma set_keys_gput [simp]: "set (keys (gput k v m)) = insert k (set (keys m))"
  using dom_update [of k v m] by (simp add: gput_def)

lemma gget_gput [simp]: "gget z (gput k v m) j = (if j = k then v else gget z m j)"
  by (simp add: gget_def)

lemma gget_gincr: "gget 0 (gincr k m) j = gget 0 m j + (if j = k then 1 else 0)"
  by (simp add: gincr_def)

lemma gget_fold_gincr: "gget 0 (fold gincr ks m) k = gget 0 m k + int (count_list ks k)"
  by (induction ks arbitrary: m) (auto simp: gget_gincr)

lemma map_of_perm:
  "distinct (keys m) \<Longrightarrow> mset m = mset m' \<Longrightarrow> map_of m = map_of m'"
  by (metis distinct_map map_of_inject_set mset_eq_imp_distinct_iff mset_eq_setD)

text \<open>An invariant of every entry of a map, and the keyed insertions that keep it.\<close>

definition gmap_inv :: "('k \<Rightarrow> 'v \<Rightarrow> bool) \<Rightarrow> ('k, 'v) gmap \<Rightarrow> bool" where
  "gmap_inv ok m \<longleftrightarrow> distinct (keys m) \<and> (\<forall>(k, v) \<in> set m. ok k v)"

lemma gmap_inv_Nil [simp]: "gmap_inv ok []"
  by (simp add: gmap_inv_def)

lemma set_gput_subset: "set (gput k v m) \<subseteq> insert (k, v) (set m)"
  unfolding gput_def by (induction m) auto

lemma gmap_inv_gput: "gmap_inv ok m \<Longrightarrow> ok k v \<Longrightarrow> gmap_inv ok (gput k v m)"
  using set_gput_subset [of k v m] by (auto simp: gmap_inv_def)

lemma gmap_inv_fold:
  assumes "\<And>x m. x \<in> set xs \<Longrightarrow> gmap_inv ok m \<Longrightarrow> gmap_inv ok (f x m)" and "gmap_inv ok m"
  shows "gmap_inv ok (fold f xs m)"
  using assms by (induction xs arbitrary: m) auto

lemma gmap_inv_lookup: "gmap_inv ok m \<Longrightarrow> map_of m k = Some v \<Longrightarrow> ok k v"
  by (auto simp: gmap_inv_def dest: map_of_SomeD)

text \<open>Inserting values under pairwise different keys: the last writer is the only one.\<close>

lemma map_of_fold_gput:
  assumes "distinct (map key xs)"
  shows "map_of (fold (\<lambda>x m. gput (key x) (val x) m) xs m) k =
    (case find (\<lambda>x. key x = k) xs of None \<Rightarrow> map_of m k | Some x \<Rightarrow> Some (val x))"
  using assms
proof (induction xs arbitrary: m)
  case (Cons x xs)
  then have "find (\<lambda>y. key y = key x) xs = None" by (auto simp: find_None_iff image_iff)
  with Cons show ?case by (auto split: option.split)
qed simp

lemma gput_fresh: "k \<notin> set (keys m) \<Longrightarrow> gput k v m = m @ [(k, v)]"
  unfolding gput_def by (induction m) auto

lemma fold_gput_fresh:
  assumes "distinct (map key xs)" and "key ` set xs \<inter> set (keys m) = {}"
  shows "fold (\<lambda>x m. gput (key x) (val x) m) xs m = m @ map (\<lambda>x. (key x, val x)) xs"
  using assms by (induction xs arbitrary: m) (auto simp: gput_fresh)

text \<open>The non-nil elements of a slice of pointers.\<close>

fun somes :: "'a option list \<Rightarrow> 'a list" where
  "somes [] = []"
| "somes (None # xs) = somes xs"
| "somes (Some x # xs) = x # somes xs"

lemma set_somes [simp]: "set (somes xs) = {x. Some x \<in> set xs}"
  by (induction xs rule: somes.induct) auto

lemma somes_map_Some [simp]: "somes (map Some xs) = xs"
  by (induction xs) auto

lemma somes_append [simp]: "somes (xs @ ys) = somes xs @ somes ys"
  by (induction xs rule: somes.induct) auto

lemma find_SomeD: "find P xs = Some x \<Longrightarrow> x \<in> set xs \<and> P x"
  by (auto simp: find_Some_iff)

lemma find_key: "distinct (map key xs) \<Longrightarrow> x \<in> set xs \<Longrightarrow> find (\<lambda>y. key y = key x) xs = Some x"
  by (induction xs) (auto simp: image_iff)

text \<open>
  A chain of guarded early returns \<open>if cond { return err }\<close>: the first error whose condition holds.
\<close>

fun first_err :: "(bool \<times> 'e) list \<Rightarrow> 'e option" where
  "first_err [] = None"
| "first_err ((cond, e) # cs) = (if cond then Some e else first_err cs)"

lemma first_err_None [simp]: "first_err cs = None \<longleftrightarrow> list_all (\<lambda>c. \<not> fst c) cs"
  by (induction cs rule: first_err.induct) auto

text \<open>Go's \<open>if err := f(); err != nil { return err }\<close>.\<close>

definition or_else :: "'e option \<Rightarrow> 'e option \<Rightarrow> 'e option" where
  "or_else a b = (case a of None \<Rightarrow> b | Some e \<Rightarrow> Some e)"

lemma or_else_None [simp]: "or_else a b = None \<longleftrightarrow> a = None \<and> b = None"
  by (simp add: or_else_def split: option.splits)

subsection \<open>Stable sorting\<close>

text \<open>\<open>sort.SliceStable\<close> with a \<open>less\<close> closure: an insertion sort that keeps equal elements in order.\<close>

fun stable_insert :: "('a \<Rightarrow> 'a \<Rightarrow> bool) \<Rightarrow> 'a \<Rightarrow> 'a list \<Rightarrow> 'a list" where
  "stable_insert lt x [] = [x]"
| "stable_insert lt x (y # ys) = (if lt y x then y # stable_insert lt x ys else x # y # ys)"

definition SliceStable :: "('a \<Rightarrow> 'a \<Rightarrow> bool) \<Rightarrow> 'a list \<Rightarrow> 'a list" where
  "SliceStable lt xs = foldr (stable_insert lt) xs []"

text \<open>\<open>if n > 0 \<and> len(xs) > n { xs = xs[:n] }\<close>, the limit idiom of the code.\<close>

definition limit_to :: "int \<Rightarrow> 'a list \<Rightarrow> 'a list" where
  "limit_to n xs = (if n > 0 \<and> int (length xs) > n then take (nat n) xs else xs)"

lemma mset_stable_insert: "mset (stable_insert lt x xs) = add_mset x (mset xs)"
  by (induction xs) auto

lemma mset_SliceStable [simp, sort_facts]: "mset (SliceStable lt xs) = mset xs"
  unfolding SliceStable_def by (induction xs) (auto simp: mset_stable_insert)

lemma set_SliceStable [simp, sort_facts]: "set (SliceStable lt xs) = set xs"
  by (metis mset_SliceStable set_mset_mset)

lemma length_SliceStable [simp, sort_facts]: "length (SliceStable lt xs) = length xs"
  by (metis mset_SliceStable size_mset)

lemma distinct_SliceStable [simp]: "distinct (SliceStable lt xs) = distinct xs"
  by (metis mset_SliceStable mset_eq_imp_distinct_iff)

lemma limit_to_prefix: "\<exists>zs. xs = limit_to n xs @ zs"
  by (cases "n > 0 \<and> int (length xs) > n")
    (auto simp: limit_to_def intro: exI [of _ "drop (nat n) xs"])

lemma set_limit_to [sort_facts]: "set (limit_to n xs) \<subseteq> set xs"
  using limit_to_prefix [of xs n] by (metis Un_upper1 set_append)

lemma set_limit_toD: "x \<in> set (limit_to n xs) \<Longrightarrow> x \<in> set xs"
  using set_limit_to by fastforce

lemma length_limit_to: "n > 0 \<Longrightarrow> int (length (limit_to n xs)) \<le> n"
  by (simp add: limit_to_def)

lemma length_limit_to_le: "length (limit_to n xs) \<le> length xs"
  by (simp add: limit_to_def)

lemma distinct_limit_to [simp]: "distinct xs \<Longrightarrow> distinct (limit_to n xs)"
  by (simp add: limit_to_def)

lemma sorted_wrt_limit_to: "sorted_wrt r xs \<Longrightarrow> sorted_wrt r (limit_to n xs)"
  by (simp add: limit_to_def)

text \<open>What a \<open>less\<close> closure must satisfy for the sort to mean anything, and what the sort then gives.\<close>

locale strict_weak_order =
  fixes lt :: "'a \<Rightarrow> 'a \<Rightarrow> bool"
  assumes asym: "lt a b \<Longrightarrow> \<not> lt b a"
    and neg_trans: "lt a c \<Longrightarrow> lt a b \<or> lt b c"
begin

lemma not_less_trans: "\<not> lt b a \<Longrightarrow> \<not> lt c b \<Longrightarrow> \<not> lt c a"
  using neg_trans by blast

lemma sorted_stable_insert:
  "sorted_wrt (\<lambda>a b. \<not> lt b a) xs \<Longrightarrow> sorted_wrt (\<lambda>a b. \<not> lt b a) (stable_insert lt x xs)"
proof (induction xs)
  case Nil
  then show ?case by simp
next
  case (Cons y ys)
  have "set (stable_insert lt x ys) = insert x (set ys)"
    by (metis mset_stable_insert set_mset_add_mset_insert set_mset_mset)
  with Cons show ?case by (auto dest: asym not_less_trans)
qed

lemma sorted_SliceStable: "sorted_wrt (\<lambda>a b. \<not> lt b a) (SliceStable lt xs)"
  unfolding SliceStable_def by (induction xs) (auto intro: sorted_stable_insert)

text \<open>The limit keeps the best elements: nothing dropped beats anything kept.\<close>

lemma limit_keeps_best:
  assumes "SliceStable lt xs = limit_to n (SliceStable lt xs) @ dropped"
    and "k \<in> set (limit_to n (SliceStable lt xs))" and "d \<in> set dropped"
  shows "\<not> lt d k"
  using sorted_SliceStable [of xs] assms by (metis sorted_wrt_append)

end

text \<open>Most closures compare a key lexicographically; then the order is total up to equal keys.\<close>

locale keyed_less =
  fixes lt :: "'a \<Rightarrow> 'a \<Rightarrow> bool" and key :: "'a \<Rightarrow> 'k::linorder"
  assumes lt_key: "lt a b \<longleftrightarrow> key a < key b"
begin

sublocale strict_weak_order lt
  by unfold_locales (auto simp: lt_key)

lemma stable_insert_key: "stable_insert lt x xs = insort_key key x xs"
  by (induction xs) (auto simp: lt_key)

lemma SliceStable_sort_key: "SliceStable lt xs = sort_key key xs"
  unfolding SliceStable_def sort_key_def by (induction xs) (auto simp: stable_insert_key)

lemma sorted_key: "sorted (map key (SliceStable lt xs))"
  by (simp add: SliceStable_sort_key)

lemma hd_least: "x \<in> set xs \<Longrightarrow> key (hd (SliceStable lt xs)) \<le> key x"
proof (cases "SliceStable lt xs")
  case Nil
  moreover assume "x \<in> set xs"
  ultimately show ?thesis using set_SliceStable [of lt xs] by simp
next
  case (Cons y ys)
  moreover assume "x \<in> set xs"
  ultimately have "x \<in> insert y (set ys)" using set_SliceStable [of lt xs] by simp
  with Cons sorted_key [of xs] show ?thesis by auto
qed

lemma stable: "filter (\<lambda>x. key x = k) (SliceStable lt xs) = filter (\<lambda>x. key x = k) xs"
  by (simp add: SliceStable_sort_key sort_key_stable)

text \<open>Keys that are pairwise different appear in strictly ascending order.\<close>

lemma strict_sorted: "distinct (map key xs) \<Longrightarrow> sorted_wrt (\<lambda>a b. key a < key b) (SliceStable lt xs)"
  using sorted_key [of xs] mset_map [of key]
  by (metis distinct_map mset_SliceStable mset_eq_imp_distinct_iff set_SliceStable
      sorted_wrt_map strict_sorted_iff distinct_SliceStable)

text \<open>With no two elements of equal key the result depends on the elements only, not their order.\<close>

lemma order_independent:
  assumes "mset xs = mset ys" and "inj_on key (set xs)"
  shows "SliceStable lt xs = SliceStable lt ys"
  unfolding SliceStable_sort_key
  by (rule sort_key_inj_key_eq) (use assms in auto)

end

text \<open>Closures that compare one key after another.\<close>

lemma key_order: "strict_weak_order (\<lambda>a b. key a < (key b :: 'k::linorder))"
  by unfold_locales auto

lemma lex_order:
  fixes key :: "'a \<Rightarrow> 'k::linorder"
  assumes "strict_weak_order lt"
  shows "strict_weak_order (\<lambda>a b. if key a \<noteq> key b then key a < key b else lt a b)"
proof -
  have a: "lt a b \<Longrightarrow> \<not> lt b a" and n: "lt a c \<Longrightarrow> lt a b \<or> lt b c" for a b c
    using assms by (blast dest: strict_weak_order.asym strict_weak_order.neg_trans)+
  show ?thesis by unfold_locales (use a n in \<open>auto split: if_splits\<close>)
qed

lemma strict_weak_order_if: "strict_weak_order lt \<Longrightarrow> strict_weak_order lt' \<Longrightarrow> strict_weak_order (if c then lt else lt')"
  by simp

subsection \<open>Keyset pagination\<close>

text \<open>
  The paged listings of the program sort by a pair of columns, one of them unique, and resume
  after the last row of the previous page: \<open>WHERE key follows cursor ORDER BY key LIMIT n\<close>.
  \<open>lt a b\<close> says that \<open>a\<close> is listed before \<open>b\<close>.
\<close>

definition page_after :: "('a \<Rightarrow> 'a \<Rightarrow> bool) \<Rightarrow> nat \<Rightarrow> 'a option \<Rightarrow> 'a list \<Rightarrow> 'a list" where
  "page_after lt n cursor rows = take n (SliceStable lt
     (filter (\<lambda>x. case cursor of None \<Rightarrow> True | Some c \<Rightarrow> lt c x) rows))"

text \<open>A client that asks for page after page until one comes back empty.\<close>

fun read_pages :: "('a \<Rightarrow> 'a \<Rightarrow> bool) \<Rightarrow> nat \<Rightarrow> 'a list \<Rightarrow> nat \<Rightarrow> 'a option \<Rightarrow> 'a list" where
  "read_pages lt n rows 0 cursor = []"
| "read_pages lt n rows (Suc fuel) cursor = (case page_after lt n cursor rows of [] \<Rightarrow> []
     | page \<Rightarrow> page @ read_pages lt n rows fuel (Some (last page)))"

locale keyset = strict_weak_order lt for lt :: "'a \<Rightarrow> 'a \<Rightarrow> bool" +
  fixes ident :: "'a \<Rightarrow> 'i"
  assumes total: "ident a \<noteq> ident b \<Longrightarrow> lt a b \<or> lt b a"
begin

lemma irrefl: "\<not> lt a a"
  using asym by blast

lemma lt_trans: "lt a b \<Longrightarrow> lt b c \<Longrightarrow> lt a c"
  using neg_trans asym by blast

lemma sorted_strict:
  assumes "distinct (map ident xs)"
  shows "sorted_wrt lt (SliceStable lt xs)"
proof -
  have "distinct (map ident (SliceStable lt xs))"
    using assms by (metis mset_SliceStable mset_eq_imp_distinct_iff mset_map)
  then have "sorted_wrt (\<lambda>a b. \<not> lt b a \<and> ident a \<noteq> ident b) (SliceStable lt xs)"
    using sorted_SliceStable [of xs]
    by (auto simp: sorted_wrt_iff_nth_less distinct_conv_nth)
  then show ?thesis
    by (rule sorted_wrt_mono_rel [rotated]) (use total in blast)
qed

lemma sorted_strict_unique:
  assumes "sorted_wrt lt xs" and "sorted_wrt lt ys" and "set xs = set ys"
  shows "xs = ys"
  using assms
proof (induction xs arbitrary: ys)
  case Nil
  then show ?case by simp
next
  case (Cons x xs)
  then obtain y zs where ys: "ys = y # zs" by (cases ys) auto
  have "x = y"
    using Cons.prems ys by (metis asym insert_iff list.simps(15) sorted_wrt.simps(2))
  moreover have "set xs = set zs"
    using Cons.prems ys \<open>x = y\<close> irrefl by (metis insert_ident list.simps(15) sorted_wrt.simps(2))
  ultimately show ?case
    using Cons ys by simp
qed

text \<open>What the sort returns does not depend on the order the rows are stored in.\<close>

lemma row_order_irrelevant:
  assumes "distinct (map ident xs)" and "mset xs = mset ys"
  shows "SliceStable lt xs = SliceStable lt ys"
proof (rule sorted_strict_unique)
  show "sorted_wrt lt (SliceStable lt xs)" using assms(1) by (rule sorted_strict)
  have "distinct (map ident ys)" using assms by (metis mset_eq_imp_distinct_iff mset_map)
  then show "sorted_wrt lt (SliceStable lt ys)" by (rule sorted_strict)
  show "set (SliceStable lt xs) = set (SliceStable lt ys)"
    using assms by (metis mset_SliceStable set_mset_mset)
qed

lemma filter_after:
  assumes "sorted_wrt lt (xs @ c # ys)"
  shows "filter (lt c) (xs @ c # ys) = ys"
  using assms asym irrefl by (auto simp: sorted_wrt_append filter_empty_conv intro: filter_True)

lemma filtered_sort:
  assumes "distinct (map ident rows)"
  shows "SliceStable lt (filter P rows) = filter P (SliceStable lt rows)"
proof (rule sorted_strict_unique)
  have "distinct (map ident (filter P rows))" using assms by (simp add: distinct_map_filter)
  then show "sorted_wrt lt (SliceStable lt (filter P rows))" by (rule sorted_strict)
  show "sorted_wrt lt (filter P (SliceStable lt rows))"
    using sorted_strict [OF assms] by (rule sorted_wrt_filter)
qed simp

lemma page_after_cursor:
  assumes "distinct (map ident rows)" and "SliceStable lt rows = before @ c # rest"
  shows "page_after lt n (Some c) rows = take n rest"
  unfolding page_after_def filtered_sort [OF assms(1)]
  using assms filter_after sorted_strict by fastforce

text \<open>
  Reading page after page gives every row once, in order: nothing is skipped or repeated at the
  page boundaries.
\<close>

lemma read_pages_rest:
  assumes "distinct (map ident rows)" and "n > 0" and "length rest \<le> fuel"
    and "SliceStable lt rows = before @ c # rest"
  shows "read_pages lt n rows fuel (Some c) = rest"
  using assms(3,4)
proof (induction fuel arbitrary: before c rest)
  case 0
  then show ?case by simp
next
  case (Suc fuel)
  let ?page = "take n rest"
  have page: "page_after lt n (Some c) rows = ?page"
    using assms(1) Suc.prems(2) by (rule page_after_cursor)
  show ?case
  proof (cases rest)
    case Nil
    with page show ?thesis by simp
  next
    case (Cons r rs)
    with \<open>n > 0\<close> have ne: "?page \<noteq> []" by simp
    have "SliceStable lt rows = (before @ c # butlast ?page) @ last ?page # drop n rest"
      using Suc.prems(2) ne by (metis append.assoc append_Cons append_butlast_last_id append_take_drop_id append_Nil)
    moreover have "length (drop n rest) \<le> fuel"
      using Suc.prems(1) \<open>n > 0\<close> Cons by simp
    ultimately have "read_pages lt n rows fuel (Some (last ?page)) = drop n rest"
      using Suc.IH by blast
    moreover have "read_pages lt n rows (Suc fuel) (Some c) =
        ?page @ read_pages lt n rows fuel (Some (last ?page))"
      using page ne by (simp split: list.split)
    ultimately show ?thesis by simp
  qed
qed

lemma read_pages_all:
  assumes "distinct (map ident rows)" and "n > 0" and "length rows < fuel"
  shows "read_pages lt n rows fuel None = SliceStable lt rows"
proof -
  let ?all = "SliceStable lt rows" and ?page = "take n (SliceStable lt rows)"
  obtain f where f: "fuel = Suc f" using assms(3) by (cases fuel) auto
  have page: "page_after lt n None rows = ?page" by (simp add: page_after_def)
  show ?thesis
  proof (cases ?all)
    case Nil
    then show ?thesis using f page by simp
  next
    case (Cons r rs)
    with \<open>n > 0\<close> have ne: "?page \<noteq> []" by simp
    have "?all = butlast ?page @ last ?page # drop n ?all"
      using ne by (metis append.assoc append_Cons append_Nil append_butlast_last_id append_take_drop_id)
    moreover have "length (drop n ?all) \<le> f"
      using assms f by simp
    ultimately have "read_pages lt n rows f (Some (last ?page)) = drop n ?all"
      using read_pages_rest assms by blast
    moreover have "read_pages lt n rows fuel None = ?page @ read_pages lt n rows f (Some (last ?page))"
      using page ne f by (simp split: list.split)
    ultimately show ?thesis by simp
  qed
qed

end

subsection \<open>SQL tables\<close>

text \<open>
  A table is the list of its rows; \<open>UPDATE ... SET f WHERE p\<close>, the number of affected rows, and a
  nullable text column read as Go's \<open>sql.NullString.String\<close>.
\<close>

definition update_where :: "('r \<Rightarrow> bool) \<Rightarrow> ('r \<Rightarrow> 'r) \<Rightarrow> 'r list \<Rightarrow> 'r list" where
  "update_where p f tab = map (\<lambda>r. if p r then f r else r) tab"

definition affected :: "('r \<Rightarrow> bool) \<Rightarrow> 'r list \<Rightarrow> nat" where
  "affected p tab = length (filter p tab)"

definition null_string :: "string option \<Rightarrow> string" where
  "null_string v = (case v of None \<Rightarrow> '''' | Some s \<Rightarrow> s)"

lemma set_update_where: "set (update_where p f tab) = (\<lambda>r. if p r then f r else r) ` set tab"
  by (simp add: update_where_def)

lemma length_update_where [simp]: "length (update_where p f tab) = length tab"
  by (simp add: update_where_def)

lemma affected_0: "affected p tab = 0 \<longleftrightarrow> (\<forall>r \<in> set tab. \<not> p r)"
  by (simp add: affected_def filter_empty_conv)

lemma update_where_none: "\<forall>r \<in> set tab. \<not> p r \<Longrightarrow> update_where p f tab = tab"
  by (simp add: update_where_def map_idI)

lemma affected_by_key:
  assumes "distinct (map ident tab)" and "r \<in> set tab" and "p r" and "\<And>r'. p r' \<Longrightarrow> ident r' = ident r"
  shows "affected p tab = 1"
proof -
  have "set (filter p tab) = {r}"
    using assms by (auto simp: distinct_map dest: inj_onD)
  moreover have "distinct (filter p tab)"
    using assms(1) by (simp add: distinct_map)
  ultimately show ?thesis
    unfolding affected_def using distinct_card by fastforce
qed

text \<open>
  Statements that keep the primary key and the row invariant of the rows they touch: the table
  keeps its keys and its invariant.
\<close>

definition table_inv :: "('r \<Rightarrow> 'i) \<Rightarrow> ('r \<Rightarrow> bool) \<Rightarrow> 'r list \<Rightarrow> bool" where
  "table_inv ident ok tab \<longleftrightarrow> distinct (map ident tab) \<and> (\<forall>r \<in> set tab. ok r)"

lemma table_inv_filter: "table_inv ident ok tab \<Longrightarrow> table_inv ident ok (filter q tab)"
  by (simp add: table_inv_def distinct_map_filter)

lemma table_inv_unique:
  "table_inv ident ok tab \<Longrightarrow> r \<in> set tab \<Longrightarrow> r' \<in> set tab \<Longrightarrow> ident r = ident r' \<Longrightarrow> r = r'"
  unfolding table_inv_def by (metis distinct_map inj_onD)

lemma table_inv_append:
  "table_inv ident ok tab \<Longrightarrow> ok r \<Longrightarrow> ident r \<notin> ident ` set tab \<Longrightarrow> table_inv ident ok (tab @ [r])"
  by (auto simp: table_inv_def)

locale row_update =
  fixes p :: "'r \<Rightarrow> bool" and f :: "'r \<Rightarrow> 'r" and ident :: "'r \<Rightarrow> 'i" and ok :: "'r \<Rightarrow> bool"
  assumes keeps_ident: "p r \<Longrightarrow> ident (f r) = ident r"
    and keeps_ok: "p r \<Longrightarrow> ok r \<Longrightarrow> ok (f r)"
begin

lemma map_ident [simp]: "map ident (update_where p f tab) = map ident tab"
  by (simp add: update_where_def keeps_ident)

lemma keeps_table: "table_inv ident ok tab \<Longrightarrow> table_inv ident ok (update_where p f tab)"
  by (auto simp: table_inv_def set_update_where keeps_ok)

lemma row_cases:
  assumes "r' \<in> set (update_where p f tab)"
  obtains r where "r \<in> set tab" "ident r = ident r'" "r' = (if p r then f r else r)"
  using assms by (force simp: set_update_where keeps_ident)

lemma row_image: "r \<in> set tab \<Longrightarrow> (if p r then f r else r) \<in> set (update_where p f tab)"
  by (auto simp: set_update_where)

end

end
