(* ===== verification/Config.thy ===== *)
theory Config
  imports Prelude
begin

text \<open>
  \<open>internal/config\<close>: the configuration structs, the defaults, normalisation (with the environment
  overrides), validation, the source and protocol queries, and the runtime patch.

  The environment is an argument \<open>env\<close>. URL, address and public-suffix parsing are the fields of a
  \<open>config_libs\<close> record, an argument of the validators: \<open>url_parse\<close> for \<open>net/url\<close>, \<open>prefix_ok\<close> and
  \<open>addr_ok\<close> for \<open>net/netip\<close>, \<open>public_suffix\<close> for \<open>golang.org/x/net/publicsuffix\<close>. A validator
  returns the error, or \<open>None\<close> for Go's nil.
\<close>

subsection \<open>The structs\<close>

record DialConfig =
  dl_Enabled :: bool
  dl_Bin :: string
  dl_MihomoBin :: string
  dl_Engine :: string
  dl_Concurrency :: int
  dl_TimeoutSec :: int
  dl_TestURL :: string
  dl_VerifiedTTLHours :: int
  dl_DownloadBytes :: int
  dl_SamplePercent :: float64
  dl_MaxNodes :: int
  dl_BatchSize :: int
  dl_AfterQuality :: bool
  dl_AfterQualityMax :: int

record SecurityConfig =
  sec_AllowQueryToken :: bool
  sec_SubRPS :: float64
  sec_SubBurst :: int
  sec_APIRPS :: float64
  sec_APIBurst :: int
  sec_LoginRPS :: float64
  sec_LoginBurst :: int

record ServerConfig =
  srv_ReadHeaderTimeoutSec :: int
  srv_ReadTimeoutSec :: int
  srv_WriteTimeoutSec :: int
  srv_IdleTimeoutSec :: int
  srv_ShutdownTimeoutSec :: int
  srv_MaxHeaderBytes :: int
  srv_TrustedProxies :: "string list"
  srv_AllowedOrigins :: "string list"
  srv_EnableMetrics :: bool
  srv_EnablePprof :: bool

record SQLiteConfig =
  sql_Enabled :: bool
  sql_Path :: string

record GeoConfig =
  geo_Enabled :: bool
  geo_DBPath :: string
  geo_ASNDBPath :: string
  geo_DownloadURL :: string
  geo_ASNDownloadURL :: string
  geo_AutoDownload :: bool
  geo_AnnotateAfterQuality :: bool
  geo_RenameWithFlag :: bool

record AppConfig =
  app_Concurrency :: int
  app_FetchTimeoutSec :: int
  app_TestTimeoutSec :: int
  app_UserAgent :: string

record Source =
  src_Name :: string
  src_Type :: string
  src_URL :: string
  src_Enabled :: bool
  src_Priority :: int
  src_MaxBytes :: int
  src_Jurisdiction :: string

record FilterConfig =
  flt_MaxLatencyMS :: int
  flt_MinSuccess :: bool
  flt_DropInvalid :: bool
  flt_PreferTLS :: bool
  flt_MaxNodes :: int
  flt_SortBy :: string
  flt_MinScore :: float64
  flt_PruneAfterQuality :: bool
  flt_MaxStoreNodes :: int
  flt_CollapseSameIPPorts :: bool

record ExportConfig =
  exp_Dir :: string
  exp_Formats :: "string list"
  exp_FilenamePrefix :: string
  exp_KeepRuns :: int

record ScheduleConfig =
  sch_Enabled :: bool
  sch_IntervalMin :: int
  sch_Job :: string
  sch_RunOnStart :: bool
  sch_SkipAI :: bool
  sch_MaxTest :: int
  sch_Rounds :: int
  sch_JitterSec :: int

record PublishConfig =
  pub_Enabled :: bool
  pub_Token :: string
  pub_PathPrefix :: string
  pub_MinScore :: float64
  pub_MaxNodes :: int
  pub_MaxNodeAgeHours :: int
  pub_AliveOnly :: bool
  pub_Formats :: "string list"
  pub_CacheSec :: int
  pub_PublicURL :: string
  pub_PreRender :: bool
  pub_MaxCountries :: int

record LoggingConfig =
  log_Level :: string

record DatabaseConfig =
  dbc_Enabled :: bool
  dbc_Driver :: string
  dbc_DSN :: string
  dbc_MaxOpenConns :: int
  dbc_MaxIdleConns :: int
  dbc_JobRetentionDays :: int
  dbc_AuditRetentionDays :: int
  dbc_MetricRetentionDays :: int

record RedisConfig =
  red_Enabled :: bool
  red_URL :: string
  red_Prefix :: string
  red_CacheTTLSec :: int
  red_LockTTLSec :: int

record ObjectStoreConfig =
  obj_Enabled :: bool
  obj_Endpoint :: string
  obj_AccessKey :: string
  obj_SecretKey :: string
  obj_SessionToken :: string
  obj_Bucket :: string
  obj_Prefix :: string
  obj_Region :: string
  obj_AutoCreateBucket :: bool

record QueueConfig =
  que_Enabled :: bool
  que_EmbeddedWorkers :: int
  que_MaxPending :: int
  que_LeaseSec :: int
  que_PollMS :: int
  que_MaxAttempts :: int
  que_RetryBaseSec :: int

record AuthConfig =
  aut_LocalEnabled :: bool
  aut_BootstrapUser :: string
  aut_BootstrapTenant :: string
  aut_BootstrapHash :: string
  aut_SessionSecret :: string
  aut_SessionTTLHours :: int
  aut_SessionCookieName :: string
  aut_SessionCookieDomain :: string
  aut_AdminHost :: string
  aut_PublicHost :: string
  aut_AdminCIDRs :: "string list"

record SubStoreConfig =
  ss_Enabled :: bool
  ss_PublicURL :: string
  ss_BackendPath :: string
  ss_Version :: string

record GovernanceConfig =
  gov_DisabledSourceCountries :: "string list"
  gov_DisableAfterFailures :: int
  gov_CooldownHours :: int
  gov_HQDropPercent :: float64
  gov_CountrySharePercent :: float64
  gov_JobFailureThreshold :: int
  gov_AlertWebhookURL :: string
  gov_AlertWebhookSecret :: string
  gov_TermsURL :: string

record QualityV2Config =
  qv_Latency :: float64
  qv_Success :: float64
  qv_Stability :: float64
  qv_TLS :: float64
  qv_HTTP :: float64
  qv_Throughput :: float64

record ObservabilityConfig =
  obs_OTLPEndpoint :: string
  obs_OTLPInsecure :: bool
  obs_ServiceName :: string
  obs_SampleRatio :: float64
  obs_ExportTimeoutSec :: int
  obs_ResourceAttrs :: "(string, string) gmap"

record PoolConfig =
  pool_Key :: string
  pool_Name :: string
  pool_MinScore :: float64
  pool_MaxLatencyMS :: int
  pool_Countries :: "string list"
  pool_Protocols :: "string list"
  pool_RequireAI :: bool
  pool_RequireVerified :: bool
  pool_RefreshSec :: int
  pool_MaxNodes :: int

record config =
  App :: AppConfig
  Sources :: "Source list"
  Protocols :: "string list"
  Filter :: FilterConfig
  Export :: ExportConfig
  Schedule :: ScheduleConfig
  Publish :: PublishConfig
  Geo :: GeoConfig
  Dial :: DialConfig
  Security :: SecurityConfig
  Server :: ServerConfig
  SQLite :: SQLiteConfig
  Database :: DatabaseConfig
  Redis :: RedisConfig
  ObjectStore :: ObjectStoreConfig
  Queue :: QueueConfig
  Auth :: AuthConfig
  SubStore :: SubStoreConfig
  Governance :: GovernanceConfig
  QualityV2 :: QualityV2Config
  Observability :: ObservabilityConfig
  Pools :: "PoolConfig list"
  Logging :: LoggingConfig

subsection \<open>Defaults\<close>

definition default_user_agent :: string where
  "default_user_agent = ''Mozilla/5.0 (Windows NT 10.0; Win64; x64) AppleWebKit/537.36 Chrome/122.0.0.0 Safari/537.36''"

definition Default :: config where
  "Default = \<lparr>
     App = \<lparr>app_Concurrency = 64, app_FetchTimeoutSec = 20, app_TestTimeoutSec = 6,
       app_UserAgent = default_user_agent\<rparr>,
     Sources = [],
     Protocols = [''vmess'', ''vless'', ''trojan'', ''ss'', ''ssr'', ''hysteria2'', ''hy2'', ''tuic''],
     Filter = \<lparr>flt_MaxLatencyMS = 2500, flt_MinSuccess = True, flt_DropInvalid = True,
       flt_PreferTLS = False, flt_MaxNodes = 500, flt_SortBy = ''score'', flt_MinScore = 70,
       flt_PruneAfterQuality = True, flt_MaxStoreNodes = 8000, flt_CollapseSameIPPorts = False\<rparr>,
     Export = \<lparr>exp_Dir = ''output'', exp_Formats = [''raw'', ''base64'', ''clash'', ''json''],
       exp_FilenamePrefix = ''nodes'', exp_KeepRuns = 48\<rparr>,
     Schedule = \<lparr>sch_Enabled = False, sch_IntervalMin = 180, sch_Job = ''full'', sch_RunOnStart = False,
       sch_SkipAI = True, sch_MaxTest = 1200, sch_Rounds = 2, sch_JitterSec = 30\<rparr>,
     Publish = \<lparr>pub_Enabled = True, pub_Token = '''', pub_PathPrefix = ''/sub'', pub_MinScore = 0,
       pub_MaxNodes = 0, pub_MaxNodeAgeHours = 24, pub_AliveOnly = True,
       pub_Formats = [''raw'', ''base64'', ''clash''], pub_CacheSec = 120, pub_PublicURL = '''',
       pub_PreRender = True, pub_MaxCountries = 30\<rparr>,
     Geo = \<lparr>geo_Enabled = True, geo_DBPath = ''data/GeoLite2-Country.mmdb'',
       geo_ASNDBPath = ''data/GeoLite2-ASN.mmdb'', geo_DownloadURL = '''', geo_ASNDownloadURL = '''',
       geo_AutoDownload = True, geo_AnnotateAfterQuality = True, geo_RenameWithFlag = True\<rparr>,
     Dial = \<lparr>dl_Enabled = True, dl_Bin = '''', dl_MihomoBin = '''', dl_Engine = ''both'',
       dl_Concurrency = 4, dl_TimeoutSec = 18,
       dl_TestURL = ''https://www.cloudflare.com/cdn-cgi/trace'', dl_VerifiedTTLHours = 6,
       dl_DownloadBytes = 262144, dl_SamplePercent = 0, dl_MaxNodes = 0, dl_BatchSize = 200,
       dl_AfterQuality = False, dl_AfterQualityMax = 0\<rparr>,
     Security = \<lparr>sec_AllowQueryToken = False, sec_SubRPS = 20, sec_SubBurst = 40, sec_APIRPS = 30,
       sec_APIBurst = 60, sec_LoginRPS = 1 / 5, sec_LoginBurst = 5\<rparr>,
     Server = \<lparr>srv_ReadHeaderTimeoutSec = 10, srv_ReadTimeoutSec = 30, srv_WriteTimeoutSec = 60,
       srv_IdleTimeoutSec = 120, srv_ShutdownTimeoutSec = 30, srv_MaxHeaderBytes = 1048576,
       srv_TrustedProxies = [''127.0.0.1/32'', ''::1/128''], srv_AllowedOrigins = [],
       srv_EnableMetrics = True, srv_EnablePprof = False\<rparr>,
     SQLite = \<lparr>sql_Enabled = True, sql_Path = ''data/nodeharvest.db''\<rparr>,
     Database = \<lparr>dbc_Enabled = True, dbc_Driver = ''sqlite'', dbc_DSN = ''data/nodeharvest.db'',
       dbc_MaxOpenConns = 10, dbc_MaxIdleConns = 5, dbc_JobRetentionDays = 30,
       dbc_AuditRetentionDays = 90, dbc_MetricRetentionDays = 30\<rparr>,
     Redis = \<lparr>red_Enabled = False, red_URL = '''', red_Prefix = ''nodeharvest'', red_CacheTTLSec = 300,
       red_LockTTLSec = 120\<rparr>,
     ObjectStore = \<lparr>obj_Enabled = False, obj_Endpoint = '''', obj_AccessKey = '''', obj_SecretKey = '''',
       obj_SessionToken = '''', obj_Bucket = ''nodeharvest'', obj_Prefix = ''artifacts'',
       obj_Region = '''', obj_AutoCreateBucket = False\<rparr>,
     Queue = \<lparr>que_Enabled = False, que_EmbeddedWorkers = 0, que_MaxPending = 1000, que_LeaseSec = 120,
       que_PollMS = 500, que_MaxAttempts = 3, que_RetryBaseSec = 5\<rparr>,
     Auth = \<lparr>aut_LocalEnabled = False, aut_BootstrapUser = '''', aut_BootstrapTenant = ''default'',
       aut_BootstrapHash = '''', aut_SessionSecret = '''', aut_SessionTTLHours = 12,
       aut_SessionCookieName = ''nh_session'', aut_SessionCookieDomain = '''', aut_AdminHost = '''',
       aut_PublicHost = '''', aut_AdminCIDRs = []\<rparr>,
     SubStore = \<lparr>ss_Enabled = False, ss_PublicURL = '''', ss_BackendPath = '''', ss_Version = ''2.36.22''\<rparr>,
     Governance = \<lparr>gov_DisabledSourceCountries = [], gov_DisableAfterFailures = 5,
       gov_CooldownHours = 6, gov_HQDropPercent = 40, gov_CountrySharePercent = 80,
       gov_JobFailureThreshold = 2, gov_AlertWebhookURL = '''', gov_AlertWebhookSecret = '''',
       gov_TermsURL = ''''\<rparr>,
     QualityV2 = \<lparr>qv_Latency = 25 / 100, qv_Success = 25 / 100, qv_Stability = 15 / 100,
       qv_TLS = 10 / 100, qv_HTTP = 15 / 100, qv_Throughput = 10 / 100\<rparr>,
     Observability = \<lparr>obs_OTLPEndpoint = '''', obs_OTLPInsecure = False,
       obs_ServiceName = ''nodeharvest'', obs_SampleRatio = 1 / 10, obs_ExportTimeoutSec = 5,
       obs_ResourceAttrs = []\<rparr>,
     Pools = [
       \<lparr>pool_Key = ''global-hq'', pool_Name = ''Global HQ'', pool_MinScore = 70, pool_MaxLatencyMS = 0,
         pool_Countries = [], pool_Protocols = [], pool_RequireAI = False,
         pool_RequireVerified = False, pool_RefreshSec = 120, pool_MaxNodes = 500\<rparr>,
       \<lparr>pool_Key = ''verified'', pool_Name = ''Verified'', pool_MinScore = 60, pool_MaxLatencyMS = 0,
         pool_Countries = [], pool_Protocols = [], pool_RequireAI = False,
         pool_RequireVerified = True, pool_RefreshSec = 300, pool_MaxNodes = 300\<rparr>,
       \<lparr>pool_Key = ''streaming'', pool_Name = ''Streaming'', pool_MinScore = 70, pool_MaxLatencyMS = 800,
         pool_Countries = [], pool_Protocols = [], pool_RequireAI = False,
         pool_RequireVerified = False, pool_RefreshSec = 180, pool_MaxNodes = 300\<rparr>,
       \<lparr>pool_Key = ''ai-friendly'', pool_Name = ''AI Friendly'', pool_MinScore = 60, pool_MaxLatencyMS = 0,
         pool_Countries = [], pool_Protocols = [], pool_RequireAI = True,
         pool_RequireVerified = False, pool_RefreshSec = 300, pool_MaxNodes = 300\<rparr>,
       \<lparr>pool_Key = ''low-latency'', pool_Name = ''Low Latency'', pool_MinScore = 50, pool_MaxLatencyMS = 300,
         pool_Countries = [], pool_Protocols = [], pool_RequireAI = False,
         pool_RequireVerified = False, pool_RefreshSec = 120, pool_MaxNodes = 200\<rparr>],
     Logging = \<lparr>log_Level = ''info''\<rparr>\<rparr>"

subsection \<open>Normalisation\<close>

definition pos_or :: "int \<Rightarrow> int \<Rightarrow> int" where
  "pos_or v d = (if v \<le> 0 then d else v)"

definition str_or :: "string \<Rightarrow> string \<Rightarrow> string" where
  "str_or v d = (if v = '''' then d else v)"

text \<open>\<open>if v := strings.TrimSpace(os.Getenv(key)); v != ""\<close> overrides the current value.\<close>

definition env_or :: "(string \<Rightarrow> string) \<Rightarrow> string \<Rightarrow> string \<Rightarrow> string" where
  "env_or env key cur = (let v = TrimSpace (env key) in if v \<noteq> '''' then v else cur)"

definition envBool :: "(string \<Rightarrow> string) \<Rightarrow> string \<Rightarrow> bool \<times> bool" where
  "envBool env key = (let v = ToLower (TrimSpace (env key)) in
     if v \<in> {''1'', ''true'', ''on'', ''yes'', ''enable'', ''enabled''} then (True, True)
     else if v \<in> {''0'', ''false'', ''off'', ''no'', ''disable'', ''disabled''} then (False, True)
     else (False, False))"

definition env_flag :: "(string \<Rightarrow> string) \<Rightarrow> string \<Rightarrow> bool \<Rightarrow> bool" where
  "env_flag env key cur = (case envBool env key of (v, ok) \<Rightarrow> if ok then v else cur)"

definition normalize_database :: "(string \<Rightarrow> string) \<Rightarrow> string \<Rightarrow> DatabaseConfig \<Rightarrow> DatabaseConfig" where
  "normalize_database env sqlitePath d =
     (let d1 = d\<lparr>dbc_Driver := ToLower (TrimSpace (str_or (dbc_Driver d) ''sqlite''))\<rparr>;
          d2 = (if dbc_Driver d1 = ''sqlite'' \<and> dbc_DSN d1 = '''' then d1\<lparr>dbc_DSN := sqlitePath\<rparr> else d1);
          d3 = d2\<lparr>dbc_MaxOpenConns := pos_or (dbc_MaxOpenConns d2) 10,
                 dbc_MaxIdleConns := (if dbc_MaxIdleConns d2 < 0 then 0 else dbc_MaxIdleConns d2),
                 dbc_JobRetentionDays := pos_or (dbc_JobRetentionDays d2) 30,
                 dbc_AuditRetentionDays := pos_or (dbc_AuditRetentionDays d2) 90,
                 dbc_MetricRetentionDays := pos_or (dbc_MetricRetentionDays d2) 30\<rparr>;
          v = TrimSpace (env ''NODE_HARVEST_DATABASE_URL'')
      in if v \<noteq> '''' then d3\<lparr>dbc_Driver := ''postgres'', dbc_DSN := v\<rparr> else d3)"

definition normalize_redis :: "(string \<Rightarrow> string) \<Rightarrow> RedisConfig \<Rightarrow> RedisConfig" where
  "normalize_redis env r =
     (let r1 = r\<lparr>red_Prefix := Trim (str_or (red_Prefix r) ''nodeharvest'') '': '',
                 red_CacheTTLSec := pos_or (red_CacheTTLSec r) 300,
                 red_LockTTLSec := pos_or (red_LockTTLSec r) 120\<rparr>;
          v = TrimSpace (env ''NODE_HARVEST_REDIS_URL'')
      in if v \<noteq> '''' then r1\<lparr>red_Enabled := True, red_URL := v\<rparr> else r1)"

definition normalize_object_store :: "(string \<Rightarrow> string) \<Rightarrow> ObjectStoreConfig \<Rightarrow> ObjectStoreConfig" where
  "normalize_object_store env ob =
     (let o1 = ob\<lparr>obj_Prefix := Trim (obj_Prefix ob) ''/ '', obj_Bucket := str_or (obj_Bucket ob) ''nodeharvest''\<rparr>;
          e = TrimSpace (env ''NODE_HARVEST_OBJECT_STORE_ENDPOINT'');
          o2 = (if e \<noteq> '''' then o1\<lparr>obj_Enabled := True, obj_Endpoint := e\<rparr> else o1);
          o3 = o2\<lparr>obj_AccessKey := env_or env ''NODE_HARVEST_OBJECT_STORE_ACCESS_KEY'' (obj_AccessKey o2),
                 obj_SecretKey := env_or env ''NODE_HARVEST_OBJECT_STORE_SECRET_KEY'' (obj_SecretKey o2),
                 obj_SessionToken := env_or env ''NODE_HARVEST_OBJECT_STORE_SESSION_TOKEN'' (obj_SessionToken o2),
                 obj_Bucket := env_or env ''NODE_HARVEST_OBJECT_STORE_BUCKET'' (obj_Bucket o2)\<rparr>;
          a = ToLower (TrimSpace (env ''NODE_HARVEST_OBJECT_STORE_AUTO_CREATE''))
      in if a \<in> {''1'', ''true'', ''on'', ''yes''} then o3\<lparr>obj_AutoCreateBucket := True\<rparr>
         else if a \<in> {''0'', ''false'', ''off'', ''no''} then o3\<lparr>obj_AutoCreateBucket := False\<rparr>
         else o3)"

text \<open>The libraries validation calls; \<open>scan_d\<close> is \<open>fmt.Sscanf\<close> with \<open>%d\<close>.\<close>

record url =
  u_Scheme :: string
  u_Host :: string
  u_Hostname :: string
  u_HasUser :: bool
  u_Path :: string
  u_RawQuery :: string
  u_Fragment :: string

record config_libs =
  url_parse :: "string \<Rightarrow> url option"
  prefix_ok :: "string \<Rightarrow> bool"
  addr_ok :: "string \<Rightarrow> bool"
  public_suffix :: "string \<Rightarrow> string"
  scan_d :: "string \<Rightarrow> int option"

definition normalize_queue :: "config_libs \<Rightarrow> (string \<Rightarrow> string) \<Rightarrow> QueueConfig \<Rightarrow> QueueConfig" where
  "normalize_queue libs env q =
     (let q1 = q\<lparr>que_MaxPending := pos_or (que_MaxPending q) 1000,
                 que_LeaseSec := pos_or (que_LeaseSec q) 120,
                 que_PollMS := pos_or (que_PollMS q) 500,
                 que_MaxAttempts := pos_or (que_MaxAttempts q) 3,
                 que_RetryBaseSec := pos_or (que_RetryBaseSec q) 5\<rparr>;
          v = TrimSpace (env ''NODE_HARVEST_EMBEDDED_WORKERS'')
      in if v \<noteq> '''' then
           (case scan_d libs v of None \<Rightarrow> q1 | Some workers \<Rightarrow> q1\<lparr>que_EmbeddedWorkers := workers\<rparr>)
         else q1)"

definition cookie_domain :: "string \<Rightarrow> string" where
  "cookie_domain d = TrimPrefix (ToLower (TrimSpace d)) ''.''"

definition normalize_auth :: "(string \<Rightarrow> string) \<Rightarrow> AuthConfig \<Rightarrow> AuthConfig" where
  "normalize_auth env a =
     a\<lparr>aut_SessionTTLHours := pos_or (aut_SessionTTLHours a) 12,
       aut_BootstrapTenant := str_or (aut_BootstrapTenant a) ''default'',
       aut_SessionCookieName := str_or (aut_SessionCookieName a) ''nh_session'',
       aut_SessionSecret := env_or env ''NODE_HARVEST_SESSION_SECRET'' (aut_SessionSecret a),
       aut_SessionCookieDomain := cookie_domain
         (env_or env ''NODE_HARVEST_SESSION_COOKIE_DOMAIN'' (cookie_domain (aut_SessionCookieDomain a))),
       aut_AdminHost := env_or env ''NODE_HARVEST_ADMIN_HOST'' (aut_AdminHost a),
       aut_PublicHost := env_or env ''NODE_HARVEST_PUBLIC_HOST'' (aut_PublicHost a),
       aut_BootstrapHash := env_or env ''NODE_HARVEST_BOOTSTRAP_PASSWORD_HASH'' (aut_BootstrapHash a),
       aut_LocalEnabled := env_flag env ''NODE_HARVEST_LOCAL_AUTH'' (aut_LocalEnabled a)\<rparr>"

definition normalize_sub_store :: "(string \<Rightarrow> string) \<Rightarrow> SubStoreConfig \<Rightarrow> SubStoreConfig" where
  "normalize_sub_store env s =
     (let s1 = s\<lparr>ss_Version := env_or env ''NODE_HARVEST_SUB_STORE_VERSION'' (str_or (ss_Version s) ''2.36.22''),
                 ss_Enabled := env_flag env ''NODE_HARVEST_SUB_STORE_ENABLED'' (ss_Enabled s),
                 ss_PublicURL := env_or env ''NODE_HARVEST_SUB_STORE_PUBLIC_URL'' (ss_PublicURL s),
                 ss_BackendPath := env_or env ''NODE_HARVEST_SUB_STORE_BACKEND_PATH'' (ss_BackendPath s)\<rparr>;
          path = TrimSpace (ss_BackendPath s1)
      in s1\<lparr>ss_PublicURL := TrimRight (TrimSpace (ss_PublicURL s1)) ''/'',
            ss_BackendPath := (if path \<noteq> '''' \<and> \<not> HasPrefix path ''/'' then ''/'' @ path else path),
            ss_Version := TrimSpace (ss_Version s1)\<rparr>)"

definition normalize_governance :: "(string \<Rightarrow> string) \<Rightarrow> GovernanceConfig \<Rightarrow> GovernanceConfig" where
  "normalize_governance env g =
     g\<lparr>gov_DisableAfterFailures := pos_or (gov_DisableAfterFailures g) 5,
       gov_CooldownHours := pos_or (gov_CooldownHours g) 6,
       gov_HQDropPercent := (if gov_HQDropPercent g \<le> 0 then 40 else gov_HQDropPercent g),
       gov_CountrySharePercent := (if gov_CountrySharePercent g \<le> 0 then 80 else gov_CountrySharePercent g),
       gov_JobFailureThreshold := pos_or (gov_JobFailureThreshold g) 2,
       gov_AlertWebhookSecret := env_or env ''NODE_HARVEST_ALERT_WEBHOOK_SECRET'' (gov_AlertWebhookSecret g)\<rparr>"

definition normalize_observability :: "(string \<Rightarrow> string) \<Rightarrow> ObservabilityConfig \<Rightarrow> ObservabilityConfig" where
  "normalize_observability env ob =
     ob\<lparr>obs_ServiceName := str_or (obs_ServiceName ob) ''nodeharvest'',
       obs_SampleRatio := (if obs_SampleRatio ob < 0 \<or> obs_SampleRatio ob > 1 then 1 / 10 else obs_SampleRatio ob),
       obs_ExportTimeoutSec := pos_or (obs_ExportTimeoutSec ob) 5,
       obs_OTLPEndpoint := env_or env ''OTEL_EXPORTER_OTLP_ENDPOINT'' (obs_OTLPEndpoint ob)\<rparr>"

definition is_list_sep :: "char \<Rightarrow> bool" where
  "is_list_sep c \<longleftrightarrow> c = CHR '','' \<or> c = CHR '';'' \<or> c = CHR '' '' \<or> c = CHR 0x09 \<or> c = CHR 0x0D \<or> c = CHR 0x0A"

definition normalizeEnterprise :: "config_libs \<Rightarrow> (string \<Rightarrow> string) \<Rightarrow> config \<Rightarrow> config" where
  "normalizeEnterprise libs env c =
     (let proxies = TrimSpace (env ''NODE_HARVEST_TRUSTED_PROXIES'')
      in c\<lparr>Database := normalize_database env (sql_Path (SQLite c)) (Database c),
           Redis := normalize_redis env (Redis c),
           ObjectStore := normalize_object_store env (ObjectStore c),
           Queue := normalize_queue libs env (Queue c),
           Auth := normalize_auth env (Auth c),
           SubStore := normalize_sub_store env (SubStore c),
           Governance := normalize_governance env (Governance c),
           Observability := normalize_observability env (Observability c),
           Server := (if proxies \<noteq> ''''
             then (Server c)\<lparr>srv_TrustedProxies := FieldsFunc proxies is_list_sep\<rparr> else Server c)\<rparr>)"

definition normalize_app :: "AppConfig \<Rightarrow> AppConfig" where
  "normalize_app a = a\<lparr>app_Concurrency := pos_or (app_Concurrency a) 64,
     app_FetchTimeoutSec := pos_or (app_FetchTimeoutSec a) 20,
     app_TestTimeoutSec := pos_or (app_TestTimeoutSec a) 6,
     app_UserAgent := str_or (app_UserAgent a) (app_UserAgent (App Default))\<rparr>"

definition normalize_export :: "ExportConfig \<Rightarrow> ExportConfig" where
  "normalize_export e = e\<lparr>exp_Dir := str_or (exp_Dir e) ''output'',
     exp_FilenamePrefix := str_or (exp_FilenamePrefix e) ''nodes'',
     exp_Formats := (if exp_Formats e = [] then [''raw'', ''base64'', ''clash''] else exp_Formats e),
     exp_KeepRuns := pos_or (exp_KeepRuns e) 48\<rparr>"

definition normalize_filter :: "FilterConfig \<Rightarrow> FilterConfig" where
  "normalize_filter f = f\<lparr>flt_SortBy := str_or (flt_SortBy f) ''score'',
     flt_MinScore := (if flt_MinScore f \<le> 0 then 70 else flt_MinScore f),
     flt_MaxStoreNodes := pos_or (flt_MaxStoreNodes f) 8000,
     flt_MaxNodes := pos_or (flt_MaxNodes f) 500\<rparr>"

definition normalize_schedule :: "(string \<Rightarrow> string) \<Rightarrow> ScheduleConfig \<Rightarrow> ScheduleConfig" where
  "normalize_schedule env s = s\<lparr>sch_IntervalMin := pos_or (sch_IntervalMin s) 180,
     sch_Job := ToLower (TrimSpace (str_or (sch_Job s) ''full'')),
     sch_MaxTest := pos_or (sch_MaxTest s) 1200,
     sch_Rounds := pos_or (sch_Rounds s) 2,
     sch_Enabled := env_flag env ''NODE_HARVEST_SCHEDULE'' (sch_Enabled s)\<rparr>"

definition normalize_prefix :: "string \<Rightarrow> string" where
  "normalize_prefix p =
     (let p1 = str_or p ''/sub'';
          p2 = (if \<not> HasPrefix p1 ''/'' then ''/'' @ p1 else p1)
      in str_or (TrimRight p2 ''/'') ''/sub'')"

definition normalize_publish :: "(string \<Rightarrow> string) \<Rightarrow> FilterConfig \<Rightarrow> PublishConfig \<Rightarrow> PublishConfig" where
  "normalize_publish env f p =
     (let url = TrimSpace (env ''NODE_HARVEST_PUBLIC_URL'')
      in p\<lparr>pub_PathPrefix := normalize_prefix (pub_PathPrefix p),
           pub_MinScore := (if pub_MinScore p \<le> 0 then flt_MinScore f else pub_MinScore p),
           pub_MaxNodes := pos_or (pub_MaxNodes p) (flt_MaxNodes f),
           pub_MaxNodeAgeHours := pos_or (pub_MaxNodeAgeHours p) 24,
           pub_Formats := (if pub_Formats p = [] then [''raw'', ''base64'', ''clash''] else pub_Formats p),
           pub_CacheSec := (if pub_CacheSec p < 0 then 0 else pub_CacheSec p),
           pub_MaxCountries := pos_or (pub_MaxCountries p) 30,
           pub_Token := env_or env ''NODE_HARVEST_TOKEN'' (pub_Token p),
           pub_PublicURL := (if url \<noteq> '''' then TrimRight url ''/'' else pub_PublicURL p)\<rparr>)"

definition normalize_security :: "(string \<Rightarrow> string) \<Rightarrow> SecurityConfig \<Rightarrow> SecurityConfig" where
  "normalize_security env s = s\<lparr>sec_SubRPS := (if sec_SubRPS s \<le> 0 then 20 else sec_SubRPS s),
     sec_SubBurst := pos_or (sec_SubBurst s) 40,
     sec_APIRPS := (if sec_APIRPS s \<le> 0 then 30 else sec_APIRPS s),
     sec_APIBurst := pos_or (sec_APIBurst s) 60,
     sec_AllowQueryToken := env_flag env ''NODE_HARVEST_ALLOW_QUERY_TOKEN'' (sec_AllowQueryToken s)\<rparr>"

definition normalize_server :: "ServerConfig \<Rightarrow> ServerConfig" where
  "normalize_server s = s\<lparr>srv_ReadHeaderTimeoutSec := pos_or (srv_ReadHeaderTimeoutSec s) 10,
     srv_ReadTimeoutSec := pos_or (srv_ReadTimeoutSec s) 30,
     srv_WriteTimeoutSec := pos_or (srv_WriteTimeoutSec s) 60,
     srv_IdleTimeoutSec := pos_or (srv_IdleTimeoutSec s) 120,
     srv_ShutdownTimeoutSec := pos_or (srv_ShutdownTimeoutSec s) 30,
     srv_MaxHeaderBytes := pos_or (srv_MaxHeaderBytes s) 1048576\<rparr>"

definition normalize_dial :: "(string \<Rightarrow> string) \<Rightarrow> DialConfig \<Rightarrow> DialConfig" where
  "normalize_dial env d = d\<lparr>dl_Concurrency := pos_or (dl_Concurrency d) 4,
     dl_TimeoutSec := pos_or (dl_TimeoutSec d) 18,
     dl_TestURL := str_or (dl_TestURL d) ''https://www.cloudflare.com/cdn-cgi/trace'',
     dl_VerifiedTTLHours := pos_or (dl_VerifiedTTLHours d) 6,
     dl_BatchSize := pos_or (dl_BatchSize d) 200,
     dl_Engine := ToLower (TrimSpace (str_or (dl_Engine d) ''both'')),
     dl_Bin := env_or env ''NODE_HARVEST_SINGBOX'' (dl_Bin d),
     dl_MihomoBin := env_or env ''NODE_HARVEST_MIHOMO'' (dl_MihomoBin d)\<rparr>"

definition normalize_source :: "nat \<Rightarrow> Source \<Rightarrow> Source" where
  "normalize_source i s = s\<lparr>src_Type := str_or (src_Type s) ''subscription'',
     src_Name := str_or (src_Name s) (''source-'' @ itoa (int i + 1)),
     src_Priority := (if src_Priority s = 0 then 50 else src_Priority s),
     src_MaxBytes := pos_or (src_MaxBytes s) 33554432\<rparr>"

definition normalize :: "config_libs \<Rightarrow> (string \<Rightarrow> string) \<Rightarrow> config \<Rightarrow> config" where
  "normalize libs env c0 =
     (let c = normalizeEnterprise libs env c0;
          f = normalize_filter (Filter c)
      in c\<lparr>App := normalize_app (App c),
           Export := normalize_export (Export c),
           Filter := f,
           Schedule := normalize_schedule env (Schedule c),
           Publish := normalize_publish env f (Publish c),
           Geo := (Geo c)\<lparr>geo_DBPath := str_or (geo_DBPath (Geo c)) ''data/GeoLite2-Country.mmdb'',
                          geo_ASNDBPath := str_or (geo_ASNDBPath (Geo c)) ''data/GeoLite2-ASN.mmdb''\<rparr>,
           Security := normalize_security env (Security c),
           Server := normalize_server (Server c),
           SQLite := (SQLite c)\<lparr>sql_Path := str_or (sql_Path (SQLite c)) ''data/nodeharvest.db''\<rparr>,
           Dial := normalize_dial env (Dial c),
           Sources := map (\<lambda>(i, s). normalize_source i s) (enumerate 0 (Sources c))\<rparr>)"

subsection \<open>Validation\<close>

datatype config_error =
    BadConcurrency | NegativeLimits | BadDownloadBytes | UnsupportedEngine string
  | BadDialConcurrency | BadDialTimeout | BadVerifiedTTL | BadTestURL | BadSamplePercent
  | BadFilenamePrefix | UnsupportedFormat string | DuplicateFormat string | UnsupportedJob string
  | BadPathPrefix | PrefixConflict string
  | DuplicateSource string | BadSourceType string string | BadSourceURL string
  | BadMaxBytes string | BadPriority string
  | BadLoginLimits | SqliteDSNRequired | BadPostgresDSN | BadDriver | BadRedisURL | BadEndpoint
  | ObjectStoreCredentials | BadEmbeddedWorkers | QueueNeedsDatabase | LocalAuthBootstrap
  | BadTenant | BadCookieName | BadCookieDomain | HostPrefixWithDomain | DomainExcludesAdmin
  | BadAuthHost | BadAdminCIDR string | BadTrustedProxy string | ShortSessionSecret
  | BadSubStoreURL | BadBackendPath | SubStoreNeedsDomain | DomainExcludesSubStore
  | BadWebhookURL | NegativeWeights | BadPoolKey | BadPoolLimits string
  | AdminHostPanic | ConfigRequired | PatchRange string

definition http_url :: "config_libs \<Rightarrow> string list \<Rightarrow> string \<Rightarrow> bool" where
  "http_url libs schemes raw = (case url_parse libs raw of None \<Rightarrow> False
     | Some u \<Rightarrow> u_Scheme u \<in> set schemes \<and> u_Host u \<noteq> '''')"

definition canonical_format :: "string \<Rightarrow> string option" where
  "canonical_format format = (let f = ToLower (TrimSpace format) in
     if f \<in> {''raw'', ''uri'', ''txt''} then Some ''raw''
     else if f \<in> {''base64'', ''sub'', ''subscription''} then Some ''base64''
     else if f \<in> {''clash'', ''yaml'', ''yml''} then Some ''clash''
     else if f = ''json'' then Some ''json'' else None)"

fun validate_formats :: "string list \<Rightarrow> string list \<Rightarrow> config_error option" where
  "validate_formats seen [] = None"
| "validate_formats seen (format # fs) = (case canonical_format format of
     None \<Rightarrow> Some (UnsupportedFormat format)
   | Some canon \<Rightarrow> if canon \<in> set seen then Some (DuplicateFormat format)
       else validate_formats (canon # seen) fs)"

definition validate_source :: "config_libs \<Rightarrow> Source \<Rightarrow> config_error option" where
  "validate_source libs s = first_err [
     (src_Type s \<notin> {''subscription'', ''raw'', ''clash''}, BadSourceType (src_Name s) (src_Type s)),
     (src_Enabled s \<and> \<not> http_url libs [''http'', ''https''] (src_URL s), BadSourceURL (src_Name s)),
     (src_MaxBytes s \<le> 0 \<or> src_MaxBytes s > 134217728, BadMaxBytes (src_Name s)),
     (src_Priority s < 1 \<or> src_Priority s > 1000, BadPriority (src_Name s))]"

fun validate_sources :: "config_libs \<Rightarrow> string list \<Rightarrow> Source list \<Rightarrow> config_error option" where
  "validate_sources libs seen [] = None"
| "validate_sources libs seen (s # ss) =
     (if src_Name s \<in> set seen then Some (DuplicateSource (src_Name s))
      else or_else (validate_source libs s) (validate_sources libs (src_Name s # seen) ss))"

definition tab :: char where "tab = CHR 0x09"
definition cr :: char where "cr = CHR 0x0D"
definition nl :: char where "nl = CHR 0x0A"

definition prefix_conflicts :: "string \<Rightarrow> bool" where
  "prefix_conflicts p \<longleftrightarrow> p = ''/metrics'' \<or> HasPrefix p ''/debug'' \<or>
     (p \<noteq> ''/api/sub'' \<and> (p = ''/api'' \<or> HasPrefix p ''/api/'')) \<or>
     (p \<noteq> ''/sub'' \<and> HasPrefix p ''/sub/'')"

definition validTenant :: "string \<Rightarrow> bool" where
  "validTenant value \<longleftrightarrow> value \<noteq> '''' \<and> length value \<le> 64 \<and>
     list_all (\<lambda>(i, r). (CHR ''a'' \<le> r \<and> r \<le> CHR ''z'') \<or> (CHR ''0'' \<le> r \<and> r \<le> CHR ''9'') \<or>
       (i > 0 \<and> (r = CHR ''-'' \<or> r = CHR ''_''))) (enumerate 0 value)"

definition validCookieDomain :: "config_libs \<Rightarrow> string \<Rightarrow> bool" where
  "validCookieDomain libs value \<longleftrightarrow>
     \<not> (length value > 253 \<or> \<not> Contains value ''.'') \<and> public_suffix libs value \<noteq> value \<and>
     list_all (\<lambda>label. \<not> (label = '''' \<or> length label > 63 \<or> hd label = CHR ''-'' \<or> last label = CHR ''-'') \<and>
       list_all (\<lambda>r. (CHR ''a'' \<le> r \<and> r \<le> CHR ''z'') \<or> (CHR ''0'' \<le> r \<and> r \<le> CHR ''9'') \<or> r = CHR ''-'') label)
       (Split (CHR ''.'') value)"

definition domainIncludesHost :: "string \<Rightarrow> string \<Rightarrow> bool" where
  "domainIncludesHost domain0 host0 =
     (let host = ToLower (TrimSuffix (TrimSpace host0) ''.'');
          domain = ToLower (TrimSuffix (TrimSpace domain0) ''.'')
      in host = domain \<or> HasSuffix host (''.'' @ domain))"

definition validSubStoreBackendPath :: "string \<Rightarrow> bool" where
  "validSubStoreBackendPath value \<longleftrightarrow>
     \<not> (length value < 2 \<or> length value > 128 \<or> hd value \<noteq> CHR ''/'') \<and>
     list_all (\<lambda>r. (CHR ''a'' \<le> r \<and> r \<le> CHR ''z'') \<or> (CHR ''A'' \<le> r \<and> r \<le> CHR ''Z'') \<or>
       (CHR ''0'' \<le> r \<and> r \<le> CHR ''9'') \<or> r \<in> set ''-_.~'') (tl value)"

definition validate_database :: "config_libs \<Rightarrow> DatabaseConfig \<Rightarrow> config_error option" where
  "validate_database libs d =
     (if \<not> dbc_Enabled d then None
      else if dbc_Driver d = ''sqlite'' then
        (if TrimSpace (dbc_DSN d) = '''' then Some SqliteDSNRequired else None)
      else if dbc_Driver d = ''postgres'' then
        (if \<not> http_url libs [''postgres'', ''postgresql''] (dbc_DSN d) then Some BadPostgresDSN else None)
      else Some BadDriver)"

text \<open>
  The error of \<open>url.Parse("//" + AdminHost)\<close> is dropped and \<open>Hostname\<close> is called on the resulting nil
  pointer: a host that does not parse makes the process panic instead of reporting an error, the
  value \<open>AdminHostPanic\<close> here.
\<close>

definition validate_cookie :: "config_libs \<Rightarrow> AuthConfig \<Rightarrow> config_error option" where
  "validate_cookie libs a = (let d = aut_SessionCookieDomain a in
     if d = '''' then None
     else or_else (first_err [
       (\<not> validCookieDomain libs d, BadCookieDomain),
       (HasPrefix (aut_SessionCookieName a) ''__Host-'', HostPrefixWithDomain)])
       (if aut_AdminHost a = '''' then None
        else case url_parse libs (''//'' @ aut_AdminHost a) of
          None \<Rightarrow> Some AdminHostPanic
        | Some u \<Rightarrow> if \<not> domainIncludesHost d (u_Hostname u) then Some DomainExcludesAdmin else None))"

definition bad_host :: "string \<Rightarrow> bool" where
  "bad_host host \<longleftrightarrow> Contains host ''://'' \<or> ContainsAny host ''/?#''"

definition cidr_ok :: "config_libs \<Rightarrow> string \<Rightarrow> bool" where
  "cidr_ok libs c \<longleftrightarrow> prefix_ok libs (TrimSpace c) \<or> addr_ok libs (TrimSpace c)"

definition first_bad :: "('a \<Rightarrow> bool) \<Rightarrow> ('a \<Rightarrow> 'e) \<Rightarrow> 'a list \<Rightarrow> 'e option" where
  "first_bad bad e xs = map_option e (find bad xs)"

definition validate_sub_store :: "config_libs \<Rightarrow> AuthConfig \<Rightarrow> SubStoreConfig \<Rightarrow> config_error option" where
  "validate_sub_store libs a s =
     (if \<not> ss_Enabled s then None
      else case url_parse libs (ss_PublicURL s) of None \<Rightarrow> Some BadSubStoreURL
      | Some u \<Rightarrow> first_err [
          (u_Scheme u \<noteq> ''https'' \<or> u_Host u = '''' \<or> u_HasUser u \<or> (u_Path u \<noteq> '''' \<and> u_Path u \<noteq> ''/'') \<or>
             u_RawQuery u \<noteq> '''' \<or> u_Fragment u \<noteq> '''', BadSubStoreURL),
          (\<not> validSubStoreBackendPath (ss_BackendPath s), BadBackendPath),
          (aut_SessionCookieDomain a = '''', SubStoreNeedsDomain),
          (\<not> domainIncludesHost (aut_SessionCookieDomain a) (u_Hostname u), DomainExcludesSubStore)])"

fun validate_pools :: "string list \<Rightarrow> PoolConfig list \<Rightarrow> config_error option" where
  "validate_pools seen [] = None"
| "validate_pools seen (p # ps) = (let key = ToLower (TrimSpace (pool_Key p)) in
     if key = '''' \<or> key \<in> set seen then Some BadPoolKey
     else if pool_MinScore p < 0 \<or> pool_MinScore p > 100 \<or> pool_MaxLatencyMS p < 0 \<or>
       pool_RefreshSec p < 0 \<or> pool_MaxNodes p < 0 then Some (BadPoolLimits (pool_Key p))
     else validate_pools (key # seen) ps)"

definition negative_weights :: "QualityV2Config \<Rightarrow> bool" where
  "negative_weights w \<longleftrightarrow> qv_Latency w < 0 \<or> qv_Success w < 0 \<or> qv_Stability w < 0 \<or> qv_TLS w < 0 \<or>
     qv_HTTP w < 0 \<or> qv_Throughput w < 0"

definition validateEnterprise :: "config_libs \<Rightarrow> config \<Rightarrow> config_error option" where
  "validateEnterprise libs c =
     (let sec = Security c; ob = ObjectStore c; q = Queue c; a = Auth c; g = Governance c in
      or_else (first_err [(sec_LoginRPS sec \<le> 0 \<or> sec_LoginRPS sec > 100 \<or> sec_LoginBurst sec < 1 \<or>
        sec_LoginBurst sec > 1000, BadLoginLimits)])
      (or_else (validate_database libs (Database c))
      (or_else (first_err [
        (red_Enabled (Redis c) \<and> \<not> http_url libs [''redis'', ''rediss''] (red_URL (Redis c)), BadRedisURL),
        (obj_Enabled ob \<and> \<not> http_url libs [''http'', ''https''] (obj_Endpoint ob), BadEndpoint),
        (obj_Enabled ob \<and> (obj_AccessKey ob = '''' \<or> obj_SecretKey ob = '''' \<or> obj_Bucket ob = ''''), ObjectStoreCredentials),
        (que_EmbeddedWorkers q < 0 \<or> que_EmbeddedWorkers q > 64, BadEmbeddedWorkers),
        (que_Enabled q \<and> \<not> dbc_Enabled (Database c), QueueNeedsDatabase),
        (aut_LocalEnabled a \<and> (aut_BootstrapUser a = '''' \<or> aut_BootstrapHash a = ''''), LocalAuthBootstrap),
        (\<not> validTenant (aut_BootstrapTenant a), BadTenant),
        (ContainsAny (aut_SessionCookieName a) ('' ;,'' @ [tab, cr, nl]), BadCookieName)])
      (or_else (validate_cookie libs a)
      (or_else (first_bad bad_host (\<lambda>_. BadAuthHost) [aut_AdminHost a, aut_PublicHost a])
      (or_else (first_bad (\<lambda>x. \<not> cidr_ok libs x) BadAdminCIDR (aut_AdminCIDRs a))
      (or_else (first_bad (\<lambda>x. \<not> cidr_ok libs x) BadTrustedProxy (srv_TrustedProxies (Server c)))
      (or_else (first_err [(aut_LocalEnabled a \<and> length (aut_SessionSecret a) < 32, ShortSessionSecret)])
      (or_else (validate_sub_store libs a (SubStore c))
      (or_else (first_err [
        (gov_AlertWebhookURL g \<noteq> '''' \<and> \<not> http_url libs [''https'', ''http''] (gov_AlertWebhookURL g), BadWebhookURL),
        (negative_weights (QualityV2 c), NegativeWeights)])
      (validate_pools [] (Pools c))))))))))))"

definition Validate :: "config_libs \<Rightarrow> config \<Rightarrow> config_error option" where
  "Validate libs c =
     (let d = Dial c; e = Export c; p = pub_PathPrefix (Publish c) in
      or_else (first_err [
        (app_Concurrency (App c) \<le> 0 \<or> app_Concurrency (App c) > 4096, BadConcurrency),
        (flt_MaxNodes (Filter c) < 0 \<or> flt_MaxStoreNodes (Filter c) < 0, NegativeLimits),
        (dl_DownloadBytes d < 1024 \<or> dl_DownloadBytes d > 67108864, BadDownloadBytes),
        (dl_Engine d \<notin> {''auto'', ''sing-box'', ''xray'', ''mihomo'', ''both''}, UnsupportedEngine (dl_Engine d)),
        (dl_Concurrency d < 1 \<or> dl_Concurrency d > 64, BadDialConcurrency),
        (dl_TimeoutSec d < 5 \<or> dl_TimeoutSec d > 300, BadDialTimeout),
        (dl_VerifiedTTLHours d < 1 \<or> dl_VerifiedTTLHours d > 168, BadVerifiedTTL),
        (\<not> http_url libs [''http'', ''https''] (dl_TestURL d), BadTestURL),
        (dl_SamplePercent d < 0 \<or> dl_SamplePercent d > 100, BadSamplePercent),
        (exp_FilenamePrefix e = ''.'' \<or> exp_FilenamePrefix e = ''..'' \<or>
           ContainsAny (exp_FilenamePrefix e) [CHR ''/'', CHR 0x5C], BadFilenamePrefix)])
      (or_else (validate_formats [] (exp_Formats e))
      (or_else (first_err [
        (sch_Job (Schedule c) \<notin> {''full'', ''fetch'', ''quality''}, UnsupportedJob (sch_Job (Schedule c))),
        (ContainsAny p (''{}?# '' @ [tab, cr, nl]), BadPathPrefix),
        (prefix_conflicts p, PrefixConflict p)])
      (or_else (validate_sources libs [] (Sources c))
      (validateEnterprise libs c)))))"

subsection \<open>Queries\<close>

definition FetchTimeout :: "config \<Rightarrow> duration" where
  "FetchTimeout c = wrap64 (app_FetchTimeoutSec (App c) * second)"

definition TestTimeout :: "config \<Rightarrow> duration" where
  "TestTimeout c = wrap64 (app_TestTimeoutSec (App c) * second)"

definition ScheduleInterval :: "config \<Rightarrow> duration" where
  "ScheduleInterval c = wrap64 (sch_IntervalMin (Schedule c) * minute)"

definition hy2 :: "string \<Rightarrow> string" where
  "hy2 p = (if p = ''hy2'' then ''hysteria2'' else p)"

definition ProtocolAllowed :: "config \<Rightarrow> string \<Rightarrow> bool" where
  "ProtocolAllowed c p0 =
     (if Protocols c = [] then True
      else (let p = hy2 (ToLower (TrimSpace p0))
            in list_ex (\<lambda>allowed. hy2 (ToLower allowed) = p) (Protocols c)))"

definition source_blocked :: "config \<Rightarrow> Source \<Rightarrow> bool" where
  "source_blocked c s \<longleftrightarrow> list_ex (\<lambda>country.
     EqualFold (TrimSpace country) (TrimSpace (src_Jurisdiction s)) \<and> TrimSpace (src_Jurisdiction s) \<noteq> '''')
     (gov_DisabledSourceCountries (Governance c))"

definition by_priority :: "Source \<Rightarrow> Source \<Rightarrow> bool" where
  "by_priority a b \<longleftrightarrow> src_Priority a > src_Priority b"

definition EnabledSources :: "config \<Rightarrow> Source list" where
  "EnabledSources c = SliceStable by_priority
     (filter (\<lambda>s. src_Enabled s \<and> TrimSpace (src_URL s) \<noteq> '''' \<and> \<not> source_blocked c s) (Sources c))"

subsection \<open>What a validated configuration guarantees\<close>

text \<open>
  The value a command that parses URLs in the plainest way gives: it is used to evaluate the
  validator on concrete configurations.
\<close>

definition plain_url :: "string \<Rightarrow> url option" where
  "plain_url raw = (if HasPrefix raw ''https://'' \<and> length raw > 8
     then Some \<lparr>u_Scheme = ''https'', u_Host = drop 8 raw, u_Hostname = drop 8 raw, u_HasUser = False,
       u_Path = '''', u_RawQuery = '''', u_Fragment = ''''\<rparr>
     else None)"

definition plain_libs :: config_libs where
  "plain_libs = \<lparr>url_parse = plain_url, prefix_ok = (\<lambda>_. True), addr_ok = (\<lambda>_. True),
     public_suffix = (\<lambda>_. ''com''), scan_d = (\<lambda>_. None)\<rparr>"

lemma validate_sources_None:
  "validate_sources libs seen ss = None \<longleftrightarrow>
     distinct (map src_Name ss) \<and> set (map src_Name ss) \<inter> set seen = {} \<and>
     (\<forall>s \<in> set ss. validate_source libs s = None)"
  by (induction ss arbitrary: seen) auto

lemma validate_pools_None:
  "validate_pools seen ps = None \<longleftrightarrow>
     distinct (map (\<lambda>p. ToLower (TrimSpace (pool_Key p))) ps) \<and>
     (\<forall>p \<in> set ps. ToLower (TrimSpace (pool_Key p)) \<notin> insert '''' (set seen) \<and>
        0 \<le> pool_MinScore p \<and> pool_MinScore p \<le> 100 \<and> 0 \<le> pool_MaxLatencyMS p \<and>
        0 \<le> pool_RefreshSec p \<and> 0 \<le> pool_MaxNodes p)"
proof (induction ps arbitrary: seen)
  case Nil
  show ?case by simp
next
  case (Cons p ps)
  show ?case
    by (auto simp: Let_def Cons.IH not_less image_iff)
qed

lemma validate_formats_None:
  "validate_formats seen fs = None \<longleftrightarrow>
     (\<forall>f \<in> set fs. canonical_format f \<noteq> None) \<and> distinct (map canonical_format fs) \<and>
     set (map canonical_format fs) \<inter> Some ` set seen = {}"
  by (induction fs arbitrary: seen) (auto split: option.splits)



lemma validate_source_None:
  "validate_source libs s = None \<longleftrightarrow> src_Type s \<in> {''subscription'', ''raw'', ''clash''} \<and>
     (src_Enabled s \<longrightarrow> http_url libs [''http'', ''https''] (src_URL s)) \<and>
     0 < src_MaxBytes s \<and> src_MaxBytes s \<le> 2 ^ 27 \<and> 1 \<le> src_Priority s \<and> src_Priority s \<le> 1000"
  unfolding validate_source_def first_err_None by auto

text \<open>
  C2. A configuration that passes \<open>Validate\<close> has sources that can be told apart by name (the key of
  every per-source table), of a known type, with a priority, a size limit and, when enabled, a URL
  the fetcher accepts; its export formats are known and pairwise different; and its pools have
  pairwise different non-empty keys, scores within 0..100 and no negative limit.
\<close>

theorem Validate_sound:
  assumes "Validate libs c = None"
  shows "distinct (map src_Name (Sources c)) \<and>
    (\<forall>s \<in> set (Sources c). src_Type s \<in> {''subscription'', ''raw'', ''clash''} \<and>
       1 \<le> src_Priority s \<and> src_Priority s \<le> 1000 \<and> 0 < src_MaxBytes s \<and> src_MaxBytes s \<le> 2 ^ 27 \<and>
       (src_Enabled s \<longrightarrow> http_url libs [''http'', ''https''] (src_URL s))) \<and>
    distinct (map canonical_format (exp_Formats (Export c))) \<and>
    None \<notin> canonical_format ` set (exp_Formats (Export c)) \<and>
    distinct (map (\<lambda>p. ToLower (TrimSpace (pool_Key p))) (Pools c)) \<and>
    (\<forall>p \<in> set (Pools c). ToLower (TrimSpace (pool_Key p)) \<noteq> '''' \<and> 0 \<le> pool_MinScore p \<and>
       pool_MinScore p \<le> 100 \<and> 0 \<le> pool_MaxNodes p)"
proof -
  have s: "validate_sources libs [] (Sources c) = None"
    and f: "validate_formats [] (exp_Formats (Export c)) = None"
    and p: "validate_pools [] (Pools c) = None"
    using assms unfolding Validate_def validateEnterprise_def Let_def or_else_None by blast+
  have "\<forall>s \<in> set (Sources c). src_Type s \<in> {''subscription'', ''raw'', ''clash''} \<and>
       1 \<le> src_Priority s \<and> src_Priority s \<le> 1000 \<and> 0 < src_MaxBytes s \<and> src_MaxBytes s \<le> 2 ^ 27 \<and>
       (src_Enabled s \<longrightarrow> http_url libs [''http'', ''https''] (src_URL s))"
    using s unfolding validate_sources_None validate_source_None by blast
  moreover have "None \<notin> canonical_format ` set (exp_Formats (Export c))"
    using f unfolding validate_formats_None by force
  ultimately show ?thesis
    using s f p unfolding validate_sources_None validate_formats_None validate_pools_None by blast
qed

definition example_source :: Source where
  "example_source = \<lparr>src_Name = ''a'', src_Type = ''raw'', src_URL = ''https://a'', src_Enabled = True,
     src_Priority = 50, src_MaxBytes = 1024, src_Jurisdiction = ''US''\<rparr>"

definition example_config :: config where
  "example_config = normalize plain_libs (\<lambda>_. '''') (Default\<lparr>Sources := [example_source]\<rparr>)"

lemma example_config_valid: "Validate plain_libs example_config = None"
  by code_simp

theorem Validate_sound_witness: "distinct (map src_Name (Sources example_config))"
  using Validate_sound [OF example_config_valid] by (rule conjunct1)

text \<open>Sources are fetched in descending priority, equal priorities in file order.\<close>

interpretation source_order: keyed_less by_priority "\<lambda>s. - src_Priority s"
  by unfold_locales (simp add: by_priority_def)

text \<open>
  \<open>EnabledSources\<close> keeps exactly the enabled sources with a URL whose jurisdiction is not on the
  disabled list, by descending priority, and leaves sources of one priority in file order.
\<close>

lemma EnabledSources_ok:
  "set (EnabledSources c) = {s \<in> set (Sources c). src_Enabled s \<and> TrimSpace (src_URL s) \<noteq> '''' \<and>
       \<not> source_blocked c s} \<and>
   sorted (map (\<lambda>s. - src_Priority s) (EnabledSources c)) \<and>
   filter (\<lambda>s. - src_Priority s = k) (EnabledSources c) = filter (\<lambda>s. - src_Priority s = k)
     (filter (\<lambda>s. src_Enabled s \<and> TrimSpace (src_URL s) \<noteq> '''' \<and> \<not> source_blocked c s) (Sources c))"
  unfolding EnabledSources_def
  by (simp only: source_order.sorted_key source_order.stable set_SliceStable set_filter simp_thms)

end
