(* ===== verification/RuntimeConfig.thy ===== *)
theory RuntimeConfig
  imports Config
begin

text \<open>
  Settings that an operator may change while the service runs: \<open>internal/config/runtime.go\<close>, and the
  part of \<open>internal/service/service.go\<close> that applies a patch, stores the effective values as the next
  configuration version and re-applies them at the next start.
\<close>

record RuntimePatch =
  rp_PublishMinScore :: "float64 option"
  rp_PublishMaxNodes :: "int option"
  rp_PublishAliveOnly :: "bool option"
  rp_PublishCacheSec :: "int option"
  rp_PublishMaxNodeAgeHours :: "int option"
  rp_GovernanceDisableFailures :: "int option"
  rp_GovernanceCooldownHours :: "int option"
  rp_GovernanceHQDropPercent :: "float64 option"
  rp_GovernanceCountryShare :: "float64 option"
  rp_DialAfterQuality :: "bool option"
  rp_DialAfterQualityMax :: "int option"

text \<open>
  One \<open>if patch.F != nil\<close> block: an absent field changes nothing, a value out of range ends the
  call with the error of that field, any other value is written.
\<close>

definition patch_field ::
  "string \<Rightarrow> ('a \<Rightarrow> bool) \<Rightarrow> ('a \<Rightarrow> config \<Rightarrow> config) \<Rightarrow> 'a option \<Rightarrow> config_error + config \<Rightarrow> config_error + config"
where
  "patch_field name bad upd v r = (case r of Inl e \<Rightarrow> Inl e
     | Inr c \<Rightarrow> (case v of None \<Rightarrow> Inr c
         | Some x \<Rightarrow> if bad x then Inl (PatchRange name) else Inr (upd x c)))"

definition on_publish :: "(PublishConfig \<Rightarrow> PublishConfig) \<Rightarrow> config \<Rightarrow> config" where
  "on_publish f c = c\<lparr>Publish := f (Publish c)\<rparr>"

definition on_governance :: "(GovernanceConfig \<Rightarrow> GovernanceConfig) \<Rightarrow> config \<Rightarrow> config" where
  "on_governance f c = c\<lparr>Governance := f (Governance c)\<rparr>"

definition on_dial :: "(DialConfig \<Rightarrow> DialConfig) \<Rightarrow> config \<Rightarrow> config" where
  "on_dial f c = c\<lparr>Dial := f (Dial c)\<rparr>"

definition patch_fields :: "RuntimePatch \<Rightarrow> config \<Rightarrow> config_error + config" where
  "patch_fields p c =
     patch_field ''dial_after_quality_max'' (\<lambda>v. v < 0 \<or> v > 100000)
       (\<lambda>v. on_dial (dl_AfterQualityMax_update (\<lambda>_. v))) (rp_DialAfterQualityMax p)
    (patch_field ''dial_after_quality'' (\<lambda>_. False)
       (\<lambda>v. on_dial (dl_AfterQuality_update (\<lambda>_. v))) (rp_DialAfterQuality p)
    (patch_field ''governance_country_share_percent'' (\<lambda>v. v \<le> 0 \<or> v > 100)
       (\<lambda>v. on_governance (gov_CountrySharePercent_update (\<lambda>_. v))) (rp_GovernanceCountryShare p)
    (patch_field ''governance_hq_drop_percent'' (\<lambda>v. v \<le> 0 \<or> v > 100)
       (\<lambda>v. on_governance (gov_HQDropPercent_update (\<lambda>_. v))) (rp_GovernanceHQDropPercent p)
    (patch_field ''governance_cooldown_hours'' (\<lambda>v. v < 1 \<or> v > 720)
       (\<lambda>v. on_governance (gov_CooldownHours_update (\<lambda>_. v))) (rp_GovernanceCooldownHours p)
    (patch_field ''governance_disable_after_failures'' (\<lambda>v. v < 1 \<or> v > 100)
       (\<lambda>v. on_governance (gov_DisableAfterFailures_update (\<lambda>_. v))) (rp_GovernanceDisableFailures p)
    (patch_field ''publish_max_node_age_hours'' (\<lambda>v. v < 1 \<or> v > 8760)
       (\<lambda>v. on_publish (pub_MaxNodeAgeHours_update (\<lambda>_. v))) (rp_PublishMaxNodeAgeHours p)
    (patch_field ''publish_cache_sec'' (\<lambda>v. v < 0 \<or> v > 86400)
       (\<lambda>v. on_publish (pub_CacheSec_update (\<lambda>_. v))) (rp_PublishCacheSec p)
    (patch_field ''publish_alive_only'' (\<lambda>_. False)
       (\<lambda>v. on_publish (pub_AliveOnly_update (\<lambda>_. v))) (rp_PublishAliveOnly p)
    (patch_field ''publish_max_nodes'' (\<lambda>v. v < 1 \<or> v > 100000)
       (\<lambda>v. on_publish (pub_MaxNodes_update (\<lambda>_. v))) (rp_PublishMaxNodes p)
    (patch_field ''publish_min_score'' (\<lambda>v. v < 0 \<or> v > 100)
       (\<lambda>v. on_publish (pub_MinScore_update (\<lambda>_. v))) (rp_PublishMinScore p)
    (Inr c)))))))))))"

definition ApplyRuntimePatch :: "config_libs \<Rightarrow> config option \<Rightarrow> RuntimePatch \<Rightarrow> config_error + config" where
  "ApplyRuntimePatch libs current patch = (case current of None \<Rightarrow> Inl ConfigRequired
     | Some c \<Rightarrow> (case patch_fields patch c of Inl e \<Rightarrow> Inl e
         | Inr next \<Rightarrow> (case Validate libs next of Some e \<Rightarrow> Inl e | None \<Rightarrow> Inr next)))"

definition runtimePatchFromConfig :: "config \<Rightarrow> RuntimePatch" where
  "runtimePatchFromConfig cfg = \<lparr>
     rp_PublishMinScore = Some (pub_MinScore (Publish cfg)),
     rp_PublishMaxNodes = Some (pub_MaxNodes (Publish cfg)),
     rp_PublishAliveOnly = Some (pub_AliveOnly (Publish cfg)),
     rp_PublishCacheSec = Some (pub_CacheSec (Publish cfg)),
     rp_PublishMaxNodeAgeHours = Some (pub_MaxNodeAgeHours (Publish cfg)),
     rp_GovernanceDisableFailures = Some (gov_DisableAfterFailures (Governance cfg)),
     rp_GovernanceCooldownHours = Some (gov_CooldownHours (Governance cfg)),
     rp_GovernanceHQDropPercent = Some (gov_HQDropPercent (Governance cfg)),
     rp_GovernanceCountryShare = Some (gov_CountrySharePercent (Governance cfg)),
     rp_DialAfterQuality = Some (dl_AfterQuality (Dial cfg)),
     rp_DialAfterQualityMax = Some (dl_AfterQualityMax (Dial cfg))\<rparr>"

text \<open>
  \<open>UpdateRuntimeConfig\<close>: the new effective configuration together with the stored patch. The start
  of the service (\<open>NewWithOptions\<close>) re-applies the latest stored patch to the configuration file
  and falls back to the file alone when that fails. Storing and loading the JSON document is the
  identity on patches.
\<close>

definition UpdateRuntimeConfig ::
  "config_libs \<Rightarrow> config \<Rightarrow> RuntimePatch \<Rightarrow> config_error + config \<times> RuntimePatch" where
  "UpdateRuntimeConfig libs cur patch = (case ApplyRuntimePatch libs (Some cur) patch of
     Inl e \<Rightarrow> Inl e | Inr next \<Rightarrow> Inr (next, runtimePatchFromConfig next))"

definition restore_config :: "config_libs \<Rightarrow> config \<Rightarrow> RuntimePatch option \<Rightarrow> config" where
  "restore_config libs cfg stored = (case stored of None \<Rightarrow> cfg
     | Some patch \<Rightarrow> (case ApplyRuntimePatch libs (Some cfg) patch of Inl _ \<Rightarrow> cfg | Inr updated \<Rightarrow> updated))"

subsection \<open>The specification of a patch\<close>

text \<open>Each field within its range, and the configuration with the given fields overlaid.\<close>

definition in_opt :: "('a \<Rightarrow> bool) \<Rightarrow> 'a option \<Rightarrow> bool" where
  "in_opt ok v = (case v of None \<Rightarrow> True | Some x \<Rightarrow> ok x)"

definition patch_in_range :: "RuntimePatch \<Rightarrow> bool" where
  "patch_in_range p \<longleftrightarrow>
     in_opt (\<lambda>v. 0 \<le> v \<and> v \<le> 100) (rp_PublishMinScore p) \<and>
     in_opt (\<lambda>v. 1 \<le> v \<and> v \<le> 100000) (rp_PublishMaxNodes p) \<and>
     in_opt (\<lambda>v. 0 \<le> v \<and> v \<le> 86400) (rp_PublishCacheSec p) \<and>
     in_opt (\<lambda>v. 1 \<le> v \<and> v \<le> 8760) (rp_PublishMaxNodeAgeHours p) \<and>
     in_opt (\<lambda>v. 1 \<le> v \<and> v \<le> 100) (rp_GovernanceDisableFailures p) \<and>
     in_opt (\<lambda>v. 1 \<le> v \<and> v \<le> 720) (rp_GovernanceCooldownHours p) \<and>
     in_opt (\<lambda>v. 0 < v \<and> v \<le> 100) (rp_GovernanceHQDropPercent p) \<and>
     in_opt (\<lambda>v. 0 < v \<and> v \<le> 100) (rp_GovernanceCountryShare p) \<and>
     in_opt (\<lambda>v. 0 \<le> v \<and> v \<le> 100000) (rp_DialAfterQualityMax p)"

definition over :: "'a option \<Rightarrow> 'a \<Rightarrow> 'a" where
  "over v x = (case v of None \<Rightarrow> x | Some y \<Rightarrow> y)"

definition overlay_publish :: "RuntimePatch \<Rightarrow> PublishConfig \<Rightarrow> PublishConfig" where
  "overlay_publish p x = x\<lparr>
     pub_MinScore := over (rp_PublishMinScore p) (pub_MinScore x),
     pub_MaxNodes := over (rp_PublishMaxNodes p) (pub_MaxNodes x),
     pub_MaxNodeAgeHours := over (rp_PublishMaxNodeAgeHours p) (pub_MaxNodeAgeHours x),
     pub_AliveOnly := over (rp_PublishAliveOnly p) (pub_AliveOnly x),
     pub_CacheSec := over (rp_PublishCacheSec p) (pub_CacheSec x)\<rparr>"

definition overlay_governance :: "RuntimePatch \<Rightarrow> GovernanceConfig \<Rightarrow> GovernanceConfig" where
  "overlay_governance p x = x\<lparr>
     gov_DisableAfterFailures := over (rp_GovernanceDisableFailures p) (gov_DisableAfterFailures x),
     gov_CooldownHours := over (rp_GovernanceCooldownHours p) (gov_CooldownHours x),
     gov_HQDropPercent := over (rp_GovernanceHQDropPercent p) (gov_HQDropPercent x),
     gov_CountrySharePercent := over (rp_GovernanceCountryShare p) (gov_CountrySharePercent x)\<rparr>"

definition overlay_dial :: "RuntimePatch \<Rightarrow> DialConfig \<Rightarrow> DialConfig" where
  "overlay_dial p x = x\<lparr>
     dl_AfterQuality := over (rp_DialAfterQuality p) (dl_AfterQuality x),
     dl_AfterQualityMax := over (rp_DialAfterQualityMax p) (dl_AfterQualityMax x)\<rparr>"

definition overlay :: "RuntimePatch \<Rightarrow> config \<Rightarrow> config" where
  "overlay p c = c\<lparr>Publish := overlay_publish p (Publish c),
     Governance := overlay_governance p (Governance c), Dial := overlay_dial p (Dial c)\<rparr>"

lemma patch_field_Inr:
  "patch_field name bad upd v r = Inr c \<longleftrightarrow>
     in_opt (\<lambda>x. \<not> bad x) v \<and> (\<exists>c0. r = Inr c0 \<and> c = (case v of None \<Rightarrow> c0 | Some x \<Rightarrow> upd x c0))"
  by (auto simp: patch_field_def in_opt_def split: sum.splits option.splits)

text \<open>One optional write, as an unconditional write of the overlaid value.\<close>

lemma over_publish:
  "(case v of None \<Rightarrow> c | Some x \<Rightarrow> on_publish (pub_MinScore_update (\<lambda>_. x)) c) =
     on_publish (pub_MinScore_update (over v)) c"
  "(case w of None \<Rightarrow> c | Some x \<Rightarrow> on_publish (pub_MaxNodes_update (\<lambda>_. x)) c) =
     on_publish (pub_MaxNodes_update (over w)) c"
  "(case b of None \<Rightarrow> c | Some x \<Rightarrow> on_publish (pub_AliveOnly_update (\<lambda>_. x)) c) =
     on_publish (pub_AliveOnly_update (over b)) c"
  "(case w of None \<Rightarrow> c | Some x \<Rightarrow> on_publish (pub_CacheSec_update (\<lambda>_. x)) c) =
     on_publish (pub_CacheSec_update (over w)) c"
  "(case w of None \<Rightarrow> c | Some x \<Rightarrow> on_publish (pub_MaxNodeAgeHours_update (\<lambda>_. x)) c) =
     on_publish (pub_MaxNodeAgeHours_update (over w)) c"
  by (simp_all add: on_publish_def over_def split: option.split)

lemma over_governance:
  "(case w of None \<Rightarrow> c | Some x \<Rightarrow> on_governance (gov_DisableAfterFailures_update (\<lambda>_. x)) c) =
     on_governance (gov_DisableAfterFailures_update (over w)) c"
  "(case w of None \<Rightarrow> c | Some x \<Rightarrow> on_governance (gov_CooldownHours_update (\<lambda>_. x)) c) =
     on_governance (gov_CooldownHours_update (over w)) c"
  "(case v of None \<Rightarrow> c | Some x \<Rightarrow> on_governance (gov_HQDropPercent_update (\<lambda>_. x)) c) =
     on_governance (gov_HQDropPercent_update (over v)) c"
  "(case v of None \<Rightarrow> c | Some x \<Rightarrow> on_governance (gov_CountrySharePercent_update (\<lambda>_. x)) c) =
     on_governance (gov_CountrySharePercent_update (over v)) c"
  by (simp_all add: on_governance_def over_def split: option.split)

lemma over_dial:
  "(case b of None \<Rightarrow> c | Some x \<Rightarrow> on_dial (dl_AfterQuality_update (\<lambda>_. x)) c) =
     on_dial (dl_AfterQuality_update (over b)) c"
  "(case w of None \<Rightarrow> c | Some x \<Rightarrow> on_dial (dl_AfterQualityMax_update (\<lambda>_. x)) c) =
     on_dial (dl_AfterQualityMax_update (over w)) c"
  by (simp_all add: on_dial_def over_def split: option.split)

lemma in_opt_True [simp]: "in_opt (\<lambda>_. True) v"
  by (simp add: in_opt_def split: option.split)

lemma on_section_comp [simp]:
  "on_publish f (on_publish g c) = on_publish (f \<circ> g) c"
  "on_governance f' (on_governance g' c) = on_governance (f' \<circ> g') c"
  "on_dial f'' (on_dial g'' c) = on_dial (f'' \<circ> g'') c"
  by (simp_all add: on_publish_def on_governance_def on_dial_def)

lemma overlay_sections:
  "overlay p c = on_dial (overlay_dial p) (on_governance (overlay_governance p) (on_publish (overlay_publish p) c))"
  by (simp add: overlay_def on_publish_def on_governance_def on_dial_def)

lemma overlay_publish_writes:
  "overlay_publish p = pub_MaxNodeAgeHours_update (over (rp_PublishMaxNodeAgeHours p)) \<circ>
     (pub_CacheSec_update (over (rp_PublishCacheSec p)) \<circ>
     (pub_AliveOnly_update (over (rp_PublishAliveOnly p)) \<circ>
     (pub_MaxNodes_update (over (rp_PublishMaxNodes p)) \<circ>
      pub_MinScore_update (over (rp_PublishMinScore p)))))"
  by (rule ext) (simp add: overlay_publish_def)

lemma overlay_governance_writes:
  "overlay_governance p = gov_CountrySharePercent_update (over (rp_GovernanceCountryShare p)) \<circ>
     (gov_HQDropPercent_update (over (rp_GovernanceHQDropPercent p)) \<circ>
     (gov_CooldownHours_update (over (rp_GovernanceCooldownHours p)) \<circ>
      gov_DisableAfterFailures_update (over (rp_GovernanceDisableFailures p))))"
  by (rule ext) (simp add: overlay_governance_def)

lemma overlay_dial_writes:
  "overlay_dial p = dl_AfterQualityMax_update (over (rp_DialAfterQualityMax p)) \<circ>
     dl_AfterQuality_update (over (rp_DialAfterQuality p))"
  by (rule ext) (simp add: overlay_dial_def)

lemma patch_fields_Inr: "patch_fields p c = Inr c' \<longleftrightarrow> patch_in_range p \<and> c' = overlay p c"
  unfolding patch_fields_def patch_field_Inr patch_in_range_def over_publish over_governance over_dial
    overlay_sections overlay_publish_writes overlay_governance_writes overlay_dial_writes
  by (simp only: not_less not_le de_Morgan_disj not_False_eq_True in_opt_True simp_thms
      sum.inject on_section_comp ex_simps conj_assoc o_assoc) blast

lemma Validate_overlay: "Validate libs (overlay p c) = Validate libs c"
  by (simp add: Validate_def validateEnterprise_def overlay_def overlay_publish_def overlay_governance_def
      overlay_dial_def Let_def)

lemma ApplyRuntimePatch_valid:
  "Validate libs c = None \<Longrightarrow>
     ApplyRuntimePatch libs (Some c) p = Inr c' \<longleftrightarrow> patch_in_range p \<and> c' = overlay p c"
  using patch_fields_Inr [of p c]
  by (auto simp: ApplyRuntimePatch_def Validate_overlay split: sum.splits option.splits)

lemma overlay_twice: "overlay (runtimePatchFromConfig (overlay p (overlay q c))) c = overlay p (overlay q c)"
  by (simp add: overlay_def overlay_publish_def overlay_governance_def overlay_dial_def
      runtimePatchFromConfig_def over_def [of "Some _"])

lemma over_in_range: "in_opt ok v \<Longrightarrow> ok x \<Longrightarrow> ok (over v x)"
  by (simp add: in_opt_def over_def split: option.splits)

lemma patch_in_range_overlay:
  assumes "patch_in_range p" and "patch_in_range (runtimePatchFromConfig c)"
  shows "patch_in_range (runtimePatchFromConfig (overlay p c))"
proof -
  have ok: "in_opt ok (Some x) = ok x" for ok :: "'a \<Rightarrow> bool" and x
    by (simp add: in_opt_def)
  have over: "in_opt ok (Some (over v x))" if "in_opt ok v" "in_opt ok (Some x)"
    for ok :: "'a \<Rightarrow> bool" and v x
    using that over_in_range [of ok v x] by (simp add: in_opt_def)
  show ?thesis
    using assms
    by (simp add: patch_in_range_def runtimePatchFromConfig_def overlay_def overlay_publish_def
        overlay_governance_def overlay_dial_def del: ok) (intro conjI; erule conjE; blast intro: over)
qed

text \<open>
  On a valid configuration \<open>ApplyRuntimePatch\<close> accepts exactly the patches whose fields are all
  in range; the result has the given fields replaced and everything else unchanged, and is valid
  again, so a chain of patches never leaves the valid configurations.
\<close>

lemma ApplyRuntimePatch_ok:
  assumes "Validate libs c = None"
  shows "(ApplyRuntimePatch libs (Some c) p = Inr c' \<longleftrightarrow> patch_in_range p \<and> c' = overlay p c) \<and>
    Validate libs (overlay p c) = None"
  using assms ApplyRuntimePatch_valid Validate_overlay by simp

definition no_patch :: RuntimePatch where
  "no_patch = \<lparr>rp_PublishMinScore = None, rp_PublishMaxNodes = None, rp_PublishAliveOnly = None,
     rp_PublishCacheSec = None, rp_PublishMaxNodeAgeHours = None, rp_GovernanceDisableFailures = None,
     rp_GovernanceCooldownHours = None, rp_GovernanceHQDropPercent = None,
     rp_GovernanceCountryShare = None, rp_DialAfterQuality = None, rp_DialAfterQualityMax = None\<rparr>"

definition max_ten :: RuntimePatch where
  "max_ten = no_patch\<lparr>rp_PublishMaxNodes := Some 10\<rparr>"

lemma max_ten_in_range: "patch_in_range max_ten"
  by code_simp

text \<open>
  C3. A restart keeps the effective settings: when the settings of the configuration file are
  within the ranges of the patch, the version stored by \<open>UpdateRuntimeConfig\<close> (after any earlier
  accepted patches) re-applied to the file gives the configuration that was in force.
\<close>

theorem restart_restores_config:
  assumes "Validate libs cfg = None" and "patch_in_range (runtimePatchFromConfig cfg)"
    and "patch_in_range q" and "UpdateRuntimeConfig libs (overlay q cfg) p = Inr (now, stored)"
  shows "restore_config libs cfg (Some stored) = now"
proof -
  have v: "Validate libs (overlay q cfg) = None" using assms by (simp add: Validate_overlay)
  have "ApplyRuntimePatch libs (Some (overlay q cfg)) p = Inr now" and st: "stored = runtimePatchFromConfig now"
    using assms by (auto simp: UpdateRuntimeConfig_def split: sum.splits)
  then have p: "patch_in_range p" and now_eq: "now = overlay p (overlay q cfg)"
    using ApplyRuntimePatch_valid [OF v] by auto
  then have "patch_in_range stored"
    using assms st by (simp add: patch_in_range_overlay)
  then have "ApplyRuntimePatch libs (Some cfg) stored = Inr now"
    using ApplyRuntimePatch_valid [OF assms(1)] overlay_twice now_eq st by simp
  then show ?thesis by (simp add: restore_config_def)
qed

theorem restart_restores_config_witness:
  "restore_config plain_libs example_config
     (Some (runtimePatchFromConfig (overlay max_ten (overlay no_patch example_config)))) =
   overlay max_ten (overlay no_patch example_config)"
proof (rule restart_restores_config [OF example_config_valid])
  show "patch_in_range (runtimePatchFromConfig example_config)" by code_simp
  show "patch_in_range no_patch" by code_simp
  have "ApplyRuntimePatch plain_libs (Some (overlay no_patch example_config)) max_ten =
      Inr (overlay max_ten (overlay no_patch example_config))"
    by (simp add: ApplyRuntimePatch_valid Validate_overlay example_config_valid max_ten_in_range)
  then show "UpdateRuntimeConfig plain_libs (overlay no_patch example_config) max_ten =
    Inr (overlay max_ten (overlay no_patch example_config),
      runtimePatchFromConfig (overlay max_ten (overlay no_patch example_config)))"
    by (simp add: UpdateRuntimeConfig_def)
qed

definition long_cooldown :: config where
  "long_cooldown = normalize plain_libs (\<lambda>_. '''')
     (Default\<lparr>Governance := (Governance Default)\<lparr>gov_CooldownHours := 1000\<rparr>\<rparr>)"

text \<open>
  The range condition on the file is needed: \<open>normalize\<close> and \<open>Validate\<close> accept a cooldown of 1000
  hours, which the patch range (at most 720) does not. An accepted change of another setting then
  stores a version that the next start rejects, and the change is lost.
\<close>

lemma restart_loses_change:
  "Validate plain_libs long_cooldown = None \<and>
   (case UpdateRuntimeConfig plain_libs long_cooldown max_ten of
      Inl e \<Rightarrow> False
    | Inr (now, stored) \<Rightarrow> pub_MaxNodes (Publish now) = 10 \<and>
        pub_MaxNodes (Publish (restore_config plain_libs long_cooldown (Some stored))) = 500)"
  by code_simp

end
