(* ===== verification/Database.thy ===== *)
theory Database
  imports Prelude
begin

text \<open>
  Helpers shared by the methods of \<open>internal/db\<close>: the tenant default, the calendar day of the usage
  table, the second-resolution timestamps of \<open>timex.FormatRFC3339\<close>, and SQL's \<open>LIKE\<close>.
\<close>

definition tenantOrDefault :: "string \<Rightarrow> string" where
  "tenantOrDefault tenant = (if tenant = '''' then ''default'' else tenant)"

text \<open>\<open>timex.FormatRFC3339\<close>: the instant cut to whole seconds.\<close>

definition FormatRFC3339 :: "time \<Rightarrow> time" where
  "FormatRFC3339 t = (if IsZero t then 0 else t - t mod second)"

text \<open>\<open>timex.Now().Format("2006-01-02")\<close>: the number of the day in the zone UTC+8.\<close>

definition shanghai_day :: "time \<Rightarrow> int" where
  "shanghai_day now = (now + 8 * hour) div (24 * hour)"

text \<open>
  \<open>value LIKE pattern\<close>: \<open>%\<close> matches any text, \<open>_\<close> any one character; SQLite compares ASCII letters
  without regard to case, PostgreSQL exactly (\<open>ci\<close> selects the former).
\<close>

fun like :: "bool \<Rightarrow> string \<Rightarrow> string \<Rightarrow> bool" where
  "like ci [] [] \<longleftrightarrow> True"
| "like ci [] (c # value) \<longleftrightarrow> False"
| "like ci (p # pat) [] \<longleftrightarrow> p = CHR ''%'' \<and> like ci pat []"
| "like ci (p # pat) (c # value) \<longleftrightarrow>
     (if p = CHR ''%'' then like ci pat (c # value) \<or> like ci (p # pat) value
      else (p = CHR ''_'' \<or> p = c \<or> (ci \<and> lower_char p = lower_char c)) \<and> like ci pat value)"

lemma like_percent: "like ci ''%'' v"
  by (induction v) auto

lemma like_prefix: "HasPrefix v pre \<Longrightarrow> like ci (pre @ ''%'') v"
proof (induction pre arbitrary: v)
  case Nil
  then show ?case by (simp add: like_percent)
next
  case (Cons p pre)
  then obtain w where "v = p # w" "HasPrefix w pre"
    by (cases v) (auto simp: HasPrefix_def)
  moreover have "like ci (CHR ''%'' # pat) u" if "like ci pat u" for pat u
    using that by (cases u) auto
  ultimately show ?case using Cons.IH by auto
qed

end
