(* ===== verification/TaskQueue.thy ===== *)
theory TaskQueue
  imports Database
begin

text \<open>
  The durable task queue: \<open>internal/db/tasks.go\<close> (the table \<open>task_queue\<close> and every statement on it) and
  \<open>internal/queue/queue.go\<close> (the workers that lease, run, renew and finish tasks).

  The table is the list of its rows. Each database method is one transaction, so it is a function
  from the table to an error (the table is then unchanged: the transaction was rolled back) or to
  the new table. Time columns are instants: \<open>fmtTime\<close> writes nine fractional digits in a fixed zone,
  so the textual order of the columns is the order of the instants, and \<open>0\<close> is the empty string.
  Nullable columns are options. The current time and a fresh id are arguments. The \<open>options\<close> column
  holds a JSON text that the queue only passes through.
\<close>

subsection \<open>Rows, errors and filters\<close>

record QueuedTask =
  t_ID :: string
  t_Type :: string
  t_Options :: string
  t_Priority :: int
  t_Status :: string
  t_Attempts :: int
  t_MaxAttempts :: int
  t_AvailableAt :: time
  t_LeaseUntil :: "time option"
  t_WorkerID :: "string option"
  t_LastError :: "string option"
  t_CreatedAt :: time
  t_UpdatedAt :: time
  t_StartedAt :: "time option"
  t_EndedAt :: "time option"

abbreviation TaskQueued :: string where "TaskQueued \<equiv> ''queued''"
abbreviation TaskRunning :: string where "TaskRunning \<equiv> ''running''"
abbreviation TaskCompleted :: string where "TaskCompleted \<equiv> ''completed''"
abbreviation TaskDead :: string where "TaskDead \<equiv> ''dead''"
abbreviation TaskCanceled :: string where "TaskCanceled \<equiv> ''canceled''"

datatype task_error =
    TaskRequired | TypeRequired | WorkerRequired | ErrQueueFull | DuplicateID
  | ErrNoRows | NotLeased string

type_synonym task_table = "QueuedTask list"

definition pending :: "QueuedTask \<Rightarrow> bool" where
  "pending t \<longleftrightarrow> t_Status t = TaskQueued \<or> t_Status t = TaskRunning"

definition leased_by :: "string \<Rightarrow> string \<Rightarrow> QueuedTask \<Rightarrow> bool" where
  "leased_by i w t \<longleftrightarrow> t_ID t = i \<and> t_Status t = TaskRunning \<and> t_WorkerID t = Some w"



subsection \<open>Enqueue and lease\<close>

definition EnqueueTask :: "time \<Rightarrow> string \<Rightarrow> QueuedTask option \<Rightarrow> int \<Rightarrow> task_table \<Rightarrow> task_error + task_table" where
  "EnqueueTask now fresh task maxPending tab = (case task of None \<Rightarrow> Inl TaskRequired
     | Some t0 \<Rightarrow>
        if t_Type t0 = '''' then Inl TypeRequired
        else (let t = t0\<lparr>t_ID := (if t_ID t0 = '''' then fresh else t_ID t0),
                t_MaxAttempts := (if t_MaxAttempts t0 \<le> 0 then 3 else t_MaxAttempts t0),
                t_Status := (if t_Status t0 = '''' then TaskQueued else t_Status t0),
                t_AvailableAt := (if t_AvailableAt t0 = 0 then now else t_AvailableAt t0),
                t_CreatedAt := now, t_UpdatedAt := now, t_Attempts := 0,
                t_LeaseUntil := None, t_WorkerID := None, t_LastError := None,
                t_StartedAt := None, t_EndedAt := None\<rparr>
           in if maxPending > 0 \<and> int (affected pending tab) \<ge> maxPending then Inl ErrQueueFull
              else if t_ID t \<in> t_ID ` set tab then Inl DuplicateID
              else Inr (tab @ [t])))"

definition expired :: "time \<Rightarrow> QueuedTask \<Rightarrow> bool" where
  "expired now t \<longleftrightarrow> t_Status t = TaskRunning \<and> (case t_LeaseUntil t of None \<Rightarrow> False | Some l \<Rightarrow> l < now)"

definition requeue :: "time \<Rightarrow> QueuedTask \<Rightarrow> QueuedTask" where
  "requeue now t = t\<lparr>
     t_Status := (if t_Attempts t \<ge> t_MaxAttempts t then TaskDead else TaskQueued),
     t_AvailableAt := now, t_LeaseUntil := None, t_WorkerID := None,
     t_LastError := (if t_LastError t = Some '''' then Some ''worker lease expired'' else t_LastError t),
     t_EndedAt := (if t_Attempts t \<ge> t_MaxAttempts t then Some now else t_EndedAt t),
     t_UpdatedAt := now\<rparr>"

definition requeueExpiredTx :: "time \<Rightarrow> task_table \<Rightarrow> task_table" where
  "requeueExpiredTx now tab = update_where (expired now) (requeue now) tab"

text \<open>\<open>ORDER BY priority DESC, created_at, id\<close>\<close>

definition claim_before :: "QueuedTask \<Rightarrow> QueuedTask \<Rightarrow> bool" where
  "claim_before a b \<longleftrightarrow> (if t_Priority a \<noteq> t_Priority b then t_Priority a > t_Priority b
     else if t_CreatedAt a \<noteq> t_CreatedAt b then t_CreatedAt a < t_CreatedAt b
     else t_ID a < t_ID b)"

definition claimable :: "time \<Rightarrow> QueuedTask \<Rightarrow> bool" where
  "claimable now t \<longleftrightarrow> t_Status t = TaskQueued \<and> t_AvailableAt t \<le> now"

definition start_run :: "time \<Rightarrow> time \<Rightarrow> string \<Rightarrow> QueuedTask \<Rightarrow> QueuedTask" where
  "start_run now leaseUntil w t = t\<lparr>
     t_Status := TaskRunning, t_Attempts := t_Attempts t + 1, t_LeaseUntil := Some leaseUntil,
     t_WorkerID := Some w, t_LastError := Some '''',
     t_StartedAt := (case t_StartedAt t of None \<Rightarrow> Some now | Some s \<Rightarrow> Some s), t_UpdatedAt := now\<rparr>"

definition GetTask :: "string \<Rightarrow> task_table \<Rightarrow> task_error + QueuedTask" where
  "GetTask i tab = (case find (\<lambda>t. t_ID t = i) tab of None \<Rightarrow> Inl ErrNoRows | Some t \<Rightarrow> Inr t)"

definition lease_or :: "duration \<Rightarrow> duration" where
  "lease_or lease = (if lease \<le> 0 then 2 * minute else lease)"

text \<open>
  \<open>now\<close> and \<open>now'\<close> are the two readings of the clock. When no task can be claimed the transaction is
  rolled back, and with it the return of expired leases.
\<close>

definition LeaseTask ::
  "time \<Rightarrow> time \<Rightarrow> string \<Rightarrow> duration \<Rightarrow> task_table \<Rightarrow> task_error + QueuedTask \<times> task_table" where
  "LeaseTask now now' workerID lease tab =
     (if workerID = '''' then Inl WorkerRequired
      else (let leaseUntil = now' + lease_or lease;
                tab1 = requeueExpiredTx now tab
            in case SliceStable claim_before (filter (claimable now) tab1) of
                 [] \<Rightarrow> Inl ErrNoRows
               | c # _ \<Rightarrow>
                  (let p = (\<lambda>t. t_ID t = t_ID c \<and> t_Status t = TaskQueued);
                       tab2 = update_where p (start_run now leaseUntil workerID) tab1
                   in if affected p tab1 \<noteq> 1 then Inl ErrNoRows
                      else case GetTask (t_ID c) tab2 of Inl e \<Rightarrow> Inl e | Inr t \<Rightarrow> Inr (t, tab2))))"

subsection \<open>Renew, finish, fail, cancel\<close>

definition RenewTaskLease :: "time \<Rightarrow> string \<Rightarrow> string \<Rightarrow> duration \<Rightarrow> task_table \<Rightarrow> bool \<times> task_table" where
  "RenewTaskLease now i w lease tab =
     (affected (leased_by i w) tab = 1,
      update_where (leased_by i w)
        (\<lambda>t. t\<lparr>t_LeaseUntil := Some (now + lease_or lease), t_UpdatedAt := now\<rparr>) tab)"

definition finish :: "time \<Rightarrow> string \<Rightarrow> string \<Rightarrow> QueuedTask \<Rightarrow> QueuedTask" where
  "finish now status message t = t\<lparr>t_Status := status, t_LeaseUntil := None, t_WorkerID := None,
     t_LastError := Some message, t_UpdatedAt := now, t_EndedAt := Some now\<rparr>"

definition finishTask :: "time \<Rightarrow> string \<Rightarrow> string \<Rightarrow> string \<Rightarrow> string \<Rightarrow> task_table \<Rightarrow> task_error option \<times> task_table" where
  "finishTask now i w status message tab =
     (if affected (leased_by i w) tab \<noteq> 1 then Some (NotLeased i) else None,
      update_where (leased_by i w) (finish now status message) tab)"

definition CompleteTask :: "time \<Rightarrow> string \<Rightarrow> string \<Rightarrow> task_table \<Rightarrow> task_error option \<times> task_table" where
  "CompleteTask now i w tab = finishTask now i w TaskCompleted '''' tab"

text \<open>
  \<open>time.Duration(math.Pow(2, attempts-1)) * retryBase\<close>: the power is exact up to \<open>2 ^ 62\<close>; a larger
  one does not fit an \<open>int64\<close> and converts to the smallest one; the product wraps.
\<close>

definition pow2_duration :: "int \<Rightarrow> int" where
  "pow2_duration k = (if k < 0 then 0 else if k > 62 then - (2 ^ 63) else 2 ^ nat k)"

definition retry_delay :: "int \<Rightarrow> duration \<Rightarrow> duration" where
  "retry_delay attempts base = wrap64 (pow2_duration (attempts - 1) * base)"

definition retry :: "time \<Rightarrow> duration \<Rightarrow> string \<Rightarrow> QueuedTask \<Rightarrow> QueuedTask" where
  "retry now delay message t = t\<lparr>t_Status := TaskQueued, t_AvailableAt := now + delay,
     t_LeaseUntil := None, t_WorkerID := None, t_LastError := Some message, t_UpdatedAt := now\<rparr>"

definition FailTask ::
  "time \<Rightarrow> string \<Rightarrow> string \<Rightarrow> string \<Rightarrow> duration \<Rightarrow> task_table \<Rightarrow> task_error option \<times> task_table" where
  "FailTask now i w message retryBase tab = (case GetTask i tab of Inl e \<Rightarrow> (Some e, tab)
     | Inr t \<Rightarrow>
        if t_Status t \<noteq> TaskRunning \<or> null_string (t_WorkerID t) \<noteq> w then (Some (NotLeased i), tab)
        else if t_Attempts t \<ge> t_MaxAttempts t then finishTask now i w TaskDead message tab
        else (let base = (if retryBase \<le> 0 then 5 * second else retryBase);
                  delay = retry_delay (t_Attempts t) base
              in (None, update_where (leased_by i w) (retry now delay message) tab)))"

definition cancel :: "time \<Rightarrow> QueuedTask \<Rightarrow> QueuedTask" where
  "cancel now t = t\<lparr>t_Status := TaskCanceled, t_LeaseUntil := None, t_WorkerID := None,
     t_UpdatedAt := now, t_EndedAt := Some now\<rparr>"

definition CancelTask :: "time \<Rightarrow> string \<Rightarrow> task_table \<Rightarrow> task_error option \<times> task_table" where
  "CancelTask now i tab = (let p = (\<lambda>t. t_ID t = i \<and> pending t) in
     (if affected p tab = 0 then Some ErrNoRows else None, update_where p (cancel now) tab))"

text \<open>The part of \<open>PruneHistory\<close> that concerns the queue.\<close>

definition prune_tasks :: "time \<Rightarrow> task_table \<Rightarrow> task_table" where
  "prune_tasks cutoff tab = filter (\<lambda>t. \<not> (t_Status t \<in> {TaskCompleted, TaskDead, TaskCanceled} \<and>
     t_UpdatedAt t < cutoff)) tab"

subsection \<open>Listings\<close>

text \<open>\<open>jobs\<close> is the \<open>(id, tenant_id)\<close> projection of the jobs table.\<close>



definition in_tenant :: "(string \<times> string) list \<Rightarrow> string \<Rightarrow> string \<Rightarrow> bool" where
  "in_tenant jobs tenant i \<longleftrightarrow> tenant = '''' \<or> (i, tenantOrDefault tenant) \<in> set jobs"

definition taskFilters :: "(string \<times> string) list \<Rightarrow> string \<Rightarrow> string \<Rightarrow> QueuedTask \<Rightarrow> bool" where
  "taskFilters jobs status tenant t \<longleftrightarrow> (status = '''' \<or> t_Status t = status) \<and> in_tenant jobs tenant (t_ID t)"

text \<open>\<open>ORDER BY created_at DESC, id DESC\<close>\<close>

definition newer_task :: "QueuedTask \<Rightarrow> QueuedTask \<Rightarrow> bool" where
  "newer_task a b \<longleftrightarrow> t_CreatedAt b < t_CreatedAt a \<or> (t_CreatedAt b = t_CreatedAt a \<and> t_ID b < t_ID a)"

definition ListTasksTenant :: "(string \<times> string) list \<Rightarrow> int \<Rightarrow> string \<Rightarrow> string \<Rightarrow> task_table \<Rightarrow> QueuedTask list" where
  "ListTasksTenant jobs limit status tenant tab =
     (let n = (if limit \<le> 0 \<or> limit > 500 then 100 else limit)
      in take (nat n) (SliceStable newer_task (filter (taskFilters jobs status tenant) tab)))"

definition task_page_limit :: "int \<Rightarrow> nat" where
  "task_page_limit limit = (if limit \<le> 0 \<or> limit > 101 then 31 else nat limit)"

definition ListTasksPageTenant ::
  "(string \<times> string) list \<Rightarrow> int \<Rightarrow> string \<Rightarrow> string \<Rightarrow> string \<Rightarrow> task_table \<Rightarrow> task_error + QueuedTask list" where
  "ListTasksPageTenant jobs limit status cursor tenant tab =
     (if cursor = '''' then
        Inr (take (task_page_limit limit) (SliceStable newer_task (filter (taskFilters jobs status tenant) tab)))
      else case find (\<lambda>t. t_ID t = cursor \<and> in_tenant jobs tenant (t_ID t)) tab of
        None \<Rightarrow> Inl ErrNoRows
      | Some c \<Rightarrow> (let created = t_CreatedAt c in
          Inr (take (task_page_limit limit) (SliceStable newer_task (filter
            (\<lambda>t. taskFilters jobs status tenant t \<and>
               (t_CreatedAt t < created \<or> (t_CreatedAt t = created \<and> t_ID t < cursor))) tab)))))"

definition CountTasksTenant :: "(string \<times> string) list \<Rightarrow> string \<Rightarrow> string \<Rightarrow> task_table \<Rightarrow> int" where
  "CountTasksTenant jobs status tenant tab = int (affected (taskFilters jobs status tenant) tab)"

text \<open>\<open>SELECT status, COUNT(*) GROUP BY status\<close> over the preset zero counts.\<close>

definition QueueStats :: "task_table \<Rightarrow> (string, int) gmap" where
  "QueueStats tab = fold gincr (map t_Status tab)
     [(TaskQueued, 0), (TaskRunning, 0), (TaskCompleted, 0), (TaskDead, 0), (TaskCanceled, 0)]"

subsection \<open>Workers\<close>

record QueueOptions =
  qo_Workers :: int
  qo_Lease :: duration
  qo_Poll :: duration
  qo_RetryBase :: duration
  qo_WorkerID :: string

definition queue_new :: "string \<Rightarrow> QueueOptions \<Rightarrow> QueueOptions option" where
  "queue_new defaultWorkerID opt =
     (let workers = (if qo_Workers opt \<le> 0 then 1 else qo_Workers opt)
      in if workers > 64 then None
         else Some (opt\<lparr>qo_Workers := workers,
           qo_Lease := lease_or (qo_Lease opt),
           qo_Poll := (if qo_Poll opt \<le> 0 then 500 * millisecond else qo_Poll opt),
           qo_RetryBase := (if qo_RetryBase opt \<le> 0 then 5 * second else qo_RetryBase opt),
           qo_WorkerID := (if qo_WorkerID opt = '''' then defaultWorkerID else qo_WorkerID opt)\<rparr>))"

text \<open>The worker names that \<open>Start\<close> gives its loops.\<close>

definition worker_names :: "QueueOptions \<Rightarrow> string list" where
  "worker_names opt = map (\<lambda>i. qo_WorkerID opt @ ''-'' @ itoa (int i + 1)) [0..<nat (qo_Workers opt)]"

text \<open>What \<open>run\<close> does once the runner returned (\<open>None\<close>: no error); store errors are only logged.\<close>

definition run_finish :: "QueueOptions \<Rightarrow> time \<Rightarrow> string \<Rightarrow> QueuedTask \<Rightarrow> string option \<Rightarrow> task_table \<Rightarrow> task_table" where
  "run_finish opt now w task err tab = (case err of
     None \<Rightarrow> snd (CompleteTask now (t_ID task) w tab)
   | Some message \<Rightarrow> snd (FailTask now (t_ID task) w message (qo_RetryBase opt) tab))"

definition heartbeat_interval :: "duration \<Rightarrow> duration" where
  "heartbeat_interval lease = (let interval = quot lease 3 in if interval < second then second else interval)"

text \<open>One tick of the heartbeat: the renewed table, and whether the run goes on.\<close>

definition heartbeat_tick :: "QueueOptions \<Rightarrow> time \<Rightarrow> string \<Rightarrow> string \<Rightarrow> task_table \<Rightarrow> bool \<times> task_table" where
  "heartbeat_tick opt now w i tab = RenewTaskLease now i w (qo_Lease opt) tab"

subsection \<open>Row invariant\<close>

text \<open>
  A row is running exactly while it is leased to a worker; a queued task has an attempt left; a
  running one has used at least one; the end time is set exactly in the final states; the error
  text of a running task is empty.
\<close>

definition final_status :: "string \<Rightarrow> bool" where
  "final_status s \<longleftrightarrow> s = TaskCompleted \<or> s = TaskDead \<or> s = TaskCanceled"

definition task_ok :: "QueuedTask \<Rightarrow> bool" where
  "task_ok t \<longleftrightarrow>
     (t_Status t = TaskQueued \<or> t_Status t = TaskRunning \<or> final_status (t_Status t)) \<and>
     (t_Status t = TaskRunning \<longleftrightarrow> t_WorkerID t \<noteq> None) \<and>
     (t_Status t = TaskRunning \<longleftrightarrow> t_LeaseUntil t \<noteq> None) \<and>
     0 \<le> t_Attempts t \<and> t_Attempts t \<le> t_MaxAttempts t \<and>
     (t_Status t = TaskQueued \<longrightarrow> t_Attempts t < t_MaxAttempts t) \<and>
     (t_Status t = TaskRunning \<longrightarrow> 1 \<le> t_Attempts t \<and> t_LastError t = Some '''') \<and>
     (final_status (t_Status t) \<longleftrightarrow> t_EndedAt t \<noteq> None)"

definition table_ok :: "task_table \<Rightarrow> bool" where
  "table_ok tab \<longleftrightarrow> table_inv t_ID task_ok tab"

lemma table_ok_distinct: "table_ok tab \<Longrightarrow> distinct (map t_ID tab)"
  by (simp add: table_ok_def table_inv_def)

lemma table_ok_row: "table_ok tab \<Longrightarrow> t \<in> set tab \<Longrightarrow> task_ok t"
  by (simp add: table_ok_def table_inv_def)

lemma final_status_simps [simp]:
  "final_status TaskCompleted" "final_status TaskDead" "final_status TaskCanceled"
  "\<not> final_status TaskQueued" "\<not> final_status TaskRunning"
  by (simp_all add: final_status_def)

text \<open>Every statement on the table keeps the keys and the row invariant.\<close>

interpretation requeue_rows: row_update "expired now" "requeue now" t_ID task_ok for now
  by unfold_locales (auto simp: requeue_def task_ok_def expired_def)

interpretation start_rows: row_update "\<lambda>t. t_ID t = i \<and> t_Status t = TaskQueued" "start_run now l w" t_ID task_ok
  for i now l w
  by unfold_locales (auto simp: start_run_def task_ok_def)

interpretation renew_rows: row_update "leased_by i w"
  "\<lambda>t. t\<lparr>t_LeaseUntil := Some l, t_UpdatedAt := now\<rparr>" t_ID task_ok for i w l now
  by unfold_locales (auto simp: leased_by_def task_ok_def)

interpretation cancel_rows: row_update "\<lambda>t. t_ID t = i \<and> pending t" "cancel now" t_ID task_ok for i now
  by unfold_locales (auto simp: cancel_def task_ok_def pending_def)

interpretation complete_rows: row_update "leased_by i w" "finish now TaskCompleted m" t_ID task_ok for i w now m
  by unfold_locales (auto simp: finish_def leased_by_def task_ok_def)

interpretation dead_rows: row_update "leased_by i w" "finish now TaskDead m" t_ID task_ok for i w now m
  by unfold_locales (auto simp: finish_def leased_by_def task_ok_def)

text \<open>A retry is only written while an attempt is left.\<close>

interpretation retry_rows: row_update "\<lambda>t. leased_by i w t \<and> t_Attempts t < t_MaxAttempts t"
  "retry now d m" t_ID task_ok for i w now d m
  by unfold_locales (auto simp: retry_def leased_by_def task_ok_def)

subsection \<open>Steps\<close>

datatype task_event = Enqueued string | Leased string string | Changed

inductive task_step :: "task_event \<Rightarrow> task_table \<Rightarrow> task_table \<Rightarrow> bool" where
  enqueue: "EnqueueTask now fresh (Some t) maxPending tab = Inr tab' \<Longrightarrow> t_Status t = '''' \<Longrightarrow>
    task_step (Enqueued (t_ID (last tab'))) tab tab'"
| lease: "LeaseTask now now' w lease tab = Inr (t, tab') \<Longrightarrow> task_step (Leased (t_ID t) w) tab tab'"
| renew: "task_step Changed tab (snd (RenewTaskLease now i w lease tab))"
| complete: "task_step Changed tab (snd (CompleteTask now i w tab))"
| fail: "task_step Changed tab (snd (FailTask now i w m base tab))"
| cancel: "task_step Changed tab (snd (CancelTask now i tab))"
| prune: "task_step Changed tab (prune_tasks cutoff tab)"

inductive task_run :: "task_event list \<Rightarrow> task_table \<Rightarrow> task_table \<Rightarrow> bool" where
  nil: "task_run [] tab tab"
| snoc: "task_run es tab tab' \<Longrightarrow> task_step e tab' tab'' \<Longrightarrow> task_run (es @ [e]) tab tab''"

inductive_cases task_stepE: "task_step e tab tab'"

lemma EnqueueTask_Inr:
  assumes "EnqueueTask now fresh (Some t) maxPending tab = Inr tab'"
  obtains r where "tab' = tab @ [r]" "t_ID r \<notin> t_ID ` set tab"
    "t_Status r = (if t_Status t = '''' then TaskQueued else t_Status t)" "t_Attempts r = 0" "t_MaxAttempts r > 0"
    "t_WorkerID r = None" "t_LeaseUntil r = None" "t_EndedAt r = None"
    "t_ID r = (if t_ID t = '''' then fresh else t_ID t)" "t_Priority r = t_Priority t"
    "maxPending > 0 \<longrightarrow> int (affected pending tab) < maxPending"
  using assms by (auto simp: EnqueueTask_def Let_def split: if_splits)

lemma enqueue_table_ok:
  assumes "table_ok tab" and "EnqueueTask now fresh (Some t) maxPending tab = Inr tab'" and "t_Status t = ''''"
  shows "table_ok tab'"
  using EnqueueTask_Inr [OF assms(2)]
proof (cases rule: EnqueueTask_Inr [OF assms(2), case_names new])
  case (new r)
  have "task_ok r" using new assms(3) by (auto simp: task_ok_def)
  with new assms(1) show ?thesis by (simp add: table_ok_def table_inv_append)
qed

text \<open>The task a successful lease returns, and the table it leaves.\<close>

interpretation claim_order: keyed_less claim_before "\<lambda>t. (- t_Priority t, t_CreatedAt t, t_ID t)"
  by unfold_locales (auto simp: claim_before_def)

lemmas find_by_id = find_key [where key = t_ID]

lemma table_ok_requeue: "table_ok tab \<Longrightarrow> table_ok (requeueExpiredTx now tab)"
  unfolding table_ok_def requeueExpiredTx_def by (rule requeue_rows.keeps_table)

lemma LeaseTask_Inr:
  assumes "distinct (map t_ID tab)" and "LeaseTask now now' w lease tab = Inr (t, tab')"
  obtains c where "c \<in> set (requeueExpiredTx now tab)" "claimable now c" "w \<noteq> ''''"
    "\<forall>d \<in> set (requeueExpiredTx now tab). claimable now d \<longrightarrow> d = c \<or> claim_before c d"
    "t = start_run now (now' + lease_or lease) w c"
    "tab' = update_where (\<lambda>r. t_ID r = t_ID c \<and> t_Status r = TaskQueued)
       (start_run now (now' + lease_or lease) w) (requeueExpiredTx now tab)"
proof -
  let ?tab = "requeueExpiredTx now tab" and ?run = "start_run now (now' + lease_or lease) w"
  let ?cands = "SliceStable claim_before (filter (claimable now) ?tab)"
  obtain c cs where cs: "?cands = c # cs"
    using assms(2) by (auto simp: LeaseTask_def Let_def split: list.splits if_splits)
  let ?p = "\<lambda>r. t_ID r = t_ID c \<and> t_Status r = TaskQueued"
  have w: "w \<noteq> ''''" and tab': "tab' = update_where ?p ?run ?tab" and t: "GetTask (t_ID c) tab' = Inr t"
    using assms(2) cs by (auto simp: LeaseTask_def Let_def split: list.splits if_splits sum.splits)
  have "c \<in> set (filter (claimable now) ?tab)"
    using cs by (metis list.set_intros(1) set_SliceStable)
  then have c: "c \<in> set ?tab" "claimable now c" by auto
  have dist: "distinct (map t_ID ?tab)"
    using assms(1) by (simp add: requeueExpiredTx_def)
  have least: "d = c \<or> claim_before c d" if "d \<in> set ?tab" "claimable now d" for d
  proof -
    have "(- t_Priority c, t_CreatedAt c, t_ID c) \<le> (- t_Priority d, t_CreatedAt d, t_ID d)"
      using claim_order.hd_least [of d "filter (claimable now) ?tab"] that cs by simp
    moreover have "t_ID c = t_ID d \<Longrightarrow> c = d"
      using dist c that by (metis distinct_map inj_onD)
    ultimately show ?thesis unfolding claim_order.lt_key by (cases "c = d") (auto simp: less_le)
  qed
  have "?run c \<in> set tab'"
    using start_rows.row_image [of c ?tab "t_ID c" now "now' + lease_or lease" w] c tab' by (simp add: claimable_def)
  moreover have "distinct (map t_ID tab')" using dist tab' by simp
  ultimately have "GetTask (t_ID c) tab' = Inr (?run c)"
    using find_by_id [of tab' "?run c"] by (simp add: GetTask_def start_run_def)
  with t have "t = ?run c" by simp
  with that [OF c w] least tab' show thesis by blast
qed

lemma lease_table_ok:
  assumes "table_ok tab" and "LeaseTask now now' w lease tab = Inr (t, tab')"
  shows "table_ok tab'"
proof (rule LeaseTask_Inr [OF table_ok_distinct [OF assms(1)] assms(2)])
  fix c
  assume "tab' = update_where (\<lambda>r. t_ID r = t_ID c \<and> t_Status r = TaskQueued)
       (start_run now (now' + lease_or lease) w) (requeueExpiredTx now tab)"
  then show ?thesis
    using table_ok_requeue [OF assms(1), of now] start_rows.keeps_table by (simp add: table_ok_def)
qed

lemma fail_table:
  assumes "table_ok tab"
  obtains "snd (FailTask now i w m base tab) = tab"
  | "snd (FailTask now i w m base tab) = update_where (leased_by i w) (finish now TaskDead m) tab"
  | d where "snd (FailTask now i w m base tab) =
      update_where (\<lambda>t. leased_by i w t \<and> t_Attempts t < t_MaxAttempts t) (retry now d m) tab"
proof (cases "GetTask i tab")
  case (Inl e)
  then show thesis using that(1) by (simp add: FailTask_def)
next
  case (Inr t)
  then have t: "t \<in> set tab" "t_ID t = i"
    by (auto simp: GetTask_def split: option.splits dest: find_SomeD)
  have only: "leased_by i w r \<longleftrightarrow> leased_by i w r \<and> t_Attempts r < t_MaxAttempts r"
    if "t_Attempts t < t_MaxAttempts t" "r \<in> set tab" for r
    using that t table_inv_unique [of t_ID task_ok tab r t] assms by (auto simp: table_ok_def leased_by_def)
  then have same: "update_where (leased_by i w) f tab =
      update_where (\<lambda>t. leased_by i w t \<and> t_Attempts t < t_MaxAttempts t) f tab"
    if "t_Attempts t < t_MaxAttempts t" for f
    using that by (auto simp: update_where_def)
  let ?b = "if base \<le> 0 then 5 * second else base"
  consider "t_Status t \<noteq> TaskRunning \<or> null_string (t_WorkerID t) \<noteq> w"
    | "t_Status t = TaskRunning" "null_string (t_WorkerID t) = w" "t_MaxAttempts t \<le> t_Attempts t"
    | "t_Status t = TaskRunning" "null_string (t_WorkerID t) = w" "t_Attempts t < t_MaxAttempts t"
    by linarith
  then show thesis
  proof cases
    case 1
    with Inr that(1) show ?thesis by (simp add: FailTask_def)
  next
    case 2
    with Inr that(2) show ?thesis by (simp add: FailTask_def finishTask_def)
  next
    case 3
    then have "snd (FailTask now i w m base tab) =
        update_where (leased_by i w) (retry now (retry_delay (t_Attempts t) ?b) m) tab"
      using Inr by (simp add: FailTask_def Let_def)
    with 3 same that(3) show ?thesis by simp
  qed
qed

lemma fail_table_ok:
  assumes "table_ok tab"
  shows "table_ok (snd (FailTask now i w m base tab))"
  using assms
  by (cases rule: fail_table [OF assms, where now = now and i = i and w = w and m = m and base = base])
    (simp_all add: table_ok_def dead_rows.keeps_table retry_rows.keeps_table)

lemma task_step_ok: "task_step e tab tab' \<Longrightarrow> table_ok tab \<Longrightarrow> table_ok tab'"
proof (induction rule: task_step.induct)
  case (enqueue now fresh t maxPending tab tab')
  then show ?case using enqueue_table_ok by blast
next
  case (lease now now' w lease tab t tab')
  then show ?case using lease_table_ok by blast
next
  case (renew tab now i w lease)
  then show ?case
    using renew_rows.keeps_table by (simp add: RenewTaskLease_def table_ok_def)
next
  case (complete tab now i w)
  then show ?case
    using complete_rows.keeps_table by (simp add: CompleteTask_def finishTask_def table_ok_def)
next
  case (fail tab now i w m base)
  then show ?case by (rule fail_table_ok)
next
  case (cancel tab now i)
  then show ?case
    using cancel_rows.keeps_table by (simp add: CancelTask_def Let_def table_ok_def)
next
  case (prune tab cutoff)
  then show ?case
    by (simp add: prune_tasks_def table_ok_def table_inv_filter)
qed

lemma task_run_ok: "task_run es tab tab' \<Longrightarrow> table_ok tab \<Longrightarrow> table_ok tab'"
  by (induction rule: task_run.induct) (auto dest: task_step_ok)

text \<open>
  C4. In every table the queue can reach by any interleaving of enqueue, lease, renew, complete,
  fail, cancel and prune transactions, ids are unique and every row satisfies the invariant: it is
  running exactly while a worker and a lease are recorded, attempts never exceed the maximum, a
  queued task has an attempt left, and an end time is recorded exactly in the final states.
\<close>

theorem reachable_tasks_ok:
  assumes "task_run es [] tab"
  shows "distinct (map t_ID tab) \<and> (\<forall>t \<in> set tab. task_ok t)"
  using task_run_ok [OF assms] by (simp add: table_ok_def table_inv_def)

definition new_task :: "string \<Rightarrow> int \<Rightarrow> QueuedTask" where
  "new_task i priority = \<lparr>t_ID = i, t_Type = ''fetch'', t_Options = ''null'', t_Priority = priority,
     t_Status = '''', t_Attempts = 0, t_MaxAttempts = 1, t_AvailableAt = 0, t_LeaseUntil = None,
     t_WorkerID = None, t_LastError = None, t_CreatedAt = 0, t_UpdatedAt = 0, t_StartedAt = None,
     t_EndedAt = None\<rparr>"

definition one_running :: task_table where
  "one_running = [(new_task ''a'' 0)\<lparr>t_Status := TaskRunning, t_Attempts := 1, t_AvailableAt := 1,
     t_LeaseUntil := Some 12, t_WorkerID := Some ''w'', t_LastError := Some '''', t_CreatedAt := 1,
     t_UpdatedAt := 2, t_StartedAt := Some 2\<rparr>]"

lemma enqueue_a: "EnqueueTask 1 ''f'' (Some (new_task ''a'' 0)) 0 [] =
  Inr [(new_task ''a'' 0)\<lparr>t_Status := TaskQueued, t_AvailableAt := 1, t_CreatedAt := 1, t_UpdatedAt := 1\<rparr>]"
  by code_simp

lemma lease_a: "LeaseTask 2 2 ''w'' 10
    [(new_task ''a'' 0)\<lparr>t_Status := TaskQueued, t_AvailableAt := 1, t_CreatedAt := 1, t_UpdatedAt := 1\<rparr>] =
  Inr (hd one_running, one_running)"
  by code_simp

lemma run_one: "task_run [Enqueued ''a'', Leased ''a'' ''w''] [] one_running"
proof -
  have "task_run [Enqueued ''a''] []
      [(new_task ''a'' 0)\<lparr>t_Status := TaskQueued, t_AvailableAt := 1, t_CreatedAt := 1, t_UpdatedAt := 1\<rparr>]"
    using task_run.snoc [OF task_run.nil task_step.enqueue [OF enqueue_a]] by (simp add: new_task_def)
  from task_run.snoc [OF this task_step.lease [OF lease_a]] show ?thesis
    by (simp add: one_running_def new_task_def)
qed

theorem reachable_tasks_ok_witness: "task_ok (hd one_running)"
  using reachable_tasks_ok [OF run_one] by (simp add: one_running_def)

subsection \<open>What a step does to one row\<close>

definition leases :: "string \<Rightarrow> task_event list \<Rightarrow> int" where
  "leases i es = int (length (filter (\<lambda>e. \<exists>w. e = Leased i w) es))"

lemma leases_snoc [simp]:
  "leases i (es @ [e]) = leases i es + (if \<exists>w. e = Leased i w then 1 else 0)"
  "leases i [] = 0"
  by (simp_all add: leases_def)

text \<open>The row \<open>t'\<close> after a step that came from row \<open>t\<close>, with \<open>n\<close> new leases.\<close>

definition follows :: "int \<Rightarrow> QueuedTask \<Rightarrow> QueuedTask \<Rightarrow> bool" where
  "follows n t t' \<longleftrightarrow> t_ID t' = t_ID t \<and> t_MaxAttempts t' = t_MaxAttempts t \<and>
     t_Attempts t' = t_Attempts t + n \<and> (final_status (t_Status t) \<longrightarrow> t' = t)"

lemma follows_refl [simp]: "follows 0 t t"
  by (simp add: follows_def)

lemma follows_update:
  assumes "t' \<in> set (update_where p f tab)"
    and "\<And>t. p t \<Longrightarrow> follows 0 t (f t)"
  shows "\<exists>t \<in> set tab. follows 0 t t'"
  using assms by (force simp: set_update_where)

lemma follows_rows:
  "expired now t \<Longrightarrow> follows 0 t (requeue now t)"
  "leased_by i w t \<Longrightarrow> follows 0 t (t\<lparr>t_LeaseUntil := l, t_UpdatedAt := now\<rparr>)"
  "leased_by i w t \<Longrightarrow> follows 0 t (finish now s m t)"
  "leased_by i w t \<and> t_Attempts t < t_MaxAttempts t \<Longrightarrow> follows 0 t (retry now d m t)"
  "t_ID t = i \<and> pending t \<Longrightarrow> follows 0 t (cancel now t)"
  by (auto simp: follows_def expired_def leased_by_def pending_def requeue_def finish_def retry_def cancel_def)

lemma lease_row:
  assumes "table_ok tab" and "LeaseTask now now' w lease tab = Inr (t, tab')"
    and "t' \<in> set tab'"
  shows "\<exists>r \<in> set tab. follows (if t_ID t' = t_ID t then 1 else 0) r t'"
proof (rule LeaseTask_Inr [OF table_ok_distinct [OF assms(1)] assms(2)])
  fix c
  let ?tab = "requeueExpiredTx now tab" and ?run = "start_run now (now' + lease_or lease) w"
  assume c: "c \<in> set ?tab" "claimable now c" and t: "t = ?run c"
    and tab': "tab' = update_where (\<lambda>r. t_ID r = t_ID c \<and> t_Status r = TaskQueued) ?run ?tab"
  have ok: "table_ok ?tab" using assms(1) by (rule table_ok_requeue)
  obtain q where q: "q \<in> set ?tab" "t' = (if t_ID q = t_ID c \<and> t_Status q = TaskQueued then ?run q else q)"
    using assms(3) tab' by (auto simp: set_update_where)
  have "t_ID q = t_ID c \<Longrightarrow> q = c"
    using table_inv_unique ok c q by (metis table_ok_def)
  then have "follows (if t_ID t' = t_ID t then 1 else 0) q t'"
    using q c t by (auto simp: follows_def start_run_def claimable_def)
  moreover obtain r where "r \<in> set tab" "follows 0 r q"
    using follows_update [of q "expired now" "requeue now" tab] follows_rows(1) q
    by (auto simp: requeueExpiredTx_def)
  ultimately have "follows (if t_ID t' = t_ID t then 1 else 0) r t'"
    by (auto simp: follows_def split: if_splits)
  then show ?thesis using \<open>r \<in> set tab\<close> by blast
qed

lemma fail_row:
  assumes "table_ok tab" and "t' \<in> set (snd (FailTask now i w m base tab))"
  shows "\<exists>r \<in> set tab. follows 0 r t'"
proof (cases rule: fail_table [OF assms(1), where now = now and i = i and w = w and m = m and base = base])
  case 1
  with assms show ?thesis by force
next
  case 2
  with assms(2) have "t' \<in> set (update_where (leased_by i w) (finish now TaskDead m) tab)" by simp
  then show ?thesis by (rule follows_update) (rule follows_rows(3))
next
  case (3 d)
  with assms(2) have "t' \<in> set (update_where (\<lambda>t. leased_by i w t \<and> t_Attempts t < t_MaxAttempts t) (retry now d m) tab)"
    by simp
  then show ?thesis by (rule follows_update) (rule follows_rows(4))
qed

lemma step_row:
  assumes "task_step e tab tab'" and "table_ok tab" and "t' \<in> set tab'" and "e \<noteq> Enqueued (t_ID t')"
  shows "\<exists>r \<in> set tab. follows (leases (t_ID t') [e]) r t'"
  using assms(1)
proof (cases rule: task_step.cases)
  case (enqueue now fresh t maxPending)
  then obtain r where "tab' = tab @ [r]" using EnqueueTask_Inr by metis
  with enqueue assms have "t' \<in> set tab" by auto
  moreover have "leases (t_ID t') [e] = 0" using enqueue by (simp add: leases_def)
  ultimately show ?thesis using follows_refl by force
next
  case (lease now now' w lease t)
  then have "leases (t_ID t') [e] = (if t_ID t' = t_ID t then 1 else 0)"
    by (simp add: leases_def)
  then show ?thesis using lease_row [OF assms(2) lease(2) assms(3)] by simp
next
  case (renew now i w lease)
  then show ?thesis
    using follows_update [OF _ follows_rows(2)] assms(3) by (simp add: RenewTaskLease_def leases_def)
next
  case (complete now i w)
  then show ?thesis
    using follows_update [OF _ follows_rows(3)] assms(3) by (simp add: CompleteTask_def finishTask_def leases_def)
next
  case (fail now i w m base)
  then show ?thesis using fail_row [OF assms(2)] assms(3) by (simp add: leases_def)
next
  case (cancel now i)
  then show ?thesis
    using follows_update [OF _ follows_rows(5)] assms(3) by (simp add: CancelTask_def Let_def leases_def)
next
  case (prune cutoff)
  then have "t' \<in> set tab" using assms(3) by (simp add: prune_tasks_def)
  moreover have "leases (t_ID t') [e] = 0" using prune by (simp add: leases_def)
  ultimately show ?thesis using follows_refl by force
qed

lemma lease_needs_row:
  assumes "task_step (Leased i w) tab tab'" and "table_ok tab"
  shows "i \<in> t_ID ` set tab'"
  using assms(1)
proof (cases rule: task_step.cases)
  case (lease now now' lease t)
  show ?thesis
  proof (rule LeaseTask_Inr [OF table_ok_distinct [OF assms(2)] lease(2)])
    fix c
    let ?run = "start_run now (now' + lease_or lease) w"
    assume "c \<in> set (requeueExpiredTx now tab)" "claimable now c" "t = ?run c"
      "tab' = update_where (\<lambda>r. t_ID r = t_ID c \<and> t_Status r = TaskQueued) ?run (requeueExpiredTx now tab)"
    then have "t \<in> set tab'"
      by (auto simp: set_update_where claimable_def)
    with lease show ?thesis by auto
  qed
qed

text \<open>
  Along a run in which the task is not enqueued anew, its row follows the original one, and its
  attempts count its leases; a row that disappears (pruned) is never leased again.
\<close>

lemma run_row:
  assumes "task_run es tab tab'" and "table_ok tab" and "t \<in> set tab"
    and "Enqueued (t_ID t) \<notin> set es"
  shows "(\<exists>t' \<in> set tab'. follows (leases (t_ID t) es) t t') \<or>
    (t_ID t \<notin> t_ID ` set tab' \<and> leases (t_ID t) es \<le> t_MaxAttempts t - t_Attempts t)"
  using assms
proof (induction rule: task_run.induct)
  case (nil tab)
  then show ?case by simp (metis follows_refl)
next
  case (snoc es tab mid e tab')
  let ?i = "t_ID t"
  have ok: "table_ok mid" "table_ok tab'"
    using snoc task_run_ok task_step_ok by blast+
  have leased: "(\<exists>w. e = Leased ?i w) \<Longrightarrow> ?i \<in> t_ID ` set tab'"
    using snoc.hyps(2) ok lease_needs_row by blast
  have from_row: "\<exists>r \<in> set mid. follows (leases ?i [e]) r t'" if "t' \<in> set tab'" "t_ID t' = ?i" for t'
    using step_row [OF snoc.hyps(2) ok(1) that(1)] snoc.prems(3) that(2) by auto
  show ?case
  proof (cases "?i \<in> t_ID ` set tab'")
    case True
    then obtain t' where t': "t' \<in> set tab'" "t_ID t' = ?i" by (metis imageE)
    then obtain r where r: "r \<in> set mid" "follows (leases ?i [e]) r t'"
      using from_row by blast
    with t' have "?i \<in> t_ID ` set mid" by (auto simp: follows_def intro: rev_image_eqI)
    then obtain t'' where "t'' \<in> set mid" "follows (leases ?i es) t t''"
      using snoc.IH snoc.prems by auto
    moreover have "t_ID r = t_ID t''"
      using r(2) t'(2) calculation(2) by (simp add: follows_def)
    then have "r = t''"
      using table_inv_unique [of t_ID task_ok mid r t''] ok(1) r(1) calculation(1) by (simp add: table_ok_def)
    ultimately have "follows (leases ?i (es @ [e])) t t'"
      using r by (auto simp: follows_def leases_def)
    then show ?thesis using t' by blast
  next
    case False
    then have "\<not> (\<exists>w. e = Leased ?i w)" using leased by blast
    moreover have "leases ?i es \<le> t_MaxAttempts t - t_Attempts t"
      using snoc.IH snoc.prems ok(1) table_ok_row by (fastforce simp: follows_def task_ok_def)
    ultimately show ?thesis using False by simp
  qed
qed

text \<open>
  C5. No task is ever handed out more often than its maximum: however the transactions of any
  number of workers interleave, with crashes, expired leases and retries, the number of leases of a
  task in a run is at most the attempts it had left at its start.
\<close>

theorem leases_bounded:
  assumes "task_run es tab tab'" and "table_ok tab" and "t \<in> set tab" and "Enqueued (t_ID t) \<notin> set es"
  shows "leases (t_ID t) es \<le> t_MaxAttempts t - t_Attempts t"
proof -
  have "table_ok tab'" using assms task_run_ok by blast
  then have "leases (t_ID t) es \<le> t_MaxAttempts t - t_Attempts t"
    if "t' \<in> set tab'" "follows (leases (t_ID t) es) t t'" for t'
    using that table_ok_row by (force simp: follows_def task_ok_def)
  then show ?thesis using run_row [OF assms] by blast
qed

definition queued_a :: QueuedTask where
  "queued_a = (new_task ''a'' 0)\<lparr>t_Status := TaskQueued, t_AvailableAt := 1, t_CreatedAt := 1, t_UpdatedAt := 1\<rparr>"

lemma queued_a_ok: "table_ok [queued_a]"
  by (simp add: table_ok_def table_inv_def task_ok_def queued_a_def new_task_def)

lemma run_lease_a: "task_run [Leased ''a'' ''w''] [queued_a] one_running"
  using task_run.snoc [OF task_run.nil task_step.lease [OF lease_a]]
  by (simp add: one_running_def new_task_def queued_a_def)

theorem leases_bounded_witness: "leases ''a'' [Leased ''a'' ''w''] \<le> 1"
  using leases_bounded [OF run_lease_a queued_a_ok, of queued_a] by (simp add: queued_a_def new_task_def)

text \<open>
  Completed, dead and canceled are final: no later transaction changes such a row (it can
  only be pruned), so a late report of a worker cannot revive or relabel a finished task.
\<close>

lemma final_absorbing:
  assumes "task_run es tab tab'" and "table_ok tab" and "t \<in> set tab" and "Enqueued (t_ID t) \<notin> set es"
    and "final_status (t_Status t)"
  shows "t \<in> set tab' \<or> t_ID t \<notin> t_ID ` set tab'"
  using run_row [OF assms(1-4)] assms(5) by (auto simp: follows_def)

definition done_a :: QueuedTask where
  "done_a = (hd one_running)\<lparr>t_Status := TaskCompleted, t_LeaseUntil := None, t_WorkerID := None,
     t_UpdatedAt := 3, t_EndedAt := Some 3\<rparr>"

lemma done_a_ok: "table_ok [done_a]"
  by (simp add: table_ok_def table_inv_def task_ok_def done_a_def one_running_def new_task_def)

subsection \<open>Leasing\<close>

text \<open>
  A successful lease takes the best claimable task (highest priority, then oldest, then least
  id, also counting the tasks just returned from expired leases), records the worker, one more
  attempt and the new lease end, and leaves every task with an unexpired lease exactly as it was:
  a live lease is never taken away.
\<close>

lemma LeaseTask_ok:
  assumes "table_ok tab" and "LeaseTask now now' w lease tab = Inr (t, tab')"
  shows "t \<in> set tab' \<and> leased_by (t_ID t) w t \<and> t_LeaseUntil t = Some (now' + lease_or lease) \<and>
    (\<exists>c \<in> set (requeueExpiredTx now tab). claimable now c \<and> t = start_run now (now' + lease_or lease) w c \<and>
       (\<forall>d \<in> set (requeueExpiredTx now tab). claimable now d \<longrightarrow> d = c \<or> claim_before c d)) \<and>
    (\<forall>r \<in> set tab. t_Status r = TaskRunning \<and> \<not> expired now r \<longrightarrow> r \<in> set tab')"
proof (rule LeaseTask_Inr [OF table_ok_distinct [OF assms(1)] assms(2)])
  fix c
  let ?run = "start_run now (now' + lease_or lease) w"
  assume c: "c \<in> set (requeueExpiredTx now tab)" "claimable now c" and t: "t = ?run c"
    and least: "\<forall>d \<in> set (requeueExpiredTx now tab). claimable now d \<longrightarrow> d = c \<or> claim_before c d"
    and tab': "tab' = update_where (\<lambda>r. t_ID r = t_ID c \<and> t_Status r = TaskQueued) ?run (requeueExpiredTx now tab)"
  have "r \<in> set tab'" if "r \<in> set tab" "t_Status r = TaskRunning" "\<not> expired now r" for r
    using that tab' by (force simp: set_update_where requeueExpiredTx_def)
  moreover have "t \<in> set tab'" using tab' t c by (auto simp: set_update_where claimable_def)
  moreover have "leased_by (t_ID t) w t" "t_LeaseUntil t = Some (now' + lease_or lease)"
    using t by (simp_all add: leased_by_def start_run_def)
  ultimately show ?thesis using c t least by blast
qed

lemma claimable_requeued:
  assumes "table_ok tab"
  shows "(\<exists>c \<in> set (requeueExpiredTx now tab). claimable now c) \<longleftrightarrow>
    (\<exists>t \<in> set tab. claimable now t \<or> (expired now t \<and> t_Attempts t < t_MaxAttempts t))"
proof -
  have "claimable now (if expired now t then requeue now t else t) \<longleftrightarrow>
      claimable now t \<or> (expired now t \<and> t_Attempts t < t_MaxAttempts t)" for t
    by (auto simp: claimable_def expired_def requeue_def)
  then show ?thesis unfolding requeueExpiredTx_def update_where_def set_map by blast
qed

lemma lease_success:
  assumes "table_ok tab" and "w \<noteq> ''''" and "c \<in> set (requeueExpiredTx now tab)" and "claimable now c"
  shows "\<exists>t tab'. LeaseTask now now' w lease tab = Inr (t, tab')"
proof -
  let ?tab = "requeueExpiredTx now tab" and ?run = "start_run now (now' + lease_or lease) w"
  have "c \<in> set (SliceStable claim_before (filter (claimable now) ?tab))" using assms(3,4) by simp
  then obtain b bs where b: "SliceStable claim_before (filter (claimable now) ?tab) = b # bs"
    by (cases "SliceStable claim_before (filter (claimable now) ?tab)") auto
  then have "b \<in> set (filter (claimable now) ?tab)" by (metis list.set_intros(1) set_SliceStable)
  then have q: "b \<in> set ?tab" "t_Status b = TaskQueued" by (auto simp: claimable_def)
  let ?p = "\<lambda>t. t_ID t = t_ID b \<and> t_Status t = TaskQueued"
  have dist: "distinct (map t_ID ?tab)"
    using assms(1) table_ok_requeue table_ok_distinct by blast
  have one: "affected ?p ?tab = 1"
    using affected_by_key [OF dist q(1), of ?p] q(2) by simp
  have "?run b \<in> set (update_where ?p ?run ?tab)" using q by (auto simp: set_update_where)
  moreover have "distinct (map t_ID (update_where ?p ?run ?tab))" using dist by simp
  ultimately have "GetTask (t_ID b) (update_where ?p ?run ?tab) = Inr (?run b)"
    using find_by_id [of "update_where ?p ?run ?tab" "?run b"] by (simp add: GetTask_def start_run_def)
  then show ?thesis using b one assms(2) by (simp add: LeaseTask_def Let_def)
qed

lemma lease_nothing:
  assumes "\<not> (\<exists>c \<in> set (requeueExpiredTx now tab). claimable now c)" and "w \<noteq> ''''"
  shows "LeaseTask now now' w lease tab = Inl ErrNoRows"
proof -
  have "filter (claimable now) (requeueExpiredTx now tab) = []" using assms(1) by (simp add: filter_empty_conv)
  then show ?thesis using assms(2) by (simp add: LeaseTask_def Let_def SliceStable_def)
qed

text \<open>
  C6. A worker that asks gets a task exactly when there is one to run: a queued task whose time
  has come, or a running one whose lease expired and that has attempts left. Otherwise the answer is
  \<open>sql.ErrNoRows\<close>.
\<close>

theorem LeaseTask_available:
  assumes "table_ok tab" and "w \<noteq> ''''"
  shows "if \<exists>t \<in> set tab. claimable now t \<or> (expired now t \<and> t_Attempts t < t_MaxAttempts t)
    then \<exists>t tab'. LeaseTask now now' w lease tab = Inr (t, tab')
    else LeaseTask now now' w lease tab = Inl ErrNoRows"
  using claimable_requeued [OF assms(1), of now] lease_success [OF assms] lease_nothing [OF _ assms(2)]
  by (metis (full_types))

theorem LeaseTask_available_witness: "\<exists>t tab'. LeaseTask 5 5 ''w'' 10 [queued_a] = Inr (t, tab')"
  using LeaseTask_available [OF queued_a_ok, of "''w''" 5 5 10]
  by (simp add: queued_a_def new_task_def claimable_def)

text \<open>
  A task whose worker died on the last attempt can stay \<open>running\<close> for ever: the update that
  would mark it dead runs in the transaction of \<open>LeaseTask\<close>, which is rolled back when there is no
  other task to lease. While the queue is otherwise idle no lease succeeds at any time, and the task
  keeps counting as pending, so a queue of capacity one refuses every new task.
\<close>

lemma exhausted_task_stuck:
  "\<forall>now > 12. expired now (hd one_running) \<and>
     LeaseTask now now' ''v'' lease one_running = Inl ErrNoRows \<and>
     EnqueueTask now ''f'' (Some (new_task ''b'' 0)) 1 one_running = Inl ErrQueueFull"
proof (intro allI impI conjI)
  fix now :: int
  assume "now > 12"
  then show "expired now (hd one_running)"
    by (simp add: one_running_def expired_def)
  show "EnqueueTask now ''f'' (Some (new_task ''b'' 0)) 1 one_running = Inl ErrQueueFull"
    by (simp add: EnqueueTask_def one_running_def new_task_def affected_def pending_def)
  show "LeaseTask now now' ''v'' lease one_running = Inl ErrNoRows"
    by (rule lease_nothing)
      (auto simp: requeueExpiredTx_def update_where_def one_running_def new_task_def claimable_def requeue_def)
qed

subsection \<open>Fencing, capacity and backoff\<close>

text \<open>
  C7. A worker that lost its lease can no longer act on the task: unless the row is running under
  its (non-empty) name, completing, failing and renewing report it and change nothing.
\<close>

theorem lost_lease_is_fenced:
  assumes "\<forall>t \<in> set tab. \<not> leased_by i w t" and "w \<noteq> ''''"
  shows "CompleteTask now i w tab = (Some (NotLeased i), tab) \<and> RenewTaskLease now i w lease tab = (False, tab) \<and>
    fst (FailTask now i w m base tab) \<noteq> None \<and> snd (FailTask now i w m base tab) = tab"
proof -
  have none: "affected (leased_by i w) tab = 0" and same: "update_where (leased_by i w) f tab = tab" for f
    using assms by (auto simp: affected_0 update_where_none)
  have fin: "finishTask now i w s m tab = (Some (NotLeased i), tab)" for s m
    using none same by (simp add: finishTask_def)
  have "fst (FailTask now i w m base tab) \<noteq> None \<and> snd (FailTask now i w m base tab) = tab"
  proof (cases "GetTask i tab")
    case (Inl e)
    then show ?thesis by (simp add: FailTask_def)
  next
    case (Inr t)
    then have "t \<in> set tab" "t_ID t = i"
      by (auto simp: GetTask_def split: option.splits dest: find_SomeD)
    then have "\<not> leased_by i w t" using assms by blast
    then have "t_Status t \<noteq> TaskRunning \<or> null_string (t_WorkerID t) \<noteq> w"
      using \<open>t_ID t = i\<close> assms(2) by (auto simp: leased_by_def null_string_def split: option.splits)
    then show ?thesis
      using Inr by (auto simp: FailTask_def)
  qed
  then show ?thesis
    using none same fin by (simp add: CompleteTask_def RenewTaskLease_def)
qed

theorem lost_lease_is_fenced_witness:
  "CompleteTask 20 ''a'' ''v'' one_running = (Some (NotLeased ''a''), one_running)"
  using lost_lease_is_fenced [of one_running "''a''" "''v''" 20]
  by (simp add: one_running_def leased_by_def)

lemma affected_mono:
  assumes "\<And>r. q r \<Longrightarrow> p r"
  shows "affected p (update_where q f tab) \<le> affected p tab"
  unfolding affected_def update_where_def using assms by (induction tab) auto

lemma pending_rows:
  "expired now t \<Longrightarrow> pending t" "leased_by i w t \<Longrightarrow> pending t" "t_Status t = TaskQueued \<Longrightarrow> pending t"
  by (simp_all add: expired_def leased_by_def pending_def)

lemma pending_update:
  "affected pending (update_where (\<lambda>t. t_ID t = i \<and> t_Status t = TaskQueued) f tab) \<le> affected pending tab"
  "affected pending (update_where (\<lambda>t. leased_by i w t \<and> t_Attempts t < t_MaxAttempts t) f tab) \<le> affected pending tab"
  "affected pending (update_where (leased_by i w) f tab) \<le> affected pending tab"
  "affected pending (update_where (\<lambda>t. t_ID t = i \<and> pending t) f tab) \<le> affected pending tab"
  by (rule affected_mono; auto simp: pending_def leased_by_def)+

lemma lease_pending:
  assumes "table_ok tab" and "LeaseTask now now' w lease tab = Inr (t, tab')"
  shows "affected pending tab' \<le> affected pending tab"
proof (rule LeaseTask_Inr [OF table_ok_distinct [OF assms(1)] assms(2)])
  fix c
  assume "tab' = update_where (\<lambda>r. t_ID r = t_ID c \<and> t_Status r = TaskQueued)
     (start_run now (now' + lease_or lease) w) (requeueExpiredTx now tab)"
  then have "affected pending tab' \<le> affected pending (requeueExpiredTx now tab)"
    by (simp add: pending_update)
  also have "\<dots> \<le> affected pending tab"
    unfolding requeueExpiredTx_def by (rule affected_mono) (rule pending_rows)
  finally show ?thesis .
qed



lemma leased_get:
  assumes "table_ok tab" and "t \<in> set tab" and "leased_by i w t"
  shows "GetTask i tab = Inr t" and "affected (leased_by i w) tab = 1"
    and "f t \<in> set (update_where (leased_by i w) f tab)"
proof -
  have id: "t_ID t = i" using assms(3) by (simp add: leased_by_def)
  show "GetTask i tab = Inr t"
    using find_by_id [OF table_ok_distinct [OF assms(1)] assms(2)] id by (simp add: GetTask_def)
  show "affected (leased_by i w) tab = 1"
    using affected_by_key [OF table_ok_distinct [OF assms(1)] assms(2), of "leased_by i w"] assms(3)
    by (simp add: leased_by_def)
  show "f t \<in> set (update_where (leased_by i w) f tab)"
    using assms(2,3) by (auto simp: set_update_where)
qed

text \<open>What the end of a run makes of its task.\<close>

lemma run_finish_row:
  assumes "table_ok tab" and "t \<in> set tab" and "leased_by (t_ID t) w t"
  shows "\<exists>t' \<in> set (run_finish opt now w t err tab). t_ID t' = t_ID t \<and>
    t_Status t' = (if err = None then TaskCompleted else if t_Attempts t < t_MaxAttempts t then TaskQueued else TaskDead)"
proof -
  have run: "t_Status t = TaskRunning" "t_WorkerID t = Some w" using assms(3) by (simp_all add: leased_by_def)
  note row = leased_get(3) [OF assms]
  consider "err = None" | m where "err = Some m" "t_Attempts t < t_MaxAttempts t" | m where "err = Some m" "\<not> t_Attempts t < t_MaxAttempts t"
    by (cases err) auto
  then show ?thesis
  proof cases
    case 1
    then have "finish now TaskCompleted '''' t \<in> set (run_finish opt now w t err tab)"
      using row by (simp add: run_finish_def CompleteTask_def finishTask_def)
    with 1 show ?thesis by (intro bexI) (simp_all add: finish_def)
  next
    case (2 m)
    let ?delay = "retry_delay (t_Attempts t) (if qo_RetryBase opt \<le> 0 then 5 * second else qo_RetryBase opt)"
    have "retry now ?delay m t \<in> set (run_finish opt now w t err tab)"
      using 2 run leased_get(1) [OF assms] row by (simp add: run_finish_def FailTask_def null_string_def Let_def)
    with 2 show ?thesis by (intro bexI) (simp_all add: retry_def)
  next
    case (3 m)
    then have "finish now TaskDead m t \<in> set (run_finish opt now w t err tab)"
      using run leased_get(1) [OF assms] row by (simp add: run_finish_def FailTask_def null_string_def finishTask_def)
    with 3 show ?thesis by (intro bexI) (simp_all add: finish_def)
  qed
qed

text \<open>
  A failed attempt that leaves attempts is retried after a delay that doubles with every
  attempt, as long as the doubled delay fits 64 bits; otherwise the task is dead.
\<close>

lemma FailTask_backoff:
  assumes "table_ok tab" and "t \<in> set tab" and "leased_by i w t" and "0 < base"
    and "2 ^ nat (t_Attempts t - 1) * base < 2 ^ 63"
  shows "fst (FailTask now i w m base tab) = None \<and>
    (\<exists>t' \<in> set (snd (FailTask now i w m base tab)). t_ID t' = i \<and> t_LastError t' = Some m \<and>
       (if t_Attempts t < t_MaxAttempts t
        then t_Status t' = TaskQueued \<and> t_AvailableAt t' = now + 2 ^ nat (t_Attempts t - 1) * base
        else t_Status t' = TaskDead \<and> t_EndedAt t' = Some now))"
proof -
  have id: "t_ID t = i" "t_Status t = TaskRunning" "t_WorkerID t = Some w"
    using assms(3) by (simp_all add: leased_by_def)
  note get = leased_get(1) [OF assms(1-3)] and one = leased_get(2) [OF assms(1-3)] and row = leased_get(3) [OF assms(1-3)]
  have a: "1 \<le> t_Attempts t" using table_ok_row [OF assms(1,2)] id by (simp add: task_ok_def)
  show ?thesis
  proof (cases "t_Attempts t < t_MaxAttempts t")
    case True
    have "(2::int) ^ nat (t_Attempts t - 1) < 2 ^ 63"
      using assms(4,5) by (smt (verit) mult_le_cancel_left1 zero_less_power)
    then have "nat (t_Attempts t - 1) < 63" by (rule power_less_imp_less_exp [rotated]) simp
    then have "retry_delay (t_Attempts t) base = 2 ^ nat (t_Attempts t - 1) * base"
      using a assms(4,5) by (simp add: retry_delay_def pow2_duration_def wrap64_id order.trans [of _ 0])
    then have "FailTask now i w m base tab =
        (None, update_where (leased_by i w) (retry now (2 ^ nat (t_Attempts t - 1) * base) m) tab)"
      using get id True assms(4) by (simp add: FailTask_def null_string_def Let_def)
    then show ?thesis
      using True id by simp (rule bexI [OF _ row], simp add: retry_def)
  next
    case False
    then have "FailTask now i w m base tab = (None, update_where (leased_by i w) (finish now TaskDead m) tab)"
      using get id one by (simp add: FailTask_def null_string_def finishTask_def)
    then show ?thesis
      using False id by simp (rule bexI [OF _ row], simp add: finish_def)
  qed
qed

definition two_attempts :: task_table where
  "two_attempts = [(hd one_running)\<lparr>t_Attempts := 2, t_MaxAttempts := 4\<rparr>]"

text \<open>
  Beyond that range the delay wraps: with the default base of five seconds the 32nd failure
  of a task (\<open>queue.max_attempts\<close> has no upper bound) is scheduled centuries in the past, that is at once.
\<close>

lemma backoff_wraps: "retry_delay 31 (5 * second) = 2 ^ 30 * (5 * second) \<and> retry_delay 32 (5 * second) < 0"
  by code_simp

subsection \<open>Paging\<close>

interpretation task_pages: keyset newer_task t_ID
  by unfold_locales (auto simp: newer_task_def)

lemma page_is_keyset_page:
  assumes "distinct (map t_ID tab)" and "c \<in> set tab" and "in_tenant jobs tenant (t_ID c)" and "t_ID c \<noteq> ''''"
  shows "ListTasksPageTenant jobs limit status (t_ID c) tenant tab =
    Inr (page_after newer_task (task_page_limit limit) (Some c) (filter (taskFilters jobs status tenant) tab))"
proof -
  have "find (\<lambda>t. t_ID t = t_ID c \<and> in_tenant jobs tenant (t_ID t)) tab = Some c"
    using assms by (induction tab) (auto simp: image_iff)
  moreover have "(\<lambda>t. taskFilters jobs status tenant t \<and>
       (t_CreatedAt t < t_CreatedAt c \<or> (t_CreatedAt t = t_CreatedAt c \<and> t_ID t < t_ID c))) =
     (\<lambda>t. taskFilters jobs status tenant t \<and> newer_task c t)"
    by (auto simp: newer_task_def)
  ultimately show ?thesis
    using assms(4) by (simp add: ListTasksPageTenant_def page_after_def Let_def)
qed

text \<open>A client of the task list that passes the id of the last row as the next cursor.\<close>

fun read_task_pages :: "(string \<times> string) list \<Rightarrow> int \<Rightarrow> string \<Rightarrow> string \<Rightarrow> task_table \<Rightarrow> nat \<Rightarrow> string \<Rightarrow> QueuedTask list" where
  "read_task_pages jobs limit status tenant tab 0 cursor = []"
| "read_task_pages jobs limit status tenant tab (Suc fuel) cursor =
     (case ListTasksPageTenant jobs limit status cursor tenant tab of
        Inl e \<Rightarrow> []
      | Inr [] \<Rightarrow> []
      | Inr page \<Rightarrow> page @ read_task_pages jobs limit status tenant tab fuel (t_ID (last page)))"

lemma read_task_pages_keyset:
  assumes "distinct (map t_ID tab)" and "\<forall>t \<in> set tab. t_ID t \<noteq> ''''"
    and "case cursor of None \<Rightarrow> True | Some c \<Rightarrow> c \<in> set tab \<and> in_tenant jobs tenant (t_ID c)"
  shows "read_task_pages jobs limit status tenant tab fuel (case cursor of None \<Rightarrow> '''' | Some c \<Rightarrow> t_ID c) =
    read_pages newer_task (task_page_limit limit) (filter (taskFilters jobs status tenant) tab) fuel cursor"
  using assms(3)
proof (induction fuel arbitrary: cursor)
  case 0
  show ?case by simp
next
  case (Suc fuel)
  let ?page = "page_after newer_task (task_page_limit limit) cursor (filter (taskFilters jobs status tenant) tab)"
  have list: "ListTasksPageTenant jobs limit status (case cursor of None \<Rightarrow> '''' | Some c \<Rightarrow> t_ID c) tenant tab = Inr ?page"
    using Suc.prems assms(1,2) page_is_keyset_page [OF assms(1), of _ jobs tenant limit status]
    by (cases cursor) (simp_all add: ListTasksPageTenant_def page_after_def)
  show ?case
  proof (cases ?page)
    case Nil
    with list show ?thesis by simp
  next
    case (Cons p ps)
    then have "last ?page \<in> set ?page" by simp
    then have "last ?page \<in> set tab \<and> in_tenant jobs tenant (t_ID (last ?page))"
      unfolding page_after_def by (auto dest!: in_set_takeD simp: taskFilters_def)
    with Suc.IH [of "Some (last ?page)"] list Cons show ?thesis by simp
  qed
qed

text \<open>
  C9. Paging through the task list (any filter, tenant and page size) returns every matching task
  exactly once, newest first, whatever order the rows are stored in; no task is lost or repeated
  between pages, also when many tasks share a creation time.
\<close>

theorem task_pages_complete:
  assumes "distinct (map t_ID tab)" and "\<forall>t \<in> set tab. t_ID t \<noteq> ''''" and "length tab < fuel"
  shows "read_task_pages jobs limit status tenant tab fuel '''' =
    SliceStable newer_task (filter (taskFilters jobs status tenant) tab)"
proof -
  let ?rows = "filter (taskFilters jobs status tenant) tab"
  have "distinct (map t_ID ?rows)" using assms(1) by (simp add: distinct_map_filter)
  moreover have "task_page_limit limit > 0" by (simp add: task_page_limit_def)
  moreover have "length ?rows < fuel" using assms(3) by (meson le_less_trans length_filter_le)
  ultimately have "read_pages newer_task (task_page_limit limit) ?rows fuel None = SliceStable newer_task ?rows"
    by (rule task_pages.read_pages_all)
  with read_task_pages_keyset [OF assms(1,2), where cursor = None] show ?thesis by simp
qed

theorem task_pages_complete_witness:
  "read_task_pages [] 1 '''' '''' [queued_a, queued_a\<lparr>t_ID := ''b''\<rparr>] 3 '''' =
     SliceStable newer_task (filter (taskFilters [] '''' '''') [queued_a, queued_a\<lparr>t_ID := ''b''\<rparr>])"
  by (rule task_pages_complete) (simp_all add: queued_a_def new_task_def)

subsection \<open>Workers and heartbeat\<close>

lemma queue_new_options:
  "queue_new d opt = Some opt' \<Longrightarrow> 1 \<le> qo_Workers opt' \<and> qo_Workers opt' \<le> 64 \<and> 0 < qo_Lease opt' \<and>
     0 < qo_Poll opt' \<and> 0 < qo_RetryBase opt'"
  by (auto simp: queue_new_def Let_def lease_or_def minute_def second_def millisecond_def split: if_splits)

text \<open>The loops of one queue have pairwise different names, so they never share a lease.\<close>

lemma worker_names_distinct: "distinct (worker_names opt)"
  by (auto simp: worker_names_def distinct_map inj_on_def)

text \<open>
  The heartbeat comes in time: with a lease longer than a second, a run that renews at every
  tick holds an unexpired lease until the next tick and beyond, so no other worker can claim its
  task while it lives.
\<close>

lemma heartbeat_keeps_lease:
  assumes "second < qo_Lease opt" and "t \<in> set tab" and "leased_by i w t" and "distinct (map t_ID tab)"
    and "now' \<le> now + heartbeat_interval (qo_Lease opt)"
  shows "fst (heartbeat_tick opt now w i tab) \<and>
    (\<forall>t' \<in> set (snd (heartbeat_tick opt now w i tab)). t_ID t' = i \<longrightarrow> \<not> expired now' t')"
proof -
  have "affected (leased_by i w) tab = 1"
    using affected_by_key [OF assms(4,2), of "leased_by i w"] assms(3) by (simp add: leased_by_def)
  moreover have "heartbeat_interval (qo_Lease opt) < qo_Lease opt"
    using assms(1) by (auto simp: heartbeat_interval_def quot_def second_def sgn_if Let_def)
  then have "now' \<le> now + lease_or (qo_Lease opt)"
    using assms(1,5) by (simp add: lease_or_def second_def)
  moreover have "r = t" if "r \<in> set tab" "t_ID r = i" for r
    using that assms(2-4) unfolding leased_by_def by (metis distinct_map inj_onD)
  ultimately show ?thesis
    using assms(3) by (auto simp: heartbeat_tick_def RenewTaskLease_def set_update_where expired_def leased_by_def)
qed

definition example_options :: QueueOptions where
  "example_options = \<lparr>qo_Workers = 2, qo_Lease = 120 * second, qo_Poll = second, qo_RetryBase = second,
     qo_WorkerID = ''q''\<rparr>"

end
