(* ===== verification/RateLimit.thy ===== *)
theory RateLimit
  imports Prelude
begin

text \<open>
  Rate limiting and client addresses, \<open>internal/middleware/ratelimit.go\<close>: the token bucket per key
  with its periodic cleanup, the client address behind trusted proxies, and the key the middleware
  charges. \<open>net.SplitHostPort\<close>, \<open>netip.ParseAddr\<close>, \<open>netip.ParsePrefix\<close> and the textual form of an
  address are parameters, collected in \<open>net_libs\<close>. The clock is an argument of every operation.
\<close>

subsection \<open>Token bucket\<close>

record visitor =
  v_tokens :: float64
  v_last :: time

record TokenBucket =
  tb_rate :: float64
  tb_burst :: float64
  tb_visitors :: "(string, visitor) gmap"

definition NewTokenBucket :: "float64 \<Rightarrow> int \<Rightarrow> TokenBucket" where
  "NewTokenBucket rps burst = \<lparr>tb_rate = (if rps \<le> 0 then 10 else rps),
     tb_burst = of_int (if burst \<le> 0 then 20 else burst), tb_visitors = []\<rparr>"

definition Seconds :: "duration \<Rightarrow> float64" where
  "Seconds d = of_int d / of_int second"

text \<open>One tick of the cleanup loop: visitors not seen for ten minutes are forgotten.\<close>

definition cleanup :: "time \<Rightarrow> TokenBucket \<Rightarrow> TokenBucket" where
  "cleanup now tb = (let cutoff = now - 10 * minute in
     tb\<lparr>tb_visitors := filter (\<lambda>(k, v). \<not> v_last v < cutoff) (tb_visitors tb)\<rparr>)"

definition AllowRate :: "time \<Rightarrow> string \<Rightarrow> float64 \<Rightarrow> int \<Rightarrow> TokenBucket \<Rightarrow> bool \<times> TokenBucket" where
  "AllowRate now key rps0 burst0 tb =
     (let rps = (if rps0 \<le> 0 then tb_rate tb else rps0);
          burst = (if burst0 \<le> 0 then go_int (tb_burst tb) else burst0)
      in case map_of (tb_visitors tb) key of
           None \<Rightarrow> (True, tb\<lparr>tb_visitors :=
             gput key \<lparr>v_tokens = of_int (burst - 1), v_last = now\<rparr> (tb_visitors tb)\<rparr>)
         | Some v \<Rightarrow>
            (let elapsed = Seconds (now - v_last v);
                 refilled = v_tokens v + elapsed * rps;
                 tokens = (if refilled > of_int burst then of_int burst else refilled)
             in if tokens < 1
                then (False, tb\<lparr>tb_visitors := gput key \<lparr>v_tokens = tokens, v_last = now\<rparr> (tb_visitors tb)\<rparr>)
                else (True, tb\<lparr>tb_visitors := gput key \<lparr>v_tokens = tokens - 1, v_last = now\<rparr> (tb_visitors tb)\<rparr>)))"

definition Allow :: "time \<Rightarrow> string \<Rightarrow> TokenBucket \<Rightarrow> bool \<times> TokenBucket" where
  "Allow now key tb = AllowRate now key (tb_rate tb) (go_int (tb_burst tb)) tb"

subsection \<open>Client address\<close>

record 'a net_libs =
  split_host_port :: "string \<Rightarrow> string option"
  parse_addr :: "string \<Rightarrow> 'a option"
  parse_prefix :: "string \<Rightarrow> ('a \<Rightarrow> bool) option"
  addr_string :: "'a \<Rightarrow> string"

definition trustedProxy :: "'a net_libs \<Rightarrow> 'a \<Rightarrow> string list \<Rightarrow> bool" where
  "trustedProxy net ip entries \<longleftrightarrow> list_ex (\<lambda>entry0. let entry = TrimSpace entry0 in
     (case parse_prefix net entry of None \<Rightarrow> False | Some pfx \<Rightarrow> pfx ip) \<or>
     parse_addr net entry = Some ip) entries"

text \<open>The loop over \<open>X-Forwarded-For\<close> runs from the last part to the first; the list is reversed.\<close>

fun forwarded :: "'a net_libs \<Rightarrow> string list \<Rightarrow> string list \<Rightarrow> string option" where
  "forwarded net trusted [] = None"
| "forwarded net trusted (part # parts) = (case parse_addr net (TrimSpace part) of
     None \<Rightarrow> forwarded net trusted parts
   | Some ip \<Rightarrow> if \<not> trustedProxy net ip trusted \<or> parts = [] then Some (addr_string net ip)
       else forwarded net trusted parts)"

record request =
  r_RemoteAddr :: string
  r_XForwardedFor :: string
  r_CFConnectingIP :: string
  r_XRealIP :: string
  r_Path :: string
  r_Token :: string

fun first_addr :: "'a net_libs \<Rightarrow> string list \<Rightarrow> string option" where
  "first_addr net [] = None"
| "first_addr net (raw # raws) = (case parse_addr net (TrimSpace raw) of
     Some ip \<Rightarrow> Some (addr_string net ip) | None \<Rightarrow> first_addr net raws)"

definition remote_host :: "'a net_libs \<Rightarrow> request \<Rightarrow> string" where
  "remote_host net r = (case split_host_port net (r_RemoteAddr r) of None \<Rightarrow> r_RemoteAddr r | Some h \<Rightarrow> h)"

definition ClientIP :: "'a net_libs \<Rightarrow> request \<Rightarrow> string list \<Rightarrow> string" where
  "ClientIP net r trustedProxies =
     (let host = remote_host net r
      in case parse_addr net (TrimSpace host) of
           None \<Rightarrow> host
         | Some remote \<Rightarrow>
            if \<not> trustedProxy net remote trustedProxies then host
            else (case (if r_XForwardedFor r \<noteq> '''' then
                forwarded net trustedProxies (rev (Split (CHR '','') (r_XForwardedFor r))) else None) of
              Some ip \<Rightarrow> ip
            | None \<Rightarrow> (case first_addr net [r_CFConnectingIP r, r_XRealIP r] of
                Some ip \<Rightarrow> ip | None \<Rightarrow> addr_string net remote)))"

text \<open>The key of \<open>Middleware\<close>, and its answer: \<open>False\<close> is status 429.\<close>

definition rate_key :: "'a net_libs \<Rightarrow> request \<Rightarrow> string list \<Rightarrow> string" where
  "rate_key net r trustedProxies =
     (let key = ClientIP net r trustedProxies; t = r_Token r
      in if Contains (r_Path r) ''/sub'' \<and> t \<noteq> ''''
         then (if length t > 8 then key @ ''|'' @ take 8 t else key @ ''|'' @ t)
         else key)"

definition Middleware :: "'a net_libs \<Rightarrow> string list \<Rightarrow> time \<Rightarrow> request \<Rightarrow> TokenBucket \<Rightarrow> bool \<times> TokenBucket" where
  "Middleware net trustedProxies now r tb = Allow now (rate_key net r trustedProxies) tb"

subsection \<open>The number of admitted requests\<close>

datatype rl_event = Request (rl_time: time) string | Cleanup (rl_time: time)

text \<open>
  A run of the limiter: requests of any keys, all at one rate and burst, interleaved with cleanup
  ticks; the result counts the admitted requests of key \<open>k\<close>.
\<close>

fun admitted :: "float64 \<Rightarrow> int \<Rightarrow> string \<Rightarrow> rl_event list \<Rightarrow> TokenBucket \<Rightarrow> nat \<times> TokenBucket" where
  "admitted rps burst k [] tb = (0, tb)"
| "admitted rps burst k (Cleanup now # es) tb = admitted rps burst k es (cleanup now tb)"
| "admitted rps burst k (Request now key # es) tb =
     (let (ok, tb1) = AllowRate now key rps burst tb; (n, tb2) = admitted rps burst k es tb1
      in ((if ok \<and> key = k then 1 else 0) + n, tb2))"

definition allowance :: "float64 \<Rightarrow> int \<Rightarrow> duration \<Rightarrow> float64" where
  "allowance rps burst d = of_int burst + rps * Seconds d"

text \<open>
  The potential argument: \<open>adm\<close> requests of \<open>k\<close> were admitted since \<open>t0\<close>, and together with the tokens
  that \<open>k\<close> still has (or would get as a new visitor) they do not exceed what the rate has paid for.
\<close>

definition paid :: "float64 \<Rightarrow> int \<Rightarrow> string \<Rightarrow> time \<Rightarrow> time \<Rightarrow> nat \<Rightarrow> TokenBucket \<Rightarrow> bool" where
  "paid rps burst k t0 now adm tb \<longleftrightarrow> distinct (keys (tb_visitors tb)) \<and> t0 \<le> now \<and>
     (case map_of (tb_visitors tb) k of
       None \<Rightarrow> real adm \<le> rps * Seconds (now - t0)
     | Some v \<Rightarrow> v_last v \<le> now \<and> 0 \<le> v_tokens v \<and> v_tokens v \<le> of_int burst \<and>
         (if v_last v < t0 then adm = 0 else real adm + v_tokens v \<le> allowance rps burst (v_last v - t0)))"

lemma Seconds_diff: "Seconds (a - b) = Seconds a - Seconds b"
  by (simp add: Seconds_def diff_divide_distrib)

lemma Seconds_mono: "a \<le> b \<Longrightarrow> Seconds a \<le> Seconds b"
  by (simp add: Seconds_def second_def)

lemma earned_mono: "0 \<le> rps \<Longrightarrow> a \<le> b \<Longrightarrow> rps * Seconds (a - t0) \<le> rps * Seconds (b - t0)"
  by (simp add: mult_left_mono Seconds_mono)

lemma paid_later: "paid rps burst k t0 now adm tb \<Longrightarrow> now \<le> now' \<Longrightarrow> 0 \<le> rps \<Longrightarrow> paid rps burst k t0 now' adm tb"
  using earned_mono [of rps now now' t0] by (cases "map_of (tb_visitors tb) k") (auto simp: paid_def simp del: map_of_eq_Some_iff)

lemma paid_allowance:
  "paid rps burst k t0 now adm tb \<Longrightarrow> 0 \<le> rps \<Longrightarrow> 0 \<le> burst \<Longrightarrow> real adm \<le> allowance rps burst (now - t0)"
  using earned_mono [of rps _ now t0] earned_mono [of rps t0 now t0]
  by (cases "map_of (tb_visitors tb) k") (fastforce simp: paid_def allowance_def Seconds_def split: if_splits)+

text \<open>What was paid at one time is the start of a new count.\<close>

lemma paid_restart: "paid rps burst k t0 now adm tb \<Longrightarrow> 0 \<le> rps \<Longrightarrow> paid rps burst k now now 0 tb"
  by (cases "map_of (tb_visitors tb) k") (auto simp: paid_def allowance_def Seconds_def simp del: map_of_eq_Some_iff)

lemma visitors_cleanup:
  assumes "distinct (keys (tb_visitors tb))"
  shows "map_of (tb_visitors (cleanup now tb)) k = (case map_of (tb_visitors tb) k of None \<Rightarrow> None
     | Some v \<Rightarrow> if v_last v < now - 10 * minute then None else Some v)"
proof -
  have "map_of (filter (\<lambda>(k, v). \<not> v_last v < c) m) k = (case map_of m k of None \<Rightarrow> None
     | Some v \<Rightarrow> if v_last v < c then None else Some v)" if "distinct (keys m)" for c and m :: "(string, visitor) gmap"
    using that by (induction m) (auto split: option.splits simp: map_of_eq_None_iff)
  with assms show ?thesis by (simp add: cleanup_def)
qed

lemma distinct_cleanup: "distinct (keys (tb_visitors tb)) \<Longrightarrow> distinct (keys (tb_visitors (cleanup now tb)))"
  by (simp add: cleanup_def distinct_map_filter)

lemma paid_cleanup:
  assumes "paid rps burst k t0 now adm tb" and "0 \<le> rps" and "of_int burst \<le> rps * 600"
  shows "paid rps burst k t0 now adm (cleanup now tb)"
proof (cases "map_of (tb_visitors tb) k")
  case None
  with assms(1) show ?thesis by (simp add: paid_def visitors_cleanup distinct_cleanup)
next
  case (Some v)
  have "real adm \<le> rps * Seconds (now - t0)" if old: "v_last v < now - 10 * minute"
  proof (cases "v_last v < t0")
    case True
    then have "adm = 0" using assms(1) Some by (simp add: paid_def)
    then show ?thesis using assms(1,2) by (simp add: paid_def Seconds_def second_def)
  next
    case False
    have "Seconds (v_last v - t0) \<le> Seconds (now - t0) - 600"
      using Seconds_mono [of "v_last v - t0" "now - t0 - 10 * minute"] old
      by (simp add: Seconds_diff [of _ "10 * minute"]) (simp add: Seconds_def minute_def second_def)
    then have "rps * Seconds (v_last v - t0) \<le> rps * Seconds (now - t0) - rps * 600"
      using assms(2) by (metis mult_left_mono right_diff_distrib)
    moreover have "real adm \<le> of_int burst + rps * Seconds (v_last v - t0)"
      using assms(1) Some False by (simp add: paid_def allowance_def)
    ultimately show ?thesis using assms(3) by linarith
  qed
  with Some assms(1) show ?thesis
    by (simp add: paid_def visitors_cleanup distinct_cleanup)
qed

lemma distinct_AllowRate:
  "distinct (keys (tb_visitors tb)) \<Longrightarrow> distinct (keys (tb_visitors (snd (AllowRate now key rps burst tb))))"
  by (simp add: AllowRate_def Let_def split: option.split)

lemma paid_request:
  assumes "paid rps burst k t0 now adm tb" and "0 < rps" and "0 < burst"
  shows "paid rps burst k t0 now (adm + (if fst (AllowRate now key rps burst tb) \<and> key = k then 1 else 0))
    (snd (AllowRate now key rps burst tb))"
proof (cases "key = k")
  case False
  then have "map_of (tb_visitors (snd (AllowRate now key rps burst tb))) k = map_of (tb_visitors tb) k"
    by (simp add: AllowRate_def Let_def split: option.split)
  with False assms(1) show ?thesis by (simp add: paid_def distinct_AllowRate)
next
  case True
  have t0: "t0 \<le> now" using assms(1) by (simp add: paid_def)
  show ?thesis
  proof (cases "map_of (tb_visitors tb) k")
    case None
    with True assms show ?thesis by (auto simp: paid_def AllowRate_def allowance_def)
  next
    case (Some v)
    let ?earned = "Seconds (now - v_last v) * rps"
    let ?tokens = "if v_tokens v + ?earned > of_int burst then of_int burst else v_tokens v + ?earned"
    have pos: "0 \<le> ?earned" "0 \<le> v_tokens v"
      using assms(1,2) Some by (auto simp: paid_def Seconds_def second_def)
    have "0 \<le> rps * Seconds (now - t0)" using t0 assms(2) by (simp add: Seconds_def second_def)
    moreover have "rps * Seconds (now - t0) = rps * Seconds (v_last v - t0) + ?earned"
      by (simp add: Seconds_diff algebra_simps)
    ultimately have "real adm + ?tokens \<le> allowance rps burst (now - t0)"
      using assms(1) Some by (auto simp: paid_def allowance_def split: if_splits)
    moreover have "0 \<le> ?tokens" "?tokens \<le> of_int burst" using pos assms(3) by auto
    moreover have "AllowRate now key rps burst tb = (if ?tokens < 1
        then (False, tb\<lparr>tb_visitors := gput k \<lparr>v_tokens = ?tokens, v_last = now\<rparr> (tb_visitors tb)\<rparr>)
        else (True, tb\<lparr>tb_visitors := gput k \<lparr>v_tokens = ?tokens - 1, v_last = now\<rparr> (tb_visitors tb)\<rparr>))"
      using True Some assms(2,3) by (simp add: AllowRate_def Let_def)
    moreover have "distinct (keys (tb_visitors tb))" using assms(1) by (simp add: paid_def)
    ultimately show ?thesis
      using True t0 unfolding paid_def by (simp del: if_split add: if_split [where P = "\<lambda>x. fst x"])
  qed
qed

lemma admitted_paid:
  assumes "paid rps burst k t0 now adm tb" and "0 < rps" and "0 < burst" and "of_int burst \<le> rps * 600"
    and "sorted (now # map rl_time es)" and "\<forall>e \<in> set es. rl_time e \<le> stop" and "now \<le> stop"
  shows "paid rps burst k t0 stop (adm + fst (admitted rps burst k es tb)) (snd (admitted rps burst k es tb))"
  using assms
proof (induction es arbitrary: now adm tb)
  case Nil
  then show ?case using paid_later by simp
next
  case (Cons e es)
  let ?now = "rl_time e"
  have later: "paid rps burst k t0 ?now adm tb"
    using Cons.prems by (intro paid_later [OF Cons.prems(1)]) auto
  have order: "sorted (?now # map rl_time es)" "\<forall>e \<in> set es. rl_time e \<le> stop" "?now \<le> stop"
    using Cons.prems by auto
  show ?case
  proof (cases e)
    case (Cleanup now')
    have "paid rps burst k t0 ?now adm (cleanup now' tb)"
      using paid_cleanup [OF later] Cons.prems Cleanup by simp
    from Cons.IH [OF this Cons.prems(2-4) order] show ?thesis
      using Cleanup by simp
  next
    case (Request now' key)
    obtain ok tb1 where a: "AllowRate now' key rps burst tb = (ok, tb1)" by fastforce
    have "paid rps burst k t0 ?now (adm + (if ok \<and> key = k then 1 else 0)) tb1"
      using paid_request [OF later Cons.prems(2,3), of key] a Request by simp
    from Cons.IH [OF this Cons.prems(2-4) order] show ?thesis
      using a Request by (simp add: case_prod_beta add.assoc)
  qed
qed



subsection \<open>Client addresses cannot be forged\<close>

definition skipped :: "'a net_libs \<Rightarrow> string list \<Rightarrow> string \<Rightarrow> bool" where
  "skipped net trusted part \<longleftrightarrow> (case parse_addr net (TrimSpace part) of None \<Rightarrow> True
     | Some ip \<Rightarrow> trustedProxy net ip trusted)"

lemma forwarded_skips:
  "\<forall>h \<in> set hops. skipped net trusted h \<Longrightarrow> rest \<noteq> [] \<Longrightarrow>
     forwarded net trusted (hops @ rest) = forwarded net trusted rest"
  by (induction hops) (auto simp: skipped_def split: option.splits)

text \<open>
  C11. The client address cannot be chosen by the client: from a peer that is not a trusted proxy
  the forwarding headers are ignored; behind a trusted proxy the address is the last one in
  \<open>X-Forwarded-For\<close> that is not itself a trusted proxy, whatever stands in front of it.
\<close>

theorem ClientIP_not_forged:
  assumes "\<not> skipped net trusted (remote_host net r) \<or> parse_addr net (TrimSpace (remote_host net r)) = None \<or>
    (r_XForwardedFor r \<noteq> '''' \<and> Split (CHR '','') (r_XForwardedFor r) = spoofed @ [client] @ hops \<and>
     parse_addr net (TrimSpace client) = Some ip \<and> \<not> trustedProxy net ip trusted \<and>
     (\<forall>h \<in> set hops. skipped net trusted h))"
  shows "ClientIP net r trusted =
    (if \<not> skipped net trusted (remote_host net r) \<or> parse_addr net (TrimSpace (remote_host net r)) = None
     then remote_host net r else addr_string net ip)"
proof (cases "\<not> skipped net trusted (remote_host net r) \<or> parse_addr net (TrimSpace (remote_host net r)) = None")
  case True
  then show ?thesis
    by (auto simp: ClientIP_def Let_def skipped_def split: option.splits)
next
  case False
  then have "forwarded net trusted (rev (Split (CHR '','') (r_XForwardedFor r))) = Some (addr_string net ip)"
    using assms forwarded_skips [of "rev hops" net trusted "client # rev spoofed"] by auto
  with False assms show ?thesis
    by (auto simp: ClientIP_def Let_def skipped_def split: option.splits)
qed

definition plain_net :: "string net_libs" where
  "plain_net = \<lparr>split_host_port = (\<lambda>s. Some (takeWhile (\<lambda>c. c \<noteq> CHR '':'') s)),
     parse_addr = (\<lambda>s. if s = '''' then None else Some s), parse_prefix = (\<lambda>_. None), addr_string = (\<lambda>s. s)\<rparr>"

definition proxied :: request where
  "proxied = \<lparr>r_RemoteAddr = ''10.0.0.1:9'', r_XForwardedFor = ''6.6.6.6,7.7.7.7,10.0.0.2'',
     r_CFConnectingIP = '''', r_XRealIP = '''', r_Path = ''/sub/raw'', r_Token = ''''\<rparr>"

theorem ClientIP_not_forged_witness:
  "ClientIP plain_net proxied [''10.0.0.1'', ''10.0.0.2''] = ''7.7.7.7''"
proof -
  let ?t = "[''10.0.0.1'', ''10.0.0.2'']"
  have *: "r_XForwardedFor proxied \<noteq> '''' \<and> Split (CHR '','') (r_XForwardedFor proxied) =
      [''6.6.6.6''] @ [''7.7.7.7''] @ [''10.0.0.2''] \<and>
    parse_addr plain_net (TrimSpace ''7.7.7.7'') = Some ''7.7.7.7'' \<and> \<not> trustedProxy plain_net ''7.7.7.7'' ?t \<and>
    (\<forall>h \<in> set [''10.0.0.2'']. skipped plain_net ?t h)"
    by code_simp
  have "skipped plain_net ?t (remote_host plain_net proxied)"
    "parse_addr plain_net (TrimSpace (remote_host plain_net proxied)) \<noteq> None"
    "addr_string plain_net ''7.7.7.7'' = ''7.7.7.7''"
    by code_simp+
  with ClientIP_not_forged [OF disjI2 [OF disjI2 [OF *]]] show ?thesis by simp
qed

subsection \<open>The token in the key\<close>

text \<open>The answers of the middleware to a sequence of requests at given times.\<close>

fun serve :: "'a net_libs \<Rightarrow> string list \<Rightarrow> (time \<times> request) list \<Rightarrow> TokenBucket \<Rightarrow> bool list" where
  "serve net trusted [] tb = []"
| "serve net trusted ((now, r) # rs) tb = (let (ok, tb') = Middleware net trusted now r tb
     in ok # serve net trusted rs tb')"

lemma new_key_allowed:
  "k \<notin> fst ` set (tb_visitors tb) \<Longrightarrow> fst (Allow now k tb) \<and>
     fst ` set (tb_visitors (snd (Allow now k tb))) = insert k (fst ` set (tb_visitors tb))"
  using set_keys_gput [of k _ "tb_visitors tb"]
  by (auto simp: Allow_def AllowRate_def Let_def map_of_eq_None_iff [symmetric] split: option.split)

lemma new_keys_allowed:
  assumes "distinct (map (\<lambda>(now, r). rate_key net r trusted) rs)"
    and "(\<lambda>(now, r). rate_key net r trusted) ` set rs \<inter> fst ` set (tb_visitors tb) = {}"
  shows "serve net trusted rs tb = replicate (length rs) True"
  using assms
proof (induction rs arbitrary: tb)
  case Nil
  then show ?case by simp
next
  case (Cons q rs)
  obtain now r where q: "q = (now, r)" by (cases q)
  let ?k = "rate_key net r trusted"
  obtain ok tb' where a: "Allow now ?k tb = (ok, tb')" by fastforce
  have "?k \<notin> fst ` set (tb_visitors tb)" using Cons.prems q by auto
  then have ok: "ok" "fst ` set (tb_visitors tb') = insert ?k (fst ` set (tb_visitors tb))"
    using new_key_allowed [of ?k tb now] a by auto
  have "serve net trusted rs tb' = replicate (length rs) True"
    using Cons.prems q ok by (intro Cons.IH) auto
  with a ok q show ?case by (simp add: Middleware_def)
qed

text \<open>
  The limit on the subscription paths can be sidestepped: the key contains the first eight
  bytes of the \<open>token\<close> query parameter before the token is checked, so a client that sends a new
  value with every request is never refused, at any speed.
\<close>

lemma token_evades_limit:
  assumes "\<forall>(now, r) \<in> set rs. Contains (r_Path r) ''/sub'' \<and> r_Token r \<noteq> '''' \<and> ClientIP net r trusted = ip"
    and "distinct (map (\<lambda>(now, r). take 8 (r_Token r)) rs)"
  shows "serve net trusted rs (NewTokenBucket rps burst) = replicate (length rs) True"
proof (rule new_keys_allowed)
  have "rate_key net r trusted = ip @ ''|'' @ take 8 (r_Token r)" if "(now, r) \<in> set rs" for now r
    using assms(1) that by (auto simp: rate_key_def Let_def)
  then have "map (\<lambda>(now, r). rate_key net r trusted) rs = map (\<lambda>t. ip @ ''|'' @ t) (map (\<lambda>(now, r). take 8 (r_Token r)) rs)"
    by auto
  then show "distinct (map (\<lambda>(now, r). rate_key net r trusted) rs)"
    using assms(2) by (simp only: distinct_map [of "\<lambda>t. ip @ ''|'' @ t"]) (simp add: inj_on_def)
qed (simp add: NewTokenBucket_def)

end
