(* ===== verification/Accounts.thy ===== *)
theory Accounts
  imports Database
begin

text \<open>
  The account tables of \<open>internal/db\<close>: subscription tokens with their daily usage and the audit log
  (\<open>sqlite.go\<close>), and users (\<open>users.go\<close>). A table is the list of its rows; the current time and fresh
  values are arguments; JSON columns hold the value they encode.
\<close>

datatype db_error = NoRows | Constraint | Missing string | BadCursor

subsection \<open>Subscription tokens\<close>

record Token =
  tok_ID :: string
  tok_Name :: string
  tok_TokenHash :: string
  tok_TokenPrefix :: string
  tok_Enabled :: bool
  tok_MaxRPS :: float64
  tok_AllowCountries :: "string list"
  tok_AllowProtocols :: "string list"
  tok_TenantID :: string
  tok_DailyQuota :: int
  tok_ExpiresAt :: time
  tok_CreatedAt :: time
  tok_LastUsedAt :: time
  tok_Note :: string
  tok_RequestsToday :: int
  tok_BytesToday :: int

text \<open>The usage table: requests and bytes by token and day.\<close>

type_synonym token_usage = "(string \<times> int, int \<times> int) gmap"

text \<open>The columns \<open>last_used_at\<close> and the two usage counters are not part of the inserted row.\<close>

definition InsertToken :: "Token \<Rightarrow> Token list \<Rightarrow> db_error + Token list" where
  "InsertToken t tab =
     (if tok_ID t \<in> tok_ID ` set tab \<or> tok_TokenHash t \<in> tok_TokenHash ` set tab then Inl Constraint
      else Inr (tab @ [t\<lparr>tok_TenantID := tenantOrDefault (tok_TenantID t), tok_LastUsedAt := 0,
        tok_RequestsToday := 0, tok_BytesToday := 0\<rparr>]))"

definition with_usage :: "time \<Rightarrow> token_usage \<Rightarrow> Token \<Rightarrow> Token" where
  "with_usage now usage t = (let u = gget (0, 0) usage (tok_ID t, shanghai_day now)
     in t\<lparr>tok_RequestsToday := fst u, tok_BytesToday := snd u\<rparr>)"

definition newer_token :: "Token \<Rightarrow> Token \<Rightarrow> bool" where
  "newer_token a b \<longleftrightarrow> tok_CreatedAt b < tok_CreatedAt a \<or> (tok_CreatedAt b = tok_CreatedAt a \<and> tok_ID b < tok_ID a)"

definition ListTokensTenant :: "time \<Rightarrow> token_usage \<Rightarrow> string \<Rightarrow> Token list \<Rightarrow> Token list" where
  "ListTokensTenant now usage tenant tab =
     SliceStable (\<lambda>a b. tok_CreatedAt a > tok_CreatedAt b)
       (map (with_usage now usage) (filter (\<lambda>t. tenant = '''' \<or> tok_TenantID t = tenant) tab))"

definition small_page :: "int \<Rightarrow> nat" where
  "small_page limit = (if limit \<le> 0 \<or> limit > 101 then 26 else nat limit)"

definition token_in :: "string \<Rightarrow> Token \<Rightarrow> bool" where
  "token_in tenant t \<longleftrightarrow> tenant = '''' \<or> tok_TenantID t = tenantOrDefault tenant"

definition ListTokensPageTenant :: "time \<Rightarrow> token_usage \<Rightarrow> int \<Rightarrow> string \<Rightarrow> string \<Rightarrow> Token list \<Rightarrow> db_error + Token list" where
  "ListTokensPageTenant now usage limit cursor tenant tab =
     (if cursor = '''' then Inr (map (with_usage now usage)
        (take (small_page limit) (SliceStable newer_token (filter (token_in tenant) tab))))
      else case find (\<lambda>t. tok_ID t = cursor \<and> token_in tenant t) tab of
        None \<Rightarrow> Inl NoRows
      | Some c \<Rightarrow> Inr (map (with_usage now usage) (take (small_page limit) (SliceStable newer_token
          (filter (\<lambda>t. token_in tenant t \<and> (tok_CreatedAt t < tok_CreatedAt c \<or>
             (tok_CreatedAt t = tok_CreatedAt c \<and> tok_ID t < cursor))) tab)))))"

definition CountTokensTenant :: "string \<Rightarrow> Token list \<Rightarrow> int" where
  "CountTokensTenant tenant tab = int (affected (token_in tenant) tab)"

definition FindTokenByHash :: "string \<Rightarrow> Token list \<Rightarrow> Token option" where
  "FindTokenByHash hash tab = find (\<lambda>t. tok_TokenHash t = hash) tab"

definition FindTokensByPrefix :: "string \<Rightarrow> Token list \<Rightarrow> Token list" where
  "FindTokensByPrefix pre tab = filter (\<lambda>t. tok_TokenPrefix t = pre) tab"

definition DeleteToken :: "string \<Rightarrow> Token list \<Rightarrow> Token list" where
  "DeleteToken i tab = filter (\<lambda>t. tok_ID t \<noteq> i) tab"

definition DeleteTokenTenant :: "string \<Rightarrow> string \<Rightarrow> Token list \<Rightarrow> db_error + Token list" where
  "DeleteTokenTenant i tenant tab = (let p = (\<lambda>t. tok_ID t = i \<and> tok_TenantID t = tenantOrDefault tenant) in
     if affected p tab = 0 then Inl NoRows else Inr (filter (\<lambda>t. \<not> p t) tab))"

definition SetTokenEnabled :: "string \<Rightarrow> bool \<Rightarrow> Token list \<Rightarrow> Token list" where
  "SetTokenEnabled i enabled tab = update_where (\<lambda>t. tok_ID t = i) (\<lambda>t. t\<lparr>tok_Enabled := enabled\<rparr>) tab"

definition SetTokenEnabledTenant :: "string \<Rightarrow> string \<Rightarrow> bool \<Rightarrow> Token list \<Rightarrow> db_error + Token list" where
  "SetTokenEnabledTenant i tenant enabled tab = (let p = (\<lambda>t. tok_ID t = i \<and> tok_TenantID t = tenantOrDefault tenant) in
     if affected p tab = 0 then Inl NoRows else Inr (update_where p (\<lambda>t. t\<lparr>tok_Enabled := enabled\<rparr>) tab))"

definition TouchToken :: "time \<Rightarrow> string \<Rightarrow> Token list \<Rightarrow> Token list" where
  "TouchToken now i tab = update_where (\<lambda>t. tok_ID t = i) (\<lambda>t. t\<lparr>tok_LastUsedAt := FormatRFC3339 now\<rparr>) tab"

text \<open>
  \<open>INSERT ... ON CONFLICT DO UPDATE ... WHERE requests < quota RETURNING requests\<close>: the result is the
  remaining quota (\<open>-1\<close> when unlimited) and whether the request is allowed.
\<close>

definition ConsumeTokenQuota :: "time \<Rightarrow> string \<Rightarrow> int \<Rightarrow> token_usage \<Rightarrow> (int \<times> bool) \<times> token_usage" where
  "ConsumeTokenQuota now i dailyQuota usage =
     (if i = '''' then ((0, True), usage)
      else (let k = (i, shanghai_day now);
                left = (\<lambda>used. if dailyQuota > 0 then dailyQuota - used else - 1)
            in case map_of usage k of
                 None \<Rightarrow> ((left 1, True), gput k (1, 0) usage)
               | Some (requests, bytes) \<Rightarrow>
                   if dailyQuota > 0 \<and> \<not> requests < dailyQuota then ((0, False), usage)
                   else ((left (requests + 1), True), gput k (requests + 1, bytes) usage)))"

definition AddTokenBytes :: "time \<Rightarrow> string \<Rightarrow> int \<Rightarrow> token_usage \<Rightarrow> token_usage" where
  "AddTokenBytes now i bytes usage =
     (if i = '''' \<or> bytes \<le> 0 then usage
      else case map_of usage (i, shanghai_day now) of
        None \<Rightarrow> usage
      | Some (r, b) \<Rightarrow> gput (i, shanghai_day now) (r, b + bytes) usage)"

subsection \<open>Users\<close>

record User =
  usr_ID :: string
  usr_TenantID :: string
  usr_Username :: string
  usr_Email :: string
  usr_PasswordHash :: string
  usr_Role :: string
  usr_Enabled :: bool
  usr_CreatedAt :: time
  usr_LastLoginAt :: time

definition user_key :: "User \<Rightarrow> string \<times> string" where
  "user_key u = (usr_TenantID u, usr_Username u)"

definition InsertUser :: "time \<Rightarrow> User option \<Rightarrow> User list \<Rightarrow> db_error + User list" where
  "InsertUser now user tab = (case user of None \<Rightarrow> Inl (Missing ''user'')
     | Some u0 \<Rightarrow>
        if usr_ID u0 = '''' \<or> usr_Username u0 = '''' then Inl (Missing ''user id and username'')
        else (let u = u0\<lparr>usr_CreatedAt := (if usr_CreatedAt u0 = 0 then FormatRFC3339 now else usr_CreatedAt u0),
                usr_TenantID := tenantOrDefault (usr_TenantID u0)\<rparr>
              in if usr_ID u \<in> usr_ID ` set tab \<or> user_key u \<in> user_key ` set tab then Inl Constraint
                 else Inr (tab @ [u])))"

text \<open>\<open>hash\<close> is \<open>hashID\<close>, the truncated digest that names the bootstrap user.\<close>

definition EnsureBootstrapUser ::
  "time \<Rightarrow> (string \<Rightarrow> string) \<Rightarrow> string \<Rightarrow> string \<Rightarrow> string \<Rightarrow> string \<Rightarrow> User list \<Rightarrow> db_error + User list" where
  "EnsureBootstrapUser now hash username passwordHash role tenant0 tab =
     (if username = '''' \<or> passwordHash = '''' then Inr tab
      else (let tenant = tenantOrDefault tenant0;
                i = ''bootstrap-'' @ hash (tenant @ [CHR 0x00] @ username)
            in if (tenant, username) \<in> user_key ` set tab
               then Inr (update_where (\<lambda>u. user_key u = (tenant, username))
                 (\<lambda>u. u\<lparr>usr_PasswordHash := (if usr_PasswordHash u = '''' then passwordHash else usr_PasswordHash u),
                    usr_Enabled := True\<rparr>) tab)
               else if i \<in> usr_ID ` set tab then Inl Constraint
               else Inr (tab @ [\<lparr>usr_ID = i, usr_TenantID = tenant, usr_Username = username, usr_Email = '''',
                 usr_PasswordHash = passwordHash, usr_Role = role, usr_Enabled = True,
                 usr_CreatedAt = FormatRFC3339 now, usr_LastLoginAt = 0\<rparr>])))"

definition FindUser :: "string \<Rightarrow> string \<Rightarrow> User list \<Rightarrow> User option" where
  "FindUser tenant username tab = find (\<lambda>u. user_key u = (tenantOrDefault tenant, username)) tab"

definition user_in :: "string \<Rightarrow> User \<Rightarrow> bool" where
  "user_in tenant u \<longleftrightarrow> tenant = '''' \<or> usr_TenantID u = tenantOrDefault tenant"

definition user_before :: "User \<Rightarrow> User \<Rightarrow> bool" where
  "user_before a b \<longleftrightarrow> usr_TenantID a < usr_TenantID b \<or>
     (usr_TenantID a = usr_TenantID b \<and> usr_Username a < usr_Username b)"

definition ListUsers :: "string \<Rightarrow> User list \<Rightarrow> User list" where
  "ListUsers tenant tab = SliceStable user_before (filter (user_in tenant) tab)"

definition ListUsersPage :: "string \<Rightarrow> int \<Rightarrow> string \<Rightarrow> User list \<Rightarrow> db_error + User list" where
  "ListUsersPage tenant limit cursor tab =
     (if cursor = '''' then Inr (take (small_page limit) (SliceStable user_before (filter (user_in tenant) tab)))
      else case find (\<lambda>u. usr_ID u = cursor \<and> user_in tenant u) tab of
        None \<Rightarrow> Inl NoRows
      | Some c \<Rightarrow> Inr (take (small_page limit) (SliceStable user_before
          (filter (\<lambda>u. user_in tenant u \<and>
             (if tenant \<noteq> '''' then usr_Username u > usr_Username c
              else usr_TenantID u > usr_TenantID c \<or>
                (usr_TenantID u = usr_TenantID c \<and> usr_Username u > usr_Username c))) tab))))"

definition CountUsers :: "string \<Rightarrow> User list \<Rightarrow> int" where
  "CountUsers tenant tab = int (affected (user_in tenant) tab)"

definition SetUserEnabled :: "string \<Rightarrow> string \<Rightarrow> bool \<Rightarrow> User list \<Rightarrow> db_error + User list" where
  "SetUserEnabled i tenant enabled tab = (let p = (\<lambda>u. usr_ID u = i \<and> usr_TenantID u = tenantOrDefault tenant) in
     if affected p tab = 0 then Inl NoRows else Inr (update_where p (\<lambda>u. u\<lparr>usr_Enabled := enabled\<rparr>) tab))"

definition TouchUserLogin :: "time \<Rightarrow> string \<Rightarrow> User list \<Rightarrow> User list" where
  "TouchUserLogin now i tab = update_where (\<lambda>u. usr_ID u = i) (\<lambda>u. u\<lparr>usr_LastLoginAt := FormatRFC3339 now\<rparr>) tab"

subsection \<open>Audit log\<close>

text \<open>\<open>at\<close> is kept as text: the range filters compare it with text given by the caller.\<close>

record audit_row =
  aud_id :: int
  aud_at :: string
  aud_actor :: string
  aud_action :: string
  aud_detail :: string

text \<open>The id is assigned by the database and larger than every earlier one.\<close>

definition Audit :: "int \<Rightarrow> string \<Rightarrow> string \<Rightarrow> string \<Rightarrow> string \<Rightarrow> audit_row list \<Rightarrow> audit_row list" where
  "Audit assigned now_text actor action detail tab =
     tab @ [\<lparr>aud_id = assigned, aud_at = now_text, aud_actor = actor, aud_action = action, aud_detail = detail\<rparr>]"

definition auditFilters :: "bool \<Rightarrow> string \<Rightarrow> string \<Rightarrow> string \<Rightarrow> audit_row \<Rightarrow> bool" where
  "auditFilters ci tenant from_text to_text r \<longleftrightarrow>
     (tenant \<noteq> '''' \<longrightarrow> like ci (tenantOrDefault tenant @ '':%'') (aud_actor r) \<or> aud_actor r = ''system'') \<and>
     (from_text \<noteq> '''' \<longrightarrow> aud_at r \<ge> from_text) \<and> (to_text \<noteq> '''' \<longrightarrow> aud_at r \<le> to_text)"

definition later_audit :: "audit_row \<Rightarrow> audit_row \<Rightarrow> bool" where
  "later_audit a b \<longleftrightarrow> aud_id a > aud_id b"

definition ListAuditTenantRange :: "bool \<Rightarrow> int \<Rightarrow> string \<Rightarrow> string \<Rightarrow> string \<Rightarrow> audit_row list \<Rightarrow> audit_row list" where
  "ListAuditTenantRange ci limit tenant from_text to_text tab =
     take (if limit \<le> 0 \<or> limit > 500 then 50 else nat limit)
       (SliceStable later_audit (filter (auditFilters ci tenant from_text to_text) tab))"

text \<open>\<open>parse_int\<close> is \<open>strconv.ParseInt(_, 10, 64)\<close>.\<close>

definition ListAuditPageTenantRange ::
  "(string \<Rightarrow> int option) \<Rightarrow> bool \<Rightarrow> int \<Rightarrow> string \<Rightarrow> string \<Rightarrow> string \<Rightarrow> string \<Rightarrow> audit_row list \<Rightarrow> db_error + audit_row list" where
  "ListAuditPageTenantRange parse_int ci limit cursor tenant from_text to_text tab =
     (let n = (if limit \<le> 0 \<or> limit > 101 then 51 else nat limit);
          page = (\<lambda>p. take n (SliceStable later_audit (filter p tab)))
      in if cursor = '''' then Inr (page (auditFilters ci tenant from_text to_text))
         else case parse_int cursor of
           None \<Rightarrow> Inl BadCursor
         | Some i \<Rightarrow> if i < 1 then Inl BadCursor
             else Inr (page (\<lambda>r. auditFilters ci tenant from_text to_text r \<and> aud_id r < i)))"

definition CountAuditTenantRange :: "bool \<Rightarrow> string \<Rightarrow> string \<Rightarrow> string \<Rightarrow> audit_row list \<Rightarrow> int" where
  "CountAuditTenantRange ci tenant from_text to_text tab =
     int (affected (auditFilters ci tenant from_text to_text) tab)"

subsection \<open>Quota\<close>

text \<open>A sequence of requests with one token: the number of allowed ones and the usage afterwards.\<close>

fun consume :: "string \<Rightarrow> int \<Rightarrow> time list \<Rightarrow> token_usage \<Rightarrow> nat \<times> token_usage" where
  "consume i quota [] usage = (0, usage)"
| "consume i quota (now # ts) usage =
     (let ((_, ok), usage1) = ConsumeTokenQuota now i quota usage; (n, usage2) = consume i quota ts usage1
      in ((if ok then 1 else 0) + n, usage2))"

definition used :: "string \<Rightarrow> int \<Rightarrow> token_usage \<Rightarrow> int" where
  "used i day usage = fst (gget (0, 0) usage (i, day))"

lemma ConsumeTokenQuota_used:
  assumes "i \<noteq> ''''" and "quota > 0" and "0 \<le> used i (shanghai_day now) usage" and "used i (shanghai_day now) usage \<le> quota"
    and "ConsumeTokenQuota now i quota usage = ((left, ok), usage')"
  shows "ok \<longleftrightarrow> used i (shanghai_day now) usage < quota"
    and "used j d usage' = used j d usage + (if ok \<and> (j, d) = (i, shanghai_day now) then 1 else 0)"
    and "left = (if ok then quota - used i (shanghai_day now) usage' else 0)"
  using assms by (auto simp: ConsumeTokenQuota_def used_def gget_def Let_def split: option.splits if_splits)

text \<open>
  C12. The daily quota is exact: of the requests one token makes within a day, precisely as many are
  allowed as the quota has left, and further ones are refused, until the day changes.
\<close>

theorem quota_exact:
  assumes "i \<noteq> ''''" and "quota > 0" and "\<forall>t \<in> set ts. shanghai_day t = day"
    and "0 \<le> used i day usage" and "used i day usage \<le> quota"
  shows "int (fst (consume i quota ts usage)) = min (int (length ts)) (quota - used i day usage)"
  using assms(3-5)
proof (induction ts arbitrary: usage)
  case Nil
  then show ?case by simp
next
  case (Cons t ts)
  obtain left ok usage' where c: "ConsumeTokenQuota t i quota usage = ((left, ok), usage')"
    by (metis surj_pair)
  have day: "shanghai_day t = day" using Cons.prems by simp
  note facts = ConsumeTokenQuota_used [OF assms(1,2) _ _ c, unfolded day, OF Cons.prems(2,3)]
  have "int (fst (consume i quota ts usage')) = min (int (length ts)) (quota - used i day usage')"
    using Cons.prems facts by (intro Cons.IH) auto
  with facts c show ?case
    by (auto split: prod.splits)
qed

theorem quota_exact_witness: "int (fst (consume ''t'' 2 [1, 2, 3] [])) = 2"
proof -
  have "used ''t'' 0 [] = 0" by (simp add: used_def gget_def)
  moreover have "\<forall>t \<in> set [1, 2, 3]. shanghai_day t = 0" by code_simp
  ultimately show ?thesis using quota_exact [of "''t''" 2 "[1, 2, 3]" 0 "[]"] by simp
qed

subsection \<open>Tenants\<close>

text \<open>
  The audit log leaks between tenants: the tenant is put into a \<open>LIKE\<close> pattern unescaped, and a
  tenant name may contain the wildcard \<open>_\<close>. A reader of tenant \<open>a_b\<close> also sees the rows of tenant
  \<open>axb\<close>, while its own rows and those of the system are always included.
\<close>

lemma audit_tenant_filter:
  "(HasPrefix (aud_actor r) (tenantOrDefault tenant @ '':'') \<longrightarrow> auditFilters ci tenant '''' '''' r) \<and>
   auditFilters ci ''a_b'' '''' '''' \<lparr>aud_id = 1, aud_at = '''', aud_actor = ''axb:u1'', aud_action = ''auth.login'', aud_detail = ''''\<rparr>"
proof
  show "HasPrefix (aud_actor r) (tenantOrDefault tenant @ '':'') \<longrightarrow> auditFilters ci tenant '''' '''' r"
    using like_prefix [of "aud_actor r" "tenantOrDefault tenant @ '':''" ci] by (simp add: auditFilters_def)
qed (simp add: auditFilters_def tenantOrDefault_def)

subsection \<open>Paging\<close>

interpretation token_pages: keyset newer_token tok_ID
  by unfold_locales (auto simp: newer_token_def)

interpretation user_pages: keyset user_before user_key
  by unfold_locales (auto simp: user_before_def user_key_def)

lemma user_page_is_keyset_page:
  assumes "distinct (map usr_ID tab)" and "c \<in> set tab" and "user_in tenant c" and "usr_ID c \<noteq> ''''"
  shows "ListUsersPage tenant limit (usr_ID c) tab =
    Inr (page_after user_before (small_page limit) (Some c) (filter (user_in tenant) tab))"
proof -
  have "find (\<lambda>u. usr_ID u = usr_ID c \<and> user_in tenant u) tab = Some c"
    using assms by (induction tab) (auto simp: image_iff)
  moreover have "(\<lambda>u. user_in tenant u \<and> (if tenant \<noteq> '''' then usr_Username u > usr_Username c
      else usr_TenantID u > usr_TenantID c \<or> (usr_TenantID u = usr_TenantID c \<and> usr_Username u > usr_Username c))) =
    (\<lambda>u. user_in tenant u \<and> user_before c u)"
    using assms(3) by (auto simp: user_before_def user_in_def)
  ultimately show ?thesis
    using assms(4) by (simp add: ListUsersPage_def page_after_def)
qed

fun read_user_pages :: "string \<Rightarrow> int \<Rightarrow> User list \<Rightarrow> nat \<Rightarrow> string \<Rightarrow> User list" where
  "read_user_pages tenant limit tab 0 cursor = []"
| "read_user_pages tenant limit tab (Suc fuel) cursor = (case ListUsersPage tenant limit cursor tab of
     Inl e \<Rightarrow> [] | Inr [] \<Rightarrow> []
   | Inr page \<Rightarrow> page @ read_user_pages tenant limit tab fuel (usr_ID (last page)))"

lemma read_user_pages_keyset:
  assumes "distinct (map usr_ID tab)" and "\<forall>u \<in> set tab. usr_ID u \<noteq> ''''"
    and "case cursor of None \<Rightarrow> True | Some c \<Rightarrow> c \<in> set tab \<and> user_in tenant c"
  shows "read_user_pages tenant limit tab fuel (case cursor of None \<Rightarrow> '''' | Some c \<Rightarrow> usr_ID c) =
    read_pages user_before (small_page limit) (filter (user_in tenant) tab) fuel cursor"
  using assms(3)
proof (induction fuel arbitrary: cursor)
  case 0
  show ?case by simp
next
  case (Suc fuel)
  let ?page = "page_after user_before (small_page limit) cursor (filter (user_in tenant) tab)"
  have list: "ListUsersPage tenant limit (case cursor of None \<Rightarrow> '''' | Some c \<Rightarrow> usr_ID c) tab = Inr ?page"
    using Suc.prems assms(1,2) user_page_is_keyset_page [OF assms(1), of _ tenant limit]
    by (cases cursor) (simp_all add: ListUsersPage_def page_after_def)
  show ?case
  proof (cases ?page)
    case Nil
    with list show ?thesis by simp
  next
    case (Cons p ps)
    then have "last ?page \<in> set ?page" by simp
    then have "last ?page \<in> set tab \<and> user_in tenant (last ?page)"
      unfolding page_after_def by (auto dest!: in_set_takeD)
    with Suc.IH [of "Some (last ?page)"] list Cons show ?thesis by simp
  qed
qed

lemma user_pages_complete:
  assumes "distinct (map usr_ID tab)" and "distinct (map user_key tab)" and "\<forall>u \<in> set tab. usr_ID u \<noteq> ''''"
    and "length tab < fuel"
  shows "read_user_pages tenant limit tab fuel '''' = ListUsers tenant tab"
proof -
  let ?rows = "filter (user_in tenant) tab"
  have "distinct (map user_key ?rows)" using assms(2) by (simp add: distinct_map_filter)
  moreover have "small_page limit > 0" by (simp add: small_page_def)
  moreover have "length ?rows < fuel" using assms(4) by (meson le_less_trans length_filter_le)
  ultimately have "read_pages user_before (small_page limit) ?rows fuel None = SliceStable user_before ?rows"
    by (rule user_pages.read_pages_all)
  with read_user_pages_keyset [OF assms(1,3), where cursor = None] show ?thesis by (simp add: ListUsers_def)
qed

subsection \<open>Unique users\<close>

definition users_ok :: "User list \<Rightarrow> bool" where
  "users_ok tab \<longleftrightarrow> distinct (map usr_ID tab) \<and> distinct (map user_key tab)"

lemma users_ok_update:
  assumes "\<And>u. usr_ID (f u) = usr_ID u \<and> user_key (f u) = user_key u"
  shows "users_ok (update_where p f tab) = users_ok tab"
proof -
  have "map usr_ID (update_where p f tab) = map usr_ID tab" "map user_key (update_where p f tab) = map user_key tab"
    using assms by (simp_all add: update_where_def)
  then show ?thesis by (simp add: users_ok_def)
qed

text \<open>Every operation keeps user ids, and user names within a tenant, unique.\<close>

lemma users_ok_operations:
  assumes "users_ok tab"
  shows "InsertUser now user tab = Inr tab1 \<Longrightarrow> users_ok tab1"
    and "EnsureBootstrapUser now hash name pw role tenant tab = Inr tab1 \<Longrightarrow> users_ok tab1"
    and "SetUserEnabled i tenant enabled tab = Inr tab1 \<Longrightarrow> users_ok tab1"
    and "users_ok (TouchUserLogin now i tab)"
proof -
  show "InsertUser now user tab = Inr tab1 \<Longrightarrow> users_ok tab1"
    using assms by (auto simp: InsertUser_def users_ok_def Let_def user_key_def split: option.splits if_splits)
  show "EnsureBootstrapUser now hash name pw role tenant tab = Inr tab1 \<Longrightarrow> users_ok tab1"
  proof -
    assume e: "EnsureBootstrapUser now hash name pw role tenant tab = Inr tab1"
    have "users_ok (update_where p (\<lambda>u. u\<lparr>usr_PasswordHash := h u, usr_Enabled := True\<rparr>) tab)" for p h
      using assms by (simp add: users_ok_update user_key_def)
    moreover have "users_ok (tab @ [u])" if "usr_ID u \<notin> usr_ID ` set tab" "user_key u \<notin> user_key ` set tab" for u
      using assms that by (auto simp: users_ok_def)
    ultimately show ?thesis
      using e assms by (auto simp: EnsureBootstrapUser_def Let_def user_key_def split: if_splits)
  qed
  show "SetUserEnabled i tenant enabled tab = Inr tab1 \<Longrightarrow> users_ok tab1"
    using assms users_ok_update [of "\<lambda>u. u\<lparr>usr_Enabled := enabled\<rparr>"]
    by (auto simp: SetUserEnabled_def Let_def user_key_def split: if_splits)
  show "users_ok (TouchUserLogin now i tab)"
    using assms users_ok_update [of "\<lambda>u. u\<lparr>usr_LastLoginAt := FormatRFC3339 now\<rparr>"]
    by (simp add: TouchUserLogin_def user_key_def)
qed

end
