(* ===== verification/Base64.thy ===== *)
theory Base64
  imports Prelude
begin

text \<open>
  \<open>base64.RawURLEncoding\<close> as \<open>internal/auth/session.go\<close> uses it. The decoder follows the standard
  library: it skips carriage returns and line feeds, rejects any other byte outside the alphabet
  and a single left-over digit, and ignores the unused low bits of the last digit.
\<close>

definition alphabet :: string where
  "alphabet = ''ABCDEFGHIJKLMNOPQRSTUVWXYZabcdefghijklmnopqrstuvwxyz0123456789-_''"

definition digit :: "nat \<Rightarrow> char" where
  "digit d = alphabet ! d"

definition digit_value :: "char \<Rightarrow> nat option" where
  "digit_value c = map_of (zip alphabet [0..<64]) c"

abbreviation byte :: "char \<Rightarrow> nat" where
  "byte c \<equiv> of_char c"

fun EncodeToString :: "string \<Rightarrow> string" where
  "EncodeToString [] = []"
| "EncodeToString [a] = [digit (byte a div 4), digit (byte a mod 4 * 16)]"
| "EncodeToString [a, b] = [digit (byte a div 4), digit (byte a mod 4 * 16 + byte b div 16),
     digit (byte b mod 16 * 4)]"
| "EncodeToString (a # b # c # rest) = digit (byte a div 4) # digit (byte a mod 4 * 16 + byte b div 16) #
     digit (byte b mod 16 * 4 + byte c div 64) # digit (byte c mod 64) # EncodeToString rest"

fun digits :: "string \<Rightarrow> nat list option" where
  "digits [] = Some []"
| "digits (c # cs) = (if c = CHR 0x0D \<or> c = CHR 0x0A then digits cs
     else case digit_value c of None \<Rightarrow> None
       | Some d \<Rightarrow> map_option (\<lambda>ds. d # ds) (digits cs))"

fun join_digits :: "nat list \<Rightarrow> string option" where
  "join_digits [] = Some []"
| "join_digits [p] = None"
| "join_digits [p, q] = Some [char_of (p * 4 + q div 16)]"
| "join_digits [p, q, r] = Some [char_of (p * 4 + q div 16), char_of (q mod 16 * 16 + r div 4)]"
| "join_digits (p # q # r # s # rest) = map_option (\<lambda>out.
     char_of (p * 4 + q div 16) # char_of (q mod 16 * 16 + r div 4) # char_of (r mod 4 * 64 + s) # out)
     (join_digits rest)"

definition DecodeString :: "string \<Rightarrow> string option" where
  "DecodeString value = (case digits value of None \<Rightarrow> None | Some ds \<Rightarrow> join_digits ds)"

definition rawBase64 :: "string \<Rightarrow> string" where
  "rawBase64 data = EncodeToString data"

definition decodeRawBase64 :: "string \<Rightarrow> string option" where
  "decodeRawBase64 value = (case DecodeString value of None \<Rightarrow> None
     | Some decoded \<Rightarrow> if rawBase64 decoded \<noteq> value then None else Some decoded)"

subsection \<open>Round trip and canonical form\<close>

lemma digit_value_all: "list_all (\<lambda>d. digit_value (digit d) = Some d) [0..<64]"
  by code_simp

lemma digit_plain_all: "list_all (\<lambda>d. digit d \<noteq> CHR 0x0D \<and> digit d \<noteq> CHR 0x0A \<and> digit d \<noteq> CHR ''.'') [0..<64]"
  by code_simp

lemma digit_value_digit [simp]: "d < 64 \<Longrightarrow> digit_value (digit d) = Some d"
  using digit_value_all by (simp only: list_all_iff set_upt atLeastLessThan_iff) simp

lemma digit_plain [simp]:
  "d < 64 \<Longrightarrow> digit d \<noteq> CHR 0x0D" "d < 64 \<Longrightarrow> digit d \<noteq> CHR 0x0A" "d < 64 \<Longrightarrow> digit d \<noteq> CHR ''.''"
  using digit_plain_all by (simp_all only: list_all_iff set_upt atLeastLessThan_iff) simp_all

lemma byte_bound: "byte c < 256"
  by (metis mod_less_divisor of_char_mod_256 zero_less_numeral)

lemma byte_parts [simp]: "byte c div 4 < 64" "byte c div 16 < 16" "byte c div 64 < 4"
  using byte_bound [of c] by (simp_all add: less_mult_imp_div_less)

lemma byte_digits [simp]:
  "byte a mod 4 * 16 < 64" "byte b mod 16 * 4 < 64"
  "byte a mod 4 * 16 + byte b div 16 < 64" "byte b mod 16 * 4 + byte c div 64 < 64"
proof -
  have "byte a mod 4 < 4" "byte b mod 16 < 16" "byte b div 16 < 16" "byte c div 64 < 4" by simp_all
  then show "byte a mod 4 * 16 < 64" "byte b mod 16 * 4 < 64"
    "byte a mod 4 * 16 + byte b div 16 < 64" "byte b mod 16 * 4 + byte c div 64 < 64"
    by linarith+
qed

lemma digits_Cons [simp]: "d < 64 \<Longrightarrow> digits (digit d # cs) = map_option (\<lambda>ds. d # ds) (digits cs)"
  by simp

lemma join_digits_encoded: "digits (EncodeToString s) \<noteq> None \<and> join_digits (the (digits (EncodeToString s))) = Some s"
proof (induction s rule: EncodeToString.induct)
  case 1
  show ?case by simp
next
  case (2 a)
  have "byte a mod 4 * 16 < 64" by simp
  then show ?case by (simp del: digits.simps(2))
next
  case (3 a b)
  have "(byte a mod 4 * 16 + byte b div 16) mod 16 * 16 + byte b mod 16 * 4 div 4 = byte b"
    "byte a div 4 * 4 + (byte a mod 4 * 16 + byte b div 16) div 16 = byte a"
    by (simp_all add: mod_less_eq_dividend)
  then show ?case by (simp del: digits.simps(2))
next
  case (4 a b c rest)
  have "byte a div 4 * 4 + (byte a mod 4 * 16 + byte b div 16) div 16 = byte a"
    "(byte a mod 4 * 16 + byte b div 16) mod 16 * 16 + (byte b mod 16 * 4 + byte c div 64) div 4 = byte b"
    "(byte b mod 16 * 4 + byte c div 64) mod 4 * 64 + byte c mod 64 = byte c"
    by simp_all
  then show ?case using 4 by (auto simp del: digits.simps(2))
qed

lemma DecodeString_Encode [simp]: "DecodeString (rawBase64 s) = Some s"
  using join_digits_encoded [of s] by (auto simp: DecodeString_def rawBase64_def)

text \<open>
  A text is accepted exactly when it is the encoding of what it decodes to: no two texts are
  accepted for the same bytes.
\<close>

lemma decodeRawBase64_Some: "decodeRawBase64 v = Some s \<longleftrightarrow> v = rawBase64 s"
  by (auto simp: decodeRawBase64_def split: option.splits)

lemma rawBase64_inject: "rawBase64 s = rawBase64 t \<longleftrightarrow> s = t"
  by (metis DecodeString_Encode option.inject)

lemma digit_not_dot [simp]: "d < 64 \<Longrightarrow> CHR ''.'' \<noteq> digit d"
  using digit_plain(3) by metis

lemma rawBase64_no_dot: "CHR ''.'' \<notin> set (rawBase64 s)"
  unfolding rawBase64_def by (induction s rule: EncodeToString.induct) simp_all


subsection \<open>The other three encodings\<close>

text \<open>
  \<open>base64.StdEncoding\<close>, \<open>RawStdEncoding\<close> and \<open>URLEncoding\<close>, over the same digits: the standard
  alphabet has \<open>+\<close> and \<open>/\<close> for \<open>-\<close> and \<open>_\<close>, and a padded text is a multiple of four bytes long
  with at most two \<open>=\<close>, all of them at its end.
\<close>

datatype encoding = StdEncoding | URLEncoding | RawStdEncoding | RawURLEncoding

definition to_std :: "char \<Rightarrow> char" where
  "to_std c = (if c = CHR ''-'' then CHR ''+'' else if c = CHR ''_'' then CHR ''/'' else c)"

definition of_std :: "char \<Rightarrow> char" where
  "of_std c = (if c = CHR ''+'' then CHR ''-'' else if c = CHR ''/'' then CHR ''_''
     else if c = CHR ''-'' \<or> c = CHR ''_'' then CHR ''!'' else c)"

definition pad_to_4 :: "string \<Rightarrow> string" where
  "pad_to_4 s = (if length s mod 4 = 0 then s else s @ replicate (4 - length s mod 4) CHR ''='')"

definition newline :: "char \<Rightarrow> bool" where
  "newline c \<longleftrightarrow> c = CHR 0x0D \<or> c = CHR 0x0A"

definition decode_padded :: "(string \<Rightarrow> string option) \<Rightarrow> string \<Rightarrow> string option" where
  "decode_padded dec value = (let t = filter (\<lambda>c. \<not> newline c) value;
       body = takeWhile (\<lambda>c. c \<noteq> CHR ''='') t; padding = dropWhile (\<lambda>c. c \<noteq> CHR ''='') t
     in if length t mod 4 = 0 \<and> padding \<in> {'''', ''='', ''==''} then dec body else None)"

definition decode_std :: "string \<Rightarrow> string option" where
  "decode_std value = DecodeString (map of_std value)"

definition Encode :: "encoding \<Rightarrow> string \<Rightarrow> string" where
  "Encode e s = (case e of RawURLEncoding \<Rightarrow> EncodeToString s
     | URLEncoding \<Rightarrow> pad_to_4 (EncodeToString s)
     | RawStdEncoding \<Rightarrow> map to_std (EncodeToString s)
     | StdEncoding \<Rightarrow> pad_to_4 (map to_std (EncodeToString s)))"

definition Decode :: "encoding \<Rightarrow> string \<Rightarrow> string option" where
  "Decode e s = (case e of RawURLEncoding \<Rightarrow> DecodeString s
     | URLEncoding \<Rightarrow> decode_padded DecodeString s
     | RawStdEncoding \<Rightarrow> decode_std s
     | StdEncoding \<Rightarrow> decode_padded decode_std s)"

lemma digit_padding_all: "list_all (\<lambda>d. digit d \<noteq> CHR ''='' \<and> of_std (to_std (digit d)) = digit d
    \<and> to_std (digit d) \<noteq> CHR ''='' \<and> \<not> newline (to_std (digit d)) \<and> \<not> newline (digit d)) [0..<64]"
  by code_simp

lemma digit_padding:
  assumes "d < 64"
  shows "digit d \<noteq> CHR ''=''" "of_std (to_std (digit d)) = digit d" "to_std (digit d) \<noteq> CHR ''=''"
    "\<not> newline (to_std (digit d))" "\<not> newline (digit d)"
  using digit_padding_all assms by (simp_all only: list_all_iff set_upt atLeastLessThan_iff) simp_all

lemma set_EncodeToString: "set (EncodeToString s) \<subseteq> digit ` {..<64}"
  by (induction s rule: EncodeToString.induct) (simp_all add: imageI)

lemma EncodeToString_digits: "c \<in> set (EncodeToString s) \<Longrightarrow> \<exists>d < 64. c = digit d"
  using set_EncodeToString by fastforce

lemma length_Encode_mod: "length (EncodeToString s) mod 4 \<noteq> 1"
  by (induction s rule: EncodeToString.induct) auto

lemma decode_padded_pad:
  assumes "\<And>c. c \<in> set t \<Longrightarrow> c \<noteq> CHR ''='' \<and> \<not> newline c" and "length t mod 4 \<noteq> 1"
  shows "decode_padded dec (pad_to_4 t) = dec t"
proof -
  have nl: "\<not> newline CHR ''=''" by (simp add: newline_def)
  have id: "filter (\<lambda>c. \<not> newline c) (pad_to_4 t) = pad_to_4 t"
    using assms(1) nl by (auto simp: pad_to_4_def intro!: filter_True)
  consider "length t mod 4 = 0" | "length t mod 4 = 2" | "length t mod 4 = 3"
    using assms(2) by linarith
  then obtain k where k: "pad_to_4 t = t @ replicate k CHR ''=''" "k \<le> 2" "(length t + k) mod 4 = 0"
  proof cases
    case 1
    then show ?thesis by (intro that [of 0]) (simp_all add: pad_to_4_def)
  next
    case 2
    then have "(length t + 2) mod 4 = 0" by presburger
    with 2 show ?thesis by (intro that [of 2]) (simp_all add: pad_to_4_def)
  next
    case 3
    then have "(length t + 1) mod 4 = 0" by presburger
    with 3 show ?thesis by (intro that [of 1]) (simp_all add: pad_to_4_def)
  qed
  have tw: "takeWhile (\<lambda>c. c \<noteq> CHR ''='') (pad_to_4 t) = t"
    using assms(1) by (cases k) (auto simp: k(1) takeWhile_append2)
  have dw: "dropWhile (\<lambda>c. c \<noteq> CHR ''='') (pad_to_4 t) = replicate k CHR ''=''"
    using assms(1) by (cases k) (auto simp: k(1) dropWhile_append2)
  have p: "replicate k CHR ''='' \<in> {'''', ''='', ''==''}"
    using k(2) by (cases k; cases "k - 1") (auto simp: numeral_2_eq_2 le_Suc_eq)
  have "length (pad_to_4 t) mod 4 = 0" using k by simp
  with p show ?thesis by (simp only: decode_padded_def Let_def id tw dw simp_thms if_True)
qed

lemma decode_std_Encode: "decode_std (map to_std (EncodeToString s)) = Some s"
proof -
  have "map (of_std \<circ> to_std) (EncodeToString s) = EncodeToString s"
    using digit_padding(2) by (intro map_idI) (auto dest!: EncodeToString_digits)
  then show ?thesis using DecodeString_Encode [of s] by (simp add: decode_std_def rawBase64_def)
qed

lemma Decode_Encode [simp]: "Decode e (Encode e s) = Some s"
proof -
  have raw: "DecodeString (EncodeToString s) = Some s" using DecodeString_Encode [of s] by (simp add: rawBase64_def)
  have u: "decode_padded DecodeString (pad_to_4 (EncodeToString s)) = Some s"
    using raw length_Encode_mod digit_padding by (subst decode_padded_pad) (auto dest!: EncodeToString_digits)
  have d: "decode_padded decode_std (pad_to_4 (map to_std (EncodeToString s))) = Some s"
    using decode_std_Encode length_Encode_mod digit_padding
    by (subst decode_padded_pad) (auto dest!: EncodeToString_digits)
  show ?thesis by (cases e) (simp_all add: Encode_def Decode_def raw u d decode_std_Encode)
qed

end
