(* ===== verification/Auth.thy ===== *)
theory Auth
  imports Accounts Base64
begin

text \<open>
  Authentication: \<open>internal/auth/session.go\<close> (roles, signed sessions, local login) and
  \<open>internal/auth/tokens.go\<close> (subscription tokens). The libraries are parameters, collected in
  \<open>auth_libs\<close>: HMAC-SHA256, SHA-256, bcrypt, and the JSON codecs of the session header and claims.
  A nil database is \<open>None\<close>.
\<close>

subsection \<open>Roles\<close>

type_synonym Role = string

abbreviation RoleViewer :: Role where "RoleViewer \<equiv> ''viewer''"
abbreviation RoleOperator :: Role where "RoleOperator \<equiv> ''operator''"
abbreviation RoleAdmin :: Role where "RoleAdmin \<equiv> ''admin''"

definition role_level :: "Role \<Rightarrow> int" where
  "role_level r = gget 0 [(RoleViewer, 1), (RoleOperator, 2), (RoleAdmin, 3)] r"

definition Allows :: "Role \<Rightarrow> Role \<Rightarrow> bool" where
  "Allows r required \<longleftrightarrow> role_level r \<ge> role_level required"

definition normalizeRole :: "string \<Rightarrow> Role \<Rightarrow> Role" where
  "normalizeRole v fallback = (let r = ToLower (TrimSpace v) in
     if r = RoleViewer then RoleViewer else if r = RoleOperator then RoleOperator
     else if r = RoleAdmin then RoleAdmin else if fallback = '''' then RoleViewer else fallback)"

subsection \<open>Principals, managers, errors\<close>

record Principal =
  p_Kind :: string
  p_TokenID :: string
  p_Name :: string
  p_AllowCountries :: "string list"
  p_AllowProtocols :: "string list"
  p_MaxRPS :: float64
  p_DailyQuota :: int
  p_Role :: Role
  p_TenantID :: string
  p_Subject :: string
  p_Email :: string
  p_Authenticated :: bool

record sessionClaims =
  sc_Issuer :: string
  sc_Subject :: string
  sc_Name :: string
  sc_Email :: string
  sc_Role :: Role
  sc_TenantID :: string
  sc_IssuedAt :: int
  sc_Expires :: int

record Manager =
  m_MasterToken :: string
  m_SessionSecret :: string
  m_SessionTTL :: duration
  m_LocalEnabled :: bool

record auth_libs =
  hmac_sha256 :: "string \<Rightarrow> string \<Rightarrow> string"
  sha256 :: "string \<Rightarrow> string"
  bcrypt_ok :: "string \<Rightarrow> string \<Rightarrow> bool"
  header_json :: string
  read_header :: "string \<Rightarrow> (string, string) gmap option"
  claims_json :: "sessionClaims \<Rightarrow> string"
  read_claims :: "string \<Rightarrow> sessionClaims option"

datatype auth_error =
    SessionNotConfigured | PrincipalRequired | InvalidSession | InvalidAlgorithm | InvalidSignature
  | ExpiredSession | LocalDisabled | InvalidCredentials | TokenRequired | InvalidToken
  | TokenDisabled | TokenExpired | UnsupportedProtocol string | NoDatabase | StoreError db_error

definition zero_principal :: Principal where
  "zero_principal = \<lparr>p_Kind = '''', p_TokenID = '''', p_Name = '''', p_AllowCountries = [],
     p_AllowProtocols = [], p_MaxRPS = 0, p_DailyQuota = 0, p_Role = '''', p_TenantID = '''',
     p_Subject = '''', p_Email = '''', p_Authenticated = False\<rparr>"

definition auth_tenant :: "string \<Rightarrow> string" where
  "auth_tenant tenant = (if TrimSpace tenant = '''' then ''default'' else TrimSpace tenant)"

definition secureEqual :: "string \<Rightarrow> string \<Rightarrow> bool" where
  "secureEqual a b \<longleftrightarrow> \<not> (a = '''' \<or> b = '''' \<or> length a \<noteq> length b) \<and> a = b"

definition Actor :: "Principal option \<Rightarrow> string" where
  "Actor p = (case p of None \<Rightarrow> ''unknown''
     | Some p \<Rightarrow> if p_Subject p \<noteq> '''' then auth_tenant (p_TenantID p) @ '':'' @ p_Subject p
         else if p_Name p \<noteq> '''' then p_Name p else p_Kind p)"

subsection \<open>Sessions\<close>

text \<open>\<open>Time.Unix\<close>: seconds since 1970; Go's zero time is 62135596800 seconds earlier.\<close>

definition Unix :: "time \<Rightarrow> int" where
  "Unix t = t div second - 62135596800"

definition issued_claims :: "time \<Rightarrow> Manager \<Rightarrow> Principal \<Rightarrow> sessionClaims" where
  "issued_claims now m p = \<lparr>sc_Issuer = ''nodeharvest'', sc_Subject = p_Subject p, sc_Name = p_Name p,
     sc_Email = p_Email p, sc_Role = p_Role p, sc_TenantID = auth_tenant (p_TenantID p),
     sc_IssuedAt = Unix now, sc_Expires = Unix (now + m_SessionTTL m)\<rparr>"

definition IssueSession :: "auth_libs \<Rightarrow> time \<Rightarrow> Manager \<Rightarrow> Principal option \<Rightarrow> auth_error + string" where
  "IssueSession libs now m prin =
     (if length (m_SessionSecret m) < 32 then Inl SessionNotConfigured
      else case prin of None \<Rightarrow> Inl PrincipalRequired
      | Some p \<Rightarrow>
         if \<not> p_Authenticated p then Inl PrincipalRequired
         else (let claims = issued_claims now m p;
                   signed_part = rawBase64 (header_json libs) @ ''.'' @ rawBase64 (claims_json libs claims);
                   signature = hmac_sha256 libs signed_part (m_SessionSecret m)
               in Inr (signed_part @ ''.'' @ rawBase64 signature)))"

definition valid_claims :: "time \<Rightarrow> sessionClaims \<Rightarrow> bool" where
  "valid_claims now claims \<longleftrightarrow> \<not> (sc_Issuer claims \<noteq> ''nodeharvest'' \<or> sc_Subject claims = '''' \<or>
     sc_Expires claims \<le> Unix now \<or> sc_IssuedAt claims > Unix now + 60 \<or>
     \<not> Allows (normalizeRole (sc_Role claims) '''') RoleViewer)"

definition session_principal :: "sessionClaims \<Rightarrow> Principal" where
  "session_principal claims = zero_principal\<lparr>p_Kind := ''session'', p_Name := sc_Name claims,
     p_Role := sc_Role claims, p_TenantID := auth_tenant (sc_TenantID claims),
     p_Subject := sc_Subject claims, p_Email := sc_Email claims, p_Authenticated := True\<rparr>"

definition header_ok :: "auth_libs \<Rightarrow> string \<Rightarrow> bool" where
  "header_ok libs bytes = (case read_header libs bytes of None \<Rightarrow> False
     | Some header \<Rightarrow> gget '''' header ''alg'' = ''HS256'' \<and> gget '''' header ''typ'' = ''JWT'')"

definition ValidateSession :: "auth_libs \<Rightarrow> time \<Rightarrow> Manager \<Rightarrow> string \<Rightarrow> auth_error + Principal" where
  "ValidateSession libs now m raw =
     (if length (m_SessionSecret m) < 32 then Inl SessionNotConfigured
      else case Split (CHR ''.'') raw of
        [a, b, c] \<Rightarrow> (case decodeRawBase64 a of None \<Rightarrow> Inl InvalidSession
          | Some header \<Rightarrow>
             if \<not> header_ok libs header then Inl InvalidAlgorithm
             else if decodeRawBase64 c \<noteq> Some (hmac_sha256 libs (a @ ''.'' @ b) (m_SessionSecret m))
             then Inl InvalidSignature
             else case decodeRawBase64 b of None \<Rightarrow> Inl InvalidSession
             | Some payload \<Rightarrow> (case read_claims libs payload of None \<Rightarrow> Inl InvalidSession
                 | Some claims \<Rightarrow> if valid_claims now claims then Inr (session_principal claims)
                     else Inl ExpiredSession))
      | _ \<Rightarrow> Inl InvalidSession)"

text \<open>\<open>cookie\<close> is the value of the session cookie, empty when there is none.\<close>

definition RequestPrincipal :: "auth_libs \<Rightarrow> time \<Rightarrow> Manager \<Rightarrow> string \<Rightarrow> auth_error + Principal" where
  "RequestPrincipal libs now m cookie =
     (if cookie \<noteq> '''' then ValidateSession libs now m cookie
      else Inr (zero_principal\<lparr>p_Kind := ''public'', p_Name := ''public'', p_Role := RoleViewer,
        p_TenantID := ''public''\<rparr>))"

subsection \<open>Local login\<close>

definition principalFromUser :: "User \<Rightarrow> string \<Rightarrow> Principal" where
  "principalFromUser user kind = zero_principal\<lparr>p_Kind := kind, p_Name := usr_Username user,
     p_Role := normalizeRole (usr_Role user) RoleViewer, p_TenantID := auth_tenant (usr_TenantID user),
     p_Subject := usr_ID user, p_Email := usr_Email user, p_Authenticated := True\<rparr>"

text \<open>The principal, its session and the user table; the audit entry is a statement of its own.\<close>

definition LoginLocal ::
  "auth_libs \<Rightarrow> time \<Rightarrow> Manager \<Rightarrow> User list option \<Rightarrow> string \<Rightarrow> string \<Rightarrow> string \<Rightarrow> auth_error + Principal \<times> string \<times> User list"
where
  "LoginLocal libs now m db tenant username password =
     (if \<not> m_LocalEnabled m then Inl LocalDisabled
      else case db of None \<Rightarrow> Inl LocalDisabled
      | Some users \<Rightarrow> (case FindUser tenant (TrimSpace username) users of None \<Rightarrow> Inl InvalidCredentials
          | Some user \<Rightarrow>
             if \<not> usr_Enabled user \<or> \<not> bcrypt_ok libs (usr_PasswordHash user) password then Inl InvalidCredentials
             else (let prin = principalFromUser user ''local''
                   in case IssueSession libs now m (Some prin) of Inl e \<Rightarrow> Inl e
                      | Inr token \<Rightarrow> Inr (prin, token, TouchUserLogin now (usr_ID user) users))))"

subsection \<open>Subscription tokens\<close>

definition token_matches :: "auth_libs \<Rightarrow> string \<Rightarrow> Token \<Rightarrow> bool" where
  "token_matches libs plain t = (if HasPrefix (tok_TokenHash t) ''$2'' then bcrypt_ok libs (tok_TokenHash t) plain
     else secureEqual (tok_TokenHash t) (sha256 libs plain))"

definition token_prefix :: "string \<Rightarrow> string" where
  "token_prefix plain = (if length plain > 8 then take 8 plain else plain)"

definition token_principal :: "Token \<Rightarrow> Principal" where
  "token_principal t = zero_principal\<lparr>p_Kind := ''db'', p_TokenID := tok_ID t, p_Name := tok_Name t,
     p_AllowCountries := tok_AllowCountries t, p_AllowProtocols := tok_AllowProtocols t,
     p_MaxRPS := tok_MaxRPS t, p_DailyQuota := tok_DailyQuota t, p_TenantID := auth_tenant (tok_TenantID t)\<rparr>"

definition ValidateSubToken ::
  "auth_libs \<Rightarrow> time \<Rightarrow> Manager \<Rightarrow> Token list option \<Rightarrow> string \<Rightarrow> auth_error + Principal \<times> Token list option" where
  "ValidateSubToken libs now m db plain0 = (let plain = TrimSpace plain0 in
     if plain = '''' then
       (if m_MasterToken m = '''' then Inr (zero_principal\<lparr>p_Kind := ''public'', p_Name := ''public''\<rparr>, db)
        else Inl TokenRequired)
     else if secureEqual plain (m_MasterToken m) then
       Inr (zero_principal\<lparr>p_Kind := ''master'', p_Name := ''master'', p_TokenID := ''master''\<rparr>, db)
     else case db of None \<Rightarrow> Inl InvalidToken
     | Some tokens \<Rightarrow> (case find (token_matches libs plain) (FindTokensByPrefix (token_prefix plain) tokens) of
         None \<Rightarrow> Inl InvalidToken
       | Some t \<Rightarrow>
           if \<not> tok_Enabled t then Inl TokenDisabled
           else if tok_ExpiresAt t \<noteq> 0 \<and> now > tok_ExpiresAt t then Inl TokenExpired
           else Inr (token_principal t, Some (TouchToken now (tok_ID t) tokens))))"

fun normalize_countries :: "string list \<Rightarrow> string list \<Rightarrow> string list" where
  "normalize_countries seen [] = []"
| "normalize_countries seen (c # cs) =
     (let u = ToUpper (TrimSpace c); country = (if u = ''UK'' then ''GB'' else u)
      in if length country = 2 \<and> country \<notin> set seen then country # normalize_countries (country # seen) cs
         else normalize_countries seen cs)"

definition normalizeCountries :: "string list \<Rightarrow> string list" where
  "normalizeCountries countries = normalize_countries [] countries"

definition known_protocols :: "string list" where
  "known_protocols = [''vmess'', ''vless'', ''trojan'', ''ss'', ''ssr'', ''hysteria2'', ''tuic'']"

fun normalize_protocols :: "string list \<Rightarrow> string list \<Rightarrow> auth_error + string list" where
  "normalize_protocols seen [] = Inr []"
| "normalize_protocols seen (p # ps) =
     (let l = ToLower (TrimSpace p); protocol = (if l = ''hy2'' then ''hysteria2'' else l)
      in if protocol \<notin> set known_protocols then Inl (UnsupportedProtocol protocol)
         else if protocol \<in> set seen then normalize_protocols seen ps
         else (case normalize_protocols (protocol # seen) ps of Inl e \<Rightarrow> Inl e | Inr out \<Rightarrow> Inr (protocol # out)))"

definition normalizeProtocols :: "string list \<Rightarrow> auth_error + string list" where
  "normalizeProtocols protocols = normalize_protocols [] protocols"

text \<open>\<open>plain\<close>, \<open>i\<close> and \<open>hash\<close> are the random token, the random id and the bcrypt hash of the token.\<close>

definition CreateToken ::
  "time \<Rightarrow> string \<Rightarrow> string \<Rightarrow> string \<Rightarrow> string \<Rightarrow> string \<Rightarrow> string \<Rightarrow> string list \<Rightarrow> string list \<Rightarrow> int \<Rightarrow> float64 \<Rightarrow> int \<Rightarrow>
   Token list option \<Rightarrow> auth_error + Token \<times> Token list"
where
  "CreateToken now plain i hash name note tenant countries protocols days maxRPS dailyQuota db =
     (case db of None \<Rightarrow> Inl NoDatabase
      | Some tokens \<Rightarrow> (case normalizeProtocols protocols of Inl e \<Rightarrow> Inl e
          | Inr protos \<Rightarrow>
             (let t = \<lparr>tok_ID = i, tok_Name = name, tok_TokenHash = hash, tok_TokenPrefix = token_prefix plain,
                    tok_Enabled = True, tok_MaxRPS = maxRPS, tok_AllowCountries = normalizeCountries countries,
                    tok_AllowProtocols = protos, tok_TenantID = auth_tenant tenant, tok_DailyQuota = dailyQuota,
                    tok_ExpiresAt = (if days > 0 then FormatRFC3339 (now + wrap64 (days * 24 * hour)) else 0),
                    tok_CreatedAt = FormatRFC3339 now, tok_LastUsedAt = 0, tok_Note = note,
                    tok_RequestsToday = 0, tok_BytesToday = 0\<rparr>
              in case InsertToken t tokens of Inl e \<Rightarrow> Inl (StoreError e) | Inr tokens' \<Rightarrow> Inr (t, tokens'))))"

subsection \<open>Roles are ordered\<close>

lemma role_levels [simp]:
  "role_level RoleViewer = 1" "role_level RoleOperator = 2" "role_level RoleAdmin = 3"
  by (simp_all add: role_level_def gget_def)

lemma Allows_trans: "Allows a b \<Longrightarrow> Allows b c \<Longrightarrow> Allows a c"
  by (simp add: Allows_def)

text \<open>
  The role test of \<open>ValidateSession\<close> never fails, because an unknown role is first replaced by
  \<open>viewer\<close>; a session with an unknown role is accepted but allowed nothing that names a role.
\<close>

lemma session_role_test_vacuous: "Allows (normalizeRole r '''') RoleViewer"
  by (simp add: normalizeRole_def Allows_def Let_def)

lemma unknown_role_denied:
  assumes "r \<notin> {RoleViewer, RoleOperator, RoleAdmin}" and "required \<in> {RoleViewer, RoleOperator, RoleAdmin}"
  shows "\<not> Allows r required"
  using assms by (auto simp: Allows_def role_level_def gget_def)

subsection \<open>Sessions\<close>

lemma Split_dots:
  "Split (CHR ''.'') (rawBase64 a @ ''.'' @ rawBase64 b @ ''.'' @ rawBase64 c) = [rawBase64 a, rawBase64 b, rawBase64 c]"
  using Split_append [OF rawBase64_no_dot] Split_id [OF rawBase64_no_dot] by simp

lemma Split_three:
  assumes "Split sep s = [a, b, c]"
  shows "s = a @ [sep] @ b @ [sep] @ c"
  using Join_Split [of sep s] assms by simp

text \<open>
  C13. A session is accepted only when it is exactly a text the server's key signs: base64url of a
  header, of claims and of the HMAC of those two parts, all in canonical form, with claims that name
  this issuer and a subject and have not expired. In particular the accepted text is determined by
  its header and claims, so no accepted session can be altered into another accepted text.
\<close>

theorem ValidateSession_sound:
  assumes "ValidateSession libs now m raw = Inr p"
  shows "\<exists>header payload claims. header_ok libs header \<and> read_claims libs payload = Some claims \<and>
    (let part = rawBase64 header @ ''.'' @ rawBase64 payload
     in raw = part @ ''.'' @ rawBase64 (hmac_sha256 libs part (m_SessionSecret m))) \<and>
    p = session_principal claims \<and> sc_Issuer claims = ''nodeharvest'' \<and> sc_Subject claims \<noteq> '''' \<and>
    Unix now < sc_Expires claims \<and> sc_IssuedAt claims \<le> Unix now + 60 \<and> 32 \<le> length (m_SessionSecret m)"
proof -
  obtain a b c where parts: "Split (CHR ''.'') raw = [a, b, c]" and len: "32 \<le> length (m_SessionSecret m)"
    using assms by (auto simp: ValidateSession_def split: if_splits list.splits)
  obtain header where h: "decodeRawBase64 a = Some header" "header_ok libs header"
    using assms parts len by (auto simp: ValidateSession_def split: if_splits option.splits)
  have sig: "decodeRawBase64 c = Some (hmac_sha256 libs (a @ ''.'' @ b) (m_SessionSecret m))"
    using assms parts len h by (auto simp: ValidateSession_def split: if_splits)
  obtain payload where pl: "decodeRawBase64 b = Some payload"
    using assms parts len h sig by (auto simp: ValidateSession_def split: option.splits)
  obtain claims where cl: "read_claims libs payload = Some claims" "valid_claims now claims" "p = session_principal claims"
    using assms parts len h sig pl by (auto simp: ValidateSession_def split: option.splits if_splits)
  have "a = rawBase64 header" "b = rawBase64 payload"
    "c = rawBase64 (hmac_sha256 libs (rawBase64 header @ ''.'' @ rawBase64 payload) (m_SessionSecret m))"
    using h pl sig by (simp_all add: decodeRawBase64_Some)
  with Split_three [OF parts] have
    "raw = (rawBase64 header @ ''.'' @ rawBase64 payload) @ ''.'' @
       rawBase64 (hmac_sha256 libs (rawBase64 header @ ''.'' @ rawBase64 payload) (m_SessionSecret m))"
    by simp
  with h cl len show ?thesis unfolding valid_claims_def Let_def not_le [symmetric] by blast
qed

text \<open>A toy instance of the libraries, for evaluation: one claims value, the message as its own MAC.\<close>

definition example_claims :: sessionClaims where
  "example_claims = \<lparr>sc_Issuer = ''nodeharvest'', sc_Subject = ''u1'', sc_Name = ''ann'', sc_Email = '''',
     sc_Role = RoleAdmin, sc_TenantID = ''default'', sc_IssuedAt = Unix (100 * second),
     sc_Expires = Unix (200 * second)\<rparr>"

definition plain_auth :: auth_libs where
  "plain_auth = \<lparr>hmac_sha256 = (\<lambda>msg key. take 3 (rev msg)), sha256 = (\<lambda>s. s), bcrypt_ok = (\<lambda>h p. h = ''$2'' @ p),
     header_json = ''H'', read_header = (\<lambda>s. if s = ''H'' then Some [(''alg'', ''HS256''), (''typ'', ''JWT'')] else None),
     claims_json = (\<lambda>c. if c = example_claims then ''C'' else ''D''),
     read_claims = (\<lambda>s. if s = ''C'' then Some example_claims else None)\<rparr>"

definition example_manager :: Manager where
  "example_manager = \<lparr>m_MasterToken = ''master-token'', m_SessionSecret = replicate 32 (CHR ''k''),
     m_SessionTTL = 100 * second, m_LocalEnabled = True\<rparr>"

definition example_principal :: Principal where
  "example_principal = zero_principal\<lparr>p_Kind := ''local'', p_Name := ''ann'', p_Role := RoleAdmin,
     p_TenantID := ''default'', p_Subject := ''u1'', p_Authenticated := True\<rparr>"

definition example_session :: string where
  "example_session = (case IssueSession plain_auth (100 * second) example_manager (Some example_principal) of
     Inl e \<Rightarrow> '''' | Inr s \<Rightarrow> s)"

lemma example_session_valid:
  "ValidateSession plain_auth (150 * second) example_manager example_session = Inr (session_principal example_claims)"
  by code_simp

theorem ValidateSession_sound_witness:
  "\<exists>claims. session_principal example_claims = session_principal claims \<and> Unix (150 * second) < sc_Expires claims"
  using ValidateSession_sound [OF example_session_valid] by blast

text \<open>
  A session the server issues is accepted until it expires, and gives back the principal it was
  issued for: subject, name, e-mail, role and tenant.
\<close>

lemma session_roundtrip:
  assumes "read_claims libs (claims_json libs (issued_claims now m p)) = Some (issued_claims now m p)"
    and "header_ok libs (header_json libs)"
    and "IssueSession libs now m (Some p) = Inr raw" and "p_Subject p \<noteq> ''''"
    and "now \<le> now'" and "Unix now' < Unix (now + m_SessionTTL m)"
  shows "\<exists>q. ValidateSession libs now' m raw = Inr q \<and> p_Subject q = p_Subject p \<and> p_Name q = p_Name p \<and>
    p_Email q = p_Email p \<and> p_Role q = p_Role p \<and> p_TenantID q = auth_tenant (p_TenantID p) \<and> p_Authenticated q"
proof -
  let ?claims = "issued_claims now m p"
  let ?part = "rawBase64 (header_json libs) @ ''.'' @ rawBase64 (claims_json libs ?claims)"
  have len: "\<not> length (m_SessionSecret m) < 32"
    and raw: "raw = ?part @ ''.'' @ rawBase64 (hmac_sha256 libs ?part (m_SessionSecret m))"
    using assms(3) by (auto simp: IssueSession_def Let_def split: if_splits)
  have "Unix now \<le> Unix now'" using assms(5) by (simp add: Unix_def second_def zdiv_mono1)
  then have "valid_claims now' ?claims"
    using assms(4,6) session_role_test_vacuous by (simp add: valid_claims_def issued_claims_def)
  then have "ValidateSession libs now' m raw = Inr (session_principal ?claims)"
    using len raw assms(1,2) Split_dots
    by (simp add: ValidateSession_def decodeRawBase64_Some [THEN iffD2])
  moreover have "TrimSpace ''default'' = ''default''" by code_simp
  then have "auth_tenant (auth_tenant t) = auth_tenant t" for t
    by (simp add: auth_tenant_def)
  ultimately show ?thesis by (simp add: session_principal_def issued_claims_def)
qed

subsection \<open>Subscription tokens\<close>

text \<open>
  C14. Who may read a subscription: a request without a token only when no master token is
  configured; otherwise the master token itself, or a token in the database that verifies against
  the stored hash, is enabled and has not expired, and then with that token's own restrictions. Any
  other text is refused.
\<close>

theorem ValidateSubToken_sound:
  assumes "ValidateSubToken libs now m db plain = Inr (p, db')"
  shows "(p_Kind p = ''public'' \<and> TrimSpace plain = '''' \<and> m_MasterToken m = '''') \<or>
    (p_Kind p = ''master'' \<and> TrimSpace plain = m_MasterToken m \<and> m_MasterToken m \<noteq> '''') \<or>
    (p_Kind p = ''db'' \<and> (\<exists>tokens t. db = Some tokens \<and> t \<in> set tokens \<and> token_matches libs (TrimSpace plain) t \<and>
       tok_TokenPrefix t = token_prefix (TrimSpace plain) \<and>
       tok_Enabled t \<and> (tok_ExpiresAt t = 0 \<or> now \<le> tok_ExpiresAt t) \<and> p = token_principal t \<and>
       db' = Some (TouchToken now (tok_ID t) tokens)))"
proof -
  let ?plain = "TrimSpace plain"
  consider "?plain = ''''" | "?plain \<noteq> ''''" "secureEqual ?plain (m_MasterToken m)"
    | "?plain \<noteq> ''''" "\<not> secureEqual ?plain (m_MasterToken m)" by blast
  then show ?thesis
  proof cases
    case 1
    with assms show ?thesis by (auto simp: ValidateSubToken_def split: if_splits)
  next
    case 2
    with assms show ?thesis by (auto simp: ValidateSubToken_def secureEqual_def)
  next
    case 3
    then obtain tokens where db: "db = Some tokens"
      using assms by (auto simp: ValidateSubToken_def Let_def split: option.splits)
    then obtain t where t: "find (token_matches libs ?plain) (FindTokensByPrefix (token_prefix ?plain) tokens) = Some t"
      using assms 3 by (auto simp: ValidateSubToken_def Let_def split: option.splits)
    then have "t \<in> set tokens" "token_matches libs ?plain t" "tok_TokenPrefix t = token_prefix ?plain"
      by (auto simp: FindTokensByPrefix_def dest!: find_SomeD)
    moreover have "tok_Enabled t" "tok_ExpiresAt t = 0 \<or> now \<le> tok_ExpiresAt t" "p = token_principal t"
      "db' = Some (TouchToken now (tok_ID t) tokens)"
      using assms 3 db t by (auto simp: ValidateSubToken_def Let_def not_less split: if_splits)
    moreover have "p_Kind (token_principal t) = ''db''" by (simp add: token_principal_def)
    ultimately show ?thesis using db by blast
  qed
qed

definition example_token :: Token where
  "example_token = \<lparr>tok_ID = ''t1'', tok_Name = ''phone'', tok_TokenHash = ''$2secret-token'', tok_TokenPrefix = ''secret-t'',
     tok_Enabled = True, tok_MaxRPS = 0, tok_AllowCountries = [''JP''], tok_AllowProtocols = [], tok_TenantID = ''default'',
     tok_DailyQuota = 10, tok_ExpiresAt = 0, tok_CreatedAt = 1, tok_LastUsedAt = 0, tok_Note = '''',
     tok_RequestsToday = 0, tok_BytesToday = 0\<rparr>"

theorem ValidateSubToken_sound_witness:
  "p_Kind (token_principal example_token) = ''db'' \<and>
   (\<exists>tokens t. Some [example_token] = Some tokens \<and> t \<in> set tokens \<and> token_matches plain_auth ''secret-token'' t)"
proof -
  have v: "ValidateSubToken plain_auth 5 example_manager (Some [example_token]) '' secret-token'' =
      Inr (token_principal example_token, Some (TouchToken 5 ''t1'' [example_token]))"
    and t: "TrimSpace '' secret-token'' = ''secret-token''"
    by code_simp+
  from ValidateSubToken_sound [OF v] t show ?thesis by (simp add: example_manager_def token_principal_def zero_principal_def)
qed

text \<open>
  A token that was just created is accepted, with its normalised restrictions, as long as no other
  token verifies the same text.
\<close>

lemma created_token_valid:
  assumes "CreateToken now plain i hash name note tenant cs ps days rps quota (Some tokens) = Inr (t, tokens')"
    and "HasPrefix hash ''$2''" and "bcrypt_ok libs hash plain" and "TrimSpace plain = plain" and "plain \<noteq> ''''"
    and "plain \<noteq> m_MasterToken m" and "\<forall>u \<in> set tokens. \<not> token_matches libs plain u"
    and "days \<le> 0"
  shows "\<exists>p db. ValidateSubToken libs now' m (Some tokens') plain = Inr (p, db) \<and> p_TokenID p = i \<and>
    p_AllowCountries p = normalizeCountries cs \<and> p_DailyQuota p = quota"
proof -
  obtain t' where t': "tokens' = tokens @ [t']" "tok_ID t' = i" "tok_TokenHash t' = hash" "tok_Enabled t'"
      "tok_TokenPrefix t' = token_prefix plain" "tok_ExpiresAt t' = 0" "tok_AllowCountries t' = normalizeCountries cs"
      "tok_DailyQuota t' = quota"
    using assms(1,8) by (auto simp: CreateToken_def InsertToken_def Let_def split: sum.splits if_splits)
  have "token_matches libs plain t'" using assms(2,3) t' by (simp add: token_matches_def)
  with assms(7) have "find (token_matches libs plain) (filter (\<lambda>t. tok_TokenPrefix t = pre) tokens @ [t']) = Some t'" for pre
    by (induction tokens) auto
  then have "find (token_matches libs plain) (FindTokensByPrefix (token_prefix plain) tokens') = Some t'"
    using t' by (simp add: FindTokensByPrefix_def)
  with t' assms(4-6) show ?thesis
    by (simp add: ValidateSubToken_def secureEqual_def token_principal_def)
qed

end
