(* ===== verification/IP.thy ===== *)
theory IP
  imports Prelude
begin

text \<open>
  IP address literals as \<open>net.ParseIP\<close> of the Go library reads them, and the address classes that
  the cleaner and the geo annotation ask for. An address is the list of its 16 bytes; an IPv4 address
  is in its mapped form \<open>::ffff:a.b.c.d\<close>.
\<close>

type_synonym ip = "int list"

definition is_hex :: "char \<Rightarrow> bool" where
  "is_hex c \<longleftrightarrow> (CHR ''0'' \<le> c \<and> c \<le> CHR ''9'') \<or> (CHR ''a'' \<le> c \<and> c \<le> CHR ''f'') \<or> (CHR ''A'' \<le> c \<and> c \<le> CHR ''F'')"

definition hex_digit :: "char \<Rightarrow> int" where
  "hex_digit c = (let n = int (of_char c) in
     if c \<le> CHR ''9'' then n - 48 else if c \<le> CHR ''F'' then n - 55 else n - 87)"

definition hex_value :: "string \<Rightarrow> int" where
  "hex_value ds = fold (\<lambda>c acc. 16 * acc + hex_digit c) ds 0"

text \<open>One decimal field of a dotted address: no sign, no leading zero, at most 255.\<close>

definition octet :: "string \<Rightarrow> int option" where
  "octet p = (if p = '''' \<or> \<not> list_all (\<lambda>c. CHR ''0'' \<le> c \<and> c \<le> CHR ''9'') p \<or>
     (length p > 1 \<and> hd p = CHR ''0'') \<or> dec_value p > 255 then None else Some (int (dec_value p)))"

definition parseIPv4 :: "string \<Rightarrow> int list option" where
  "parseIPv4 s = (case map octet (Split (CHR ''.'') s) of
     [Some a, Some b, Some c, Some d] \<Rightarrow> Some [a, b, c, d] | _ \<Rightarrow> None)"

text \<open>
  The loop over the groups of an IPv6 literal: at most \<open>k\<close> more groups of two bytes fit, \<open>acc\<close> are the
  bytes so far and \<open>ell\<close> the position of \<open>::\<close>.
\<close>

fun v6_groups :: "nat \<Rightarrow> int list \<Rightarrow> nat option \<Rightarrow> string \<Rightarrow> (int list \<times> nat option \<times> string) option" where
  "v6_groups 0 acc ell s = Some (acc, ell, s)"
| "v6_groups (Suc k) acc ell s =
     (let ds = takeWhile is_hex s; rest = dropWhile is_hex s;
          acc' = acc @ [hex_value ds div 256, hex_value ds mod 256]
      in if ds = [] \<or> length ds > 4 then None
         else case rest of
           [] \<Rightarrow> Some (acc', ell, [])
         | c # r \<Rightarrow>
            if c = CHR ''.'' then
              (if (ell = None \<and> length acc \<noteq> 12) \<or> length acc + 4 > 16 then None
               else map_option (\<lambda>v4. (acc @ v4, ell, '''')) (parseIPv4 s))
            else if c \<noteq> CHR '':'' \<or> r = [] then None
            else if hd r = CHR '':'' then
              (if ell \<noteq> None then None
               else if tl r = [] then Some (acc', Some (length acc'), [])
               else v6_groups k acc' (Some (length acc')) (tl r))
            else v6_groups k acc' ell r)"

definition parseIPv6 :: "string \<Rightarrow> ip option" where
  "parseIPv6 s =
     (let lead = HasPrefix s ''::''; s' = (if lead then drop 2 s else s)
      in if lead \<and> s' = '''' then Some (replicate 16 0)
         else case v6_groups 8 [] (if lead then Some 0 else None) s' of
           None \<Rightarrow> None
         | Some (acc, ell, rest) \<Rightarrow>
            if rest \<noteq> '''' then None
            else if length acc < 16 then
              (case ell of None \<Rightarrow> None
               | Some e \<Rightarrow> Some (take e acc @ replicate (16 - length acc) 0 @ drop e acc))
            else if ell \<noteq> None then None else Some acc)"

definition v4_mapped :: "int list" where
  "v4_mapped = replicate 10 0 @ [255, 255]"

text \<open>The first of \<open>.\<close>, \<open>:\<close> and \<open>%\<close> decides the family; a zone is refused.\<close>

definition ParseIP :: "string \<Rightarrow> ip option" where
  "ParseIP s = (case dropWhile (\<lambda>c. c \<noteq> CHR ''.'' \<and> c \<noteq> CHR '':'' \<and> c \<noteq> CHR ''%'') s of
     [] \<Rightarrow> None
   | c # _ \<Rightarrow> if c = CHR ''.'' then map_option (\<lambda>v4. v4_mapped @ v4) (parseIPv4 s)
       else if c = CHR '':'' \<and> CHR ''%'' \<notin> set s then parseIPv6 s else None)"

definition To4 :: "ip \<Rightarrow> int list option" where
  "To4 ip = (if take 12 ip = v4_mapped then Some (drop 12 ip) else None)"

definition IsLoopback :: "ip \<Rightarrow> bool" where
  "IsLoopback ip \<longleftrightarrow> (case To4 ip of Some v4 \<Rightarrow> v4 ! 0 = 127 | None \<Rightarrow> ip = replicate 15 0 @ [1])"

definition IsPrivate :: "ip \<Rightarrow> bool" where
  "IsPrivate ip \<longleftrightarrow> (case To4 ip of
     Some v4 \<Rightarrow> v4 ! 0 = 10 \<or> (v4 ! 0 = 172 \<and> v4 ! 1 div 16 = 1) \<or> (v4 ! 0 = 192 \<and> v4 ! 1 = 168)
   | None \<Rightarrow> ip ! 0 div 2 = 126)"

definition IsLinkLocalUnicast :: "ip \<Rightarrow> bool" where
  "IsLinkLocalUnicast ip \<longleftrightarrow> (case To4 ip of
     Some v4 \<Rightarrow> v4 ! 0 = 169 \<and> v4 ! 1 = 254
   | None \<Rightarrow> ip ! 0 = 254 \<and> ip ! 1 div 64 = 2)"

definition IsUnspecified :: "ip \<Rightarrow> bool" where
  "IsUnspecified ip \<longleftrightarrow> ip = v4_mapped @ [0, 0, 0, 0] \<or> ip = replicate 16 0"

lemma octet_range: "octet p = Some n \<Longrightarrow> 0 \<le> n \<and> n \<le> 255"
  by (auto simp: octet_def split: if_splits)

lemma parseIPv4_Some:
  "parseIPv4 s = Some v4 \<Longrightarrow> length v4 = 4 \<and> (\<forall>b \<in> set v4. 0 \<le> b \<and> b \<le> 255)"
  by (auto simp: parseIPv4_def dest!: octet_range split: list.splits option.splits)

lemma v6_groups_length:
  "v6_groups k acc ell s = Some (acc', ell', rest) \<Longrightarrow> length acc + 2 * k = 16 \<Longrightarrow>
     \<forall>e. ell = Some e \<longrightarrow> e \<le> length acc \<Longrightarrow>
     length acc' \<le> 16 \<and> (\<forall>e. ell' = Some e \<longrightarrow> e \<le> length acc')"
  by (induction k acc ell s rule: v6_groups.induct)
    (auto simp: Let_def le_SucI dest!: parseIPv4_Some split: if_splits list.splits)

text \<open>Every address that is read has sixteen bytes.\<close>

lemma ParseIP_length: "ParseIP s = Some ip \<Longrightarrow> length ip = 16"
proof -
  have v6: "length ip = 16" if "parseIPv6 s = Some ip" for s
    using that v6_groups_length [of 8 "[]"]
    by (auto simp: parseIPv6_def Let_def split: if_splits option.splits prod.splits) fastforce+
  assume "ParseIP s = Some ip"
  then show ?thesis
    by (auto simp: ParseIP_def v4_mapped_def dest!: parseIPv4_Some v6 split: list.splits if_splits)
qed


subsection \<open>Dotted addresses are read back\<close>

lemma nat_dec_leading: "0 < n \<Longrightarrow> hd (nat_dec n) \<noteq> CHR ''0''"
proof (induction n rule: nat_dec.induct)
  case (1 n)
  have "char_of (48 + n) \<noteq> CHR ''0''" if "n < 10"
  proof
    assume "char_of (48 + n) = CHR ''0''"
    then have "of_char (char_of (48 + n)) = (48 :: nat)" by simp
    with that 1(2) show False by simp
  qed
  with 1 show ?case by (cases "n < 10") (auto simp: nat_dec.simps [of n])
qed

lemma octet_itoa:
  assumes "0 \<le> n" and "n \<le> 255"
  shows "octet (itoa n) = Some n"
proof -
  have "CHR ''0'' \<le> c \<and> c \<le> CHR ''9''" if "c \<in> set (nat_dec (nat n))" for c
    using nat_dec_digits [of "nat n"] that by (auto simp: less_eq_char_def)
  moreover have "\<not> (length (nat_dec (nat n)) > 1 \<and> hd (nat_dec (nat n)) = CHR ''0'')"
    using nat_dec_leading [of "nat n"] assms(1) by (cases "n = 0") (auto simp: nat_dec.simps [of 0])
  moreover have "dec_value (nat_dec (nat n)) = nat n" by (rule dec_value_nat_dec)
  ultimately show ?thesis
    using assms by (auto simp: octet_def itoa_def list_all_iff simp del: dec_value.simps)
qed

lemma dot_free_itoa: "0 \<le> n \<Longrightarrow> c \<in> set (itoa n) \<Longrightarrow> c \<noteq> CHR ''.'' \<and> c \<noteq> CHR '':'' \<and> c \<noteq> CHR ''%''"
  using nat_dec_digits [of "nat n"] by (auto simp: itoa_def)

lemma ParseIP_dotted:
  assumes "\<forall>x \<in> {a, b, c, d}. 0 \<le> x \<and> x \<le> 255"
  shows "ParseIP (Join [itoa a, itoa b, itoa c, itoa d] ''.'') = Some (v4_mapped @ [a, b, c, d])"
proof -
  have "Split (CHR ''.'') (Join [itoa a, itoa b, itoa c, itoa d] ''.'') = [itoa a, itoa b, itoa c, itoa d]"
    using assms dot_free_itoa by (intro Split_Join) auto
  then have "parseIPv4 (Join [itoa a, itoa b, itoa c, itoa d] ''.'') = Some [a, b, c, d]"
    using assms by (simp add: parseIPv4_def octet_itoa)
  moreover have "dropWhile (\<lambda>c. c \<noteq> CHR ''.'' \<and> c \<noteq> CHR '':'' \<and> c \<noteq> CHR ''%'')
      (Join [itoa a, itoa b, itoa c, itoa d] ''.'') = ''.'' @ Join [itoa b, itoa c, itoa d] ''.''"
    using assms dot_free_itoa [of a] by (auto simp: dropWhile_append)
  ultimately show ?thesis by (simp add: ParseIP_def)
qed

end
