(* ===== verification/Model.thy ===== *)
theory Model
  imports Prelude
begin

text \<open>
  \<open>internal/model/node.go\<close>: the unified node model shared by every component, its identity
  (\<open>Key\<close>), its validity, the engine queries on real-dial results, grades and the latency
  conversion of the JSON encoding.

  The SHA-256 hex digest used by \<open>Key\<close> and the truncated SHA-1 of the store's node id are the
  fields of a \<open>hashes\<close> record, an argument of every definition that hashes.
\<close>

type_synonym protocol = string

abbreviation ProtoVMess :: protocol where "ProtoVMess \<equiv> ''vmess''"
abbreviation ProtoVLESS :: protocol where "ProtoVLESS \<equiv> ''vless''"
abbreviation ProtoTrojan :: protocol where "ProtoTrojan \<equiv> ''trojan''"
abbreviation ProtoSS :: protocol where "ProtoSS \<equiv> ''ss''"
abbreviation ProtoSSR :: protocol where "ProtoSSR \<equiv> ''ssr''"
abbreviation ProtoHysteria2 :: protocol where "ProtoHysteria2 \<equiv> ''hysteria2''"
abbreviation ProtoTUIC :: protocol where "ProtoTUIC \<equiv> ''tuic''"
abbreviation ProtoUnknown :: protocol where "ProtoUnknown \<equiv> ''unknown''"

record hashes =
  sha256_hex :: "string \<Rightarrow> string"
  sha1_id :: "string \<Rightarrow> string"

record PurityResult =
  pur_OK :: bool
  pur_ExitIP :: string
  pur_Country :: string
  pur_ISP :: string
  pur_AS :: string
  pur_IsProxy :: bool
  pur_IsHosting :: bool
  pur_IsMobile :: bool
  pur_RiskScore :: int
  pur_CleanScore :: int
  pur_Grade :: string
  pur_CFTraceOK :: bool
  pur_CFChallenge :: string
  pur_CFHumanLikely :: bool
  pur_Notes :: "string list"
  pur_Error :: string
  pur_LatencyMS :: int
  pur_TestedAt :: time

text \<open>\<open>DialResult\<close> refers to itself through \<open>Checks\<close>: its flat fields form a record.\<close>

record DialFields =
  dial_OK :: bool
  dial_LatencyMS :: int
  dial_StatusCode :: int
  dial_Target :: string
  dial_Engine :: string
  dial_HTTPMS :: int
  dial_DownloadBytes :: int
  dial_ThroughputBPS :: int
  dial_Error :: string
  dial_TestedAt :: time

datatype DialResult = DialResult (dial: DialFields) (Checks: "DialResult option list")

record Quality =
  q_ScoreVersion :: string
  q_Rounds :: int
  q_SuccessRate :: float64
  q_AvgLatencyMS :: int
  q_MinLatencyMS :: int
  q_MaxLatencyMS :: int
  q_JitterMS :: int
  q_TLSOK :: bool
  q_TLSMS :: int
  q_EdgeScore :: float64
  q_HTTPMS :: int
  q_ThroughputBPS :: int
  q_Stability7D :: float64
  q_Breakdown :: "(string, float64) gmap"
  q_Score :: float64
  q_Notes :: "string list"

record AIProbeResult =
  ai_Target :: string
  ai_URL :: string
  ai_OK :: bool
  ai_StatusCode :: int
  ai_LatencyMS :: int
  ai_Error :: string
  ai_Mode :: string

record node =
  n_ID :: string
  n_Protocol :: protocol
  n_Name :: string
  n_Server :: string
  n_Port :: int
  n_UUID :: string
  n_Password :: string
  n_Method :: string
  n_Network :: string
  n_TLS :: bool
  n_SNI :: string
  n_Path :: string
  n_Host :: string
  n_Flow :: string
  n_Security :: string
  n_ALPN :: string
  n_Extra :: "(string, string) gmap"
  n_RawURI :: string
  n_Source :: string
  n_Sources :: "string list"
  n_Alive :: bool
  n_Latency :: duration
  n_Error :: string
  n_TestedAt :: time
  n_FirstSeenAt :: time
  n_LastSeenAt :: time
  n_QualityFailures :: int
  n_SuccessStreak :: int
  n_NextTestAt :: time
  n_Quality :: "Quality option"
  n_AIAccess :: "(string, AIProbeResult option) gmap option"
  n_Dial :: "DialResult option"
  n_Verified :: bool
  n_Purity :: "PurityResult option"
  n_Score :: float64
  n_Grade :: string
  n_Fingerprint :: string
  n_Country :: string
  n_City :: string
  n_ISP :: string
  n_ASN :: string
  n_EntryType :: string
  n_Tags :: "string list"

abbreviation NUL :: char where "NUL \<equiv> CHR 0x00"

text \<open>\<open>DialResult.HasEngine\<close> and \<open>PassedEngine\<close>, on a possibly nil receiver.\<close>

definition HasEngine :: "DialResult option \<Rightarrow> string \<Rightarrow> bool" where
  "HasEngine r engine0 = (case r of None \<Rightarrow> False | Some r \<Rightarrow>
     (let engine = ToLower (TrimSpace engine0) in
      if engine = '''' \<or> engine = ''auto'' then True
      else if engine \<noteq> ''both'' \<and> EqualFold (dial_Engine (dial r)) engine then True
      else (let found = map (\<lambda>check. ToLower (dial_Engine (dial check))) (somes (Checks r)) in
        if engine = ''both'' then ''sing-box'' \<in> set found \<and> ''mihomo'' \<in> set found
        else engine \<in> set found)))"

definition PassedEngine :: "DialResult option \<Rightarrow> string \<Rightarrow> bool" where
  "PassedEngine r engine0 = (case r of None \<Rightarrow> False | Some d \<Rightarrow>
     (let engine = ToLower (TrimSpace engine0) in
      if engine = '''' \<or> engine = ''auto'' then dial_OK (dial d)
      else if engine = ''both'' then dial_OK (dial d) \<and> HasEngine r ''both''
      else if EqualFold (dial_Engine (dial d)) engine then dial_OK (dial d)
      else (case find (\<lambda>check. EqualFold (dial_Engine (dial check)) engine) (somes (Checks d)) of
              None \<Rightarrow> False | Some check \<Rightarrow> dial_OK (dial check))))"

definition Address :: "node \<Rightarrow> string" where
  "Address n = n_Server n @ '':'' @ itoa (n_Port n)"

definition IsValid :: "node option \<Rightarrow> bool" where
  "IsValid p = (case p of None \<Rightarrow> False | Some n \<Rightarrow>
     if n_Protocol n = '''' \<or> n_Protocol n = ProtoUnknown then False
     else if TrimSpace (n_Server n) = '''' \<or> n_Port n \<le> 0 \<or> n_Port n > 65535 then False
     else True)"

definition SkipTLSVerify :: "node option \<Rightarrow> bool" where
  "SkipTLSVerify p = (case p of None \<Rightarrow> False | Some n \<Rightarrow>
     list_ex (\<lambda>key. ToLower (TrimSpace (gget '''' (n_Extra n) key)) \<in> {''1'', ''true'', ''yes'', ''on''})
       [''insecure'', ''allowInsecure'', ''skip-cert-verify''])"

definition canonicalExtra :: "(string, string) gmap \<Rightarrow> string" where
  "canonicalExtra extra =
     (let ks = sort (map fst (filter (\<lambda>(key, value). value \<noteq> '''') extra))
      in concat (map (\<lambda>key. key @ [NUL] @ gget '''' extra key @ [NUL]) ks))"

text \<open>The string that \<open>Key\<close> hashes.\<close>

definition canonical :: "node \<Rightarrow> string" where
  "canonical n = Join [
     ToLower (n_Protocol n), ToLower (n_Server n), itoa (n_Port n), ToLower (n_UUID n),
     n_Password n, ToLower (n_Method n), ToLower (n_Network n), btoa (n_TLS n),
     ToLower (n_SNI n), n_Path n, ToLower (n_Host n), ToLower (n_Flow n),
     ToLower (n_Security n), n_ALPN n, canonicalExtra (n_Extra n)] [NUL]"

definition Key :: "hashes \<Rightarrow> node \<Rightarrow> string" where
  "Key h n = sha256_hex h (canonical n)"

definition LatencyMS :: "node \<Rightarrow> int" where
  "LatencyMS n = (if n_Latency n \<le> 0 then 0 else Milliseconds (n_Latency n))"

text \<open>
  The \<open>latency_ms\<close> member of \<open>MarshalJSON\<close> and what \<open>UnmarshalJSON\<close> makes of it: \<open>lat0\<close> is the
  receiver's latency, the argument the decoded member (nil when absent).
\<close>

definition UnmarshalLatency :: "duration \<Rightarrow> int option \<Rightarrow> duration" where
  "UnmarshalLatency lat0 ms = (case ms of None \<Rightarrow> lat0 | Some v \<Rightarrow>
     if lat0 = 0 then (if v \<ge> Milliseconds (1000 * second) then v else wrap64 (v * millisecond))
     else lat0)"

definition AssignGrade :: "float64 \<Rightarrow> string" where
  "AssignGrade score =
     (if score \<ge> 90 then ''S'' else if score \<ge> 80 then ''A'' else if score \<ge> 65 then ''B''
      else if score \<ge> 50 then ''C'' else if score \<ge> 35 then ''D'' else ''F'')"

lemmas [go_defs] = HasEngine_def PassedEngine_def IsValid_def SkipTLSVerify_def Address_def

subsection \<open>Engines\<close>

text \<open>A passed engine is an engine that was run.\<close>

lemma PassedEngine_HasEngine: "PassedEngine r engine \<Longrightarrow> HasEngine r engine"
proof -
  have both: "ToLower (TrimSpace ''both'') = ''both''" by code_simp
  assume "PassedEngine r engine"
  then show ?thesis
    by (auto simp: PassedEngine_def HasEngine_def both Let_def EqualFold_def image_iff
        split: option.splits if_splits dest!: find_SomeD)
qed

lemma PassedEngine_None [simp]: "\<not> PassedEngine None engine"
  by (simp add: PassedEngine_def)

subsection \<open>Identity\<close>

lemma canonicalExtra_order:
  assumes "distinct (keys e)" and "mset e = mset e'"
  shows "canonicalExtra e = canonicalExtra e'"
proof -
  have "map_of e = map_of e'" using assms by (rule map_of_perm)
  then have "gget '''' e = gget '''' e'" by (simp add: gget_def fun_eq_iff)
  moreover have "sort (map fst (filter (\<lambda>(k, v). v \<noteq> '''') e)) =
      sort (map fst (filter (\<lambda>(k, v). v \<noteq> '''') e'))"
    by (rule properties_for_sort) (use assms(2) in \<open>simp_all add: mset_filter\<close>)
  ultimately show ?thesis by (simp add: canonicalExtra_def)
qed

definition identity_fields :: "node \<Rightarrow> string list" where
  "identity_fields n = [
     ToLower (n_Protocol n), ToLower (n_Server n), itoa (n_Port n), ToLower (n_UUID n),
     n_Password n, ToLower (n_Method n), ToLower (n_Network n), btoa (n_TLS n),
     ToLower (n_SNI n), n_Path n, ToLower (n_Host n), ToLower (n_Flow n),
     ToLower (n_Security n), n_ALPN n]"

text \<open>Go maps have distinct keys, and no field a node is identified by holds a NUL byte.\<close>

definition nul_free :: "node \<Rightarrow> bool" where
  "nul_free n \<longleftrightarrow> (\<forall>f \<in> set (identity_fields n). NUL \<notin> set f) \<and> distinct (keys (n_Extra n)) \<and>
     (\<forall>(k, v) \<in> set (n_Extra n). NUL \<notin> set k \<and> NUL \<notin> set v)"

definition same_identity :: "node \<Rightarrow> node \<Rightarrow> bool" where
  "same_identity a b \<longleftrightarrow>
     ToLower (n_Protocol a) = ToLower (n_Protocol b) \<and> ToLower (n_Server a) = ToLower (n_Server b) \<and>
     n_Port a = n_Port b \<and> ToLower (n_UUID a) = ToLower (n_UUID b) \<and> n_Password a = n_Password b \<and>
     ToLower (n_Method a) = ToLower (n_Method b) \<and> ToLower (n_Network a) = ToLower (n_Network b) \<and>
     n_TLS a = n_TLS b \<and> ToLower (n_SNI a) = ToLower (n_SNI b) \<and> n_Path a = n_Path b \<and>
     ToLower (n_Host a) = ToLower (n_Host b) \<and> ToLower (n_Flow a) = ToLower (n_Flow b) \<and>
     ToLower (n_Security a) = ToLower (n_Security b) \<and> n_ALPN a = n_ALPN b \<and>
     (\<forall>k. gget '''' (n_Extra a) k = gget '''' (n_Extra b) k)"

definition set_keys :: "(string, string) gmap \<Rightarrow> string list" where
  "set_keys e = sort (map fst (filter (\<lambda>(key, value). value \<noteq> '''') e))"

lemma set_keys_iff: "distinct (keys e) \<Longrightarrow> k \<in> set (set_keys e) \<longleftrightarrow> gget '''' e k \<noteq> ''''"
  by (auto simp: set_keys_def gget_def image_iff map_of_eq_None_iff split: option.splits)
    (auto dest: map_of_SomeD eq_key_imp_eq_value)

lemma distinct_set_keys: "distinct (keys e) \<Longrightarrow> distinct (set_keys e)"
  by (simp add: set_keys_def distinct_map_filter)

lemma canonicalExtra_set_keys:
  "canonicalExtra e = concat (map (\<lambda>k. k @ [NUL] @ gget '''' e k @ [NUL]) (set_keys e))"
  by (simp add: canonicalExtra_def set_keys_def)

lemma Split_pairs:
  "\<forall>k \<in> set ks. NUL \<notin> set k \<and> NUL \<notin> set (g k) \<Longrightarrow>
     Split NUL (concat (map (\<lambda>k. k @ [NUL] @ g k @ [NUL]) ks)) = concat (map (\<lambda>k. [k, g k]) ks) @ [[]]"
  by (induction ks) (auto simp: Split_append)

lemma pairs_inject:
  "concat (map (\<lambda>k. [k, g k]) ks) = concat (map (\<lambda>k. [k, h k]) ls) \<Longrightarrow>
     ks = ls \<and> (\<forall>k \<in> set ks. g k = h k)"
proof (induction ks arbitrary: ls)
  case Nil
  then show ?case by (cases ls) auto
next
  case (Cons k ks)
  then show ?case by (cases ls) auto
qed

lemma canonicalExtra_inject:
  assumes d: "distinct (keys e)" "distinct (keys e')"
    and f: "\<forall>(k, v) \<in> set e. NUL \<notin> set k \<and> NUL \<notin> set v"
      "\<forall>(k, v) \<in> set e'. NUL \<notin> set k \<and> NUL \<notin> set v"
  shows "canonicalExtra e = canonicalExtra e' \<longleftrightarrow> (\<forall>k. gget '''' e k = gget '''' e' k)"
proof
  have free: "\<forall>k \<in> set (set_keys x). NUL \<notin> set k \<and> NUL \<notin> set (gget '''' x k)"
    if "\<forall>(k, v) \<in> set x. NUL \<notin> set k \<and> NUL \<notin> set v" for x
    using that by (fastforce simp: set_keys_def gget_def split: option.splits dest: map_of_SomeD)
  assume "canonicalExtra e = canonicalExtra e'"
  then have "Split NUL (canonicalExtra e) = Split NUL (canonicalExtra e')" by simp
  then have "concat (map (\<lambda>k. [k, gget '''' e k]) (set_keys e)) @ [[]] =
      concat (map (\<lambda>k. [k, gget '''' e' k]) (set_keys e')) @ [[]]"
    unfolding canonicalExtra_set_keys Split_pairs [OF free [OF f(1)]] Split_pairs [OF free [OF f(2)]] .
  then have eq: "set_keys e = set_keys e' \<and> (\<forall>k \<in> set (set_keys e). gget '''' e k = gget '''' e' k)"
    by (intro pairs_inject) simp
  show "\<forall>k. gget '''' e k = gget '''' e' k"
  proof
    fix k
    show "gget '''' e k = gget '''' e' k"
      using eq set_keys_iff [OF d(1)] set_keys_iff [OF d(2)] by metis
  qed
next
  assume g: "\<forall>k. gget '''' e k = gget '''' e' k"
  have "set (set_keys e) = set (set_keys e')"
    using g set_keys_iff [OF d(1)] set_keys_iff [OF d(2)] by auto
  then have "set_keys e = set_keys e'"
    using distinct_set_keys [OF d(1)] distinct_set_keys [OF d(2)]
    by (simp add: set_keys_def sorted_distinct_set_unique)
  with g show "canonicalExtra e = canonicalExtra e'"
    by (simp add: canonicalExtra_set_keys)
qed

lemma Split_canonical:
  assumes "nul_free n"
  shows "Split NUL (canonical n) = identity_fields n @ Split NUL (canonicalExtra (n_Extra n))"
proof -
  have "canonical n = Join (identity_fields n @ [canonicalExtra (n_Extra n)]) [NUL]"
    by (simp add: canonical_def identity_fields_def)
  moreover have "\<forall>f \<in> set (identity_fields n). NUL \<notin> set f" using assms by (simp add: nul_free_def)
  ultimately show ?thesis by (simp only: Split_Join_snoc)
qed

lemma canonical_inject:
  assumes "nul_free a" and "nul_free b"
  shows "canonical a = canonical b \<longleftrightarrow> same_identity a b"
proof -
  have "canonical a = canonical b \<longleftrightarrow> Split NUL (canonical a) = Split NUL (canonical b)"
    by (simp add: Split_inject)
  also have "\<dots> \<longleftrightarrow> identity_fields a = identity_fields b \<and>
      canonicalExtra (n_Extra a) = canonicalExtra (n_Extra b)"
    by (simp add: Split_canonical assms identity_fields_def Split_inject)
  also have "\<dots> \<longleftrightarrow> same_identity a b"
    using assms canonicalExtra_inject [of "n_Extra a" "n_Extra b"]
    by (auto simp: same_identity_def identity_fields_def nul_free_def)
  finally show ?thesis .
qed

lemma Milliseconds_nonneg: "0 \<le> d \<Longrightarrow> Milliseconds d = d div 1000000"
  by (cases "d = 0") (simp_all add: Milliseconds_def quot_def millisecond_def)

lemma LatencyMS_nonneg [simp]: "0 \<le> LatencyMS n"
  by (simp add: LatencyMS_def Milliseconds_nonneg pos_imp_zdiv_nonneg_iff)

text \<open>The zero value of the \<open>Node\<close> struct.\<close>

definition zero_node :: node where
  "zero_node = \<lparr>n_ID = '''', n_Protocol = '''', n_Name = '''', n_Server = '''', n_Port = 0,
     n_UUID = '''', n_Password = '''', n_Method = '''', n_Network = '''', n_TLS = False,
     n_SNI = '''', n_Path = '''', n_Host = '''', n_Flow = '''', n_Security = '''', n_ALPN = '''',
     n_Extra = [], n_RawURI = '''', n_Source = '''', n_Sources = [], n_Alive = False,
     n_Latency = 0, n_Error = '''', n_TestedAt = 0, n_FirstSeenAt = 0, n_LastSeenAt = 0,
     n_QualityFailures = 0, n_SuccessStreak = 0, n_NextTestAt = 0, n_Quality = None,
     n_AIAccess = None, n_Dial = None, n_Verified = False, n_Purity = None, n_Score = 0,
     n_Grade = '''', n_Fingerprint = '''', n_Country = '''', n_City = '''', n_ISP = '''',
     n_ASN = '''', n_EntryType = '''', n_Tags = []\<rparr>"

text \<open>A concrete pair of hash functions, for evaluating the model on examples.\<close>

definition plain_hashes :: hashes where
  "plain_hashes = \<lparr>sha256_hex = (\<lambda>s. s), sha1_id = (\<lambda>s. s)\<rparr>"

subsection \<open>Properties\<close>

text \<open>
  C1. Two nodes have the same deduplication key exactly when they agree on protocol, server, port,
  credentials, transport and TLS settings (letter case ignored where \<open>Key\<close> lowers it) and on every
  extra option, whatever the iteration order of the \<open>Extra\<close> maps, provided SHA-256 does not collide
  on the two canonical strings and no field holds the NUL separator.
\<close>

theorem Key_eq_iff_same_identity:
  assumes "nul_free a" and "nul_free b"
    and "inj_on (sha256_hex h) {canonical a, canonical b}"
  shows "Key h a = Key h b \<longleftrightarrow> same_identity a b"
proof -
  have "Key h a = Key h b \<longleftrightarrow> canonical a = canonical b"
    unfolding Key_def by (rule inj_on_eq_iff [OF assms(3)]) simp_all
  then show ?thesis using canonical_inject [OF assms(1,2)] by simp
qed

definition example_node :: node where
  "example_node = zero_node\<lparr>n_Protocol := ''vless'', n_Server := ''Host.Example'', n_Port := 443,
     n_UUID := ''AB-1'', n_TLS := True, n_Extra := [(''sid'', ''7''), (''fp'', ''chrome'')]\<rparr>"

lemma Key_eq_iff_same_identity_witness:
  "nul_free example_node \<and>
   nul_free (example_node\<lparr>n_Server := ''host.example'', n_Extra := [(''fp'', ''chrome''), (''sid'', ''7''), (''pbk'', '''')]\<rparr>) \<and>
   (Key plain_hashes example_node =
      Key plain_hashes (example_node\<lparr>n_Server := ''host.example'', n_Extra := [(''fp'', ''chrome''), (''sid'', ''7''), (''pbk'', '''')]\<rparr>) \<longleftrightarrow>
    same_identity example_node
      (example_node\<lparr>n_Server := ''host.example'', n_Extra := [(''fp'', ''chrome''), (''sid'', ''7''), (''pbk'', '''')]\<rparr>))"
proof -
  let ?b = "example_node\<lparr>n_Server := ''host.example'', n_Extra := [(''fp'', ''chrome''), (''sid'', ''7''), (''pbk'', '''')]\<rparr>"
  have a: "nul_free example_node" by code_simp
  have b: "nul_free ?b" by code_simp
  have "inj_on (sha256_hex plain_hashes) {canonical example_node, canonical ?b}"
    by (simp add: plain_hashes_def inj_on_def)
  with a b show ?thesis using Key_eq_iff_same_identity by blast
qed

text \<open>
  A node's latency survives the JSON encoding to the millisecond: decoding the \<open>latency_ms\<close> member
  into a fresh node gives the latency rounded down to a whole millisecond, for every latency below the
  1000 s at which the decoder switches to reading legacy nanosecond values.
\<close>

lemma latency_json_roundtrip:
  assumes "0 \<le> n_Latency n" and "n_Latency n < 1000 * second"
  shows "UnmarshalLatency 0 (Some (LatencyMS n)) = (n_Latency n div millisecond) * millisecond"
proof -
  have ms: "LatencyMS n = n_Latency n div 1000000"
    using assms(1) by (simp add: LatencyMS_def Milliseconds_nonneg)
  moreover have lt: "n_Latency n div 1000000 < 1000000"
    using assms(2) by (simp add: second_def)
  moreover have "0 \<le> n_Latency n div 1000000" using assms(1) by (simp add: pos_imp_zdiv_nonneg_iff)
  ultimately show ?thesis
    by (simp add: UnmarshalLatency_def Milliseconds_nonneg second_def millisecond_def wrap64_id)
qed

end
