(* ===== verification/Cleaner.thy ===== *)
theory Cleaner
  imports IP Config Model
begin

text \<open>
  Cleaning and filtering (\<open>internal/cleaner/cleaner.go\<close>, \<open>internal/filter/filter.go\<close>): the two pure
  stages between the parsers and the store. \<open>Clean\<close> normalises the nodes, drops the inadmissible ones
  and keeps one node per identity, the most complete one, with the sources of all; \<open>Apply\<close> keeps the
  alive, fast, well scored ones in the configured order.

  The nodes of the argument are distinct objects. \<open>Clean\<close> returns the values of a Go map: the list
  here is one of its orders.
\<close>

subsection \<open>Normalisation\<close>

text \<open>The non-empty entries of both lists, each once, in the order of first occurrence.\<close>

fun merge_sources :: "string list \<Rightarrow> string list \<Rightarrow> string list" where
  "merge_sources seen [] = []"
| "merge_sources seen (s # ss) = (if s \<noteq> '''' \<and> s \<notin> set seen then s # merge_sources (s # seen) ss
     else merge_sources seen ss)"

definition mergeSources :: "string list \<Rightarrow> string list \<Rightarrow> string list" where
  "mergeSources a b = merge_sources [] (a @ b)"

definition trim_fields :: "node \<Rightarrow> node" where
  "trim_fields n = n\<lparr>n_Server := TrimSpace (n_Server n), n_Name := TrimSpace (n_Name n),
     n_UUID := TrimSpace (n_UUID n), n_Password := TrimSpace (n_Password n), n_Method := TrimSpace (n_Method n),
     n_Network := ToLower (TrimSpace (n_Network n)), n_Security := ToLower (TrimSpace (n_Security n)),
     n_SNI := TrimSpace (n_SNI n), n_Host := TrimSpace (n_Host n), n_Path := TrimSpace (n_Path n),
     n_Protocol := (if n_Protocol n = ''hy2'' then ProtoHysteria2 else n_Protocol n)\<rparr>"

definition clean_name :: "node \<Rightarrow> string" where
  "clean_name n = filter (\<lambda>r. \<not> r < CHR 0x20) (if n_Name n = '''' then Address n else n_Name n)"

definition normalize_node :: "hashes \<Rightarrow> node \<Rightarrow> node" where
  "normalize_node h n0 =
     (let n1 = trim_fields n0;
          n2 = n1\<lparr>n_Name := clean_name n1\<rparr>;
          n3 = (if n_Source n2 \<noteq> '''' then n2\<lparr>n_Sources := mergeSources (n_Sources n2) [n_Source n2]\<rparr> else n2)
      in n3\<lparr>n_Fingerprint := Key h n3\<rparr>)"

definition isBadHost :: "string \<Rightarrow> bool" where
  "isBadHost host = (let h = ToLower (TrimSpace host) in
     if h = '''' \<or> h = ''localhost'' \<or> h = ''0.0.0.0'' \<or> h = ''::'' \<or> h = ''example.com'' then True
     else (case ParseIP h of None \<Rightarrow> False
       | Some ip \<Rightarrow> IsLoopback ip \<or> IsPrivate ip \<or> IsLinkLocalUnicast ip \<or> IsUnspecified ip))"

definition scoreMeta :: "node \<Rightarrow> int" where
  "scoreMeta n = (if n_Name n \<noteq> '''' then 1 else 0) + (if n_TLS n then 1 else 0) + (if n_SNI n \<noteq> '''' then 1 else 0) +
     (if n_UUID n \<noteq> '''' \<or> n_Password n \<noteq> '''' then 1 else 0) + (if n_Network n \<noteq> '''' then 1 else 0) +
     (if n_RawURI n \<noteq> '''' then 1 else 0)"

subsection \<open>Deduplication\<close>

definition source_priorities :: "config \<Rightarrow> (string, int) gmap" where
  "source_priorities cfg = fold (\<lambda>s m. gput (src_Name s) (src_Priority s) m) (Sources cfg) []"

definition clean_key :: "hashes \<Rightarrow> config \<Rightarrow> node \<Rightarrow> string" where
  "clean_key h cfg n = (if flt_CollapseSameIPPorts (Filter cfg) \<and> ParseIP (n_Server n) \<noteq> None
     then Key h (n\<lparr>n_Port := 0\<rparr>) else Key h n)"

text \<open>The node that stays of two with the same key, and the sources of both.\<close>

definition merge_nodes :: "config \<Rightarrow> node \<Rightarrow> node \<Rightarrow> node" where
  "merge_nodes cfg old n =
     (let sources = mergeSources (n_Sources old) (n_Sources n);
          priority = (\<lambda>n. gget 0 (source_priorities cfg) (n_Source n))
      in if scoreMeta n > scoreMeta old \<or> (scoreMeta n = scoreMeta old \<and> priority n > priority old)
         then n\<lparr>n_Sources := sources\<rparr> else old\<lparr>n_Sources := sources\<rparr>)"

text \<open>The body of the loop of \<open>Clean\<close> on a non-nil node.\<close>

definition clean_node :: "hashes \<Rightarrow> config \<Rightarrow> node \<Rightarrow> (string, node) gmap \<Rightarrow> (string, node) gmap" where
  "clean_node h cfg n0 best =
     (let n = normalize_node h n0
      in if flt_DropInvalid (Filter cfg) \<and> \<not> IsValid (Some n) then best
         else if \<not> ProtocolAllowed cfg (n_Protocol n) then best
         else if isBadHost (n_Server n) then best
         else (let key = clean_key h cfg n in case map_of best key of
           Some old \<Rightarrow> gput key (merge_nodes cfg old n) best
         | None \<Rightarrow> gput key n best))"

definition Clean :: "hashes \<Rightarrow> node option list \<Rightarrow> config \<Rightarrow> node list" where
  "Clean h nodes cfg = vals (fold (clean_node h cfg) (somes nodes) [])"


subsection \<open>One representative per key\<close>

text \<open>
  The contract of a merge that keeps one element per key: the merged element has the key of both,
  the better rank, the tags of both and the content of one of them.
\<close>

locale dedup =
  fixes key :: "'a \<Rightarrow> 'k" and pick :: "'a \<Rightarrow> 'a \<Rightarrow> 'a" and rank :: "'a \<Rightarrow> 'r::linorder"
    and tags :: "'a \<Rightarrow> 't set" and core :: "'a \<Rightarrow> 'c"
  assumes key_pick: "key old = key n \<Longrightarrow> key (pick old n) = key n"
    and rank_pick: "rank (pick old n) = max (rank old) (rank n)"
    and tags_pick: "tags (pick old n) = tags old \<union> tags n"
    and core_pick: "core (pick old n) = core old \<or> core (pick old n) = core n"
begin

definition insert_best :: "'a \<Rightarrow> ('k, 'a) gmap \<Rightarrow> ('k, 'a) gmap" where
  "insert_best n best = (case map_of best (key n) of
     Some old \<Rightarrow> gput (key n) (pick old n) best | None \<Rightarrow> gput (key n) n best)"

definition represents :: "'a list \<Rightarrow> ('k, 'a) gmap \<Rightarrow> bool" where
  "represents ns best \<longleftrightarrow> distinct (keys best) \<and> dom (map_of best) = key ` set ns \<and>
     (\<forall>k m. map_of best k = Some m \<longrightarrow> key m = k \<and> core m \<in> core ` set ns \<and>
        (\<forall>n \<in> set ns. key n = k \<longrightarrow> rank n \<le> rank m) \<and>
        tags m = (\<Union>n \<in> {n \<in> set ns. key n = k}. tags n))"

lemma represents_Nil: "represents [] []"
  by (simp add: represents_def)

lemma represents_insert:
  assumes "represents ns best"
  shows "represents (ns @ [n]) (insert_best n best)"
proof (cases "map_of best (key n)")
  case None
  then have "key n \<notin> key ` set ns" using assms by (auto simp: represents_def)
  then have "{x. (x = n \<or> x \<in> set ns) \<and> key x = key n} = {n}" by (auto simp: image_iff)
  moreover have "{x. (x = n \<or> x \<in> set ns) \<and> key x = k} = {x \<in> set ns. key x = k}" if "k \<noteq> key n" for k
    using that by auto
  ultimately show ?thesis
    using assms None \<open>key n \<notin> key ` set ns\<close> unfolding represents_def insert_best_def
    by (auto simp: image_iff simp del: map_of_eq_Some_iff)
next
  case (Some old)
  then have old: "key old = key n" "core old \<in> core ` set ns" "tags old = (\<Union>x \<in> {x \<in> set ns. key x = key n}. tags x)"
    "\<forall>x \<in> set ns. key x = key n \<longrightarrow> rank x \<le> rank old"
    using assms by (auto simp: represents_def)
  have "key n \<in> key ` set ns" using assms Some unfolding represents_def by (metis domI)
  have "{x. (x = n \<or> x \<in> set ns) \<and> key x = k} = {x \<in> set ns. key x = k}" if "k \<noteq> key n" for k
    using that by auto
  moreover have "tags (pick old n) = (\<Union>x \<in> {x. (x = n \<or> x \<in> set ns) \<and> key x = key n}. tags x)"
    using old by (auto simp: tags_pick)
  moreover have "core (pick old n) \<in> insert (core n) (core ` set ns)"
    using core_pick [of old n] old(2) by auto
  ultimately show ?thesis
    using assms Some old \<open>key n \<in> key ` set ns\<close> key_pick [OF old(1)] unfolding represents_def insert_best_def
    by (auto simp: rank_pick le_max_iff_disj insert_absorb simp del: map_of_eq_Some_iff)
qed

lemma represents_fold: "represents ns best \<Longrightarrow> represents (ns @ ms) (fold insert_best ms best)"
proof (induction ms arbitrary: ns best)
  case (Cons n ms)
  from Cons.IH [OF represents_insert [OF Cons.prems]] show ?case by simp
qed simp

lemma represents_all: "represents ns (fold insert_best ns [])"
  using represents_fold [OF represents_Nil, of ns] by simp

end

lemma merge_sources_set: "set (merge_sources seen ss) = set ss - set seen - {''''}"
  by (induction seen ss rule: merge_sources.induct) auto

lemma mergeSources_set: "set (mergeSources a b) = (set a \<union> set b) - {''''}"
  by (simp add: mergeSources_def merge_sources_set)

lemma merge_sources_distinct: "distinct (merge_sources seen ss)"
  by (induction seen ss rule: merge_sources.induct) (auto simp: merge_sources_set)

definition node_rank_meta :: "config \<Rightarrow> node \<Rightarrow> int \<times> int" where
  "node_rank_meta cfg n = (scoreMeta n, gget 0 (source_priorities cfg) (n_Source n))"

definition content :: "node \<Rightarrow> node" where
  "content n = n\<lparr>n_Sources := []\<rparr>"

lemma merge_nodes_cases:
  "merge_nodes cfg old n = (if node_rank_meta cfg old < node_rank_meta cfg n then n else old)
     \<lparr>n_Sources := mergeSources (n_Sources old) (n_Sources n)\<rparr>"
  by (simp add: merge_nodes_def node_rank_meta_def Let_def less_prod_def)

lemma Key_sources [simp]: "Key h (n\<lparr>n_Sources := ss\<rparr>) = Key h n" "Key h (n\<lparr>n_Sources := ss, n_Port := p\<rparr>) = Key h (n\<lparr>n_Port := p\<rparr>)"
  by (simp_all add: Key_def canonical_def)

lemma sources_irrelevant [simp]:
  "clean_key h cfg (n\<lparr>n_Sources := ss\<rparr>) = clean_key h cfg n"
  "node_rank_meta cfg (n\<lparr>n_Sources := ss\<rparr>) = node_rank_meta cfg n"
  "content (n\<lparr>n_Sources := ss\<rparr>) = content n"
  by (auto simp: clean_key_def node_rank_meta_def scoreMeta_def content_def)

interpretation cl: dedup "clean_key h cfg" "merge_nodes cfg" "node_rank_meta cfg"
  "\<lambda>n. set (n_Sources n) - {''''}" content
proof
  fix old n
  show "node_rank_meta cfg (merge_nodes cfg old n) = max (node_rank_meta cfg old) (node_rank_meta cfg n)"
    by (auto simp: merge_nodes_cases max_def)
  show "clean_key h cfg old = clean_key h cfg n \<Longrightarrow> clean_key h cfg (merge_nodes cfg old n) = clean_key h cfg n"
    by (simp add: merge_nodes_cases)
  show "set (n_Sources (merge_nodes cfg old n)) - {''''} =
      (set (n_Sources old) - {''''}) \<union> (set (n_Sources n) - {''''})"
    by (auto simp: merge_nodes_cases mergeSources_set)
  show "content (merge_nodes cfg old n) = content old \<or> content (merge_nodes cfg old n) = content n"
    by (simp add: merge_nodes_cases)
qed


definition admissible :: "config \<Rightarrow> node \<Rightarrow> bool" where
  "admissible cfg n \<longleftrightarrow> (flt_DropInvalid (Filter cfg) \<longrightarrow> IsValid (Some n)) \<and>
     ProtocolAllowed cfg (n_Protocol n) \<and> \<not> isBadHost (n_Server n)"

lemma admissible_sources [simp]: "admissible cfg (n\<lparr>n_Sources := ss\<rparr>) = admissible cfg n"
  by (simp add: admissible_def IsValid_def)

lemma clean_node_best:
  "clean_node h cfg n best = (if admissible cfg (normalize_node h n)
     then cl.insert_best h cfg (normalize_node h n) best else best)"
  by (auto simp: clean_node_def admissible_def cl.insert_best_def Let_def)

lemma clean_fold:
  "fold (clean_node h cfg) ns best =
     fold (cl.insert_best h cfg) (filter (admissible cfg) (map (normalize_node h) ns)) best"
  by (induction ns arbitrary: best) (simp_all add: clean_node_best)

lemma content_eqD: "content m = content n \<Longrightarrow> m = n\<lparr>n_Sources := n_Sources m\<rparr>"
  unfolding content_def by (drule arg_cong [of _ _ "\<lambda>x. x\<lparr>n_Sources := n_Sources m\<rparr>"]) simp

definition candidates :: "hashes \<Rightarrow> config \<Rightarrow> node option list \<Rightarrow> node list" where
  "candidates h cfg nodes = filter (admissible cfg) (map (normalize_node h) (somes nodes))"

text \<open>What the representative of a group promises.\<close>

definition best_of :: "hashes \<Rightarrow> config \<Rightarrow> node list \<Rightarrow> node \<Rightarrow> bool" where
  "best_of h cfg ns m \<longleftrightarrow> list_ex (\<lambda>n. m = n\<lparr>n_Sources := n_Sources m\<rparr>) ns \<and>
     list_all (\<lambda>n. clean_key h cfg n = clean_key h cfg m \<longrightarrow> node_rank_meta cfg n \<le> node_rank_meta cfg m) ns \<and>
     set (n_Sources m) - {''''} =
       \<Union> (set (map (\<lambda>n. set (n_Sources n)) (filter (\<lambda>n. clean_key h cfg n = clean_key h cfg m) ns))) - {''''}"

lemma best_of_admissible: "best_of h cfg ns m \<Longrightarrow> list_all (admissible cfg) ns \<Longrightarrow> admissible cfg m"
  unfolding best_of_def list_ex_iff list_all_iff by (metis admissible_sources)

lemma Clean_facts:
  shows "distinct (map (clean_key h cfg) (Clean h nodes cfg))"
    and "clean_key h cfg ` set (Clean h nodes cfg) = clean_key h cfg ` set (candidates h cfg nodes)"
    and "m \<in> set (Clean h nodes cfg) \<Longrightarrow> best_of h cfg (candidates h cfg nodes) m"
    and "m \<in> set (Clean h nodes cfg) \<Longrightarrow> admissible cfg m"
proof -
  let ?ns = "candidates h cfg nodes" and ?best = "fold (clean_node h cfg) (somes nodes) []"
  have rep: "cl.represents h cfg ?ns ?best"
    unfolding clean_fold candidates_def by (rule cl.represents_all)
  have entry: "map_of ?best k = Some m" if "(k, m) \<in> set ?best" for k m
    using rep that by (simp add: cl.represents_def)
  have "map (clean_key h cfg) (Clean h nodes cfg) = keys ?best"
    using rep entry unfolding Clean_def cl.represents_def by (auto simp: map_eq_conv)
  then show "distinct (map (clean_key h cfg) (Clean h nodes cfg))"
    "clean_key h cfg ` set (Clean h nodes cfg) = clean_key h cfg ` set ?ns"
    using rep by (auto simp: cl.represents_def dom_map_of_conv_image_fst simp flip: set_map)
  show best: "best_of h cfg ?ns m" if m: "m \<in> set (Clean h nodes cfg)"
  proof -
    obtain k where "(k, m) \<in> set ?best" using m by (auto simp: Clean_def)
    then have "map_of ?best k = Some m" by (rule entry)
    then have "clean_key h cfg m = k \<and> content m \<in> content ` set ?ns \<and>
        (\<forall>n \<in> set ?ns. clean_key h cfg n = k \<longrightarrow> node_rank_meta cfg n \<le> node_rank_meta cfg m) \<and>
        set (n_Sources m) - {''''} = (\<Union>n \<in> {n \<in> set ?ns. clean_key h cfg n = k}. set (n_Sources n) - {''''})"
      using rep unfolding cl.represents_def by blast
    then show ?thesis unfolding best_of_def list_ex_iff list_all_iff using content_eqD by (auto; blast)
  qed
  have "list_all (admissible cfg) ?ns" by (simp add: candidates_def list_all_iff)
  then show "admissible cfg m" if "m \<in> set (Clean h nodes cfg)" using best [OF that] best_of_admissible by blast
qed

text \<open>
  C18. Cleaning keeps exactly one node for each identity among the admissible nodes (the identity
  ignores the port of an IP address when ports are collapsed): the one with the most complete
  metadata, of equals the one whose source has the highest priority, with the sources of all nodes
  of that identity. Nothing invalid, forbidden or with a bad host survives.
\<close>

theorem Clean_ok:
  "distinct (map (clean_key h cfg) (Clean h nodes cfg)) \<and>
   clean_key h cfg ` set (Clean h nodes cfg) = clean_key h cfg ` set (candidates h cfg nodes) \<and>
   list_all (best_of h cfg (candidates h cfg nodes)) (Clean h nodes cfg) \<and>
   list_all (admissible cfg) (Clean h nodes cfg)"
  using Clean_facts unfolding list_all_iff by blast


subsection \<open>Filtering\<close>

definition max_latency :: "config \<Rightarrow> int" where
  "max_latency cfg = (if flt_MaxLatencyMS (Filter cfg) \<le> 0 then 2500 else flt_MaxLatencyMS (Filter cfg))"

definition apply_keeps :: "config \<Rightarrow> node \<Rightarrow> bool" where
  "apply_keeps cfg n =
     (let minScore = (if flt_MinScore (Filter cfg) < 0 then 0 else flt_MinScore (Filter cfg))
      in if flt_MinSuccess (Filter cfg) \<and> \<not> n_Alive n then False
         else if n_Alive n \<and> LatencyMS n > max_latency cfg then False
         else if minScore > 0 \<and> n_Score n > 0 \<and> n_Score n < minScore then False
         else True)"

text \<open>The closure of \<open>sortNodes\<close>.\<close>

definition sort_before :: "config \<Rightarrow> node \<Rightarrow> node \<Rightarrow> bool" where
  "sort_before cfg a b = (let sort_by = ToLower (flt_SortBy (Filter cfg)) in
     if flt_PreferTLS (Filter cfg) \<and> n_TLS a \<noteq> n_TLS b then n_TLS a
     else if sort_by = ''score'' then
       (if n_Score a \<noteq> n_Score b then n_Score a > n_Score b else n_Latency a < n_Latency b)
     else if sort_by = ''protocol'' then
       (if n_Protocol a \<noteq> n_Protocol b then n_Protocol a < n_Protocol b else n_Latency a < n_Latency b)
     else if sort_by = ''name'' then
       (if n_Name a \<noteq> n_Name b then n_Name a < n_Name b else n_Latency a < n_Latency b)
     else if n_Alive a \<noteq> n_Alive b then n_Alive a
     else if n_Latency a \<noteq> n_Latency b then n_Latency a < n_Latency b
     else n_Score a > n_Score b)"

definition Apply :: "node option list \<Rightarrow> config \<Rightarrow> node list" where
  "Apply nodes cfg = limit_to (flt_MaxNodes (Filter cfg))
     (SliceStable (sort_before cfg) (filter (apply_keeps cfg) (somes nodes)))"

definition StatsByProtocol :: "node list \<Rightarrow> (string, int) gmap" where
  "StatsByProtocol nodes = fold gincr (map n_Protocol nodes) []"

lemma sort_before_alt: "sort_before cfg = (let
     by_latency = (\<lambda>a b. n_Latency a < n_Latency b);
     rest = (if ToLower (flt_SortBy (Filter cfg)) = ''score''
         then (\<lambda>a b. if - n_Score a \<noteq> - n_Score b then - n_Score a < - n_Score b else by_latency a b)
       else if ToLower (flt_SortBy (Filter cfg)) = ''protocol''
         then (\<lambda>a b. if n_Protocol a \<noteq> n_Protocol b then n_Protocol a < n_Protocol b else by_latency a b)
       else if ToLower (flt_SortBy (Filter cfg)) = ''name''
         then (\<lambda>a b. if n_Name a \<noteq> n_Name b then n_Name a < n_Name b else by_latency a b)
       else (\<lambda>a b. if (\<not> n_Alive a) \<noteq> (\<not> n_Alive b) then (\<not> n_Alive a) < (\<not> n_Alive b)
         else if n_Latency a \<noteq> n_Latency b then n_Latency a < n_Latency b else - n_Score a < - n_Score b))
   in if flt_PreferTLS (Filter cfg)
      then (\<lambda>a b. if (\<not> n_TLS a) \<noteq> (\<not> n_TLS b) then (\<not> n_TLS a) < (\<not> n_TLS b) else rest a b) else rest)"
  by (intro ext) (simp add: sort_before_def Let_def)

interpretation ap: strict_weak_order "sort_before cfg"
  unfolding sort_before_alt Let_def by (intro strict_weak_order_if lex_order key_order)

text \<open>
  Filtering returns nodes of its input that are alive when that is demanded, within the
  latency limit and not scored below the minimum, in the configured order, at most \<open>MaxNodes\<close> of
  them; and it drops no eligible node in favour of one that the order puts behind it.
\<close>

lemma Apply_ok:
  "list_all (\<lambda>n. Some n \<in> set nodes \<and> apply_keeps cfg n) (Apply nodes cfg) \<and>
   sorted_wrt (\<lambda>a b. \<not> sort_before cfg b a) (Apply nodes cfg) \<and>
   (\<exists>dropped. mset (Apply nodes cfg) + mset dropped = mset (filter (apply_keeps cfg) (somes nodes)) \<and>
     list_all (\<lambda>d. list_all (\<lambda>k. \<not> sort_before cfg d k) (Apply nodes cfg)) dropped \<and>
     (dropped = [] \<or> int (length (Apply nodes cfg)) = flt_MaxNodes (Filter cfg)))"
proof -
  let ?sorted = "SliceStable (sort_before cfg) (filter (apply_keeps cfg) (somes nodes))"
  obtain dropped where d: "?sorted = Apply nodes cfg @ dropped"
    using limit_to_prefix unfolding Apply_def by blast
  then have "mset (Apply nodes cfg) + mset dropped = mset (filter (apply_keeps cfg) (somes nodes))"
    by (metis mset_append mset_SliceStable)
  moreover have "list_all (\<lambda>d. list_all (\<lambda>k. \<not> sort_before cfg d k) (Apply nodes cfg)) dropped"
    using ap.limit_keeps_best d unfolding Apply_def list_all_iff by blast
  moreover have "dropped = [] \<or> int (length (Apply nodes cfg)) = flt_MaxNodes (Filter cfg)"
    using d by (auto simp: Apply_def limit_to_def split: if_splits)
  moreover have "sorted_wrt (\<lambda>a b. \<not> sort_before cfg b a) (Apply nodes cfg)"
    unfolding Apply_def by (intro sorted_wrt_limit_to ap.sorted_SliceStable)
  moreover have "list_all (\<lambda>n. Some n \<in> set nodes \<and> apply_keeps cfg n) (Apply nodes cfg)"
    using set_limit_toD unfolding Apply_def list_all_iff by fastforce
  ultimately show ?thesis by blast
qed

end
