(* ===== verification/Store.thy ===== *)
theory Store
  imports Model
begin

text \<open>
  The in-memory node store with its snapshot file and job list: \<open>internal/store/store.go\<close>. The maps
  are association lists in the order of one iteration. Writing and reading the snapshot is the JSON
  round trip of the nodes; only the latency changes in it (\<open>UnmarshalLatency\<close>), and file system errors
  are not modelled. Pointers are values here: every node is cloned on its way in and out, so no caller
  shares one with the store.
\<close>

subsection \<open>State\<close>

record Job =
  j_ID :: string
  j_Type :: string
  j_Status :: string
  j_Progress :: float64
  j_Message :: string
  j_Error :: string
  j_Stats :: "(string, string) gmap option"
  j_CreatedAt :: time
  j_UpdatedAt :: time
  j_StartedAt :: "time option"
  j_EndedAt :: "time option"
  j_Options :: "(string, string) gmap option"
  j_Actor :: string
  j_TenantID :: string

record snapshot =
  snap_Nodes :: "node list"
  snap_HostAI :: "(string, AIProbeResult) gmap"
  snap_LastFetch :: "time option"
  snap_LastQual :: "time option"

record store =
  st_nodes :: "(string, node) gmap"
  st_jobs :: "(string, Job) gmap"
  st_jobOrder :: "string list"
  st_lastFetch :: "time option"
  st_lastQual :: "time option"
  st_hostAI :: "(string, AIProbeResult) gmap"
  st_persistent :: bool
  st_disk :: "snapshot option"

definition NewMemory :: store where
  "NewMemory = \<lparr>st_nodes = [], st_jobs = [], st_jobOrder = [], st_lastFetch = None, st_lastQual = None,
     st_hostAI = [], st_persistent = False, st_disk = None\<rparr>"

definition nodeID :: "hashes \<Rightarrow> node \<Rightarrow> string" where
  "nodeID h n = sha1_id h (Key h n)"

subsection \<open>Clones\<close>

text \<open>Nil checks and the checks of checks are dropped; so are nil AI results.\<close>

definition cloneDial :: "DialResult \<Rightarrow> DialResult" where
  "cloneDial r = DialResult (dial r) (map (\<lambda>check. Some (DialResult (dial check) [])) (somes (Checks r)))"

definition cloneNode :: "node \<Rightarrow> node" where
  "cloneNode n = n\<lparr>
     n_AIAccess := map_option (filter (\<lambda>(k, v). v \<noteq> None)) (n_AIAccess n),
     n_Dial := map_option cloneDial (n_Dial n)\<rparr>"

definition cloneJob :: "Job \<Rightarrow> Job" where
  "cloneJob j = j"

subsection \<open>The snapshot file\<close>

definition json_node :: "node \<Rightarrow> node" where
  "json_node n = n\<lparr>n_Latency := UnmarshalLatency 0 (Some (LatencyMS n))\<rparr>"

definition snapshot_before :: "node \<Rightarrow> node \<Rightarrow> bool" where
  "snapshot_before a b \<longleftrightarrow> (if n_Score a \<noteq> n_Score b then n_Score a > n_Score b else n_Latency a < n_Latency b)"

definition persistLocked :: "store \<Rightarrow> store" where
  "persistLocked s = (if \<not> st_persistent s then s
     else s\<lparr>st_disk := Some \<lparr>snap_Nodes = map json_node (limit_to 12000 (SliceStable snapshot_before (vals (st_nodes s)))),
       snap_HostAI = st_hostAI s, snap_LastFetch = st_lastFetch s, snap_LastQual = st_lastQual s\<rparr>\<rparr>)"

definition load_node :: "hashes \<Rightarrow> time \<Rightarrow> node \<Rightarrow> node" where
  "load_node h now n =
     (let first = (if IsZero (n_FirstSeenAt n) then now else n_FirstSeenAt n)
      in n\<lparr>n_ID := nodeID h n, n_Fingerprint := Key h n, n_FirstSeenAt := first,
           n_LastSeenAt := (if IsZero (n_LastSeenAt n) then first else n_LastSeenAt n)\<rparr>)"

definition load_nodes :: "hashes \<Rightarrow> time \<Rightarrow> node list \<Rightarrow> (string, node) gmap" where
  "load_nodes h now ns = fold (\<lambda>n m. let n' = load_node h now n in gput (n_ID n') n' m) ns []"

text \<open>\<open>None\<close>: the file does not exist.\<close>

definition Load :: "hashes \<Rightarrow> time \<Rightarrow> store \<Rightarrow> store option" where
  "Load h now s = (case st_disk s of None \<Rightarrow> None
     | Some snap \<Rightarrow> Some (s\<lparr>st_nodes := load_nodes h now (snap_Nodes snap), st_hostAI := snap_HostAI snap,
         st_lastFetch := snap_LastFetch snap, st_lastQual := snap_LastQual snap\<rparr>))"

text \<open>A new process: the persistent store of a directory, loaded when there is a snapshot.\<close>

definition New :: "hashes \<Rightarrow> time \<Rightarrow> snapshot option \<Rightarrow> store" where
  "New h now disk = (let s = NewMemory\<lparr>st_persistent := True, st_disk := disk\<rparr>
     in case Load h now s of None \<Rightarrow> s | Some s' \<Rightarrow> s')"

subsection \<open>Writing nodes\<close>

text \<open>One definition per \<open>if\<close> of \<open>mergeObservations\<close>.\<close>

definition merge_seen :: "node \<Rightarrow> node \<Rightarrow> node" where
  "merge_seen old dst = dst\<lparr>
     n_FirstSeenAt := (if IsZero (n_FirstSeenAt dst) then n_FirstSeenAt old else n_FirstSeenAt dst),
     n_LastSeenAt := (if IsZero (n_LastSeenAt dst) then n_LastSeenAt old else n_LastSeenAt dst)\<rparr>"

definition merge_test :: "node \<Rightarrow> node \<Rightarrow> node" where
  "merge_test old dst = (if IsZero (n_TestedAt dst)
     then dst\<lparr>n_Alive := n_Alive old, n_Latency := n_Latency old, n_Error := n_Error old,
       n_TestedAt := n_TestedAt old, n_Quality := n_Quality old, n_Score := n_Score old,
       n_Grade := n_Grade old, n_Tags := n_Tags old, n_QualityFailures := n_QualityFailures old,
       n_SuccessStreak := n_SuccessStreak old, n_NextTestAt := n_NextTestAt old\<rparr> else dst)"

definition merge_country :: "node \<Rightarrow> node \<Rightarrow> node" where
  "merge_country old dst = (if n_Country dst = ''''
     then dst\<lparr>n_Country := n_Country old, n_City := n_City old, n_ISP := n_ISP old, n_ASN := n_ASN old,
       n_EntryType := n_EntryType old\<rparr> else dst)"

definition merge_probes :: "node \<Rightarrow> node \<Rightarrow> node" where
  "merge_probes old dst = dst\<lparr>
     n_AIAccess := (if n_AIAccess dst = None then n_AIAccess old else n_AIAccess dst),
     n_Dial := (if n_Dial dst = None then n_Dial old else n_Dial dst),
     n_Verified := (if n_Dial dst = None then n_Verified old else n_Verified dst),
     n_Purity := (if n_Purity dst = None then n_Purity old else n_Purity dst)\<rparr>"

definition mergeObservations :: "node \<Rightarrow> node \<Rightarrow> node" where
  "mergeObservations dst old = merge_probes old (merge_country old (merge_test old (merge_seen old dst)))"

lemmas merge_defs = mergeObservations_def merge_seen_def merge_test_def merge_country_def merge_probes_def

text \<open>The loop body of \<open>ReplaceNodes\<close> on one non-nil node; \<open>oldByKey\<close> is the previous content by key.\<close>

definition replace_node :: "hashes \<Rightarrow> time \<Rightarrow> (string, node) gmap \<Rightarrow> node \<Rightarrow> node" where
  "replace_node h now oldByKey n =
     (let n1 = (case map_of oldByKey (Key h n) of None \<Rightarrow> n | Some old \<Rightarrow> mergeObservations n old);
          n2 = n1\<lparr>n_FirstSeenAt := (if IsZero (n_FirstSeenAt n1) then now else n_FirstSeenAt n1),
                  n_LastSeenAt := (if IsZero (n_LastSeenAt n1) then now else n_LastSeenAt n1)\<rparr>
      in n2\<lparr>n_ID := nodeID h n2, n_Fingerprint := Key h n2\<rparr>)"

definition by_key :: "hashes \<Rightarrow> (string, node) gmap \<Rightarrow> (string, node) gmap" where
  "by_key h nodes = fold (\<lambda>n m. gput (Key h n) n m) (vals nodes) []"

definition put_node :: "node \<Rightarrow> (string, node) gmap \<Rightarrow> (string, node) gmap" where
  "put_node n m = gput (n_ID n) (cloneNode n) m"

text \<open>The nodes of the argument are updated in place: the result lists them as the caller sees them.\<close>

definition ReplaceNodes :: "hashes \<Rightarrow> time \<Rightarrow> node option list \<Rightarrow> store \<Rightarrow> node list \<times> store" where
  "ReplaceNodes h now nodes s =
     (let oldByKey = by_key h (st_nodes s);
          ns = map (replace_node h now oldByKey) (somes nodes)
      in (ns, persistLocked (s\<lparr>st_nodes := fold put_node ns [], st_lastFetch := Some now\<rparr>)))"

definition new_or :: "string \<Rightarrow> string \<Rightarrow> string" where
  "new_or new old = (if new \<noteq> '''' then new else old)"

definition upsert_into :: "node \<Rightarrow> node \<Rightarrow> node" where
  "upsert_into n old = old\<lparr>
     n_Alive := n_Alive n, n_Latency := n_Latency n, n_Error := n_Error n, n_TestedAt := n_TestedAt n,
     n_Quality := n_Quality n, n_AIAccess := n_AIAccess n, n_Score := n_Score n, n_Grade := n_Grade n,
     n_QualityFailures := n_QualityFailures n, n_SuccessStreak := n_SuccessStreak n, n_NextTestAt := n_NextTestAt n,
     n_FirstSeenAt := (if \<not> IsZero (n_FirstSeenAt n) then n_FirstSeenAt n else n_FirstSeenAt old),
     n_LastSeenAt := (if \<not> IsZero (n_LastSeenAt n) then n_LastSeenAt n else n_LastSeenAt old),
     n_Tags := (if n_Tags n \<noteq> [] then n_Tags n else n_Tags old),
     n_Country := new_or (n_Country n) (n_Country old), n_City := new_or (n_City n) (n_City old),
     n_ISP := new_or (n_ISP n) (n_ISP old), n_ASN := new_or (n_ASN n) (n_ASN old),
     n_EntryType := new_or (n_EntryType n) (n_EntryType old),
     n_Dial := (if n_Dial n \<noteq> None then n_Dial n else n_Dial old),
     n_Verified := (if n_Verified n then True else if n_Dial n \<noteq> None then n_Verified n else n_Verified old),
     n_Purity := (if n_Purity n \<noteq> None then n_Purity n else n_Purity old),
     n_RawURI := new_or (n_RawURI n) (n_RawURI old)\<rparr>"

definition upsert_node :: "hashes \<Rightarrow> node \<Rightarrow> (string, node) gmap \<Rightarrow> (string, node) gmap" where
  "upsert_node h n0 m =
     (let n = cloneNode (n0\<lparr>n_ID := nodeID h n0\<rparr>)
      in case map_of m (n_ID n) of None \<Rightarrow> gput (n_ID n) n m | Some old \<Rightarrow> gput (n_ID n) (upsert_into n old) m)"

definition UpsertNodes :: "hashes \<Rightarrow> time \<Rightarrow> node list \<Rightarrow> store \<Rightarrow> store" where
  "UpsertNodes h now nodes s =
     persistLocked (s\<lparr>st_nodes := fold (upsert_node h) nodes (st_nodes s), st_lastQual := Some now\<rparr>)"

definition SetHostAI :: "(string, AIProbeResult) gmap \<Rightarrow> store \<Rightarrow> store" where
  "SetHostAI m s = persistLocked (s\<lparr>st_hostAI := m\<rparr>)"

definition Flush :: "store \<Rightarrow> store" where
  "Flush s = persistLocked s"

record PruneOptions =
  po_DropDead :: bool
  po_MinScoreKeep :: float64
  po_MaxNodes :: int
  po_KeepUntested :: bool

definition prune_keeps :: "PruneOptions \<Rightarrow> node \<Rightarrow> bool" where
  "prune_keeps opt n =
     (let tested = (\<not> IsZero (n_TestedAt n))
      in \<not> (po_DropDead opt \<and> tested \<and> \<not> n_Alive n \<and> n_QualityFailures n \<ge> 3) \<and>
         \<not> (po_MinScoreKeep opt > 0 \<and> tested \<and> n_Score n < po_MinScoreKeep opt \<and> \<not> (po_KeepUntested opt \<and> \<not> tested)))"

definition prune_before :: "node \<Rightarrow> node \<Rightarrow> bool" where
  "prune_before a b \<longleftrightarrow> (if n_Alive a \<noteq> n_Alive b then n_Alive a
     else if n_Score a \<noteq> n_Score b then n_Score a > n_Score b else n_Latency a < n_Latency b)"

definition Prune :: "PruneOptions \<Rightarrow> store \<Rightarrow> int \<times> store" where
  "Prune opt s =
     (let kept = limit_to (po_MaxNodes opt) (SliceStable prune_before (filter (prune_keeps opt) (vals (st_nodes s))));
          s' = persistLocked (s\<lparr>st_nodes := fold (\<lambda>n m. gput (n_ID n) n m) kept []\<rparr>)
      in (int (length (st_nodes s)) - int (length (st_nodes s')), s'))"

subsection \<open>Reading nodes\<close>

record NodeFilter =
  nf_Protocol :: string
  nf_Source :: string
  nf_Grade :: string
  nf_Country :: string
  nf_AliveOnly :: bool
  nf_MinScore :: float64
  nf_AIKey :: string
  nf_Search :: string
  nf_Limit :: int
  nf_HighQuality :: bool
  nf_VerifiedOnly :: bool
  nf_SeenAfter :: time
  nf_DialTestedAfter :: time
  nf_DialEngine :: string

definition no_filter :: NodeFilter where
  "no_filter = \<lparr>nf_Protocol = '''', nf_Source = '''', nf_Grade = '''', nf_Country = '''', nf_AliveOnly = False,
     nf_MinScore = 0, nf_AIKey = '''', nf_Search = '''', nf_Limit = 0, nf_HighQuality = False,
     nf_VerifiedOnly = False, nf_SeenAfter = 0, nf_DialTestedAfter = 0, nf_DialEngine = ''''\<rparr>"

definition country_code :: "string \<Rightarrow> string" where
  "country_code c = (if c = ''UK'' then ''GB'' else c)"

definition search_blob :: "node \<Rightarrow> string" where
  "search_blob n = ToLower (n_Name n @ '' '' @ n_Server n @ '' '' @ n_Source n @ '' '' @
     Join (n_Sources n) '' '' @ '' '' @ n_Protocol n @ '' '' @ n_Country n @ '' '' @ n_City n)"

definition Match :: "NodeFilter \<Rightarrow> node \<Rightarrow> bool" where
  "Match f n \<longleftrightarrow>
     \<not> (nf_Protocol f \<noteq> '''' \<and> n_Protocol n \<noteq> nf_Protocol f) \<and>
     \<not> (nf_Source f \<noteq> '''' \<and> n_Source n \<noteq> nf_Source f \<and> nf_Source f \<notin> set (n_Sources n)) \<and>
     \<not> (nf_Grade f \<noteq> '''' \<and> n_Grade n \<noteq> nf_Grade f) \<and>
     \<not> (nf_Country f \<noteq> '''' \<and>
         country_code (if ToUpper (n_Country n) = '''' then ''XX'' else ToUpper (n_Country n)) \<noteq>
         country_code (ToUpper (nf_Country f))) \<and>
     \<not> (nf_AliveOnly f \<and> \<not> n_Alive n) \<and>
     \<not> (nf_MinScore f > 0 \<and> n_Score n < nf_MinScore f) \<and>
     \<not> (nf_HighQuality f \<and> n_Score n < 70) \<and>
     \<not> (nf_VerifiedOnly f \<and> \<not> n_Verified n) \<and>
     \<not> (\<not> IsZero (nf_DialTestedAfter f) \<and> (case n_Dial n of None \<Rightarrow> True
          | Some d \<Rightarrow> IsZero (dial_TestedAt (dial d)) \<or> dial_TestedAt (dial d) < nf_DialTestedAfter f)) \<and>
     \<not> (nf_DialEngine f \<noteq> '''' \<and> (n_Dial n = None \<or> \<not> PassedEngine (n_Dial n) (nf_DialEngine f))) \<and>
     \<not> (\<not> IsZero (nf_SeenAfter f) \<and> \<not> IsZero (n_LastSeenAt n) \<and> n_LastSeenAt n < nf_SeenAfter f) \<and>
     \<not> (nf_AIKey f \<noteq> '''' \<and> (case map_of (case n_AIAccess n of None \<Rightarrow> [] | Some m \<Rightarrow> m) (nf_AIKey f) of
          Some (Some r) \<Rightarrow> \<not> ai_OK r | _ \<Rightarrow> True)) \<and>
     \<not> (nf_Search f \<noteq> '''' \<and> \<not> Contains (search_blob n) (ToLower (nf_Search f)))"

definition node_before :: "node \<Rightarrow> node \<Rightarrow> bool" where
  "node_before a b \<longleftrightarrow> (if n_Score a \<noteq> n_Score b then n_Score a > n_Score b
     else if n_Latency a \<noteq> n_Latency b then n_Latency a < n_Latency b
     else if n_Name a \<noteq> n_Name b then n_Name a < n_Name b
     else n_ID a < n_ID b)"

definition ListNodes :: "NodeFilter \<Rightarrow> store \<Rightarrow> node list" where
  "ListNodes f s = limit_to (nf_Limit f)
     (SliceStable node_before (map cloneNode (filter (Match f) (vals (st_nodes s)))))"

definition AllNodes :: "store \<Rightarrow> node list" where
  "AllNodes s = ListNodes no_filter s"

definition GetNode :: "string \<Rightarrow> store \<Rightarrow> node option" where
  "GetNode i s = map_option cloneNode (map_of (st_nodes s) i)"

definition store_count :: "store \<Rightarrow> int" where
  "store_count s = int (length (st_nodes s))"

definition ExportURIs :: "NodeFilter \<Rightarrow> store \<Rightarrow> string list" where
  "ExportURIs f s = filter (\<lambda>u. u \<noteq> '''') (map n_RawURI (ListNodes f s))"

subsection \<open>Jobs\<close>

definition SaveJob :: "Job \<Rightarrow> store \<Rightarrow> store" where
  "SaveJob j s = s\<lparr>st_jobOrder := (if map_of (st_jobs s) (j_ID j) = None then st_jobOrder s @ [j_ID j] else st_jobOrder s),
     st_jobs := gput (j_ID j) (cloneJob j) (st_jobs s)\<rparr>"

definition GetJob :: "string \<Rightarrow> store \<Rightarrow> Job option" where
  "GetJob i s = map_option cloneJob (map_of (st_jobs s) i)"

text \<open>The loop of \<open>ListJobsPage\<close> over the reversed order; \<open>room\<close> is what is left of the limit.\<close>

fun job_page :: "(string, Job) gmap \<Rightarrow> string \<Rightarrow> bool \<Rightarrow> nat \<Rightarrow> string list \<Rightarrow> Job list" where
  "job_page jobs cursor started room [] = []"
| "job_page jobs cursor started 0 (i # is) = []"
| "job_page jobs cursor started (Suc room) (i # is) =
     (if \<not> started then job_page jobs cursor (i = cursor) (Suc room) is
      else case map_of jobs i of None \<Rightarrow> job_page jobs cursor started (Suc room) is
        | Some j \<Rightarrow> cloneJob j # job_page jobs cursor started room is)"

definition ListJobsPage :: "int \<Rightarrow> string \<Rightarrow> store \<Rightarrow> Job list" where
  "ListJobsPage limit cursor s =
     job_page (st_jobs s) cursor (cursor = '''') (nat (if limit \<le> 0 then 20 else limit)) (rev (st_jobOrder s))"

subsection \<open>Statistics\<close>

record DashboardStats =
  ds_TotalNodes :: int
  ds_AliveNodes :: int
  ds_HighQuality :: int
  ds_ByProtocol :: "(string, int) gmap"
  ds_ByGrade :: "(string, int) gmap"
  ds_BySource :: "(string, int) gmap"
  ds_ByCountry :: "(string, int) gmap"
  ds_ByCountryHQ :: "(string, int) gmap"
  ds_AvgLatencyMS :: int
  ds_AIPassRate :: "(string, float64) gmap"
  ds_LastFetchAt :: "time option"
  ds_LastQualityAt :: "time option"
  ds_SourcesEnabled :: int

definition country_or_XX :: "node \<Rightarrow> string" where
  "country_or_XX n = (if n_Country n = '''' then ''XX'' else n_Country n)"

definition count_by :: "(node \<Rightarrow> bool) \<Rightarrow> (node \<Rightarrow> string) \<Rightarrow> node list \<Rightarrow> (string, int) gmap" where
  "count_by p key ns = fold gincr (map key (filter p ns)) []"

definition ai_entries :: "node list \<Rightarrow> (string \<times> AIProbeResult option) list" where
  "ai_entries ns = concat (map (\<lambda>n. case n_AIAccess n of None \<Rightarrow> [] | Some m \<Rightarrow> m) ns)"

definition Stats :: "int \<Rightarrow> store \<Rightarrow> DashboardStats" where
  "Stats sourcesEnabled s =
     (let ns = vals (st_nodes s);
          timed = filter (\<lambda>n. n_Alive n \<and> LatencyMS n > 0) ns;
          aiTotal = fold gincr (map fst (ai_entries ns)) [];
          aiOK = fold gincr (map fst (filter (\<lambda>(k, r). case r of None \<Rightarrow> False | Some r \<Rightarrow> ai_OK r) (ai_entries ns))) []
      in \<lparr>ds_TotalNodes = int (length ns),
          ds_AliveNodes = int (length (filter n_Alive ns)),
          ds_HighQuality = int (length (filter (\<lambda>n. n_Score n \<ge> 70) ns)),
          ds_ByProtocol = count_by (\<lambda>_. True) n_Protocol ns,
          ds_ByGrade = count_by (\<lambda>n. n_Grade n \<noteq> '''') n_Grade ns,
          ds_BySource = count_by (\<lambda>n. n_Source n \<noteq> '''') n_Source ns,
          ds_ByCountry = count_by (\<lambda>_. True) country_or_XX ns,
          ds_ByCountryHQ = count_by (\<lambda>n. n_Alive n \<and> n_Score n \<ge> 70) country_or_XX ns,
          ds_AvgLatencyMS = (if timed = [] then 0 else quot (sum_list (map LatencyMS timed)) (int (length timed))),
          ds_AIPassRate = map (\<lambda>(k, total). (k, of_int (gget 0 aiOK k) / of_int total)) aiTotal,
          ds_LastFetchAt = st_lastFetch s, ds_LastQualityAt = st_lastQual s,
          ds_SourcesEnabled = sourcesEnabled\<rparr>)"

subsection \<open>Entries of the node map\<close>

text \<open>Every node is stored under its id, the hash of its identity.\<close>

definition entry_ok :: "hashes \<Rightarrow> string \<Rightarrow> node \<Rightarrow> bool" where
  "entry_ok h k n \<longleftrightarrow> k = nodeID h n \<and> n_ID n = k"

definition store_ok :: "hashes \<Rightarrow> store \<Rightarrow> bool" where
  "store_ok h s \<longleftrightarrow> gmap_inv (entry_ok h) (st_nodes s)"

lemma Key_observations [simp]:
  "Key h (cloneNode n) = Key h n" "Key h (json_node n) = Key h n" "Key h (load_node h now n) = Key h n"
  "Key h (mergeObservations n old) = Key h n" "Key h (upsert_into old n) = Key h n"
  "Key h (n\<lparr>n_ID := i\<rparr>) = Key h n" "Key h (n\<lparr>n_Fingerprint := i\<rparr>) = Key h n"
  "Key h (n\<lparr>n_FirstSeenAt := t\<rparr>) = Key h n" "Key h (n\<lparr>n_LastSeenAt := t\<rparr>) = Key h n"
  by (simp_all add: Key_def canonical_def cloneNode_def json_node_def load_node_def merge_defs
      upsert_into_def Let_def)

lemma Key_replace_node [simp]: "Key h (replace_node h now m n) = Key h n"
  by (simp add: replace_node_def Let_def split: option.split)

lemma nodeID_observations [simp]:
  "nodeID h (cloneNode n) = nodeID h n" "nodeID h (json_node n) = nodeID h n"
  "nodeID h (load_node h now n) = nodeID h n" "nodeID h (upsert_into old n) = nodeID h n"
  "nodeID h (replace_node h now m n) = nodeID h n" "nodeID h (n\<lparr>n_ID := i\<rparr>) = nodeID h n"
  by (simp_all add: nodeID_def)

lemma n_ID_observations [simp]:
  "n_ID (cloneNode n) = n_ID n" "n_ID (json_node n) = n_ID n" "n_ID (upsert_into old n) = n_ID n"
  "n_ID (load_node h now n) = nodeID h n" "n_ID (replace_node h now m n) = nodeID h n"
  by (simp_all add: cloneNode_def json_node_def upsert_into_def load_node_def replace_node_def nodeID_def Let_def
      split: option.split)

lemma st_nodes_persist [simp]: "st_nodes (persistLocked s) = st_nodes s"
  by (simp add: persistLocked_def)

lemma upsert_node_ok: "gmap_inv (entry_ok h) m \<Longrightarrow> gmap_inv (entry_ok h) (upsert_node h n m)"
proof -
  assume m: "gmap_inv (entry_ok h) m"
  let ?n = "cloneNode (n\<lparr>n_ID := nodeID h n\<rparr>)"
  have i: "n_ID ?n = nodeID h n" by simp
  show ?thesis
  proof (cases "map_of m (nodeID h n)")
    case None
    have "entry_ok h (nodeID h n) ?n" by (simp add: entry_ok_def)
    with None m show ?thesis by (simp add: upsert_node_def gmap_inv_gput)
  next
    case (Some old)
    then have "entry_ok h (nodeID h n) (upsert_into ?n old)"
      using gmap_inv_lookup [OF m Some] by (simp add: entry_ok_def)
    with Some m show ?thesis by (simp add: upsert_node_def gmap_inv_gput)
  qed
qed

lemma put_nodes_ok:
  assumes "\<forall>n \<in> set ns. n_ID n = nodeID h n"
  shows "gmap_inv (entry_ok h) (fold put_node ns [])"
    and "gmap_inv (entry_ok h) (fold (\<lambda>n m. gput (n_ID n) n m) ns [])"
proof -
  have "entry_ok h (n_ID n) n" "entry_ok h (n_ID n) (cloneNode n)" if "n \<in> set ns" for n
    using assms that by (simp_all add: entry_ok_def)
  then show "gmap_inv (entry_ok h) (fold put_node ns [])"
    and "gmap_inv (entry_ok h) (fold (\<lambda>n m. gput (n_ID n) n m) ns [])"
    by (intro gmap_inv_fold; simp add: put_node_def gmap_inv_gput)+
qed

lemma store_entry_ID: "store_ok h s \<Longrightarrow> n \<in> set (vals (st_nodes s)) \<Longrightarrow> n_ID n = nodeID h n"
  by (auto simp: store_ok_def gmap_inv_def entry_ok_def)

lemma replace_ok: "store_ok h (snd (ReplaceNodes h now nodes s))"
  using put_nodes_ok(1) [of "map (replace_node h now (by_key h (st_nodes s))) (somes nodes)" h]
  by (simp add: store_ok_def ReplaceNodes_def Let_def)

text \<open>
  C15. The node map stays keyed by identity: whatever sequence of replacing, merging, pruning, loading
  and other operations runs, every node is stored exactly once, under the id that is the hash of its
  own key.
\<close>

theorem store_keyed_by_identity:
  assumes "store_ok h s"
  shows "store_ok h (snd (ReplaceNodes h now nodes s)) \<and> store_ok h (UpsertNodes h now ns s) \<and>
    store_ok h (snd (Prune opt s)) \<and> store_ok h (SetHostAI ai s) \<and> store_ok h (SaveJob j s) \<and>
    store_ok h (Flush s) \<and> store_ok h (New h now disk) \<and> store_ok h NewMemory"
proof -
  have "store_ok h (snd (ReplaceNodes h now nodes s))"
    by (rule replace_ok)
  moreover have "store_ok h (UpsertNodes h now ns s)"
    using assms gmap_inv_fold [OF upsert_node_ok] by (simp add: store_ok_def UpsertNodes_def)
  moreover have "store_ok h (snd (Prune opt s))"
  proof -
    let ?kept = "limit_to (po_MaxNodes opt) (SliceStable prune_before (filter (prune_keeps opt) (vals (st_nodes s))))"
    have "set ?kept \<subseteq> set (SliceStable prune_before (filter (prune_keeps opt) (vals (st_nodes s))))"
      by (rule set_limit_to)
    then have sub: "set ?kept \<subseteq> set (vals (st_nodes s))"
      unfolding set_SliceStable set_filter by blast
    have "\<forall>n \<in> set ?kept. n_ID n = nodeID h n"
    proof
      fix n
      assume "n \<in> set ?kept"
      then show "n_ID n = nodeID h n" by (intro store_entry_ID [OF assms] subsetD [OF sub])
    qed
    from put_nodes_ok(2) [OF this] show ?thesis
      unfolding store_ok_def Prune_def Let_def snd_conv st_nodes_persist by simp
  qed
  moreover have "gmap_inv (entry_ok h) (load_nodes h now xs)" for xs
  proof -
    have "entry_ok h (n_ID (load_node h now n)) (load_node h now n)" for n by (simp add: entry_ok_def)
    then show ?thesis
      unfolding load_nodes_def Let_def by (intro gmap_inv_fold gmap_inv_gput) simp_all
  qed
  then have "store_ok h (New h now disk)"
    by (simp add: store_ok_def New_def Load_def NewMemory_def Let_def split: option.split)
  ultimately show ?thesis
    using assms by (simp add: store_ok_def SetHostAI_def SaveJob_def Flush_def NewMemory_def)
qed

theorem store_keyed_by_identity_witness:
  "store_ok plain_hashes (snd (ReplaceNodes plain_hashes 5 [Some example_node, None] NewMemory))"
proof -
  have "store_ok plain_hashes NewMemory" by (simp add: store_ok_def NewMemory_def)
  from store_keyed_by_identity [OF this] show ?thesis by blast
qed

subsection \<open>Listing\<close>

definition node_rank :: "node \<Rightarrow> real \<times> int \<times> string \<times> string" where
  "node_rank n = (- n_Score n, n_Latency n, n_Name n, n_ID n)"

interpretation node_order: keyed_less node_before node_rank
  by unfold_locales (auto simp: node_before_def node_rank_def)

lemma inj_rank_clones:
  assumes "store_ok h s"
  shows "inj_on node_rank (cloneNode ` set (vals (st_nodes s)))"
proof (rule inj_onI, elim imageE)
  fix x y a b
  assume "node_rank x = node_rank y" "x = cloneNode a" "y = cloneNode b"
    and ab: "a \<in> set (vals (st_nodes s))" "b \<in> set (vals (st_nodes s))"
  then have "n_ID a = n_ID b" by (simp add: node_rank_def)
  have entry: "(n_ID n, n) \<in> set (st_nodes s)" if n: "n \<in> set (vals (st_nodes s))" for n
  proof -
    obtain k where k: "(k, n) \<in> set (st_nodes s)" using n by (metis (no_types, lifting) imageE set_map snd_conv surj_pair)
    then have "entry_ok h k n" using assms unfolding store_ok_def gmap_inv_def by blast
    with k show ?thesis by (simp add: entry_ok_def)
  qed
  have "distinct (keys (st_nodes s))" using assms by (simp add: store_ok_def gmap_inv_def)
  then have "a = b"
    using entry [OF ab(1)] entry [OF ab(2)] \<open>n_ID a = n_ID b\<close> by (metis eq_key_imp_eq_value)
  then show "x = y" using \<open>x = cloneNode a\<close> \<open>y = cloneNode b\<close> by simp
qed

text \<open>
  C16. Listing nodes is deterministic: the result holds exactly the matching nodes (cut to the
  limit after sorting), by descending score, then latency, name and id, and does not depend on the
  iteration order of the map.
\<close>

theorem ListNodes_ok:
  assumes "store_ok h s"
  shows "set (ListNodes (f\<lparr>nf_Limit := 0\<rparr>) s) = cloneNode ` {n \<in> set (vals (st_nodes s)). Match f n} \<and>
    ListNodes f s = limit_to (nf_Limit f) (ListNodes (f\<lparr>nf_Limit := 0\<rparr>) s) \<and>
    sorted (map node_rank (ListNodes f s)) \<and>
    (mset (st_nodes s') = mset (st_nodes s) \<longrightarrow> ListNodes f s' = ListNodes f s)"
proof -
  have match: "Match (f\<lparr>nf_Limit := 0\<rparr>) = Match f"
    unfolding Match_def by (rule ext) (simp split: option.split)
  have "sorted (map node_rank (SliceStable node_before xs))" for xs
    by (rule node_order.sorted_key)
  then have sorted: "sorted (map node_rank (ListNodes f s))"
    unfolding ListNodes_def sorted_map by (rule sorted_wrt_limit_to)
  have "ListNodes f s' = ListNodes f s" if "mset (st_nodes s') = mset (st_nodes s)"
  proof -
    have "mset (map cloneNode (filter (Match f) (vals (st_nodes s)))) =
        mset (map cloneNode (filter (Match f) (vals (st_nodes s'))))"
      using that by (simp add: mset_filter)
    moreover have "inj_on node_rank (set (map cloneNode (filter (Match f) (vals (st_nodes s)))))"
      using inj_rank_clones [OF assms] by (rule inj_on_subset) auto
    ultimately show ?thesis
      unfolding ListNodes_def using node_order.order_independent by metis
  qed
  with match sorted show ?thesis
    by (auto simp: ListNodes_def limit_to_def)
qed

definition two_nodes :: store where
  "two_nodes = snd (ReplaceNodes plain_hashes 5 [Some example_node, Some (example_node\<lparr>n_Port := 80, n_Score := 9\<rparr>)] NewMemory)"

theorem ListNodes_ok_witness:
  "sorted (map node_rank (ListNodes no_filter two_nodes))"
proof -
  have "store_ok plain_hashes NewMemory" by (simp add: store_ok_def NewMemory_def)
  then have "store_ok plain_hashes two_nodes" unfolding two_nodes_def using replace_ok by blast
  from ListNodes_ok [OF this] show ?thesis by blast
qed

subsection \<open>History\<close>

text \<open>Distinct ids come from distinct keys, so the lookup by key finds every stored node.\<close>

lemma by_key_lookup:
  assumes "store_ok h s" and "map_of (st_nodes s) i = Some old"
  shows "map_of (by_key h (st_nodes s)) (Key h old) = Some old"
proof -
  let ?ns = "vals (st_nodes s)"
  have entries: "k = nodeID h n" if "(k, n) \<in> set (st_nodes s)" for k n
    using assms(1) that by (force simp: store_ok_def gmap_inv_def entry_ok_def)
  have "map (nodeID h) ?ns = keys (st_nodes s)"
    using entries by (simp add: map_eq_conv) (metis prod.collapse)
  then have dist: "distinct (map (Key h) ?ns)"
    using assms(1) by (metis (mono_tags) distinct_map gmap_inv_def inj_on_def nodeID_def store_ok_def)
  have "old \<in> set ?ns"
    using map_of_SomeD [OF assms(2)] by (metis image_eqI set_map snd_conv)
  then have "find (\<lambda>n. Key h n = Key h old) ?ns = Some old"
    using dist by (intro find_key)
  then show ?thesis
    using map_of_fold_gput [OF dist, of "\<lambda>n. n" "[]"] by (simp add: by_key_def)
qed

lemma ReplaceNodes_lookup:
  assumes "distinct (map (nodeID h) (somes nodes))"
  shows "map_of (st_nodes (snd (ReplaceNodes h now nodes s))) i =
    map_option (\<lambda>n. cloneNode (replace_node h now (by_key h (st_nodes s)) n)) (find (\<lambda>n. nodeID h n = i) (somes nodes))"
proof -
  let ?f = "replace_node h now (by_key h (st_nodes s))"
  have "fold put_node (map ?f ns) m = fold (\<lambda>n m. gput (nodeID h n) (cloneNode (?f n)) m) ns m" for ns m
    by (induction ns arbitrary: m) (simp_all add: put_node_def)
  then have "st_nodes (snd (ReplaceNodes h now nodes s)) =
      fold (\<lambda>n m. gput (nodeID h n) (cloneNode (?f n)) m) (somes nodes) []"
    by (simp add: ReplaceNodes_def Let_def)
  then show ?thesis
    using map_of_fold_gput [OF assms, of "\<lambda>n. cloneNode (?f n)" "[]" i] by (simp split: option.split)
qed

lemma merged_fields:
  "n_FirstSeenAt (mergeObservations n old) = (if IsZero (n_FirstSeenAt n) then n_FirstSeenAt old else n_FirstSeenAt n)"
  "n_Name (mergeObservations n old) = n_Name n" "n_RawURI (mergeObservations n old) = n_RawURI n"
  "n_Country (mergeObservations n old) = (if n_Country n = '''' then n_Country old else n_Country n)"
  by (simp_all add: merge_defs)

lemma merged_test:
  assumes "IsZero (n_TestedAt n)"
  shows "n_TestedAt (mergeObservations n old) = n_TestedAt old" "n_Alive (mergeObservations n old) = n_Alive old"
    "n_Latency (mergeObservations n old) = n_Latency old" "n_Score (mergeObservations n old) = n_Score old"
    "n_Grade (mergeObservations n old) = n_Grade old" "n_Quality (mergeObservations n old) = n_Quality old"
    "n_Tags (mergeObservations n old) = n_Tags old" "n_QualityFailures (mergeObservations n old) = n_QualityFailures old"
    "n_SuccessStreak (mergeObservations n old) = n_SuccessStreak old" "n_Error (mergeObservations n old) = n_Error old"
    "n_NextTestAt (mergeObservations n old) = n_NextTestAt old"
  using assms by (simp_all add: merge_defs)

lemma clone_fields:
  "n_TestedAt (cloneNode n) = n_TestedAt n" "n_Alive (cloneNode n) = n_Alive n" "n_Latency (cloneNode n) = n_Latency n"
  "n_Score (cloneNode n) = n_Score n" "n_Grade (cloneNode n) = n_Grade n" "n_Quality (cloneNode n) = n_Quality n"
  "n_Tags (cloneNode n) = n_Tags n" "n_QualityFailures (cloneNode n) = n_QualityFailures n"
  "n_SuccessStreak (cloneNode n) = n_SuccessStreak n" "n_NextTestAt (cloneNode n) = n_NextTestAt n"
  "n_Error (cloneNode n) = n_Error n"
  "n_Name (cloneNode n) = n_Name n" "n_RawURI (cloneNode n) = n_RawURI n" "n_Country (cloneNode n) = n_Country n"
  "n_FirstSeenAt (cloneNode n) = n_FirstSeenAt n"
  by (simp_all add: cloneNode_def)

text \<open>
  C17. A fetch does not lose what was measured: a node that is already known and arrives untested
  keeps its test result, score, grade, quality, tags, streaks and next test time, its first sighting and its
  country, while its name and link are the new ones; a node that is no longer delivered is gone.
\<close>

theorem ReplaceNodes_keeps_history:
  assumes "store_ok h s" and "distinct (map (nodeID h) (somes nodes))"
    and "map_of (st_nodes s) i = Some old" and "n \<in> set (somes nodes)" and "Key h n = Key h old"
    and "IsZero (n_TestedAt n)"
  shows "(\<exists>m. map_of (st_nodes (snd (ReplaceNodes h now nodes s))) i = Some m \<and>
      n_TestedAt m = n_TestedAt old \<and> n_Alive m = n_Alive old \<and> n_Latency m = n_Latency old \<and>
      n_Score m = n_Score old \<and> n_Grade m = n_Grade old \<and> n_Quality m = n_Quality old \<and> n_Tags m = n_Tags old \<and>
      n_QualityFailures m = n_QualityFailures old \<and> n_SuccessStreak m = n_SuccessStreak old \<and>
      n_NextTestAt m = n_NextTestAt old \<and> n_Error m = n_Error old \<and> n_Name m = n_Name n \<and> n_RawURI m = n_RawURI n \<and>
      (n_Country n = '''' \<longrightarrow> n_Country m = n_Country old) \<and>
      (IsZero (n_FirstSeenAt n) \<and> \<not> IsZero (n_FirstSeenAt old) \<longrightarrow> n_FirstSeenAt m = n_FirstSeenAt old)) \<and>
    (\<forall>j. j \<notin> nodeID h ` set (somes nodes) \<longrightarrow> map_of (st_nodes (snd (ReplaceNodes h now nodes s))) j = None)"
proof
  have "entry_ok h i old"
    using gmap_inv_lookup assms(1,3) by (metis store_ok_def)
  then have i: "i = nodeID h n" using assms(5) by (simp add: entry_ok_def nodeID_def)
  let ?m = "cloneNode (replace_node h now (by_key h (st_nodes s)) n)"
  have "find (\<lambda>x. nodeID h x = i) (somes nodes) = Some n"
    unfolding i using assms(2,4) by (rule find_key)
  then have "map_of (st_nodes (snd (ReplaceNodes h now nodes s))) i = Some ?m"
    using ReplaceNodes_lookup [OF assms(2)] by simp
  moreover have "map_of (by_key h (st_nodes s)) (Key h n) = Some old"
    using by_key_lookup [OF assms(1,3)] assms(5) by simp
  then have "replace_node h now (by_key h (st_nodes s)) n =
      (let n1 = mergeObservations n old;
           n2 = n1\<lparr>n_FirstSeenAt := (if IsZero (n_FirstSeenAt n1) then now else n_FirstSeenAt n1),
                   n_LastSeenAt := (if IsZero (n_LastSeenAt n1) then now else n_LastSeenAt n1)\<rparr>
       in n2\<lparr>n_ID := nodeID h n2, n_Fingerprint := Key h n2\<rparr>)"
    by (simp add: replace_node_def)
  ultimately show "\<exists>m. map_of (st_nodes (snd (ReplaceNodes h now nodes s))) i = Some m \<and>
      n_TestedAt m = n_TestedAt old \<and> n_Alive m = n_Alive old \<and> n_Latency m = n_Latency old \<and>
      n_Score m = n_Score old \<and> n_Grade m = n_Grade old \<and> n_Quality m = n_Quality old \<and> n_Tags m = n_Tags old \<and>
      n_QualityFailures m = n_QualityFailures old \<and> n_SuccessStreak m = n_SuccessStreak old \<and>
      n_NextTestAt m = n_NextTestAt old \<and> n_Error m = n_Error old \<and> n_Name m = n_Name n \<and> n_RawURI m = n_RawURI n \<and>
      (n_Country n = '''' \<longrightarrow> n_Country m = n_Country old) \<and>
      (IsZero (n_FirstSeenAt n) \<and> \<not> IsZero (n_FirstSeenAt old) \<longrightarrow> n_FirstSeenAt m = n_FirstSeenAt old)"
    using assms(6) by (intro exI [of _ ?m]) (simp add: Let_def clone_fields merged_fields merged_test)
  have "find (\<lambda>n. nodeID h n = j) (somes nodes) = None" if "j \<notin> nodeID h ` set (somes nodes)" for j
    unfolding find_None_iff using that by blast
  then show "\<forall>j. j \<notin> nodeID h ` set (somes nodes) \<longrightarrow> map_of (st_nodes (snd (ReplaceNodes h now nodes s))) j = None"
    using ReplaceNodes_lookup [OF assms(2)] by simp
qed

definition tested_node :: node where
  "tested_node = example_node\<lparr>n_TestedAt := 3, n_Alive := True, n_Score := 80, n_Country := ''JP''\<rparr>"

definition known_store :: store where
  "known_store = snd (ReplaceNodes plain_hashes 5 [Some tested_node] NewMemory)"

theorem ReplaceNodes_keeps_history_witness:
  "\<exists>m. map_of (st_nodes (snd (ReplaceNodes plain_hashes 9 [Some example_node] known_store)))
     (nodeID plain_hashes example_node) = Some m \<and> n_Score m = 80 \<and> n_Country m = ''JP''"
proof -
  have ok: "store_ok plain_hashes known_store" unfolding known_store_def by (rule replace_ok)
  obtain old where old: "map_of (st_nodes known_store) (nodeID plain_hashes example_node) = Some old"
    and "n_Score old = 80 \<and> n_Country old = ''JP''"
    and key: "Key plain_hashes example_node = Key plain_hashes old"
  proof
    let ?old = "cloneNode (replace_node plain_hashes 5 [] tested_node)"
    have id: "nodeID plain_hashes tested_node = nodeID plain_hashes example_node"
      by (simp add: tested_node_def nodeID_def Key_def canonical_def)
    then show "map_of (st_nodes known_store) (nodeID plain_hashes example_node) = Some ?old"
      by (simp add: known_store_def ReplaceNodes_lookup NewMemory_def by_key_def)
    show "n_Score ?old = 80 \<and> n_Country ?old = ''JP''"
      by (simp add: clone_fields replace_node_def tested_node_def Let_def)
    have "Key plain_hashes tested_node = Key plain_hashes example_node"
      by (simp add: tested_node_def Key_def canonical_def)
    then show "Key plain_hashes example_node = Key plain_hashes ?old" by simp
  qed
  moreover have "IsZero (n_TestedAt example_node)" "n_Country example_node = ''''"
    by (simp_all add: example_node_def zero_node_def IsZero_def)
  ultimately show ?thesis
    using ReplaceNodes_keeps_history [OF ok _ old _ key, of "[Some example_node]" 9] by auto
qed

subsection \<open>Snapshot\<close>

lemma stored_order_irrelevant:
  assumes "store_ok h s"
  shows "distinct (map (nodeID h) (vals (st_nodes s)))"
    and "map_of (st_nodes s) i = find (\<lambda>n. nodeID h n = i) (vals (st_nodes s))"
proof -
  have entries: "k = nodeID h n" if "(k, n) \<in> set (st_nodes s)" for k n
    using assms that by (force simp: store_ok_def gmap_inv_def entry_ok_def)
  then have "map (nodeID h) (vals (st_nodes s)) = keys (st_nodes s)"
    by (simp add: map_eq_conv) (metis prod.collapse)
  then show "distinct (map (nodeID h) (vals (st_nodes s)))"
    using assms unfolding store_ok_def gmap_inv_def by metis
  have "(\<forall>(k, n) \<in> set m. k = nodeID h n) \<Longrightarrow> map_of m i = find (\<lambda>n. nodeID h n = i) (vals m)" for m
    by (induction m) auto
  then show "map_of (st_nodes s) i = find (\<lambda>n. nodeID h n = i) (vals (st_nodes s))"
    using entries by blast
qed

lemma find_perm:
  assumes "distinct (map key xs)" and "mset xs = mset ys"
  shows "find (\<lambda>x. key x = k) xs = find (\<lambda>x. key x = k) ys"
proof (cases "\<exists>x \<in> set xs. key x = k")
  case True
  then obtain x where "x \<in> set xs" "key x = k" by blast
  moreover have "x \<in> set ys" "distinct (map key ys)"
    using assms calculation by (metis mset_eq_setD, metis mset_eq_imp_distinct_iff mset_map)
  ultimately show ?thesis using find_key [of key xs x] find_key [of key ys x] assms(1) by simp
next
  case False
  then have "find (\<lambda>x. key x = k) xs = None" "find (\<lambda>x. key x = k) ys = None"
    unfolding find_None_iff using assms(2) by (metis, metis mset_eq_setD)
  then show ?thesis by simp
qed

text \<open>
  The store survives a restart: with at most 12000 nodes, the process that reads the snapshot
  written by the last one has the same nodes under the same ids, each unchanged but for the latency
  rounded to milliseconds and the fields that are recomputed.
\<close>

lemma snapshot_roundtrip:
  assumes "store_ok h s" and "st_persistent s" and "length (st_nodes s) \<le> 12000"
  shows "map_of (st_nodes (New h now (st_disk (Flush s)))) i =
    map_option (\<lambda>n. load_node h now (json_node n)) (map_of (st_nodes s) i)"
proof -
  let ?ns = "SliceStable snapshot_before (vals (st_nodes s))"
  have cut: "limit_to 12000 ?ns = ?ns" using assms(3) by (simp add: limit_to_def)
  have dist: "distinct (map (nodeID h) ?ns)"
    using stored_order_irrelevant(1) [OF assms(1)] by (metis mset_SliceStable mset_eq_imp_distinct_iff mset_map)
  have "st_nodes (New h now (st_disk (Flush s))) = load_nodes h now (map json_node ?ns)"
    using assms(2) cut by (simp add: New_def Load_def Flush_def persistLocked_def Let_def NewMemory_def)
  also have "\<dots> = fold (\<lambda>n m. gput (nodeID h n) (load_node h now (json_node n)) m) ?ns []"
    by (simp add: load_nodes_def fold_map o_def Let_def)
  finally have "map_of (st_nodes (New h now (st_disk (Flush s)))) i =
      map_option (\<lambda>n. load_node h now (json_node n)) (find (\<lambda>n. nodeID h n = i) ?ns)"
    using map_of_fold_gput [OF dist, of "\<lambda>n. load_node h now (json_node n)" "[]" i] by (simp split: option.split)
  also have "find (\<lambda>n. nodeID h n = i) ?ns = map_of (st_nodes s) i"
    using find_perm [OF dist, of "vals (st_nodes s)" i] stored_order_irrelevant(2) [OF assms(1)] by simp
  finally show ?thesis .
qed

subsection \<open>Pruning\<close>

definition prune_rank :: "node \<Rightarrow> bool \<times> real \<times> int" where
  "prune_rank n = (\<not> n_Alive n, - n_Score n, n_Latency n)"

interpretation prune_order: keyed_less prune_before prune_rank
  by unfold_locales (auto simp: prune_before_def prune_rank_def)

text \<open>
  Pruning removes a node only when it is dead for good (tested, down and failed three times), is
  tested with a score below the bar, or does not fit the limit; the limit is respected, drops
  nothing that ranks before a kept node, and never counts untested nodes as failures. The option
  \<open>KeepUntested\<close> has no effect.
\<close>

lemma Prune_ok:
  assumes "store_ok h s"
  shows "(let kept = set (vals (st_nodes (snd (Prune opt s)))); all = set (vals (st_nodes s)) in
      kept \<subseteq> {n \<in> all. prune_keeps opt n} \<and>
      (po_MaxNodes opt > 0 \<longrightarrow> int (card kept) \<le> po_MaxNodes opt) \<and>
      (\<forall>n \<in> all. IsZero (n_TestedAt n) \<longrightarrow> prune_keeps opt n) \<and>
      (\<forall>n \<in> all - kept. prune_keeps opt n \<longrightarrow> (\<forall>k \<in> kept. prune_rank k \<le> prune_rank n))) \<and>
    Prune (opt\<lparr>po_KeepUntested := b\<rparr>) s = Prune opt s"
proof -
  have keeps: "prune_keeps (opt\<lparr>po_KeepUntested := b\<rparr>) n = prune_keeps opt n" for n b
    by (simp add: prune_keeps_def Let_def)
  let ?sorted = "SliceStable prune_before (filter (prune_keeps opt) (vals (st_nodes s)))"
  let ?kept = "limit_to (po_MaxNodes opt) ?sorted"
  have "map n_ID (vals (st_nodes s)) = map (nodeID h) (vals (st_nodes s))"
    by (rule map_cong [OF refl]) (rule store_entry_ID [OF assms])
  then have "distinct (map n_ID (vals (st_nodes s)))"
    using stored_order_irrelevant(1) [OF assms] by (simp only:)
  then have "distinct (map n_ID (filter (prune_keeps opt) (vals (st_nodes s))))" by (rule distinct_map_filter)
  then have "distinct (map n_ID ?sorted)" by (metis mset_SliceStable mset_eq_imp_distinct_iff mset_map)
  moreover obtain dropped where split: "?sorted = ?kept @ dropped" using limit_to_prefix by blast
  ultimately have dist: "distinct (map n_ID ?kept)" by (metis distinct_append map_append)
  then have "vals (st_nodes (snd (Prune opt s))) = ?kept"
    using fold_gput_fresh [of n_ID ?kept "[]" "\<lambda>n. n"] by (simp add: Prune_def Let_def o_def)
  then have kept: "set (vals (st_nodes (snd (Prune opt s)))) = set ?kept" by simp
  have all: "set ?sorted = {n \<in> set (vals (st_nodes s)). prune_keeps opt n}"
    unfolding set_SliceStable set_filter ..
  have sub: "set ?kept \<subseteq> {n \<in> set (vals (st_nodes s)). prune_keeps opt n}"
    using set_limit_to [of "po_MaxNodes opt" ?sorted] unfolding all .
  have card: "int (card (set ?kept)) \<le> po_MaxNodes opt" if "po_MaxNodes opt > 0"
    using length_limit_to [OF that, of ?sorted] card_length [of ?kept] by linarith
  have best: "prune_rank k \<le> prune_rank n"
    if "n \<in> set (vals (st_nodes s)) - set ?kept" "prune_keeps opt n" "k \<in> set ?kept" for n k
  proof -
    have "n \<in> set ?sorted" using that unfolding all by blast
    then have "n \<in> set dropped" using that(1) split by (metis Diff_iff Un_iff set_append)
    then have "\<not> prune_before n k" using prune_order.limit_keeps_best [OF split that(3)] by blast
    then show ?thesis by (simp add: prune_order.lt_key not_less)
  qed
  have untested: "prune_keeps opt n" if "IsZero (n_TestedAt n)" for n
    using that by (simp add: prune_keeps_def)
  have "prune_keeps (opt\<lparr>po_KeepUntested := b\<rparr>) = prune_keeps opt" using keeps by (rule ext)
  then have same: "Prune (opt\<lparr>po_KeepUntested := b\<rparr>) s = Prune opt s" by (simp add: Prune_def)
  show ?thesis
    unfolding Let_def kept using sub card untested best same by blast
qed

definition drop_dead :: PruneOptions where
  "drop_dead = \<lparr>po_DropDead = True, po_MinScoreKeep = 50, po_MaxNodes = 1, po_KeepUntested = True\<rparr>"

end
