(* ===== verification/Quality.thy ===== *)
theory Quality
  imports Store Config
begin

text \<open>
  Quality measurement (\<open>internal/quality/quality.go\<close>, \<open>internal/quality/v2.go\<close>, and the quality stage
  of \<open>internal/service/service.go\<close>): the probe of one node with its first score, the weighted score of
  version 2, and a round of tests over the store with its retest schedule.

  What the network answers is an argument: the latency of each successful dial, the outcome of the
  TLS handshake and the number of reachable edge hosts. \<open>math.Sqrt\<close> and \<open>math.Log2\<close> are the real functions.
\<close>

subsection \<open>Probing one node\<close>

record quality_options =
  qo_Concurrency :: int
  qo_Timeout :: duration
  qo_Rounds :: int
  qo_TLSProbe :: bool
  qo_EdgeProbe :: bool

definition quality_New :: "quality_options \<Rightarrow> quality_options" where
  "quality_New opts = \<lparr>
     qo_Concurrency = (if qo_Concurrency opts \<le> 0 then 64 else qo_Concurrency opts),
     qo_Timeout = (if qo_Timeout opts \<le> 0 then 5 * second else qo_Timeout opts),
     qo_Rounds = (if qo_Rounds opts \<le> 0 then 3 else qo_Rounds opts),
     qo_TLSProbe = qo_TLSProbe opts, qo_EdgeProbe = qo_EdgeProbe opts\<rparr>"

text \<open>
  The answers of the network to one test: per round that was started the latency of a successful
  dial or \<open>None\<close> (a canceled context starts no further rounds), the result of \<open>probeTLS\<close>, and how many
  edge hosts accepted a connection.
\<close>

record probe_answers =
  pa_now :: time
  pa_dials :: "duration option list"
  pa_tls :: "bool \<times> int"
  pa_edge :: nat

definition edgeHosts :: "string list" where
  "edgeHosts = [''chatgpt.com:443'', ''gemini.google.com:443'', ''claude.ai:443'', ''grok.x.ai:443'',
     ''www.google.com:443'', ''www.cloudflare.com:443'']"

definition probeEdgeScore :: "nat \<Rightarrow> float64" where
  "probeEdgeScore ok = real ok / real (length edgeHosts) * 100"

definition protocol_bonus :: "node \<Rightarrow> float64" where
  "protocol_bonus n = (if n_Protocol n \<in> {ProtoVLESS, ProtoHysteria2, ProtoTUIC} then 10
     else if n_Protocol n \<in> {ProtoTrojan, ProtoVMess} then 8
     else if n_Protocol n = ProtoSS then 6 else 5)"

definition computeScore :: "node \<Rightarrow> Quality \<Rightarrow> float64" where
  "computeScore n q =
     (let sr = q_SuccessRate q * 35;
          lat = (if of_int (q_AvgLatencyMS q) < (1 :: float64) then 1 else of_int (q_AvgLatencyMS q));
          latScore = (if lat \<le> 80 then 40 else if lat \<ge> 2500 then 2 else 40 * (1 / (1 + lat / 500)));
          jitScore = 10 * (1 / (1 + of_int (q_JitterMS q) / 80));
          proto1 = (if n_TLS n then min 10 (protocol_bonus n + 2) else protocol_bonus n);
          protoScore = (if n_TLS n \<and> \<not> q_TLSOK q \<and> q_TLSMS q > 0 then proto1 / 2 else proto1);
          edge = q_EdgeScore q / 100 * 5;
          total = sr + latScore + jitScore + protoScore + edge
      in go_round (clamp total 0 100 * 10) / 10)"

definition buildTags :: "node \<Rightarrow> Quality \<Rightarrow> string list" where
  "buildTags n q = [n_Protocol n] @ (if n_TLS n then [''tls''] else []) @
     (if q_AvgLatencyMS q > 0 \<and> q_AvgLatencyMS q < 150 then [''low-latency''] else []) @
     (if q_SuccessRate q \<ge> 1 then [''stable''] else []) @
     (if q_Score q \<ge> 80 then [''premium''] else []) @
     (if n_Security n = ''reality'' then [''reality''] else [])"

definition zero_quality :: Quality where
  "zero_quality = \<lparr>q_ScoreVersion = '''', q_Rounds = 0, q_SuccessRate = 0, q_AvgLatencyMS = 0, q_MinLatencyMS = 0,
     q_MaxLatencyMS = 0, q_JitterMS = 0, q_TLSOK = False, q_TLSMS = 0, q_EdgeScore = 0, q_HTTPMS = 0,
     q_ThroughputBPS = 0, q_Stability7D = 0, q_Breakdown = [], q_Score = 0, q_Notes = []\<rparr>"

text \<open>The mean square deviation in milliseconds, and the fields measured from the latencies.\<close>

definition jitter :: "duration list \<Rightarrow> duration \<Rightarrow> int" where
  "jitter latencies avg = go_int (sqrt (sum_list (map (\<lambda>l. (of_int (Milliseconds l) - of_int (Milliseconds avg))\<^sup>2) latencies)
     / real (length latencies)))"

definition average :: "duration list \<Rightarrow> duration" where
  "average latencies = quot (sum_list latencies) (int (length latencies))"

definition measured :: "duration list \<Rightarrow> Quality \<Rightarrow> Quality" where
  "measured latencies q = (let avg = average latencies in q\<lparr>
     q_MinLatencyMS := Milliseconds (hd latencies), q_MaxLatencyMS := Milliseconds (last latencies),
     q_AvgLatencyMS := Milliseconds avg, q_JitterMS := jitter latencies avg\<rparr>)"

definition tls_probed :: "quality_options \<Rightarrow> probe_answers \<Rightarrow> node \<Rightarrow> Quality \<Rightarrow> Quality" where
  "tls_probed opts pa n q =
     (if qo_TLSProbe opts \<and> n_TLS n then q\<lparr>q_TLSOK := fst (pa_tls pa), q_TLSMS := snd (pa_tls pa),
        q_Notes := q_Notes q @ (if fst (pa_tls pa) then [] else [''tls handshake failed''])\<rparr>
      else if n_TLS n then q\<lparr>q_TLSOK := True\<rparr> else q)"

definition testOne :: "quality_options \<Rightarrow> probe_answers \<Rightarrow> node \<Rightarrow> node" where
  "testOne opts pa n0 =
     (let n = n0\<lparr>n_TestedAt := pa_now pa\<rparr>;
          latencies = somes (pa_dials pa);
          q0 = zero_quality\<lparr>q_ScoreVersion := ''v2'', q_Rounds := qo_Rounds opts,
            q_SuccessRate := real (length latencies) / of_int (qo_Rounds opts)\<rparr>
      in if latencies = [] then n\<lparr>n_Alive := False, n_Error := ''all probes failed'', n_Latency := qo_Timeout opts,
           n_Quality := Some q0, n_Score := 0, n_Grade := ''F''\<rparr>
         else (let sorted = sort latencies;
                   n1 = n\<lparr>n_Alive := True, n_Error := '''', n_Latency := average sorted\<rparr>;
                   q1 = (tls_probed opts pa n1 (measured sorted q0))
                     \<lparr>q_EdgeScore := (if qo_EdgeProbe opts then probeEdgeScore (pa_edge pa) else 50)\<rparr>;
                   q2 = q1\<lparr>q_Score := computeScore n1 q1\<rparr>
               in n1\<lparr>n_Quality := Some q2, n_Score := q_Score q2, n_Grade := AssignGrade (q_Score q2),
                     n_Tags := buildTags n1 q2\<rparr>))"

text \<open>A node whose test was not started because the context ended.\<close>

definition test_canceled :: "node \<Rightarrow> node" where
  "test_canceled n = n\<lparr>n_Alive := False, n_Error := ''canceled''\<rparr>"

subsection \<open>Version 2 of the score\<close>

record Weights =
  w_Latency :: float64
  w_Success :: float64
  w_Stability :: float64
  w_TLS :: float64
  w_HTTP :: float64
  w_Throughput :: float64

definition DefaultWeights :: Weights where
  "DefaultWeights = \<lparr>w_Latency = 25 / 100, w_Success = 25 / 100, w_Stability = 15 / 100, w_TLS = 10 / 100,
     w_HTTP = 15 / 100, w_Throughput = 10 / 100\<rparr>"

definition weightSum :: "Weights \<Rightarrow> float64" where
  "weightSum w = w_Latency w + w_Success w + w_Stability w + w_TLS w + w_HTTP w + w_Throughput w"

record Breakdown =
  b_Connectivity :: float64
  b_Latency :: float64
  b_Stability :: float64
  b_TLS :: float64
  b_HTTP :: float64
  b_Throughput :: float64
  b_Protocol :: float64
  b_Total :: float64
  b_Grade :: string

definition zero_breakdown :: Breakdown where
  "zero_breakdown = \<lparr>b_Connectivity = 0, b_Latency = 0, b_Stability = 0, b_TLS = 0, b_HTTP = 0, b_Throughput = 0,
     b_Protocol = 0, b_Total = 0, b_Grade = ''''\<rparr>"

definition protocolCompleteness :: "node \<Rightarrow> float64" where
  "protocolCompleteness n =
     (if n_Protocol n \<in> {ProtoVLESS, ProtoVMess} then
        (if n_UUID n \<noteq> '''' \<and> (n_Network n \<noteq> '''' \<or> n_TLS n \<or> n_Security n \<noteq> '''') then 100
         else if n_UUID n \<noteq> '''' then 85 else 70)
      else if n_Protocol n \<in> {ProtoTrojan, ProtoHysteria2} then (if n_Password n \<noteq> '''' then 95 else 70)
      else if n_Protocol n = ProtoSS then (if n_Method n \<noteq> '''' \<and> n_Password n \<noteq> '''' then 90 else 70)
      else 70)"

definition connectivity :: "node \<Rightarrow> float64" where
  "connectivity n =
     (let c = (case n_Quality n of None \<Rightarrow> 80 | Some q \<Rightarrow> clamp (q_SuccessRate q * 100) 0 100)
      in case n_Dial n of None \<Rightarrow> c | Some d \<Rightarrow> if dial_OK (dial d) then max c 95 else min c 20)"

definition latency_score :: "node \<Rightarrow> float64" where
  "latency_score n =
     (let l1 = of_int (LatencyMS n);
          l2 = (case n_Quality n of Some q \<Rightarrow> if q_AvgLatencyMS q > 0 then of_int (q_AvgLatencyMS q) else l1 | None \<Rightarrow> l1);
          l3 = (case n_Dial n of Some d \<Rightarrow> if dial_LatencyMS (dial d) > 0 then of_int (dial_LatencyMS (dial d)) else l2 | None \<Rightarrow> l2);
          l4 = (if l3 \<le> 0 then 500 else l3)
      in clamp (100 / (1 + l4 / 400)) 0 100)"

definition stability_score :: "node \<Rightarrow> float64" where
  "stability_score n = (case n_Quality n of
     Some q \<Rightarrow> if q_Stability7D q > 0 then clamp (q_Stability7D q * 100) 0 100 else connectivity n
   | None \<Rightarrow> connectivity n)"

definition tls_score :: "node \<Rightarrow> float64" where
  "tls_score n = (if n_TLS n then (case n_Quality n of Some q \<Rightarrow> if q_TLSOK q then 100 else 40 | None \<Rightarrow> 40) else 80)"

definition http_score :: "node \<Rightarrow> float64" where
  "http_score n =
     (let ms = (case n_Dial n of Some d \<Rightarrow> dial_HTTPMS (dial d)
              | None \<Rightarrow> (case n_Quality n of Some q \<Rightarrow> q_HTTPMS q | None \<Rightarrow> 0));
          base = (case n_Dial n of None \<Rightarrow> 50
            | Some d \<Rightarrow> if dial_StatusCode (dial d) \<ge> 200 \<and> dial_StatusCode (dial d) < 400 then 100
                else if dial_StatusCode (dial d) > 0 then 10 else 50)
      in if ms > 0 then base * clamp (1 / (1 + of_int ms / 2000)) (1 / 4) 1 else base)"

definition throughput_score :: "node \<Rightarrow> float64" where
  "throughput_score n =
     (let t1 = (case n_Quality n of Some q \<Rightarrow> q_ThroughputBPS q | None \<Rightarrow> 0);
          t2 = (case n_Dial n of Some d \<Rightarrow> if dial_ThroughputBPS (dial d) > 0 then dial_ThroughputBPS (dial d) else t1 | None \<Rightarrow> t1)
      in if t2 > 0 then clamp (20 + 20 * log 2 (of_int t2 / 65536)) 10 100 else 50)"

definition weighted :: "Weights \<Rightarrow> Breakdown \<Rightarrow> float64" where
  "weighted w b = (b_Latency b * w_Latency w + b_Connectivity b * w_Success w + b_Stability b * w_Stability w +
     b_TLS b * w_TLS w + b_HTTP b * w_HTTP w + b_Throughput b * w_Throughput w) / weightSum w"

definition ComputeV2 :: "node option \<Rightarrow> Weights option \<Rightarrow> Breakdown" where
  "ComputeV2 p configured = (case p of None \<Rightarrow> zero_breakdown
     | Some n \<Rightarrow>
        if \<not> n_Alive n \<and> (case n_Dial n of None \<Rightarrow> True | Some d \<Rightarrow> \<not> dial_OK (dial d))
        then zero_breakdown\<lparr>b_Grade := ''F''\<rparr>
        else (let w = (case configured of Some c \<Rightarrow> if weightSum c > 0 then c else DefaultWeights | None \<Rightarrow> DefaultWeights);
                  b = \<lparr>b_Connectivity = connectivity n, b_Latency = latency_score n, b_Stability = stability_score n,
                    b_TLS = tls_score n, b_HTTP = http_score n, b_Throughput = throughput_score n,
                    b_Protocol = protocolCompleteness n, b_Total = 0, b_Grade = ''''\<rparr>;
                  total = clamp (weighted w b * (85 / 100 + 15 / 100 * b_Protocol b / 100)) 0 100
              in b\<lparr>b_Total := total, b_Grade := AssignGrade total\<rparr>))"

definition v2_note :: string where
  "v2_note = ''v2 weighted scoring applied''"

definition ApplyV2 :: "node \<Rightarrow> Weights option \<Rightarrow> node" where
  "ApplyV2 n configured =
     (let b = ComputeV2 (Some n) configured;
          score = go_round (b_Total b * 10) / 10;
          q = (case n_Quality n of None \<Rightarrow> zero_quality | Some q \<Rightarrow> q)
      in n\<lparr>n_Score := score, n_Grade := b_Grade b,
           n_Quality := Some (q\<lparr>q_ScoreVersion := ''v2'', q_Score := score,
             q_Breakdown := [(''success'', b_Connectivity b), (''latency'', b_Latency b), (''stability'', b_Stability b),
               (''tls'', b_TLS b), (''http'', b_HTTP b), (''throughput'', b_Throughput b), (''protocol'', b_Protocol b)],
             q_Notes := (if v2_note \<in> set (q_Notes q) then q_Notes q else q_Notes q @ [v2_note])\<rparr>)\<rparr>)"

definition qualityWeights :: "config option \<Rightarrow> Weights" where
  "qualityWeights cfg = (case cfg of None \<Rightarrow> DefaultWeights | Some c \<Rightarrow> (let v = QualityV2 c in
     \<lparr>w_Latency = qv_Latency v, w_Success = qv_Success v, w_Stability = qv_Stability v, w_TLS = qv_TLS v,
      w_HTTP = qv_HTTP v, w_Throughput = qv_Throughput v\<rparr>))"


subsection \<open>The first score\<close>

lemma quot_nonneg: "0 \<le> a \<Longrightarrow> 0 < b \<Longrightarrow> quot a b = a div b"
  by (cases "a = 0") (simp_all add: quot_def)

lemma Milliseconds_mono: "0 \<le> a \<Longrightarrow> a \<le> b \<Longrightarrow> Milliseconds a \<le> Milliseconds b"
  by (simp add: Milliseconds_def quot_nonneg millisecond_def zdiv_mono1)

lemma sum_list_bounds:
  fixes xs :: "int list"
  shows "\<forall>x \<in> set xs. lo \<le> x \<Longrightarrow> int (length xs) * lo \<le> sum_list xs"
    and "\<forall>x \<in> set xs. x \<le> hi \<Longrightarrow> sum_list xs \<le> int (length xs) * hi"
  by (induction xs) (auto simp: algebra_simps)

lemma sorted_hd_last:
  assumes "sorted xs" and "x \<in> set xs"
  shows "hd xs \<le> x" and "x \<le> last xs"
  using assms by (induction xs) (auto, (metis last_in_set order_trans)?)

lemma average_between:
  assumes "sorted xs" and "xs \<noteq> []" and "\<forall>x \<in> set xs. 0 \<le> x"
  shows "hd xs \<le> average xs \<and> average xs \<le> last xs \<and> 0 \<le> hd xs"
proof -
  have n: "0 < int (length xs)" and hd: "0 \<le> hd xs" using assms by auto
  have "int (length xs) * hd xs \<le> sum_list xs" "sum_list xs \<le> int (length xs) * last xs"
    using sorted_hd_last [OF assms(1)] by (blast intro: sum_list_bounds)+
  then have "hd xs \<le> sum_list xs div int (length xs)" "sum_list xs div int (length xs) \<le> last xs"
    using n zdiv_mono1 [of "int (length xs) * hd xs" "sum_list xs" "int (length xs)"]
      zdiv_mono1 [of "sum_list xs" "int (length xs) * last xs" "int (length xs)"] by auto
  moreover have "0 \<le> sum_list xs" using assms(3) by (simp add: sum_list_nonneg)
  ultimately show ?thesis using n hd by (simp add: average_def quot_nonneg)
qed

lemma go_round_bounds:
  assumes "0 \<le> x" and "x \<le> 100"
  shows "0 \<le> go_round (x * 10) / 10 \<and> go_round (x * 10) / 10 \<le> 100 \<and> \<bar>go_round (x * 10) / 10 - x\<bar> \<le> 1 / 20"
proof -
  have "\<lfloor>x * 10 + 1 / 2\<rfloor> \<le> 1000" "0 \<le> \<lfloor>x * 10 + 1 / 2\<rfloor>" using assms by linarith+
  moreover have "of_int \<lfloor>x * 10 + 1 / 2\<rfloor> - x * 10 \<le> 1 / 2" "x * 10 - of_int \<lfloor>x * 10 + 1 / 2\<rfloor> \<le> 1 / 2"
    by linarith+
  then have "\<bar>of_int \<lfloor>x * 10 + 1 / 2\<rfloor> / 10 - x\<bar> \<le> 1 / 20" unfolding abs_le_iff by simp
  ultimately show ?thesis using assms by (simp add: go_round_def)
qed

lemma clamp_range: "lo \<le> hi \<Longrightarrow> lo \<le> clamp v lo hi \<and> clamp v lo hi \<le> hi"
  by (simp add: clamp_def)

lemma computeScore_range: "0 \<le> computeScore n q \<and> computeScore n q \<le> 100"
  unfolding computeScore_def Let_def using go_round_bounds clamp_range [of 0 100] by simp

lemma probed_fields [simp]:
  "q_MinLatencyMS (tls_probed opts pa n q) = q_MinLatencyMS q" "q_MaxLatencyMS (tls_probed opts pa n q) = q_MaxLatencyMS q"
  "q_AvgLatencyMS (tls_probed opts pa n q) = q_AvgLatencyMS q" "q_SuccessRate (tls_probed opts pa n q) = q_SuccessRate q"
  by (simp_all add: tls_probed_def)

text \<open>
  A test reports a node alive exactly when one of its dials succeeded; the score lies within
  0..100 and carries the grade of the table; the success rate is a rate, and the average latency lies
  between the smallest and the largest one.
\<close>

lemma testOne_ok:
  assumes "0 < qo_Rounds opts" and "int (length (pa_dials pa)) \<le> qo_Rounds opts"
    and "\<forall>l \<in> set (somes (pa_dials pa)). 0 \<le> l"
  shows "(n_Alive (testOne opts pa n) \<longleftrightarrow> somes (pa_dials pa) \<noteq> []) \<and>
    0 \<le> n_Score (testOne opts pa n) \<and> n_Score (testOne opts pa n) \<le> 100 \<and>
    n_Grade (testOne opts pa n) = AssignGrade (n_Score (testOne opts pa n)) \<and>
    (\<exists>q. n_Quality (testOne opts pa n) = Some q \<and> q_Score q = n_Score (testOne opts pa n) \<and>
       0 \<le> q_SuccessRate q \<and> q_SuccessRate q \<le> 1 \<and> (n_Alive (testOne opts pa n) \<longleftrightarrow> 0 < q_SuccessRate q) \<and>
       q_MinLatencyMS q \<le> q_AvgLatencyMS q \<and> q_AvgLatencyMS q \<le> q_MaxLatencyMS q)"
proof -
  have "length (somes ps) \<le> length ps" for ps :: "duration option list"
    by (induction ps rule: somes.induct) auto
  then have "int (length (somes (pa_dials pa))) \<le> qo_Rounds opts"
    using assms(2) order_trans of_nat_mono by blast
  then have "real (length (somes (pa_dials pa))) \<le> of_int (qo_Rounds opts)"
    by (metis of_int_le_iff of_int_of_nat_eq)
  then have rate: "real (length (somes (pa_dials pa))) / of_int (qo_Rounds opts) \<le> 1"
    using assms(1) by simp
  show ?thesis
  proof (cases "somes (pa_dials pa) = []")
    case True
    then show ?thesis by (simp add: testOne_def Let_def zero_quality_def AssignGrade_def)
  next
    case False
    let ?xs = "sort (somes (pa_dials pa))"
    have "hd ?xs \<le> average ?xs" "average ?xs \<le> last ?xs" "0 \<le> hd ?xs"
      using average_between [of ?xs] False assms(3) by (auto simp flip: set_empty)
    then have "Milliseconds (hd ?xs) \<le> Milliseconds (average ?xs)"
      "Milliseconds (average ?xs) \<le> Milliseconds (last ?xs)"
      by (simp_all add: Milliseconds_mono)
    with False rate assms(1) computeScore_range show ?thesis
      by (simp add: testOne_def Let_def measured_def zero_quality_def)
  qed
qed

definition test_opts :: quality_options where
  "test_opts = quality_New \<lparr>qo_Concurrency = 0, qo_Timeout = 0, qo_Rounds = 0, qo_TLSProbe = False, qo_EdgeProbe = False\<rparr>"

definition two_answers :: probe_answers where
  "two_answers = \<lparr>pa_now = 7, pa_dials = [Some 120000000, None, Some 80000000], pa_tls = (True, 0), pa_edge = 0\<rparr>"

subsection \<open>The weighted score\<close>

definition components :: "Breakdown \<Rightarrow> float64 list" where
  "components b = [b_Latency b, b_Connectivity b, b_Stability b, b_TLS b, b_HTTP b, b_Throughput b]"

definition weight_list :: "Weights \<Rightarrow> float64 list" where
  "weight_list w = [w_Latency w, w_Success w, w_Stability w, w_TLS w, w_HTTP w, w_Throughput w]"

lemma weighted_between:
  assumes "\<forall>v \<in> set (weight_list w). 0 \<le> v" and "0 < weightSum w"
    and "\<forall>x \<in> set (components b). lo \<le> x \<and> x \<le> hi"
  shows "lo \<le> weighted w b \<and> weighted w b \<le> hi"
proof -
  have m: "lo * v \<le> x * v \<and> x * v \<le> hi * v" if "v \<in> set (weight_list w)" "x \<in> set (components b)" for v x
    using assms(1,3) that by (simp add: mult_right_mono)
  have "weighted w b * weightSum w = b_Latency b * w_Latency w + b_Connectivity b * w_Success w +
      b_Stability b * w_Stability w + b_TLS b * w_TLS w + b_HTTP b * w_HTTP w + b_Throughput b * w_Throughput w"
    using assms(2) by (simp add: weighted_def)
  then have "lo * weightSum w \<le> weighted w b * weightSum w \<and> weighted w b * weightSum w \<le> hi * weightSum w"
    using m by (simp add: weightSum_def components_def weight_list_def distrib_left add_mono)
  with assms(2) show ?thesis by simp
qed

lemma DefaultWeights_ok: "(\<forall>v \<in> set (weight_list DefaultWeights). 0 \<le> v) \<and> 0 < weightSum DefaultWeights"
  by (simp add: DefaultWeights_def weightSum_def weight_list_def)

lemma component_range:
  "0 \<le> connectivity n \<and> connectivity n \<le> 100" "0 \<le> latency_score n \<and> latency_score n \<le> 100"
  "0 \<le> stability_score n \<and> stability_score n \<le> 100" "0 \<le> tls_score n \<and> tls_score n \<le> 100"
  "0 \<le> throughput_score n \<and> throughput_score n \<le> 100"
proof -
  show c: "0 \<le> connectivity n \<and> connectivity n \<le> 100"
    using clamp_range [of 0 100] by (auto simp: connectivity_def Let_def split: option.splits)
  show "0 \<le> latency_score n \<and> latency_score n \<le> 100"
    unfolding latency_score_def Let_def by (rule clamp_range) simp
  show "0 \<le> stability_score n \<and> stability_score n \<le> 100"
    using c clamp_range [of 0 100] by (simp add: stability_score_def split: option.splits)
  show "0 \<le> tls_score n \<and> tls_score n \<le> 100"
    by (simp add: tls_score_def split: option.splits)
  show "0 \<le> throughput_score n \<and> throughput_score n \<le> 100"
  proof -
    have "0 \<le> clamp v 10 100 \<and> clamp v 10 100 \<le> 100" for v by (simp add: clamp_def)
    then show ?thesis by (simp add: throughput_score_def Let_def)
  qed
qed

lemma http_range: "0 \<le> http_score n \<and> http_score n \<le> 100"
proof -
  have c: "0 \<le> clamp v (1 / 4) 1 \<and> clamp v (1 / 4) 1 \<le> 1" for v
    by (simp add: clamp_def)
  have "0 \<le> b * clamp v (1 / 4) 1 \<and> b * clamp v (1 / 4) 1 \<le> 100" if "0 \<le> b" "b \<le> 100" for b v
    using that c [of v] mult_mono [of b 100 "clamp v (1 / 4) 1" 1] by simp
  then show ?thesis by (simp add: http_score_def Let_def split: option.splits)
qed

lemma completeness_range: "70 \<le> protocolCompleteness n \<and> protocolCompleteness n \<le> 100"
  by (simp add: protocolCompleteness_def)

lemma validated_weights:
  assumes "Validate libs c = None"
  shows "\<forall>v \<in> set (weight_list (qualityWeights (Some c))). 0 \<le> v"
proof -
  have "\<not> negative_weights (QualityV2 c)"
    using assms unfolding Validate_def validateEnterprise_def Let_def or_else_None first_err_None by simp
  then show ?thesis
    by (simp add: negative_weights_def qualityWeights_def weight_list_def Let_def not_less)
qed

definition measurable :: "node \<Rightarrow> bool" where
  "measurable n \<longleftrightarrow> n_Alive n \<or> (case n_Dial n of None \<Rightarrow> False | Some d \<Rightarrow> dial_OK (dial d))"

text \<open>
  With the weights of a validated configuration the score of version 2 is what it says it is: a
  weighted mean of components within 0..100, reduced by at most 4.5 percent for incomplete
  credentials. The stored score is the total rounded to a tenth and stays within 0..100.
\<close>

lemma ApplyV2_ok:
  assumes "Validate libs c = None" and "measurable n"
  shows "list_all (\<lambda>x. 0 \<le> x \<and> x \<le> 100) (components (ComputeV2 (Some n) (Some (qualityWeights (Some c))))) \<and>
    955 / 1000 * Min (set (components (ComputeV2 (Some n) (Some (qualityWeights (Some c)))))) \<le>
      b_Total (ComputeV2 (Some n) (Some (qualityWeights (Some c)))) \<and>
    b_Total (ComputeV2 (Some n) (Some (qualityWeights (Some c)))) \<le>
      Max (set (components (ComputeV2 (Some n) (Some (qualityWeights (Some c)))))) \<and>
    \<bar>n_Score (ApplyV2 n (Some (qualityWeights (Some c)))) -
      b_Total (ComputeV2 (Some n) (Some (qualityWeights (Some c))))\<bar> \<le> 1 / 20 \<and>
    0 \<le> n_Score (ApplyV2 n (Some (qualityWeights (Some c)))) \<and>
    n_Score (ApplyV2 n (Some (qualityWeights (Some c)))) \<le> 100"
proof -
  let ?b = "ComputeV2 (Some n) (Some (qualityWeights (Some c)))" and ?q = "qualityWeights (Some c)"
  define w where "w = (if weightSum ?q > 0 then ?q else DefaultWeights)"
  let ?m = "85 / 100 + 15 / 100 * protocolCompleteness n / 100"
  have w: "\<forall>v \<in> set (weight_list w). 0 \<le> v" "0 < weightSum w"
    using validated_weights [OF assms(1)] DefaultWeights_ok by (auto simp: w_def)
  have comps: "components ?b = [latency_score n, connectivity n, stability_score n, tls_score n, http_score n, throughput_score n]"
    using assms(2) by (auto simp: ComputeV2_def measurable_def components_def Let_def split: option.splits)
  have total: "b_Total ?b = clamp (weighted w ?b * ?m) 0 100"
    using assms(2) by (auto simp: ComputeV2_def measurable_def weighted_def w_def Let_def split: option.splits)
  have range: "\<forall>x \<in> set (components ?b). 0 \<le> x \<and> x \<le> 100"
    unfolding comps using component_range http_range by simp
  have ne: "set (components ?b) \<noteq> {}" by (simp add: components_def)
  have mean: "Min (set (components ?b)) \<le> weighted w ?b" "weighted w ?b \<le> Max (set (components ?b))"
    using weighted_between [OF w, of ?b "Min (set (components ?b))" "Max (set (components ?b))"] by auto
  have ext: "0 \<le> Min (set (components ?b))" "Max (set (components ?b)) \<le> 100"
    using range ne by simp_all
  have m: "955 / 1000 \<le> ?m" "?m \<le> 1" using completeness_range [of n] by simp_all
  have "955 / 1000 * Min (set (components ?b)) \<le> ?m * weighted w ?b"
    using m mean ext by (intro mult_mono) auto
  moreover have "weighted w ?b * ?m \<le> weighted w ?b * 1"
    using m mean ext by (intro mult_left_mono) auto
  ultimately have bounds: "955 / 1000 * Min (set (components ?b)) \<le> b_Total ?b" "b_Total ?b \<le> Max (set (components ?b))"
    using mean ext unfolding total by (simp_all add: clamp_def mult.commute)
  have "0 \<le> b_Total ?b" "b_Total ?b \<le> 100" unfolding total by (simp_all add: clamp_def)
  then have "0 \<le> go_round (b_Total ?b * 10) / 10 \<and> go_round (b_Total ?b * 10) / 10 \<le> 100 \<and>
      \<bar>go_round (b_Total ?b * 10) / 10 - b_Total ?b\<bar> \<le> 1 / 20"
    by (rule go_round_bounds)
  moreover have "n_Score (ApplyV2 n (Some ?q)) = go_round (b_Total ?b * 10) / 10"
    by (simp add: ApplyV2_def Let_def)
  ultimately show ?thesis using bounds range unfolding list_all_iff by metis
qed

text \<open>
  The grade comes from the total before it is rounded, while the first score grades the rounded
  value: a node can be listed with score 90 and grade A although 90 is an S.
\<close>

definition almost_S :: node where
  "almost_S = example_node\<lparr>n_Alive := True, n_Protocol := ''vless'', n_UUID := ''u'', n_Network := ''ws'',
     n_Quality := Some (zero_quality\<lparr>q_Stability7D := 8996 / 10000\<rparr>)\<rparr>"

definition only_stability :: Weights where
  "only_stability = \<lparr>w_Latency = 0, w_Success = 0, w_Stability = 1, w_TLS = 0, w_HTTP = 0, w_Throughput = 0\<rparr>"

lemma grade_below_score:
  "n_Score (ApplyV2 almost_S (Some only_stability)) = 90 \<and> n_Grade (ApplyV2 almost_S (Some only_stability)) = ''A'' \<and>
   AssignGrade 90 = ''S''"
  by (simp add: almost_S_def only_stability_def ApplyV2_def ComputeV2_def weightSum_def weighted_def Let_def
      stability_score_def protocolCompleteness_def clamp_def AssignGrade_def go_round_def zero_quality_def example_node_def
      zero_node_def)

subsection \<open>A round of tests\<close>

definition due :: "time \<Rightarrow> node \<Rightarrow> bool" where
  "due now n \<longleftrightarrow> IsZero (n_NextTestAt n) \<or> \<not> n_NextTestAt n > now"

definition test_before :: "node \<Rightarrow> node \<Rightarrow> bool" where
  "test_before a b \<longleftrightarrow> (if IsZero (n_TestedAt a) \<noteq> IsZero (n_TestedAt b) then IsZero (n_TestedAt a)
     else if n_TestedAt a \<noteq> n_TestedAt b then n_TestedAt a < n_TestedAt b else n_Score a > n_Score b)"

text \<open>\<open>opt\<close> is the job option \<open>max_test\<close> as a number, when it is one.\<close>

definition max_test :: "config \<Rightarrow> float64 option \<Rightarrow> int" where
  "max_test cfg opt = (let m = (if sch_MaxTest (Schedule cfg) \<le> 0 then 1500 else sch_MaxTest (Schedule cfg))
     in case opt of None \<Rightarrow> m | Some v \<Rightarrow> if go_int v > 0 then go_int v else m)"

definition quality_batch :: "config \<Rightarrow> float64 option \<Rightarrow> time \<Rightarrow> store \<Rightarrow> node list" where
  "quality_batch cfg opt now s =
     limit_to (max_test cfg opt) (SliceStable test_before (filter (due now) (AllNodes s)))"

definition retest_backoff :: "int \<Rightarrow> duration" where
  "retest_backoff failures = hour * 2 ^ nat (min (failures - 1) 5)"

text \<open>What the round makes of a tested node; \<open>stability\<close> is the seven-day history by node id.\<close>

definition after_test :: "Weights \<Rightarrow> (string, float64) gmap \<Rightarrow> time \<Rightarrow> node \<Rightarrow> node" where
  "after_test w stability now n =
     (if n_Alive n then
        ApplyV2 (n\<lparr>n_QualityFailures := 0, n_SuccessStreak := n_SuccessStreak n + 1, n_NextTestAt := now + 6 * hour,
          n_Quality := map_option (\<lambda>q. q\<lparr>q_Stability7D := (case map_of stability (n_ID n) of
            Some historical \<Rightarrow> historical | None \<Rightarrow> q_SuccessRate q)\<rparr>) (n_Quality n)\<rparr>) (Some w)
      else n\<lparr>n_QualityFailures := n_QualityFailures n + 1, n_SuccessStreak := 0,
        n_NextTestAt := now + retest_backoff (n_QualityFailures n + 1)\<rparr>)"

definition after_quality_prune :: "config \<Rightarrow> PruneOptions" where
  "after_quality_prune cfg = \<lparr>po_DropDead = True, po_MinScoreKeep = 0, po_MaxNodes = flt_MaxStoreNodes (Filter cfg),
     po_KeepUntested = True\<rparr>"

text \<open>
  \<open>doQuality\<close> up to the pruning of the store: \<open>None\<close> is the error for an empty store. The answers of
  the network are given by node id; the test runs between \<open>now\<close> and \<open>now'\<close>.
\<close>

definition quality_round ::
  "hashes \<Rightarrow> config \<Rightarrow> float64 option \<Rightarrow> quality_options \<Rightarrow> (string \<Rightarrow> probe_answers) \<Rightarrow> (string, float64) gmap \<Rightarrow>
    time \<Rightarrow> time \<Rightarrow> store \<Rightarrow> store option" where
  "quality_round h cfg opt opts answers stability now now' s =
     (if AllNodes s = [] then None
      else (let batch = quality_batch cfg opt now s in
        if batch = [] then Some s
        else (let tested = map (\<lambda>n. after_test (qualityWeights (Some cfg)) stability now'
                    (testOne (quality_New opts) (answers (n_ID n)) n)) batch;
                  s1 = UpsertNodes h now' tested s
              in Some (if flt_PruneAfterQuality (Filter cfg) then snd (Prune (after_quality_prune cfg) s1) else s1))))"

lemma test_before_alt:
  "test_before = (\<lambda>a b. if (\<not> IsZero (n_TestedAt a)) \<noteq> (\<not> IsZero (n_TestedAt b))
     then (\<not> IsZero (n_TestedAt a)) < (\<not> IsZero (n_TestedAt b))
     else if n_TestedAt a \<noteq> n_TestedAt b then n_TestedAt a < n_TestedAt b else - n_Score a < - n_Score b)"
  by (intro ext) (simp add: test_before_def)

interpretation tb: strict_weak_order test_before
  unfolding test_before_alt by (intro lex_order key_order)

lemma tested_identity [simp]:
  "Key h (testOne opts pa n) = Key h n" "n_ID (testOne opts pa n) = n_ID n"
  "Key h (after_test w st now n) = Key h n" "n_ID (after_test w st now n) = n_ID n"
  by (simp_all add: testOne_def after_test_def ApplyV2_def Key_def canonical_def Let_def)

lemma retest_time:
  "now + hour \<le> n_NextTestAt (after_test w st now n) \<and> n_NextTestAt (after_test w st now n) \<le> now + 32 * hour"
proof -
  have "(2 :: int) ^ nat (min (f - 1) 5) \<le> 2 ^ 5" for f :: int
    by (rule power_increasing) auto
  then have "hour \<le> retest_backoff f \<and> retest_backoff f \<le> 32 * hour" for f
    by (simp add: retest_backoff_def hour_def minute_def second_def)
  then show ?thesis
    by (simp add: after_test_def ApplyV2_def Let_def hour_def minute_def second_def)
qed

text \<open>Upserting nodes of different identity: each gets its entry, the others keep theirs.\<close>

lemma upsert_next_test:
  "\<exists>m. map_of (upsert_node h n best) (nodeID h n) = Some m \<and> n_NextTestAt m = n_NextTestAt n"
  by (auto simp: upsert_node_def Let_def upsert_into_def clone_fields split: option.split)

lemma upsert_other: "k \<noteq> nodeID h n \<Longrightarrow> map_of (upsert_node h n best) k = map_of best k"
  by (simp add: upsert_node_def Let_def split: option.split)

lemma fold_upsert_other: "k \<notin> nodeID h ` set ns \<Longrightarrow> map_of (fold (upsert_node h) ns best) k = map_of best k"
  by (induction ns arbitrary: best) (auto simp: upsert_other)

lemma fold_upsert:
  assumes "distinct (map (nodeID h) ns)" and "n \<in> set ns"
  shows "\<exists>m. map_of (fold (upsert_node h) ns best) (nodeID h n) = Some m \<and> n_NextTestAt m = n_NextTestAt n"
  using assms
proof (induction ns arbitrary: best)
  case (Cons x ns)
  show ?case
  proof (cases "n = x")
    case True
    then have "nodeID h n \<notin> nodeID h ` set ns" using Cons.prems by simp
    with True show ?thesis using upsert_next_test by (simp add: fold_upsert_other)
  next
    case False
    with Cons show ?thesis by simp
  qed
qed simp

lemma upsert_nodes_ok: "store_ok h s \<Longrightarrow> store_ok h (UpsertNodes h now ns s)"
  unfolding store_ok_def UpsertNodes_def by (simp add: gmap_inv_fold upsert_node_ok)

lemma Prune_lookup:
  assumes "store_ok h s" and "map_of (st_nodes (snd (Prune opt s))) k = Some m"
  shows "map_of (st_nodes s) k = Some m"
proof -
  let ?kept = "limit_to (po_MaxNodes opt) (SliceStable prune_before (filter (prune_keeps opt) (vals (st_nodes s))))"
  have "gmap_inv (\<lambda>k n. n_ID n = k \<and> n \<in> set ?kept) (fold (\<lambda>n m. gput (n_ID n) n m) ?kept [])"
    by (intro gmap_inv_fold gmap_inv_gput) auto
  moreover have "map_of (fold (\<lambda>n m. gput (n_ID n) n m) ?kept []) k = Some m"
    using assms(2) by (simp add: Prune_def Let_def)
  ultimately have m: "n_ID m = k \<and> m \<in> set ?kept" by (rule gmap_inv_lookup)
  then have "m \<in> set (SliceStable prune_before (filter (prune_keeps opt) (vals (st_nodes s))))"
    by (blast dest: set_limit_toD)
  then have "m \<in> snd ` set (st_nodes s)" unfolding set_SliceStable set_filter set_map by blast
  then obtain j where "(j, m) \<in> set (st_nodes s)" unfolding image_iff by force
  moreover from this have "entry_ok h j m" using assms(1) unfolding store_ok_def gmap_inv_def by blast
  then have "j = k" using m by (simp add: entry_ok_def)
  moreover have "distinct (keys (st_nodes s))" using assms(1) unfolding store_ok_def gmap_inv_def by blast
  ultimately show ?thesis by (simp add: map_of_is_SomeI)
qed


lemma prune_store_ok: "store_ok h s \<Longrightarrow> store_ok h (snd (Prune opt s))"
proof -
  assume ok: "store_ok h s"
  let ?kept = "limit_to (po_MaxNodes opt) (SliceStable prune_before (filter (prune_keeps opt) (vals (st_nodes s))))"
  have "n_ID n = nodeID h n" if "n \<in> set ?kept" for n
  proof -
    have "n \<in> set (SliceStable prune_before (filter (prune_keeps opt) (vals (st_nodes s))))"
      using that by (rule set_limit_toD)
    then have "n \<in> set (vals (st_nodes s))" unfolding set_SliceStable set_filter by blast
    with ok show ?thesis by (rule store_entry_ID)
  qed
  then have "gmap_inv (entry_ok h) (fold (\<lambda>n m. gput (n_ID n) n m) ?kept [])" by (intro put_nodes_ok(2)) blast
  then show ?thesis by (simp add: store_ok_def Prune_def Let_def)
qed

lemma AllNodes_eq: "AllNodes s = SliceStable node_before (map cloneNode (vals (st_nodes s)))"
proof -
  have "Match no_filter n" for n by (simp add: Match_def no_filter_def IsZero_def)
  then show ?thesis unfolding AllNodes_def ListNodes_def by (simp add: no_filter_def limit_to_def)
qed

lemma AllNodes_ids:
  assumes "store_ok h s"
  shows "distinct (map (nodeID h) (AllNodes s))" and "n \<in> set (AllNodes s) \<Longrightarrow> n_ID n = nodeID h n"
proof -
  let ?ns = "vals (st_nodes s)"
  have "map (nodeID h) (map cloneNode ?ns) = map (nodeID h) ?ns" by simp
  then have "distinct (map (nodeID h) (map cloneNode ?ns))"
    using stored_order_irrelevant(1) [OF assms] by (simp only:)
  then show "distinct (map (nodeID h) (AllNodes s))"
    unfolding AllNodes_eq by (metis mset_SliceStable mset_eq_imp_distinct_iff mset_map)
  assume "n \<in> set (AllNodes s)"
  then obtain x where x: "x \<in> set (vals (st_nodes s))" "n = cloneNode x"
    unfolding AllNodes_eq set_SliceStable set_map by blast
  have "n_ID x = nodeID h x" using assms x(1) by (rule store_entry_ID)
  then show "n_ID n = nodeID h n" unfolding x(2) by (simp only: n_ID_observations nodeID_observations)
qed

lemma quality_batch_ids:
  assumes "store_ok h s"
  shows "distinct (map (nodeID h) (quality_batch cfg opt now s))"
    and "n \<in> set (quality_batch cfg opt now s) \<Longrightarrow> n \<in> set (AllNodes s) \<and> due now n"
proof -
  let ?due = "filter (due now) (AllNodes s)"
  have "distinct (map (nodeID h) ?due)" using AllNodes_ids(1) [OF assms] by (rule distinct_map_filter)
  then have "distinct (map (nodeID h) (SliceStable test_before ?due))"
    by (metis mset_SliceStable mset_eq_imp_distinct_iff mset_map)
  then show "distinct (map (nodeID h) (quality_batch cfg opt now s))"
    unfolding quality_batch_def limit_to_def by (simp flip: take_map)
  assume "n \<in> set (quality_batch cfg opt now s)"
  then have "n \<in> set (SliceStable test_before ?due)" unfolding quality_batch_def by (rule set_limit_toD)
  then show "n \<in> set (AllNodes s) \<and> due now n" unfolding set_SliceStable set_filter by blast
qed

lemma quality_batch_fair:
  assumes "n \<in> set (AllNodes s)" and "due now n" and "n \<notin> set (quality_batch cfg opt now s)"
    and "m \<in> set (quality_batch cfg opt now s)"
  shows "\<not> test_before n m"
proof -
  let ?sorted = "SliceStable test_before (filter (due now) (AllNodes s))"
  obtain dropped where d: "?sorted = limit_to (max_test cfg opt) ?sorted @ dropped"
    using limit_to_prefix by blast
  have "n \<in> set ?sorted" using assms(1,2) unfolding set_SliceStable set_filter by blast
  then have "n \<in> set dropped" using assms(3) d unfolding quality_batch_def by (metis Un_iff set_append)
  with d assms(4) show ?thesis unfolding quality_batch_def by (rule tb.limit_keeps_best)
qed

lemma tested_lookup:
  assumes "store_ok h s" and "ns = quality_batch cfg opt now s" and "f = (\<lambda>n. after_test w st now' (testOne o' (a (n_ID n)) n))"
  shows "if k \<in> n_ID ` set ns
    then \<exists>m. map_of (st_nodes (UpsertNodes h t (map f ns) s)) k = Some m \<and>
      now' + hour \<le> n_NextTestAt m \<and> n_NextTestAt m \<le> now' + 32 * hour
    else map_of (st_nodes (UpsertNodes h t (map f ns) s)) k = map_of (st_nodes s) k"
proof -
  have id: "nodeID h (f n) = nodeID h n" for n by (simp add: assms(3) nodeID_def)
  have ids: "n_ID n = nodeID h n" if "n \<in> set ns" for n
    using that quality_batch_ids(2) [OF assms(1)] AllNodes_ids(2) [OF assms(1)] unfolding assms(2) by blast
  have dist: "distinct (map (nodeID h) (map f ns))"
    using quality_batch_ids(1) [OF assms(1)] unfolding assms(2) by (simp add: id o_def)
  have fold: "st_nodes (UpsertNodes h t (map f ns) s) = fold (upsert_node h) (map f ns) (st_nodes s)"
    by (simp add: UpsertNodes_def)
  show ?thesis
  proof (cases "k \<in> n_ID ` set ns")
    case True
    then obtain n where n: "n \<in> set ns" "k = nodeID h (f n)" using ids id by auto
    then have "f n \<in> set (map f ns)" by simp
    from fold_upsert [OF dist this, of "st_nodes s"] n True show ?thesis
      using retest_time [of now' w st "testOne o' (a (n_ID n)) n"] unfolding fold by (auto simp: assms(3))
  next
    case False
    then have "k \<notin> nodeID h ` set (map f ns)" using ids by (auto simp: id image_iff)
    with False show ?thesis unfolding fold by (simp add: fold_upsert_other)
  qed
qed

text \<open>
  C19. A round of tests is fair and makes progress: it tests only nodes that are due, at most the
  configured number, never a node while a due node that comes before it (untested, or tested longer
  ago) waits; afterwards a tested node that is still stored comes due again no sooner than in one
  hour and no later than in thirty-two, an untested node is unchanged, and the store stays keyed.
\<close>

theorem quality_round_ok:
  assumes "store_ok h s" and "quality_round h cfg opt opts answers stability now now' s = Some s'"
  shows "store_ok h s' \<and> length (quality_batch cfg opt now s) \<le> nat (max_test cfg opt) \<and>
    (\<forall>m \<in> set (quality_batch cfg opt now s). m \<in> set (AllNodes s) \<and> due now m \<and>
      (\<forall>n \<in> set (AllNodes s) - set (quality_batch cfg opt now s). due now n \<longrightarrow> \<not> test_before n m)) \<and>
    (\<forall>k m. map_of (st_nodes s') k = Some m \<longrightarrow>
      (if k \<in> n_ID ` set (quality_batch cfg opt now s)
       then now' + hour \<le> n_NextTestAt m \<and> n_NextTestAt m \<le> now' + 32 * hour
       else map_of (st_nodes s) k = Some m))"
proof (intro conjI)
  let ?b = "quality_batch cfg opt now s"
  define tested where "tested = map (\<lambda>n. after_test (qualityWeights (Some cfg)) stability now'
    (testOne (quality_New opts) (answers (n_ID n)) n)) ?b"
  let ?s1 = "UpsertNodes h now' tested s"
  have s': "s' = (if ?b = [] then s else if flt_PruneAfterQuality (Filter cfg)
      then snd (Prune (after_quality_prune cfg) ?s1) else ?s1)"
    using assms(2) unfolding quality_round_def Let_def tested_def by (auto split: if_splits)
  have ok1: "store_ok h ?s1" using assms(1) by (rule upsert_nodes_ok)
  then show "store_ok h s'" unfolding s' using assms(1) prune_store_ok by simp
  have "0 < max_test cfg opt" by (simp add: max_test_def Let_def split: option.split)
  then have "int (length ?b) \<le> max_test cfg opt" unfolding quality_batch_def by (rule length_limit_to)
  then show "length ?b \<le> nat (max_test cfg opt)" by linarith
  show "\<forall>m \<in> set ?b. m \<in> set (AllNodes s) \<and> due now m \<and>
      (\<forall>n \<in> set (AllNodes s) - set ?b. due now n \<longrightarrow> \<not> test_before n m)"
    using quality_batch_ids(2) [OF assms(1)] quality_batch_fair by blast
  have "if k \<in> n_ID ` set ?b then now' + hour \<le> n_NextTestAt m \<and> n_NextTestAt m \<le> now' + 32 * hour
       else map_of (st_nodes s) k = Some m" if k: "map_of (st_nodes s') k = Some m" for k m
  proof (cases "?b = []")
    case True
    then show ?thesis using k s' by simp
  next
    case False
    have "map_of (st_nodes ?s1) k = Some m"
      using k False Prune_lookup [OF ok1] unfolding s' by (simp split: if_splits)
    with tested_lookup [OF assms(1) refl refl, where k = k and cfg = cfg and opt = opt and now = now and now' = now'
        and w = "qualityWeights (Some cfg)" and st = stability and o' = "quality_New opts" and a = answers and t = now']
    show ?thesis
      unfolding tested_def by (simp split: if_splits)
  qed
  then show "\<forall>k m. map_of (st_nodes s') k = Some m \<longrightarrow>
      (if k \<in> n_ID ` set ?b then now' + hour \<le> n_NextTestAt m \<and> n_NextTestAt m \<le> now' + 32 * hour
       else map_of (st_nodes s) k = Some m)" by blast
qed


definition quick_config :: config where
  "quick_config = example_config\<lparr>Filter := (Filter example_config)\<lparr>flt_PruneAfterQuality := False\<rparr>\<rparr>"

theorem quality_round_ok_witness:
  "\<exists>s'. quality_round plain_hashes quick_config None test_opts (\<lambda>_. two_answers) [] 9 9 known_store = Some s' \<and>
     store_ok plain_hashes s'"
proof -
  have ok: "store_ok plain_hashes known_store" unfolding known_store_def by (rule replace_ok)
  have "st_nodes known_store \<noteq> []"
    by (simp add: known_store_def ReplaceNodes_def put_node_def gput_def Let_def)
  then have "AllNodes known_store \<noteq> []"
    unfolding AllNodes_eq by (metis length_0_conv length_SliceStable length_map)
  then obtain s' where s': "quality_round plain_hashes quick_config None test_opts (\<lambda>_. two_answers) [] 9 9 known_store = Some s'"
    unfolding quality_round_def Let_def if_not_P [OF \<open>AllNodes known_store \<noteq> []\<close>]
    by (cases "quality_batch quick_config None 9 known_store = []") simp_all
  from quality_round_ok [OF ok this] s' show ?thesis by blast
qed

end
