(* ===== verification/Sources.thy ===== *)
theory Sources
  imports Config Database Store
begin

text \<open>
  The state of the collection sources (\<open>recordSource\<close>, \<open>sourceHealth\<close>, \<open>updateSourceContributions\<close>,
  \<open>EnabledSources\<close>, \<open>SetSourceEnabled\<close> of \<open>internal/service/service.go\<close>) and the table
  \<open>source_states\<close> that mirrors it (\<open>internal/db/sqlite.go\<close>): failure counts, the cooldown after too
  many failures, the manual switch, and the contribution of each source. The service works on its
  map in memory and writes every change through to the table, from which the map is rebuilt at start.

  Time stamps are instants, an empty or NULL one is zero; errors of the database are not modelled.
\<close>

record SourceState =
  ss_Name :: string
  ss_URL :: string
  ss_Priority :: int
  ss_LastAttemptAt :: time
  ss_LastSuccessAt :: time
  ss_LastError :: string
  ss_ConsecutiveFailures :: int
  ss_FetchCount :: int
  ss_SuccessCount :: int
  ss_LatencyMS :: int
  ss_Bytes :: int
  ss_StatusCode :: int
  ss_Attempts :: int
  ss_DisabledUntil :: time
  ss_ManuallyDisabled :: bool
  ss_ContributionTotal :: int
  ss_ContributionHQ :: int
  ss_HealthScore :: float64

type_synonym source_states = "(string, SourceState) gmap"

definition zero_source :: SourceState where
  "zero_source = \<lparr>ss_Name = '''', ss_URL = '''', ss_Priority = 0, ss_LastAttemptAt = 0, ss_LastSuccessAt = 0,
     ss_LastError = '''', ss_ConsecutiveFailures = 0, ss_FetchCount = 0, ss_SuccessCount = 0, ss_LatencyMS = 0,
     ss_Bytes = 0, ss_StatusCode = 0, ss_Attempts = 0, ss_DisabledUntil = 0, ss_ManuallyDisabled = False,
     ss_ContributionTotal = 0, ss_ContributionHQ = 0, ss_HealthScore = 0\<rparr>"

text \<open>The parts of \<open>fetcher.Document\<close> that are recorded.\<close>

record fetch_doc =
  fd_Source :: Source
  fd_Latency :: duration
  fd_Bytes :: int
  fd_StatusCode :: int
  fd_Attempts :: int

subsection \<open>The table\<close>

text \<open>\<open>INSERT ... ON CONFLICT(name) DO UPDATE\<close>, once for a success and once for a failure.\<close>

definition RecordSourceFetch :: "time \<Rightarrow> SourceState \<Rightarrow> bool \<Rightarrow> source_states \<Rightarrow> source_states" where
  "RecordSourceFetch now st ok rows =
     (let old = map_of rows (ss_Name st);
          row = (if ok then st\<lparr>ss_LastAttemptAt := FormatRFC3339 now, ss_LastSuccessAt := FormatRFC3339 now,
                 ss_LastError := '''', ss_ConsecutiveFailures := 0,
                 ss_FetchCount := (case old of None \<Rightarrow> 1 | Some o1 \<Rightarrow> ss_FetchCount o1 + 1),
                 ss_SuccessCount := (case old of None \<Rightarrow> 1 | Some o1 \<Rightarrow> ss_SuccessCount o1 + 1)\<rparr>
               else st\<lparr>ss_LastAttemptAt := FormatRFC3339 now,
                 ss_LastSuccessAt := (case old of None \<Rightarrow> 0 | Some o1 \<Rightarrow> ss_LastSuccessAt o1),
                 ss_ConsecutiveFailures := (case old of None \<Rightarrow> 1 | Some o1 \<Rightarrow> ss_ConsecutiveFailures o1 + 1),
                 ss_FetchCount := (case old of None \<Rightarrow> 1 | Some o1 \<Rightarrow> ss_FetchCount o1 + 1),
                 ss_SuccessCount := (case old of None \<Rightarrow> 0 | Some o1 \<Rightarrow> ss_SuccessCount o1)\<rparr>)
      in gput (ss_Name st) row rows)"

text \<open>\<open>ORDER BY priority DESC, name\<close>\<close>

definition source_row_before :: "SourceState \<Rightarrow> SourceState \<Rightarrow> bool" where
  "source_row_before a b \<longleftrightarrow> (if ss_Priority a \<noteq> ss_Priority b then ss_Priority a > ss_Priority b else ss_Name a < ss_Name b)"

definition ListSourceStates :: "source_states \<Rightarrow> SourceState list" where
  "ListSourceStates rows = SliceStable source_row_before (vals rows)"

definition db_SetSourceEnabled :: "string \<Rightarrow> bool \<Rightarrow> source_states \<Rightarrow> source_states option" where
  "db_SetSourceEnabled name enabled rows = (case map_of rows name of None \<Rightarrow> None
     | Some st \<Rightarrow> Some (gput name (st\<lparr>ss_ManuallyDisabled := \<not> enabled, ss_DisabledUntil := 0\<rparr>) rows))"

definition EnsureSource :: "SourceState \<Rightarrow> source_states \<Rightarrow> source_states" where
  "EnsureSource st rows = (case map_of rows (ss_Name st) of
     None \<Rightarrow> gput (ss_Name st) (zero_source\<lparr>ss_Name := ss_Name st, ss_URL := ss_URL st, ss_Priority := ss_Priority st,
       ss_HealthScore := (if ss_HealthScore st = 0 then 100 else ss_HealthScore st)\<rparr>) rows
   | Some row \<Rightarrow> gput (ss_Name st) (row\<lparr>ss_URL := ss_URL st, ss_Priority := ss_Priority st\<rparr>) rows)"

definition SetSourceContribution :: "string \<Rightarrow> int \<Rightarrow> int \<Rightarrow> float64 \<Rightarrow> source_states \<Rightarrow> source_states" where
  "SetSourceContribution name all hq health rows = (case map_of rows name of None \<Rightarrow> rows
     | Some row \<Rightarrow> gput name (row\<lparr>ss_ContributionTotal := all, ss_ContributionHQ := hq, ss_HealthScore := health\<rparr>) rows)"

subsection \<open>The service\<close>

record source_world =
  sw_mem :: source_states
  sw_db :: source_states

definition sourceHealth :: "SourceState \<Rightarrow> float64" where
  "sourceHealth st =
     (if ss_FetchCount st = 0 then 100
      else (let success = of_int (ss_SuccessCount st) / of_int (ss_FetchCount st);
                contribution = (if ss_ContributionTotal st > 0
                  then of_int (ss_ContributionHQ st) / of_int (ss_ContributionTotal st) else 0);
                score = success * 75 + contribution * 25 - of_int (ss_ConsecutiveFailures st) * 5
            in if score < 0 then 0 else if score > 100 then 100 else score))"

definition cooldown :: "config \<Rightarrow> time \<Rightarrow> time" where
  "cooldown cfg now = FormatRFC3339 (now + wrap64 (gov_CooldownHours (Governance cfg) * hour))"

text \<open>The new state of the source; \<open>err\<close> is the text of the error, if there was one.\<close>

definition fetched :: "config \<Rightarrow> time \<Rightarrow> fetch_doc \<Rightarrow> string option \<Rightarrow> SourceState \<Rightarrow> SourceState" where
  "fetched cfg now d err st0 =
     (let st = st0\<lparr>ss_Name := src_Name (fd_Source d), ss_URL := src_URL (fd_Source d),
            ss_Priority := src_Priority (fd_Source d), ss_LastAttemptAt := FormatRFC3339 now,
            ss_FetchCount := ss_FetchCount st0 + 1, ss_LatencyMS := Milliseconds (fd_Latency d),
            ss_Bytes := fd_Bytes d, ss_StatusCode := fd_StatusCode d, ss_Attempts := fd_Attempts d\<rparr>;
          st1 = (case err of
            None \<Rightarrow> st\<lparr>ss_LastSuccessAt := FormatRFC3339 now, ss_LastError := '''', ss_ConsecutiveFailures := 0,
              ss_DisabledUntil := 0, ss_SuccessCount := ss_SuccessCount st + 1\<rparr>
          | Some e \<Rightarrow> (let failures = ss_ConsecutiveFailures st + 1
              in st\<lparr>ss_LastError := e, ss_ConsecutiveFailures := failures,
                 ss_DisabledUntil := (if failures \<ge> gov_DisableAfterFailures (Governance cfg) then cooldown cfg now
                   else ss_DisabledUntil st)\<rparr>))
      in st1\<lparr>ss_HealthScore := sourceHealth st1\<rparr>)"

definition recordSource :: "config \<Rightarrow> time \<Rightarrow> time \<Rightarrow> fetch_doc \<Rightarrow> string option \<Rightarrow> source_world \<Rightarrow> source_world" where
  "recordSource cfg now now_db d err w =
     (let name = src_Name (fd_Source d);
          state = fetched cfg now d err (gget zero_source (sw_mem w) name);
          dbState = state\<lparr>ss_LastError := (case err of None \<Rightarrow> '''' | Some e \<Rightarrow> e)\<rparr>
      in w\<lparr>sw_mem := gput name state (sw_mem w), sw_db := RecordSourceFetch now_db dbState (err = None) (sw_db w)\<rparr>)"

text \<open>The sources of a node, and how many nodes and good nodes each source delivers.\<close>

definition node_sources :: "node \<Rightarrow> string list" where
  "node_sources n = (if n_Sources n = [] \<and> n_Source n \<noteq> '''' then [n_Source n] else n_Sources n)"

definition contribution_of :: "config \<Rightarrow> node list \<Rightarrow> string \<Rightarrow> int \<times> int" where
  "contribution_of cfg nodes name =
     (gget 0 (fold gincr (concat (map node_sources nodes)) []) name,
      gget 0 (fold gincr (concat (map node_sources
        (filter (\<lambda>n. n_Alive n \<and> n_Score n \<ge> flt_MinScore (Filter cfg)) nodes))) []) name)"

definition contributed :: "config \<Rightarrow> node list \<Rightarrow> string \<Rightarrow> SourceState \<Rightarrow> SourceState" where
  "contributed cfg nodes name st =
     (let st1 = st\<lparr>ss_ContributionTotal := fst (contribution_of cfg nodes name),
            ss_ContributionHQ := snd (contribution_of cfg nodes name)\<rparr>
      in st1\<lparr>ss_HealthScore := sourceHealth st1\<rparr>)"

definition updateSourceContributions :: "config \<Rightarrow> node option list \<Rightarrow> source_world \<Rightarrow> source_world" where
  "updateSourceContributions cfg nodes w =
     fold (\<lambda>(name, state0) w. (let state = contributed cfg (somes nodes) name state0
        in w\<lparr>sw_mem := gput name state (sw_mem w),
             sw_db := SetSourceContribution name (ss_ContributionTotal state) (ss_ContributionHQ state)
               (ss_HealthScore state) (sw_db w)\<rparr>)) (sw_mem w) w"

datatype source_error = SourceNotFound string | SourceNoRow

definition SetSourceEnabled :: "config \<Rightarrow> string \<Rightarrow> bool \<Rightarrow> source_world \<Rightarrow> source_error + source_world" where
  "SetSourceEnabled cfg name enabled w =
     (if name \<notin> src_Name ` set (Sources cfg) then Inl (SourceNotFound name)
      else case db_SetSourceEnabled name enabled (sw_db w) of
        None \<Rightarrow> Inl SourceNoRow
      | Some rows \<Rightarrow> (let state = gget zero_source (sw_mem w) name
          in Inr (w\<lparr>sw_db := rows, sw_mem := gput name (state\<lparr>ss_ManuallyDisabled := \<not> enabled,
               ss_DisabledUntil := (if enabled then 0 else ss_DisabledUntil state)\<rparr>) (sw_mem w)\<rparr>)))"

text \<open>The start of the service: the rows of the table, then every configured source.\<close>

definition start_source :: "Source \<Rightarrow> source_world \<Rightarrow> source_world" where
  "start_source s w =
     (let state = (case map_of (sw_mem w) (src_Name s) of Some st \<Rightarrow> st
        | None \<Rightarrow> zero_source\<lparr>ss_Name := src_Name s, ss_URL := src_URL s, ss_Priority := src_Priority s, ss_HealthScore := 100\<rparr>)
      in w\<lparr>sw_mem := (if map_of (sw_mem w) (src_Name s) = None then gput (src_Name s) state (sw_mem w) else sw_mem w),
           sw_db := EnsureSource state (sw_db w)\<rparr>)"

definition start_sources :: "config \<Rightarrow> source_states \<Rightarrow> source_world" where
  "start_sources cfg rows = fold start_source (Sources cfg)
     \<lparr>sw_mem = fold (\<lambda>st m. gput (ss_Name st) st m) (ListSourceStates rows) [], sw_db = rows\<rparr>"

definition source_usable :: "time \<Rightarrow> SourceState \<Rightarrow> bool" where
  "source_usable now st \<longleftrightarrow> \<not> ss_ManuallyDisabled st \<and> \<not> (ss_DisabledUntil st \<noteq> 0 \<and> ss_DisabledUntil st > now)"

definition service_EnabledSources :: "config \<Rightarrow> time \<Rightarrow> source_states \<Rightarrow> Source list" where
  "service_EnabledSources cfg now states =
     filter (\<lambda>s. source_usable now (gget zero_source states (src_Name s))) (EnabledSources cfg)"


subsection \<open>Memory and table agree\<close>

text \<open>
  What the two copies of a source have in common: everything but the two time stamps that each takes
  from its own clock, and the cooldown of a source that is switched off by hand.
\<close>

definition view :: "SourceState \<Rightarrow> SourceState" where
  "view st = st\<lparr>ss_LastAttemptAt := 0, ss_LastSuccessAt := 0,
     ss_DisabledUntil := (if ss_ManuallyDisabled st then 0 else ss_DisabledUntil st)\<rparr>"

definition synced :: "source_world \<Rightarrow> bool" where
  "synced w \<longleftrightarrow> distinct (keys (sw_mem w)) \<and> distinct (keys (sw_db w)) \<and> (\<forall>k st. map_of (sw_db w) k = Some st \<longrightarrow> ss_Name st = k) \<and>
     (\<forall>k. map_option view (map_of (sw_mem w) k) = map_option view (map_of (sw_db w) k))"

lemma view_iff:
  "view a = view b \<longleftrightarrow> ss_Name a = ss_Name b \<and> ss_URL a = ss_URL b \<and> ss_Priority a = ss_Priority b \<and>
     ss_LastError a = ss_LastError b \<and> ss_ConsecutiveFailures a = ss_ConsecutiveFailures b \<and>
     ss_FetchCount a = ss_FetchCount b \<and> ss_SuccessCount a = ss_SuccessCount b \<and> ss_LatencyMS a = ss_LatencyMS b \<and>
     ss_Bytes a = ss_Bytes b \<and> ss_StatusCode a = ss_StatusCode b \<and> ss_Attempts a = ss_Attempts b \<and>
     ss_ManuallyDisabled a = ss_ManuallyDisabled b \<and>
     (\<not> ss_ManuallyDisabled a \<longrightarrow> ss_DisabledUntil a = ss_DisabledUntil b) \<and>
     ss_ContributionTotal a = ss_ContributionTotal b \<and> ss_ContributionHQ a = ss_ContributionHQ b \<and>
     ss_HealthScore a = ss_HealthScore b"
  by (cases a; cases b) (auto simp: view_def)

lemma view_eqD:
  assumes "view a = view b"
  shows "ss_Name a = ss_Name b" "ss_URL a = ss_URL b" "ss_Priority a = ss_Priority b" "ss_FetchCount a = ss_FetchCount b"
    "ss_SuccessCount a = ss_SuccessCount b" "ss_ConsecutiveFailures a = ss_ConsecutiveFailures b"
    "ss_ManuallyDisabled a = ss_ManuallyDisabled b" "ss_ContributionTotal a = ss_ContributionTotal b"
    "ss_ContributionHQ a = ss_ContributionHQ b"
    "\<not> ss_ManuallyDisabled a \<Longrightarrow> ss_DisabledUntil a = ss_DisabledUntil b"
  using assms unfolding view_iff by blast+

lemma view_usable: "view a = view b \<Longrightarrow> source_usable now a = source_usable now b"
  using view_eqD [of a b] by (auto simp: source_usable_def)

text \<open>A write of the same name to both copies keeps them in agreement when the new values agree.\<close>

lemma synced_gput:
  assumes "synced w" and "view a = view b" and "ss_Name b = k"
  shows "synced (w\<lparr>sw_mem := gput k a (sw_mem w), sw_db := gput k b (sw_db w)\<rparr>)"
  using assms by (simp add: synced_def)

lemma synced_lookup:
  assumes "synced w" and "map_of (sw_mem w) k = Some a"
  obtains b where "map_of (sw_db w) k = Some b" and "view a = view b" and "ss_Name b = k"
proof -
  have "map_option view (map_of (sw_db w) k) = Some (view a)"
    using assms unfolding synced_def by (metis option.simps(9))
  then obtain b where "map_of (sw_db w) k = Some b" "view b = view a" by (auto simp: map_option_case split: option.splits)
  with assms(1) that show thesis unfolding synced_def by metis
qed

lemma synced_None: "synced w \<Longrightarrow> map_of (sw_mem w) k = None \<Longrightarrow> map_of (sw_db w) k = None"
  unfolding synced_def by (metis None_eq_map_option_iff)

lemma fetched_simps [simp]:
  "ss_Name (fetched cfg now d err st) = src_Name (fd_Source d)"
  by (simp add: fetched_def Let_def split: option.split)

lemma synced_recordSource:
  assumes "synced w"
  shows "synced (recordSource cfg now now_db d err w)"
proof -
  let ?k = "src_Name (fd_Source d)"
  let ?st = "fetched cfg now d err (gget zero_source (sw_mem w) ?k)"
  let ?dst = "?st\<lparr>ss_LastError := (case err of None \<Rightarrow> '''' | Some e \<Rightarrow> e)\<rparr>"
  obtain row where row: "RecordSourceFetch now_db ?dst (err = None) (sw_db w) = gput ?k row (sw_db w)"
    and "view ?st = view row" and "ss_Name row = ?k"
  proof (cases "map_of (sw_mem w) ?k")
    case None
    then have "map_of (sw_db w) ?k = None" by (rule synced_None [OF assms])
    with None show ?thesis
      by (intro that) (simp add: RecordSourceFetch_def Let_def, simp_all add: view_def fetched_def gget_def zero_source_def Let_def split: option.split)
  next
    case (Some a)
    from synced_lookup [OF assms this] obtain b where b: "map_of (sw_db w) ?k = Some b" "view a = view b" by blast
    with Some view_eqD [OF b(2)] show ?thesis
      by (intro that) (simp add: RecordSourceFetch_def Let_def, simp_all add: view_def fetched_def gget_def Let_def split: option.split)
  qed
  with synced_gput [OF assms this(2,3)] show ?thesis by (simp add: recordSource_def Let_def)
qed


lemma synced_SetSourceEnabled:
  assumes "synced w" and "SetSourceEnabled cfg name enabled w = Inr w'"
  shows "synced w'"
proof -
  obtain b where b: "map_of (sw_db w) name = Some b"
    and w': "w' = w\<lparr>sw_mem := gput name ((gget zero_source (sw_mem w) name)\<lparr>ss_ManuallyDisabled := \<not> enabled,
        ss_DisabledUntil := (if enabled then 0 else ss_DisabledUntil (gget zero_source (sw_mem w) name))\<rparr>) (sw_mem w),
      sw_db := gput name (b\<lparr>ss_ManuallyDisabled := \<not> enabled, ss_DisabledUntil := 0\<rparr>) (sw_db w)\<rparr>"
    using assms(2) by (auto simp: SetSourceEnabled_def db_SetSourceEnabled_def Let_def split: if_splits option.splits)
  then obtain a where a: "map_of (sw_mem w) name = Some a"
    using assms(1) synced_None by fastforce
  from synced_lookup [OF assms(1) a] b have "view a = view b" "ss_Name b = name" by auto
  then show ?thesis
    unfolding w' using a by (intro synced_gput [OF assms(1)]) (simp_all add: view_iff gget_def)
qed

lemma synced_contribution:
  assumes "synced w" and "map_of (sw_mem w) k = Some a"
  shows "synced (w\<lparr>sw_mem := gput k (contributed cfg ns k a) (sw_mem w),
    sw_db := SetSourceContribution k (ss_ContributionTotal (contributed cfg ns k a)) (ss_ContributionHQ (contributed cfg ns k a))
      (ss_HealthScore (contributed cfg ns k a)) (sw_db w)\<rparr>)"
proof -
  from synced_lookup [OF assms] obtain b where b: "map_of (sw_db w) k = Some b" "view a = view b" "ss_Name b = k" by blast
  then show ?thesis
    by (simp add: SetSourceContribution_def)
      (intro synced_gput [OF assms(1)], simp_all add: contributed_def view_iff Let_def)
qed

lemma synced_updateSourceContributions:
  assumes "synced w"
  shows "synced (updateSourceContributions cfg nodes w)"
proof -
  let ?step = "\<lambda>(name, state0) w. (let state = contributed cfg (somes nodes) name state0
        in w\<lparr>sw_mem := gput name state (sw_mem w),
             sw_db := SetSourceContribution name (ss_ContributionTotal state) (ss_ContributionHQ state)
               (ss_HealthScore state) (sw_db w)\<rparr>)"
  have "synced (fold ?step xs w)" if "synced w" "distinct (keys xs)" "\<forall>(k, a) \<in> set xs. map_of (sw_mem w) k = Some a" for xs w
    using that
  proof (induction xs arbitrary: w)
    case (Cons x xs)
    obtain k a where x: "x = (k, a)" by (cases x)
    have "synced (?step x w)"
      using synced_contribution [OF Cons.prems(1), of k a cfg "somes nodes"] Cons.prems(3) x by (simp add: Let_def)
    moreover have "\<forall>(j, b) \<in> set xs. map_of (sw_mem (?step x w)) j = Some b"
      using Cons.prems x by (force simp: Let_def)
    ultimately show ?case using Cons.IH [of "?step x w"] Cons.prems(2) by simp
  qed simp
  moreover have "distinct (keys (sw_mem w))" using assms by (simp add: synced_def)
  ultimately show ?thesis using assms unfolding updateSourceContributions_def by (auto simp: Let_def)
qed

lemma loaded_states:
  assumes "distinct (keys rows)" and "\<forall>(k, st) \<in> set rows. ss_Name st = k"
  defines "mem \<equiv> fold (\<lambda>st m. gput (ss_Name st) st m) (ListSourceStates rows) []"
  shows "map_of mem = map_of rows" and "distinct (keys mem)"
proof -
  have rows: "map (\<lambda>st. (ss_Name st, st)) (vals rows) = rows"
    unfolding map_map by (rule map_idI) (use assms(2) in auto)
  have names: "map ss_Name (vals rows) = keys rows"
    unfolding map_map by (rule map_cong [OF refl]) (use assms(2) in auto)
  then have "distinct (map ss_Name (vals rows))" using assms(1) by (simp only:)
  then have "distinct (map ss_Name (ListSourceStates rows))"
    unfolding ListSourceStates_def by (metis mset_SliceStable mset_eq_imp_distinct_iff mset_map)
  then have mem: "mem = map (\<lambda>st. (ss_Name st, st)) (ListSourceStates rows)"
    unfolding mem_def using fold_gput_fresh [of ss_Name "ListSourceStates rows" "[]" "\<lambda>x. x"] by simp
  then have "mset mem = mset rows" unfolding ListSourceStates_def by (metis mset_SliceStable mset_map rows)
  then show "map_of mem = map_of rows" by (intro map_of_perm [OF assms(1), symmetric]) (rule sym)
  show "distinct (keys mem)" using \<open>mset mem = mset rows\<close> assms(1) by (metis mset_eq_imp_distinct_iff mset_map)
qed

lemma synced_start_source:
  assumes "synced w"
  shows "synced (start_source s w)"
proof (cases "map_of (sw_mem w) (src_Name s)")
  case None
  let ?new = "zero_source\<lparr>ss_Name := src_Name s, ss_URL := src_URL s, ss_Priority := src_Priority s, ss_HealthScore := 100\<rparr>"
  have "map_of (sw_db w) (src_Name s) = None" using synced_None [OF assms None] .
  then have "EnsureSource ?new (sw_db w) = gput (src_Name s) ?new (sw_db w)" by (simp add: EnsureSource_def)
  moreover have "synced (w\<lparr>sw_mem := gput (src_Name s) ?new (sw_mem w), sw_db := gput (src_Name s) ?new (sw_db w)\<rparr>)"
    by (intro synced_gput [OF assms]) simp_all
  ultimately show ?thesis using None by (simp add: start_source_def Let_def)
next
  case (Some a)
  from synced_lookup [OF assms this] obtain b
    where b: "map_of (sw_db w) (src_Name s) = Some b" "view a = view b" "ss_Name b = src_Name s" by blast
  then have "ss_Name a = src_Name s" "b\<lparr>ss_URL := ss_URL a, ss_Priority := ss_Priority a\<rparr> = b"
    using view_eqD [OF b(2)] by simp_all
  then have db: "EnsureSource a (sw_db w) = gput (src_Name s) b (sw_db w)" using b(1) by (simp add: EnsureSource_def)
  have "map_of (gput (src_Name s) b (sw_db w)) = map_of (sw_db w)" using b(1) by (simp add: fun_upd_idem)
  then show ?thesis using assms Some db by (simp add: start_source_def synced_def)
qed

lemma synced_start:
  assumes "distinct (keys rows)" and "\<forall>(k, st) \<in> set rows. ss_Name st = k"
  shows "synced (start_sources cfg rows)"
proof -
  let ?w = "\<lparr>sw_mem = fold (\<lambda>st m. gput (ss_Name st) st m) (ListSourceStates rows) [], sw_db = rows\<rparr>"
  have "synced ?w" using loaded_states [OF assms] assms by (auto simp: synced_def dest: map_of_SomeD)
  then have "synced (fold start_source ss ?w)" for ss
    by (induction ss rule: rev_induct) (simp_all add: synced_start_source)
  then show ?thesis by (simp add: start_sources_def)
qed


subsection \<open>A restart changes nothing\<close>

datatype source_event =
    Fetched time time fetch_doc "string option"
  | Switched string bool
  | Contributions "node option list"
  | Restarted

fun source_step :: "config \<Rightarrow> source_event \<Rightarrow> source_world \<Rightarrow> source_world" where
  "source_step cfg (Fetched now now_db d err) w = recordSource cfg now now_db d err w"
| "source_step cfg (Switched name enabled) w = (case SetSourceEnabled cfg name enabled w of Inl _ \<Rightarrow> w | Inr w' \<Rightarrow> w')"
| "source_step cfg (Contributions nodes) w = updateSourceContributions cfg nodes w"
| "source_step cfg Restarted w = start_sources cfg (sw_db w)"

lemma synced_names: "synced w \<Longrightarrow> \<forall>(k, st) \<in> set (sw_db w). ss_Name st = k"
  by (auto simp: synced_def)

lemma synced_step: "synced w \<Longrightarrow> synced (source_step cfg e w)"
proof (cases e)
  case Restarted
  assume w: "synced w"
  then have "distinct (keys (sw_db w))" by (simp add: synced_def)
  with synced_names [OF w] Restarted show ?thesis by (simp add: synced_start)
qed (auto intro: synced_recordSource synced_SetSourceEnabled synced_updateSourceContributions split: sum.split)

lemma synced_run: "synced w \<Longrightarrow> synced (fold (source_step cfg) es w)"
  by (induction es arbitrary: w) (auto intro: synced_step)

lemma start_keeps: "map_of (sw_mem w) k = Some st \<Longrightarrow> map_of (sw_mem (fold start_source ss w)) k = Some st"
proof (induction ss arbitrary: w)
  case (Cons s ss)
  have "map_of (sw_mem (start_source s w)) k = Some st"
    using Cons.prems by (cases "src_Name s = k") (simp_all add: start_source_def Let_def)
  with Cons.IH show ?case by simp
qed simp

lemma start_adds:
  "map_of (sw_mem w) k = None \<Longrightarrow> source_usable now (gget zero_source (sw_mem (fold start_source ss w)) k)"
proof (induction ss arbitrary: w)
  case Nil
  then show ?case by (simp add: gget_def zero_source_def source_usable_def)
next
  case (Cons s ss)
  show ?case
  proof (cases "src_Name s = k")
    case True
    let ?new = "zero_source\<lparr>ss_Name := k, ss_URL := src_URL s, ss_Priority := src_Priority s, ss_HealthScore := 100\<rparr>"
    have "map_of (sw_mem (start_source s w)) k = Some ?new"
      using Cons.prems True by (simp add: start_source_def Let_def)
    then have "map_of (sw_mem (fold start_source ss (start_source s w))) k = Some ?new" by (rule start_keeps)
    then show ?thesis by (simp add: gget_def source_usable_def zero_source_def)
  next
    case False
    with Cons show ?thesis by (simp add: start_source_def Let_def)
  qed
qed

lemma restart_usable:
  assumes "synced w"
  shows "source_usable now (gget zero_source (sw_mem (start_sources cfg (sw_db w))) k) =
    source_usable now (gget zero_source (sw_mem w) k)"
proof -
  have d: "distinct (keys (sw_db w))" using assms by (simp add: synced_def)
  let ?w = "\<lparr>sw_mem = fold (\<lambda>st m. gput (ss_Name st) st m) (ListSourceStates (sw_db w)) [], sw_db = sw_db w\<rparr>"
  have load: "map_of (sw_mem ?w) = map_of (sw_db w)" using loaded_states(1) [OF d synced_names [OF assms]] by simp
  show ?thesis
  proof (cases "map_of (sw_mem w) k")
    case None
    then have "map_of (sw_mem ?w) k = None" using synced_None [OF assms] load by simp
    then have "source_usable now (gget zero_source (sw_mem (start_sources cfg (sw_db w))) k)"
      unfolding start_sources_def by (rule start_adds)
    with None show ?thesis by (simp add: gget_def source_usable_def zero_source_def)
  next
    case (Some a)
    from synced_lookup [OF assms this] obtain b where b: "map_of (sw_db w) k = Some b" "view a = view b" by blast
    then have "map_of (sw_mem (start_sources cfg (sw_db w))) k = Some b"
      unfolding start_sources_def by (intro start_keeps) (simp only: load)
    then show ?thesis using Some view_usable [OF b(2), of now] by (simp add: gget_def)
  qed
qed


definition failed_fetch :: source_event where
  "failed_fetch = Fetched 1000 2000 \<lparr>fd_Source = example_source, fd_Latency = 0, fd_Bytes = 0, fd_StatusCode = 500,
     fd_Attempts = 1\<rparr> (Some ''down'')"


end
