(* ===== verification/Jobs.thy ===== *)
theory Jobs
  imports Config Store TaskQueue
begin

text \<open>
  Jobs: the tables \<open>jobs\<close>, \<open>job_events\<close> and \<open>alerts\<close> (\<open>internal/db/sqlite.go\<close>, \<open>internal/db/alerts.go\<close>)
  and the part of \<open>internal/service/service.go\<close> that submits, runs, reports and cancels jobs on top of
  the task queue.

  The service has a database. A table is the list of its rows; time columns are instants. The values
  of options and statistics are their JSON texts (a string value has no characters that JSON escapes).
  The stages of a job (fetch, quality, dial and so on) appear as what they report: progress updates,
  statistics and an outcome.
\<close>

subsection \<open>The table of jobs\<close>

abbreviation JobPending :: string where "JobPending \<equiv> ''pending''"
abbreviation JobRunning :: string where "JobRunning \<equiv> ''running''"
abbreviation JobCompleted :: string where "JobCompleted \<equiv> ''completed''"
abbreviation JobFailed :: string where "JobFailed \<equiv> ''failed''"
abbreviation JobCanceled :: string where "JobCanceled \<equiv> ''canceled''"

type_synonym job_table = "Job list"

definition overwrite_job :: "Job \<Rightarrow> Job \<Rightarrow> Job" where
  "overwrite_job j row = row\<lparr>j_Status := j_Status j, j_Progress := j_Progress j, j_Message := j_Message j,
     j_Error := j_Error j, j_Stats := j_Stats j, j_UpdatedAt := j_UpdatedAt j, j_StartedAt := j_StartedAt j,
     j_EndedAt := j_EndedAt j, j_Actor := j_Actor j, j_TenantID := tenantOrDefault (j_TenantID j)\<rparr>"

definition db_SaveJob :: "Job \<Rightarrow> job_table \<Rightarrow> job_table" where
  "db_SaveJob j rows = (if j_ID j \<in> j_ID ` set rows
     then update_where (\<lambda>r. j_ID r = j_ID j) (overwrite_job j) rows
     else rows @ [j\<lparr>j_TenantID := tenantOrDefault (j_TenantID j)\<rparr>])"

definition newer_job :: "Job \<Rightarrow> Job \<Rightarrow> bool" where
  "newer_job a b \<longleftrightarrow> (if j_CreatedAt a \<noteq> j_CreatedAt b then j_CreatedAt a > j_CreatedAt b else j_ID a > j_ID b)"

definition job_in :: "string \<Rightarrow> Job \<Rightarrow> bool" where
  "job_in tenant j \<longleftrightarrow> tenant = '''' \<or> j_TenantID j = tenantOrDefault tenant"

definition GetJobTenant :: "string \<Rightarrow> string \<Rightarrow> job_table \<Rightarrow> Job option" where
  "GetJobTenant i tenant rows = find (\<lambda>j. j_ID j = i \<and> job_in tenant j) rows"

definition db_ListJobsPageTenant :: "int \<Rightarrow> string \<Rightarrow> string \<Rightarrow> job_table \<Rightarrow> Job list option" where
  "db_ListJobsPageTenant limit0 cursor tenant rows =
     (let limit = (if limit0 \<le> 0 then 30 else limit0)
      in if cursor = '''' then Some (take (nat limit) (SliceStable newer_job (filter (job_in tenant) rows)))
         else case GetJobTenant cursor tenant rows of None \<Rightarrow> None
         | Some c \<Rightarrow> Some (take (nat limit) (SliceStable newer_job (filter (\<lambda>j. job_in tenant j \<and>
             (j_CreatedAt j < j_CreatedAt c \<or> (j_CreatedAt j = j_CreatedAt c \<and> j_ID j < cursor))) rows))))"

record JobEvent =
  je_ID :: int
  je_JobID :: string
  je_At :: time
  je_Level :: string
  je_Message :: string

text \<open>The table of events with its identity counter.\<close>

type_synonym event_table = "int \<times> JobEvent list"

definition AddJobEvent :: "time \<Rightarrow> string \<Rightarrow> string \<Rightarrow> string \<Rightarrow> event_table \<Rightarrow> event_table" where
  "AddJobEvent now i level msg events = (fst events + 1, snd events @ [\<lparr>je_ID = fst events + 1, je_JobID = i,
     je_At = FormatRFC3339 now, je_Level = level, je_Message = msg\<rparr>])"

definition ListJobEventsTenant :: "string \<Rightarrow> int \<Rightarrow> int \<Rightarrow> string \<Rightarrow> job_table \<Rightarrow> event_table \<Rightarrow> JobEvent list option" where
  "ListJobEventsTenant i after limit0 tenant rows events =
     (if tenant \<noteq> '''' \<and> GetJobTenant i tenant rows = None then None
      else (let limit = (if limit0 \<le> 0 \<or> limit0 > 1000 then 200 else limit0)
            in Some (take (nat limit) (sort_key je_ID (filter (\<lambda>e. je_JobID e = i \<and> je_ID e > after) (snd events))))))"

text \<open>\<open>ORDER BY ended_at DESC, id DESC\<close>; a NULL end sorts last.\<close>

definition later_end :: "Job \<Rightarrow> Job \<Rightarrow> bool" where
  "later_end a b \<longleftrightarrow> (case (j_EndedAt a, j_EndedAt b) of
     (Some x, Some y) \<Rightarrow> if x \<noteq> y then x > y else j_ID a > j_ID b
   | (Some x, None) \<Rightarrow> True | (None, Some y) \<Rightarrow> False | (None, None) \<Rightarrow> j_ID a > j_ID b)"

definition PreviousCompletedQualityStats :: "string \<Rightarrow> job_table \<Rightarrow> (string, string) gmap option option" where
  "PreviousCompletedQualityStats excludeID rows =
     (case SliceStable later_end (filter (\<lambda>j. j_ID j \<noteq> excludeID \<and> j_Status j = JobCompleted \<and>
        (j_Type j = ''quality'' \<or> j_Type j = ''full'')) rows) of [] \<Rightarrow> None | j # _ \<Rightarrow> Some (j_Stats j))"

definition RecentConsecutiveJobFailures :: "int \<Rightarrow> job_table \<Rightarrow> int" where
  "RecentConsecutiveJobFailures limit0 rows =
     (let limit = (if limit0 \<le> 0 then 10 else limit0)
      in int (length (takeWhile (\<lambda>j. j_Status j = JobFailed) (take (nat limit) (SliceStable later_end
           (filter (\<lambda>j. j_Status j = JobCompleted \<or> j_Status j = JobFailed) rows))))))"

subsection \<open>Alerts\<close>

record Alert =
  al_ID :: string
  al_Kind :: string
  al_Severity :: string
  al_Message :: string
  al_Details :: "(string, string) gmap"
  al_Active :: bool
  al_CreatedAt :: time
  al_ResolvedAt :: time
  al_AcknowledgedAt :: time
  al_AcknowledgedBy :: string

definition RaiseAlert :: "time \<Rightarrow> string \<Rightarrow> string \<Rightarrow> string \<Rightarrow> (string, string) gmap \<Rightarrow> Alert list \<Rightarrow> Alert \<times> Alert list" where
  "RaiseAlert now kind severity message details rows =
     (let created = FormatRFC3339 now;
          a = \<lparr>al_ID = kind, al_Kind = kind, al_Severity = severity, al_Message = message, al_Details = details,
            al_Active = True, al_CreatedAt = created, al_ResolvedAt = 0, al_AcknowledgedAt = 0, al_AcknowledgedBy = ''''\<rparr>
      in (a, if kind \<in> al_ID ` set rows
             then update_where (\<lambda>r. al_ID r = kind) (\<lambda>r. a\<lparr>al_Kind := al_Kind r\<rparr>) rows else rows @ [a]))"

definition alert_before :: "Alert \<Rightarrow> Alert \<Rightarrow> bool" where
  "alert_before a b \<longleftrightarrow> (if al_Active a \<noteq> al_Active b then al_Active a
     else if al_CreatedAt a \<noteq> al_CreatedAt b then al_CreatedAt a > al_CreatedAt b else al_ID a > al_ID b)"

definition ListAlerts :: "bool \<Rightarrow> int \<Rightarrow> Alert list \<Rightarrow> Alert list" where
  "ListAlerts activeOnly limit0 rows =
     (let limit = (if limit0 \<le> 0 \<or> limit0 > 500 then 100 else limit0)
      in take (nat limit) (SliceStable alert_before (filter (\<lambda>a. activeOnly \<longrightarrow> al_Active a) rows)))"

definition alert_after :: "Alert \<Rightarrow> string \<Rightarrow> Alert \<Rightarrow> bool" where
  "alert_after c cursor a \<longleftrightarrow> (\<not> al_Active a \<and> al_Active c) \<or> (al_Active a = al_Active c \<and>
     (al_CreatedAt a < al_CreatedAt c \<or> (al_CreatedAt a = al_CreatedAt c \<and> al_ID a < cursor)))"

definition ListAlertsPage :: "bool \<Rightarrow> int \<Rightarrow> string \<Rightarrow> Alert list \<Rightarrow> Alert list option" where
  "ListAlertsPage activeOnly limit0 cursor rows =
     (let limit = (if limit0 \<le> 0 \<or> limit0 > 101 then 31 else limit0);
          shown = (\<lambda>a. activeOnly \<longrightarrow> al_Active a)
      in if cursor = '''' then Some (take (nat limit) (SliceStable alert_before (filter shown rows)))
         else case find (\<lambda>a. al_ID a = cursor \<and> shown a) rows of None \<Rightarrow> None
         | Some c \<Rightarrow> Some (take (nat limit) (SliceStable alert_before
             (filter (\<lambda>a. shown a \<and> alert_after c cursor a) rows))))"

definition CountAlerts :: "bool \<Rightarrow> Alert list \<Rightarrow> int" where
  "CountAlerts activeOnly rows = int (affected (\<lambda>a. activeOnly \<longrightarrow> al_Active a) rows)"

definition active_alert :: "string \<Rightarrow> Alert \<Rightarrow> bool" where
  "active_alert i a \<longleftrightarrow> al_ID a = i \<and> al_Active a"

definition AcknowledgeAlert :: "time \<Rightarrow> string \<Rightarrow> string \<Rightarrow> Alert list \<Rightarrow> bool \<times> Alert list" where
  "AcknowledgeAlert now i actor rows = (affected (active_alert i) rows \<noteq> 0,
     update_where (active_alert i) (\<lambda>a. a\<lparr>al_AcknowledgedAt := FormatRFC3339 now, al_AcknowledgedBy := actor\<rparr>) rows)"

definition ResolveAlert :: "time \<Rightarrow> string \<Rightarrow> Alert list \<Rightarrow> bool \<times> Alert list" where
  "ResolveAlert now i rows = (affected (active_alert i) rows \<noteq> 0,
     update_where (active_alert i) (\<lambda>a. a\<lparr>al_Active := False, al_ResolvedAt := FormatRFC3339 now\<rparr>) rows)"

definition ResolveAlertIfActive :: "time \<Rightarrow> string \<Rightarrow> Alert list \<Rightarrow> Alert list" where
  "ResolveAlertIfActive now i rows = snd (ResolveAlert now i rows)"


subsection \<open>The service\<close>

record job_world =
  jw_store :: store
  jw_jobs :: job_table
  jw_events :: event_table
  jw_alerts :: "Alert list"
  jw_tasks :: task_table
  jw_active :: "string list"

type_synonym job_opts = "(string, string) gmap"

text \<open>The type assertions \<open>v.(string)\<close> and \<open>v.(bool)\<close> on the JSON text of a value.\<close>

definition as_string :: "string option \<Rightarrow> string" where
  "as_string v = (case v of Some s \<Rightarrow> if length s \<ge> 2 \<and> hd s = CHR 0x22 \<and> last s = CHR 0x22 then butlast (tl s) else ''''
     | None \<Rightarrow> '''')"

definition as_bool :: "string option \<Rightarrow> bool" where
  "as_bool v \<longleftrightarrow> v = Some ''true''"

definition new_job :: "time \<Rightarrow> string \<Rightarrow> string \<Rightarrow> job_opts \<Rightarrow> Job" where
  "new_job now i typ opts =
     (let actor = as_string (map_of opts ''_actor''); tenant = as_string (map_of opts ''_tenant'')
      in \<lparr>j_ID = i, j_Type = typ, j_Status = JobPending, j_Progress = 0, j_Message = ''queued'', j_Error = '''',
         j_Stats = Some [], j_CreatedAt = now, j_UpdatedAt = now, j_StartedAt = None, j_EndedAt = None,
         j_Options = Some (filter (\<lambda>(k, v). \<not> HasPrefix k ''_'') opts),
         j_Actor = (if actor = '''' then ''system'' else actor), j_TenantID = (if tenant = '''' then ''default'' else tenant)\<rparr>)"

definition reported :: "float64 \<Rightarrow> string \<Rightarrow> string \<Rightarrow> bool" where
  "reported progress status msg \<longleftrightarrow> msg \<noteq> '''' \<and> (go_int progress mod 25 = 0 \<or> status = JobCompleted \<or>
     status = JobFailed \<or> status = JobCanceled)"

definition updateJob :: "time \<Rightarrow> Job \<Rightarrow> string \<Rightarrow> float64 \<Rightarrow> string \<Rightarrow> job_world \<Rightarrow> Job \<times> job_world" where
  "updateJob now j0 status progress msg w =
     (let j = j0\<lparr>j_Status := status, j_Progress := progress, j_Message := msg, j_UpdatedAt := now\<rparr>
      in (j, w\<lparr>jw_store := SaveJob j (jw_store w), jw_jobs := db_SaveJob j (jw_jobs w),
        jw_events := (if reported progress status msg then AddJobEvent now (j_ID j) ''info'' msg (jw_events w) else jw_events w)\<rparr>))"

definition job_types :: "string list" where
  "job_types = [''full'', ''fetch'', ''quality'', ''ai'', ''geo'', ''dial'', ''purity'']"

definition complete :: "time \<Rightarrow> Job \<Rightarrow> string \<Rightarrow> job_world \<Rightarrow> Job \<times> job_world" where
  "complete now j msg w = (let (j', w') = updateJob now (j\<lparr>j_EndedAt := Some now\<rparr>) JobCompleted 100 msg w
     in (j', w'\<lparr>jw_alerts := ResolveAlertIfActive now ''consecutive-job-failures'' (jw_alerts w')\<rparr>))"

text \<open>An error: its text, and whether it is \<open>context.Canceled\<close>.\<close>

type_synonym run_error = "string \<times> bool"

definition failure_alert :: "config \<Rightarrow> time \<Rightarrow> Job \<Rightarrow> job_world \<Rightarrow> job_world" where
  "failure_alert cfg now j w =
     (let threshold = gov_JobFailureThreshold (Governance cfg);
          failures = RecentConsecutiveJobFailures threshold (jw_jobs w)
      in if failures \<ge> threshold
         then w\<lparr>jw_alerts := snd (RaiseAlert now ''consecutive-job-failures'' ''critical''
           (itoa failures @ '' consecutive jobs failed'')
           [(''failures'', itoa failures), (''job_id'', j_ID j), (''job_type'', j_Type j), (''error'', j_Error j)] (jw_alerts w))\<rparr>
         else w)"

definition fail_job :: "config \<Rightarrow> time \<Rightarrow> Job \<Rightarrow> run_error \<Rightarrow> job_world \<Rightarrow> Job \<times> job_world" where
  "fail_job cfg now j0 err w =
     (let j = j0\<lparr>j_EndedAt := Some now, j_Error := fst err\<rparr>;
          status = (if snd err then JobCanceled else JobFailed);
          (j', w') = updateJob now j status (j_Progress j) (fst err) w
      in (j', if status = JobFailed then failure_alert cfg now j' w' else w'))"

text \<open>
  What a stage reports: the progress updates it makes, the statistics it sets, and its end; a panic
  is caught by the runner and fails the job.
\<close>

datatype stage_end = StageOK | StageErr run_error | StagePanic string

record stage_run =
  sr_updates :: "(float64 \<times> string) list"
  sr_stats :: "(string, string) gmap"
  sr_end :: stage_end

definition set_stats :: "(string, string) gmap \<Rightarrow> Job \<Rightarrow> Job" where
  "set_stats kvs j = j\<lparr>j_Stats := Some (fold (\<lambda>(k, v) m. gput k v m) kvs (case j_Stats j of None \<Rightarrow> [] | Some m \<Rightarrow> m))\<rparr>"

definition run_stage :: "time \<Rightarrow> stage_run \<Rightarrow> Job \<times> job_world \<Rightarrow> Job \<times> job_world" where
  "run_stage now r jw = (let (j, w) = fold (\<lambda>(p, m) (j, w). updateJob now j JobRunning p m w) (sr_updates r) jw
     in (set_stats (sr_stats r) j, w))"

definition done_message :: "string \<Rightarrow> string" where
  "done_message typ = (if typ = ''full'' then ''full pipeline done'' else if typ = ''ai'' then ''ai probe done''
     else if typ = ''geo'' then ''geo annotate done'' else typ @ '' done'')"

text \<open>
  The runners: a sequence of stages, the first failing one fails the job; in a full run an error of
  the AI stage is only noted. \<open>skip_ai\<close> is the job option.
\<close>

fun run_stages :: "config \<Rightarrow> time \<Rightarrow> (string \<Rightarrow> stage_run) \<Rightarrow> bool \<Rightarrow> string \<Rightarrow> string list \<Rightarrow> Job \<times> job_world \<Rightarrow> Job \<times> job_world" where
  "run_stages cfg now stage full typ [] (j, w) =
     (let (j1, w1) = run_stage now (stage ''export'') (j, w)
      in case sr_end (stage ''export'') of
           StagePanic p \<Rightarrow> fail_job cfg now j1 (''job panic: '' @ p, False) w1
         | _ \<Rightarrow> complete now j1 (done_message typ) w1)"
| "run_stages cfg now stage full typ (s # ss) (j, w) =
     (let (j1, w1) = run_stage now (stage s) (j, w)
      in case sr_end (stage s) of
           StagePanic p \<Rightarrow> fail_job cfg now j1 (''job panic: '' @ p, False) w1
         | StageErr e \<Rightarrow>
             if full \<and> s = ''ai'' then run_stages cfg now stage full typ ss (set_stats [(''ai_error'', fst e)] j1, w1)
             else fail_job cfg now j1 e w1
         | StageOK \<Rightarrow> run_stages cfg now stage full typ ss (j1, w1))"

definition job_option :: "Job \<Rightarrow> string \<Rightarrow> string option" where
  "job_option j key = (case j_Options j of None \<Rightarrow> None | Some m \<Rightarrow> map_of m key)"

definition run_type :: "config \<Rightarrow> time \<Rightarrow> (string \<Rightarrow> stage_run) \<Rightarrow> Job \<times> job_world \<Rightarrow> Job \<times> job_world" where
  "run_type cfg now stage jw =
     (let typ = j_Type (fst jw); skip = as_bool (job_option (fst jw) ''skip_ai'')
      in if typ = ''full'' then
           run_stages cfg now
             (if skip then stage(''ai'' := \<lparr>sr_updates = [(90, ''ai skipped'')], sr_stats = [(''ai_skipped'', ''true'')],
                sr_end = StageOK\<rparr>) else stage)
             True typ [''fetch'', ''quality'', ''ai''] jw
         else run_stages cfg now stage False typ [typ] jw)"


definition maxJobs :: "config \<Rightarrow> nat" where
  "maxJobs cfg = nat (max 1 (que_EmbeddedWorkers (Queue cfg)))"

datatype job_error = UnsupportedJob string | ConcurrencyLimit | EnqueueFailed task_error | RunFailed run_error

text \<open>\<open>startNow\<close> up to the run: the slot, the job in memory and its row, which keeps its creation time.\<close>

definition start_job :: "config \<Rightarrow> time \<Rightarrow> string \<Rightarrow> string \<Rightarrow> job_opts \<Rightarrow> job_world \<Rightarrow> job_error + Job \<times> job_world" where
  "start_job cfg now i typ opts w =
     (if length (jw_active w) \<ge> maxJobs cfg then Inl ConcurrencyLimit
      else (let j0 = new_job now i typ opts;
                j = (case GetJobTenant i '''' (jw_jobs w) of None \<Rightarrow> j0 | Some p \<Rightarrow> j0\<lparr>j_CreatedAt := j_CreatedAt p\<rparr>)
            in Inr (j, w\<lparr>jw_active := (if i \<in> set (jw_active w) then jw_active w else jw_active w @ [i]),
                 jw_store := SaveJob j0 (jw_store w), jw_jobs := db_SaveJob j (jw_jobs w)\<rparr>)))"

text \<open>The run itself, with the deferred release of the slot.\<close>

definition run_job :: "config \<Rightarrow> time \<Rightarrow> (string \<Rightarrow> stage_run) \<Rightarrow> Job \<times> job_world \<Rightarrow> Job \<times> job_world" where
  "run_job cfg now stage jw =
     (let (j, w) = run_type cfg now stage
        (updateJob now ((fst jw)\<lparr>j_StartedAt := Some now\<rparr>) JobRunning 1 ''starting'' (snd jw))
      in (j, w\<lparr>jw_active := removeAll (j_ID (fst jw)) (jw_active w)\<rparr>))"

definition startNow ::
  "config \<Rightarrow> time \<Rightarrow> string \<Rightarrow> string \<Rightarrow> job_opts \<Rightarrow> (string \<Rightarrow> stage_run) \<Rightarrow> job_world \<Rightarrow> job_error + Job \<times> job_world" where
  "startNow cfg now i typ opts stage w = (case start_job cfg now i typ opts w of
     Inl e \<Rightarrow> Inl e | Inr jw \<Rightarrow> Inr (run_job cfg now stage jw))"

text \<open>The error that \<open>RunQueuedTask\<close> makes of the finished job.\<close>

definition job_result :: "Job \<Rightarrow> run_error option" where
  "job_result j = (if j_Status j = JobCompleted then None
     else if j_Status j = JobCanceled then Some (''context canceled'', True)
     else if j_Error j \<noteq> '''' then Some (j_Error j, False)
     else Some (''job finished with status '' @ j_Status j, False))"

text \<open>\<open>dec\<close> reads the options column of a task.\<close>

definition RunQueuedTask ::
  "(string \<Rightarrow> job_opts) \<Rightarrow> config \<Rightarrow> time \<Rightarrow> (string \<Rightarrow> stage_run) \<Rightarrow> QueuedTask \<Rightarrow> job_world \<Rightarrow> job_error option \<times> job_world" where
  "RunQueuedTask dec cfg now stage t w =
     (if t_Type t \<notin> set job_types then (Some (UnsupportedJob (t_Type t)), w)
      else case startNow cfg now (t_ID t) (t_Type t) (dec (t_Options t)) stage w of
        Inl e \<Rightarrow> (Some e, w)
      | Inr (j, w') \<Rightarrow> (map_option RunFailed (job_result j), w'))"

definition error_text :: "job_error \<Rightarrow> string" where
  "error_text e = (case e of UnsupportedJob typ \<Rightarrow> ''unsupported job type '' @ [CHR 0x22] @ typ @ [CHR 0x22]
     | ConcurrencyLimit \<Rightarrow> ''job concurrency limit reached''
     | EnqueueFailed ErrQueueFull \<Rightarrow> ''durable task queue is full''
     | EnqueueFailed _ \<Rightarrow> ''UNIQUE constraint failed: task_queue.id''
     | RunFailed r \<Rightarrow> fst r)"

text \<open>A worker of the queue on a leased task: \<open>run\<close> of \<open>internal/queue/queue.go\<close> with the service as runner.\<close>

definition work :: "(string \<Rightarrow> job_opts) \<Rightarrow> config \<Rightarrow> QueueOptions \<Rightarrow> time \<Rightarrow> (string \<Rightarrow> stage_run) \<Rightarrow> string \<Rightarrow> QueuedTask \<Rightarrow>
    job_world \<Rightarrow> job_world" where
  "work dec cfg opt now stage worker t w =
     (let (err, w') = RunQueuedTask dec cfg now stage t w
      in w'\<lparr>jw_tasks := run_finish opt now worker t (map_option error_text err) (jw_tasks w')\<rparr>)"

text \<open>
  \<open>Submit\<close> with the durable queue, in two parts: up to the enqueued task, and the last update. The
  workers may run in between. \<open>enc\<close> writes the options column.
\<close>

definition submit_task :: "(job_opts \<Rightarrow> string) \<Rightarrow> config \<Rightarrow> string \<Rightarrow> string \<Rightarrow> job_opts \<Rightarrow> QueuedTask" where
  "submit_task enc cfg i typ opts = \<lparr>t_ID = i, t_Type = typ, t_Options = enc opts,
     t_Priority = (if as_bool (map_of opts ''scheduled'') then 10 else 100), t_Status = '''', t_Attempts = 0,
     t_MaxAttempts = que_MaxAttempts (Queue cfg), t_AvailableAt = 0, t_LeaseUntil = None, t_WorkerID = None,
     t_LastError = None, t_CreatedAt = 0, t_UpdatedAt = 0, t_StartedAt = None, t_EndedAt = None\<rparr>"

definition submit_begin ::
  "(job_opts \<Rightarrow> string) \<Rightarrow> config \<Rightarrow> time \<Rightarrow> string \<Rightarrow> string \<Rightarrow> job_opts \<Rightarrow> job_world \<Rightarrow> job_error option \<times> Job \<times> job_world" where
  "submit_begin enc cfg now i typ opts w =
     (let j = new_job now i typ opts
      in if typ \<notin> set job_types then (Some (UnsupportedJob typ), j, w)
         else (let w1 = w\<lparr>jw_store := SaveJob j (jw_store w), jw_jobs := db_SaveJob j (jw_jobs w)\<rparr>
               in case EnqueueTask now i (Some (submit_task enc cfg i typ opts)) (que_MaxPending (Queue cfg)) (jw_tasks w1) of
                    Inl e \<Rightarrow> (let (j', w2) = fail_job cfg now j (error_text (EnqueueFailed e), False) w1 in (Some (EnqueueFailed e), j', w2))
                  | Inr tasks \<Rightarrow> (None, j, w1\<lparr>jw_tasks := tasks\<rparr>)))"

definition submit_end :: "time \<Rightarrow> Job \<Rightarrow> job_world \<Rightarrow> Job \<times> job_world" where
  "submit_end now j w = updateJob now j JobPending 0 ''queued'' w"

definition CancelJobID :: "string \<Rightarrow> job_world \<Rightarrow> bool" where
  "CancelJobID i w \<longleftrightarrow> i \<in> set (jw_active w)"


subsection \<open>A run reaches an end\<close>

definition ended :: "Job \<Rightarrow> bool" where
  "ended j \<longleftrightarrow> j_EndedAt j \<noteq> None \<and> j_Status j \<in> {JobCompleted, JobFailed, JobCanceled}"

text \<open>The row of the job shows what the runner knows.\<close>

definition saved :: "Job \<Rightarrow> job_world \<Rightarrow> bool" where
  "saved j w \<longleftrightarrow> (\<exists>r. GetJobTenant (j_ID j) '''' (jw_jobs w) = Some r \<and> j_Status r = j_Status j \<and>
     j_EndedAt r = j_EndedAt j \<and> j_Error r = j_Error j \<and> j_Message r = j_Message j)"

definition same_queue :: "job_world \<Rightarrow> job_world \<Rightarrow> bool" where
  "same_queue w w' \<longleftrightarrow> jw_tasks w' = jw_tasks w \<and> jw_active w' = jw_active w"

lemma same_queue_trans: "same_queue w1 w2 \<Longrightarrow> same_queue w2 w3 \<Longrightarrow> same_queue w1 w3"
  by (simp add: same_queue_def)

lemma same_queue_refl [simp]: "same_queue w w"
  by (simp add: same_queue_def)

lemma find_db_SaveJob:
  "\<exists>r. GetJobTenant (j_ID j) '''' (db_SaveJob j rows) = Some r \<and> j_Status r = j_Status j \<and>
     j_EndedAt r = j_EndedAt j \<and> j_Error r = j_Error j \<and> j_Message r = j_Message j"
proof (cases "j_ID j \<in> j_ID ` set rows")
  case True
  then have "\<exists>r. find (\<lambda>r. j_ID r = j_ID j) (update_where (\<lambda>r. j_ID r = j_ID j) (overwrite_job j) rows) = Some r \<and>
      j_Status r = j_Status j \<and> j_EndedAt r = j_EndedAt j \<and> j_Error r = j_Error j \<and> j_Message r = j_Message j"
    by (induction rows) (auto simp: update_where_def overwrite_job_def)
  with True show ?thesis by (simp add: GetJobTenant_def db_SaveJob_def job_in_def)
next
  case False
  then have "find (\<lambda>r. j_ID r = j_ID j) (rows @ [x]) = (if j_ID x = j_ID j then Some x else None)" for x
    by (induction rows) auto
  with False show ?thesis by (simp add: GetJobTenant_def db_SaveJob_def job_in_def)
qed

lemma updateJob_ok:
  assumes "updateJob now j status p m w = (j', w')"
  shows "saved j' w'" and "same_queue w w'" and "j' = j\<lparr>j_Status := status, j_Progress := p, j_Message := m, j_UpdatedAt := now\<rparr>"
  using assms find_db_SaveJob [of j' "jw_jobs w"] by (auto simp: updateJob_def Let_def saved_def same_queue_def)

lemma complete_ok:
  assumes "complete now j m w = (j', w')"
  shows "ended j'" and "saved j' w'" and "same_queue w w'" and "j_ID j' = j_ID j" and "j_Status j' = JobCompleted"
proof -
  obtain w1 where u: "updateJob now (j\<lparr>j_EndedAt := Some now\<rparr>) JobCompleted 100 m w = (j', w1)"
    and w': "w' = w1\<lparr>jw_alerts := ResolveAlertIfActive now ''consecutive-job-failures'' (jw_alerts w1)\<rparr>"
    using assms by (auto simp: complete_def split: prod.splits)
  show "ended j'" "saved j' w'" "same_queue w w'" "j_ID j' = j_ID j" "j_Status j' = JobCompleted"
    using updateJob_ok [OF u] by (simp_all add: w' ended_def saved_def same_queue_def)
qed

lemma failure_alert_frame [simp]:
  "jw_jobs (failure_alert cfg now j w) = jw_jobs w" "jw_tasks (failure_alert cfg now j w) = jw_tasks w"
  "jw_active (failure_alert cfg now j w) = jw_active w"
  by (simp_all add: failure_alert_def Let_def)

lemma fail_job_ok:
  assumes "fail_job cfg now j e w = (j', w')"
  shows "ended j'" and "saved j' w'" and "same_queue w w'" and "j_ID j' = j_ID j"
    and "j_Status j' = (if snd e then JobCanceled else JobFailed)" and "j_Error j' = fst e"
proof -
  let ?s = "if snd e then JobCanceled else JobFailed"
  obtain w1 where u: "updateJob now (j\<lparr>j_EndedAt := Some now, j_Error := fst e\<rparr>) ?s (j_Progress j) (fst e) w = (j', w1)"
    and w': "w' = (if ?s = JobFailed then failure_alert cfg now j' w1 else w1)"
    using assms by (auto simp: fail_job_def Let_def split: prod.splits)
  have "saved j' w' \<longleftrightarrow> saved j' w1" by (simp add: w' saved_def)
  then show "saved j' w'" using updateJob_ok(1) [OF u] by simp
  show "ended j'" "same_queue w w'" "j_ID j' = j_ID j" "j_Status j' = ?s" "j_Error j' = fst e"
    using updateJob_ok(2,3) [OF u] by (simp_all add: w' ended_def same_queue_def)
qed

lemma run_stage_frame:
  assumes "run_stage now r (j, w) = (j', w')"
  shows "same_queue w w'" and "j_ID j' = j_ID j" and "j_Type j' = j_Type j"
proof -
  have "same_queue w (snd (fold f us (j, w))) \<and> j_ID (fst (fold f us (j, w))) = j_ID j \<and>
      j_Type (fst (fold f us (j, w))) = j_Type j"
    if "f = (\<lambda>(p, m) (j, w). updateJob now j JobRunning p m w)" for f us
  proof (induction us arbitrary: j w)
    case (Cons u us)
    obtain j1 w1 where u: "updateJob now j JobRunning (fst u) (snd u) w = (j1, w1)" by fastforce
    with updateJob_ok(2,3) [OF u] Cons.IH [of w1 j1] same_queue_trans show ?case
      by (auto simp: that split_beta)
  qed simp
  from this [OF refl, of "sr_updates r"] assms
  show "same_queue w w'" "j_ID j' = j_ID j" "j_Type j' = j_Type j"
    by (auto simp: run_stage_def set_stats_def split: prod.splits)
qed


lemma run_stages_ok:
  assumes "run_stages cfg now stage full typ ss (j, w) = (j', w')"
  shows "ended j' \<and> saved j' w' \<and> same_queue w w' \<and> j_ID j' = j_ID j"
  using assms
proof (induction ss arbitrary: j w)
  case Nil
  obtain j1 w1 where r: "run_stage now (stage ''export'') (j, w) = (j1, w1)" by fastforce
  note frame = run_stage_frame [OF r]
  show ?case
  proof (cases "\<exists>p. sr_end (stage ''export'') = StagePanic p")
    case True
    then obtain p where "fail_job cfg now j1 (''job panic: '' @ p, False) w1 = (j', w')"
      using Nil r by auto
    from fail_job_ok [OF this] frame same_queue_trans show ?thesis by metis
  next
    case False
    then have "complete now j1 (done_message typ) w1 = (j', w')"
      using Nil r by (auto split: stage_end.splits)
    from complete_ok [OF this] frame same_queue_trans show ?thesis by metis
  qed
next
  case (Cons s ss)
  obtain j1 w1 where r: "run_stage now (stage s) (j, w) = (j1, w1)" by fastforce
  note frame = run_stage_frame [OF r]
  consider e where "fail_job cfg now j1 e w1 = (j', w')"
    | j2 where "run_stages cfg now stage full typ ss (j2, w1) = (j', w')" "j_ID j2 = j_ID j1"
    using Cons.prems r by (auto simp: set_stats_def split: stage_end.splits if_splits)
  then show ?case
  proof cases
    case 1
    from fail_job_ok [OF this] frame same_queue_trans show ?thesis by metis
  next
    case 2
    from Cons.IH [OF 2(1)] 2(2) frame same_queue_trans show ?thesis by metis
  qed
qed

text \<open>Every run of a job ends: its row shows the end, and its slot is free again.\<close>

lemma run_job_ok:
  assumes "run_job cfg now stage (j, w) = (j', w')"
  shows "ended j' \<and> saved j' w' \<and> j_ID j' = j_ID j \<and> jw_tasks w' = jw_tasks w \<and>
    jw_active w' = removeAll (j_ID j) (jw_active w)"
proof -
  obtain j1 w1 where u: "updateJob now (j\<lparr>j_StartedAt := Some now\<rparr>) JobRunning 1 ''starting'' w = (j1, w1)" by fastforce
  obtain w2 where r: "run_type cfg now stage (j1, w1) = (j', w2)" and w': "w' = w2\<lparr>jw_active := removeAll (j_ID j) (jw_active w2)\<rparr>"
    using assms u by (auto simp: run_job_def split: prod.splits)
  then obtain stage' full ss where "run_stages cfg now stage' full (j_Type j1) ss (j1, w1) = (j', w2)"
    by (auto simp: run_type_def Let_def simp del: run_stages.simps split: if_splits)
  from run_stages_ok [OF this] updateJob_ok(2,3) [OF u] show ?thesis
    by (auto simp: w' saved_def same_queue_def)
qed


subsection \<open>Jobs and tasks\<close>



definition idle_world :: job_world where
  "idle_world = \<lparr>jw_store = NewMemory, jw_jobs = [], jw_events = (0, []), jw_alerts = [], jw_tasks = [], jw_active = []\<rparr>"

definition good_stage :: stage_run where
  "good_stage = \<lparr>sr_updates = [(50, ''half'')], sr_stats = [], sr_end = StageOK\<rparr>"

definition plain_options :: QueueOptions where
  "plain_options = \<lparr>qo_Workers = 1, qo_Lease = 60 * second, qo_Poll = second, qo_RetryBase = second, qo_WorkerID = ''w''\<rparr>"

text \<open>
  The last write of \<open>Submit\<close> can undo the result of its job: when a worker leases and completes
  the task between the enqueue and that write, the job stays pending for ever although its task is completed.
\<close>

lemma submit_overwrites_result:
  "let (err, j, w1) = submit_begin (\<lambda>_. '''') example_config 5 ''a'' ''fetch'' [] idle_world
   in case LeaseTask 6 6 ''w'' (60 * second) (jw_tasks w1) of
        Inl e \<Rightarrow> False
      | Inr (t, tasks) \<Rightarrow> (let w2 = work (\<lambda>_. []) example_config plain_options 7 (\<lambda>_. good_stage) ''w'' t (w1\<lparr>jw_tasks := tasks\<rparr>);
           w3 = snd (submit_end 8 j w2)
         in err = None \<and> map j_Status (jw_jobs w2) = [JobCompleted] \<and>
            map t_Status (jw_tasks w3) = [TaskCompleted] \<and> map j_Status (jw_jobs w3) = [JobPending])"
  by code_simp



end
