(* ===== verification/NetURL.thy ===== *)
theory NetURL
  imports Prelude
begin

text \<open>
  The parts of Go's \<open>strings\<close>, \<open>strconv\<close>, \<open>net\<close> and \<open>net/url\<close> packages that the subscription
  parser and the exporters use: searching and cutting, \<open>Atoi\<close>, host and port splitting, percent
  encoding in its five modes, query strings and \<open>url.Parse\<close>. None of it is code of the
  repository; the theories that use it state their properties over these functions.
\<close>

subsection \<open>Searching, cutting, replacing\<close>

text \<open>\<open>strings.Index\<close> (\<open>None\<close> for -1), \<open>LastIndex\<close> of a single byte, \<open>Cut\<close> and \<open>Count\<close>.\<close>

fun Index :: "string \<Rightarrow> string \<Rightarrow> nat option" where
  "Index [] sub = (if sub = [] then Some 0 else None)"
| "Index (c # s) sub = (if HasPrefix (c # s) sub then Some 0 else map_option Suc (Index s sub))"

definition IndexAny :: "string \<Rightarrow> string \<Rightarrow> nat option" where
  "IndexAny s chars = (let i = length (takeWhile (\<lambda>c. c \<notin> set chars) s)
     in if i < length s then Some i else None)"

definition LastIndexByte :: "string \<Rightarrow> char \<Rightarrow> nat option" where
  "LastIndexByte s c = (let i = length (takeWhile (\<lambda>d. d \<noteq> c) (rev s))
     in if i < length s then Some (length s - i - 1) else None)"

definition Cut :: "string \<Rightarrow> string \<Rightarrow> string \<times> string \<times> bool" where
  "Cut s sep = (case Index s sep of None \<Rightarrow> (s, '''', False)
     | Some i \<Rightarrow> (take i s, drop (i + length sep) s, True))"

definition Count :: "string \<Rightarrow> char \<Rightarrow> nat" where
  "Count s c = length (filter (\<lambda>d. d = c) s)"

text \<open>\<open>strings.ReplaceAll\<close> of one byte by one byte, and of CR LF by LF.\<close>

definition replace_char :: "char \<Rightarrow> char \<Rightarrow> string \<Rightarrow> string" where
  "replace_char a b s = map (\<lambda>c. if c = a then b else c) s"

fun replace_crlf :: "string \<Rightarrow> string" where
  "replace_crlf (c # d # s) = (if c = CHR 0x0D \<and> d = CHR 0x0A then CHR 0x0A # replace_crlf s
     else c # replace_crlf (d # s))"
| "replace_crlf s = s"

subsection \<open>Numbers\<close>

definition is_digit :: "char \<Rightarrow> bool" where
  "is_digit c \<longleftrightarrow> 48 \<le> (of_char c :: nat) \<and> (of_char c :: nat) < 58"

definition is_alpha :: "char \<Rightarrow> bool" where
  "is_alpha c = (let n = (of_char c :: nat) in (65 \<le> n \<and> n \<le> 90) \<or> (97 \<le> n \<and> n \<le> 122))"

text \<open>
  \<open>strconv.Atoi\<close>: the value and whether there was no error. A syntax error gives 0, a value out of
  range the nearest 64-bit integer.
\<close>

definition Atoi :: "string \<Rightarrow> int \<times> bool" where
  "Atoi s = (let neg = (case s of c # _ \<Rightarrow> c = CHR ''-'' | [] \<Rightarrow> False);
       body = (case s of c # ds \<Rightarrow> if c = CHR ''-'' \<or> c = CHR ''+'' then ds else s | [] \<Rightarrow> s)
     in if body = [] \<or> \<not> list_all is_digit body then (0, False)
        else (let v = (if neg then - int (dec_value body) else int (dec_value body))
          in if v > 2 ^ 63 - 1 then (2 ^ 63 - 1, False)
             else if v < - (2 ^ 63) then (- (2 ^ 63), False) else (v, True)))"

subsection \<open>Hosts and ports\<close>

text \<open>\<open>net.SplitHostPort\<close> and \<open>net.JoinHostPort\<close>.\<close>

definition SplitHostPort :: "string \<Rightarrow> (string \<times> string) option" where
  "SplitHostPort hostport = (case LastIndexByte hostport CHR '':'' of None \<Rightarrow> None
     | Some i \<Rightarrow>
       (if HasPrefix hostport ''['' then
          (case Index hostport '']'' of None \<Rightarrow> None
           | Some e \<Rightarrow> if e + 1 \<noteq> i then None
               else if CHR ''['' \<in> set (drop 1 hostport) \<or> CHR '']'' \<in> set (drop (e + 1) hostport) then None
               else Some (take (e - 1) (drop 1 hostport), drop (i + 1) hostport))
        else if CHR '':'' \<in> set (take i hostport) then None
        else if CHR ''['' \<in> set hostport \<or> CHR '']'' \<in> set hostport then None
        else Some (take i hostport, drop (i + 1) hostport)))"

definition JoinHostPort :: "string \<Rightarrow> string \<Rightarrow> string" where
  "JoinHostPort host port = (if CHR '':'' \<in> set host then ''['' @ host @ '']:'' @ port
     else host @ '':'' @ port)"

subsection \<open>Percent encoding\<close>

datatype escape_mode = encodePath | encodePathSegment | encodeHost | encodeZone | encodeUserPassword
  | encodeQueryComponent | encodeFragment

definition is_hex_char :: "char \<Rightarrow> bool" where
  "is_hex_char c = (let n = (of_char c :: nat) in (48 \<le> n \<and> n < 58) \<or> (97 \<le> n \<and> n < 103) \<or> (65 \<le> n \<and> n < 71))"

definition unhex :: "char \<Rightarrow> nat" where
  "unhex c = (let n = (of_char c :: nat) in
     if 48 \<le> n \<and> n < 58 then n - 48 else if 97 \<le> n \<and> n < 103 then n - 87 else n - 55)"

definition hex_upper :: "nat \<Rightarrow> char" where
  "hex_upper d = ''0123456789ABCDEF'' ! d"

definition unreserved :: "char \<Rightarrow> bool" where
  "unreserved c \<longleftrightarrow> is_alpha c \<or> is_digit c \<or> c \<in> set ''-_.~''"

definition shouldEscape :: "char \<Rightarrow> escape_mode \<Rightarrow> bool" where
  "shouldEscape c mode =
     (if is_alpha c \<or> is_digit c then False
      else if (mode = encodeHost \<or> mode = encodeZone) \<and>
              (c \<in> set ''!$&()*+,;=:[]<>'' \<or> c = CHR 0x27 \<or> c = CHR 0x22) then False
      else if c \<in> set ''-_.~'' then False
      else if c \<in> set ''$&+,/:;=?@'' then
        (case mode of encodePath \<Rightarrow> c = CHR ''?''
         | encodePathSegment \<Rightarrow> c = CHR ''/'' \<or> c = CHR '';'' \<or> c = CHR '','' \<or> c = CHR ''?''
         | encodeUserPassword \<Rightarrow> c = CHR ''@'' \<or> c = CHR ''/'' \<or> c = CHR ''?'' \<or> c = CHR '':''
         | encodeQueryComponent \<Rightarrow> True
         | encodeFragment \<Rightarrow> False
         | _ \<Rightarrow> True)
      else if mode = encodeFragment \<and> c \<in> set ''!()*'' then False
      else True)"

definition percent :: "char \<Rightarrow> string" where
  "percent c = [CHR ''%'', hex_upper (of_char c div 16), hex_upper (of_char c mod 16)]"

definition escape_char :: "escape_mode \<Rightarrow> char \<Rightarrow> string" where
  "escape_char mode c = (if c = CHR '' '' \<and> mode = encodeQueryComponent then ''+''
     else if shouldEscape c mode then percent c else [c])"

definition escape :: "string \<Rightarrow> escape_mode \<Rightarrow> string" where
  "escape s mode = concat (map (escape_char mode) s)"

abbreviation QueryEscape :: "string \<Rightarrow> string" where "QueryEscape s \<equiv> escape s encodeQueryComponent"
abbreviation PathEscape :: "string \<Rightarrow> string" where "PathEscape s \<equiv> escape s encodePathSegment"

fun unescape :: "escape_mode \<Rightarrow> string \<Rightarrow> string option" where
  "unescape mode [] = Some []"
| "unescape mode (c # s) =
     (if c = CHR ''%'' then
        (case s of a # b # rest \<Rightarrow>
           if is_hex_char a \<and> is_hex_char b
              \<and> \<not> (mode = encodeHost \<and> unhex a < 8 \<and> \<not> (a = CHR ''2'' \<and> b = CHR ''5''))
              \<and> \<not> (mode = encodeZone \<and> \<not> (a = CHR ''2'' \<and> b = CHR ''5'')
                    \<and> char_of (unhex a * 16 + unhex b) \<noteq> CHR '' ''
                    \<and> shouldEscape (char_of (unhex a * 16 + unhex b)) encodeHost)
           then map_option (\<lambda>t. char_of (unhex a * 16 + unhex b) # t) (unescape mode rest)
           else None
         | _ \<Rightarrow> None)
      else if c = CHR ''+'' then
        map_option (\<lambda>t. (if mode = encodeQueryComponent then CHR '' '' else CHR ''+'') # t) (unescape mode s)
      else if (mode = encodeHost \<or> mode = encodeZone) \<and> (of_char c :: nat) < 128 \<and> shouldEscape c mode then None
      else map_option (\<lambda>t. c # t) (unescape mode s))"

abbreviation QueryUnescape :: "string \<Rightarrow> string option" where
  "QueryUnescape s \<equiv> unescape encodeQueryComponent s"

subsection \<open>Query strings\<close>

text \<open>
  \<open>url.Values\<close>. The code only sets single values, and reads the first value of a key, which is what
  \<open>Get\<close> returns, so a key maps to its first value here; parsing keeps the first occurrence.
  \<open>ParseQuery\<close> returns the valid pairs and whether all were valid.
\<close>

type_synonym url_values = "(string, string list) gmap"

definition Values_Get :: "url_values \<Rightarrow> string \<Rightarrow> string" where
  "Values_Get q k = (case gget [] q k of [] \<Rightarrow> '''' | v # _ \<Rightarrow> v)"

definition Values_Set :: "string \<Rightarrow> string \<Rightarrow> url_values \<Rightarrow> url_values" where
  "Values_Set k v q = gput k [v] q"

definition Values_Add :: "string \<Rightarrow> string \<Rightarrow> url_values \<Rightarrow> url_values" where
  "Values_Add k v q = gput k (gget [] q k @ [v]) q"

definition encode_pairs :: "url_values \<Rightarrow> string list" where
  "encode_pairs q = concat (map (\<lambda>k. map (\<lambda>v. QueryEscape k @ ''='' @ QueryEscape v) (gget [] q k))
     (sort (keys q)))"

definition Values_Encode :: "url_values \<Rightarrow> string" where
  "Values_Encode q = Join (encode_pairs q) ''&''"

definition query_piece :: "string \<Rightarrow> (string \<times> string) option" where
  "query_piece piece = (if CHR '';'' \<in> set piece then None
     else (case Cut piece ''='' of (k, v, _) \<Rightarrow>
       (case (QueryUnescape k, QueryUnescape v) of (Some k', Some v') \<Rightarrow> Some (k', v') | _ \<Rightarrow> None)))"

fun parse_pieces :: "string list \<Rightarrow> url_values \<Rightarrow> url_values \<times> bool" where
  "parse_pieces [] q = (q, True)"
| "parse_pieces (p # ps) q = (if p = '''' then parse_pieces ps q
     else case query_piece p of None \<Rightarrow> (fst (parse_pieces ps q), False)
       | Some (k, v) \<Rightarrow> parse_pieces ps (Values_Add k v q))"

definition ParseQuery :: "string \<Rightarrow> url_values \<times> bool" where
  "ParseQuery s = parse_pieces (Split CHR ''&'' s) []"

subsection \<open>URLs\<close>

record URL =
  uri_Scheme :: string
  uri_Opaque :: string
  uri_User :: "(string \<times> string option) option"
  uri_Host :: string
  uri_Path :: string
  uri_RawQuery :: string
  uri_Fragment :: string

definition zero_url :: URL where
  "zero_url = \<lparr>uri_Scheme = '''', uri_Opaque = '''', uri_User = None, uri_Host = '''', uri_Path = '''',
     uri_RawQuery = '''', uri_Fragment = ''''\<rparr>"

text \<open>\<open>getScheme\<close>: \<open>None\<close> is the error of a leading colon.\<close>

definition scheme_char :: "char \<Rightarrow> bool" where
  "scheme_char c \<longleftrightarrow> is_alpha c \<or> is_digit c \<or> c \<in> set ''+-.''"

definition getScheme :: "string \<Rightarrow> (string \<times> string) option" where
  "getScheme s = (let scheme = takeWhile scheme_char s; rest = dropWhile scheme_char s
     in if HasPrefix rest '':'' then
          (if scheme = '''' then None
           else if is_alpha (hd scheme) then Some (scheme, drop 1 rest) else Some ('''', s))
        else Some ('''', s))"

definition validOptionalPort :: "string \<Rightarrow> bool" where
  "validOptionalPort p \<longleftrightarrow> (case p of [] \<Rightarrow> True | c # ds \<Rightarrow> c = CHR '':'' \<and> list_all is_digit ds)"

definition validUserinfo :: "string \<Rightarrow> bool" where
  "validUserinfo s = list_all (\<lambda>c. is_alpha c \<or> is_digit c \<or> c \<in> set ''-._:~!$&()*+,;=%@'' \<or> c = CHR 0x27) s"

definition parseHost :: "string \<Rightarrow> string option" where
  "parseHost host =
     (if HasPrefix host ''['' then
        (case LastIndexByte host CHR '']'' of None \<Rightarrow> None
         | Some i \<Rightarrow>
           if \<not> validOptionalPort (drop (i + 1) host) then None
           else (case Index (take i host) ''%25'' of
               Some z \<Rightarrow> (case (unescape encodeHost (take z host), unescape encodeZone (drop z (take i host)),
                   unescape encodeHost (drop i host)) of
                 (Some h1, Some h2, Some h3) \<Rightarrow> Some (h1 @ h2 @ h3) | _ \<Rightarrow> None)
             | None \<Rightarrow> unescape encodeHost host))
      else (case LastIndexByte host CHR '':'' of
          Some i \<Rightarrow> if validOptionalPort (drop i host) then unescape encodeHost host else None
        | None \<Rightarrow> unescape encodeHost host))"

definition parseUserinfo :: "string \<Rightarrow> (string \<times> string option) option" where
  "parseUserinfo userinfo = (if \<not> validUserinfo userinfo then None
     else case Cut userinfo '':'' of (name, pass, found) \<Rightarrow>
       (if \<not> found then map_option (\<lambda>n. (n, None)) (unescape encodeUserPassword userinfo)
        else (case (unescape encodeUserPassword name, unescape encodeUserPassword pass) of
            (Some n, Some p) \<Rightarrow> Some (n, Some p) | _ \<Rightarrow> None)))"

definition parseAuthority :: "string \<Rightarrow> ((string \<times> string option) option \<times> string) option" where
  "parseAuthority authority = (case LastIndexByte authority CHR ''@'' of
     None \<Rightarrow> map_option (\<lambda>h. (None, h)) (parseHost authority)
   | Some i \<Rightarrow> (case parseHost (drop (i + 1) authority) of None \<Rightarrow> None
       | Some h \<Rightarrow> map_option (\<lambda>u. (Some u, h)) (parseUserinfo (take i authority))))"

definition has_ctl :: "string \<Rightarrow> bool" where
  "has_ctl s = list_ex (\<lambda>c. (of_char c :: nat) < 32 \<or> (of_char c :: nat) = 127) s"

definition cut_query :: "string \<Rightarrow> string \<times> string" where
  "cut_query rest = (case Cut rest ''?'' of (a, b, _) \<Rightarrow> (a, b))"

definition parse_rest :: "URL \<Rightarrow> string \<Rightarrow> URL option" where
  "parse_rest u rest =
     (if \<not> HasPrefix rest ''/'' \<and> uri_Scheme u \<noteq> '''' then Some (u\<lparr>uri_Opaque := rest\<rparr>)
      else if \<not> HasPrefix rest ''/'' \<and> CHR '':'' \<in> set (takeWhile (\<lambda>c. c \<noteq> CHR ''/'') rest) then None
      else if (uri_Scheme u \<noteq> '''' \<or> \<not> HasPrefix rest ''///'') \<and> HasPrefix rest ''//'' then
        (let authority = takeWhile (\<lambda>c. c \<noteq> CHR ''/'') (drop 2 rest);
             path = dropWhile (\<lambda>c. c \<noteq> CHR ''/'') (drop 2 rest)
         in case parseAuthority authority of None \<Rightarrow> None
            | Some (user, host) \<Rightarrow> map_option (\<lambda>p. u\<lparr>uri_User := user, uri_Host := host, uri_Path := p\<rparr>)
                (unescape encodePath path))
      else map_option (\<lambda>p. u\<lparr>uri_Path := p\<rparr>) (unescape encodePath rest))"

definition parse_nofrag :: "string \<Rightarrow> URL option" where
  "parse_nofrag raw = (if has_ctl raw then None
     else if raw = ''*'' then Some (zero_url\<lparr>uri_Path := ''*''\<rparr>)
     else (case getScheme raw of None \<Rightarrow> None
       | Some (scheme, rest) \<Rightarrow> (case cut_query rest of (rest', query) \<Rightarrow>
           parse_rest (zero_url\<lparr>uri_Scheme := ToLower scheme, uri_RawQuery := query\<rparr>) rest')))"

definition url_Parse :: "string \<Rightarrow> URL option" where
  "url_Parse raw = (case Cut raw ''#'' of (u, frag, _) \<Rightarrow>
     (case parse_nofrag u of None \<Rightarrow> None
      | Some url \<Rightarrow> if frag = '''' then Some url
          else map_option (\<lambda>f. url\<lparr>uri_Fragment := f\<rparr>) (unescape encodeFragment frag)))"

definition url_Query :: "URL \<Rightarrow> url_values" where
  "url_Query u = fst (ParseQuery (uri_RawQuery u))"

text \<open>\<open>u.User.Username()\<close> and \<open>u.User.Password()\<close>, on a possibly nil receiver.\<close>

definition Username :: "URL \<Rightarrow> string" where
  "Username u = (case uri_User u of None \<Rightarrow> '''' | Some (n, _) \<Rightarrow> n)"

definition user_Password :: "URL \<Rightarrow> string option" where
  "user_Password u = (case uri_User u of None \<Rightarrow> None | Some (_, p) \<Rightarrow> p)"


subsection \<open>Percent encoding round trips\<close>

lemma hex_upper_all: "list_all (\<lambda>d. is_hex_char (hex_upper d) \<and> unhex (hex_upper d) = d \<and>
    (is_alpha (hex_upper d) \<or> is_digit (hex_upper d))) [0..<16]"
  by code_simp

lemma hex_upper_ok:
  assumes "d < 16"
  shows "is_hex_char (hex_upper d)" "unhex (hex_upper d) = d" "is_alpha (hex_upper d) \<or> is_digit (hex_upper d)"
  using hex_upper_all assms by (simp_all only: list_all_iff set_upt atLeastLessThan_iff) simp_all

lemma char_halves: "of_char (c :: char) div 16 < (16 :: nat)" "of_char (c :: char) mod 16 < (16 :: nat)"
proof -
  have "(of_char c :: nat) < 256" by (metis mod_less_divisor of_char_mod_256 zero_less_numeral)
  then show "of_char c div 16 < (16 :: nat)" "of_char c mod 16 < (16 :: nat)" by (simp_all add: less_mult_imp_div_less)
qed

lemma unescape_percent:
  assumes "mode \<noteq> encodeHost" and "mode \<noteq> encodeZone"
  shows "unescape mode (percent c @ t) = map_option (\<lambda>s. c # s) (unescape mode t)"
proof -
  have "char_of (of_char c div 16 * 16 + of_char c mod 16 :: nat) = c" by simp
  with assms show ?thesis
    by (simp add: percent_def hex_upper_ok [OF char_halves(1)] hex_upper_ok [OF char_halves(2)]
        del: div_mult_mod_eq)
qed

lemma never_plain: "shouldEscape CHR ''%'' mode" "shouldEscape CHR ''+'' encodeQueryComponent"
    "shouldEscape CHR '' '' encodeQueryComponent"
  by (cases mode) (simp_all add: shouldEscape_def is_alpha_def is_digit_def)

lemma unescape_char:
  assumes "mode \<noteq> encodeHost" and "mode \<noteq> encodeZone"
  shows "unescape mode (escape_char mode c @ t) = map_option (\<lambda>s. c # s) (unescape mode t)"
  using assms never_plain unescape_percent [OF assms] by (auto simp: escape_char_def)

lemma unescape_escape_append:
  assumes "mode \<noteq> encodeHost" and "mode \<noteq> encodeZone"
  shows "unescape mode (escape s mode @ t) = map_option ((@) s) (unescape mode t)"
proof (induction s)
  case Nil
  show ?case by (cases "unescape mode t") (simp_all add: escape_def)
next
  case (Cons c s)
  have "escape (c # s) mode @ t = escape_char mode c @ (escape s mode @ t)" by (simp add: escape_def)
  with Cons unescape_char [OF assms] show ?case by (cases "unescape mode t") simp_all
qed

lemma unescape_escape [simp]:
  assumes "mode \<noteq> encodeHost" and "mode \<noteq> encodeZone"
  shows "unescape mode (escape s mode) = Some s"
  using unescape_escape_append [OF assms, of s "[]"] by simp

text \<open>What an escaped query component is made of.\<close>

definition query_char :: "char \<Rightarrow> bool" where
  "query_char c \<longleftrightarrow> is_alpha c \<or> is_digit c \<or> c \<in> set ''-_.~%+''"

lemma query_char_percent: "c \<in> set (percent d) \<Longrightarrow> query_char c"
  using hex_upper_ok(3) [OF char_halves(1) [of d]] hex_upper_ok(3) [OF char_halves(2) [of d]]
  by (auto simp: percent_def query_char_def)

lemma query_char_escape: "c \<in> set (QueryEscape s) \<Longrightarrow> query_char c"
proof -
  assume "c \<in> set (QueryEscape s)"
  then obtain d where d: "c \<in> set (escape_char encodeQueryComponent d)" by (auto simp: escape_def)
  show ?thesis
  proof (cases "shouldEscape d encodeQueryComponent")
    case True
    with d show ?thesis
      using query_char_percent by (auto simp: escape_char_def query_char_def split: if_splits)
  next
    case False
    then have "is_alpha d \<or> is_digit d \<or> d \<in> set ''-_.~''"
      by (auto simp: shouldEscape_def split: if_splits)
    with d False never_plain(3) show ?thesis
      by (auto simp: escape_char_def query_char_def split: if_splits)
  qed
qed

lemma not_query_char: "\<not> query_char CHR ''&''" "\<not> query_char CHR ''=''" "\<not> query_char CHR ''#''"
    "\<not> query_char CHR ''?''" "\<not> query_char CHR ''@''" "\<not> query_char CHR '':''" "\<not> query_char CHR ''/''"
    "\<not> query_char CHR '';''" "\<not> query_char CHR '' ''"
  by code_simp+

lemma QueryEscape_free: "\<not> query_char d \<Longrightarrow> d \<notin> set (QueryEscape s)"
  using query_char_escape by blast

subsection \<open>Cutting\<close>

lemma HasPrefix_append [simp]: "HasPrefix (p @ s) p"
  by (simp add: HasPrefix_def)

lemma HasPrefix_single: "HasPrefix s [c] \<longleftrightarrow> (\<exists>t. s = c # t)"
  by (cases s) (auto simp: HasPrefix_def)

lemma Index_single: "c \<notin> set a \<Longrightarrow> Index (a @ c # b) [c] = Some (length a)"
  by (induction a) (auto simp: HasPrefix_def)

lemma Index_single_None: "c \<notin> set a \<Longrightarrow> Index a [c] = None"
  by (induction a) (auto simp: HasPrefix_def)

lemma Cut_single [simp]: "c \<notin> set a \<Longrightarrow> Cut (a @ c # b) [c] = (a, b, True)"
  by (simp add: Cut_def Index_single)

lemma Cut_single_None [simp]: "c \<notin> set a \<Longrightarrow> Cut a [c] = (a, '''', False)"
  by (simp add: Cut_def Index_single_None)

lemma LastIndexByte_snoc: "c \<notin> set b \<Longrightarrow> LastIndexByte (a @ c # b) c = Some (length a)"
proof -
  assume b: "c \<notin> set b"
  have "takeWhile (\<lambda>d. d \<noteq> c) (rev b @ c # rev a) = rev b"
    using b by (simp add: takeWhile_append)
  then show ?thesis by (simp add: LastIndexByte_def)
qed

lemma LastIndexByte_None: "c \<notin> set a \<Longrightarrow> LastIndexByte a c = None"
proof -
  assume "c \<notin> set a"
  then have "takeWhile (\<lambda>d. d \<noteq> c) (rev a) = rev a" by (auto intro: takeWhile_eq_all_conv [THEN iffD2])
  then have "length (takeWhile (\<lambda>d. d \<noteq> c) (rev a)) = length a" by (simp only: length_rev)
  then show ?thesis by (simp only: LastIndexByte_def Let_def) simp
qed

subsection \<open>A query of one setting\<close>

lemma ParseQuery_single: "ParseQuery (Values_Encode (Values_Set k v [])) = ([(k, [v])], True)"
proof -
  let ?p = "QueryEscape k @ ''='' @ QueryEscape v"
  have "Values_Set k v [] = [(k, [v])]" by (simp add: Values_Set_def gput_def)
  then have e: "Values_Encode (Values_Set k v []) = ?p"
    by (simp add: Values_Encode_def encode_pairs_def gget_def)
  have free: "CHR ''&'' \<notin> set ?p" "CHR '';'' \<notin> set ?p" "CHR ''='' \<notin> set (QueryEscape k)"
    using not_query_char by (auto dest: query_char_escape)
  then have "query_piece ?p = Some (k, v)" by (simp add: query_piece_def)
  moreover have "?p \<noteq> ''''" by simp
  moreover have "Split CHR ''&'' ?p = [?p]" using free(1) by (rule Split_id)
  ultimately show ?thesis
    by (simp add: ParseQuery_def e Values_Add_def gput_def gget_def)
qed

end
