(* ===== verification/Dynamic.thy ===== *)
theory Dynamic
  imports NetURL Base64 Model "HOL-Library.Finite_Map"
begin

text \<open>
  The dynamically typed values of decoded YAML and JSON documents (\<open>any\<close>, \<open>map[string]any\<close>), the
  conversions \<open>internal/parser/clash.go\<close> reads them with, and the codecs. The YAML package is not
  part of the repository: it is, with \<open>encoding/json\<close>, a field of the record \<open>codecs\<close>, an argument
  of every definition that encodes or decodes.

  \<open>AInt\<close>, \<open>AInt64\<close>, \<open>AFloat\<close>, \<open>ABool\<close>, \<open>AStr\<close> are the scalar dynamic types the code switches on,
  \<open>AList\<close> is \<open>[]any\<close> (and \<open>[]string\<close>, which the exporter writes and which reads back as \<open>[]any\<close>),
  \<open>AMap\<close> is \<open>map[string]any\<close>, and \<open>AOther\<close> is a value of any further type (\<open>uint64\<close>, \<open>time.Time\<close>,
  \<open>map[any]any\<close>), which no case of the code matches.
\<close>

datatype any =
  ANil | AStr string | AInt int | AInt64 int | AFloat real | ABool bool
  | AList "any list" | AMap "(string, any) fmap" | AOther string

type_synonym amap = "(string, any) fmap"

record codecs =
  yaml_Unmarshal :: "string \<Rightarrow> any option"
  yaml_Marshal :: "any \<Rightarrow> string option"
  json_Unmarshal :: "string \<Rightarrow> any option"
  json_Marshal :: "any \<Rightarrow> string option"

text \<open>Codecs that read nothing and write an empty object, for concrete inputs.\<close>

definition tiny_codecs :: codecs where
  "tiny_codecs = \<lparr>yaml_Unmarshal = (\<lambda>_. None), yaml_Marshal = (\<lambda>_. Some ''{}''),
     json_Unmarshal = (\<lambda>_. None), json_Marshal = (\<lambda>_. Some ''{}'')\<rparr>"

text \<open>\<open>m[k]\<close> on a \<open>map[string]any\<close>: nil when absent.\<close>

definition aget :: "amap \<Rightarrow> string \<Rightarrow> any" where
  "aget m k = (case fmlookup m k of None \<Rightarrow> ANil | Some v \<Rightarrow> v)"

text \<open>\<open>var opts map[string]any; yaml.Unmarshal(raw, \<and>opts)\<close>: \<open>null\<close> leaves the map nil.\<close>

definition as_opts :: "any option \<Rightarrow> amap option" where
  "as_opts v = (case v of Some (AMap m) \<Rightarrow> Some m | Some ANil \<Rightarrow> Some fmempty | _ \<Rightarrow> None)"

definition yaml_opts :: "codecs \<Rightarrow> string \<Rightarrow> amap option" where
  "yaml_opts c raw = as_opts (yaml_Unmarshal c raw)"

subsection \<open>Conversions\<close>

definition truthy :: "string \<Rightarrow> bool" where
  "truthy s \<longleftrightarrow> ToLower (TrimSpace s) \<in> {''1'', ''true'', ''yes'', ''tls'', ''reality''}"

fun asString :: "any \<Rightarrow> string" where
  "asString (AStr t) = t"
| "asString (AInt t) = itoa t"
| "asString (AInt64 t) = itoa t"
| "asString (AFloat t) = itoa (go_int t)"
| "asString (ABool t) = (if t then ''true'' else ''false'')"
| "asString _ = ''''"

fun asInt :: "any \<Rightarrow> int" where
  "asInt (AInt t) = t"
| "asInt (AInt64 t) = t"
| "asInt (AFloat t) = go_int t"
| "asInt (AStr t) = fst (Atoi (TrimSpace t))"
| "asInt _ = 0"

fun asBool :: "any \<Rightarrow> bool" where
  "asBool (ABool t) = t"
| "asBool (AStr t) = truthy t"
| "asBool (AInt t) = (t \<noteq> 0)"
| "asBool _ = False"

fun asMap :: "any \<Rightarrow> amap option" where
  "asMap (AMap m) = Some m"
| "asMap _ = None"

fun asCSV :: "any \<Rightarrow> string" where
  "asCSV (AList values) = Join (filter (\<lambda>item. item \<noteq> '''') (map asString values)) '',''"
| "asCSV v = asString v"

fun firstListValue :: "any \<Rightarrow> string" where
  "firstListValue (AList (v # _)) = asString v"
| "firstListValue (AList []) = ''''"
| "firstListValue v = asString v"

fun firstAny :: "amap \<Rightarrow> string list \<Rightarrow> any" where
  "firstAny m [] = ANil"
| "firstAny m (key # ks) = (case fmlookup m key of Some v \<Rightarrow> v | None \<Rightarrow> firstAny m ks)"

fun firstStr :: "amap \<Rightarrow> string list \<Rightarrow> string" where
  "firstStr m [] = ''''"
| "firstStr m (k # ks) = (if asString (aget m k) \<noteq> '''' then asString (aget m k) else firstStr m ks)"

definition boolToTLS :: "any \<Rightarrow> string" where
  "boolToTLS v = (if asBool v then ''tls'' else '''')"

text \<open>The non-empty values of string settings.\<close>

fun firstNonEmpty :: "string list \<Rightarrow> string" where
  "firstNonEmpty [] = ''''"
| "firstNonEmpty (v # vs) = (if TrimSpace v \<noteq> '''' then v else firstNonEmpty vs)"

subsection \<open>Merging option maps\<close>

text \<open>
  \<open>mergeMissing\<close> of the exporter: entries of \<open>original\<close> absent from \<open>target\<close> are added, two maps under
  the same key are merged recursively, everything else stays as it is in \<open>target\<close>. The keys are
  independent, so the range order of the Go map does not matter.
\<close>

primrec merge_any :: "any \<Rightarrow> any \<Rightarrow> any" where
  "merge_any (AMap cur) = (\<lambda>orig. case orig of
     AMap om \<Rightarrow> AMap (om ++\<^sub>f fmmap_keys (\<lambda>k f. f (aget om k)) (fmmap merge_any cur))
   | _ \<Rightarrow> AMap cur)"
| "merge_any ANil = (\<lambda>_. ANil)"
| "merge_any (AStr s) = (\<lambda>_. AStr s)"
| "merge_any (AInt i) = (\<lambda>_. AInt i)"
| "merge_any (AInt64 i) = (\<lambda>_. AInt64 i)"
| "merge_any (AFloat r) = (\<lambda>_. AFloat r)"
| "merge_any (ABool b) = (\<lambda>_. ABool b)"
| "merge_any (AList vs) = (\<lambda>_. AList vs)"
| "merge_any (AOther s) = (\<lambda>_. AOther s)"

definition mergeMissing :: "amap \<Rightarrow> amap \<Rightarrow> amap" where
  "mergeMissing target original =
     original ++\<^sub>f fmmap_keys (\<lambda>key current. merge_any current (aget original key)) target"

subsection \<open>What the merge keeps\<close>

lemma fmlookup_mergeMissing:
  "fmlookup (mergeMissing target original) k = (case fmlookup target k of
     Some cur \<Rightarrow> Some (merge_any cur (aget original k)) | None \<Rightarrow> fmlookup original k)"
  by (auto simp: mergeMissing_def fmdom_notD split: option.splits)

lemma merge_any_scalar: "asMap cur = None \<Longrightarrow> merge_any cur v = cur"
  by (cases cur) simp_all

lemma merge_any_self [simp]: "merge_any v v = v"
proof (induction v)
  case (AMap m)
  have "m ++\<^sub>f fmmap_keys (\<lambda>k f. f (aget m k)) (fmmap merge_any m) = m"
  proof (rule fmap_ext)
    fix k
    show "fmlookup (m ++\<^sub>f fmmap_keys (\<lambda>k f. f (aget m k)) (fmmap merge_any m)) k = fmlookup m k"
      using AMap by (cases "fmlookup m k") (auto simp: aget_def intro: fmran'I)
  qed
  then show ?case by simp
qed simp_all

lemma merge_any_nil [simp]: "merge_any v ANil = v"
  by (cases v) simp_all

lemma mergeMissing_self [simp]: "mergeMissing m m = m"
  by (rule fmap_ext) (auto simp: fmlookup_mergeMissing aget_def split: option.splits)

end
