(* ===== verification/Exporter.thy ===== *)
theory Exporter
  imports Dynamic Config
begin

text \<open>
  \<open>internal/exporter/exporter.go\<close>: the subscription formats. Unique proxy names, raw and Base64
  link lists, the Clash/Mihomo document with one proxy object per node, and the export directory
  with its rotation of old runs. A slice of node pointers is a \<open>node option list\<close>, the set of used
  names the list of names in the order they were claimed.
\<close>

subsection \<open>Unique names\<close>

record names =
  used :: "string list"
  next_suffix :: "(string, int) gmap"

definition reserved :: "string list" where
  "reserved = [''DIRECT'', ''REJECT'', ''REJECT-DROP'', ''PASS'', ''COMPATIBLE'', ''GLOBAL'']"

definition reservedProxyNames :: names where
  "reservedProxyNames = \<lparr>used = reserved, next_suffix = []\<rparr>"

definition sanitizeYAMLName :: "string \<Rightarrow> int \<Rightarrow> string" where
  "sanitizeYAMLName name0 i = (let name = replace_char CHR 0x0A CHR '' '' (replace_char CHR 0x22 CHR 0x27 name0)
     in if TrimSpace name = '''' then ''node-'' @ itoa (i + 1) else name)"

definition suffixed :: "string \<Rightarrow> int \<Rightarrow> string" where
  "suffixed base sfx = base @ '' #'' @ itoa sfx"

lemma suffixed_inject [simp]: "suffixed base i = suffixed base j \<longleftrightarrow> i = j"
  by (simp add: suffixed_def)

text \<open>
  The search loop of \<open>claimUniqueName\<close>: only finitely many names are used, so it ends. It returns
  the first free candidate and the sfx after it.
\<close>

function claim_loop :: "string list \<Rightarrow> string \<Rightarrow> int \<Rightarrow> string \<times> int" where
  "claim_loop taken base sfx = (let candidate = suffixed base sfx in
     if candidate \<in> set taken then claim_loop taken base (sfx + 1) else (candidate, sfx + 1))"
  by auto

definition taken_from :: "string list \<Rightarrow> string \<Rightarrow> int \<Rightarrow> int set" where
  "taken_from taken base sfx = {i. sfx \<le> i \<and> suffixed base i \<in> set taken}"

lemma finite_taken_from [simp]: "finite (taken_from taken base sfx)"
proof -
  have "finite (suffixed base -` set taken)"
    by (rule finite_vimageI) (simp_all add: inj_def)
  then show ?thesis by (rule rev_finite_subset) (auto simp: taken_from_def)
qed

termination claim_loop
proof (relation "measure (\<lambda>(taken, base, sfx). card (taken_from taken base sfx))")
  fix taken base sfx candidate
  assume "candidate = suffixed base sfx" and "candidate \<in> set taken"
  then have "sfx \<in> taken_from taken base sfx" "sfx \<notin> taken_from taken base (sfx + 1)"
    "taken_from taken base (sfx + 1) \<subseteq> taken_from taken base sfx"
    by (auto simp: taken_from_def)
  then have "taken_from taken base (sfx + 1) \<subset> taken_from taken base sfx" by blast
  then show "((taken, base, sfx + 1), (taken, base, sfx))
      \<in> measure (\<lambda>(taken, base, sfx). card (taken_from taken base sfx))"
    by (simp add: psubset_card_mono)
qed simp

declare claim_loop.simps [simp del]

definition claimUniqueName :: "string \<Rightarrow> int \<Rightarrow> names \<Rightarrow> string \<times> names" where
  "claimUniqueName name i ns = (let base = sanitizeYAMLName name i in
     if base \<in> set (used ns) then
       (case claim_loop (used ns) base (max (gget 0 (next_suffix ns) base) 2) of (candidate, sfx) \<Rightarrow>
          (candidate, ns\<lparr>used := used ns @ [candidate], next_suffix := gput base sfx (next_suffix ns)\<rparr>))
     else (base, ns\<lparr>used := used ns @ [base]\<rparr>))"

subsection \<open>Links\<close>

definition decodeBase64Payload :: "string \<Rightarrow> string option" where
  "decodeBase64Payload value = (let v = TrimSpace value in
     case find (\<lambda>e. Decode e v \<noteq> None) [RawStdEncoding, StdEncoding, RawURLEncoding, URLEncoding] of
       None \<Rightarrow> None | Some e \<Rightarrow> Decode e v)"

text \<open>
  \<open>rawURIWithName\<close>. (A VMess payload that is the JSON text \<open>null\<close> would make the assignment to a nil
  map panic; \<open>parseVMess\<close> rejects such a link, so no node carries it.)
\<close>

definition vmess_with_name :: "codecs \<Rightarrow> string \<Rightarrow> string \<Rightarrow> string" where
  "vmess_with_name c raw name = (case Cut raw ''://'' of (_, encoded, found) \<Rightarrow>
     if \<not> found then raw
     else (case decodeBase64Payload encoded of None \<Rightarrow> raw
       | Some payload \<Rightarrow> (case json_Unmarshal c payload of
           Some (AMap config) \<Rightarrow> (case json_Marshal c (AMap (fmupd ''ps'' (AStr name) config)) of
               None \<Rightarrow> raw | Some payload \<Rightarrow> ''vmess://'' @ Encode StdEncoding payload)
         | _ \<Rightarrow> raw)))"

definition ssr_with_name :: "string \<Rightarrow> string \<Rightarrow> string" where
  "ssr_with_name raw name = (case Cut raw ''://'' of (_, encoded, found) \<Rightarrow>
     if \<not> found then raw
     else (case decodeBase64Payload encoded of None \<Rightarrow> raw
       | Some payload \<Rightarrow> (case Cut payload ''/?'' of (base, query, _) \<Rightarrow>
           (case ParseQuery query of (values, ok) \<Rightarrow>
             if \<not> ok then raw
             else ''ssr://'' @ Encode RawURLEncoding (TrimSuffix base ''/'' @ ''/?'' @
               Values_Encode (Values_Set ''remarks'' (Encode RawURLEncoding name) values))))))"

definition rawURIWithName :: "codecs \<Rightarrow> string \<Rightarrow> protocol \<Rightarrow> string \<Rightarrow> string" where
  "rawURIWithName c raw protocol name =
     (if protocol = ProtoVMess then vmess_with_name c raw name
      else if protocol = ProtoSSR then ssr_with_name raw name
      else (let raw' = (case LastIndexByte raw CHR ''#'' of None \<Rightarrow> raw | Some i \<Rightarrow> take i raw)
        in raw' @ ''#'' @ PathEscape name))"

fun render_lines :: "codecs \<Rightarrow> int \<Rightarrow> names \<Rightarrow> node option list \<Rightarrow> string list" where
  "render_lines c i ns [] = []"
| "render_lines c i ns (None # nodes) = render_lines c (i + 1) ns nodes"
| "render_lines c i ns (Some n # nodes) = (if n_RawURI n = '''' then render_lines c (i + 1) ns nodes
     else (case claimUniqueName (n_Name n) i ns of (name, ns') \<Rightarrow>
       rawURIWithName c (n_RawURI n) (n_Protocol n) name # render_lines c (i + 1) ns' nodes))"

definition RenderRaw :: "codecs \<Rightarrow> node option list \<Rightarrow> string" where
  "RenderRaw c nodes = concat (map (\<lambda>line. line @ [CHR 0x0A]) (render_lines c 0 reservedProxyNames nodes))"

definition RenderBase64 :: "codecs \<Rightarrow> node option list \<Rightarrow> string" where
  "RenderBase64 c nodes = Encode StdEncoding (RenderRaw c nodes)"

subsection \<open>Proxy objects\<close>

definition first :: "string \<Rightarrow> string \<Rightarrow> string" where
  "first v def = (if TrimSpace v = '''' then def else v)"

definition intValue :: "string \<Rightarrow> int" where
  "intValue value = fst (Atoi (TrimSpace value))"

definition splitCSV :: "string \<Rightarrow> string list" where
  "splitCSV value = filter (\<lambda>item. item \<noteq> '''') (map TrimSpace (Split CHR '','' value))"

abbreviation xget :: "node \<Rightarrow> string \<Rightarrow> string" where
  "xget n key \<equiv> gget '''' (n_Extra n) key"

text \<open>\<open>if value != "" { p[key] = value }\<close>.\<close>

definition put_str :: "string \<Rightarrow> string \<Rightarrow> amap \<Rightarrow> amap" where
  "put_str key value p = (if value = '''' then p else fmupd key (AStr value) p)"

text \<open>\<open>if yaml.Unmarshal(raw, \<and>opts) == nil \<and> len(opts) > 0 { p[key] = opts }\<close>, skipped when \<open>raw\<close> is empty.\<close>

definition put_opts :: "codecs \<Rightarrow> string \<Rightarrow> string \<Rightarrow> amap \<Rightarrow> amap" where
  "put_opts c key raw p = (if raw = '''' then p
     else (case yaml_opts c raw of Some opts \<Rightarrow> if opts = fmempty then p else fmupd key (AMap opts) p
       | None \<Rightarrow> p))"

definition applyIntegerExtras :: "(string, string) gmap \<Rightarrow> string list \<Rightarrow> amap \<Rightarrow> amap" where
  "applyIntegerExtras extra = fold (\<lambda>key p. (let value = TrimSpace (gget '''' extra key) in
     if value = '''' then p
     else (case Atoi value of (parsed, ok) \<Rightarrow> if ok then fmupd key (AInt parsed) p else p)))"

definition applyBooleanExtras :: "(string, string) gmap \<Rightarrow> string list \<Rightarrow> amap \<Rightarrow> amap" where
  "applyBooleanExtras extra = fold (\<lambda>key p. (let value = ToLower (TrimSpace (gget '''' extra key)) in
     if value \<in> {''1'', ''true'', ''yes'', ''on''} then fmupd key (ABool True) p
     else if value \<in> {''0'', ''false'', ''no'', ''off''} then fmupd key (ABool False) p else p))"

definition tls_option_keys :: "string list" where
  "tls_option_keys = [''ech-opts'', ''shadow-tls-opts'', ''restls-opts'', ''jls-opts'', ''tlsmirror-opts'']"

definition applyTLS :: "codecs \<Rightarrow> node \<Rightarrow> string \<Rightarrow> amap \<Rightarrow> amap" where
  "applyTLS c n serverNameKey p0 =
     (let security = ToLower (TrimSpace (n_Security n));
          p1 = (if n_Protocol n \<in> {ProtoVMess, ProtoVLESS} \<and> (n_TLS n \<or> security = ''tls'' \<or> security = ''reality'')
                then fmupd ''tls'' (ABool True) p0 else p0);
          p2 = put_str serverNameKey (n_SNI n) p1;
          p3 = (if SkipTLSVerify (Some n) then fmupd ''skip-cert-verify'' (ABool True) p2 else p2);
          p4 = (if n_ALPN n \<noteq> '''' then fmupd ''alpn'' (AList (map AStr (splitCSV (n_ALPN n)))) p3 else p3);
          p5 = (if n_Protocol n \<in> {ProtoVMess, ProtoVLESS, ProtoTrojan}
                then put_str ''client-fingerprint'' (xget n ''fp'') p4 else p4);
          p6 = put_str ''fingerprint'' (xget n ''fingerprint'') p5;
          p7 = put_str ''name-cert-verify'' (xget n ''name-cert-verify'') p6;
          p8 = fold (\<lambda>key p. put_opts c key (xget n key) p) tls_option_keys p7
      in if xget n ''ech'' \<noteq> '''' \<and> fmlookup p8 ''ech-opts'' = None
         then fmupd ''ech-opts'' (AMap (fmap_of_list [(''enable'', ABool True), (''config'', AStr (xget n ''ech''))])) p8
         else p8)"

definition applyReality :: "codecs \<Rightarrow> node \<Rightarrow> amap \<Rightarrow> amap" where
  "applyReality c n p =
     (if EqualFold (n_Security n) ''reality'' \<or> xget n ''pbk'' \<noteq> '''' then
        (let opts = (if xget n ''reality-opts'' = '''' then fmempty
               else (case yaml_opts c (xget n ''reality-opts'') of Some opts \<Rightarrow> opts | None \<Rightarrow> fmempty))
         in fmupd ''reality-opts'' (AMap (put_str ''short-id'' (xget n ''sid'')
              (put_str ''public-key'' (xget n ''pbk'') opts))) p)
      else p)"

definition mergeOriginalTransport :: "codecs \<Rightarrow> node \<Rightarrow> amap \<Rightarrow> amap" where
  "mergeOriginalTransport c n target = (let raw = xget n ''clash-transport-opts'' in
     if raw = '''' then target
     else (case yaml_opts c raw of Some original \<Rightarrow> mergeMissing target original | None \<Rightarrow> target))"

definition transport_of :: "node \<Rightarrow> string" where
  "transport_of n = (let network = ToLower (TrimSpace (n_Network n));
       network = (if network = '''' then ''tcp'' else network);
       network = (if network = ''websocket'' then ''ws'' else network)
     in if network = ''tcp'' \<and> EqualFold (xget n ''headerType'') ''http'' then ''http'' else network)"

definition host_header :: "node \<Rightarrow> any \<Rightarrow> amap \<Rightarrow> amap" where
  "host_header n v opts = (if n_Host n = '''' then opts
     else fmupd ''headers'' (AMap (fmap_of_list [(''Host'', v)])) opts)"

definition path_opts :: "node \<Rightarrow> amap" where
  "path_opts n = fmap_of_list [(''path'', AStr (first (n_Path n) ''/''))]"

definition ws_opts :: "node \<Rightarrow> amap" where
  "ws_opts n = (let opts = host_header n (AStr (n_Host n)) (path_opts n);
       ed = intValue (first (xget n ''max-early-data'') (xget n ''ed''));
       opts = (if ed > 0 then fmupd ''max-early-data'' (AInt ed) opts else opts)
     in put_str ''early-data-header-name'' (first (xget n ''early-data-header-name'') (xget n ''eh'')) opts)"

definition grpc_opts :: "node \<Rightarrow> amap" where
  "grpc_opts n = put_str ''grpc-mode'' (xget n ''mode'') (fmap_of_list
     [(''grpc-service-name'', AStr (first (xget n ''serviceName'') (TrimPrefix (n_Path n) ''/'')))])"

definition transport_opts :: "node \<Rightarrow> (string \<times> amap) option" where
  "transport_opts n = (let network = transport_of n in
     if network = ''ws'' then Some (''ws-opts'', ws_opts n)
     else if network = ''grpc'' then Some (''grpc-opts'', grpc_opts n)
     else if network = ''http'' then Some (''http-opts'', host_header n (AList [AStr (n_Host n)])
       (fmap_of_list [(''path'', AList [AStr (first (n_Path n) ''/'')])]))
     else if network = ''h2'' then Some (''h2-opts'',
       (if n_Host n = '''' then id else fmupd ''host'' (AList [AStr (n_Host n)])) (path_opts n))
     else if network = ''httpupgrade'' then Some (''http-upgrade-opts'', put_str ''host'' (n_Host n) (path_opts n))
     else if network \<in> {''xhttp'', ''splithttp''} then Some (''xhttp-opts'', put_str ''mode'' (xget n ''mode'')
       (host_header n (AStr (n_Host n)) (path_opts n)))
     else None)"

definition applyTransport :: "codecs \<Rightarrow> node \<Rightarrow> amap \<Rightarrow> amap" where
  "applyTransport c n p0 =
     (let network = transport_of n;
          p = fmupd ''network'' (AStr (if network = ''splithttp'' then ''xhttp'' else network)) p0
      in case transport_opts n of None \<Rightarrow> p
         | Some (key, opts) \<Rightarrow> fmupd key (AMap (mergeOriginalTransport c n opts)) p)"

datatype proxy_error = InvalidNode | MissingUUID protocol | MissingPublicKey protocol
  | MissingPassword protocol | MissingCipher protocol | MissingFields protocol | MissingToken
  | UnsupportedProtocol protocol

definition reality_without_key :: "node \<Rightarrow> bool" where
  "reality_without_key n \<longleftrightarrow>
     (EqualFold (n_Security n) ''reality'' \<or> xget n ''sid'' \<noteq> '''') \<and> xget n ''pbk'' = ''''"

abbreviation put_all :: "(string \<times> any) list \<Rightarrow> amap \<Rightarrow> amap" where
  "put_all kvs p \<equiv> fold (\<lambda>(k, v). fmupd k v) kvs p"

definition vmess_proxy :: "codecs \<Rightarrow> node \<Rightarrow> amap \<Rightarrow> proxy_error + amap" where
  "vmess_proxy c n p = (if n_UUID n = '''' then Inl (MissingUUID ProtoVMess)
     else Inr (applyTransport c n (applyTLS c n ''servername'' (put_all
       [(''type'', AStr ''vmess''), (''uuid'', AStr (n_UUID n)), (''cipher'', AStr (first (n_Method n) ''auto'')),
        (''alterId'', AInt (intValue (xget n ''aid'')))] p))))"

definition vless_proxy :: "codecs \<Rightarrow> node \<Rightarrow> amap \<Rightarrow> proxy_error + amap" where
  "vless_proxy c n p = (if n_UUID n = '''' then Inl (MissingUUID ProtoVLESS)
     else if reality_without_key n then Inl (MissingPublicKey ProtoVLESS)
     else Inr (applyTransport c n (applyReality c n (applyTLS c n ''servername''
       (put_str ''packet-encoding'' (xget n ''packet-encoding'') (put_str ''flow'' (n_Flow n)
       (put_str ''encryption'' (xget n ''encryption'')
       (put_all [(''type'', AStr ''vless''), (''uuid'', AStr (n_UUID n))] p))))))))"

definition trojan_proxy :: "codecs \<Rightarrow> node \<Rightarrow> amap \<Rightarrow> proxy_error + amap" where
  "trojan_proxy c n p = (if n_Password n = '''' then Inl (MissingPassword ProtoTrojan)
     else if reality_without_key n then Inl (MissingPublicKey ProtoTrojan)
     else Inr (applyTransport c n (applyReality c n (applyTLS c n ''sni''
       (put_all [(''type'', AStr ''trojan''), (''password'', AStr (n_Password n))] p)))))"

definition ss_proxy :: "codecs \<Rightarrow> node \<Rightarrow> amap \<Rightarrow> proxy_error + amap" where
  "ss_proxy c n p = (if n_Method n = '''' \<or> n_Password n = '''' then Inl (MissingCipher ProtoSS)
     else (let p' = put_all [(''type'', AStr ''ss''), (''cipher'', AStr (n_Method n)),
                (''password'', AStr (n_Password n))] p
       in Inr (if xget n ''plugin'' = '''' then p'
           else put_opts c ''plugin-opts'' (xget n ''plugin-opts'') (put_str ''plugin'' (xget n ''plugin'') p'))))"

definition ssr_proxy :: "node \<Rightarrow> amap \<Rightarrow> proxy_error + amap" where
  "ssr_proxy n p = (if n_Method n = '''' \<or> n_Password n = '''' \<or> xget n ''protocol'' = '''' \<or> xget n ''obfs'' = ''''
     then Inl (MissingFields ProtoSSR)
     else Inr (put_str ''obfs-param'' (xget n ''obfs-param'') (put_str ''protocol-param'' (xget n ''protocol-param'')
       (put_all [(''type'', AStr ''ssr''), (''cipher'', AStr (n_Method n)), (''password'', AStr (n_Password n)),
         (''protocol'', AStr (xget n ''protocol'')), (''obfs'', AStr (xget n ''obfs''))] p))))"

definition put_extras :: "node \<Rightarrow> string list \<Rightarrow> amap \<Rightarrow> amap" where
  "put_extras n = fold (\<lambda>key. put_str key (xget n key))"

definition hysteria2_proxy :: "codecs \<Rightarrow> node \<Rightarrow> amap \<Rightarrow> proxy_error + amap" where
  "hysteria2_proxy c n p = (if n_Password n = '''' then Inl (MissingPassword ProtoHysteria2)
     else Inr (put_opts c ''realm-opts'' (xget n ''realm-opts'')
       (applyIntegerExtras (n_Extra n) [''obfs-min-packet-size'', ''obfs-max-packet-size'']
       (put_extras n [''ports'', ''hop-interval'', ''up'', ''down'', ''bbr-profile'', ''obfs'', ''obfs-password'']
       (applyTLS c n ''sni''
       (put_all [(''type'', AStr ''hysteria2''), (''password'', AStr (n_Password n))] p))))))"

definition tuic_proxy :: "codecs \<Rightarrow> node \<Rightarrow> amap \<Rightarrow> proxy_error + amap" where
  "tuic_proxy c n p0 = (let p1 = fmupd ''type'' (AStr ''tuic'') p0 in
     if xget n ''token'' = '''' \<and> (n_UUID n = '''' \<or> n_Password n = '''') then Inl MissingToken
     else Inr (applyBooleanExtras (n_Extra n) [''disable-sni'', ''reduce-rtt'', ''fast-open'']
       (applyIntegerExtras (n_Extra n) [''heartbeat-interval'', ''request-timeout'',
          ''max-udp-relay-packet-size'', ''max-open-streams'']
       (put_str ''udp-relay-mode'' (xget n ''udp_relay_mode'')
       (put_str ''congestion-controller'' (xget n ''congestion_control'')
       (put_extras n [''ip'', ''bbr-profile''] (applyTLS c n ''sni''
       (if xget n ''token'' \<noteq> '''' then fmupd ''token'' (AStr (xget n ''token'')) p1
        else put_all [(''uuid'', AStr (n_UUID n)), (''password'', AStr (n_Password n))] p1))))))))"

definition BuildClashProxy :: "codecs \<Rightarrow> node option \<Rightarrow> string \<Rightarrow> proxy_error + amap" where
  "BuildClashProxy c node name0 = (case node of None \<Rightarrow> Inl InvalidNode | Some n \<Rightarrow>
     if \<not> IsValid (Some n) then Inl InvalidNode
     else (let name = (if TrimSpace name0 = '''' then n_Name n else name0);
         p = fmap_of_list [(''name'', AStr name), (''server'', AStr (n_Server n)), (''port'', AInt (n_Port n)),
               (''udp'', ABool True)]
       in if n_Protocol n = ProtoVMess then vmess_proxy c n p
          else if n_Protocol n = ProtoVLESS then vless_proxy c n p
          else if n_Protocol n = ProtoTrojan then trojan_proxy c n p
          else if n_Protocol n = ProtoSS then ss_proxy c n p
          else if n_Protocol n = ProtoSSR then ssr_proxy n p
          else if n_Protocol n = ProtoHysteria2 then hysteria2_proxy c n p
          else if n_Protocol n = ProtoTUIC then tuic_proxy c n p
          else Inl (UnsupportedProtocol (n_Protocol n))))"

subsection \<open>The Clash document\<close>

text \<open>The loop of \<open>buildClash\<close>: the proxies with their names, and the names claimed so far.\<close>

fun clash_proxies :: "codecs \<Rightarrow> int \<Rightarrow> names \<Rightarrow> node option list \<Rightarrow> (string \<times> amap) list \<times> names" where
  "clash_proxies c i ns [] = ([], ns)"
| "clash_proxies c i ns (None # nodes) = clash_proxies c (i + 1) ns nodes"
| "clash_proxies c i ns (Some n # nodes) = (case claimUniqueName (n_Name n) i ns of (name, ns1) \<Rightarrow>
     (case clash_proxies c (i + 1) ns1 nodes of (proxies, ns2) \<Rightarrow>
       (case BuildClashProxy c (Some n) name of Inl _ \<Rightarrow> (proxies, ns2)
         | Inr proxy \<Rightarrow> ((name, proxy) # proxies, ns2))))"

definition clash_root :: "codecs \<Rightarrow> node option list \<Rightarrow> amap" where
  "clash_root c nodes = (case clash_proxies c 0 reservedProxyNames nodes of (proxies, ns) \<Rightarrow>
     (let root = fmap_of_list [(''mixed-port'', AInt 7890), (''allow-lan'', ABool False), (''mode'', AStr ''rule''),
            (''log-level'', AStr ''info''), (''proxies'', AList (map (AMap \<circ> snd) proxies))]
      in if proxies = [] then root
         else (case claimUniqueName ''NodeHarvest'' (int (length nodes)) ns of (groupName, _) \<Rightarrow>
           put_all [(''proxy-groups'', AList [AMap (fmap_of_list [(''name'', AStr groupName), (''type'', AStr ''select''),
               (''proxies'', AList (map (AStr \<circ> fst) proxies))])]),
             (''rules'', AList [AStr (''MATCH,'' @ groupName)])] root)))"

definition buildClash :: "codecs \<Rightarrow> node option list \<Rightarrow> string" where
  "buildClash c nodes = (case yaml_Marshal c (AMap (clash_root c nodes)) of
     None \<Rightarrow> ''proxies: []'' @ [CHR 0x0A]
   | Some raw \<Rightarrow> ''# Generated by nodeharvest'' @ [CHR 0x0A] @ raw)"

definition RenderClash :: "codecs \<Rightarrow> node option list \<Rightarrow> string" where
  "RenderClash c nodes = buildClash c nodes"


subsection \<open>Names are unique\<close>

lemma claim_loop_ok:
  "\<exists>k. claim_loop taken base s = (suffixed base k, k + 1) \<and> s \<le> k \<and> suffixed base k \<notin> set taken \<and>
     (\<forall>i. s \<le> i \<and> i < k \<longrightarrow> suffixed base i \<in> set taken)"
proof (induction taken base s rule: claim_loop.induct)
  case (1 taken base s)
  show ?case
  proof (cases "suffixed base s \<in> set taken")
    case True
    with 1 obtain k where k: "claim_loop taken base (s + 1) = (suffixed base k, k + 1)" "s + 1 \<le> k"
      "suffixed base k \<notin> set taken" "\<forall>i. s + 1 \<le> i \<and> i < k \<longrightarrow> suffixed base i \<in> set taken"
      by metis
    have "\<forall>i. s \<le> i \<and> i < k \<longrightarrow> suffixed base i \<in> set taken"
    proof (intro allI impI)
      fix i
      assume "s \<le> i \<and> i < k"
      then consider "i = s" | "s + 1 \<le> i \<and> i < k" by linarith
      then show "suffixed base i \<in> set taken" using True k(4) by cases auto
    qed
    with k True show ?thesis by (auto simp: claim_loop.simps [of taken base s] Let_def intro!: exI [of _ k])
  next
    case False
    then show ?thesis by (auto simp: claim_loop.simps [of taken base s] Let_def)
  qed
qed

text \<open>
  The reference search: the name itself when free, else the first free one of \<open>name #2\<close>,
  \<open>name #3\<close>, and so on. The remembered suffixes only skip candidates that are taken.
\<close>

definition naive_name :: "string list \<Rightarrow> string \<Rightarrow> int \<Rightarrow> string" where
  "naive_name taken name i = (let base = sanitizeYAMLName name i in
     if base \<in> set taken then fst (claim_loop taken base 2) else base)"

definition names_ok :: "names \<Rightarrow> bool" where
  "names_ok ns \<longleftrightarrow> set reserved \<subseteq> set (used ns) \<and>
     (\<forall>base i. 2 \<le> i \<and> i < gget 0 (next_suffix ns) base \<longrightarrow> suffixed base i \<in> set (used ns))"

lemma names_ok_reserved: "names_ok reservedProxyNames"
  by (auto simp: names_ok_def reservedProxyNames_def gget_def)

lemma claim_loop_skip:
  assumes "s \<le> t" and "\<forall>i. s \<le> i \<and> i < t \<longrightarrow> suffixed base i \<in> set taken"
  shows "claim_loop taken base s = claim_loop taken base t"
proof -
  obtain k where k: "claim_loop taken base s = (suffixed base k, k + 1)" "s \<le> k" "suffixed base k \<notin> set taken"
    "\<forall>i. s \<le> i \<and> i < k \<longrightarrow> suffixed base i \<in> set taken" using claim_loop_ok by blast
  obtain l where l: "claim_loop taken base t = (suffixed base l, l + 1)" "t \<le> l" "suffixed base l \<notin> set taken"
    "\<forall>i. t \<le> i \<and> i < l \<longrightarrow> suffixed base i \<in> set taken" using claim_loop_ok by blast
  have "\<not> k < t" using assms(2) k(2,3) by blast
  then have "\<not> k < l" using l(4) k(3) by auto
  moreover have "\<not> l < k" using l assms(1) k(4) by auto
  ultimately show ?thesis using k l by simp
qed

lemma claimUniqueName_naive:
  assumes "names_ok ns"
  shows "fst (claimUniqueName name i ns) = naive_name (used ns) name i"
proof -
  let ?b = "sanitizeYAMLName name i"
  have "claim_loop (used ns) ?b 2 = claim_loop (used ns) ?b (max (gget 0 (next_suffix ns) ?b) 2)"
    using assms by (intro claim_loop_skip) (auto simp: names_ok_def)
  then show ?thesis by (simp add: claimUniqueName_def naive_name_def Let_def split_beta)
qed

lemma claimUniqueName_ok:
  assumes "names_ok ns" and "claimUniqueName name i ns = (claimed, ns')"
  shows "claimed \<notin> set (used ns)" and "used ns' = used ns @ [claimed]" and "names_ok ns'"
proof -
  let ?b = "sanitizeYAMLName name i" let ?s = "max (gget 0 (next_suffix ns) (sanitizeYAMLName name i)) 2"
  obtain k where k: "claim_loop (used ns) ?b ?s = (suffixed ?b k, k + 1)" "?s \<le> k"
    "suffixed ?b k \<notin> set (used ns)" "\<forall>i. ?s \<le> i \<and> i < k \<longrightarrow> suffixed ?b i \<in> set (used ns)"
    using claim_loop_ok by blast
  show "claimed \<notin> set (used ns)" "used ns' = used ns @ [claimed]"
    using assms(2) k(1,3) by (auto simp: claimUniqueName_def Let_def split: if_splits)
  show "names_ok ns'"
  proof (cases "?b \<in> set (used ns)")
    case False
    with assms show ?thesis by (auto simp: claimUniqueName_def names_ok_def Let_def)
  next
    case True
    have ns': "ns' = ns\<lparr>used := used ns @ [suffixed ?b k], next_suffix := gput ?b (k + 1) (next_suffix ns)\<rparr>"
      using assms(2) True k(1) by (auto simp: claimUniqueName_def Let_def)
    have "suffixed ?b i \<in> set (used ns) \<union> {suffixed ?b k}" if "2 \<le> i" "i < k + 1" for i
      using that k(4) assms(1) by (cases "i = k"; cases "i < ?s") (auto simp: names_ok_def)
    with assms(1) show ?thesis by (auto simp: ns' names_ok_def)
  qed
qed

lemma TrimSpace_blank: "TrimSpace s = '''' \<longleftrightarrow> list_all is_space s"
proof -
  have "dropWhile is_space s = [] \<or> \<not> is_space (hd (dropWhile is_space s))"
    using hd_dropWhile [of is_space s] by blast
  then have "(\<forall>x \<in> set (dropWhile is_space s). is_space x) \<longleftrightarrow> dropWhile is_space s = []"
    using hd_in_set [of "dropWhile is_space s"] by (metis empty_iff list.set(1))
  then show ?thesis by (simp add: TrimSpace_def trim_by_def list_all_iff)
qed

lemma naive_name_visible: "TrimSpace (naive_name taken name i) \<noteq> ''''"
proof -
  have b: "TrimSpace (sanitizeYAMLName name i) \<noteq> ''''"
    by (simp add: sanitizeYAMLName_def Let_def TrimSpace_blank) (simp add: is_space_def)
  moreover have "TrimSpace (suffixed base k) \<noteq> ''''" if "TrimSpace base \<noteq> ''''" for base k
    using that by (simp add: TrimSpace_blank suffixed_def)
  ultimately show ?thesis
    using claim_loop_ok [of taken "sanitizeYAMLName name i" 2]
    by (auto simp: naive_name_def Let_def)
qed


subsection \<open>What a proxy object keeps\<close>

named_theorems keep_keys \<open>settings an export step does not touch\<close>

lemma fmlookup_put_str: "fmlookup (put_str k v p) j = (if j = k \<and> v \<noteq> '''' then Some (AStr v) else fmlookup p j)"
  by (simp add: put_str_def)

lemma put_str_other [keep_keys]: "j \<noteq> k \<Longrightarrow> fmlookup (put_str k v p) j = fmlookup p j"
  by (simp add: put_str_def)

lemma put_opts_other [keep_keys]: "j \<noteq> k \<Longrightarrow> fmlookup (put_opts c k v p) j = fmlookup p j"
  by (simp add: put_opts_def split: option.splits)

lemma put_all_other [keep_keys]: "j \<notin> fst ` set kvs \<Longrightarrow> fmlookup (put_all kvs p) j = fmlookup p j"
  by (induction kvs arbitrary: p) auto

lemma integer_extras_other [keep_keys]: "j \<notin> set ks \<Longrightarrow> fmlookup (applyIntegerExtras extra ks p) j = fmlookup p j"
  unfolding applyIntegerExtras_def by (induction ks arbitrary: p) (auto simp: Let_def split_beta)

lemma boolean_extras_other [keep_keys]: "j \<notin> set ks \<Longrightarrow> fmlookup (applyBooleanExtras extra ks p) j = fmlookup p j"
  unfolding applyBooleanExtras_def by (induction ks arbitrary: p) (auto simp: Let_def)

lemma put_extras_other [keep_keys]: "j \<notin> set ks \<Longrightarrow> fmlookup (put_extras n ks p) j = fmlookup p j"
  unfolding put_extras_def by (induction ks arbitrary: p) (auto simp: keep_keys)

definition tls_keys :: "string list" where
  "tls_keys = [''tls'', ''skip-cert-verify'', ''alpn'', ''client-fingerprint'', ''fingerprint'',
     ''name-cert-verify''] @ tls_option_keys"

definition transport_keys :: "string list" where
  "transport_keys = [''network'', ''ws-opts'', ''grpc-opts'', ''http-opts'', ''h2-opts'',
     ''http-upgrade-opts'', ''xhttp-opts'']"

lemma fold_put_opts_other:
  "j \<notin> set ks \<Longrightarrow> fmlookup (fold (\<lambda>key p. put_opts c key (f key) p) ks p) j = fmlookup p j"
  by (induction ks arbitrary: p) (auto simp: keep_keys)

lemma applyTLS_other [keep_keys]:
  assumes "j \<notin> set tls_keys" and "j \<noteq> sk"
  shows "fmlookup (applyTLS c n sk p) j = fmlookup p j"
proof -
  have o: "j \<notin> set tls_option_keys" "j \<noteq> ''ech-opts''" and
    k: "j \<noteq> ''tls''" "j \<noteq> ''skip-cert-verify''" "j \<noteq> ''alpn''" "j \<noteq> ''client-fingerprint''"
      "j \<noteq> ''fingerprint''" "j \<noteq> ''name-cert-verify''"
    using assms(1) by (auto simp: tls_keys_def tls_option_keys_def)
  show ?thesis
    using k o assms(2) by (simp add: applyTLS_def Let_def keep_keys fold_put_opts_other)
qed

lemma applyReality_other [keep_keys]: "j \<noteq> ''reality-opts'' \<Longrightarrow> fmlookup (applyReality c n p) j = fmlookup p j"
  by (simp add: applyReality_def Let_def)

lemma transport_opts_key: "transport_opts n = Some (k, opts) \<Longrightarrow> k \<in> set transport_keys - {''network''}"
  by (auto simp: transport_opts_def transport_keys_def Let_def split: if_splits)

lemma applyTransport_other [keep_keys]:
  "j \<notin> set transport_keys \<Longrightarrow> fmlookup (applyTransport c n p) j = fmlookup p j"
proof -
  assume j: "j \<notin> set transport_keys"
  then have "j \<noteq> ''network''" by (auto simp: transport_keys_def)
  with j show ?thesis
    using transport_opts_key [of n]
    by (cases "transport_opts n") (auto simp: applyTransport_def Let_def)
qed

text \<open>The settings every protocol shares are not touched by any step.\<close>

lemma address_keys [simp]:
  "''name'' \<notin> set tls_keys" "''name'' \<notin> set transport_keys"
  "''server'' \<notin> set tls_keys" "''server'' \<notin> set transport_keys"
  "''port'' \<notin> set tls_keys" "''port'' \<notin> set transport_keys"
  by (simp_all add: tls_keys_def tls_option_keys_def transport_keys_def)

lemma proxy_address:
  "vmess_proxy c n q = Inr p \<Longrightarrow> k \<in> {''name'', ''server'', ''port''} \<Longrightarrow> fmlookup p k = fmlookup q k"
  "vless_proxy c n q = Inr p \<Longrightarrow> k \<in> {''name'', ''server'', ''port''} \<Longrightarrow> fmlookup p k = fmlookup q k"
  "trojan_proxy c n q = Inr p \<Longrightarrow> k \<in> {''name'', ''server'', ''port''} \<Longrightarrow> fmlookup p k = fmlookup q k"
  "ss_proxy c n q = Inr p \<Longrightarrow> k \<in> {''name'', ''server'', ''port''} \<Longrightarrow> fmlookup p k = fmlookup q k"
  "ssr_proxy n q = Inr p \<Longrightarrow> k \<in> {''name'', ''server'', ''port''} \<Longrightarrow> fmlookup p k = fmlookup q k"
  "hysteria2_proxy c n q = Inr p \<Longrightarrow> k \<in> {''name'', ''server'', ''port''} \<Longrightarrow> fmlookup p k = fmlookup q k"
  "tuic_proxy c n q = Inr p \<Longrightarrow> k \<in> {''name'', ''server'', ''port''} \<Longrightarrow> fmlookup p k = fmlookup q k"
  by (auto simp: vmess_proxy_def vless_proxy_def trojan_proxy_def ss_proxy_def
      ssr_proxy_def hysteria2_proxy_def tuic_proxy_def Let_def keep_keys split: if_splits)

text \<open>Every proxy object carries the claimed name and the node's address.\<close>

lemma BuildClashProxy_address:
  assumes "BuildClashProxy c (Some n) name = Inr p" and "TrimSpace name \<noteq> ''''"
  shows "fmlookup p ''name'' = Some (AStr name)" "fmlookup p ''server'' = Some (AStr (n_Server n))"
    "fmlookup p ''port'' = Some (AInt (n_Port n))"
proof -
  let ?q = "fmap_of_list [(''name'', AStr name), (''server'', AStr (n_Server n)), (''port'', AInt (n_Port n)),
    (''udp'', ABool True)]"
  have "fmlookup p k = fmlookup ?q k" if "k \<in> {''name'', ''server'', ''port''}" for k
    using assms proxy_address [OF _ that]
    by (simp add: BuildClashProxy_def Let_def split: if_splits)
  then show "fmlookup p ''name'' = Some (AStr name)" "fmlookup p ''server'' = Some (AStr (n_Server n))"
    "fmlookup p ''port'' = Some (AInt (n_Port n))"
    by (simp_all add: fmlookup_of_list)
qed


lemma BuildClashProxy_name_irrelevant:
  "isl (BuildClashProxy c n name) = isl (BuildClashProxy c n name')"
  by (simp add: BuildClashProxy_def vmess_proxy_def vless_proxy_def trojan_proxy_def ss_proxy_def
      ssr_proxy_def hysteria2_proxy_def tuic_proxy_def Let_def split: option.splits)

lemma clash_proxies_ok:
  assumes "names_ok ns" and "clash_proxies c i ns nodes = (proxies, ns')"
  shows "names_ok ns' \<and> (\<exists>new. used ns' = used ns @ new \<and> distinct new \<and> set new \<inter> set (used ns) = {} \<and>
      subseq (map fst proxies) new) \<and>
    (\<forall>(name, p) \<in> set proxies. fmlookup p ''name'' = Some (AStr name)) \<and>
    length proxies = length (filter (\<lambda>n. \<not> isl (BuildClashProxy c n '''')) nodes)"
  using assms
proof (induction c i ns nodes arbitrary: proxies ns' rule: clash_proxies.induct)
  case (1 c i ns)
  then show ?case by auto
next
  case (2 c i ns nodes)
  then show ?case by (auto simp: BuildClashProxy_def)
next
  case (3 c i ns n nodes)
  obtain name ns1 where claim: "claimUniqueName (n_Name n) i ns = (name, ns1)" by force
  obtain rest ns2 where rest: "clash_proxies c (i + 1) ns1 nodes = (rest, ns2)" by force
  note ok = claimUniqueName_ok [OF 3(2) claim]
  have vis: "TrimSpace name \<noteq> ''''"
    using naive_name_visible claimUniqueName_naive [OF 3(2), of "n_Name n" i] claim by simp
  from 3(1) [OF claim [symmetric] ok(3) rest] obtain new where
    IH: "names_ok ns2" "used ns2 = used ns1 @ new" "distinct new" "set new \<inter> set (used ns1) = {}"
      "subseq (map fst rest) new" "\<forall>(name, p) \<in> set rest. fmlookup p ''name'' = Some (AStr name)"
      "length rest = length (filter (\<lambda>n. \<not> isl (BuildClashProxy c n '''')) nodes)" by blast
  have new: "used ns2 = used ns @ (name # new)" "distinct (name # new)" "set (name # new) \<inter> set (used ns) = {}"
    using IH ok by auto
  have isl: "isl (BuildClashProxy c (Some n) name) = isl (BuildClashProxy c (Some n) '''')"
    by (rule BuildClashProxy_name_irrelevant)
  show ?case
  proof (cases "BuildClashProxy c (Some n) name")
    case (Inl e)
    with 3(3) claim rest have "proxies = rest" "ns' = ns2" by auto
    moreover have "subseq (map fst rest) (name # new)" using IH(5) by (rule list_emb_Cons)
    ultimately show ?thesis using IH new isl Inl by auto
  next
    case (Inr p)
    with 3(3) claim rest have "proxies = (name, p) # rest" "ns' = ns2" by auto
    then show ?thesis using IH new isl Inr BuildClashProxy_address(1) [OF Inr vis] by auto
  qed
qed


text \<open>
  C22. The Clash document is well formed for any list of nodes, names repeated or reserved included:
  the proxies it lists carry pairwise different names, none of them a reserved policy name; there is
  one proxy for each node that can be rendered; and when there is any, one selector group lists
  exactly those names under a name of its own, to which the single rule refers.
\<close>

theorem clash_root_ok:
  "\<exists>names group proxies.
     distinct (group # names) \<and> set (group # names) \<inter> set reserved = {} \<and>
     map (\<lambda>p. fmlookup p ''name'') proxies = map (Some \<circ> AStr) names \<and>
     length proxies = length (filter (\<lambda>n. \<not> isl (BuildClashProxy c n '''')) nodes) \<and>
     fmlookup (clash_root c nodes) ''proxies'' = Some (AList (map AMap proxies)) \<and>
     (if names = [] then fmlookup (clash_root c nodes) ''proxy-groups'' = None
      else fmlookup (clash_root c nodes) ''proxy-groups'' = Some (AList [AMap (fmap_of_list
          [(''name'', AStr group), (''type'', AStr ''select''), (''proxies'', AList (map AStr names))])]) \<and>
        fmlookup (clash_root c nodes) ''rules'' = Some (AList [AStr (''MATCH,'' @ group)]))"
proof -
  obtain ps ns where ps: "clash_proxies c 0 reservedProxyNames nodes = (ps, ns)" by force
  obtain group ns' where g: "claimUniqueName ''NodeHarvest'' (int (length nodes)) ns = (group, ns')" by force
  from clash_proxies_ok [OF names_ok_reserved ps] obtain new where
    ok: "names_ok ns" "used ns = reserved @ new" "distinct new" "set new \<inter> set reserved = {}"
      "subseq (map fst ps) new" "\<forall>(name, p) \<in> set ps. fmlookup p ''name'' = Some (AStr name)"
      "length ps = length (filter (\<lambda>n. \<not> isl (BuildClashProxy c n '''')) nodes)"
    by (auto simp: reservedProxyNames_def)
  have "group \<notin> set (used ns)" using claimUniqueName_ok(1) [OF ok(1) g] .
  moreover obtain N where N: "map fst ps = nths new N" using ok(5) subseq_conv_nths by blast
  moreover have "set (map fst ps) \<subseteq> set new" "distinct (map fst ps)"
    using ok(3) unfolding N by (auto dest: in_set_nthsD intro: distinct_nthsI)
  ultimately have "distinct (group # map fst ps)" "set (group # map fst ps) \<inter> set reserved = {}"
    using ok by auto
  moreover have "map (\<lambda>p. fmlookup p ''name'') (map snd ps) = map (Some \<circ> AStr) (map fst ps)"
    using ok(6) by auto
  moreover have "length (map snd ps) = length (filter (\<lambda>n. \<not> isl (BuildClashProxy c n '''')) nodes)"
    using ok(7) by simp
  moreover have "fmlookup (clash_root c nodes) ''proxies'' = Some (AList (map AMap (map snd ps)))"
    by (simp add: clash_root_def ps g Let_def fmlookup_of_list)
  moreover have "if map fst ps = [] then fmlookup (clash_root c nodes) ''proxy-groups'' = None
      else fmlookup (clash_root c nodes) ''proxy-groups'' = Some (AList [AMap (fmap_of_list
          [(''name'', AStr group), (''type'', AStr ''select''), (''proxies'', AList (map AStr (map fst ps)))])]) \<and>
        fmlookup (clash_root c nodes) ''rules'' = Some (AList [AStr (''MATCH,'' @ group)])"
    by (simp add: clash_root_def ps g Let_def fmlookup_of_list comp_def)
  ultimately show ?thesis by blast
qed

fun claim_all :: "string list \<Rightarrow> int \<Rightarrow> names \<Rightarrow> string list" where
  "claim_all [] i ns = []"
| "claim_all (name # rest) i ns = (case claimUniqueName name i ns of (claimed, ns') \<Rightarrow>
     claimed # claim_all rest (i + 1) ns')"

fun naive_all :: "string list \<Rightarrow> int \<Rightarrow> string list \<Rightarrow> string list" where
  "naive_all [] i taken = []"
| "naive_all (name # rest) i taken = (let claimed = naive_name taken name i in
     claimed # naive_all rest (i + 1) (taken @ [claimed]))"

lemma claim_all_naive: "names_ok ns \<Longrightarrow> claim_all requested i ns = naive_all requested i (used ns)"
proof (induction requested arbitrary: i ns)
  case (Cons name rest)
  obtain claimed ns' where c: "claimUniqueName name i ns = (claimed, ns')" by force
  have "claimed = naive_name (used ns) name i" using claimUniqueName_naive [OF Cons.prems, of name i] c by simp
  with Cons c claimUniqueName_ok [OF Cons.prems c] show ?case by (simp add: Let_def)
qed simp

text \<open>
  C23. \<open>claimUniqueName\<close> always returns, and the suffix it remembers per name changes the number of
  candidates it tries but not its answer: it hands out the name itself when that is free and
  otherwise the first free one of \<open>name #2\<close>, \<open>name #3\<close>, ..., whatever was claimed before.
\<close>

theorem claim_all_equiv: "claim_all requested 0 reservedProxyNames = naive_all requested 0 reserved"
  using claim_all_naive [OF names_ok_reserved] by (simp add: reservedProxyNames_def)

end
