(* ===== verification/ExportDir.thy ===== *)
theory ExportDir
  imports Exporter
begin

text \<open>
  The export directory of \<open>internal/exporter/exporter.go\<close>: \<open>Export\<close> writes one time-stamped file per
  configured format, then the stable copies, then removes the runs beyond \<open>export.keep_runs\<close>.
  The directory is a map from file names to contents; which operations the operating system lets
  succeed is the record \<open>os\<close>, and the formatted time of the run an argument.
\<close>

record os =
  os_mkdir :: bool
  os_write :: "string \<Rightarrow> bool"
  os_readdir :: bool
  os_remove :: "string \<Rightarrow> bool"

type_synonym files = "(string, string) gmap"

record outNode =
  out_Protocol :: string
  out_Name :: string
  out_Server :: string
  out_Port :: int
  out_LatencyMS :: int
  out_Score :: float64
  out_Grade :: string
  out_Country :: string
  out_City :: string
  out_TLS :: bool
  out_Source :: string
  out_URI :: string

definition outNode_of :: "node \<Rightarrow> outNode" where
  "outNode_of n = \<lparr>out_Protocol = n_Protocol n, out_Name = n_Name n, out_Server = n_Server n, out_Port = n_Port n,
     out_LatencyMS = LatencyMS n, out_Score = n_Score n, out_Grade = n_Grade n, out_Country = n_Country n,
     out_City = n_City n, out_TLS = n_TLS n, out_Source = n_Source n, out_URI = n_RawURI n\<rparr>"

text \<open>The codecs of the exports: \<open>MarshalIndent\<close> of the node list besides those of the links.\<close>

record export_codecs = codecs +
  json_MarshalIndent :: "outNode list \<Rightarrow> string option"

datatype export_format = Raw | Base64Sub | ClashYAML | JSONList

datatype export_error = MkdirFailed | WriteFailed string | EncodeFailed string | NilNode

text \<open>\<open>writeJSON\<close> reads the fields of every node, so a nil entry panics there.\<close>

definition render :: "export_codecs \<Rightarrow> export_format \<Rightarrow> node option list \<Rightarrow> string \<Rightarrow> export_error + string" where
  "render c fmt nodes name = (case fmt of
     Raw \<Rightarrow> Inr (RenderRaw (codecs.truncate c) nodes)
   | Base64Sub \<Rightarrow> Inr (RenderBase64 (codecs.truncate c) nodes)
   | ClashYAML \<Rightarrow> Inr (buildClash (codecs.truncate c) nodes)
   | JSONList \<Rightarrow> if None \<in> set nodes then Inl NilNode
       else (case json_MarshalIndent c (map outNode_of (somes nodes)) of
           None \<Rightarrow> Inl (EncodeFailed name) | Some s \<Rightarrow> Inr s))"

definition writePrivateFile :: "os \<Rightarrow> string \<Rightarrow> string \<Rightarrow> files \<Rightarrow> export_error + files" where
  "writePrivateFile os name body fs = (if os_write os name then Inr (gput name body fs) else Inl (WriteFailed name))"

definition write_as :: "os \<Rightarrow> export_codecs \<Rightarrow> node option list \<Rightarrow> string \<times> export_format \<Rightarrow> files \<Rightarrow> export_error + files" where
  "write_as os c nodes out fs = (case out of (name, fmt) \<Rightarrow>
     (case render c fmt nodes name of Inl e \<Rightarrow> Inl e | Inr body \<Rightarrow> writePrivateFile os name body fs))"

text \<open>A sequence of writes stops at the first error; the files written before it stay.\<close>

fun write_list :: "os \<Rightarrow> export_codecs \<Rightarrow> node option list \<Rightarrow> (string \<times> export_format) list \<Rightarrow> files \<Rightarrow>
    string list \<times> export_error option \<times> files" where
  "write_list os c nodes [] fs = ([], None, fs)"
| "write_list os c nodes (out # outs) fs = (case write_as os c nodes out fs of
     Inl e \<Rightarrow> ([], Some e, fs)
   | Inr fs' \<Rightarrow> (case write_list os c nodes outs fs' of (written, err, fs'') \<Rightarrow> (fst out # written, err, fs'')))"

definition format_of :: "string \<Rightarrow> (string \<times> export_format) option" where
  "format_of fmt = (let f = ToLower (TrimSpace fmt) in
     if f \<in> {''raw'', ''uri'', ''txt''} then Some (''.txt'', Raw)
     else if f \<in> {''base64'', ''sub'', ''subscription''} then Some (''.base64.txt'', Base64Sub)
     else if f \<in> {''clash'', ''yaml'', ''yml''} then Some (''.clash.yaml'', ClashYAML)
     else if f = ''json'' then Some (''.json'', JSONList)
     else None)"

definition run_outputs :: "string \<Rightarrow> string \<Rightarrow> string list \<Rightarrow> (string \<times> export_format) list" where
  "run_outputs prefx ts formats = somes (map (\<lambda>f. map_option (\<lambda>(ext, fmt).
     (prefx @ ''-'' @ ts @ ext, fmt)) (format_of f)) formats)"

definition stable_outputs :: "string \<Rightarrow> (string \<times> export_format) list" where
  "stable_outputs prefx = [(prefx @ ''-latest.txt'', Raw), (prefx @ ''-latest.base64.txt'', Base64Sub),
     (prefx @ ''-latest.json'', JSONList), (prefx @ ''-latest.clash.yaml'', ClashYAML),
     (''sub.txt'', Raw), (''sub.base64'', Base64Sub), (''clash.yaml'', ClashYAML)]"

subsection \<open>Rotation\<close>

text \<open>\<open>time.Parse("20060102-150405", run)\<close> accepts the text.\<close>

definition two_digits :: "string \<Rightarrow> nat \<Rightarrow> nat" where
  "two_digits s i = dec_value (take 2 (drop i s))"

definition days_in :: "nat \<Rightarrow> nat \<Rightarrow> nat" where
  "days_in year month = (if month \<in> {4, 6, 9, 11} then 30
     else if month = 2 then (if year mod 4 = 0 \<and> (year mod 100 \<noteq> 0 \<or> year mod 400 = 0) then 29 else 28)
     else 31)"

definition run_stamp :: "string \<Rightarrow> bool" where
  "run_stamp s \<longleftrightarrow> length s = 15 \<and> s ! 8 = CHR ''-'' \<and> list_all is_digit (take 8 s @ drop 9 s) \<and>
     1 \<le> two_digits s 4 \<and> two_digits s 4 \<le> 12 \<and> 1 \<le> two_digits s 6 \<and>
     two_digits s 6 \<le> days_in (dec_value (take 4 s)) (two_digits s 4) \<and>
     two_digits s 9 < 24 \<and> two_digits s 11 < 60 \<and> two_digits s 13 < 60"

definition run_of :: "string \<Rightarrow> string \<Rightarrow> string option" where
  "run_of prefx name = (let stem = TrimPrefix name (prefx @ ''-'') in
     if stem = name \<or> length stem < 15 then None
     else if run_stamp (take 15 stem) then Some (take 15 stem) else None)"

definition add_run :: "string \<Rightarrow> string \<Rightarrow> (string, string list) gmap \<Rightarrow> (string, string list) gmap" where
  "add_run prefx name runs = (case run_of prefx name of None \<Rightarrow> runs
     | Some run \<Rightarrow> gput run (gget [] runs run @ [name]) runs)"

definition remove_file :: "os \<Rightarrow> string \<Rightarrow> files \<Rightarrow> files" where
  "remove_file os name fs = (if os_remove os name then filter (\<lambda>(k, _). k \<noteq> name) fs else fs)"

definition cleanupOldRuns :: "os \<Rightarrow> string \<Rightarrow> int \<Rightarrow> files \<Rightarrow> files" where
  "cleanupOldRuns os prefx keep fs =
     (if keep \<le> 0 \<or> \<not> os_readdir os then fs
      else (let runs = fold (add_run prefx) (keys fs) []; ks = rev (sort (keys runs))
        in if int (length ks) \<le> keep then fs
           else fold (remove_file os) (concat (map (gget [] runs) (drop (nat keep) ks))) fs))"

definition Export :: "os \<Rightarrow> export_codecs \<Rightarrow> string \<Rightarrow> node option list \<Rightarrow> ExportConfig \<Rightarrow> files \<Rightarrow>
    (string list \<times> export_error option) \<times> files" where
  "Export os c ts nodes cfg fs =
     (if \<not> os_mkdir os then (([], Some MkdirFailed), fs)
      else (let prefx = exp_FilenamePrefix cfg in
        (case write_list os c nodes (run_outputs prefx ts (exp_Formats cfg)) fs of
           (written, Some e, fs1) \<Rightarrow> ((written, Some e), fs1)
         | (written, None, fs1) \<Rightarrow>
             (case (if written = [] then ([], None, fs1) else write_list os c nodes (stable_outputs prefx) fs1) of
                (_, Some e, fs2) \<Rightarrow> ((written, Some e), fs2)
              | (_, None, fs2) \<Rightarrow> ((written, None), cleanupOldRuns os prefx (exp_KeepRuns cfg) fs2)))))"


subsection \<open>Only the newest runs stay\<close>

lemma fold_remove_file:
  assumes "\<forall>name. os_remove os name"
  shows "fold (remove_file os) names fs = filter (\<lambda>(k, _). k \<notin> set names) fs"
  using assms by (induction names arbitrary: fs) (auto simp: remove_file_def split_beta intro: filter_cong)

lemma gget_add_runs:
  "gget [] (fold (add_run prefx) names runs) r = gget [] runs r @ filter (\<lambda>n. run_of prefx n = Some r) names"
  by (induction names arbitrary: runs) (auto simp: add_run_def split: option.splits)

lemma keys_add_runs:
  "set (keys (fold (add_run prefx) names runs)) = set (keys runs) \<union> {r. \<exists>n \<in> set names. run_of prefx n = Some r}"
proof (induction names arbitrary: runs)
  case (Cons n names)
  then show ?case by (cases "run_of prefx n") (auto simp: add_run_def simp del: set_map)
qed simp

lemma distinct_add_runs: "distinct (keys runs) \<Longrightarrow> distinct (keys (fold (add_run prefx) names runs))"
  by (induction names arbitrary: runs) (auto simp: add_run_def split: option.splits)

lemma in_concat_map: "x \<in> set (concat (map f ks)) \<longleftrightarrow> (\<exists>k \<in> set ks. x \<in> set (f k))"
  by auto

lemma descending_rank:
  assumes "sorted_wrt (>) (ks :: 'a::linorder list)" and "i < length ks"
  shows "card {r \<in> set ks. ks ! i < r} = i"
proof -
  have nth: "ks ! i < ks ! j \<longleftrightarrow> j < i" if "j < length ks" for j
    using assms that sorted_wrt_nth_less [OF assms(1), of i j] sorted_wrt_nth_less [OF assms(1), of j i]
    by (cases i j rule: linorder_cases) auto
  have "{r \<in> set ks. ks ! i < r} = nth ks ` {0..<i}"
    using assms(2) nth by (auto simp: set_conv_nth image_iff intro!: exI)
  then have "{r \<in> set ks. ks ! i < r} = set (take i ks)" using assms(2) by (simp add: nth_image)
  moreover have "distinct ks" using assms(1) by (induction ks) auto
  then have "distinct (take i ks)" by simp
  ultimately show ?thesis using assms(2) by (simp add: distinct_card)
qed

lemma drop_by_rank:
  assumes "sorted_wrt (>) (ks :: 'a::linorder list)" and "r \<in> set ks"
  shows "r \<in> set (drop k ks) \<longleftrightarrow> k \<le> card {r' \<in> set ks. r < r'}"
proof -
  obtain i where i: "i < length ks" "r = ks ! i" using assms(2) by (metis in_set_conv_nth)
  have d: "distinct ks" using assms(1) by (induction ks) auto
  have "r \<in> set (drop k ks) \<longleftrightarrow> k \<le> i"
  proof
    assume "r \<in> set (drop k ks)"
    then obtain j where "j < length ks - k" "r = ks ! (k + j)" by (auto simp: in_set_conv_nth)
    then show "k \<le> i" using i d nth_eq_iff_index_eq [of ks i "k + j"] by simp
  next
    assume "k \<le> i"
    then show "r \<in> set (drop k ks)" using i by (auto simp: in_set_conv_nth intro!: exI [of _ "i - k"])
  qed
  with descending_rank [OF assms(1) i(1)] show ?thesis by (simp add: i(2))
qed

definition runs_in :: "string \<Rightarrow> files \<Rightarrow> string set" where
  "runs_in prefx fs = {r. \<exists>name \<in> set (keys fs). run_of prefx name = Some r}"

lemma map_of_filter_keys: "map_of (filter (\<lambda>(k, _). P k) m) k = (if P k then map_of m k else None)"
  by (induction m) auto

text \<open>
  With \<open>keep_runs\<close> positive and the directory readable, rotation keeps every file that does not
  belong to a run (the stable copies among them) and every file of the newest \<open>keep_runs\<close> runs, and
  removes every other file: a run stays exactly when fewer than \<open>keep_runs\<close> runs are newer.
\<close>

lemma cleanup_keeps_newest:
  assumes "distinct (keys fs)" and "0 < keep" and "os_readdir os" and "\<forall>name. os_remove os name"
  shows "map_of (cleanupOldRuns os prefx keep fs) name = (case run_of prefx name of None \<Rightarrow> map_of fs name
    | Some r \<Rightarrow> if card {r' \<in> runs_in prefx fs. r < r'} < nat keep then map_of fs name else None)"
proof -
  let ?runs = "fold (add_run prefx) (keys fs) []" let ?ks = "rev (sort (keys ?runs))"
  have set_ks: "set ?ks = runs_in prefx fs" using keys_add_runs [of prefx "keys fs" "[]"] by (simp add: runs_in_def)
  have desc: "sorted_wrt (>) ?ks"
    using distinct_add_runs [of "[]" prefx "keys fs"]
    by (simp add: sorted_wrt_rev strict_sorted_iff)
  have len: "card {r' \<in> runs_in prefx fs. r < r'} < nat keep" if "int (length ?ks) \<le> keep" "r \<in> runs_in prefx fs" for r
  proof -
    have "{r' \<in> set ?ks. r < r'} \<subset> set ?ks" using that set_ks by auto
    then have "card {r' \<in> set ?ks. r < r'} < card (set ?ks)" by (intro psubset_card_mono) simp_all
    also have "\<dots> \<le> length ?ks" by (rule card_length)
    finally show ?thesis using that set_ks by simp
  qed
  have gone: "name \<in> set (concat (map (gget [] ?runs) (drop (nat keep) ?ks))) \<longleftrightarrow> name \<in> set (keys fs) \<and>
      (\<exists>r. run_of prefx name = Some r \<and> \<not> card {r' \<in> runs_in prefx fs. r < r'} < nat keep)"
  proof -
    have "r \<in> set (drop (nat keep) ?ks) \<longleftrightarrow> \<not> card {r' \<in> runs_in prefx fs. r < r'} < nat keep"
      if "run_of prefx name = Some r" "name \<in> set (keys fs)" for r
      using drop_by_rank [OF desc, of r "nat keep"] that set_ks by (auto simp: runs_in_def not_less)
    moreover have "set (gget [] ?runs r) = {n \<in> set (keys fs). run_of prefx n = Some r}" for r
      unfolding gget_add_runs by (simp add: gget_def)
    ultimately show ?thesis unfolding in_concat_map by blast
  qed
  have none: "map_of fs name = None" if "name \<notin> set (keys fs)" using that by (simp add: map_of_eq_None_iff)
  show ?thesis
  proof (cases "int (length ?ks) \<le> keep")
    case True
    then have "cleanupOldRuns os prefx keep fs = fs" using assms by (simp add: cleanupOldRuns_def Let_def)
    with len [OF True] none show ?thesis by (auto simp: runs_in_def split: option.splits)
  next
    case False
    then have "cleanupOldRuns os prefx keep fs =
        filter (\<lambda>(k, _). k \<notin> set (concat (map (gget [] ?runs) (drop (nat keep) ?ks)))) fs"
      using assms by (simp add: cleanupOldRuns_def Let_def fold_remove_file)
    then show ?thesis using gone none by (auto simp: map_of_filter_keys split: option.splits)
  qed
qed


definition able :: os where
  "able = \<lparr>os_mkdir = True, os_write = (\<lambda>_. True), os_readdir = True, os_remove = (\<lambda>_. True)\<rparr>"

definition three_runs :: files where
  "three_runs = [(''n-20240101-000000.txt'', ''a''), (''n-20240229-235959.txt'', ''b''),
     (''n-20240229-235959.json'', ''c''), (''n-20230101-000000.txt'', ''d''), (''n-latest.base64.txt'', ''e''),
     (''n-20230229-000000.txt'', ''f'')]"

end
