(* ===== verification/ClashParser.thy ===== *)
theory ClashParser
  imports Dynamic Exporter
begin

text \<open>
  \<open>internal/parser/clash.go\<close>: nodes from Clash/Mihomo documents. Each entry of \<open>proxies\<close> becomes a
  node with the fields mapped directly, and a share link rebuilt from the same entry.
\<close>

subsection \<open>Reading an entry\<close>

definition looksLikeClash :: "string \<Rightarrow> bool" where
  "looksLikeClash content = (let low = ToLower (take 4096 content) in
     if Contains low ''proxies:'' then True
     else if list_ex (Contains low) [''type: vmess'', ''type: vless'', ''type: trojan'', ''type: ss'',
        ''type: hysteria'', ''type: tuic''] then Contains low ''server:''
     else False)"

definition xput :: "string \<Rightarrow> string \<Rightarrow> node \<Rightarrow> node" where
  "xput key value n = n\<lparr>n_Extra := gput key value (n_Extra n)\<rparr>"

definition xput_set :: "string \<Rightarrow> string \<Rightarrow> node \<Rightarrow> node" where
  "xput_set key value n = (if value = '''' then n else xput key value n)"

text \<open>\<open>if opts := asMap(v); opts != nil { if raw, err := json.Marshal(opts); err == nil { extra[key] = raw } }\<close>.\<close>

definition xput_json :: "codecs \<Rightarrow> string \<Rightarrow> any \<Rightarrow> node \<Rightarrow> node" where
  "xput_json c key v n = (case asMap v of None \<Rightarrow> n
     | Some opts \<Rightarrow> (case json_Marshal c (AMap opts) of None \<Rightarrow> n | Some raw \<Rightarrow> xput key raw n))"

definition header_host :: "amap \<Rightarrow> string" where
  "header_host headers = firstListValue (firstAny headers [''Host'', ''host''])"

definition opts_host :: "amap \<Rightarrow> string" where
  "opts_host opts = (case asMap (aget opts ''headers'') of None \<Rightarrow> '''' | Some headers \<Rightarrow> header_host headers)"

text \<open>The first non-empty answer of a list of lazily tried settings.\<close>

fun first_set :: "string list \<Rightarrow> string" where
  "first_set [] = ''''"
| "first_set (v # vs) = (if v \<noteq> '''' then v else first_set vs)"

definition in_opts :: "amap \<Rightarrow> string \<Rightarrow> (amap \<Rightarrow> string) \<Rightarrow> string" where
  "in_opts m key f = (case asMap (aget m key) of None \<Rightarrow> '''' | Some opts \<Rightarrow> f opts)"

definition clashHost :: "amap \<Rightarrow> string" where
  "clashHost m = first_set [asString (aget m ''host''),
     in_opts m ''ws-opts'' opts_host, in_opts m ''xhttp-opts'' opts_host,
     in_opts m ''http-upgrade-opts'' (\<lambda>opts. firstListValue (aget opts ''host'')),
     in_opts m ''h2-opts'' (\<lambda>opts. firstListValue (aget opts ''host'')),
     in_opts m ''http-opts'' opts_host]"

definition clashPath :: "amap \<Rightarrow> string" where
  "clashPath m = first_set [asString (aget m ''path''),
     in_opts m ''ws-opts'' (\<lambda>opts. asString (aget opts ''path'')),
     in_opts m ''xhttp-opts'' (\<lambda>opts. asString (aget opts ''path'')),
     in_opts m ''http-upgrade-opts'' (\<lambda>opts. asString (aget opts ''path'')),
     in_opts m ''h2-opts'' (\<lambda>opts. firstListValue (aget opts ''path'')),
     in_opts m ''http-opts'' (\<lambda>opts. firstListValue (aget opts ''path''))]"

definition options_key :: "string \<Rightarrow> string" where
  "options_key network = gget '''' [(''ws'', ''ws-opts''), (''websocket'', ''ws-opts''), (''grpc'', ''grpc-opts''),
     (''http'', ''http-opts''), (''h2'', ''h2-opts''), (''httpupgrade'', ''http-upgrade-opts''),
     (''xhttp'', ''xhttp-opts''), (''splithttp'', ''xhttp-opts'')] network"

text \<open>\<open>if headers := asMap(opts["headers"]); headers != nil { n.Host = ... }\<close>.\<close>

definition set_header_host :: "amap \<Rightarrow> node \<Rightarrow> node" where
  "set_header_host opts n = (case asMap (aget opts ''headers'') of None \<Rightarrow> n
     | Some headers \<Rightarrow> n\<lparr>n_Host := header_host headers\<rparr>)"

definition transport_fields :: "string \<Rightarrow> amap \<Rightarrow> node \<Rightarrow> node" where
  "transport_fields network opts n =
     (if network \<in> {''ws'', ''websocket''} then
        xput_set ''early-data-header-name'' (asString (aget opts ''early-data-header-name''))
          (xput_set ''max-early-data'' (asString (aget opts ''max-early-data''))
          (set_header_host opts (n\<lparr>n_Path := asString (aget opts ''path'')\<rparr>)))
      else if network = ''grpc'' then
        xput ''mode'' (firstStr opts [''grpc-mode'', ''mode''])
          (xput ''serviceName'' (firstStr opts [''grpc-service-name'', ''serviceName'']) n)
      else if network = ''http'' then
        set_header_host opts (n\<lparr>n_Path := firstListValue (aget opts ''path'')\<rparr>)
      else if network = ''h2'' then
        n\<lparr>n_Path := firstListValue (aget opts ''path''), n_Host := firstListValue (aget opts ''host'')\<rparr>
      else if network = ''httpupgrade'' then
        n\<lparr>n_Path := asString (aget opts ''path''), n_Host := asString (aget opts ''host'')\<rparr>
      else if network \<in> {''xhttp'', ''splithttp''} then
        set_header_host opts (xput ''mode'' (asString (aget opts ''mode''))
          (n\<lparr>n_Path := asString (aget opts ''path'')\<rparr>))
      else n)"

definition applyClashTransport :: "codecs \<Rightarrow> amap \<Rightarrow> node \<Rightarrow> node" where
  "applyClashTransport c m n0 =
     (let network = ToLower (n_Network n0); v = aget m (options_key network);
          n1 = xput_json c ''clash-transport-opts'' v n0;
          n2 = (if network \<in> {''xhttp'', ''splithttp''} then n1\<lparr>n_Network := ''xhttp''\<rparr> else n1);
          n3 = (case asMap v of None \<Rightarrow> n2 | Some opts \<Rightarrow> transport_fields network opts n2);
          n4 = (if n_Path n3 = '''' then n3\<lparr>n_Path := clashPath m\<rparr> else n3)
      in if n_Host n4 = '''' then n4\<lparr>n_Host := clashHost m\<rparr> else n4)"

subsection \<open>Share links\<close>

definition rawB64 :: "string \<Rightarrow> string" where
  "rawB64 value = Encode RawURLEncoding value"

definition uriHostPort :: "string \<Rightarrow> string \<Rightarrow> string" where
  "uriHostPort server port = JoinHostPort (Trim server ''[]'') port"

definition q_set :: "string \<Rightarrow> string \<Rightarrow> url_values \<Rightarrow> url_values" where
  "q_set key value q = (if value = '''' then q else Values_Set key value q)"

definition applyClashURIOptions :: "amap \<Rightarrow> url_values \<Rightarrow> url_values" where
  "applyClashURIOptions m q0 =
     (let network = firstStr m [''network'', ''net''];
          q = q_set ''type'' network (q_set ''alpn'' (asCSV (aget m ''alpn''))
                (q_set ''fp'' (asString (aget m ''client-fingerprint'')) q0));
          low = ToLower network
      in if low = ''grpc'' then (case asMap (aget m ''grpc-opts'') of None \<Rightarrow> q
           | Some opts \<Rightarrow> q_set ''mode'' (firstStr opts [''grpc-mode'', ''mode''])
               (Values_Set ''serviceName'' (firstStr opts [''grpc-service-name'', ''serviceName'']) q))
         else if low \<in> {''ws'', ''websocket''} then (case asMap (aget m ''ws-opts'') of None \<Rightarrow> q
           | Some opts \<Rightarrow> q_set ''eh'' (asString (aget opts ''early-data-header-name''))
               (q_set ''ed'' (asString (aget opts ''max-early-data'')) q))
         else if low \<in> {''xhttp'', ''splithttp''} then (case asMap (aget m ''xhttp-opts'') of None \<Rightarrow> q
           | Some opts \<Rightarrow> q_set ''mode'' (asString (aget opts ''mode'')) q)
         else q)"

definition plugin_spec :: "amap \<Rightarrow> string \<Rightarrow> string" where
  "plugin_spec m plugin = (case asMap (aget m ''plugin-opts'') of None \<Rightarrow> plugin
     | Some opts \<Rightarrow> plugin @ concat (map (\<lambda>key. if aget opts key = ABool True then '';'' @ key
         else '';'' @ key @ ''='' @ asString (aget opts key)) (sorted_list_of_fset (fmdom opts))))"

definition ss_uri :: "amap \<Rightarrow> string \<Rightarrow> string \<Rightarrow> int \<Rightarrow> string" where
  "ss_uri m frag server port =
     (let cipher = asString (aget m ''cipher''); password = asString (aget m ''password'')
      in if cipher = '''' \<or> password = '''' then ''''
         else (let userinfo = TrimRight (Encode StdEncoding (cipher @ '':'' @ password)) ''='';
                   plugin = asString (aget m ''plugin'');
                   query = (if plugin = '''' then ''''
                     else ''?'' @ Values_Encode (Values_Set ''plugin'' (plugin_spec m plugin) []))
           in ''ss://'' @ userinfo @ ''@'' @ uriHostPort server (itoa port) @ query @ ''#'' @ frag))"

definition ssr_uri :: "amap \<Rightarrow> string \<Rightarrow> string \<Rightarrow> int \<Rightarrow> string" where
  "ssr_uri m name server port =
     (let cipher = asString (aget m ''cipher''); password = asString (aget m ''password'');
          protocol = asString (aget m ''protocol''); obfs = asString (aget m ''obfs'')
      in if cipher = '''' \<or> password = '''' \<or> protocol = '''' \<or> obfs = '''' then ''''
         else (let set64 = (\<lambda>key value q. if value = '''' then q else Values_Set key (rawB64 value) q);
                   params = set64 ''obfsparam'' (asString (aget m ''obfs-param''))
                     (set64 ''protoparam'' (asString (aget m ''protocol-param'')) (set64 ''remarks'' name []))
           in ''ssr://'' @ rawB64 (uriHostPort server (itoa port) @ '':'' @ protocol @ '':'' @ cipher @ '':'' @
                obfs @ '':'' @ rawB64 password @ ''/?'' @ Values_Encode params)))"

definition trojan_uri :: "amap \<Rightarrow> string \<Rightarrow> string \<Rightarrow> int \<Rightarrow> string" where
  "trojan_uri m frag server port =
     (let password = asString (aget m ''password'')
      in if password = '''' then ''''
         else (let q = q_set ''host'' (clashHost m) (q_set ''path'' (clashPath m)
                     (q_set ''sni'' (firstStr m [''sni'', ''servername'']) []));
                   q = applyClashURIOptions m q;
                   q = (if asBool (aget m ''skip-cert-verify'') then Values_Set ''allowInsecure'' ''1'' q else q);
                   q = (case asMap (aget m ''reality-opts'') of None \<Rightarrow> q
                     | Some ro \<Rightarrow> Values_Set ''sid'' (firstStr ro [''short-id'', ''short_id''])
                         (Values_Set ''pbk'' (firstStr ro [''public-key'', ''public_key''])
                         (Values_Set ''security'' ''reality'' q)))
           in ''trojan://'' @ QueryEscape password @ ''@'' @ uriHostPort server (itoa port) @ ''?'' @
                Values_Encode q @ ''#'' @ frag))"

definition vmess_uri :: "codecs \<Rightarrow> amap \<Rightarrow> string \<Rightarrow> string \<Rightarrow> int \<Rightarrow> string" where
  "vmess_uri c m name server port =
     (let aid = firstStr m [''alterId'', ''alter-id''];
          obj = fmap_of_list [(''v'', AStr ''2''), (''ps'', AStr name), (''add'', AStr server), (''port'', AStr (itoa port)),
            (''id'', AStr (asString (aget m ''uuid''))), (''aid'', AStr (if aid = '''' then ''0'' else aid)),
            (''scy'', AStr (firstStr m [''cipher'', ''security''])),
            (''net'', AStr (firstNonEmpty [firstStr m [''network'', ''net''], ''tcp''])), (''type'', AStr ''none''),
            (''tls'', AStr (boolToTLS (aget m ''tls'')))];
          obj = put_str ''sni'' (firstStr m [''servername'', ''sni'']) obj;
          obj = put_str ''host'' (clashHost m) obj;
          obj = put_str ''path'' (clashPath m) obj;
          obj = put_str ''alpn'' (asCSV (aget m ''alpn'')) obj;
          obj = put_str ''fp'' (asString (aget m ''client-fingerprint'')) obj;
          obj = (if asBool (aget m ''skip-cert-verify'') then fmupd ''allowInsecure'' (ABool True) obj else obj);
          obj = (case asMap (aget m ''grpc-opts'') of None \<Rightarrow> obj
            | Some opts \<Rightarrow> fmupd ''path'' (AStr (firstStr opts [''grpc-service-name'', ''serviceName''])) obj)
      in case json_Marshal c (AMap obj) of None \<Rightarrow> '''' | Some b \<Rightarrow> ''vmess://'' @ Encode StdEncoding b)"

definition vless_uri :: "amap \<Rightarrow> string \<Rightarrow> string \<Rightarrow> int \<Rightarrow> string" where
  "vless_uri m frag server port =
     (let uuid = asString (aget m ''uuid'')
      in if uuid = '''' then ''''
         else (let q = Values_Set ''encryption'' (firstNonEmpty [asString (aget m ''encryption''), ''none'']) [];
                   q = q_set ''type'' (firstStr m [''network'', ''net'']) q;
                   q = (if aget m ''reality-opts'' \<noteq> ANil then Values_Set ''security'' ''reality'' q
                        else if asBool (aget m ''tls'') then Values_Set ''security'' ''tls'' q else q);
                   q = q_set ''host'' (clashHost m) (q_set ''path'' (clashPath m)
                     (q_set ''flow'' (asString (aget m ''flow'')) (q_set ''sni'' (firstStr m [''servername'', ''sni'']) q)));
                   q = q_set ''packetEncoding'' (asString (aget m ''packet-encoding'')) (applyClashURIOptions m q);
                   q = (if asBool (aget m ''skip-cert-verify'') then Values_Set ''allowInsecure'' ''1'' q else q);
                   q = (case asMap (aget m ''reality-opts'') of None \<Rightarrow> q
                     | Some ro \<Rightarrow> q_set ''sid'' (asString (aget ro ''short-id''))
                         (q_set ''pbk'' (asString (aget ro ''public-key'')) q))
           in ''vless://'' @ uuid @ ''@'' @ uriHostPort server (itoa port) @ ''?'' @ Values_Encode q @ ''#'' @ frag))"

definition hysteria2_uri :: "amap \<Rightarrow> string \<Rightarrow> string \<Rightarrow> int \<Rightarrow> string" where
  "hysteria2_uri m frag server port =
     (let password = firstStr m [''password'', ''auth''];
          q = q_set ''ech'' (asString (aget m ''ech'')) (q_set ''pinSHA256'' (asString (aget m ''fingerprint''))
                (q_set ''alpn'' (asCSV (aget m ''alpn'')) (q_set ''obfs-password'' (asString (aget m ''obfs-password''))
                (q_set ''obfs'' (asString (aget m ''obfs'')) (q_set ''sni'' (firstStr m [''sni'', ''servername'']) [])))));
          q = (if asBool (aget m ''skip-cert-verify'') then Values_Set ''insecure'' ''1'' q else q);
          portSpec = (if firstStr m [''ports''] = '''' then itoa port else firstStr m [''ports''])
      in ''hysteria2://'' @ QueryEscape password @ ''@'' @ uriHostPort server portSpec @ ''?'' @
           Values_Encode q @ ''#'' @ frag)"

definition tuic_uri :: "amap \<Rightarrow> string \<Rightarrow> string \<Rightarrow> int \<Rightarrow> string" where
  "tuic_uri m frag server port =
     (let uuid = asString (aget m ''uuid''); password = asString (aget m ''password'')
      in if uuid = '''' \<or> password = '''' then ''''
         else (let q = q_set ''udp_relay_mode'' (firstStr m [''udp-relay-mode'', ''udp_relay_mode''])
                     (q_set ''congestion_control'' (firstStr m [''congestion-controller'', ''congestion_control''])
                     (q_set ''alpn'' (asCSV (aget m ''alpn'')) (q_set ''sni'' (firstStr m [''sni'', ''servername'']) [])));
                   q = (if asBool (aget m ''skip-cert-verify'') then Values_Set ''allowInsecure'' ''1'' q else q)
           in ''tuic://'' @ QueryEscape uuid @ '':'' @ QueryEscape password @ ''@'' @
                uriHostPort server (itoa port) @ ''?'' @ Values_Encode q @ ''#'' @ frag))"

definition clashProxyToURI :: "codecs \<Rightarrow> amap \<Rightarrow> string" where
  "clashProxyToURI c m =
     (let typ = ToLower (asString (aget m ''type'')); name = asString (aget m ''name'');
          server = asString (aget m ''server''); port = asInt (aget m ''port''); frag = QueryEscape name
      in if server = '''' \<or> port \<le> 0 then ''''
         else if typ \<in> {''ss'', ''shadowsocks''} then ss_uri m frag server port
         else if typ = ''ssr'' then ssr_uri m name server port
         else if typ = ''trojan'' then trojan_uri m frag server port
         else if typ = ''vmess'' then vmess_uri c m name server port
         else if typ = ''vless'' then vless_uri m frag server port
         else if typ \<in> {''hysteria2'', ''hy2''} then hysteria2_uri m frag server port
         else if typ = ''tuic'' then tuic_uri m frag server port
         else '''')"

subsection \<open>Nodes\<close>

definition entry_base :: "amap \<Rightarrow> string \<Rightarrow> node" where
  "entry_base m source = (let network = firstStr m [''network'', ''net''] in
     zero_node\<lparr>n_Name := asString (aget m ''name''), n_Server := asString (aget m ''server''),
       n_Port := asInt (aget m ''port''), n_Source := source, n_TLS := asBool (aget m ''tls''),
       n_SNI := firstStr m [''sni'', ''servername''], n_UUID := asString (aget m ''uuid''),
       n_Password := firstStr m [''password'', ''auth''], n_Method := firstStr m [''cipher'', ''security''],
       n_Network := (if network = '''' then ''tcp'' else network), n_Flow := asString (aget m ''flow''),
       n_ALPN := asCSV (aget m ''alpn''), n_Extra := []\<rparr>)"

definition entry_security :: "codecs \<Rightarrow> amap \<Rightarrow> node \<Rightarrow> node" where
  "entry_security c m n = (case asMap (aget m ''reality-opts'') of
     Some reality \<Rightarrow> xput_json c ''reality-opts'' (AMap reality)
       (xput ''sid'' (firstStr reality [''short-id'', ''short_id''])
       (xput ''pbk'' (firstStr reality [''public-key'', ''public_key''])
       (n\<lparr>n_Security := ''reality'', n_TLS := True\<rparr>)))
   | None \<Rightarrow> if n_TLS n then n\<lparr>n_Security := ''tls''\<rparr> else n)"

definition entry_common :: "codecs \<Rightarrow> amap \<Rightarrow> string \<Rightarrow> node" where
  "entry_common c m source =
     (let n = entry_base m source;
          n = (if asBool (aget m ''skip-cert-verify'') then xput ''skip-cert-verify'' ''true'' n else n);
          n = xput_set ''fp'' (asString (aget m ''client-fingerprint'')) n;
          n = xput_set ''fingerprint'' (asString (aget m ''fingerprint'')) n;
          n = xput_set ''name-cert-verify'' (asString (aget m ''name-cert-verify'')) n;
          n = xput_set ''packet-encoding'' (asString (aget m ''packet-encoding'')) n;
          n = entry_security c m n;
          n = fold (\<lambda>key. xput_json c key (aget m key)) tls_option_keys n
      in applyClashTransport c m n)"

definition entry_protocol :: "codecs \<Rightarrow> amap \<Rightarrow> string \<Rightarrow> node \<Rightarrow> node option" where
  "entry_protocol c m typ n =
     (let copy = (\<lambda>ks n. fold (\<lambda>key. xput key (asString (aget m key))) ks n)
      in if typ \<in> {''ss'', ''shadowsocks''} then
           Some (let n = n\<lparr>n_Protocol := ProtoSS\<rparr>; plugin = asString (aget m ''plugin'')
             in if plugin = '''' then n
                else xput_json c ''plugin-opts'' (aget m ''plugin-opts'') (xput ''plugin'' plugin n))
         else if typ = ''ssr'' then
           Some (copy [''protocol'', ''obfs'', ''protocol-param'', ''obfs-param''] (n\<lparr>n_Protocol := ProtoSSR\<rparr>))
         else if typ = ''trojan'' then Some (n\<lparr>n_Protocol := ProtoTrojan, n_TLS := True\<rparr>)
         else if typ = ''vmess'' then Some (n\<lparr>n_Protocol := ProtoVMess\<rparr>)
         else if typ = ''vless'' then
           Some (copy [''encryption''] (n\<lparr>n_Protocol := ProtoVLESS\<rparr>))
         else if typ \<in> {''hysteria2'', ''hy2''} then
           Some (xput_json c ''realm-opts'' (aget m ''realm-opts'')
             (copy [''obfs'', ''obfs-password'', ''ports'', ''hop-interval'', ''up'', ''down'', ''bbr-profile'',
                ''obfs-min-packet-size'', ''obfs-max-packet-size''] (n\<lparr>n_Protocol := ProtoHysteria2, n_TLS := True\<rparr>)))
         else if typ = ''tuic'' then
           Some (copy [''ip'', ''heartbeat-interval'', ''disable-sni'', ''reduce-rtt'', ''request-timeout'',
                ''max-udp-relay-packet-size'', ''fast-open'', ''max-open-streams'', ''bbr-profile'']
             (xput ''udp_relay_mode'' (firstStr m [''udp-relay-mode'', ''udp_relay_mode''])
             (xput ''congestion_control'' (firstStr m [''congestion-controller'', ''congestion_control''])
             (xput ''token'' (asString (aget m ''token'')) (n\<lparr>n_Protocol := ProtoTUIC, n_TLS := True\<rparr>)))))
         else None)"

definition clashMapToNode :: "hashes \<Rightarrow> codecs \<Rightarrow> amap \<Rightarrow> string \<Rightarrow> node option" where
  "clashMapToNode h c m source =
     (if asString (aget m ''server'') = '''' \<or> asInt (aget m ''port'') \<le> 0 then None
      else (case entry_protocol c m (ToLower (asString (aget m ''type''))) (entry_common c m source) of
          None \<Rightarrow> None
        | Some n \<Rightarrow> (let n = (if n_Name n = '''' then n\<lparr>n_Name := Address n\<rparr> else n);
              n = n\<lparr>n_RawURI := clashProxyToURI c m\<rparr>
            in Some (n\<lparr>n_Fingerprint := Key h n\<rparr>))))"

fun dedup_nodes :: "hashes \<Rightarrow> string list \<Rightarrow> node list \<Rightarrow> node list" where
  "dedup_nodes h seen [] = []"
| "dedup_nodes h seen (n # ns) = (if Key h n \<in> set seen then dedup_nodes h seen ns
     else n # dedup_nodes h (Key h n # seen) ns)"

definition ParseClash :: "hashes \<Rightarrow> codecs \<Rightarrow> string \<Rightarrow> string \<Rightarrow> node list" where
  "ParseClash h c content source =
     (let root = (case yaml_opts c content of Some m \<Rightarrow> Some m
            | None \<Rightarrow> yaml_opts c (''proxies:'' @ [CHR 0x0A] @ content))
      in case root of None \<Rightarrow> []
         | Some m \<Rightarrow> (case aget m ''proxies'' of
             AList items \<Rightarrow> dedup_nodes h [] (somes (map (\<lambda>item. case asMap item of None \<Rightarrow> None
                 | Some e \<Rightarrow> clashMapToNode h c e source) items))
           | _ \<Rightarrow> []))"

end
