(* ===== verification/LinkParser.thy ===== *)
theory LinkParser
  imports ClashParser
begin

text \<open>
  \<open>internal/parser/parser.go\<close> and \<open>internal/parser/protocols.go\<close>: share links and subscription
  bodies. A parse error is \<open>None\<close>; the callers never look at the message. The JSON payload of a VMess
  link is decoded by the \<open>json_Unmarshal\<close> codec into a map, from which the typed members of the
  code's \<open>vmessJSON\<close> are read.
\<close>

subsection \<open>Base64\<close>

definition link_schemes :: "string list" where
  "link_schemes = [''vmess://'', ''vless://'', ''trojan://'', ''ss://'', ''ssr://'', ''hysteria2://'', ''hy2://'', ''tuic://'']"

definition looksLikeURI :: "string \<Rightarrow> bool" where
  "looksLikeURI s = list_ex (HasPrefix (ToLower (TrimSpace s))) link_schemes"

definition splitLines :: "string \<Rightarrow> string list" where
  "splitLines s = Split CHR 0x0A (replace_char CHR 0x0D CHR 0x0A (replace_crlf s))"

definition isMostlyPrintable :: "string \<Rightarrow> bool" where
  "isMostlyPrintable s = (if s = '''' then False
     else (let bad = length (filter (\<lambda>c. c \<noteq> CHR 0x0A \<and> c \<noteq> CHR 0x0D \<and> c \<noteq> CHR 0x09 \<and>
         ((of_char c :: nat) < 32 \<or> (of_char c :: nat) = 127)) s)
       in bad * 10 < length s))"

definition all_encodings :: "encoding list" where
  "all_encodings = [StdEncoding, URLEncoding, RawStdEncoding, RawURLEncoding]"

text \<open>The loop over the four encodings: the first decoding that passes the test.\<close>

fun first_decoding :: "(string \<Rightarrow> bool) \<Rightarrow> encoding list \<Rightarrow> string \<Rightarrow> string option" where
  "first_decoding ok [] s = None"
| "first_decoding ok (e # es) s = (case Decode e s of
     Some b \<Rightarrow> if ok b then Some b else first_decoding ok es s
   | None \<Rightarrow> first_decoding ok es s)"

text \<open>\<open>b64Re\<close>: the standard alphabet, padding and white space.\<close>

definition b64_char :: "char \<Rightarrow> bool" where
  "b64_char c \<longleftrightarrow> is_alpha c \<or> is_digit c \<or> c \<in> set ''+/='' \<or> c \<in> {CHR 0x09, CHR 0x0A, CHR 0x0C, CHR 0x0D, CHR '' ''}"

definition tryDecodeBase64 :: "string \<Rightarrow> string option" where
  "tryDecodeBase64 s0 = (let s = TrimSpace s0 in
     if s = '''' \<or> looksLikeURI s then None
     else (let compact = filter (\<lambda>c. \<not> is_space c) s in
       if length compact < 16 \<or> \<not> list_all b64_char compact then None
       else first_decoding isMostlyPrintable all_encodings (pad_to_4 compact)))"

definition decodeMaybeBase64 :: "string \<Rightarrow> string" where
  "decodeMaybeBase64 s = (let compact = TrimSpace s in
     if compact = '''' then ''''
     else (case first_decoding isMostlyPrintable all_encodings (pad_to_4 compact) of Some b \<Rightarrow> b | None \<Rightarrow> s))"

subsection \<open>Pieces of a link\<close>

definition parseNameFromFragment :: "URL \<Rightarrow> string \<Rightarrow> string" where
  "parseNameFromFragment u fallback = (if uri_Fragment u = '''' then fallback
     else (case QueryUnescape (uri_Fragment u) of
         Some name \<Rightarrow> if name \<noteq> '''' then name else uri_Fragment u | None \<Rightarrow> uri_Fragment u))"

definition atoiDefault :: "string \<Rightarrow> int \<Rightarrow> int" where
  "atoiDefault s def = (let t = TrimSpace s in if t = '''' then def
     else (case Atoi t of (n, ok) \<Rightarrow> if ok then n else def))"

fun queryGet :: "url_values \<Rightarrow> string list \<Rightarrow> string" where
  "queryGet q [] = ''''"
| "queryGet q (k # ks) = (if Values_Get q k \<noteq> '''' then Values_Get q k else queryGet q ks)"

definition splitHostPort :: "string \<Rightarrow> string \<Rightarrow> (string \<times> string) option" where
  "splitHostPort hostport0 defaultPort = (let hostport = TrimSpace hostport0 in
     if hostport = '''' then None
     else if HasPrefix hostport ''['' then SplitHostPort hostport
     else if Count hostport CHR '':'' = 1 then SplitHostPort hostport
     else Some (hostport, defaultPort))"

definition firstPort :: "string \<Rightarrow> int \<Rightarrow> int" where
  "firstPort spec fallback = (let f = TrimSpace (hd (Split CHR '','' spec)); g = TrimSpace (hd (Split CHR ''-'' f))
     in atoiDefault g fallback)"

text \<open>
  \<open>parseHysteriaURL\<close>: a port list such as \<open>443,5000-6000\<close> makes \<open>url.Parse\<close> fail; it is cut out of the
  authority, replaced by its first port, and returned beside the parsed URL.
\<close>

definition parseHysteriaURL :: "string \<Rightarrow> (URL \<times> string) option" where
  "parseHysteriaURL raw = (case url_Parse raw of Some u \<Rightarrow> Some (u, '''')
     | None \<Rightarrow> (case Index raw ''://'' of None \<Rightarrow> None
       | Some schemeEnd \<Rightarrow>
         (let authorityStart = schemeEnd + 3;
              authorityEnd = (case IndexAny (drop authorityStart raw) ''/?#'' of None \<Rightarrow> length raw
                | Some off \<Rightarrow> authorityStart + off);
              authority = take (authorityEnd - authorityStart) (drop authorityStart raw);
              hostStart = (case LastIndexByte authority CHR ''@'' of None \<Rightarrow> 0 | Some i \<Rightarrow> i + 1);
              hostPort = drop hostStart authority;
              portColon = (if HasPrefix hostPort ''['' then
                  map_option Suc (find (\<lambda>j. HasPrefix (drop j hostPort) '']:'') (rev [0..<length hostPort]))
                else LastIndexByte hostPort CHR '':'')
          in case portColon of None \<Rightarrow> None
             | Some pc \<Rightarrow> (let ports = drop (pc + 1) hostPort in
                 if \<not> ContainsAny ports '',-'' then None
                 else (let port = firstPort ports 0 in
                   if port \<le> 0 then None
                   else (let portStart = authorityStart + hostStart + pc + 1 in
                     (case url_Parse (take portStart raw @ itoa port @ drop authorityEnd raw) of
                        None \<Rightarrow> None | Some u \<Rightarrow> Some (u, ports)))))))) "

fun anyToInt :: "any \<Rightarrow> int" where
  "anyToInt (AFloat t) = go_int t"
| "anyToInt (AInt t) = t"
| "anyToInt (AInt64 t) = t"
| "anyToInt (AStr t) = fst (Atoi (TrimSpace t))"
| "anyToInt _ = 0"

definition fingerprinted :: "hashes \<Rightarrow> node \<Rightarrow> node" where
  "fingerprinted h n = n\<lparr>n_Fingerprint := Key h n\<rparr>"

subsection \<open>One parser per protocol\<close>

text \<open>
  \<open>fmt.Sprint\<close> of a decoded JSON value: a string prints as itself, a boolean and nil as their
  words; the rendering of other values is the first argument of \<open>parseVMess\<close>.
\<close>

definition sprint :: "(any \<Rightarrow> string) \<Rightarrow> any \<Rightarrow> string" where
  "sprint other v = (case v of AStr s \<Rightarrow> s | ABool b \<Rightarrow> btoa b | ANil \<Rightarrow> ''<nil>'' | AInt i \<Rightarrow> itoa i | _ \<Rightarrow> other v)"

text \<open>
  A string member of \<open>vmessJSON\<close>: absent or null leaves it empty, a value of another type makes
  \<open>json.Unmarshal\<close> fail.
\<close>

definition vmess_strings :: "string list" where
  "vmess_strings = [''ps'', ''add'', ''id'', ''scy'', ''net'', ''type'', ''host'', ''path'', ''tls'', ''sni'', ''alpn'', ''fp'']"

definition string_member :: "amap \<Rightarrow> string \<Rightarrow> bool" where
  "string_member j k = (case aget j k of AStr _ \<Rightarrow> True | ANil \<Rightarrow> True | _ \<Rightarrow> False)"

definition parseVMess :: "hashes \<Rightarrow> codecs \<Rightarrow> (any \<Rightarrow> string) \<Rightarrow> string \<Rightarrow> string \<Rightarrow> node option" where
  "parseVMess h c other raw source =
     (let payload = TrimPrefix (TrimPrefix raw ''vmess://'') ''VMESS://'';
          payload = (case Index payload ''#'' of Some i \<Rightarrow> take i payload | None \<Rightarrow> payload);
          payload = pad_to_4 (TrimSpace payload)
      in case first_decoding (\<lambda>_. True) all_encodings payload of None \<Rightarrow> None
         | Some data \<Rightarrow> (case as_opts (json_Unmarshal c data) of None \<Rightarrow> None
           | Some j \<Rightarrow>
             (let port = anyToInt (aget j ''port''); str = (\<lambda>k. asString (aget j k))
              in if \<not> list_all (string_member j) vmess_strings then None
                 else if str ''add'' = '''' \<or> port \<le> 0 then None
                 else (let name = (if str ''ps'' = '''' then ''vmess-'' @ str ''add'' @ ''-'' @ itoa port else str ''ps'');
                     extra = [(''type'', str ''type''), (''aid'', sprint other (aget j ''aid''))]
                       @ (if str ''fp'' \<noteq> '''' then [(''fp'', str ''fp'')] else [])
                       @ (if aget j ''allowInsecure'' \<noteq> ANil then [(''allowInsecure'', sprint other (aget j ''allowInsecure''))] else [])
                       @ (if aget j ''insecure'' \<noteq> ANil then [(''insecure'', sprint other (aget j ''insecure''))] else [])
                   in Some (fingerprinted h (zero_node\<lparr>n_Protocol := ProtoVMess, n_Name := name, n_Server := str ''add'',
                     n_Port := port, n_UUID := str ''id'', n_Method := str ''scy'',
                     n_Network := firstNonEmpty [str ''net'', ''tcp''], n_TLS := truthy (str ''tls''),
                     n_SNI := firstNonEmpty [str ''sni'', str ''host''], n_Path := str ''path'', n_Host := str ''host'',
                     n_ALPN := str ''alpn'', n_RawURI := raw, n_Source := source, n_Extra := extra\<rparr>))))))"

definition parseVLESS :: "hashes \<Rightarrow> string \<Rightarrow> string \<Rightarrow> node option" where
  "parseVLESS h raw source = (case url_Parse raw of None \<Rightarrow> None
     | Some u \<Rightarrow> (case splitHostPort (uri_Host u) ''443'' of None \<Rightarrow> None
       | Some (host, portStr) \<Rightarrow>
         (let port = atoiDefault portStr 443; q = url_Query u; sec = queryGet q [''security''];
              extra = [(''encryption'', queryGet q [''encryption'']), (''fp'', queryGet q [''fp'']),
                (''pbk'', queryGet q [''pbk'']), (''sid'', queryGet q [''sid'']), (''spx'', queryGet q [''spx'']),
                (''serviceName'', queryGet q [''serviceName'']), (''headerType'', queryGet q [''headerType'']),
                (''mode'', queryGet q [''mode'']),
                (''packet-encoding'', queryGet q [''packetEncoding'', ''packet-encoding'']),
                (''max-early-data'', queryGet q [''ed'', ''max-early-data'']),
                (''early-data-header-name'', queryGet q [''eh'', ''early-data-header-name'']),
                (''insecure'', queryGet q [''insecure'', ''allowInsecure'', ''skip-cert-verify''])]
          in Some (fingerprinted h (zero_node\<lparr>n_Protocol := ProtoVLESS,
            n_Name := parseNameFromFragment u (''vless-'' @ host @ ''-'' @ itoa port), n_Server := host, n_Port := port,
            n_UUID := Username u, n_Network := firstNonEmpty [queryGet q [''type'', ''net''], ''tcp''],
            n_TLS := (truthy sec \<or> sec = ''tls'' \<or> sec = ''reality''), n_SNI := queryGet q [''sni'', ''peer''],
            n_Path := queryGet q [''path''], n_Host := queryGet q [''host''], n_Flow := queryGet q [''flow''],
            n_Security := sec, n_ALPN := queryGet q [''alpn''], n_RawURI := raw, n_Source := source,
            n_Extra := extra\<rparr>)))))"

text \<open>The user part with its optional password, as Trojan and Hysteria2 passwords use it.\<close>

definition whole_userinfo :: "URL \<Rightarrow> string" where
  "whole_userinfo u = Username u @ (case user_Password u of None \<Rightarrow> '''' | Some p \<Rightarrow> '':'' @ p)"

definition parseTrojan :: "hashes \<Rightarrow> string \<Rightarrow> string \<Rightarrow> node option" where
  "parseTrojan h raw source = (case url_Parse raw of None \<Rightarrow> None
     | Some u \<Rightarrow> (case splitHostPort (uri_Host u) ''443'' of None \<Rightarrow> None
       | Some (host, portStr) \<Rightarrow>
         (let port = atoiDefault portStr 443; q = url_Query u;
              extra = [(''fp'', queryGet q [''fp'']), (''pbk'', queryGet q [''pbk'']), (''sid'', queryGet q [''sid'']),
                (''serviceName'', queryGet q [''serviceName'']), (''headerType'', queryGet q [''headerType'']),
                (''mode'', queryGet q [''mode'']), (''max-early-data'', queryGet q [''ed'', ''max-early-data'']),
                (''early-data-header-name'', queryGet q [''eh'', ''early-data-header-name'']),
                (''insecure'', queryGet q [''insecure'', ''allowInsecure'', ''skip-cert-verify''])];
              security = (if ToLower (queryGet q [''security'']) = ''reality'' \<or> queryGet q [''pbk''] \<noteq> ''''
                then ''reality'' else ''tls'')
          in Some (fingerprinted h (zero_node\<lparr>n_Protocol := ProtoTrojan,
            n_Name := parseNameFromFragment u (''trojan-'' @ host @ ''-'' @ itoa port), n_Server := host, n_Port := port,
            n_Password := whole_userinfo u, n_Network := firstNonEmpty [queryGet q [''type''], ''tcp''],
            n_TLS := True, n_SNI := queryGet q [''sni'', ''peer''], n_Path := queryGet q [''path''],
            n_Host := queryGet q [''host''], n_Security := security, n_ALPN := queryGet q [''alpn''],
            n_RawURI := raw, n_Source := source, n_Extra := extra\<rparr>)))))"

definition plugin_option :: "string \<Rightarrow> amap \<Rightarrow> amap" where
  "plugin_option item opts = (case Cut item ''='' of (key, value, found) \<Rightarrow>
     if found \<and> key \<noteq> '''' then fmupd key (AStr value) opts
     else if item \<noteq> '''' then fmupd item (ABool True) opts else opts)"

definition ss_plugin :: "codecs \<Rightarrow> string \<Rightarrow> (string, string) gmap" where
  "ss_plugin c spec = (if spec = '''' then []
     else (let parts = Split CHR '';'' spec; opts = fold plugin_option (tl parts) fmempty
       in [(''plugin'', hd parts)] @ (if opts = fmempty then []
            else (case json_Marshal c (AMap opts) of Some raw \<Rightarrow> [(''plugin-opts'', raw)] | None \<Rightarrow> []))))"

definition method_password :: "string \<Rightarrow> (string \<times> string) option" where
  "method_password userinfo = (case Cut userinfo '':'' of (m, p, found) \<Rightarrow> if found then Some (m, p) else None)"

text \<open>\<open>method\<close>, \<open>password\<close>, host and port of a Shadowsocks link body in its two forms.\<close>

definition ss_body :: "string \<Rightarrow> (string \<times> string \<times> string \<times> string) option" where
  "ss_body body =
     (if CHR ''@'' \<in> set body then
        (case Cut body ''@'' of (userinfo0, hp, _) \<Rightarrow>
          (let userinfo = (case tryDecodeBase64 userinfo0 of Some d \<Rightarrow> d | None \<Rightarrow> userinfo0)
           in case method_password userinfo of None \<Rightarrow> None
              | Some (m, p) \<Rightarrow> map_option (\<lambda>(host, port). (m, p, host, port)) (splitHostPort hp ''8388'')))
      else (case tryDecodeBase64 body of None \<Rightarrow> None
        | Some decoded \<Rightarrow> (case LastIndexByte decoded CHR ''@'' of None \<Rightarrow> None
          | Some i \<Rightarrow> (case method_password (take i decoded) of
              Some (m, p) \<Rightarrow> map_option (\<lambda>(host, port). (m, p, host, port)) (splitHostPort (drop (i + 1) decoded) ''8388'')
            | None \<Rightarrow> map_option (\<lambda>(host, port). ('''', '''', host, port)) (splitHostPort (drop (i + 1) decoded) ''8388'')))))"

definition parseSS :: "hashes \<Rightarrow> codecs \<Rightarrow> string \<Rightarrow> string \<Rightarrow> node option" where
  "parseSS h c raw source =
     (let body = TrimPrefix (TrimPrefix raw ''ss://'') ''SS://'';
          (body, frag, has_frag) = Cut body ''#'';
          name = (if has_frag then (case QueryUnescape frag of Some s \<Rightarrow> s | None \<Rightarrow> '''') else '''');
          (body, query, has_query) = Cut body ''?'';
          spec = (if has_query then (case ParseQuery query of (q, ok) \<Rightarrow> if ok then Values_Get q ''plugin'' else '''') else '''');
          body = TrimSuffix body ''/''
      in case ss_body body of None \<Rightarrow> None
         | Some (m, password, host, p) \<Rightarrow>
           (let port = atoiDefault p 8388;
                name = (if name = '''' then ''ss-'' @ host @ ''-'' @ itoa port else name)
            in Some (fingerprinted h (zero_node\<lparr>n_Protocol := ProtoSS, n_Name := name, n_Server := host, n_Port := port,
                 n_Method := m, n_Password := password, n_RawURI := raw, n_Source := source,
                 n_Extra := ss_plugin c spec\<rparr>))))"

definition ssr_split :: "string \<Rightarrow> string \<times> string" where
  "ssr_split decoded = (case Cut decoded ''/?'' of (main, params, found) \<Rightarrow> if found then (main, params)
     else (case Cut decoded ''?'' of (main, params, _) \<Rightarrow> (main, params)))"

definition parseSSR :: "hashes \<Rightarrow> string \<Rightarrow> string \<Rightarrow> node option" where
  "parseSSR h raw source = (case tryDecodeBase64 (TrimPrefix (TrimPrefix raw ''ssr://'') ''SSR://'') of None \<Rightarrow> None
     | Some decoded \<Rightarrow> (case ssr_split decoded of (main, params) \<Rightarrow>
       (let parts = Split CHR '':'' main in
        if length parts < 6 then None
        else (let offset = length parts - 5; host = Trim (Join (take offset parts) '':'') ''[]'';
              port = atoiDefault (parts ! offset) 0; q = fst (ParseQuery params);
              r = Values_Get q ''remarks'';
              name = (if params \<noteq> '''' \<and> r \<noteq> '''' then (case tryDecodeBase64 r of Some d \<Rightarrow> d | None \<Rightarrow> r)
                else ''ssr-'' @ host @ ''-'' @ itoa port);
              extra = [(''protocol'', parts ! (offset + 1)), (''obfs'', parts ! (offset + 3)),
                (''protocol-param'', decodeMaybeBase64 (firstNonEmpty [Values_Get q ''protoparam'', Values_Get q ''protocolparam''])),
                (''obfs-param'', decodeMaybeBase64 (Values_Get q ''obfsparam''))]
          in Some (fingerprinted h (zero_node\<lparr>n_Protocol := ProtoSSR, n_Name := name, n_Server := host, n_Port := port,
               n_Method := parts ! (offset + 2), n_Password := decodeMaybeBase64 (parts ! (offset + 4)),
               n_RawURI := raw, n_Source := source, n_Extra := extra\<rparr>))))))"

definition parseHysteria2 :: "hashes \<Rightarrow> string \<Rightarrow> string \<Rightarrow> node option" where
  "parseHysteria2 h raw source = (case parseHysteriaURL raw of None \<Rightarrow> None
     | Some (u, ports) \<Rightarrow> (case splitHostPort (uri_Host u) ''443'' of None \<Rightarrow> None
       | Some (host, portStr) \<Rightarrow>
         (let port = firstPort portStr 443; q = url_Query u;
              extra = [(''obfs'', queryGet q [''obfs'']), (''obfs-password'', queryGet q [''obfs-password'', ''obfsPassword'']),
                (''fp'', queryGet q [''fp'']), (''fingerprint'', queryGet q [''pinSHA256'', ''fingerprint'']),
                (''ech'', queryGet q [''ech'']),
                (''insecure'', queryGet q [''insecure'', ''allowInsecure'', ''skip-cert-verify''])]
                @ (if ports \<noteq> '''' then [(''ports'', ports)] else [])
          in Some (fingerprinted h (zero_node\<lparr>n_Protocol := ProtoHysteria2,
            n_Name := parseNameFromFragment u (''hy2-'' @ host @ ''-'' @ itoa port), n_Server := host, n_Port := port,
            n_Password := whole_userinfo u, n_TLS := True, n_SNI := queryGet q [''sni'', ''peer''],
            n_ALPN := queryGet q [''alpn''], n_RawURI := raw, n_Source := source, n_Extra := extra\<rparr>)))))"

definition parseTUIC :: "hashes \<Rightarrow> string \<Rightarrow> string \<Rightarrow> node option" where
  "parseTUIC h raw source = (case url_Parse raw of None \<Rightarrow> None
     | Some u \<Rightarrow> (case splitHostPort (uri_Host u) ''443'' of None \<Rightarrow> None
       | Some (host, portStr) \<Rightarrow>
         (let port = atoiDefault portStr 443; q = url_Query u;
              uuid0 = Username u; pass = (case user_Password u of None \<Rightarrow> '''' | Some p \<Rightarrow> p);
              token0 = queryGet q [''token''];
              (token, uuid) = (if pass = '''' \<and> token0 = '''' then (uuid0, '''') else (token0, uuid0));
              both = (\<lambda>a b. queryGet q [a, b]);
              extra = [(''token'', token), (''congestion_control'', both ''congestion_control'' ''congestion-control''),
                (''udp_relay_mode'', both ''udp_relay_mode'' ''udp-relay-mode''), (''fp'', queryGet q [''fp'']),
                (''fingerprint'', both ''fingerprint'' ''pinSHA256''),
                (''name-cert-verify'', both ''name-cert-verify'' ''name_cert_verify''), (''ip'', queryGet q [''ip'']),
                (''heartbeat-interval'', both ''heartbeat-interval'' ''heartbeat_interval''),
                (''disable-sni'', both ''disable-sni'' ''disable_sni''), (''reduce-rtt'', both ''reduce-rtt'' ''reduce_rtt''),
                (''request-timeout'', both ''request-timeout'' ''request_timeout''),
                (''max-udp-relay-packet-size'', both ''max-udp-relay-packet-size'' ''max_udp_relay_packet_size''),
                (''fast-open'', both ''fast-open'' ''fast_open''), (''max-open-streams'', both ''max-open-streams'' ''max_open_streams''),
                (''insecure'', queryGet q [''insecure'', ''allowInsecure'', ''skip-cert-verify''])]
          in Some (fingerprinted h (zero_node\<lparr>n_Protocol := ProtoTUIC,
            n_Name := parseNameFromFragment u (''tuic-'' @ host @ ''-'' @ itoa port), n_Server := host, n_Port := port,
            n_UUID := uuid, n_Password := pass, n_TLS := True, n_SNI := queryGet q [''sni'', ''peer''],
            n_ALPN := queryGet q [''alpn''], n_RawURI := raw, n_Source := source, n_Extra := extra\<rparr>)))))"

subsection \<open>Subscriptions\<close>

record link_env =
  le_hashes :: hashes
  le_codecs :: codecs
  le_sprint :: "any \<Rightarrow> string"

definition ParseURI :: "link_env \<Rightarrow> string \<Rightarrow> string \<Rightarrow> node option" where
  "ParseURI env raw0 source =
     (let raw = TrimSpace raw0; low = ToLower raw; h = le_hashes env; c = le_codecs env
      in if HasPrefix low ''vmess://'' then parseVMess h c (le_sprint env) raw source
         else if HasPrefix low ''vless://'' then parseVLESS h raw source
         else if HasPrefix low ''trojan://'' then parseTrojan h raw source
         else if HasPrefix low ''ss://'' then parseSS h c raw source
         else if HasPrefix low ''ssr://'' then parseSSR h raw source
         else if HasPrefix low ''hysteria2://'' \<or> HasPrefix low ''hy2://'' then parseHysteria2 h raw source
         else if HasPrefix low ''tuic://'' then parseTUIC h raw source
         else None)"

text \<open>
  \<open>uriRe.FindAllString\<close>: scanning from the left, a scheme of the list followed by at least one byte
  other than white space, angle brackets and quotes; the match is as long as possible and the scan
  resumes after it.
\<close>

definition link_char :: "char \<Rightarrow> bool" where
  "link_char c \<longleftrightarrow> c \<notin> {CHR 0x09, CHR 0x0A, CHR 0x0C, CHR 0x0D, CHR '' '', CHR ''<'', CHR ''>'', CHR 0x22, CHR 0x27}"

definition match_at :: "string \<Rightarrow> nat option" where
  "match_at s = (case find (\<lambda>p. HasPrefix (ToLower s) p) link_schemes of None \<Rightarrow> None
     | Some p \<Rightarrow> (let tail = takeWhile link_char (drop (length p) s)
         in if tail = '''' then None else Some (length p + length tail)))"

lemma match_at_pos: "match_at s = Some k \<Longrightarrow> 0 < k"
  by (auto simp: match_at_def Let_def split: option.splits if_splits)

function find_uris :: "string \<Rightarrow> string list" where
  "find_uris [] = []"
| "find_uris (c # s) = (case match_at (c # s) of None \<Rightarrow> find_uris s
     | Some k \<Rightarrow> take k (c # s) # find_uris (drop k (c # s)))"
  by pat_completeness auto

termination find_uris
  by (relation "measure length") (auto dest: match_at_pos)

definition expand_line :: "string \<Rightarrow> string list" where
  "expand_line line0 = (let line = TrimSpace line0 in
     if line = '''' \<or> HasPrefix line ''#'' \<or> HasPrefix line ''//'' then []
     else if looksLikeURI line then [line]
     else (case tryDecodeBase64 line of
         Some decoded \<Rightarrow> if looksLikeURI decoded then splitLines decoded else [line]
       | None \<Rightarrow> [line]))"

definition strip_link :: "string \<Rightarrow> string" where
  "strip_link line = rev (dropWhile (\<lambda>r. r \<in> {CHR '','', CHR '';'', CHR '')'', CHR '']''} \<or> is_space r) (rev line))"

fun parse_lines :: "link_env \<Rightarrow> string \<Rightarrow> string list \<Rightarrow> string list \<Rightarrow> node list" where
  "parse_lines env source seen [] = []"
| "parse_lines env source seen (l # ls) =
     (let line0 = Trim (TrimSpace l) (CHR 0x60 # CHR 0x22 # [CHR 0x27]); line = strip_link line0 in
      if line0 = '''' \<or> line \<in> set seen then parse_lines env source seen ls
      else (case ParseURI env line source of None \<Rightarrow> parse_lines env source (line # seen) ls
        | Some n \<Rightarrow> n # parse_lines env source (line # seen) ls))"

definition parse_clash_content :: "link_env \<Rightarrow> string \<Rightarrow> string \<Rightarrow> node list" where
  "parse_clash_content env content source = (if looksLikeClash content
     then ParseClash (le_hashes env) (le_codecs env) content source else [])"

definition parse_links :: "link_env \<Rightarrow> string \<Rightarrow> string \<Rightarrow> node list" where
  "parse_links env content source = parse_lines env source []
     (concat (map expand_line (splitLines content)) @ find_uris content)"

definition ParseContent :: "link_env \<Rightarrow> string \<Rightarrow> string \<Rightarrow> node list" where
  "ParseContent env content0 source =
     (let content = TrimSpace content0 in
      if content = '''' then []
      else if parse_clash_content env content source \<noteq> [] then parse_clash_content env content source
      else (case tryDecodeBase64 content of
          None \<Rightarrow> parse_links env content source
        | Some decoded \<Rightarrow> if parse_clash_content env decoded source \<noteq> [] then parse_clash_content env decoded source
            else parse_links env decoded source))"

end
