(* ===== verification/LinkRoundTrip.thy ===== *)
theory LinkRoundTrip
  imports LinkParser
begin

text \<open>
  What the parser reads back from the links the program itself writes
  (\<open>clashProxyToURI\<close> of \<open>internal/parser/clash.go\<close>), and which Base64 texts it refuses.
\<close>

subsection \<open>Text without white space\<close>

lemma trim_by_id: "\<forall>c \<in> set s. \<not> p c \<Longrightarrow> trim_by p s = s"
proof -
  have id: "dropWhile p t = t" if "\<forall>c \<in> set t. \<not> p c" for t using that by (cases t) auto
  assume "\<forall>c \<in> set s. \<not> p c"
  then show ?thesis using id [of s] id [of "rev s"] by (simp add: trim_by_def)
qed

lemma TrimSpace_id: "\<forall>c \<in> set s. \<not> is_space c \<Longrightarrow> TrimSpace s = s"
  by (simp add: TrimSpace_def trim_by_id)

lemma itoa_digits: "0 \<le> i \<Longrightarrow> \<forall>c \<in> set (itoa i). is_digit c"
  using nat_dec_digits by (auto simp: itoa_def is_digit_def)

lemma digit_not_space: "is_digit c \<Longrightarrow> \<not> is_space c"
  by (auto simp: is_digit_def is_space_def Let_def)

lemma itoa_not_Nil [simp]: "itoa i \<noteq> ''''"
  by (simp add: itoa_def)

lemma Atoi_itoa:
  assumes "0 \<le> i" and "i < 2 ^ 63"
  shows "Atoi (itoa i) = (i, True)"
proof -
  have d: "list_all is_digit (itoa i)" using itoa_digits [OF assms(1)] by (simp add: list_all_iff)
  obtain c cs where c: "itoa i = c # cs" by (cases "itoa i") auto
  have "is_digit c" using d c by simp
  then have s: "c \<noteq> CHR ''-''" "c \<noteq> CHR ''+''" by (auto simp: is_digit_def)
  have v: "int (dec_value (c # cs)) = i"
    using assms(1) dec_value_nat_dec [of "nat i"] c by (simp add: itoa_def del: dec_value.simps)
  have "Atoi (c # cs) = (let v = int (dec_value (c # cs)) in if v > 2 ^ 63 - 1 then (2 ^ 63 - 1, False)
      else if v < - (2 ^ 63) then (- (2 ^ 63), False) else (v, True))"
    using d c s by (simp add: Atoi_def Let_def del: dec_value.simps)
  also have "\<dots> = (i, True)" unfolding v Let_def using assms by simp
  finally show ?thesis by (simp only: c)
qed

lemma atoiDefault_itoa: "0 \<le> i \<Longrightarrow> i < 2 ^ 63 \<Longrightarrow> atoiDefault (itoa i) d = i"
  using Atoi_itoa [of i] itoa_digits [of i] TrimSpace_id [of "itoa i"] digit_not_space
  by (simp add: atoiDefault_def Let_def)

subsection \<open>Hosts\<close>

definition host_char :: "char \<Rightarrow> bool" where
  "host_char c \<longleftrightarrow> is_alpha c \<or> is_digit c \<or> c \<in> set ''-._:''"

definition host_ok :: "string \<Rightarrow> bool" where
  "host_ok s \<longleftrightarrow> s \<noteq> '''' \<and> list_all host_char s"

lemma not_host_char: "\<not> host_char CHR ''[''" "\<not> host_char CHR '']''" "\<not> host_char CHR ''#''" "\<not> host_char CHR ''?''"
    "\<not> host_char CHR ''@''" "\<not> host_char CHR ''/''"
  by code_simp+

lemma host_char_not_space: "host_char c \<Longrightarrow> \<not> is_space c"
  by (auto simp: host_char_def is_alpha_def is_digit_def is_space_def Let_def)

lemma host_ok_free: "host_ok s \<Longrightarrow> \<not> host_char c \<Longrightarrow> c \<notin> set s"
  by (auto simp: host_ok_def list_all_iff)

lemma uriHostPort_eq:
  assumes "host_ok s"
  shows "uriHostPort s p = (if CHR '':'' \<in> set s then ''['' @ s @ '']:'' @ p else s @ '':'' @ p)"
proof -
  have "Trim s ''[]'' = s"
    unfolding Trim_def using host_ok_free [OF assms] not_host_char by (intro trim_by_id) auto
  then show ?thesis by (simp add: uriHostPort_def JoinHostPort_def)
qed

lemma digits_free: "0 \<le> i \<Longrightarrow> \<not> is_digit c \<Longrightarrow> c \<notin> set (itoa i)"
  using itoa_digits by blast

lemma not_digits: "\<not> is_digit CHR '':''" "\<not> is_digit CHR ''[''" "\<not> is_digit CHR '']''" "\<not> is_digit CHR ''#''"
    "\<not> is_digit CHR ''?''" "\<not> is_digit CHR ''@''" "\<not> is_digit CHR ''/''"
  by code_simp+

lemma SplitHostPort_plain:
  assumes "CHR '':'' \<notin> set s" "CHR '':'' \<notin> set p" "CHR ''['' \<notin> set (s @ p)" "CHR '']'' \<notin> set (s @ p)"
  shows "SplitHostPort (s @ '':'' @ p) = Some (s, p)"
proof -
  have "LastIndexByte (s @ CHR '':'' # p) CHR '':'' = Some (length s)" using assms by (intro LastIndexByte_snoc)
  moreover have "\<not> HasPrefix (s @ CHR '':'' # p) ''[''" using assms by (cases s) (auto simp: HasPrefix_def)
  ultimately show ?thesis using assms by (simp add: SplitHostPort_def)
qed

lemma SplitHostPort_bracket:
  assumes "CHR '':'' \<notin> set p" "CHR ''['' \<notin> set (s @ p)" "CHR '']'' \<notin> set (s @ p)"
  shows "SplitHostPort (''['' @ s @ '']:'' @ p) = Some (s, p)"
proof -
  let ?h = "(''['' @ s @ '']'') @ CHR '':'' # p"
  have "LastIndexByte ?h CHR '':'' = Some (length (''['' @ s @ '']''))" using assms by (intro LastIndexByte_snoc)
  moreover have "Index ((''['' @ s) @ CHR '']'' # CHR '':'' # p) '']'' = Some (length (''['' @ s))"
    using assms by (intro Index_single) auto
  ultimately show ?thesis using assms by (simp add: SplitHostPort_def HasPrefix_def)
qed

lemma splitHostPort_uri:
  assumes "host_ok s" and "0 \<le> port"
  shows "splitHostPort (uriHostPort s (itoa port)) d = Some (s, itoa port)"
proof -
  note free = host_ok_free [OF assms(1)] digits_free [OF assms(2)]
  have spaces: "\<forall>c \<in> set (uriHostPort s (itoa port)). \<not> is_space c"
    using assms itoa_digits [OF assms(2)] digit_not_space host_char_not_space
    by (auto simp: uriHostPort_eq host_ok_def list_all_iff) (auto simp: is_space_def)
  show ?thesis
  proof (cases "CHR '':'' \<in> set s")
    case True
    then have u: "uriHostPort s (itoa port) = ''['' @ s @ '']:'' @ itoa port" using uriHostPort_eq [OF assms(1)] by simp
    have "HasPrefix (''['' @ s @ '']:'' @ itoa port) ''[''" by (simp add: HasPrefix_def)
    with SplitHostPort_bracket [of "itoa port" s] free not_host_char not_digits spaces show ?thesis
      by (simp add: splitHostPort_def u TrimSpace_id Let_def)
  next
    case False
    then have u: "uriHostPort s (itoa port) = s @ '':'' @ itoa port" using uriHostPort_eq [OF assms(1)] by simp
    have "Count (s @ '':'' @ itoa port) CHR '':'' = 1"
      using False free not_digits by (simp add: Count_def filter_empty_conv) (metis (mono_tags) filter_False)
    moreover have "\<not> HasPrefix (s @ '':'' @ itoa port) ''[''"
      using assms(1) free not_host_char by (cases s) (auto simp: HasPrefix_def host_ok_def)
    ultimately show ?thesis
      using SplitHostPort_plain [of s "itoa port"] False free not_host_char not_digits spaces
      by (simp add: splitHostPort_def u TrimSpace_id Let_def)
  qed
qed


subsection \<open>Base64 texts the parser decodes\<close>

definition std_text :: "string \<Rightarrow> string" where
  "std_text x = map to_std (EncodeToString x)"

definition std_ok :: "char \<Rightarrow> bool" where
  "std_ok c \<longleftrightarrow> b64_char c \<and> \<not> is_space c \<and> c \<noteq> CHR ''='' \<and> lower_char c \<noteq> CHR '':'' \<and> c \<notin> set '':@#?''"

lemma std_alphabet_ok: "list_all (\<lambda>c. std_ok (to_std c)) alphabet"
  by (simp add: alphabet_def to_std_def std_ok_def b64_char_def is_alpha_def is_digit_def is_space_def
      lower_char_def Let_def char_of_def bit_Suc_0_iff)

lemma std_text_ok: "c \<in> set (std_text x) \<Longrightarrow> std_ok c"
proof -
  assume "c \<in> set (std_text x)"
  then obtain d where "d < 64" "c = to_std (alphabet ! d)"
    by (auto simp: std_text_def digit_def dest!: EncodeToString_digits)
  moreover have "length alphabet = 64" by (simp add: alphabet_def)
  ultimately show "std_ok c" using std_alphabet_ok by (simp add: list_all_length)
qed

lemma std_text_chars:
  assumes "c \<in> set (std_text x)"
  shows "b64_char c" "\<not> is_space c" "c \<noteq> CHR ''=''" "lower_char c \<noteq> CHR '':''" "c \<notin> set '':@#?''"
  using std_text_ok [OF assms] by (simp_all add: std_ok_def)

lemma std_text_free: "CHR ''@'' \<notin> set (std_text x)" "CHR '':'' \<notin> set (std_text x)" "CHR ''#'' \<notin> set (std_text x)"
    "CHR ''?'' \<notin> set (std_text x)"
  using std_text_chars(5) by fastforce+

lemma length_std_text: "length (std_text x) = (4 * length x + 2) div 3"
proof -
  have "length (EncodeToString x) = (4 * length x + 2) div 3"
    by (induction x rule: EncodeToString.induct) simp_all
  then show ?thesis by (simp add: std_text_def)
qed

lemma TrimRight_std: "TrimRight (Encode StdEncoding x) ''='' = std_text x"
proof -
  obtain k where k: "Encode StdEncoding x = std_text x @ replicate k CHR ''=''"
    by (cases "length (std_text x) mod 4 = 0")
      (auto simp: Encode_def pad_to_4_def std_text_def intro: that [of 0])
  have "dropWhile (\<lambda>c. c \<in> set ''='') (rev (std_text x)) = rev (std_text x)"
    using std_text_chars(3) [of _ x] by (cases "rev (std_text x)") (auto simp: rev_eq_Cons_iff)
  then show ?thesis
    by (simp add: TrimRight_def k dropWhile_append)
qed

lemma scheme_has_colon: "p \<in> set link_schemes \<Longrightarrow> CHR '':'' \<in> set p"
  by (auto simp: link_schemes_def)

lemma looksLikeURI_colon:
  assumes "\<forall>c \<in> set s. lower_char c \<noteq> CHR '':''"
  shows "\<not> looksLikeURI s"
proof
  assume "looksLikeURI s"
  then obtain p where "p \<in> set link_schemes" "HasPrefix (ToLower (TrimSpace s)) p"
    by (auto simp: looksLikeURI_def list_ex_iff)
  then have "CHR '':'' \<in> set (take (length p) (ToLower (TrimSpace s)))"
    using scheme_has_colon by (simp add: HasPrefix_def)
  then have "CHR '':'' \<in> set (ToLower (TrimSpace s))" by (rule in_set_takeD)
  moreover have "set (TrimSpace s) \<subseteq> set s"
    by (auto simp: TrimSpace_def trim_by_def dest!: set_dropWhileD)
  ultimately show False using assms by (auto simp: ToLower_def)
qed

lemma tryDecodeBase64_std:
  "tryDecodeBase64 (std_text x) = (if 12 \<le> length x \<and> isMostlyPrintable x then Some x
     else if length x < 12 then None else tryDecodeBase64 (std_text x))"
proof (cases "12 \<le> length x")
  case False
  have "filter (\<lambda>c. \<not> is_space c) (std_text x) = std_text x" "TrimSpace (std_text x) = std_text x"
    using std_text_chars(2) by (auto intro: TrimSpace_id)
  moreover have "length (std_text x) < 16" using False by (simp add: length_std_text)
  ultimately show ?thesis using False by (simp add: tryDecodeBase64_def Let_def)
next
  case True
  have f: "filter (\<lambda>c. \<not> is_space c) (std_text x) = std_text x" "TrimSpace (std_text x) = std_text x"
    using std_text_chars(2) by (auto intro: TrimSpace_id)
  have "16 \<le> length (std_text x)" using True by (simp add: length_std_text)
  then have l: "\<not> length (std_text x) < 16" "std_text x \<noteq> ''''" by auto
  have u: "\<not> looksLikeURI (std_text x)" using std_text_chars(4) by (intro looksLikeURI_colon) blast
  have b: "list_all b64_char (std_text x)" using std_text_chars(1) by (auto simp: list_all_iff)
  have "Decode StdEncoding (pad_to_4 (std_text x)) = Some x"
    using Decode_Encode [of StdEncoding x] by (simp add: Encode_def std_text_def)
  then have "isMostlyPrintable x \<Longrightarrow> tryDecodeBase64 (std_text x) = Some x"
    using f l u b by (simp add: tryDecodeBase64_def Let_def all_encodings_def)
  with True show ?thesis by auto
qed

text \<open>No text with a byte of the URL-safe alphabet is decoded, although that alphabet is tried.\<close>

lemma tryDecodeBase64_urlsafe:
  assumes "CHR ''-'' \<in> set s \<or> CHR ''_'' \<in> set s"
  shows "tryDecodeBase64 s = None"
proof -
  have keep: "c \<in> set s \<Longrightarrow> \<not> is_space c \<Longrightarrow> c \<in> set (TrimSpace s)" for c
    using split_list [of c s] by (auto simp: TrimSpace_def trim_by_def dropWhile_append)
  obtain c where c: "c \<in> set s" "c = CHR ''-'' \<or> c = CHR ''_''" using assms by blast
  then have "\<not> is_space c" "\<not> b64_char c" by (auto simp: is_space_def b64_char_def is_alpha_def is_digit_def)
  with keep [OF c(1)] have "\<not> list_all b64_char (filter (\<lambda>c. \<not> is_space c) (TrimSpace s))"
    by (auto simp: list_all_iff)
  then show ?thesis by (simp add: tryDecodeBase64_def Let_def)
qed


subsection \<open>Shadowsocks links\<close>

definition ss_secret :: "amap \<Rightarrow> string" where
  "ss_secret m = asString (aget m ''cipher'') @ '':'' @ asString (aget m ''password'')"

text \<open>A Shadowsocks entry whose fields can be written into a link.\<close>

definition ss_entry :: "amap \<Rightarrow> bool" where
  "ss_entry m \<longleftrightarrow> asString (aget m ''type'') = ''ss'' \<and> host_ok (asString (aget m ''server'')) \<and>
     0 < asInt (aget m ''port'') \<and> asInt (aget m ''port'') < 2 ^ 63 \<and>
     asString (aget m ''cipher'') \<noteq> '''' \<and> CHR '':'' \<notin> set (asString (aget m ''cipher'')) \<and>
     asString (aget m ''password'') \<noteq> '''' \<and> isMostlyPrintable (ss_secret m)"

definition ss_query :: "amap \<Rightarrow> string" where
  "ss_query m = (let plugin = asString (aget m ''plugin'') in
     if plugin = '''' then '''' else ''?'' @ Values_Encode (Values_Set ''plugin'' (plugin_spec m plugin) []))"

definition ss_address :: "amap \<Rightarrow> string" where
  "ss_address m = uriHostPort (asString (aget m ''server'')) (itoa (asInt (aget m ''port'')))"

lemma ss_uri_eq:
  "ss_entry m \<Longrightarrow> clashProxyToURI c m = ''ss://'' @ (std_text (ss_secret m) @ ''@'' @ ss_address m @ ss_query m) @
     ''#'' @ QueryEscape (asString (aget m ''name''))"
  by (simp add: ss_entry_def clashProxyToURI_def ss_uri_def Let_def TrimRight_std ss_secret_def host_ok_def
      ss_query_def ss_address_def ToLower_def lower_char_def)

lemma ss_address_chars:
  assumes "ss_entry m" and "x \<in> set (ss_address m)"
  shows "host_char x \<or> x = CHR ''['' \<or> x = CHR '']''"
  using assms itoa_digits [of "asInt (aget m ''port'')"]
  by (auto simp: ss_entry_def ss_address_def uriHostPort_eq host_ok_def list_all_iff host_char_def split: if_splits)

lemma ss_query_chars: "x \<in> set (ss_query m) \<Longrightarrow> query_char x \<or> x = CHR ''?'' \<or> x = CHR ''=''"
proof -
  have e: "Values_Encode (Values_Set k v []) = QueryEscape k @ ''='' @ QueryEscape v" for k v
    by (simp add: Values_Set_def gput_def Values_Encode_def encode_pairs_def gget_def)
  assume "x \<in> set (ss_query m)"
  then show ?thesis by (auto simp: ss_query_def e Let_def dest: query_char_escape split: if_splits)
qed

lemma query_char_not_space: "query_char c \<Longrightarrow> \<not> is_space c"
  by (auto simp: query_char_def is_alpha_def is_digit_def is_space_def Let_def)

lemma ss_body_eq:
  assumes "ss_entry m"
  shows "ss_body (std_text (ss_secret m) @ ''@'' @ ss_address m) = (if 12 \<le> length (ss_secret m)
    then Some (asString (aget m ''cipher''), asString (aget m ''password''), asString (aget m ''server''),
      itoa (asInt (aget m ''port'')))
    else None)"
proof -
  let ?x = "ss_secret m"
  have cut: "Cut (std_text ?x @ ''@'' @ ss_address m) ''@'' = (std_text ?x, ss_address m, True)"
    using std_text_free(1) [of ?x] by simp
  have mp: "method_password ?x = Some (asString (aget m ''cipher''), asString (aget m ''password''))"
    using assms by (simp add: method_password_def ss_secret_def ss_entry_def)
  have none: "method_password (std_text ?x) = None"
    using std_text_free(2) [of ?x] by (simp add: method_password_def)
  have hp: "splitHostPort (ss_address m) d = Some (asString (aget m ''server''), itoa (asInt (aget m ''port'')))" for d
    using assms splitHostPort_uri by (simp add: ss_entry_def ss_address_def)
  have dec: "tryDecodeBase64 (std_text ?x) = (if 12 \<le> length ?x then Some ?x else None)"
    using tryDecodeBase64_std [of ?x] assms by (simp add: ss_entry_def split: if_splits)
  show ?thesis using cut mp none hp dec by (simp add: ss_body_def Let_def)
qed


lemma parseSS_link:
  assumes "ss_entry m"
  shows "parseSS h c (''ss://'' @ (std_text (ss_secret m) @ ''@'' @ ss_address m @ ss_query m) @ ''#'' @
      QueryEscape (asString (aget m ''name''))) source =
    (if 12 \<le> length (ss_secret m) then
       (let name = asString (aget m ''name''); server = asString (aget m ''server''); port = asInt (aget m ''port'');
            plugin = asString (aget m ''plugin'')
        in Some (fingerprinted h (zero_node\<lparr>n_Protocol := ProtoSS,
             n_Name := (if name = '''' then ''ss-'' @ server @ ''-'' @ itoa port else name), n_Server := server,
             n_Port := port, n_Method := asString (aget m ''cipher''), n_Password := asString (aget m ''password''),
             n_RawURI := ''ss://'' @ (std_text (ss_secret m) @ ''@'' @ ss_address m @ ss_query m) @ ''#'' @ QueryEscape name,
             n_Source := source, n_Extra := (if plugin = '''' then [] else ss_plugin c (plugin_spec m plugin))\<rparr>)))
     else None)"
proof -
  let ?x = "ss_secret m" let ?a = "std_text (ss_secret m) @ ''@'' @ ss_address m"
  let ?f = "QueryEscape (asString (aget m ''name''))"
  have addr: "x \<notin> set (ss_address m)" if "\<not> host_char x" "x \<noteq> CHR ''[''" "x \<noteq> CHR '']''" for x
    using ss_address_chars [OF assms] that by blast
  have a_free: "CHR ''#'' \<notin> set ?a" "CHR ''?'' \<notin> set ?a"
    using std_text_free [of ?x] addr [OF not_host_char(3)] addr [OF not_host_char(4)] by auto
  have q_free: "CHR ''#'' \<notin> set (ss_query m)" using ss_query_chars [of "CHR ''#''" m] not_query_char by auto
  have p1: "TrimPrefix (''ss://'' @ (?a @ ss_query m) @ ''#'' @ ?f) ''ss://'' = (?a @ ss_query m) @ CHR ''#'' # ?f"
    by (simp add: TrimPrefix_def HasPrefix_def)
  have p2: "TrimPrefix ((?a @ ss_query m) @ CHR ''#'' # ?f) ''SS://'' = (?a @ ss_query m) @ CHR ''#'' # ?f"
  proof -
    have "3 \<le> length (std_text ?x)" using assms by (auto simp: length_std_text ss_entry_def ss_secret_def neq_Nil_conv)
    then obtain p q r t where "std_text ?x = p # q # r # t" by (auto simp: numeral_3_eq_3 Suc_le_length_iff)
    with std_text_free(2) [of ?x] show ?thesis by (auto simp: TrimPrefix_def HasPrefix_def)
  qed
  have c1: "Cut ((?a @ ss_query m) @ CHR ''#'' # ?f) ''#'' = (?a @ ss_query m, ?f, True)"
    using a_free q_free by (intro Cut_single) simp
  have c2: "Cut (?a @ ss_query m) ''?'' = (?a, drop 1 (ss_query m), ss_query m \<noteq> '''')"
  proof (cases "ss_query m")
    case Nil
    with a_free show ?thesis by (simp only: append_Nil2 Cut_single_None) simp
  next
    case (Cons x q)
    then have "x = CHR ''?''" by (auto simp: ss_query_def Let_def split: if_splits)
    with Cons a_free(2) Cut_single [of "CHR ''?''" ?a q] show ?thesis by simp
  qed
  have spec: "(if ss_query m \<noteq> '''' then (case ParseQuery (drop 1 (ss_query m)) of (q, ok) \<Rightarrow>
      if ok then Values_Get q ''plugin'' else '''') else '''') =
      (let plugin = asString (aget m ''plugin'') in if plugin = '''' then '''' else plugin_spec m plugin)"
    by (simp add: ss_query_def Let_def ParseQuery_single Values_Get_def gget_def)
  have last: "TrimSuffix ?a ''/'' = ?a"
  proof -
    have "\<exists>u. ss_address m = u @ itoa (asInt (aget m ''port''))"
      unfolding ss_address_def uriHostPort_def JoinHostPort_def
      by (metis append.assoc)
    moreover obtain ds d where ds: "itoa (asInt (aget m ''port'')) = ds @ [d]"
      by (cases "itoa (asInt (aget m ''port''))" rule: rev_cases) auto
    moreover have "is_digit d" using itoa_digits [of "asInt (aget m ''port'')"] ds assms by (auto simp: ss_entry_def)
    ultimately obtain t where td: "ss_address m = t @ [d]" "is_digit d" by (metis append.assoc)
    then have "d \<noteq> CHR ''/''" by (auto simp: is_digit_def)
    then show ?thesis by (simp add: TrimSuffix_def HasSuffix_def HasPrefix_def td(1))
  qed
  have port: "atoiDefault (itoa (asInt (aget m ''port''))) 8388 = asInt (aget m ''port'')"
    using assms by (simp add: atoiDefault_itoa ss_entry_def)
  note parts = p1 [unfolded append_assoc] p2 [unfolded append_assoc] c1 [unfolded append_assoc]
    c2 [unfolded append_assoc]
  show ?thesis
    unfolding parseSS_def append_assoc Let_def parts prod.case if_True spec [unfolded Let_def] last ss_body_eq [OF assms]
    by (simp add: port ss_plugin_def)
qed




text \<open>Codecs that know a single document, for evaluating examples.\<close>

definition tiny_env :: link_env where
  "tiny_env = \<lparr>le_hashes = plain_hashes, le_codecs = tiny_codecs, le_sprint = (\<lambda>_. '''')\<rparr>"

definition ss_example :: amap where
  "ss_example = fmap_of_list [(''type'', AStr ''ss''), (''name'', AStr ''a#b c''), (''server'', AStr ''2001:db8::1''),
     (''port'', AInt 8443), (''cipher'', AStr ''aes-128-gcm''), (''password'', AStr ''p:w'')]"


text \<open>
  A ShadowsocksR link whose Base64 text uses the URL-safe alphabet (a \<open>-\<close> or a \<open>_\<close> in it) is never
  parsed, although that is the alphabet in which the program itself writes such links.
\<close>

lemma parseSSR_rejects_urlsafe:
  assumes "CHR ''-'' \<in> set body \<or> CHR ''_'' \<in> set body"
  shows "parseSSR h (''ssr://'' @ body) source = None"
proof -
  have "TrimPrefix (''ssr://'' @ body) ''ssr://'' = body" by (simp add: TrimPrefix_def HasPrefix_def)
  moreover have "CHR ''-'' \<in> set (TrimPrefix body ''SSR://'') \<or> CHR ''_'' \<in> set (TrimPrefix body ''SSR://'')"
  proof (cases "HasPrefix body ''SSR://''")
    case True
    then obtain t where "body = ''SSR://'' @ t" by (metis HasPrefix_def append_take_drop_id)
    with assms show ?thesis by (simp add: TrimPrefix_def HasPrefix_def)
  next
    case False
    with assms show ?thesis by (simp add: TrimPrefix_def)
  qed
  ultimately show ?thesis using tryDecodeBase64_urlsafe by (simp add: parseSSR_def)
qed


end
