(* ===== verification/Publish.thy ===== *)
theory Publish
  imports Exporter Cleaner Store Database
begin

text \<open>
  What is published: \<open>SelectPublishNodesCountry\<close> and its filters (\<open>internal/service/service.go\<close>), the
  named pools (\<open>internal/pools/pools.go\<close>) and the pre-rendered subscriptions
  (\<open>internal/publish/cache.go\<close>) with their copy on disk. The current time is an argument \<open>now\<close>.
\<close>

subsection \<open>Selection\<close>

text \<open>\<open>geo.FlagEmoji\<close>: the two regional indicator symbols, in UTF-8.\<close>

definition is_upper :: "char \<Rightarrow> bool" where
  "is_upper c \<longleftrightarrow> 65 \<le> (of_char c :: nat) \<and> (of_char c :: nat) \<le> 90"

definition regional :: "char \<Rightarrow> string" where
  "regional c = [CHR 0xF0, CHR 0x9F, CHR 0x87, char_of (0xA6 + (of_char c - 65) :: nat)]"

definition FlagEmoji :: "string \<Rightarrow> string" where
  "FlagEmoji code0 = (case ToUpper (TrimSpace code0) of [a, b] \<Rightarrow>
       if is_upper a \<and> is_upper b then regional a @ regional b else ''''
     | _ \<Rightarrow> '''')"

definition applyCountryNamePrefix :: "node \<Rightarrow> node" where
  "applyCountryNamePrefix n =
     (if n_Country n = '''' \<or> n_Country n = ''XX'' then n
      else (let flag = FlagEmoji (n_Country n) in
        if flag = '''' then n
        else if HasPrefix (n_Name n) flag then n
        else (let name = TrimSpace (n_Name n) in
          if name = '''' then n\<lparr>n_Name := flag @ '' '' @ n_Country n\<rparr>
          else n\<lparr>n_Name := flag @ '' '' @ name\<rparr>)))"

definition hours_before :: "time \<Rightarrow> int \<Rightarrow> int \<Rightarrow> time" where
  "hours_before now hours def = now - wrap64 ((if hours \<le> 0 then def else hours) * hour)"

definition publishSeenAfter :: "time \<Rightarrow> config \<Rightarrow> time" where
  "publishSeenAfter now cfg = hours_before now (pub_MaxNodeAgeHours (Publish cfg)) 24"

definition verifiedAfter :: "time \<Rightarrow> config \<Rightarrow> time" where
  "verifiedAfter now cfg = hours_before now (dl_VerifiedTTLHours (Dial cfg)) 6"

definition verifiedEngine :: "config \<Rightarrow> string" where
  "verifiedEngine cfg = (let engine = ToLower (TrimSpace (dl_Engine (Dial cfg))) in
     if engine = ''auto'' then '''' else engine)"

definition publish_limit :: "config \<Rightarrow> int" where
  "publish_limit cfg = (if pub_MaxNodes (Publish cfg) \<le> 0 then flt_MaxNodes (Filter cfg) else pub_MaxNodes (Publish cfg))"

definition publish_min :: "config \<Rightarrow> float64" where
  "publish_min cfg = (let m = (if pub_MinScore (Publish cfg) \<le> 0 then flt_MinScore (Filter cfg) else pub_MinScore (Publish cfg))
     in if m \<le> 0 then 70 else m)"

definition with_dial :: "time \<Rightarrow> config \<Rightarrow> NodeFilter \<Rightarrow> NodeFilter" where
  "with_dial now cfg f = (if dl_Enabled (Dial cfg) then f\<lparr>nf_VerifiedOnly := True,
     nf_DialTestedAfter := verifiedAfter now cfg, nf_DialEngine := verifiedEngine cfg\<rparr> else f)"

definition publish_filter :: "time \<Rightarrow> config \<Rightarrow> string \<Rightarrow> NodeFilter" where
  "publish_filter now cfg country = with_dial now cfg (no_filter\<lparr>
     nf_AliveOnly := (if pub_Enabled (Publish cfg) then pub_AliveOnly (Publish cfg) else True),
     nf_MinScore := publish_min cfg, nf_Limit := wrap64 (publish_limit cfg * 3),
     nf_Country := ToUpper (TrimSpace country), nf_SeenAfter := publishSeenAfter now cfg,
     nf_HighQuality := (publish_min cfg \<ge> 70)\<rparr>)"

text \<open>The two fallbacks, tried when nothing qualifies, no country is asked for and dialling is off.\<close>

definition fallback_50 :: "time \<Rightarrow> config \<Rightarrow> NodeFilter" where
  "fallback_50 now cfg = no_filter\<lparr>nf_AliveOnly := True, nf_MinScore := 50, nf_SeenAfter := publishSeenAfter now cfg,
     nf_Limit := wrap64 (publish_limit cfg * 2)\<rparr>"

definition fallback_any :: "time \<Rightarrow> config \<Rightarrow> NodeFilter" where
  "fallback_any now cfg = no_filter\<lparr>nf_AliveOnly := True, nf_SeenAfter := publishSeenAfter now cfg,
     nf_Limit := publish_limit cfg\<rparr>"

definition publish_candidates :: "time \<Rightarrow> config \<Rightarrow> string \<Rightarrow> store \<Rightarrow> node list" where
  "publish_candidates now cfg country s =
     (let retry = (country = '''' \<and> \<not> dl_Enabled (Dial cfg));
          hq = ListNodes (publish_filter now cfg country) s;
          hq = (if hq = [] \<and> retry then ListNodes (fallback_50 now cfg) s else hq)
      in if hq = [] \<and> retry then ListNodes (fallback_any now cfg) s else hq)"

definition SelectPublishNodesCountry :: "time \<Rightarrow> config \<Rightarrow> string \<Rightarrow> store \<Rightarrow> node list" where
  "SelectPublishNodesCountry now cfg country s =
     (let hq = limit_to (publish_limit cfg) (Apply (map Some (publish_candidates now cfg country s)) cfg)
      in if geo_RenameWithFlag (Geo cfg) then map applyCountryNamePrefix hq else hq)"

definition SelectPublishNodes :: "time \<Rightarrow> config \<Rightarrow> store \<Rightarrow> node list" where
  "SelectPublishNodes now cfg s = SelectPublishNodesCountry now cfg '''' s"

text \<open>The filter of the public listing, which has no final default for the score.\<close>

definition PublishFilter :: "time \<Rightarrow> config \<Rightarrow> NodeFilter" where
  "PublishFilter now cfg = (let minScore = (if pub_MinScore (Publish cfg) \<le> 0 then flt_MinScore (Filter cfg)
        else pub_MinScore (Publish cfg))
     in with_dial now cfg (no_filter\<lparr>nf_AliveOnly := pub_AliveOnly (Publish cfg), nf_MinScore := minScore,
          nf_Limit := publish_limit cfg, nf_HighQuality := (minScore \<ge> 70), nf_SeenAfter := publishSeenAfter now cfg\<rparr>))"

subsection \<open>Pools\<close>

record Named =
  np_Key :: string
  np_Title :: string
  np_Description :: string
  np_MinScore :: float64
  np_MaxLatencyMS :: int
  np_Countries :: "string list"
  np_Protocols :: "string list"
  np_RequireAI :: bool
  np_RequireVerified :: bool
  np_VerifiedTTLHours :: int
  np_DialEngine :: string
  np_RefreshSec :: int
  np_MaxNodes :: int

definition normalizeProtocol :: "string \<Rightarrow> string" where
  "normalizeProtocol value = (let v = ToLower (TrimSpace value) in if v = ''hy2'' then ''hysteria2'' else v)"

text \<open>\<open>normalizedSet\<close>, as the list of the keys of the set: values of three or more bytes are lowered.\<close>

definition normalize_entry :: "string \<Rightarrow> string" where
  "normalize_entry value = (let v = ToUpper (TrimSpace value) in if length v > 2 then normalizeProtocol v else v)"

definition normalizedSet :: "string list \<Rightarrow> string list" where
  "normalizedSet values = filter (\<lambda>v. v \<noteq> '''') (map normalize_entry values)"

definition description :: "PoolConfig \<Rightarrow> string" where
  "description p = (if pool_RequireVerified p then ''Passed real protocol validation''
     else if pool_RequireAI p then ''Passed at least one configured AI reachability probe''
     else if pool_MaxLatencyMS p > 0 then ''Bounded latency and score selection''
     else ''High-quality alive nodes'')"

definition pool_of :: "config \<Rightarrow> PoolConfig \<Rightarrow> Named" where
  "pool_of cfg source =
     (let minScore = (if pool_MinScore source \<le> 0 then flt_MinScore (Filter cfg) else pool_MinScore source);
          minScore = (if minScore \<le> 0 then 70 else minScore);
          refresh = (if pool_RefreshSec source \<le> 0 then max (pub_CacheSec (Publish cfg)) 60 else pool_RefreshSec source);
          limit = (if pool_MaxNodes source \<le> 0 then pub_MaxNodes (Publish cfg) else pool_MaxNodes source);
          limit = (if limit \<le> 0 then 500 else limit)
      in \<lparr>np_Key = ToLower (TrimSpace (pool_Key source)), np_Title = pool_Name source, np_Description = description source,
          np_MinScore = minScore, np_MaxLatencyMS = pool_MaxLatencyMS source,
          np_Countries = normalizedSet (pool_Countries source), np_Protocols = normalizedSet (pool_Protocols source),
          np_RequireAI = pool_RequireAI source, np_RequireVerified = pool_RequireVerified source,
          np_VerifiedTTLHours = dl_VerifiedTTLHours (Dial cfg), np_DialEngine = dl_Engine (Dial cfg),
          np_RefreshSec = refresh, np_MaxNodes = limit\<rparr>)"

definition Configured :: "config \<Rightarrow> Named list" where
  "Configured cfg = map (pool_of cfg) (Pools cfg)"

definition Find :: "config \<Rightarrow> string \<Rightarrow> Named option" where
  "Find cfg key = find (\<lambda>p. np_Key p = ToLower (TrimSpace key)) (Configured cfg)"

definition hasAIOK :: "node \<Rightarrow> bool" where
  "hasAIOK n = list_ex (\<lambda>(_, r). case r of Some r \<Rightarrow> ai_OK r | None \<Rightarrow> False)
     (case n_AIAccess n of None \<Rightarrow> [] | Some m \<Rightarrow> m)"

definition pool_filter :: "time \<Rightarrow> Named \<Rightarrow> NodeFilter" where
  "pool_filter now pool = (let f = no_filter\<lparr>nf_AliveOnly := True, nf_MinScore := np_MinScore pool,
       nf_Limit := max (wrap64 (np_MaxNodes pool * 20)) 5000, nf_VerifiedOnly := np_RequireVerified pool\<rparr>
     in if np_RequireVerified pool \<and> np_VerifiedTTLHours pool > 0
        then f\<lparr>nf_DialTestedAfter := now - wrap64 (np_VerifiedTTLHours pool * hour),
               nf_DialEngine := (if np_DialEngine pool \<noteq> ''auto'' then np_DialEngine pool else '''')\<rparr>
        else f)"

definition pool_keeps :: "Named \<Rightarrow> node \<Rightarrow> bool" where
  "pool_keeps pool n \<longleftrightarrow> \<not> (np_RequireAI pool \<and> \<not> hasAIOK n) \<and>
     \<not> (np_MaxLatencyMS pool > 0 \<and> LatencyMS n > np_MaxLatencyMS pool) \<and>
     \<not> (np_Countries pool \<noteq> [] \<and> ToUpper (if n_Country n = '''' then ''XX'' else n_Country n) \<notin> set (np_Countries pool)) \<and>
     \<not> (np_Protocols pool \<noteq> [] \<and> normalizeProtocol (n_Protocol n) \<notin> set (np_Protocols pool))"

text \<open>The loop of \<open>Select\<close>: it stops after the candidate that fills the pool.\<close>

fun take_kept :: "Named \<Rightarrow> int \<Rightarrow> node list \<Rightarrow> node list" where
  "take_kept pool got [] = []"
| "take_kept pool got (n # ns) = (if \<not> pool_keeps pool n then take_kept pool got ns
     else n # (if got + 1 \<ge> np_MaxNodes pool then [] else take_kept pool (got + 1) ns))"

definition Select :: "time \<Rightarrow> Named \<Rightarrow> store \<Rightarrow> node list" where
  "Select now pool s = take_kept pool 0 (ListNodes (pool_filter now pool) s)"


subsection \<open>What the selection guarantees\<close>

lemma ListNodes_from_store:
  "n \<in> set (ListNodes f s) \<Longrightarrow> \<exists>m \<in> set (vals (st_nodes s)). n = cloneNode m \<and> Match f m"
  unfolding ListNodes_def by (drule set_limit_toD) (auto simp: image_iff)

lemma ListNodes_ids:
  assumes "store_ok h s"
  shows "distinct (map n_ID (ListNodes f s))"
    and "n \<in> set (ListNodes f s) \<Longrightarrow> n_ID n = nodeID h n \<and> (\<exists>m. map_of (st_nodes s) (n_ID n) = Some m \<and> n = cloneNode m \<and> Match f m)"
proof -
  have inv: "distinct (keys (st_nodes s))" "\<And>i m. (i, m) \<in> set (st_nodes s) \<Longrightarrow> i = n_ID m \<and> i = nodeID h m"
    using assms by (auto simp: store_ok_def gmap_inv_def entry_ok_def)
  have "map n_ID (vals (st_nodes s)) = keys (st_nodes s)" using inv(2) by (simp add: map_eq_conv) (metis prod.collapse)
  then have "distinct (map n_ID (vals (st_nodes s)))" using inv(1) by metis
  then have "distinct (map n_ID (map cloneNode (filter (Match f) (vals (st_nodes s)))))"
    by (simp add: comp_def distinct_map_filter)
  then have "distinct (map n_ID (SliceStable node_before (map cloneNode (filter (Match f) (vals (st_nodes s))))))"
    by (metis mset_SliceStable mset_eq_imp_distinct_iff mset_map)
  then show "distinct (map n_ID (ListNodes f s))"
    unfolding ListNodes_def by (simp add: limit_to_def take_map [symmetric])
  show "n_ID n = nodeID h n \<and> (\<exists>m. map_of (st_nodes s) (n_ID n) = Some m \<and> n = cloneNode m \<and> Match f m)" if n: "n \<in> set (ListNodes f s)"
  proof -
    obtain m where m: "m \<in> set (vals (st_nodes s))" "n = cloneNode m" "Match f m" using ListNodes_from_store [OF n] by blast
    then obtain i where "(i, m) \<in> set (st_nodes s)" by auto
    with m inv show ?thesis by (auto simp: map_of_eq_Some_iff)
  qed
qed

lemma Apply_subset: "n \<in> set (Apply (map Some ns) cfg) \<Longrightarrow> n \<in> set ns \<and> apply_keeps cfg n"
  unfolding Apply_def by (drule set_limit_toD) simp

lemma applyCountryNamePrefix_name: "\<exists>name. applyCountryNamePrefix n = n\<lparr>n_Name := name\<rparr>"
proof -
  have "n = n\<lparr>n_Name := n_Name n\<rparr>" by simp
  then show ?thesis unfolding applyCountryNamePrefix_def Let_def by (metis (full_types))
qed

lemma selected_from:
  assumes "n \<in> set (SelectPublishNodesCountry now cfg country s)"
  shows "\<exists>k name. k \<in> set (publish_candidates now cfg country s) \<and> apply_keeps cfg k \<and> n = k\<lparr>n_Name := name\<rparr>"
proof -
  let ?hq = "limit_to (publish_limit cfg) (Apply (map Some (publish_candidates now cfg country s)) cfg)"
  obtain k where "k \<in> set ?hq" "n = k \<or> n = applyCountryNamePrefix k"
    using assms unfolding SelectPublishNodesCountry_def Let_def by (auto split: if_splits)
  moreover have "k = k\<lparr>n_Name := n_Name k\<rparr>" by simp
  ultimately show ?thesis
    using applyCountryNamePrefix_name [of k] Apply_subset [OF set_limit_toD] by metis
qed

text \<open>Whether the fallbacks are out of play.\<close>

definition strict_selection :: "time \<Rightarrow> config \<Rightarrow> string \<Rightarrow> store \<Rightarrow> bool" where
  "strict_selection now cfg country s \<longleftrightarrow> dl_Enabled (Dial cfg) \<or> country \<noteq> '''' \<or>
     ListNodes (publish_filter now cfg country) s \<noteq> []"

lemma strict_candidates:
  "strict_selection now cfg country s \<Longrightarrow>
     publish_candidates now cfg country s = ListNodes (publish_filter now cfg country) s"
  by (auto simp: strict_selection_def publish_candidates_def Let_def)

lemma fallback_candidates:
  "k \<in> set (publish_candidates now cfg country s) \<Longrightarrow> \<not> strict_selection now cfg country s \<Longrightarrow>
     k \<in> set (ListNodes (fallback_50 now cfg) s) \<or> k \<in> set (ListNodes (fallback_any now cfg) s)"
  by (auto simp: strict_selection_def publish_candidates_def Let_def split: if_splits)

lemma Match_publish_filter:
  assumes "Match (publish_filter now cfg country) m"
  shows "publish_min cfg \<le> n_Score m"
    and "pub_Enabled (Publish cfg) \<longrightarrow> pub_AliveOnly (Publish cfg) \<Longrightarrow> n_Alive m"
    and "dl_Enabled (Dial cfg) \<Longrightarrow> n_Verified m"
    and "dl_Enabled (Dial cfg) \<Longrightarrow> verifiedAfter now cfg \<noteq> 0 \<Longrightarrow>
      \<exists>d. n_Dial m = Some d \<and> verifiedAfter now cfg \<le> dial_TestedAt (dial d)"
    and "dl_Enabled (Dial cfg) \<Longrightarrow> verifiedEngine cfg \<noteq> '''' \<Longrightarrow> PassedEngine (n_Dial m) (verifiedEngine cfg)"
    and "publishSeenAfter now cfg \<noteq> 0 \<Longrightarrow> n_LastSeenAt m \<noteq> 0 \<Longrightarrow> publishSeenAfter now cfg \<le> n_LastSeenAt m"
proof -
  have pos: "0 < publish_min cfg" by (simp add: publish_min_def Let_def)
  note defs = publish_filter_def with_dial_def Match_def no_filter_def IsZero_def
  show "publish_min cfg \<le> n_Score m" using assms pos by (auto simp: defs split: if_splits)
  show "n_Alive m" if "pub_Enabled (Publish cfg) \<longrightarrow> pub_AliveOnly (Publish cfg)"
    using assms that by (auto simp: defs split: if_splits)
  show "n_Verified m" if "dl_Enabled (Dial cfg)" using assms that by (auto simp: defs)
  show "\<exists>d. n_Dial m = Some d \<and> verifiedAfter now cfg \<le> dial_TestedAt (dial d)"
    if "dl_Enabled (Dial cfg)" "verifiedAfter now cfg \<noteq> 0"
    using assms that by (auto simp: defs split: option.splits)
  show "PassedEngine (n_Dial m) (verifiedEngine cfg)" if "dl_Enabled (Dial cfg)" "verifiedEngine cfg \<noteq> ''''"
    using assms that by (auto simp: defs)
  show "publishSeenAfter now cfg \<le> n_LastSeenAt m" if "publishSeenAfter now cfg \<noteq> 0" "n_LastSeenAt m \<noteq> 0"
    using assms that by (auto simp: defs split: if_splits)
qed

lemma Match_fallback:
  assumes "Match (fallback_50 now cfg) m \<or> Match (fallback_any now cfg) m"
  shows "n_Alive m"
    and "publishSeenAfter now cfg \<noteq> 0 \<Longrightarrow> n_LastSeenAt m \<noteq> 0 \<Longrightarrow> publishSeenAfter now cfg \<le> n_LastSeenAt m"
  using assms by (auto simp: fallback_50_def fallback_any_def Match_def no_filter_def IsZero_def)



definition dialed_node :: node where
  "dialed_node = example_node\<lparr>n_ID := ''a'', n_Alive := True, n_Score := 80, n_Verified := True, n_LastSeenAt := 100 * hour,
     n_Dial := Some (DialResult \<lparr>dial_OK = True, dial_LatencyMS = 5, dial_StatusCode = 204, dial_Target = '''',
       dial_Engine = ''mihomo'', dial_HTTPMS = 1, dial_DownloadBytes = 0, dial_ThroughputBPS = 0, dial_Error = '''',
       dial_TestedAt = 100 * hour\<rparr> [])\<rparr>"


definition publish_config :: config where
  "publish_config = Default\<lparr>
     Publish := (Publish Default)\<lparr>pub_Enabled := True, pub_MinScore := 60, pub_MaxNodes := 5,
       pub_MaxNodeAgeHours := 24, pub_AliveOnly := True\<rparr>,
     Filter := (Filter Default)\<lparr>flt_MinSuccess := True, flt_MaxLatencyMS := 2500, flt_MinScore := 50, flt_MaxNodes := 9\<rparr>,
     Dial := (Dial Default)\<lparr>dl_Enabled := True, dl_Engine := ''mihomo'', dl_VerifiedTTLHours := 6\<rparr>,
     Geo := (Geo Default)\<lparr>geo_RenameWithFlag := False\<rparr>\<rparr>"

definition dialed_store :: store where
  "dialed_store = NewMemory\<lparr>st_nodes := [(''a'', dialed_node)]\<rparr>"

lemma publish_example: "SelectPublishNodesCountry (101 * hour) publish_config '''' dialed_store = [cloneNode dialed_node]"
proof -
  have lower: "ToLower ''mihomo'' = ''mihomo''" "TrimSpace ''mihomo'' = ''mihomo''" by code_simp+
  have times: "verifiedAfter (101 * hour) publish_config = 95 * hour" "publishSeenAfter (101 * hour) publish_config = 77 * hour"
    by (simp_all add: verifiedAfter_def publishSeenAfter_def hours_before_def publish_config_def hour_def minute_def
        second_def wrap64_def)
  have f: "publish_min publish_config = 60" "publish_limit publish_config = 5" "verifiedEngine publish_config = ''mihomo''"
    by (simp_all add: publish_min_def publish_limit_def verifiedEngine_def publish_config_def lower)
  have "Match (publish_filter (101 * hour) publish_config '''') dialed_node"
    unfolding publish_filter_def with_dial_def times f
    by (simp add: Match_def no_filter_def publish_config_def dialed_node_def PassedEngine_def lower IsZero_def
        hour_def minute_def second_def)
  then have "ListNodes (publish_filter (101 * hour) publish_config '''') dialed_store = [cloneNode dialed_node]"
    by (simp add: ListNodes_def dialed_store_def SliceStable_def limit_to_def)
  moreover have "apply_keeps publish_config (cloneNode dialed_node)"
    by (simp add: apply_keeps_def publish_config_def cloneNode_def dialed_node_def example_node_def zero_node_def
        LatencyMS_def max_latency_def)
  moreover have "Filter publish_config = (Filter Default)\<lparr>flt_MinSuccess := True, flt_MaxLatencyMS := 2500, flt_MinScore := 50, flt_MaxNodes := 9\<rparr>"
    "\<not> geo_RenameWithFlag (Geo publish_config)" "dl_Enabled (Dial publish_config)"
    by (simp_all add: publish_config_def)
  ultimately show ?thesis
    by (simp add: SelectPublishNodesCountry_def publish_candidates_def Apply_def SliceStable_def limit_to_def f)
qed



subsection \<open>Pools\<close>

lemma take_kept_ok: "n \<in> set (take_kept pool got ns) \<Longrightarrow> n \<in> set ns \<and> pool_keeps pool n"
  by (induction pool got ns rule: take_kept.induct) (auto split: if_splits)

lemma length_take_kept: "got < np_MaxNodes pool \<Longrightarrow> int (length (take_kept pool got ns)) \<le> np_MaxNodes pool - got"
  by (induction pool got ns rule: take_kept.induct) (auto split: if_splits)

text \<open>
  A two-letter name in a pool's protocol list is kept in upper case like a country code, while the
  protocol of a node is compared in lower case: no pool with a protocol list ever selects a
  Shadowsocks node.
\<close>

lemma normalized_not_ss: "ProtoSS \<notin> set (normalizedSet values)"
proof -
  have "normalize_entry v \<noteq> ProtoSS" for v
  proof
    assume e: "normalize_entry v = ProtoSS"
    let ?u = "ToUpper (TrimSpace v)"
    show False
    proof (cases "length ?u > 2")
      case True
      have "TrimSpace (ToUpper (TrimSpace v)) = ?u" by simp
      with e True have "ToLower ?u = ProtoSS \<or> ''hysteria2'' = ProtoSS"
        by (auto simp: normalize_entry_def normalizeProtocol_def Let_def split: if_splits)
      then have "length (ToLower ?u) = 2" by auto
      with True show False by simp
    next
      case False
      with e have u: "?u = ProtoSS" by (simp add: normalize_entry_def Let_def)
      have "ToUpper ?u = ?u" by simp
      then have "ToUpper ProtoSS = ProtoSS" unfolding u .
      moreover have "ToUpper ProtoSS = ''SS''" by code_simp
      ultimately show False by simp
    qed
  qed
  then have "ProtoSS \<notin> normalize_entry ` set values" by (metis imageE)
  then show ?thesis unfolding normalizedSet_def set_filter set_map by simp
qed

lemma pool_never_selects_ss:
  assumes "np_Protocols (pool_of cfg source) \<noteq> []" and "n \<in> set (Select now (pool_of cfg source) s)"
  shows "n_Protocol n \<noteq> ProtoSS"
proof
  assume "n_Protocol n = ProtoSS"
  moreover have "normalizeProtocol ProtoSS = ProtoSS" by code_simp
  moreover have "pool_keeps (pool_of cfg source) n" using assms(2) take_kept_ok unfolding Select_def by blast
  moreover have "np_Protocols (pool_of cfg source) = normalizedSet (pool_Protocols source)" by (simp add: pool_of_def Let_def)
  ultimately show False using assms(1) normalized_not_ss unfolding pool_keeps_def by metis
qed

end
