(* ===== verification/PublishCache.thy ===== *)
theory PublishCache
  imports Publish
begin

text \<open>
  \<open>internal/publish/cache.go\<close>: the pre-rendered subscriptions (one body per format, and one per format
  for each of the largest countries), their copy on disk, and \<open>RefreshPublishCache\<close> of the service
  with the optional shared cache. The meta file is kept as the record it encodes.
\<close>

record Blob =
  b_Raw :: string
  b_Base64 :: string
  b_Clash :: string
  b_Count :: int
  b_ByCountry :: "(string, int) gmap"
  b_ETag :: string
  b_UpdatedAt :: time
  b_Policy :: string
  b_CountryRaw :: "(string, string) gmap"
  b_CountryBase64 :: "(string, string) gmap"
  b_CountryClash :: "(string, string) gmap"
  b_CountryCount :: "(string, int) gmap"

record blob_meta =
  bm_count :: int
  bm_etag :: string
  bm_updated_at :: time
  bm_policy :: string

record pub_disk =
  pd_raw :: "string option"
  pd_b64 :: "string option"
  pd_clash :: "string option"
  pd_meta :: "blob_meta option"

record cache =
  c_disk :: pub_disk
  c_ptr :: "Blob option"

definition etagOf :: "hashes \<Rightarrow> string \<Rightarrow> string" where
  "etagOf h s = CHR 0x22 # take 16 (sha256_hex h s) @ [CHR 0x22]"

text \<open>
  \<open>persist\<close>: four files replaced one after the other, stopping at the first that fails. The first
  argument says which of the replacements succeed.
\<close>

definition replace_file :: "bool \<Rightarrow> (pub_disk \<Rightarrow> pub_disk) \<Rightarrow> bool \<times> pub_disk \<Rightarrow> bool \<times> pub_disk" where
  "replace_file ok f st = (case st of (running, d) \<Rightarrow> if running \<and> ok then (True, f d) else (False, d))"

definition persist :: "(string \<Rightarrow> bool) \<Rightarrow> Blob \<Rightarrow> pub_disk \<Rightarrow> bool \<times> pub_disk" where
  "persist ok b d =
     replace_file (ok ''sub.meta.json'') (\<lambda>d. d\<lparr>pd_meta := Some \<lparr>bm_count = b_Count b, bm_etag = b_ETag b,
        bm_updated_at = b_UpdatedAt b, bm_policy = b_Policy b\<rparr>\<rparr>)
     (replace_file (ok ''clash.yaml'') (\<lambda>d. d\<lparr>pd_clash := Some (b_Clash b)\<rparr>)
     (replace_file (ok ''sub.base64'') (\<lambda>d. d\<lparr>pd_b64 := Some (b_Base64 b)\<rparr>)
     (replace_file (ok ''sub.txt'') (\<lambda>d. d\<lparr>pd_raw := Some (b_Raw b)\<rparr>) (True, d))))"

definition nonblank_lines :: "string \<Rightarrow> int" where
  "nonblank_lines s = int (length (filter (\<lambda>line. TrimSpace line \<noteq> '''') (Split CHR 0x0A s)))"

definition read_or_empty :: "string option \<Rightarrow> string" where
  "read_or_empty f = (case f of None \<Rightarrow> '''' | Some s \<Rightarrow> s)"

definition loadFromDisk :: "hashes \<Rightarrow> time \<Rightarrow> pub_disk \<Rightarrow> Blob option" where
  "loadFromDisk h mtime d =
     (if pd_raw d = None \<and> pd_b64 d = None \<and> pd_clash d = None then None
      else (let raw = read_or_empty (pd_raw d); b64 = read_or_empty (pd_b64 d); clash = read_or_empty (pd_clash d);
            meta_count = (case pd_meta d of None \<Rightarrow> 0 | Some m \<Rightarrow> bm_count m);
            updated = (case pd_meta d of None \<Rightarrow> 0 | Some m \<Rightarrow> bm_updated_at m);
            policy = (case pd_meta d of None \<Rightarrow> '''' | Some m \<Rightarrow> bm_policy m)
        in Some \<lparr>b_Raw = raw, b_Base64 = b64, b_Clash = clash,
          b_Count = (if raw \<noteq> '''' then nonblank_lines raw else meta_count), b_ByCountry = [],
          b_ETag = etagOf h (raw @ b64 @ clash),
          b_UpdatedAt = (if updated = 0 \<and> pd_raw d \<noteq> None then FormatRFC3339 mtime else updated),
          b_Policy = policy, b_CountryRaw = [], b_CountryBase64 = [], b_CountryClash = [], b_CountryCount = []\<rparr>))"

definition NewCache :: "hashes \<Rightarrow> time \<Rightarrow> pub_disk \<Rightarrow> cache" where
  "NewCache h mtime d = \<lparr>c_disk = d, c_ptr = loadFromDisk h mtime d\<rparr>"

definition Clear :: "cache \<Rightarrow> cache" where
  "Clear c = c\<lparr>c_ptr := None\<rparr>"

definition cache_Store :: "(string \<Rightarrow> bool) \<Rightarrow> Blob option \<Rightarrow> bool \<Rightarrow> cache \<Rightarrow> cache" where
  "cache_Store ok blob do_persist c = (case blob of None \<Rightarrow> c
     | Some b \<Rightarrow> (let c' = c\<lparr>c_ptr := Some b\<rparr> in
         if do_persist then c'\<lparr>c_disk := snd (persist ok b (c_disk c))\<rparr> else c'))"

subsection \<open>Rebuilding\<close>

text \<open>The exchange sort of \<open>Update\<close>: the inner loop moves a largest remaining count to the front.\<close>

fun exchange :: "string \<times> int \<Rightarrow> (string \<times> int) list \<Rightarrow> (string \<times> int) \<times> (string \<times> int) list" where
  "exchange x [] = (x, [])"
| "exchange x (y # ys) = (if snd y > snd x then (case exchange y ys of (m, r) \<Rightarrow> (m, x # r))
     else (case exchange x ys of (m, r) \<Rightarrow> (m, y # r)))"

lemma length_exchange: "exchange x ys = (m, r) \<Longrightarrow> length r = length ys"
  by (induction x ys arbitrary: m r rule: exchange.induct) (auto split: if_splits prod.splits)

function exchange_sort :: "(string \<times> int) list \<Rightarrow> (string \<times> int) list" where
  "exchange_sort [] = []"
| "exchange_sort (x # xs) = (case exchange x xs of (m, r) \<Rightarrow> m # exchange_sort r)"
  by pat_completeness auto

termination exchange_sort
  by (relation "measure length") (auto dest!: sym [of "(_, _)"] length_exchange)

definition group_country :: "node \<Rightarrow> string" where
  "group_country n = (let cc = (if n_Country n = '''' then ''XX'' else n_Country n) in if cc = ''UK'' then ''GB'' else cc)"

definition add_group :: "node \<Rightarrow> (string, node list) gmap \<Rightarrow> (string, node list) gmap" where
  "add_group n groups = gput (group_country n) (gget [] groups (group_country n) @ [n]) groups"

definition rendered :: "codecs \<Rightarrow> (codecs \<Rightarrow> node option list \<Rightarrow> string) \<Rightarrow> (string, node list) gmap \<Rightarrow> string list \<Rightarrow> (string, string) gmap" where
  "rendered c render groups countries = fold (\<lambda>cc. gput cc (render c (map Some (gget [] groups cc)))) countries []"

text \<open>
  \<open>Update\<close>. The counts are ranged over in the iteration order of the Go map, which is that of the
  association list here.
\<close>

definition variants :: "int \<Rightarrow> (string, int) gmap \<Rightarrow> string list" where
  "variants maxCountryVariants byCountry =
     (let maxv = (if maxCountryVariants \<le> 0 then 30 else maxCountryVariants)
      in map fst (limit_to maxv (exchange_sort (filter (\<lambda>(k, _). k \<noteq> ''XX'') byCountry))))"

definition build_blob :: "hashes \<Rightarrow> codecs \<Rightarrow> time \<Rightarrow> node list \<Rightarrow> int \<Rightarrow> string \<Rightarrow> Blob" where
  "build_blob h c now nodes maxCountryVariants policy =
     (let byCountry = fold gincr (map group_country nodes) [];
          groups = fold add_group nodes [];
          all_nodes = map Some nodes;
          raw = RenderRaw c all_nodes; b64 = RenderBase64 c all_nodes; clash = RenderClash c all_nodes;
          vs = variants maxCountryVariants byCountry
      in \<lparr>b_Raw = raw, b_Base64 = b64, b_Clash = clash, b_Count = int (length nodes), b_ByCountry = byCountry,
          b_ETag = etagOf h (raw @ b64 @ clash), b_UpdatedAt = FormatRFC3339 now, b_Policy = policy,
          b_CountryRaw = rendered c RenderRaw groups vs, b_CountryBase64 = rendered c RenderBase64 groups vs,
          b_CountryClash = rendered c RenderClash groups vs,
          b_CountryCount = fold (\<lambda>cc. gput cc (int (length (gget [] groups cc)))) vs []\<rparr>)"

definition Update :: "hashes \<Rightarrow> codecs \<Rightarrow> (string \<Rightarrow> bool) \<Rightarrow> time \<Rightarrow> node list \<Rightarrow> int \<Rightarrow> string \<Rightarrow> cache \<Rightarrow> Blob \<times> cache" where
  "Update h c ok now nodes maxCountryVariants policy ca =
     (let blob = build_blob h c now nodes maxCountryVariants policy
      in (blob, cache_Store ok (Some blob) True ca))"

subsection \<open>Serving\<close>

definition normalizeCC :: "string \<Rightarrow> string" where
  "normalizeCC c = (let cc = ToUpper (TrimSpace c) in if cc = ''UK'' then ''GB'' else cc)"

definition Format :: "Blob option \<Rightarrow> string \<Rightarrow> string \<Rightarrow> (string \<times> int) option" where
  "Format blob fmt country0 = (case blob of None \<Rightarrow> None
     | Some b \<Rightarrow> (let country = normalizeCC country0 in
         if country \<noteq> '''' then
           (let body = (if fmt \<in> {''raw'', ''txt''} then map_of (b_CountryRaw b) country
                else if fmt \<in> {''base64'', ''b64'', ''sub''} then map_of (b_CountryBase64 b) country
                else if fmt \<in> {''clash'', ''yaml''} then map_of (b_CountryClash b) country else None)
            in map_option (\<lambda>s. (s, gget 0 (b_CountryCount b) country)) body)
         else if fmt \<in> {''raw'', ''txt''} then Some (b_Raw b, b_Count b)
         else if fmt \<in> {''base64'', ''b64'', ''sub''} then Some (b_Base64 b, b_Count b)
         else if fmt \<in> {''clash'', ''yaml''} then Some (b_Clash b, b_Count b)
         else None))"

definition Fresh :: "time \<Rightarrow> duration \<Rightarrow> Blob option \<Rightarrow> bool" where
  "Fresh now maxAge blob = (case blob of None \<Rightarrow> False
     | Some b \<Rightarrow> b_UpdatedAt b \<noteq> 0 \<and> maxAge > 0 \<and> now - b_UpdatedAt b \<ge> - (5 * minute) \<and> now - b_UpdatedAt b \<le> maxAge)"

definition MatchesPolicy :: "string \<Rightarrow> Blob option \<Rightarrow> bool" where
  "MatchesPolicy policy blob = (case blob of None \<Rightarrow> False | Some b \<Rightarrow> policy \<noteq> '''' \<and> b_Policy b = policy)"

definition Age :: "time \<Rightarrow> Blob option \<Rightarrow> duration" where
  "Age now blob = (case blob of None \<Rightarrow> 0 | Some b \<Rightarrow> if b_UpdatedAt b = 0 then 0 else now - b_UpdatedAt b)"

subsection \<open>Refreshing\<close>

record publish_policy =
  pp_PublishEnabled :: bool
  pp_MinScore :: float64
  pp_MaxNodes :: int
  pp_MaxNodeAge :: int
  pp_AliveOnly :: bool
  pp_MaxCountries :: int
  pp_Filter :: FilterConfig
  pp_DialEnabled :: bool
  pp_DialEngine :: string
  pp_VerifiedTTL :: int
  pp_RenameWithFlag :: bool

definition policy_of :: "config \<Rightarrow> publish_policy" where
  "policy_of cfg = \<lparr>pp_PublishEnabled = pub_Enabled (Publish cfg), pp_MinScore = pub_MinScore (Publish cfg),
     pp_MaxNodes = pub_MaxNodes (Publish cfg), pp_MaxNodeAge = pub_MaxNodeAgeHours (Publish cfg),
     pp_AliveOnly = pub_AliveOnly (Publish cfg), pp_MaxCountries = pub_MaxCountries (Publish cfg),
     pp_Filter = Filter cfg, pp_DialEnabled = dl_Enabled (Dial cfg), pp_DialEngine = dl_Engine (Dial cfg),
     pp_VerifiedTTL = dl_VerifiedTTLHours (Dial cfg), pp_RenameWithFlag = geo_RenameWithFlag (Geo cfg)\<rparr>"

definition publishPolicy :: "hashes \<Rightarrow> (publish_policy \<Rightarrow> string option) \<Rightarrow> config \<Rightarrow> string" where
  "publishPolicy h encode cfg = (case encode (policy_of cfg) of None \<Rightarrow> ''''
     | Some raw \<Rightarrow> ''v2:'' @ take 16 (sha256_hex h raw))"

text \<open>What the shared cache answers: not configured or failing, held by another process, or ours.\<close>

datatype shared_cache = Unavailable | Busy "Blob option" | Acquired

definition RefreshPublishCache :: "hashes \<Rightarrow> codecs \<Rightarrow> (publish_policy \<Rightarrow> string option) \<Rightarrow> (string \<Rightarrow> bool) \<Rightarrow> time \<Rightarrow>
    shared_cache \<Rightarrow> config \<Rightarrow> store \<Rightarrow> cache \<Rightarrow> Blob \<times> cache" where
  "RefreshPublishCache h c encode ok now shared cfg s ca =
     (let policy = publishPolicy h encode cfg;
          maxC = (if pub_MaxCountries (Publish cfg) > 0 then pub_MaxCountries (Publish cfg) else 30);
          rebuilt = Update h c ok now (SelectPublishNodes now cfg s) maxC policy ca
      in case shared of
           Busy (Some b) \<Rightarrow> if MatchesPolicy policy (Some b) then (b, cache_Store ok (Some b) False ca) else rebuilt
         | _ \<Rightarrow> rebuilt)"


subsection \<open>Bodies belong to their nodes\<close>

lemma gget_groups: "gget [] (fold add_group nodes groups) cc = gget [] groups cc @ filter (\<lambda>n. group_country n = cc) nodes"
  by (induction nodes arbitrary: groups) (auto simp: add_group_def)

lemma map_of_fold_gput_keys:
  "map_of (fold (\<lambda>k. gput k (f k)) ks m) k = (if k \<in> set ks then Some (f k) else map_of m k)"
  by (induction ks arbitrary: m) auto

lemma map_of_rendered:
  "map_of (rendered c render (fold add_group nodes []) vs) cc = (if cc \<in> set vs
     then Some (render c (map Some (filter (\<lambda>n. group_country n = cc) nodes))) else None)"
  by (simp add: rendered_def map_of_fold_gput_keys gget_groups) (simp add: gget_def)

text \<open>The renderer a format name stands for.\<close>

definition renderer :: "string \<Rightarrow> (codecs \<Rightarrow> node option list \<Rightarrow> string) option" where
  "renderer fmt = (if fmt \<in> {''raw'', ''txt''} then Some RenderRaw
     else if fmt \<in> {''base64'', ''b64'', ''sub''} then Some RenderBase64
     else if fmt \<in> {''clash'', ''yaml''} then Some RenderClash else None)"

definition in_country :: "string \<Rightarrow> node \<Rightarrow> bool" where
  "in_country cc n \<longleftrightarrow> cc = '''' \<or> group_country n = cc"

lemma Format_build:
  assumes "Format (Some (build_blob h c now nodes maxv policy)) fmt country = Some (body, cnt)"
  shows "\<exists>render. renderer fmt = Some render \<and>
      body = render c (map Some (filter (in_country (normalizeCC country)) nodes)) \<and>
      cnt = int (length (filter (in_country (normalizeCC country)) nodes))"
proof (cases "normalizeCC country = ''''")
  case True
  then have "filter (in_country (normalizeCC country)) nodes = nodes" by (simp add: in_country_def)
  with assms True show ?thesis
    by (auto simp: Format_def build_blob_def renderer_def Let_def split: if_splits)
next
  case False
  have g: "gget 0 (fold (\<lambda>cc. gput cc (int (length (gget [] (fold add_group nodes []) cc)))) vs []) cc =
      int (length (filter (\<lambda>n. group_country n = cc) nodes))" if "cc \<in> set vs" for vs cc
    using that by (simp add: gget_def map_of_fold_gput_keys gget_groups [unfolded gget_def])
  have "in_country (normalizeCC country) = (\<lambda>n. group_country n = normalizeCC country)"
    using False by (simp add: in_country_def fun_eq_iff)
  with assms False show ?thesis
    by (auto simp: Format_def build_blob_def renderer_def Let_def map_of_rendered g split: if_splits)
qed

subsection \<open>The largest countries have a variant\<close>

lemma exchange_ok:
  "exchange x ys = (m, r) \<Longrightarrow> mset (m # r) = mset (x # ys) \<and> (\<forall>z \<in> set r. snd z \<le> snd m)"
proof (induction x ys arbitrary: m r rule: exchange.induct)
  case (2 x y ys)
  show ?case
  proof (cases "snd x < snd y")
    case True
    obtain m' r' where e: "exchange y ys = (m', r')" by (metis surj_pair)
    with 2(1) [OF True e] 2(3) True have "m = m'" "r = x # r'" "mset (m' # r') = mset (y # ys)" "\<forall>z \<in> set r'. snd z \<le> snd m'"
      by auto
    moreover have "snd x \<le> snd m'"
    proof -
      have "y \<in> set (m' # r')" using \<open>mset (m' # r') = mset (y # ys)\<close> by (metis list.set_intros(1) mset_eq_setD)
      with \<open>\<forall>z \<in> set r'. snd z \<le> snd m'\<close> True show ?thesis by auto
    qed
    ultimately show ?thesis by simp
  next
    case False
    obtain m' r' where e: "exchange x ys = (m', r')" by (metis surj_pair)
    with 2(2) [OF False e] 2(3) False have "m = m'" "r = y # r'" "mset (m' # r') = mset (x # ys)" "\<forall>z \<in> set r'. snd z \<le> snd m'"
      by auto
    moreover have "snd y \<le> snd m'"
    proof -
      have "x \<in> set (m' # r')" using \<open>mset (m' # r') = mset (x # ys)\<close> by (metis list.set_intros(1) mset_eq_setD)
      with \<open>\<forall>z \<in> set r'. snd z \<le> snd m'\<close> False show ?thesis by auto
    qed
    ultimately show ?thesis by simp
  qed
qed simp

lemma exchange_sort_ok: "mset (exchange_sort xs) = mset xs \<and> sorted_wrt (\<lambda>a b. snd b \<le> snd a) (exchange_sort xs)"
proof (induction xs rule: exchange_sort.induct)
  case (2 x xs)
  obtain m r where e: "exchange x xs = (m, r)" by (metis surj_pair)
  with 2 have IH: "mset (exchange_sort r) = mset r" "sorted_wrt (\<lambda>a b. snd b \<le> snd a) (exchange_sort r)" by auto
  then have "set (exchange_sort r) = set r" by (metis set_mset_mset)
  with e exchange_ok [OF e] IH show ?case by auto
qed simp


lemma variants_largest:
  assumes "cc \<in> set (variants maxv by)" and "(k, v) \<in> set by" and "k \<noteq> ''XX''" and "k \<notin> set (variants maxv by)"
  shows "\<exists>w. (cc, w) \<in> set by \<and> v \<le> w"
proof -
  let ?m = "if maxv \<le> 0 then 30 else maxv"
  let ?s = "exchange_sort (filter (\<lambda>(k, _). k \<noteq> ''XX'') by)"
  obtain rest where rest: "?s = limit_to ?m ?s @ rest" using limit_to_prefix by blast
  have sorted: "sorted_wrt (\<lambda>a b. snd b \<le> snd a) (limit_to ?m ?s @ rest)"
    using exchange_sort_ok rest by metis
  have set_s: "set ?s = {e \<in> set by. fst e \<noteq> ''XX''}"
  proof -
    have "set_mset (mset ?s) = set_mset (mset (filter (\<lambda>(k, _). k \<noteq> ''XX'') by))"
      using exchange_sort_ok [of "filter (\<lambda>(k, _). k \<noteq> ''XX'') by"] by simp
    then show ?thesis by (auto simp only: set_mset_mset set_filter split_beta)
  qed
  have vs: "set (variants maxv by) = fst ` set (limit_to ?m ?s)" by (simp add: variants_def Let_def)
  obtain w where w: "(cc, w) \<in> set (limit_to ?m ?s)" using assms(1) vs by auto
  then have "(cc, w) \<in> set by" using set_limit_toD [OF w] set_s by blast
  moreover have "(k, v) \<in> set rest"
  proof -
    have "(k, v) \<in> set ?s" using assms(2,3) set_s by auto
    moreover have "(k, v) \<notin> set (limit_to ?m ?s)" using assms(4) vs by force
    ultimately show ?thesis by (metis Un_iff rest set_append)
  qed
  then have "v \<le> w" using sorted w unfolding sorted_wrt_append by (metis snd_conv)
  ultimately show ?thesis by blast
qed

subsection \<open>Restart\<close>

text \<open>
  Whatever part of the four files was replaced before a failure, what is read back at the next
  start carries the entity tag of its own content; when all were, the bodies, the tag, the policy
  and the time are those that were in force, and only the country variants are gone.
\<close>

lemma reload_etag: "loadFromDisk h mtime d = Some b \<Longrightarrow> b_ETag b = etagOf h (b_Raw b @ b_Base64 b @ b_Clash b)"
  by (auto simp: loadFromDisk_def Let_def split: if_splits)

lemma cache_restart:
  assumes "\<And>f. ok f" and "Update h c ok now nodes maxv policy ca = (blob, ca')" and "FormatRFC3339 now \<noteq> 0"
  shows "\<exists>b. c_ptr (NewCache h mtime (c_disk ca')) = Some b \<and> b_Raw b = b_Raw blob \<and> b_Base64 b = b_Base64 blob \<and>
    b_Clash b = b_Clash blob \<and> b_ETag b = b_ETag blob \<and> b_Policy b = b_Policy blob \<and> b_UpdatedAt b = b_UpdatedAt blob \<and>
    (\<forall>fmt cc. normalizeCC cc \<noteq> '''' \<longrightarrow> Format (Some b) fmt cc = None)"
proof -
  have "persist ok blob (c_disk ca) = (True, \<lparr>pd_raw = Some (b_Raw blob), pd_b64 = Some (b_Base64 blob),
      pd_clash = Some (b_Clash blob), pd_meta = Some \<lparr>bm_count = b_Count blob, bm_etag = b_ETag blob,
        bm_updated_at = b_UpdatedAt blob, bm_policy = b_Policy blob\<rparr>\<rparr>)"
    using assms(1) by (simp add: persist_def replace_file_def)
  moreover have "b_ETag blob = etagOf h (b_Raw blob @ b_Base64 blob @ b_Clash blob)" "b_UpdatedAt blob \<noteq> 0"
    using assms(2,3) by (auto simp: Update_def build_blob_def Let_def)
  moreover have "c_disk ca' = snd (persist ok blob (c_disk ca))"
    using assms(2) by (auto simp: Update_def cache_Store_def Let_def)
  ultimately show ?thesis
    by (simp add: NewCache_def loadFromDisk_def Let_def read_or_empty_def Format_def)
qed


subsection \<open>Every cached body was published\<close>

text \<open>
  \<open>body_ok c sel fmt country body\<close>: \<open>body\<close> is what the format's renderer gives for the nodes of the
  country in one of the selections \<open>sel\<close>. Files are replaced one by one, so the three bodies of a
  reloaded cache may come from different selections; a missing file reads as the empty body.
\<close>

definition body_ok :: "codecs \<Rightarrow> node list set \<Rightarrow> string \<Rightarrow> string \<Rightarrow> string \<Rightarrow> bool" where
  "body_ok c sel fmt country body \<longleftrightarrow> body = '''' \<or> (\<exists>nodes render. nodes \<in> sel \<and> renderer fmt = Some render \<and>
     body = render c (map Some (filter (in_country (normalizeCC country)) nodes)))"

definition blob_ok :: "codecs \<Rightarrow> node list set \<Rightarrow> Blob \<Rightarrow> bool" where
  "blob_ok c sel b \<longleftrightarrow> (\<forall>fmt country body cnt. Format (Some b) fmt country = Some (body, cnt) \<longrightarrow> body_ok c sel fmt country body)"

definition file_ok :: "codecs \<Rightarrow> node list set \<Rightarrow> string \<Rightarrow> string option \<Rightarrow> bool" where
  "file_ok c sel fmt f \<longleftrightarrow> (\<forall>body. f = Some body \<longrightarrow> body_ok c sel fmt '''' body)"

definition disk_ok :: "codecs \<Rightarrow> node list set \<Rightarrow> pub_disk \<Rightarrow> bool" where
  "disk_ok c sel d \<longleftrightarrow> file_ok c sel ''raw'' (pd_raw d) \<and> file_ok c sel ''base64'' (pd_b64 d) \<and> file_ok c sel ''clash'' (pd_clash d)"

definition cache_ok :: "codecs \<Rightarrow> node list set \<Rightarrow> cache \<Rightarrow> bool" where
  "cache_ok c sel ca \<longleftrightarrow> (\<forall>b. c_ptr ca = Some b \<longrightarrow> blob_ok c sel b) \<and> disk_ok c sel (c_disk ca)"

lemma renderer_alias:
  "fmt \<in> {''raw'', ''txt''} \<Longrightarrow> renderer fmt = renderer ''raw''"
  "fmt \<in> {''base64'', ''b64'', ''sub''} \<Longrightarrow> renderer fmt = renderer ''base64''"
  "fmt \<in> {''clash'', ''yaml''} \<Longrightarrow> renderer fmt = renderer ''clash''"
  by (auto simp: renderer_def)

lemma body_ok_fmt: "renderer fmt = renderer fmt' \<Longrightarrow> body_ok c sel fmt country body \<longleftrightarrow> body_ok c sel fmt' country body"
  by (simp add: body_ok_def)

lemma normalizeCC_Nil [simp]: "normalizeCC '''' = ''''"
  by (simp add: normalizeCC_def)

lemma build_blob_ok: "nodes \<in> sel \<Longrightarrow> blob_ok c sel (build_blob h c now nodes maxv policy)"
  unfolding blob_ok_def body_ok_def using Format_build by blast

lemma blob_ok_whole:
  assumes "blob_ok c sel b"
  shows "body_ok c sel ''raw'' '''' (b_Raw b)" "body_ok c sel ''base64'' '''' (b_Base64 b)" "body_ok c sel ''clash'' '''' (b_Clash b)"
proof -
  have "Format (Some b) ''raw'' '''' = Some (b_Raw b, b_Count b)" "Format (Some b) ''base64'' '''' = Some (b_Base64 b, b_Count b)"
    "Format (Some b) ''clash'' '''' = Some (b_Clash b, b_Count b)"
    by (simp_all add: Format_def)
  with assms show "body_ok c sel ''raw'' '''' (b_Raw b)" "body_ok c sel ''base64'' '''' (b_Base64 b)" "body_ok c sel ''clash'' '''' (b_Clash b)"
    unfolding blob_ok_def by blast+
qed

lemma replace_file_ok: "disk_ok c sel d \<Longrightarrow> disk_ok c sel (f d) \<Longrightarrow> disk_ok c sel (snd (replace_file k f (run, d)))"
  by (simp add: replace_file_def)

lemma persist_ok:
  assumes "blob_ok c sel b" and "disk_ok c sel d"
  shows "disk_ok c sel (snd (persist ok b d))"
  using assms(2) blob_ok_whole [OF assms(1)]
  by (simp add: persist_def replace_file_def disk_ok_def file_ok_def)

lemma loaded_ok:
  assumes "disk_ok c sel d" and "loadFromDisk h mtime d = Some b"
  shows "blob_ok c sel b"
proof -
  have b: "b_Raw b = read_or_empty (pd_raw d)" "b_Base64 b = read_or_empty (pd_b64 d)" "b_Clash b = read_or_empty (pd_clash d)"
    "b_CountryRaw b = []" "b_CountryBase64 b = []" "b_CountryClash b = []"
    using assms(2) by (auto simp: loadFromDisk_def Let_def split: if_splits)
  have whole: "body_ok c sel ''raw'' '''' (b_Raw b)" "body_ok c sel ''base64'' '''' (b_Base64 b)" "body_ok c sel ''clash'' '''' (b_Clash b)"
    using assms(1) by (auto simp: b disk_ok_def file_ok_def read_or_empty_def body_ok_def split: option.splits)
  show ?thesis unfolding blob_ok_def
  proof (intro allI impI)
    fix fmt country body cnt
    assume f: "Format (Some b) fmt country = Some (body, cnt)"
    then have n: "normalizeCC country = ''''" by (auto simp: Format_def Let_def b split: if_splits)
    consider "fmt \<in> {''raw'', ''txt''}" "body = b_Raw b" | "fmt \<in> {''base64'', ''b64'', ''sub''}" "body = b_Base64 b"
      | "fmt \<in> {''clash'', ''yaml''}" "body = b_Clash b"
      using f n by (auto simp: Format_def Let_def split: if_splits)
    then have "body_ok c sel fmt '''' body"
    proof cases
      case 1
      with whole(1) show ?thesis by (simp only: body_ok_fmt [OF renderer_alias(1)])
    next
      case 2
      with whole(2) show ?thesis by (simp only: body_ok_fmt [OF renderer_alias(2)])
    next
      case 3
      with whole(3) show ?thesis by (simp only: body_ok_fmt [OF renderer_alias(3)])
    qed
    with n show "body_ok c sel fmt country body" by (simp add: body_ok_def)
  qed
qed


text \<open>
  The life of the cache directory: it starts empty, is refreshed (possibly failing in the middle of
  the four files, possibly adopting what another process stored under the same policy), cleared, and
  read back at a restart.
\<close>

inductive cache_life :: "hashes \<Rightarrow> codecs \<Rightarrow> node list set \<Rightarrow> cache \<Rightarrow> bool" for h c sel where
  first_start: "cache_life h c sel (NewCache h mtime \<lparr>pd_raw = None, pd_b64 = None, pd_clash = None, pd_meta = None\<rparr>)"
| refresh: "cache_life h c sel ca \<Longrightarrow> SelectPublishNodes now cfg s \<in> sel \<Longrightarrow>
    (\<And>b. shared = Busy (Some b) \<Longrightarrow> blob_ok c sel b) \<Longrightarrow>
    cache_life h c sel (snd (RefreshPublishCache h c encode ok now shared cfg s ca))"
| clear: "cache_life h c sel ca \<Longrightarrow> cache_life h c sel (Clear ca)"
| restart: "cache_life h c sel ca \<Longrightarrow> cache_life h c sel (NewCache h mtime (c_disk ca))"

lemma cache_Store_ok:
  "cache_ok c sel ca \<Longrightarrow> blob_ok c sel b \<Longrightarrow> cache_ok c sel (cache_Store ok (Some b) do_persist ca)"
  by (auto simp: cache_ok_def cache_Store_def Let_def persist_ok)

lemma RefreshPublishCache_ok:
  assumes "cache_ok c sel ca" and "SelectPublishNodes now cfg s \<in> sel" and "\<And>b. shared = Busy (Some b) \<Longrightarrow> blob_ok c sel b"
  shows "cache_ok c sel (snd (RefreshPublishCache h c encode ok now shared cfg s ca))"
proof -
  have "cache_ok c sel (snd (Update h c ok now (SelectPublishNodes now cfg s) maxv policy ca))" for maxv policy
    using assms(1,2) by (simp add: Update_def Let_def cache_Store_ok build_blob_ok)
  with assms(1,3) show ?thesis
    by (auto simp: RefreshPublishCache_def Let_def cache_Store_ok split: shared_cache.splits option.splits)
qed

lemma NewCache_ok: "disk_ok c sel d \<Longrightarrow> cache_ok c sel (NewCache h mtime d)"
  by (simp add: cache_ok_def NewCache_def loaded_ok)


definition torn_write :: cache where
  "torn_write = snd (RefreshPublishCache plain_hashes tiny_codecs (\<lambda>_. None) (\<lambda>f. f = ''sub.txt'') (101 * hour) Unavailable
     publish_config dialed_store
     (NewCache plain_hashes 0 \<lparr>pd_raw = None, pd_b64 = None, pd_clash = None, pd_meta = None\<rparr>))"


end
