(* ===== verification/Subscription.thy ===== *)
theory Subscription
  imports PublishCache Auth RateLimit
begin

text \<open>
  The subscription endpoints of \<open>internal/api/server.go\<close>: the gate every one of them passes
  (\<open>ensurePublish\<close>: rate limits, token, country list, daily quota), the bodies served from the
  pre-rendered cache or selected live (\<open>serveSubFormat\<close>), the pool and country links, and the two
  JSON overviews. A request is the addresses \<open>RateLimit.request\<close> holds plus the headers and
  parameters the handlers read; what a handler changes is the limiter, the token rows and the usage
  counters. Metrics are left out. The connection of \<open>Write\<close> takes the whole body.
\<close>

subsection \<open>Requests, answers, state\<close>

record sub_request =
  q_addr :: request
  q_Authorization :: string
  q_XSubToken :: string
  q_IfNoneMatch :: string
  q_country :: string
  q_key :: string
  q_code :: string
  q_format :: string
  q_https :: bool
  q_XForwardedHost :: string
  q_Host :: string

type_synonym headers = "(string, string) gmap"

record response =
  rs_Status :: int
  rs_Header :: headers
  rs_Body :: string

record sub_state =
  su_limiter :: TokenBucket
  su_tokens :: "Token list option"
  su_usage :: token_usage

text \<open>What the server was built with; \<open>sv_quota_ok\<close> says whether the quota statement succeeds.\<close>

record 'a sub_server =
  sv_net :: "'a net_libs"
  sv_auth :: auth_libs
  sv_manager :: Manager
  sv_hashes :: hashes
  sv_codecs :: codecs
  sv_config :: config
  sv_store :: store
  sv_cache :: cache
  sv_quota_ok :: bool

definition http_Error :: "headers \<Rightarrow> string \<Rightarrow> int \<Rightarrow> response" where
  "http_Error hs msg code = \<lparr>rs_Status = code,
     rs_Header = gput ''X-Content-Type-Options'' ''nosniff'' (gput ''Content-Type'' ''text/plain; charset=utf-8'' hs),
     rs_Body = msg @ [CHR 0x0A]\<rparr>"

subsection \<open>Access lists\<close>

definition countryCode :: "string \<Rightarrow> string" where
  "countryCode raw = (let code = ToUpper (TrimSpace raw) in if code = ''UK'' then ''GB'' else code)"

definition unrestricted :: "Principal \<Rightarrow> bool" where
  "unrestricted p \<longleftrightarrow> p_AllowCountries p = [] \<and> p_AllowProtocols p = []"

definition acl_keeps :: "Principal \<Rightarrow> node \<Rightarrow> bool" where
  "acl_keeps p n =
     (let countries = map countryCode (p_AllowCountries p);
          protocols = map (\<lambda>x. hy2 (ToLower (TrimSpace x))) (p_AllowProtocols p);
          country = (if countryCode (n_Country n) = '''' then ''XX'' else countryCode (n_Country n));
          protocol = hy2 (ToLower (n_Protocol n))
      in \<not> (countries \<noteq> [] \<and> country \<notin> set countries) \<and> \<not> (protocols \<noteq> [] \<and> protocol \<notin> set protocols))"

definition filterTokenNodes :: "node list \<Rightarrow> Principal option \<Rightarrow> node list" where
  "filterTokenNodes nodes who = (case who of None \<Rightarrow> nodes
     | Some p \<Rightarrow> if unrestricted p then nodes else filter (acl_keeps p) nodes)"

definition principalAllowsCountry :: "Principal option \<Rightarrow> string \<Rightarrow> bool" where
  "principalAllowsCountry who country = (case who of None \<Rightarrow> True
     | Some p \<Rightarrow> p_AllowCountries p = [] \<or> country \<in> countryCode ` set (p_AllowCountries p))"

subsection \<open>The gate\<close>

definition extractToken :: "config \<Rightarrow> sub_request \<Rightarrow> string" where
  "extractToken cfg r =
     (let q = r_Token (q_addr r); h = q_Authorization r in
      if sec_AllowQueryToken (Security cfg) \<and> q \<noteq> '''' then q
      else if HasPrefix (ToLower h) ''bearer '' then TrimSpace (drop 7 h)
      else if HasPrefix (ToLower h) ''token '' then TrimSpace (drop 6 h)
      else if q_XSubToken r \<noteq> '''' then q_XSubToken r
      else if sec_AllowQueryToken (Security cfg) then q
      else '''')"

definition sub_key :: "'a sub_server \<Rightarrow> sub_request \<Rightarrow> string" where
  "sub_key sv r =
     (let cfg = sv_config sv; key = ClientIP (sv_net sv) (q_addr r) (srv_TrustedProxies (Server cfg)); t = extractToken cfg r
      in if length t > 8 then key @ ''|'' @ take 8 t else key)"

definition token_burst :: "float64 \<Rightarrow> int" where
  "token_burst rps = go_int (rps * 2) + 1"

definition ensure_quota :: "'a sub_server \<Rightarrow> time \<Rightarrow> Principal \<Rightarrow> sub_state \<Rightarrow> (response + Principal \<times> headers) \<times> sub_state" where
  "ensure_quota sv now p st =
     (if p_Kind p = ''db'' \<and> su_tokens st \<noteq> None then
        (if \<not> sv_quota_ok sv then (Inl (http_Error [] ''quota check failed'' 503), st)
         else (case ConsumeTokenQuota now (p_TokenID p) (p_DailyQuota p) (su_usage st) of ((remaining, allowed), usage) \<Rightarrow>
            (let st' = st\<lparr>su_usage := usage\<rparr> in
             if \<not> allowed then (Inl (http_Error [] ''daily quota exceeded'' 429), st')
             else (Inr (p, if remaining \<ge> 0 then [(''X-RateLimit-Remaining-Daily'', itoa remaining)] else []), st'))))
      else (Inr (p, []), st))"

definition ensure_allowed :: "'a sub_server \<Rightarrow> time \<Rightarrow> sub_request \<Rightarrow> Principal \<Rightarrow> sub_state \<Rightarrow>
    (response + Principal \<times> headers) \<times> sub_state" where
  "ensure_allowed sv now r p st =
     (let requestedCountry = countryCode (q_country r);
          (ok, tb) = (if p_MaxRPS p > 0
            then AllowRate now (''token|'' @ p_TokenID p) (p_MaxRPS p) (token_burst (p_MaxRPS p)) (su_limiter st)
            else (True, su_limiter st));
          st = st\<lparr>su_limiter := tb\<rparr>
      in if \<not> ok then (Inl (http_Error [] ''token rate limit exceeded'' 429), st)
         else if requestedCountry \<noteq> '''' \<and> \<not> principalAllowsCountry (Some p) requestedCountry
         then (Inl (http_Error [] ''country not allowed for token'' 403), st)
         else ensure_quota sv now p st)"

definition ensurePublish :: "'a sub_server \<Rightarrow> time \<Rightarrow> sub_request \<Rightarrow> sub_state \<Rightarrow> (response + Principal \<times> headers) \<times> sub_state" where
  "ensurePublish sv now r st =
     (let cfg = sv_config sv in
      if \<not> pub_Enabled (Publish cfg) then (Inl (http_Error [] ''publish disabled'' 404), st)
      else (case Allow now (sub_key sv r) (su_limiter st) of (ok, tb) \<Rightarrow>
        (let st = st\<lparr>su_limiter := tb\<rparr> in
         if \<not> ok then (Inl (http_Error [] ''rate limit exceeded'' 429), st)
         else (case ValidateSubToken (sv_auth sv) now (sv_manager sv) (su_tokens st) (extractToken cfg r) of
             Inl _ \<Rightarrow> (Inl (http_Error [] ''unauthorized'' 401), st)
           | Inr (p, db) \<Rightarrow> ensure_allowed sv now r p (st\<lparr>su_tokens := db\<rparr>)))))"

subsection \<open>Serving a format\<close>

definition publishCacheMaxAge :: "config \<Rightarrow> duration" where
  "publishCacheMaxAge cfg =
     (let maxAge = wrap64 (pub_MaxNodeAgeHours (Publish cfg) * hour);
          maxAge = (if maxAge \<le> 0 then 24 * hour else maxAge);
          scheduleAge = wrap64 (2 * ScheduleInterval cfg)
      in if sch_Enabled (Schedule cfg) \<and> scheduleAge > 0 \<and> scheduleAge < maxAge then scheduleAge else maxAge)"

definition freshPublishBlob :: "'a sub_server \<Rightarrow> time \<Rightarrow> Blob option" where
  "freshPublishBlob sv now = (let blob = c_ptr (sv_cache sv) in
     if Fresh now (publishCacheMaxAge (sv_config sv)) blob then blob else None)"

definition setSubHeaders :: "config \<Rightarrow> string \<Rightarrow> string \<Rightarrow> string \<Rightarrow> headers \<Rightarrow> headers" where
  "setSubHeaders cfg contentType filename etag hs =
     (let hs = gput ''Content-Type'' contentType hs;
          hs = gput ''Content-Disposition'' (''inline; filename='' @ filename) hs;
          hs = gput ''X-NodeHarvest'' ''publish'' hs;
          hs = (if etag \<noteq> '''' then gput ''ETag'' etag hs else hs);
          hs = (if pub_CacheSec (Publish cfg) > 0
                then gput ''Cache-Control'' (''public, max-age='' @ itoa (pub_CacheSec (Publish cfg))) hs
                else gput ''Cache-Control'' ''no-store'' hs)
      in gput ''Profile-Update-Interval'' ''6'' hs)"

text \<open>The pre-rendered body, and the conditions under which it may stand for the token's nodes.\<close>

definition cached_body :: "'a sub_server \<Rightarrow> time \<Rightarrow> Principal \<Rightarrow> string \<Rightarrow> string \<Rightarrow> (string \<times> int \<times> string \<times> time) option" where
  "cached_body sv now p fmt country =
     (case freshPublishBlob sv now of None \<Rightarrow> None
      | Some b \<Rightarrow> if unrestricted p \<or> country \<noteq> '''' \<and> p_AllowProtocols p = []
          then map_option (\<lambda>(body, cnt). (body, cnt, b_ETag b, b_UpdatedAt b)) (Format (Some b) fmt country)
          else None)"

definition live_nodes :: "'a sub_server \<Rightarrow> time \<Rightarrow> string \<Rightarrow> Principal \<Rightarrow> node list" where
  "live_nodes sv now country p =
     filterTokenNodes (SelectPublishNodesCountry now (sv_config sv) country (sv_store sv)) (Some p)"

definition render_format :: "codecs \<Rightarrow> string \<Rightarrow> node list \<Rightarrow> string" where
  "render_format c fmt nodes = (if fmt = ''raw'' then RenderRaw c (map Some nodes)
     else if fmt = ''base64'' then RenderBase64 c (map Some nodes)
     else if fmt = ''clash'' then RenderClash c (map Some nodes) else '''')"

text \<open>Body, node count, entity tag and time of the answer; the live one is rendered when the cached body is empty.\<close>

definition sub_body :: "'a sub_server \<Rightarrow> time \<Rightarrow> Principal \<Rightarrow> string \<Rightarrow> string \<Rightarrow> string \<times> int \<times> string \<times> time" where
  "sub_body sv now p fmt country =
     (let (body, cnt, etag, updated) = (case cached_body sv now p fmt country of None \<Rightarrow> ('''', 0, '''', 0) | Some x \<Rightarrow> x)
      in if body = '''' then (let nodes = live_nodes sv now country p
           in (render_format (sv_codecs sv) fmt nodes, int (length nodes), etag, FormatRFC3339 now))
         else (body, cnt, etag, updated))"

definition add_bytes :: "time \<Rightarrow> Principal \<Rightarrow> string \<Rightarrow> sub_state \<Rightarrow> sub_state" where
  "add_bytes now p body st = (if p_Kind p = ''db'' \<and> su_tokens st \<noteq> None
     then st\<lparr>su_usage := AddTokenBytes now (p_TokenID p) (int (length body)) (su_usage st)\<rparr> else st)"

definition serveSubFormat :: "'a sub_server \<Rightarrow> (time \<Rightarrow> string) \<Rightarrow> time \<Rightarrow> sub_request \<Rightarrow> string \<Rightarrow> string \<Rightarrow> string \<Rightarrow>
    sub_state \<Rightarrow> response \<times> sub_state" where
  "serveSubFormat sv show_time now r fmt filename contentType st =
     (case ensurePublish sv now r st of (Inl e, st) \<Rightarrow> (e, st)
      | (Inr (p, hs), st) \<Rightarrow>
        (let country = countryCode (q_country r) in
         if country \<noteq> '''' \<and> \<not> principalAllowsCountry (Some p) country
         then (http_Error hs ''country not allowed for token'' 403, st)
         else (case sub_body sv now p fmt country of (body, cnt, etag, updated) \<Rightarrow>
           if q_IfNoneMatch r \<noteq> '''' \<and> etag \<noteq> '''' \<and> q_IfNoneMatch r = etag
           then (\<lparr>rs_Status = 304, rs_Header = hs, rs_Body = ''''\<rparr>, st)
           else (let hs = setSubHeaders (sv_config sv) contentType filename etag hs;
                     hs = (if updated \<noteq> 0 then gput ''X-Updated-At'' (show_time updated) hs else hs);
                     hs = gput ''X-Node-Count'' (itoa cnt) hs
                 in (\<lparr>rs_Status = 200, rs_Header = hs, rs_Body = body\<rparr>, add_bytes now p body st)))))"

definition handleSubRaw :: "'a sub_server \<Rightarrow> (time \<Rightarrow> string) \<Rightarrow> time \<Rightarrow> sub_request \<Rightarrow> sub_state \<Rightarrow> response \<times> sub_state" where
  "handleSubRaw sv show_time now r = serveSubFormat sv show_time now r ''raw'' ''sub.txt'' ''text/plain; charset=utf-8''"

definition handleSubBase64 :: "'a sub_server \<Rightarrow> (time \<Rightarrow> string) \<Rightarrow> time \<Rightarrow> sub_request \<Rightarrow> sub_state \<Rightarrow> response \<times> sub_state" where
  "handleSubBase64 sv show_time now r = serveSubFormat sv show_time now r ''base64'' ''sub.base64'' ''text/plain; charset=utf-8''"

definition handleSubClash :: "'a sub_server \<Rightarrow> (time \<Rightarrow> string) \<Rightarrow> time \<Rightarrow> sub_request \<Rightarrow> sub_state \<Rightarrow> response \<times> sub_state" where
  "handleSubClash sv show_time now r = serveSubFormat sv show_time now r ''clash'' ''clash.yaml'' ''text/yaml; charset=utf-8''"

subsection \<open>Pool and country links\<close>

definition selected_format :: "codecs \<Rightarrow> string \<Rightarrow> node list \<Rightarrow> (string \<times> string \<times> string) option" where
  "selected_format c fmt0 nodes = (let fmt = ToLower fmt0; ns = map Some nodes in
     if fmt = ''raw'' then Some (RenderRaw c ns, ''text/plain; charset=utf-8'', ''.txt'')
     else if fmt = ''base64'' then Some (RenderBase64 c ns, ''text/plain; charset=utf-8'', ''.base64.txt'')
     else if fmt \<in> {''clash'', ''clash.yaml''} then Some (RenderClash c ns, ''text/yaml; charset=utf-8'', ''.clash.yaml'')
     else None)"

definition serveSelectedSubscription :: "'a sub_server \<Rightarrow> time \<Rightarrow> sub_request \<Rightarrow> node list \<Rightarrow> string \<Rightarrow> string \<Rightarrow> int \<Rightarrow>
    Principal \<Rightarrow> headers \<Rightarrow> sub_state \<Rightarrow> response \<times> sub_state" where
  "serveSelectedSubscription sv now r nodes fmt filename refreshSec p hs st =
     (case selected_format (sv_codecs sv) fmt nodes of
        None \<Rightarrow> (http_Error hs ''unsupported format'' 400, st)
      | Some (body, contentType, extension) \<Rightarrow>
         (let etag = etagOf (sv_hashes sv) body in
          if q_IfNoneMatch r = etag then (\<lparr>rs_Status = 304, rs_Header = hs, rs_Body = ''''\<rparr>, st)
          else (let hs = gput ''Content-Type'' contentType hs;
                    hs = gput ''Content-Disposition'' (''inline; filename='' @ filename @ extension) hs;
                    hs = gput ''Cache-Control'' (''public, max-age='' @ itoa (max refreshSec 0)) hs;
                    hs = gput ''ETag'' etag hs;
                    hs = gput ''X-Node-Count'' (itoa (int (length nodes))) hs
                in (\<lparr>rs_Status = 200, rs_Header = hs, rs_Body = body\<rparr>, add_bytes now p body st))))"

definition handleSubPool :: "'a sub_server \<Rightarrow> time \<Rightarrow> sub_request \<Rightarrow> sub_state \<Rightarrow> response \<times> sub_state" where
  "handleSubPool sv now r st =
     (case ensurePublish sv now r st of (Inl e, st) \<Rightarrow> (e, st)
      | (Inr (p, hs), st) \<Rightarrow>
        (case Find (sv_config sv) (q_key r) of None \<Rightarrow> (http_Error hs ''unknown pool'' 404, st)
         | Some pool \<Rightarrow> serveSelectedSubscription sv now r (filterTokenNodes (Select now pool (sv_store sv)) (Some p))
             (q_format r) (''pool-'' @ np_Key pool) (np_RefreshSec pool) p hs st))"

definition handleSubCountry :: "'a sub_server \<Rightarrow> time \<Rightarrow> sub_request \<Rightarrow> sub_state \<Rightarrow> response \<times> sub_state" where
  "handleSubCountry sv now r st =
     (case ensurePublish sv now r st of (Inl e, st) \<Rightarrow> (e, st)
      | (Inr (p, hs), st) \<Rightarrow>
        (let country = countryCode (q_code r) in
         if length country \<noteq> 2 then (http_Error hs ''invalid country code'' 400, st)
         else if \<not> principalAllowsCountry (Some p) country then (http_Error hs ''country not allowed for token'' 403, st)
         else serveSelectedSubscription sv now r (live_nodes sv now country p) (q_format r) (''country-'' @ country)
             (pub_CacheSec (Publish (sv_config sv))) p hs st))"

subsection \<open>Overviews\<close>

text \<open>The objects are kept as records.\<close>

definition plain_country :: "node \<Rightarrow> string" where
  "plain_country n = (if n_Country n = '''' then ''XX'' else n_Country n)"

definition count_countries :: "node list \<Rightarrow> (string, int) gmap" where
  "count_countries nodes = fold gincr (map plain_country nodes) []"

record sub_meta =
  me_count :: int
  me_by_country :: "(string, int) gmap"
  me_country :: "string option"
  me_etag :: "string option"
  me_generated :: time
  me_min_score :: float64
  me_max_nodes :: int
  me_cached :: bool

definition handleSubMeta :: "'a sub_server \<Rightarrow> time \<Rightarrow> sub_request \<Rightarrow> sub_state \<Rightarrow> (response + headers \<times> sub_meta) \<times> sub_state" where
  "handleSubMeta sv now r st =
     (case ensurePublish sv now r st of (Inl e, st) \<Rightarrow> (Inl e, st)
      | (Inr (p, hs), st) \<Rightarrow>
        (let country = q_country r; pub = Publish (sv_config sv);
             live = (let nodes = live_nodes sv now country p
               in \<lparr>me_count = int (length nodes), me_by_country = count_countries nodes, me_country = Some country,
                   me_etag = None, me_generated = FormatRFC3339 now, me_min_score = pub_MinScore pub,
                   me_max_nodes = pub_MaxNodes pub, me_cached = False\<rparr>);
             meta = (case freshPublishBlob sv now of None \<Rightarrow> live
               | Some b \<Rightarrow> if country = '''' \<and> unrestricted p
                   then \<lparr>me_count = b_Count b, me_by_country = b_ByCountry b, me_country = None, me_etag = Some (b_ETag b),
                         me_generated = b_UpdatedAt b, me_min_score = pub_MinScore pub, me_max_nodes = pub_MaxNodes pub,
                         me_cached = True\<rparr>
                   else live)
         in (Inr (hs, meta), st)))"

record clink =
  cl_Code :: string
  cl_Count :: int
  cl_Raw :: string
  cl_B64 :: string
  cl_Clash :: string

record sub_index =
  si_nodes :: int
  si_min_score :: float64
  si_max_nodes :: int
  si_alive_only :: bool
  si_by_country :: "(string, int) gmap"
  si_updated_at :: time
  si_links :: "(string, string) gmap"
  si_by_country_links :: "clink list"
  si_cached :: bool
  si_usage :: "(string, string) gmap"

definition base_url :: "config \<Rightarrow> sub_request \<Rightarrow> string" where
  "base_url cfg r = (if pub_PublicURL (Publish cfg) \<noteq> '''' then pub_PublicURL (Publish cfg)
     else (if q_https r then ''https'' else ''http'') @ ''://'' @
       (if q_XForwardedHost r = '''' then q_Host r else q_XForwardedHost r))"

definition token_query :: "config \<Rightarrow> sub_request \<Rightarrow> string" where
  "token_query cfg r = (let t = extractToken cfg r in
     if t \<noteq> '''' \<and> sec_AllowQueryToken (Security cfg) then ''?token='' @ t else '''')"

definition joinQ :: "string \<Rightarrow> string \<Rightarrow> string" where
  "joinQ tokenQ extra = (if extra = '''' then tokenQ else if tokenQ = '''' then ''?'' @ extra else tokenQ @ ''&'' @ extra)"

definition country_links :: "string \<Rightarrow> string \<Rightarrow> (string, int) gmap \<Rightarrow> clink list" where
  "country_links url tokenQ byCountry =
     limit_to 20 (map (\<lambda>(code, c). let q = joinQ tokenQ (''country='' @ code)
         in \<lparr>cl_Code = code, cl_Count = c, cl_Raw = url @ ''/raw'' @ q, cl_B64 = url @ ''/base64'' @ q,
             cl_Clash = url @ ''/clash'' @ q\<rparr>)
       (exchange_sort (filter (\<lambda>(code, c). \<not> (code = ''XX'' \<or> c < 1)) byCountry)))"

definition handleSubIndex :: "'a sub_server \<Rightarrow> time \<Rightarrow> sub_request \<Rightarrow> sub_state \<Rightarrow> (response + headers \<times> sub_index) \<times> sub_state" where
  "handleSubIndex sv now r st =
     (case ensurePublish sv now r st of (Inl e, st) \<Rightarrow> (Inl e, st)
      | (Inr (p, hs), st) \<Rightarrow>
        (let cfg = sv_config sv; pub = Publish cfg;
             pfx = (if pub_PathPrefix pub = '''' then ''/sub'' else pub_PathPrefix pub);
             url = base_url cfg r @ pfx; tokenQ = token_query cfg r;
             blob = freshPublishBlob sv now; nodes = live_nodes sv now '''' p;
             live = (int (length nodes), count_countries nodes, FormatRFC3339 now);
             (cnt, byCountry, updated) = (case blob of None \<Rightarrow> live
               | Some b \<Rightarrow> if unrestricted p then (b_Count b, b_ByCountry b, b_UpdatedAt b) else live);
             raw = url @ ''/raw'' @ tokenQ; b64 = url @ ''/base64'' @ tokenQ; clash = url @ ''/clash'' @ tokenQ
         in (Inr (hs, \<lparr>si_nodes = cnt, si_min_score = pub_MinScore pub, si_max_nodes = pub_MaxNodes pub,
              si_alive_only = pub_AliveOnly pub, si_by_country = byCountry, si_updated_at = updated,
              si_links = [(''raw'', raw), (''base64'', b64), (''clash'', clash)],
              si_by_country_links = country_links url tokenQ byCountry, si_cached = (blob \<noteq> None),
              si_usage = [(''v2rayN'', b64), (''clash'', clash), (''raw_uri'', raw),
                (''country_example'', url @ ''/base64'' @ joinQ tokenQ ''country=US'')]\<rparr>), st)))"


subsection \<open>The gate\<close>

text \<open>
  Whoever passes the gate holds the identity \<open>ValidateSubToken\<close> gave for the request's token, may
  ask for the country it names, and the general limiter admitted the request.
\<close>

lemma ensurePublish_ok:
  assumes "ensurePublish sv now r st = (Inr (p, hs), st')"
  obtains tb tokens tokens' where "pub_Enabled (Publish (sv_config sv))"
    and "Allow now (sub_key sv r) (su_limiter st) = (True, tb)"
    and "ValidateSubToken (sv_auth sv) now (sv_manager sv) (su_tokens st) (extractToken (sv_config sv) r) = Inr (p, tokens')"
    and "countryCode (q_country r) = '''' \<or> principalAllowsCountry (Some p) (countryCode (q_country r))"
    and "su_tokens st' = tokens'"
proof -
  have en: "pub_Enabled (Publish (sv_config sv))" using assms by (auto simp: ensurePublish_def Let_def split: if_splits)
  obtain ok tb where a: "Allow now (sub_key sv r) (su_limiter st) = (ok, tb)" by (metis surj_pair)
  have ok: "ok" using assms en a by (auto simp: ensurePublish_def Let_def split: if_splits)
  obtain p' tokens' where v: "ValidateSubToken (sv_auth sv) now (sv_manager sv) (su_tokens st)
      (extractToken (sv_config sv) r) = Inr (p', tokens')"
    using assms en a ok by (auto simp: ensurePublish_def Let_def split: sum.splits)
  then have e: "ensure_allowed sv now r p' (st\<lparr>su_limiter := tb, su_tokens := tokens'\<rparr>) = (Inr (p, hs), st')"
    using assms en a ok by (simp add: ensurePublish_def Let_def)
  have "p' = p" "su_tokens st' = tokens'"
    "countryCode (q_country r) = '''' \<or> principalAllowsCountry (Some p) (countryCode (q_country r))"
    using e by (auto simp: ensure_allowed_def ensure_quota_def Let_def split: if_splits prod.splits)
  with en a ok v show ?thesis by (intro that [of tb tokens']) auto
qed


subsection \<open>What a subscription contains\<close>

lemma normalizeCC_countryCode: "normalizeCC = countryCode"
  by (simp add: fun_eq_iff normalizeCC_def countryCode_def)

lemma countryCode_idem [simp]: "countryCode (countryCode raw) = countryCode raw"
proof -
  have "ToUpper (TrimSpace ''GB'') = ''GB''" by code_simp
  then show ?thesis by (auto simp: countryCode_def Let_def TrimSpace_ToUpper)
qed

lemma countryCode_trimmed: "ToUpper (countryCode raw) = countryCode raw" "TrimSpace (countryCode raw) = countryCode raw"
proof -
  have "ToUpper ''GB'' = ''GB''" "TrimSpace ''GB'' = ''GB''" by code_simp+
  then show "ToUpper (countryCode raw) = countryCode raw" "TrimSpace (countryCode raw) = countryCode raw"
    by (auto simp: countryCode_def Let_def TrimSpace_ToUpper)
qed

text \<open>A node of the country asked for, as \<open>NodeFilter.Match\<close> compares it.\<close>

definition asked_for :: "string \<Rightarrow> node \<Rightarrow> bool" where
  "asked_for country n \<longleftrightarrow> country = '''' \<or>
     country_code (if ToUpper (n_Country n) = '''' then ''XX'' else ToUpper (n_Country n)) = country"

lemma in_country_asked:
  assumes "in_country (countryCode raw) n"
  shows "asked_for (countryCode raw) n"
    and "countryCode raw \<noteq> '''' \<Longrightarrow> (if countryCode (n_Country n) = '''' then ''XX'' else countryCode (n_Country n)) = countryCode raw"
proof -
  have xx: "ToUpper ''UK'' = ''UK''" "TrimSpace ''UK'' = ''UK''" "TrimSpace '''' = ''''" by code_simp+
  have n: "countryCode raw = '''' \<or> n_Country n = countryCode raw \<or> n_Country n = ''UK'' \<and> countryCode raw = ''GB'' \<or>
      n_Country n = '''' \<and> countryCode raw = ''XX''"
    using assms by (auto simp: in_country_def group_country_def Let_def split: if_splits)
  have not_uk: "countryCode raw \<noteq> ''UK''" by (auto simp: countryCode_def Let_def)
  show "asked_for (countryCode raw) n"
    using n not_uk by (auto simp: asked_for_def country_code_def countryCode_trimmed xx)
  show "countryCode raw \<noteq> '''' \<Longrightarrow> (if countryCode (n_Country n) = '''' then ''XX'' else countryCode (n_Country n)) = countryCode raw"
    using n by (auto simp: countryCode_def [of "''UK''"] countryCode_def [of "''''"] xx)
qed

lemma unrestricted_acl: "unrestricted p \<Longrightarrow> acl_keeps p n"
  by (simp add: unrestricted_def acl_keeps_def)

lemma in_country_acl:
  assumes "in_country (countryCode raw) n" and "countryCode raw \<noteq> ''''"
    and "p_AllowProtocols p = []" and "principalAllowsCountry (Some p) (countryCode raw)"
  shows "acl_keeps p n"
  using in_country_asked(2) [OF assms(1,2)] assms(3,4)
  by (auto simp: acl_keeps_def principalAllowsCountry_def Let_def)

lemma filterTokenNodes_set: "n \<in> set (filterTokenNodes nodes (Some p)) \<Longrightarrow> n \<in> set nodes \<and> acl_keeps p n"
  by (auto simp: filterTokenNodes_def unrestricted_acl split: if_splits)

lemma Match_country:
  "Match f n \<Longrightarrow> nf_Country f \<noteq> '''' \<Longrightarrow>
     country_code (if ToUpper (n_Country n) = '''' then ''XX'' else ToUpper (n_Country n)) = country_code (ToUpper (nf_Country f))"
  unfolding Match_def by blast

lemma country_code_countryCode: "country_code (countryCode raw) = countryCode raw"
  by (auto simp: country_code_def countryCode_def Let_def)

lemma live_nodes_asked:
  assumes "n \<in> set (live_nodes sv now (countryCode raw) p)"
  shows "n \<in> set (SelectPublishNodesCountry now (sv_config sv) (countryCode raw) (sv_store sv))" "acl_keeps p n"
    "asked_for (countryCode raw) n"
proof -
  show sel: "n \<in> set (SelectPublishNodesCountry now (sv_config sv) (countryCode raw) (sv_store sv))" and "acl_keeps p n"
    using assms filterTokenNodes_set by (auto simp: live_nodes_def)
  show "asked_for (countryCode raw) n"
  proof (cases "countryCode raw = ''''")
    case False
    then have strict: "strict_selection now (sv_config sv) (countryCode raw) (sv_store sv)"
      by (simp add: strict_selection_def)
    obtain k name where k: "k \<in> set (publish_candidates now (sv_config sv) (countryCode raw) (sv_store sv))"
      "n = k\<lparr>n_Name := name\<rparr>"
      using selected_from [OF sel] by blast
    then obtain m where m: "k = cloneNode m" "Match (publish_filter now (sv_config sv) (countryCode raw)) m"
      using ListNodes_from_store by (metis strict_candidates strict)
    have "n_Country n = n_Country m" using k m(1) by (simp add: cloneNode_def)
    moreover have "nf_Country (publish_filter now (sv_config sv) (countryCode raw)) = countryCode raw"
      by (simp add: publish_filter_def with_dial_def countryCode_trimmed)
    ultimately have "asked_for (country_code (ToUpper (countryCode raw))) n"
      using Match_country [OF m(2)] False unfolding asked_for_def by metis
    then show ?thesis by (simp add: countryCode_trimmed country_code_countryCode)
  qed (simp add: asked_for_def)
qed


text \<open>The nodes behind a body: cached ones come from an earlier selection, live ones from the current store.\<close>

definition published :: "'a sub_server \<Rightarrow> node list set \<Rightarrow> time \<Rightarrow> string \<Rightarrow> node list set" where
  "published sv sel now country = insert (SelectPublishNodesCountry now (sv_config sv) country (sv_store sv)) sel"

lemma cached_body_ok:
  assumes "cache_ok (sv_codecs sv) sel (sv_cache sv)" and "fmt \<in> {''raw'', ''base64'', ''clash''}"
    and "cached_body sv now p fmt (countryCode raw) = Some (body, cnt, etag, updated)" and "body \<noteq> ''''"
    and "countryCode raw = '''' \<or> principalAllowsCountry (Some p) (countryCode raw)"
  shows "\<exists>whole nodes. whole \<in> sel \<and> set nodes \<subseteq> set whole \<and> body = render_format (sv_codecs sv) fmt nodes \<and>
    (\<forall>n \<in> set nodes. acl_keeps p n \<and> asked_for (countryCode raw) n)"
proof -
  let ?cc = "countryCode raw"
  obtain b where b: "freshPublishBlob sv now = Some b" "Format (Some b) fmt ?cc = Some (body, cnt)"
    "unrestricted p \<or> ?cc \<noteq> '''' \<and> p_AllowProtocols p = []"
    using assms(3) by (auto simp: cached_body_def split: option.splits if_splits)
  have "c_ptr (sv_cache sv) = Some b" using b(1) by (auto simp: freshPublishBlob_def Let_def split: if_splits)
  then have "body_ok (sv_codecs sv) sel fmt ?cc body" using assms(1) b(2) unfolding cache_ok_def blob_ok_def by blast
  then obtain whole render where w: "whole \<in> sel" "renderer fmt = Some render"
    "body = render (sv_codecs sv) (map Some (filter (in_country ?cc) whole))"
    using assms(4) by (auto simp: body_ok_def normalizeCC_countryCode)
  have "body = render_format (sv_codecs sv) fmt (filter (in_country ?cc) whole)"
    using w(2,3) assms(2) by (auto simp: render_format_def renderer_def)
  moreover have "acl_keeps p n \<and> asked_for ?cc n" if "n \<in> set (filter (in_country ?cc) whole)" for n
    using that b(3) assms(5) in_country_asked(1) in_country_acl unrestricted_acl by auto
  ultimately show ?thesis using w(1) by (intro exI [of _ whole] exI [of _ "filter (in_country ?cc) whole"]) auto
qed

lemma sub_body_ok:
  assumes "cache_ok (sv_codecs sv) sel (sv_cache sv)" and "fmt \<in> {''raw'', ''base64'', ''clash''}"
    and "countryCode raw = '''' \<or> principalAllowsCountry (Some p) (countryCode raw)"
    and "sub_body sv now p fmt (countryCode raw) = (body, cnt, etag, updated)"
  shows "\<exists>whole nodes. whole \<in> published sv sel now (countryCode raw) \<and> set nodes \<subseteq> set whole \<and>
    body = render_format (sv_codecs sv) fmt nodes \<and> (\<forall>n \<in> set nodes. acl_keeps p n \<and> asked_for (countryCode raw) n)"
proof (cases "\<exists>body0 rest. cached_body sv now p fmt (countryCode raw) = Some (body0, rest) \<and> body0 \<noteq> ''''")
  case True
  then have "cached_body sv now p fmt (countryCode raw) = Some (body, cnt, etag, updated)" "body \<noteq> ''''"
    using assms(4) by (auto simp: sub_body_def Let_def)
  from cached_body_ok [OF assms(1,2) this assms(3)] show ?thesis by (auto simp: published_def)
next
  case False
  then have "body = render_format (sv_codecs sv) fmt (live_nodes sv now (countryCode raw) p)"
    using assms(4) by (auto simp: sub_body_def Let_def split: option.splits prod.splits if_splits)
  moreover have "set (live_nodes sv now (countryCode raw) p) \<subseteq>
      set (SelectPublishNodesCountry now (sv_config sv) (countryCode raw) (sv_store sv))"
    using live_nodes_asked(1) by blast
  ultimately show ?thesis
    using live_nodes_asked(2,3) [of _ sv now raw p] unfolding published_def
    by (intro exI [of _ "SelectPublishNodesCountry now (sv_config sv) (countryCode raw) (sv_store sv)"]
        exI [of _ "live_nodes sv now (countryCode raw) p"]) auto
qed

text \<open>
  C37. What a subscription request that is answered with a body receives: the rendering, in the
  format asked for, of nodes taken from a published selection, all of them of the country asked for
  and all of them allowed by the country and protocol lists of the identity its token stands for.
  This holds whether the body came from the cache or was selected live, and for any cache whose
  bodies were published.
\<close>

theorem subscription_within_acl:
  assumes "cache_ok (sv_codecs sv) sel (sv_cache sv)" and "fmt \<in> {''raw'', ''base64'', ''clash''}"
    and "serveSubFormat sv show_time now r fmt filename contentType st = (resp, st')" and "rs_Status resp = 200"
  shows "\<exists>p tokens. ValidateSubToken (sv_auth sv) now (sv_manager sv) (su_tokens st) (extractToken (sv_config sv) r) = Inr (p, tokens) \<and>
    (\<exists>whole nodes. whole \<in> published sv sel now (countryCode (q_country r)) \<and> set nodes \<subseteq> set whole \<and>
      rs_Body resp = render_format (sv_codecs sv) fmt nodes \<and>
      (\<forall>n \<in> set nodes. acl_keeps p n \<and> asked_for (countryCode (q_country r)) n))"
proof -
  obtain gate st1 where g: "ensurePublish sv now r st = (gate, st1)" by (metis surj_pair)
  have refused: "rs_Status e \<noteq> 200" if "gate = Inl e" for e
    using g that by (auto simp: ensurePublish_def ensure_allowed_def ensure_quota_def http_Error_def Let_def
        split: if_splits prod.splits sum.splits)
  then obtain p hs where gate: "gate = Inr (p, hs)" using assms(3,4) g by (cases gate) (auto simp: serveSubFormat_def)
  from ensurePublish_ok [OF g [unfolded gate]] obtain tokens where
    v: "ValidateSubToken (sv_auth sv) now (sv_manager sv) (su_tokens st) (extractToken (sv_config sv) r) = Inr (p, tokens)"
    and allowed: "countryCode (q_country r) = '''' \<or> principalAllowsCountry (Some p) (countryCode (q_country r))" by metis
  obtain body cnt etag updated where sb: "sub_body sv now p fmt (countryCode (q_country r)) = (body, cnt, etag, updated)"
    by (metis surj_pair)
  have "rs_Body resp = body"
    using assms(3,4) g gate sb by (auto simp: serveSubFormat_def http_Error_def Let_def split: if_splits)
  with sub_body_ok [OF assms(1,2) allowed sb] v show ?thesis by blast
qed


definition example_server :: "string sub_server" where
  "example_server = \<lparr>sv_net = plain_net, sv_auth = plain_auth, sv_manager = example_manager\<lparr>m_MasterToken := ''''\<rparr>,
     sv_hashes = plain_hashes, sv_codecs = tiny_codecs, sv_config = publish_config, sv_store = dialed_store,
     sv_cache = NewCache plain_hashes 0 \<lparr>pd_raw = None, pd_b64 = None, pd_clash = None, pd_meta = None\<rparr>, sv_quota_ok = True\<rparr>"

definition plain_request :: sub_request where
  "plain_request = \<lparr>q_addr = \<lparr>r_RemoteAddr = '''', r_XForwardedFor = '''', r_CFConnectingIP = '''', r_XRealIP = '''',
       r_Path = '''', r_Token = ''''\<rparr>,
     q_Authorization = '''', q_XSubToken = '''', q_IfNoneMatch = '''', q_country = '''', q_key = '''', q_code = '''',
     q_format = '''', q_https = False, q_XForwardedHost = '''', q_Host = ''''\<rparr>"

definition fresh_state :: sub_state where
  "fresh_state = \<lparr>su_limiter = NewTokenBucket 1 5, su_tokens = None, su_usage = []\<rparr>"

lemma example_admitted:
  "\<exists>tb. ensurePublish example_server (101 * hour) plain_request fresh_state =
     (Inr (zero_principal\<lparr>p_Kind := ''public'', p_Name := ''public''\<rparr>, []), fresh_state\<lparr>su_limiter := tb\<rparr>)"
proof -
  have t: "extractToken publish_config plain_request = ''''"
    by (simp add: extractToken_def plain_request_def publish_config_def Default_def HasPrefix_def ToLower_def)
  have "fst (Allow (101 * hour) (sub_key example_server plain_request) (su_limiter fresh_state))"
    by (simp add: Allow_def AllowRate_def fresh_state_def NewTokenBucket_def Let_def)
  then obtain tb where "Allow (101 * hour) (sub_key example_server plain_request) (su_limiter fresh_state) = (True, tb)"
    by (metis (full_types) prod.collapse)
  then show ?thesis
    using t by (simp add: ensurePublish_def ensure_allowed_def ensure_quota_def ValidateSubToken_def example_server_def
        publish_config_def zero_principal_def countryCode_def plain_request_def fresh_state_def Let_def)
qed

theorem subscription_within_acl_witness:
  "\<exists>p nodes. rs_Body (fst (serveSubFormat example_server (\<lambda>_. '''') (101 * hour) plain_request ''raw'' ''sub.txt'' '''' fresh_state)) =
     render_format tiny_codecs ''raw'' nodes \<and> list_all (acl_keeps p) nodes"
proof -
  obtain resp st' where s: "serveSubFormat example_server (\<lambda>_. '''') (101 * hour) plain_request ''raw'' ''sub.txt'' '''' fresh_state = (resp, st')"
    by (metis surj_pair)
  have c: "cache_ok (sv_codecs example_server) {} (sv_cache example_server)"
    unfolding example_server_def by simp (rule NewCache_ok, simp add: disk_ok_def file_ok_def)
  have "q_country plain_request = ''''" "q_IfNoneMatch plain_request = ''''" "countryCode '''' = ''''"
    by (simp_all add: plain_request_def countryCode_def)
  with s have "rs_Status resp = 200"
    using example_admitted by (auto simp: serveSubFormat_def Let_def split: prod.splits)
  moreover have "sv_codecs example_server = tiny_codecs" by (simp add: example_server_def)
  ultimately show ?thesis
    using subscription_within_acl [OF c _ s] by (auto simp: s list_all_iff)
qed

end
