(* ===== verification/Boundary.thy ===== *)
theory Boundary
  imports Auth RateLimit Config NetURL
begin

text \<open>
  What stands between a connection and a handler in \<open>internal/api/server.go\<close>: the request limiter,
  the cross-origin checks, the management boundary and the table of routes. The path is the decoded
  one; the router matches its segments, which were decoded one by one, so the path is always the
  segments joined.
\<close>

subsection \<open>Requests\<close>

record api_request =
  a_Method :: string
  a_Host :: string
  a_Origin :: string
  a_cookie :: string
  a_net :: request

text \<open>The parts of the server these layers use.\<close>

record 'a edge =
  ed_net :: "'a net_libs"
  ed_auth :: auth_libs
  ed_manager :: Manager
  ed_config :: config

definition url_path :: "api_request \<Rightarrow> string" where
  "url_path r = r_Path (a_net r)"

subsection \<open>Origins\<close>

definition sameOrigin :: "string \<Rightarrow> string \<Rightarrow> bool" where
  "sameOrigin origin host \<longleftrightarrow> (case url_Parse origin of None \<Rightarrow> False
     | Some u \<Rightarrow> uri_Host u \<noteq> '''' \<and> EqualFold (uri_Host u) host)"

definition origin_listed :: "string list \<Rightarrow> string \<Rightarrow> bool" where
  "origin_listed allowedOrigins origin = list_ex (\<lambda>c. c = ''*'' \<or> EqualFold (TrimSpace c) origin) allowedOrigins"

definition origin_allowed :: "string list \<Rightarrow> string \<Rightarrow> string \<Rightarrow> bool" where
  "origin_allowed allowedOrigins origin host \<longleftrightarrow> origin = '''' \<or> sameOrigin origin host \<or> origin_listed allowedOrigins origin"

text \<open>The headers set, and the status when the request ends here.\<close>

definition cors :: "string list \<Rightarrow> api_request \<Rightarrow> (string, string) gmap \<times> int option" where
  "cors allowedOrigins r =
     (let origin = a_Origin r;
          hs = [(''X-Content-Type-Options'', ''nosniff''), (''Referrer-Policy'', ''no-referrer''),
            (''Content-Security-Policy'', ''default-src '' @ [CHR 0x27] @ ''none'' @ [CHR 0x27] @ ''; frame-ancestors '' @
              [CHR 0x27] @ ''none'' @ [CHR 0x27])];
          hs = (if origin_listed allowedOrigins origin \<and> origin \<noteq> ''''
            then gput ''Vary'' ''Origin'' (gput ''Access-Control-Allow-Origin'' origin hs) else hs)
      in if origin \<noteq> '''' \<and> \<not> origin_allowed allowedOrigins origin (a_Host r) then (hs, Some 403)
         else (let hs = (if origin \<noteq> '''' then gput ''Access-Control-Allow-Credentials'' ''true''
                   (gput ''Access-Control-Allow-Headers'' ''Content-Type, Authorization, X-Sub-Token''
                   (gput ''Access-Control-Allow-Methods'' ''GET, POST, DELETE, OPTIONS'' hs)) else hs)
               in (hs, if a_Method r = ''OPTIONS'' then Some 204 else None)))"

subsection \<open>The management boundary\<close>

definition requestHost :: "string \<Rightarrow> string" where
  "requestHost raw0 = (let raw = TrimSpace raw0 in
     case SplitHostPort raw of Some (host, _) \<Rightarrow> Trim host ''[]'' | None \<Rightarrow> Trim raw ''[]'')"

definition allowedClientIP :: "'a net_libs \<Rightarrow> string \<Rightarrow> string list \<Rightarrow> bool" where
  "allowedClientIP net raw cidrs = (case parse_addr net (TrimSpace raw) of None \<Rightarrow> False
     | Some ip \<Rightarrow> list_ex (\<lambda>rawCIDR. (case parse_prefix net (TrimSpace rawCIDR) of None \<Rightarrow> False | Some pfx \<Rightarrow> pfx ip) \<or>
         parse_addr net (TrimSpace rawCIDR) = Some ip) cidrs)"

definition publicAPI :: "string list" where
  "publicAPI = [''/api/health'', ''/api/ready'', ''/api/version'', ''/api/terms'', ''/api/public/dashboard'',
     ''/api/public/dashboard/events'', ''/api/v1/auth/login'', ''/api/v1/auth/logout'', ''/api/v1/auth/me'',
     ''/api/v1/integrations/sub-store/session-check'', ''/api/v1/integrations/sub-store/publish-check'']"

definition subscription_path :: "config \<Rightarrow> string \<Rightarrow> bool" where
  "subscription_path cfg path \<longleftrightarrow> HasPrefix path ''/sub'' \<or> HasPrefix path ''/api/sub'' \<or>
     (let pfx = TrimRight (pub_PathPrefix (Publish cfg)) ''/''
      in pfx \<noteq> '''' \<and> (path = pfx \<or> HasPrefix path (pfx @ ''/'')))"

definition management_path :: "config \<Rightarrow> string \<Rightarrow> bool" where
  "management_path cfg path \<longleftrightarrow> \<not> subscription_path cfg path \<and> path \<notin> set publicAPI \<and>
     (HasPrefix path ''/api/'' \<or> path = ''/metrics'' \<or> HasPrefix path ''/debug/'')"

text \<open>\<open>None\<close> hands the request on; \<open>Some\<close> is the status of the refusal.\<close>

definition managementBoundary :: "'a edge \<Rightarrow> time \<Rightarrow> api_request \<Rightarrow> int option" where
  "managementBoundary ed now r =
     (let cfg = ed_config ed; host = requestHost (a_Host r); path = url_path r; a = Auth cfg
      in if subscription_path cfg path \<and> aut_PublicHost a \<noteq> '''' \<and> \<not> EqualFold host (requestHost (aut_PublicHost a))
         then Some 404
         else if \<not> management_path cfg path then None
         else if aut_AdminHost a \<noteq> '''' \<and> \<not> EqualFold host (requestHost (aut_AdminHost a)) then Some 404
         else if aut_AdminCIDRs a \<noteq> [] \<and>
           \<not> allowedClientIP (ed_net ed) (ClientIP (ed_net ed) (a_net r) (srv_TrustedProxies (Server cfg))) (aut_AdminCIDRs a)
         then Some 403
         else case RequestPrincipal (ed_auth ed) now (ed_manager ed) (a_cookie r) of
           Inl _ \<Rightarrow> Some 401
         | Inr p \<Rightarrow> if p_Authenticated p then None else Some 401)"

text \<open>The layers in the order of \<open>buildHandler\<close>; \<open>None\<close> means the router is reached.\<close>

definition buildHandler :: "'a edge \<Rightarrow> time \<Rightarrow> api_request \<Rightarrow> TokenBucket \<Rightarrow> int option \<times> TokenBucket" where
  "buildHandler ed now r tb =
     (case Middleware (ed_net ed) (srv_TrustedProxies (Server (ed_config ed))) now (a_net r) tb of (ok, tb') \<Rightarrow>
        (if \<not> ok then Some 429
         else case snd (cors (srv_AllowedOrigins (Server (ed_config ed))) r) of
           Some status \<Rightarrow> Some status
         | None \<Rightarrow> managementBoundary ed now r, tb'))"

subsection \<open>Routes\<close>

text \<open>
  A pattern is its segments; \<open>{name}\<close> stands for one non-empty segment and an empty last segment for
  everything below.
\<close>

type_synonym route = "string \<times> string \<times> string"

definition seg_ok :: "string \<Rightarrow> string \<Rightarrow> bool" where
  "seg_ok pat seg = (if HasPrefix pat ''{'' then seg \<noteq> '''' else seg = pat)"

fun segs_match :: "string list \<Rightarrow> string list \<Rightarrow> bool" where
  "segs_match [] segs = (segs = [])"
| "segs_match (p # ps) [] = False"
| "segs_match (p # ps) (s # ss) = (if p = '''' \<and> ps = [] then True else seg_ok p s \<and> segs_match ps ss)"

definition route_matches :: "string \<Rightarrow> string list \<Rightarrow> bool" where
  "route_matches pat segs = segs_match (Split CHR ''/'' (drop 1 pat)) segs"

definition public_routes :: "route list" where
  "public_routes = [(''GET'', ''/api/health'', ''handleHealth''), (''GET'', ''/api/ready'', ''handleReady''),
     (''GET'', ''/api/version'', ''handleVersion''), (''GET'', ''/api/terms'', ''handleTerms''),
     (''POST'', ''/api/v1/auth/login'', ''handleLogin''), (''POST'', ''/api/v1/auth/logout'', ''handleLogout''),
     (''GET'', ''/api/v1/auth/me'', ''handleMe''),
     (''GET'', ''/api/v1/integrations/sub-store/session-check'', ''handleSubStoreSessionCheck''),
     (''GET'', ''/api/v1/integrations/sub-store/publish-check'', ''handleSubStorePublishCheck''),
     (''GET'', ''/api/public/dashboard'', ''handlePublicDashboard''),
     (''GET'', ''/api/public/dashboard/events'', ''handlePublicDashboardEvents'')]"

definition management_routes :: "config \<Rightarrow> route list" where
  "management_routes cfg = [(''GET'', ''/api/v1/events'', ''handleEvents''), (''GET'', ''/api/stats'', ''handleStats''),
     (''GET'', ''/api/nodes'', ''handleNodes''), (''GET'', ''/api/nodes/{id}'', ''handleNode''),
     (''GET'', ''/api/nodes/{id}/metrics'', ''handleNodeMetrics''), (''GET'', ''/api/stats/trends'', ''handleTrends''),
     (''GET'', ''/api/jobs'', ''handleJobs''), (''GET'', ''/api/jobs/{id}'', ''handleJob''),
     (''GET'', ''/api/jobs/{id}/events'', ''handleJobEvents''), (''POST'', ''/api/jobs/fetch'', ''handleStartFetch''),
     (''POST'', ''/api/jobs/quality'', ''handleStartQuality''), (''POST'', ''/api/jobs/ai'', ''handleStartAI''),
     (''POST'', ''/api/jobs/full'', ''handleStartFull''), (''POST'', ''/api/jobs/geo'', ''handleStartGeo''),
     (''POST'', ''/api/jobs/dial'', ''handleStartDial''), (''POST'', ''/api/jobs/purity'', ''handleStartPurity''),
     (''POST'', ''/api/jobs/cancel'', ''handleCancelJob''), (''GET'', ''/api/dial/status'', ''handleDialStatus''),
     (''GET'', ''/api/purity/summary'', ''handlePuritySummary''), (''GET'', ''/api/countries'', ''handleCountries''),
     (''GET'', ''/api/sources'', ''handleSources''), (''GET'', ''/api/ai/targets'', ''handleAITargets''),
     (''GET'', ''/api/ai/host'', ''handleHostAI''), (''GET'', ''/api/export/raw'', ''handleExportRaw''),
     (''GET'', ''/api/export/base64'', ''handleExportBase64''), (''GET'', ''/api/export/clash'', ''handleExportClash''),
     (''GET'', ''/api/config'', ''handleConfig''), (''GET'', ''/api/schedule'', ''handleSchedule''),
     (''GET'', ''/api/pools'', ''handlePools''), (''GET'', ''/api/pools/{key}/export/raw'', ''handlePoolExportRaw''),
     (''GET'', ''/metrics'', ''handleMetrics'')] @
     (if srv_EnablePprof (Server cfg) then
       [(''GET'', ''/debug/pprof/'', ''Index''), (''GET'', ''/debug/pprof/cmdline'', ''Cmdline''),
        (''GET'', ''/debug/pprof/profile'', ''Profile''), (''GET'', ''/debug/pprof/symbol'', ''Symbol''),
        (''GET'', ''/debug/pprof/trace'', ''Trace'')] else []) @
     [(''GET'', ''/api/admin/tokens'', ''handleAdminListTokens''), (''POST'', ''/api/admin/tokens'', ''handleAdminCreateToken''),
     (''DELETE'', ''/api/admin/tokens/{id}'', ''handleAdminDeleteToken''),
     (''POST'', ''/api/admin/tokens/{id}/enable'', ''handleAdminEnableToken''),
     (''POST'', ''/api/admin/tokens/{id}/disable'', ''handleAdminDisableToken''),
     (''GET'', ''/api/admin/audit'', ''handleAdminAudit''),
     (''POST'', ''/api/admin/publish/refresh'', ''handleAdminRefreshPublish''),
     (''POST'', ''/api/admin/sources/{name}/enable'', ''handleAdminEnableSource''),
     (''POST'', ''/api/admin/sources/{name}/disable'', ''handleAdminDisableSource''),
     (''POST'', ''/api/admin/sources/{name}/probe'', ''handleAdminProbeSource''),
     (''GET'', ''/api/admin/tasks'', ''handleAdminTasks''), (''POST'', ''/api/admin/tasks/{id}/cancel'', ''handleAdminCancelTask''),
     (''GET'', ''/api/admin/queue'', ''handleAdminQueue''), (''GET'', ''/api/admin/users'', ''handleAdminListUsers''),
     (''POST'', ''/api/admin/users'', ''handleAdminCreateUser''),
     (''POST'', ''/api/admin/users/{id}/enable'', ''handleAdminEnableUser''),
     (''POST'', ''/api/admin/users/{id}/disable'', ''handleAdminDisableUser''),
     (''PATCH'', ''/api/admin/config'', ''handleAdminUpdateConfig''),
     (''GET'', ''/api/admin/config/versions'', ''handleAdminConfigVersions''),
     (''GET'', ''/api/admin/alerts'', ''handleAdminAlerts''),
     (''POST'', ''/api/admin/alerts/{id}/acknowledge'', ''handleAdminAcknowledgeAlert''),
     (''POST'', ''/api/admin/alerts/{id}/resolve'', ''handleAdminResolveAlert'')]"

definition mountPublish :: "string \<Rightarrow> route list" where
  "mountPublish prefix0 = (let pfx = (if TrimRight prefix0 ''/'' = '''' then ''/sub'' else TrimRight prefix0 ''/'') in
     [(''GET'', pfx, ''handleSubIndex''), (''GET'', pfx @ ''/'', ''handleSubIndex''), (''GET'', pfx @ ''/raw'', ''handleSubRaw''),
      (''GET'', pfx @ ''/base64'', ''handleSubBase64''), (''GET'', pfx @ ''/clash'', ''handleSubClash''),
      (''GET'', pfx @ ''/clash.yaml'', ''handleSubClash''), (''GET'', pfx @ ''/meta'', ''handleSubMeta''),
      (''GET'', pfx @ ''/pool/{key}/{format}'', ''handleSubPool''),
      (''GET'', pfx @ ''/country/{code}/{format}'', ''handleSubCountry'')])"

definition publish_routes :: "config \<Rightarrow> route list" where
  "publish_routes cfg = mountPublish ''/sub'' @ mountPublish ''/api/sub'' @
     (let p = pub_PathPrefix (Publish cfg) in if p \<noteq> '''' \<and> p \<noteq> ''/sub'' \<and> p \<noteq> ''/api/sub'' then mountPublish p else [])"

definition routes :: "config \<Rightarrow> route list" where
  "routes cfg = public_routes @ management_routes cfg @ publish_routes cfg"


subsection \<open>Management needs a session\<close>

definition path_of :: "string list \<Rightarrow> string" where
  "path_of segs = concat (map (\<lambda>s. CHR ''/'' # s) segs)"

definition guarded_areas :: "string list" where
  "guarded_areas = [''nodes'', ''stats'', ''jobs'', ''dial'', ''purity'', ''countries'', ''sources'', ''ai'', ''export'',
     ''config'', ''schedule'', ''pools'', ''admin'']"

fun guarded_pattern :: "string list \<Rightarrow> bool" where
  "guarded_pattern [a] = (a = ''metrics'')"
| "guarded_pattern (a # b # ps) = (a = ''debug'' \<or> a = ''api'' \<and> (b \<in> set guarded_areas \<or> b = ''v1'' \<and> ps = [''events'']))"
| "guarded_pattern [] = False"

lemma management_routes_guarded:
  "list_all (\<lambda>(m, pat, h). guarded_pattern (Split CHR ''/'' (drop 1 pat))) (management_routes cfg)"
  unfolding management_routes_def by (cases "srv_EnablePprof (Server cfg)") (simp_all, code_simp+)

definition guarded_path :: "string \<Rightarrow> bool" where
  "guarded_path path \<longleftrightarrow> path = ''/metrics'' \<or> HasPrefix path ''/debug/'' \<or>
     (HasPrefix path ''/api/'' \<and> \<not> HasPrefix path ''/api/sub'' \<and> path \<notin> set publicAPI)"


lemma seg_ok_literal: "\<not> HasPrefix p ''{'' \<Longrightarrow> seg_ok p s \<longleftrightarrow> s = p"
  by (simp add: seg_ok_def)

lemma segs_match_literal:
  "segs_match (p # q # ps) segs \<Longrightarrow> \<not> HasPrefix p ''{'' \<Longrightarrow> \<exists>rest. segs = p # rest \<and> segs_match (q # ps) rest"
  by (cases segs) (auto simp: seg_ok_def)

lemma segs_match_area:
  assumes "segs_match (q # ps) segs" and "q \<noteq> ''''" and "\<not> HasPrefix q ''{''"
  shows "\<exists>rest. segs = q # rest \<and> segs_match ps rest"
  using assms by (cases segs) (auto simp: seg_ok_def split: if_splits)

lemma area_guarded:
  assumes "b \<in> set guarded_areas"
  shows "guarded_path (''/api/'' @ b @ rest)" and "b \<noteq> ''''" and "\<not> HasPrefix b ''{''"
  using assms
  by (auto simp: guarded_areas_def guarded_path_def publicAPI_def HasPrefix_def)

lemma guarded_match:
  assumes "guarded_pattern pat" and "segs_match pat segs"
  shows "guarded_path (path_of segs)"
  using assms
proof (cases pat rule: guarded_pattern.cases)
  case (1 a)
  then have "segs = [''metrics'']" using assms by (cases segs) (auto simp: seg_ok_def HasPrefix_def)
  then show ?thesis by (simp add: path_of_def guarded_path_def)
next
  case (2 a b ps)
  note pat = 2
  consider "a = ''debug''" | "a = ''api''" "b \<in> set guarded_areas" | "a = ''api''" "b = ''v1''" "ps = [''events'']"
    using assms(1) 2 by auto
  then show ?thesis
  proof cases
    case 1
    then obtain rest where "segs = ''debug'' # rest" "segs_match (b # ps) rest"
      using assms(2) pat segs_match_literal [of a b ps segs] by (auto simp: HasPrefix_def)
    then show ?thesis by (cases rest) (auto simp: path_of_def guarded_path_def HasPrefix_def)
  next
    case 2
    then obtain rest where "segs = ''api'' # rest" "segs_match (b # ps) rest"
      using assms(2) pat segs_match_literal [of a b ps segs] by (auto simp: HasPrefix_def)
    then obtain rest' where "segs = ''api'' # b # rest'"
      using segs_match_area area_guarded [OF 2(2)] by metis
    then show ?thesis using area_guarded(1) [OF 2(2), of "path_of rest'"] by (simp add: path_of_def)
  next
    case 3
    then obtain rest where r: "segs = ''api'' # rest" "segs_match (''v1'' # [''events'']) rest"
      using assms(2) pat segs_match_literal [of a b ps segs] by (auto simp: HasPrefix_def)
    then obtain rest' where r': "rest = ''v1'' # rest'" "segs_match [''events''] rest'"
      using segs_match_literal [of "''v1''" "''events''" "[]" rest] by (auto simp: HasPrefix_def)
    then have "segs = [''api'', ''v1'', ''events'']"
      using r by (cases rest') (auto simp: seg_ok_def HasPrefix_def)
    then show ?thesis by (simp add: path_of_def guarded_path_def publicAPI_def HasPrefix_def)
  qed
qed simp

text \<open>A publish prefix that passed \<open>Validate\<close> cannot turn a guarded path into a subscription path.\<close>

lemma HasPrefix_iff: "HasPrefix s p \<longleftrightarrow> (\<exists>rest. s = p @ rest)"
  unfolding HasPrefix_def by (metis append_eq_conv_conj append_take_drop_id)

lemma slash_prefix:
  assumes "pfx @ CHR ''/'' # rest = CHR ''/'' # w @ CHR ''/'' # r" and "CHR ''/'' \<notin> set w" and "pfx \<noteq> ''''"
  shows "pfx = CHR ''/'' # w \<or> HasPrefix pfx (CHR ''/'' # w @ ''/'')"
proof -
  obtain p' where p: "pfx = CHR ''/'' # p'" using assms(1,3) by (cases pfx) auto
  then have "p' @ CHR ''/'' # rest = w @ CHR ''/'' # r" using assms(1) by simp
  then obtain us where "(p' = w @ us \<and> us @ CHR ''/'' # rest = CHR ''/'' # r) \<or> (p' @ us = w \<and> CHR ''/'' # rest = us @ CHR ''/'' # r)"
    using append_eq_append_conv2 by blast
  then show ?thesis
  proof
    assume u: "p' = w @ us \<and> us @ CHR ''/'' # rest = CHR ''/'' # r"
    then show ?thesis by (cases us) (auto simp: p HasPrefix_iff)
  next
    assume u: "p' @ us = w \<and> CHR ''/'' # rest = us @ CHR ''/'' # r"
    with assms(2) show ?thesis by (cases us) (auto simp: p)
  qed
qed

lemma not_subscription:
  assumes "guarded_path path" and "\<not> prefix_conflicts pfx" and "pfx \<noteq> ''''"
  shows "path \<noteq> pfx \<and> \<not> HasPrefix path (pfx @ ''/'')"
proof -
  have no: "HasPrefix s p" if "HasPrefix s (p @ q)" for s p q using that by (auto simp: HasPrefix_iff)
  consider "path = ''/metrics''" | r where "path = ''/debug/'' @ r"
    | r where "path = ''/api/'' @ r" "\<not> HasPrefix path ''/api/sub''"
    using assms(1) by (auto simp: guarded_path_def HasPrefix_iff)
  then show ?thesis
  proof cases
    case 1
    have "\<not> HasPrefix ''/metrics'' (pfx @ ''/'')"
    proof
      assume "HasPrefix ''/metrics'' (pfx @ ''/'')"
      then obtain rest where "''/metrics'' = pfx @ CHR ''/'' # rest" by (auto simp: HasPrefix_iff)
      then obtain p' where "''metrics'' = p' @ CHR ''/'' # rest" using assms(3) by (cases pfx) auto
      then have "CHR ''/'' \<in> set ''metrics''" by (metis in_set_conv_decomp)
      then show False by simp
    qed
    with 1 assms(2) show ?thesis by (auto simp: prefix_conflicts_def)
  next
    case (2 r)
    have "HasPrefix pfx ''/debug''" if "path = pfx \<or> HasPrefix path (pfx @ ''/'')"
      using that
    proof
      assume "HasPrefix path (pfx @ ''/'')"
      then obtain rest where "pfx @ CHR ''/'' # rest = CHR ''/'' # ''debug'' @ CHR ''/'' # r"
        using 2 by (auto simp: HasPrefix_iff)
      from slash_prefix [OF this _ assms(3)] show ?thesis
        using no [of pfx "''/debug''" "''/''"] by (auto simp: HasPrefix_def)
    qed (use 2 in \<open>auto simp: HasPrefix_iff\<close>)
    with assms(2) show ?thesis by (auto simp: prefix_conflicts_def)
  next
    case (3 r)
    have "pfx = ''/api'' \<or> HasPrefix pfx ''/api/''" if "path = pfx \<or> HasPrefix path (pfx @ ''/'')"
      using that
    proof
      assume "HasPrefix path (pfx @ ''/'')"
      then obtain rest where "pfx @ CHR ''/'' # rest = CHR ''/'' # ''api'' @ CHR ''/'' # r"
        using 3 by (auto simp: HasPrefix_iff)
      from slash_prefix [OF this _ assms(3)] show ?thesis by auto
    qed (use 3(1) in \<open>auto simp: HasPrefix_iff\<close>)
    moreover have "pfx \<noteq> ''/api/sub''" if "path = pfx \<or> HasPrefix path (pfx @ ''/'')"
      using that 3(2) no [of path "''/api/sub''" "''/''"] by (auto simp: HasPrefix_def)
    ultimately show ?thesis using assms(2) by (auto simp: prefix_conflicts_def)
  qed
qed

lemma guarded_is_management:
  assumes "guarded_path path" and "\<not> prefix_conflicts (pub_PathPrefix (Publish cfg))"
    and "TrimRight (pub_PathPrefix (Publish cfg)) ''/'' = pub_PathPrefix (Publish cfg)"
  shows "management_path cfg path"
proof -
  consider "path = ''/metrics''" | r where "path = ''/debug/'' @ r"
    | r where "path = ''/api/'' @ r" "\<not> HasPrefix path ''/api/sub''" "path \<notin> set publicAPI"
    using assms(1) by (auto simp: guarded_path_def HasPrefix_iff)
  then have "\<not> HasPrefix path ''/sub'' \<and> \<not> HasPrefix path ''/api/sub'' \<and> path \<notin> set publicAPI \<and>
    (HasPrefix path ''/api/'' \<or> path = ''/metrics'' \<or> HasPrefix path ''/debug/'')"
    by cases (auto simp: HasPrefix_def publicAPI_def)
  then show ?thesis
    using not_subscription [OF assms(1,2)] assms(3) by (auto simp: management_path_def subscription_path_def Let_def)
qed


lemma TrimRight_idem [simp]: "TrimRight (TrimRight s cs) cs = TrimRight s cs"
  by (simp add: TrimRight_def)

lemma normalized_prefix: "TrimRight (pub_PathPrefix (Publish (normalize libs env c))) ''/'' = pub_PathPrefix (Publish (normalize libs env c))"
proof -
  have "TrimRight ''/sub'' ''/'' = ''/sub''" by code_simp
  then have "TrimRight (normalize_prefix p) ''/'' = normalize_prefix p" for p
    by (simp add: normalize_prefix_def Let_def str_or_def)
  then show ?thesis by (simp add: normalize_def normalize_publish_def Let_def)
qed

lemma validated_prefix: "Validate libs c = None \<Longrightarrow> \<not> prefix_conflicts (pub_PathPrefix (Publish c))"
  unfolding Validate_def Let_def or_else_None first_err_None by auto

text \<open>
  C38. With a normalised and validated configuration, a request that gets through the server's
  layers to the handler of any management route carries a session cookie that validates to an
  authenticated principal, arrives on the administration host when one is configured, and comes
  from an allowed address when any are listed. In particular no choice of the publish prefix lets
  a management path pass as a subscription path.
\<close>

theorem management_needs_session:
  assumes "ed_config ed = normalize libs env c" and "Validate libs (ed_config ed) = None"
    and "(method, pat, h) \<in> set (management_routes (ed_config ed))" and "route_matches pat segs" and "url_path r = path_of segs"
    and "buildHandler ed now r tb = (None, tb')"
  shows "a_cookie r \<noteq> '''' \<and> (\<exists>p. ValidateSession (ed_auth ed) now (ed_manager ed) (a_cookie r) = Inr p \<and> p_Authenticated p) \<and>
    (aut_AdminHost (Auth (ed_config ed)) = '''' \<or> EqualFold (requestHost (a_Host r)) (requestHost (aut_AdminHost (Auth (ed_config ed))))) \<and>
    (aut_AdminCIDRs (Auth (ed_config ed)) = [] \<or> allowedClientIP (ed_net ed)
       (ClientIP (ed_net ed) (a_net r) (srv_TrustedProxies (Server (ed_config ed)))) (aut_AdminCIDRs (Auth (ed_config ed))))"
proof -
  have "guarded_pattern (Split CHR ''/'' (drop 1 pat))"
    using management_routes_guarded [of "ed_config ed"] assms(3) by (auto simp: list_all_iff)
  then have "guarded_path (url_path r)"
    using guarded_match assms(4,5) by (simp add: route_matches_def)
  moreover have "TrimRight (pub_PathPrefix (Publish (ed_config ed))) ''/'' = pub_PathPrefix (Publish (ed_config ed))"
    unfolding assms(1) by (rule normalized_prefix)
  ultimately have m: "management_path (ed_config ed) (url_path r)"
    using guarded_is_management validated_prefix [OF assms(2)] by blast
  have b: "managementBoundary ed now r = None"
    using assms(6) by (auto simp: buildHandler_def split: prod.splits if_splits option.splits)
  then obtain p where p: "RequestPrincipal (ed_auth ed) now (ed_manager ed) (a_cookie r) = Inr p" "p_Authenticated p"
    using m by (auto simp: managementBoundary_def Let_def split: if_splits sum.splits)
  then have "a_cookie r \<noteq> ''''" "ValidateSession (ed_auth ed) now (ed_manager ed) (a_cookie r) = Inr p"
    by (auto simp: RequestPrincipal_def zero_principal_def split: if_splits)
  with b m p(2) show ?thesis
    by (auto simp: managementBoundary_def Let_def split: if_splits)
qed


definition example_edge :: "string edge" where
  "example_edge = \<lparr>ed_net = plain_net, ed_auth = plain_auth, ed_manager = example_manager, ed_config = example_config\<rparr>"

definition admin_request :: api_request where
  "admin_request = \<lparr>a_Method = ''GET'', a_Host = ''h'', a_Origin = '''', a_cookie = example_session,
     a_net = \<lparr>r_RemoteAddr = ''h'', r_XForwardedFor = '''', r_CFConnectingIP = '''', r_XRealIP = '''',
       r_Path = ''/api/admin/tokens'', r_Token = ''''\<rparr>\<rparr>"

theorem management_needs_session_witness:
  "\<exists>p. ValidateSession plain_auth (150 * second) example_manager (a_cookie admin_request) = Inr p \<and> p_Authenticated p"
proof -
  have hosts: "aut_AdminHost (Auth example_config) = '''' \<and> aut_PublicHost (Auth example_config) = '''' \<and>
      aut_AdminCIDRs (Auth example_config) = []"
    by code_simp
  have cookie: "example_session \<noteq> ''''" by code_simp
  have auth: "p_Authenticated (session_principal example_claims)" by code_simp
  obtain ok tb' where allow: "Middleware plain_net (srv_TrustedProxies (Server example_config)) (150 * second) (a_net admin_request)
      (NewTokenBucket 1 5) = (ok, tb')" by (metis surj_pair)
  have ok: "ok" using allow by (auto simp: Middleware_def Allow_def AllowRate_def NewTokenBucket_def Let_def)
  have "managementBoundary example_edge (150 * second) admin_request = None"
    using hosts cookie auth example_session_valid
    by (simp add: managementBoundary_def example_edge_def admin_request_def RequestPrincipal_def Let_def)
  then have h: "buildHandler example_edge (150 * second) admin_request (NewTokenBucket 1 5) = (None, tb')"
    using ok allow by (simp add: buildHandler_def example_edge_def cors_def admin_request_def Let_def)
  have cfg: "ed_config example_edge = normalize plain_libs (\<lambda>_. '''') (Default\<lparr>Sources := [example_source]\<rparr>)"
    "Validate plain_libs (ed_config example_edge) = None"
    by (simp add: example_edge_def example_config_def) (simp add: example_edge_def example_config_valid)
  have r: "(''GET'', ''/api/admin/tokens'', ''handleAdminListTokens'') \<in> set (management_routes (ed_config example_edge))"
    by (simp add: management_routes_def)
  have m: "route_matches ''/api/admin/tokens'' [''api'', ''admin'', ''tokens'']"
    by code_simp
  have u: "url_path admin_request = path_of [''api'', ''admin'', ''tokens'']"
    by (simp add: url_path_def path_of_def admin_request_def)
  show ?thesis
    using management_needs_session [OF cfg r m u h] by (simp add: example_edge_def)
qed

end
