(* ===== verification/Management.thy ===== *)
theory Management
  imports Boundary Jobs Sources RuntimeConfig PublishCache
begin

text \<open>
  The management handlers of \<open>internal/api/server.go\<close> behind the boundary: roles, the tables of
  tokens, users, audit entries, tasks, jobs, alerts and configuration versions as one tenant sees and
  changes them, and the nodes with their secrets removed for anyone below admin. Every handler is
  given the time, the session cookie, the parsed query and the decoded body, and the random values
  it draws. A statement of the database succeeds or fails with the error its model gives. Answers
  are the values that are encoded as JSON.
\<close>

subsection \<open>State\<close>

record ConfigVersion =
  cv_ID :: string
  cv_Actor :: string
  cv_Checksum :: string
  cv_Patch :: RuntimePatch
  cv_CreatedAt :: time

record mgmt =
  mg_db :: bool
  mg_tokens :: "Token list"
  mg_usage :: token_usage
  mg_users :: "User list"
  mg_audit :: "int \<times> audit_row list"
  mg_work :: job_world
  mg_sources :: source_world
  mg_versions :: "ConfigVersion list"
  mg_config :: config
  mg_cache :: cache
  mg_login :: TokenBucket

text \<open>
  What the server was built with; \<open>mv_text\<close>, \<open>mv_day\<close> and \<open>mv_rfc3339\<close> print and parse times (the day in
  the zone of the program), \<open>mv_float\<close> is \<open>strconv.ParseFloat\<close>, \<open>mv_ci\<close> says whether \<open>LIKE\<close> ignores case.
\<close>

record 'a mg_env =
  mv_edge :: "'a edge"
  mv_libs :: config_libs
  mv_hashes :: hashes
  mv_codecs :: codecs
  mv_text :: "time \<Rightarrow> string"
  mv_day :: "string \<Rightarrow> time option"
  mv_rfc3339 :: "string \<Rightarrow> time option"
  mv_float :: "string \<Rightarrow> float64 \<times> bool"
  mv_ci :: bool
  mv_policy :: "publish_policy \<Rightarrow> string option"
  mv_patch_json :: "RuntimePatch \<Rightarrow> string"
  mv_opts_json :: "job_opts \<Rightarrow> string"
  mv_file_ok :: "string \<Rightarrow> bool"
  mv_shared :: shared_cache

datatype cause = Msg string | FromDb db_error | FromAuth auth_error | FromConfig config_error | FromSource source_error
  | FromJob job_error | FromTask task_error

type_synonym api_error = "int \<times> cause"

type_synonym query = "(string, string) gmap"

abbreviation Get :: "query \<Rightarrow> string \<Rightarrow> string" where "Get q k \<equiv> gget '''' q k"

subsection \<open>Roles\<close>

definition requireRole :: "'a mg_env \<Rightarrow> time \<Rightarrow> string \<Rightarrow> Role \<Rightarrow> api_error + Principal" where
  "requireRole ev now cookie required =
     (case RequestPrincipal (ed_auth (mv_edge ev)) now (ed_manager (mv_edge ev)) cookie of
        Inl _ \<Rightarrow> Inl (401, Msg ''authentication required'')
      | Inr p \<Rightarrow> if \<not> p_Authenticated p then Inl (401, Msg ''authentication required'')
          else if \<not> Allows (p_Role p) required then Inl (403, Msg ''forbidden'') else Inr p)"

definition requireSystemAdmin :: "'a mg_env \<Rightarrow> time \<Rightarrow> string \<Rightarrow> api_error + Principal" where
  "requireSystemAdmin ev now cookie = (case requireRole ev now cookie RoleAdmin of Inl e \<Rightarrow> Inl e
     | Inr p \<Rightarrow> if p_TenantID p \<noteq> ''default'' then Inl (403, Msg ''system administration requires the default tenant'') else Inr p)"

definition hasRole :: "'a mg_env \<Rightarrow> time \<Rightarrow> string \<Rightarrow> Role \<Rightarrow> bool" where
  "hasRole ev now cookie required =
     (case RequestPrincipal (ed_auth (mv_edge ev)) now (ed_manager (mv_edge ev)) cookie of
        Inl _ \<Rightarrow> False | Inr p \<Rightarrow> p_Authenticated p \<and> Allows (p_Role p) required)"

definition audit :: "'a mg_env \<Rightarrow> time \<Rightarrow> string \<Rightarrow> string \<Rightarrow> string \<Rightarrow> mgmt \<Rightarrow> mgmt" where
  "audit ev now actor action detail st = (if mg_db st
     then st\<lparr>mg_audit := (fst (mg_audit st) + 1,
       Audit (fst (mg_audit st) + 1) (mv_text ev now) actor action detail (snd (mg_audit st)))\<rparr> else st)"

definition set_text :: "string \<Rightarrow> bool \<Rightarrow> string" where
  "set_text i enabled = i @ ''='' @ (if enabled then ''true'' else ''false'')"

subsection \<open>Pages\<close>

record 'r page =
  pg_total :: int
  pg_count :: int
  pg_rows :: "'r list"
  pg_next :: string
  pg_more :: bool

datatype 'r listing = Page "'r page" | Rows "'r list"

definition wantsPage :: "query \<Rightarrow> bool" where
  "wantsPage q \<longleftrightarrow> Get q ''page'' = ''1''"

definition requestedPageLimit :: "query \<Rightarrow> int \<Rightarrow> int" where
  "requestedPageLimit q fallback = (let limit = fst (Atoi (Get q ''limit'')) in
     if limit \<le> 0 then fallback else if limit > 100 then 100 else limit)"

definition pageWindow :: "'r list \<Rightarrow> int \<Rightarrow> 'r list \<times> bool" where
  "pageWindow items limit = (if int (length items) > limit then (take (nat limit) items, True) else (items, False))"

definition page_of :: "('r \<Rightarrow> string) \<Rightarrow> int \<Rightarrow> int \<Rightarrow> 'r list \<Rightarrow> 'r listing" where
  "page_of key total_rows limit items = (case pageWindow items limit of (rows, further) \<Rightarrow>
     Page \<lparr>pg_total = total_rows, pg_count = int (length rows), pg_rows = rows,
       pg_next = (if further then key (last rows) else ''''), pg_more = further\<rparr>)"

definition empty_listing :: "query \<Rightarrow> 'r listing" where
  "empty_listing q = (if wantsPage q
     then Page \<lparr>pg_total = 0, pg_count = 0, pg_rows = [], pg_next = '''', pg_more = False\<rparr> else Rows [])"

fun pos_of :: "('r \<Rightarrow> string) \<Rightarrow> string \<Rightarrow> 'r list \<Rightarrow> nat option" where
  "pos_of key cursor [] = None"
| "pos_of key cursor (x # xs) = (if key x = cursor then Some 0 else map_option Suc (pos_of key cursor xs))"

text \<open>\<open>pageSlice\<close>: the page after the cursor, the next cursor and whether there is one.\<close>

definition pageSlice :: "'r list \<Rightarrow> string \<Rightarrow> int \<Rightarrow> ('r \<Rightarrow> string) \<Rightarrow> ('r list \<times> string) option" where
  "pageSlice items cursor limit key =
     (case (if cursor = '''' then Some 0 else map_option Suc (pos_of key cursor items)) of None \<Rightarrow> None
      | Some start \<Rightarrow> (let rows = take (nat limit) (drop start items)
          in Some (rows, if start + nat limit < length items \<and> rows \<noteq> [] then key (last rows) else '''')))"

subsection \<open>Tokens\<close>

definition handleAdminListTokens :: "'a mg_env \<Rightarrow> time \<Rightarrow> string \<Rightarrow> query \<Rightarrow> mgmt \<Rightarrow> api_error + Token listing" where
  "handleAdminListTokens ev now cookie q st = (case requireRole ev now cookie RoleAdmin of Inl e \<Rightarrow> Inl e
     | Inr p \<Rightarrow> if \<not> mg_db st then Inr (empty_listing q)
         else if wantsPage q then
           (let limit = requestedPageLimit q 25
            in case ListTokensPageTenant now (mg_usage st) (limit + 1) (Get q ''cursor'') (p_TenantID p) (mg_tokens st) of
                 Inl e \<Rightarrow> Inl (400, FromDb e)
               | Inr rows \<Rightarrow> Inr (page_of tok_ID (CountTokensTenant (p_TenantID p) (mg_tokens st)) limit rows))
         else Inr (Rows (ListTokensTenant now (mg_usage st) (p_TenantID p) (mg_tokens st))))"

record token_body =
  tb_Name :: string
  tb_Note :: string
  tb_Countries :: "string list"
  tb_Protocols :: "string list"
  tb_Days :: int
  tb_MaxRPS :: float64
  tb_DailyQuota :: int

definition bad_token_options :: "token_body \<Rightarrow> bool" where
  "bad_token_options b \<longleftrightarrow> length (tb_Name b) > 100 \<or> length (tb_Note b) > 1000 \<or> tb_Days b < 0 \<or> tb_Days b > 3650 \<or>
     tb_MaxRPS b < 0 \<or> tb_MaxRPS b > 1000 \<or> tb_DailyQuota b < 0"

text \<open>\<open>fresh\<close> is the random token, its id and its hash.\<close>

definition handleAdminCreateToken :: "'a mg_env \<Rightarrow> time \<Rightarrow> string \<Rightarrow> string + token_body \<Rightarrow> string \<times> string \<times> string \<Rightarrow> mgmt \<Rightarrow>
    (api_error + Token) \<times> mgmt" where
  "handleAdminCreateToken ev now cookie body fresh st = (case requireRole ev now cookie RoleAdmin of Inl e \<Rightarrow> (Inl e, st)
     | Inr p \<Rightarrow> (case body of Inl msg \<Rightarrow> (Inl (400, Msg msg), st)
       | Inr b0 \<Rightarrow> (let b = (if tb_Name b0 = '''' then b0\<lparr>tb_Name := ''token''\<rparr> else b0) in
           if bad_token_options b then (Inl (400, Msg ''invalid token options''), st)
           else (case fresh of (plain, i, hash) \<Rightarrow>
             (case CreateToken now plain i hash (tb_Name b) (tb_Note b) (p_TenantID p) (tb_Countries b) (tb_Protocols b)
                 (tb_Days b) (tb_MaxRPS b) (tb_DailyQuota b) (if mg_db st then Some (mg_tokens st) else None) of
                Inl e \<Rightarrow> (Inl (500, FromAuth e), st)
              | Inr (t, tokens) \<Rightarrow> (Inr t, audit ev now (Actor (Some p)) ''token.create''
                  (tb_Name b @ '' '' @ token_prefix plain) (st\<lparr>mg_tokens := tokens\<rparr>)))))))"

definition handleAdminDeleteToken :: "'a mg_env \<Rightarrow> time \<Rightarrow> string \<Rightarrow> string \<Rightarrow> mgmt \<Rightarrow> (api_error + string) \<times> mgmt" where
  "handleAdminDeleteToken ev now cookie i st = (case requireRole ev now cookie RoleAdmin of Inl e \<Rightarrow> (Inl e, st)
     | Inr p \<Rightarrow> if \<not> mg_db st then (Inl (500, Msg ''db disabled''), st)
         else (case DeleteTokenTenant i (p_TenantID p) (mg_tokens st) of Inl e \<Rightarrow> (Inl (500, FromDb e), st)
           | Inr tokens \<Rightarrow> (Inr i, audit ev now (Actor (Some p)) ''token.delete'' i (st\<lparr>mg_tokens := tokens\<rparr>))))"

definition setTokenEnabled :: "'a mg_env \<Rightarrow> time \<Rightarrow> string \<Rightarrow> string \<Rightarrow> bool \<Rightarrow> mgmt \<Rightarrow> (api_error + string \<times> bool) \<times> mgmt" where
  "setTokenEnabled ev now cookie i en st = (case requireRole ev now cookie RoleAdmin of Inl e \<Rightarrow> (Inl e, st)
     | Inr p \<Rightarrow> if \<not> mg_db st then (Inl (500, Msg ''db disabled''), st)
         else (case SetTokenEnabledTenant i (p_TenantID p) en (mg_tokens st) of Inl e \<Rightarrow> (Inl (500, FromDb e), st)
           | Inr tokens \<Rightarrow> (Inr (i, en), audit ev now (Actor (Some p)) ''token.enabled'' (set_text i en)
               (st\<lparr>mg_tokens := tokens\<rparr>))))"

subsection \<open>Users\<close>

definition handleAdminListUsers :: "'a mg_env \<Rightarrow> time \<Rightarrow> string \<Rightarrow> query \<Rightarrow> mgmt \<Rightarrow> api_error + User listing" where
  "handleAdminListUsers ev now cookie q st = (case requireRole ev now cookie RoleAdmin of Inl e \<Rightarrow> Inl e
     | Inr p \<Rightarrow> if \<not> mg_db st then Inr (empty_listing q)
         else if wantsPage q then
           (let limit = requestedPageLimit q 25
            in case ListUsersPage (p_TenantID p) (limit + 1) (Get q ''cursor'') (mg_users st) of
                 Inl e \<Rightarrow> Inl (400, FromDb e)
               | Inr rows \<Rightarrow> Inr (page_of usr_ID (CountUsers (p_TenantID p) (mg_users st)) limit rows))
         else Inr (Rows (ListUsers (p_TenantID p) (mg_users st))))"

record user_body =
  ub_Username :: string
  ub_Email :: string
  ub_Password :: string
  ub_Role :: string

text \<open>\<open>gen\<close> is bcrypt's hash of a password or its error.\<close>

definition HashPassword :: "(string \<Rightarrow> string + string) \<Rightarrow> string \<Rightarrow> string + string" where
  "HashPassword gen password = (if length password < 12 then Inl ''password must contain at least 12 characters'' else gen password)"

text \<open>\<open>i\<close> is the random id, \<open>None\<close> without entropy. \<open>InsertUser\<close> completes the user it is given, which is the answer.\<close>

definition handleAdminCreateUser :: "'a mg_env \<Rightarrow> time \<Rightarrow> string \<Rightarrow> string + user_body \<Rightarrow> (string \<Rightarrow> string + string) \<Rightarrow>
    string option \<Rightarrow> mgmt \<Rightarrow> (api_error + User) \<times> mgmt" where
  "handleAdminCreateUser ev now cookie body gen i st = (case requireRole ev now cookie RoleAdmin of Inl e \<Rightarrow> (Inl e, st)
     | Inr p \<Rightarrow> if \<not> mg_db st then (Inl (503, Msg ''database disabled''), st)
         else (case body of Inl msg \<Rightarrow> (Inl (400, Msg msg), st)
           | Inr b \<Rightarrow> (let role = ToLower (TrimSpace (ub_Role b)) in
               if ub_Username b = '''' \<or> role \<notin> {RoleViewer, RoleOperator, RoleAdmin}
               then (Inl (400, Msg ''username and valid role are required''), st)
               else (case HashPassword gen (ub_Password b) of Inl msg \<Rightarrow> (Inl (400, Msg msg), st)
                 | Inr h \<Rightarrow> (case i of None \<Rightarrow> (Inl (500, Msg ''entropy unavailable''), st)
                   | Some uid \<Rightarrow> (let user = \<lparr>usr_ID = uid, usr_TenantID = p_TenantID p, usr_Username = TrimSpace (ub_Username b),
                         usr_Email = TrimSpace (ub_Email b), usr_PasswordHash = h, usr_Role = role, usr_Enabled = True,
                         usr_CreatedAt = 0, usr_LastLoginAt = 0\<rparr>
                       in case InsertUser now (Some user) (mg_users st) of Inl e \<Rightarrow> (Inl (409, FromDb e), st)
                          | Inr users \<Rightarrow> (Inr (last users), audit ev now (Actor (Some p)) ''user.create''
                              (uid @ '' '' @ usr_Username user) (st\<lparr>mg_users := users\<rparr>))))))))"

definition setUserEnabled :: "'a mg_env \<Rightarrow> time \<Rightarrow> string \<Rightarrow> string \<Rightarrow> bool \<Rightarrow> mgmt \<Rightarrow> (api_error + string \<times> bool) \<times> mgmt" where
  "setUserEnabled ev now cookie i enabled st = (case requireRole ev now cookie RoleAdmin of Inl e \<Rightarrow> (Inl e, st)
     | Inr p \<Rightarrow> if \<not> mg_db st then (Inl (503, Msg ''database disabled''), st)
         else if i = p_Subject p \<and> \<not> enabled then (Inl (400, Msg ''cannot disable the active account''), st)
         else (case SetUserEnabled i (p_TenantID p) enabled (mg_users st) of Inl e \<Rightarrow> (Inl (404, FromDb e), st)
           | Inr users \<Rightarrow> (Inr (i, enabled), audit ev now (Actor (Some p)) ''user.enabled'' (set_text i enabled)
               (st\<lparr>mg_users := users\<rparr>))))"

text \<open>\<open>handleLogin\<close>: the limiter is asked before the password is checked.\<close>

definition login_key :: "'a mg_env \<Rightarrow> request \<Rightarrow> string \<Rightarrow> string \<Rightarrow> mgmt \<Rightarrow> string" where
  "login_key ev r tenant username st = ClientIP (ed_net (mv_edge ev)) r (srv_TrustedProxies (Server (mg_config st))) @ ''|'' @
     ToLower (TrimSpace tenant) @ ''|'' @ ToLower (TrimSpace username)"

definition handleLogin :: "'a mg_env \<Rightarrow> time \<Rightarrow> request \<Rightarrow> string + string \<times> string \<times> string \<Rightarrow> mgmt \<Rightarrow>
    (api_error + Principal \<times> string) \<times> mgmt" where
  "handleLogin ev now r body st = (case body of Inl msg \<Rightarrow> (Inl (400, Msg msg), st)
     | Inr (tenant, username, password) \<Rightarrow>
        (case Allow now (login_key ev r tenant username st) (mg_login st) of (ok, tb) \<Rightarrow>
          (let st = st\<lparr>mg_login := tb\<rparr> in
           if \<not> ok then (Inl (429, Msg ''too many login attempts''), st)
           else (case LoginLocal (ed_auth (mv_edge ev)) now (ed_manager (mv_edge ev)) (if mg_db st then Some (mg_users st) else None)
                   tenant username password of
                Inl _ \<Rightarrow> (Inl (401, Msg ''invalid credentials''), st)
              | Inr (p, session, users) \<Rightarrow> (Inr (p, session),
                  audit ev now (Actor (Some p)) ''auth.login'' ''local'' (st\<lparr>mg_users := users\<rparr>))))))"


subsection \<open>Audit log\<close>

definition auditBound :: "'a mg_env \<Rightarrow> string \<Rightarrow> bool \<Rightarrow> string option" where
  "auditBound ev value0 endOfDay = (let v = TrimSpace value0 in
     if v = '''' then Some ''''
     else if length v = 10 then map_option (\<lambda>day. mv_text ev (if endOfDay then day + 24 * hour - 1 else day)) (mv_day ev v)
     else map_option (mv_text ev) (mv_rfc3339 ev v))"

definition parse_int :: "string \<Rightarrow> int option" where
  "parse_int s = (case Atoi s of (v, ok) \<Rightarrow> if ok then Some v else None)"

definition handleAdminAudit :: "'a mg_env \<Rightarrow> time \<Rightarrow> string \<Rightarrow> query \<Rightarrow> mgmt \<Rightarrow> api_error + audit_row listing" where
  "handleAdminAudit ev now cookie q st = (case requireRole ev now cookie RoleAdmin of Inl e \<Rightarrow> Inl e
     | Inr p \<Rightarrow> if \<not> mg_db st then Inr (empty_listing q)
         else (case auditBound ev (Get q ''from'') False of None \<Rightarrow> Inl (400, Msg ''invalid from date'')
           | Some from_text \<Rightarrow> (case auditBound ev (Get q ''to'') True of None \<Rightarrow> Inl (400, Msg ''invalid to date'')
             | Some to_text \<Rightarrow> (let rows = snd (mg_audit st) in
                 if wantsPage q then
                   (let limit = requestedPageLimit q 50
                    in case ListAuditPageTenantRange parse_int (mv_ci ev) (limit + 1) (Get q ''cursor'') (p_TenantID p)
                           from_text to_text rows of
                         Inl e \<Rightarrow> Inl (400, FromDb e)
                       | Inr found \<Rightarrow> Inr (page_of (\<lambda>r. itoa (aud_id r))
                           (CountAuditTenantRange (mv_ci ev) (p_TenantID p) from_text to_text rows) limit found))
                 else Inr (Rows (ListAuditTenantRange (mv_ci ev) (fst (Atoi (Get q ''limit''))) (p_TenantID p)
                        from_text to_text rows))))))"

subsection \<open>Publishing and sources\<close>

definition refresh_cache :: "'a mg_env \<Rightarrow> time \<Rightarrow> mgmt \<Rightarrow> Blob \<times> mgmt" where
  "refresh_cache ev now st = (case RefreshPublishCache (mv_hashes ev) (mv_codecs ev) (mv_policy ev) (mv_file_ok ev) now
       (mv_shared ev) (mg_config st) (jw_store (mg_work st)) (mg_cache st) of (b, ca) \<Rightarrow> (b, st\<lparr>mg_cache := ca\<rparr>))"

definition handleAdminRefreshPublish :: "'a mg_env \<Rightarrow> time \<Rightarrow> string \<Rightarrow> mgmt \<Rightarrow> (api_error + int \<times> string \<times> time) \<times> mgmt" where
  "handleAdminRefreshPublish ev now cookie st = (case requireRole ev now cookie RoleOperator of Inl e \<Rightarrow> (Inl e, st)
     | Inr p \<Rightarrow> (case refresh_cache ev now st of (b, st') \<Rightarrow>
         (Inr (b_Count b, b_ETag b, b_UpdatedAt b), audit ev now (Actor (Some p)) ''publish.refresh'' (b_ETag b) st')))"

definition setSourceEnabled :: "'a mg_env \<Rightarrow> time \<Rightarrow> string \<Rightarrow> string \<Rightarrow> bool \<Rightarrow> mgmt \<Rightarrow> (api_error + string \<times> bool) \<times> mgmt" where
  "setSourceEnabled ev now cookie name enabled st = (case requireSystemAdmin ev now cookie of Inl e \<Rightarrow> (Inl e, st)
     | Inr p \<Rightarrow> if \<not> mg_db st then (Inl (400, Msg ''source mutation requires database''), st)
         else (case SetSourceEnabled (mg_config st) name enabled (mg_sources st) of Inl e \<Rightarrow> (Inl (400, FromSource e), st)
           | Inr w \<Rightarrow> (Inr (name, enabled), audit ev now (Actor (Some p)) ''source.enabled'' (set_text name enabled)
               (st\<lparr>mg_sources := w\<rparr>))))"

subsection \<open>Tasks and jobs\<close>

definition job_tenants :: "mgmt \<Rightarrow> (string \<times> string) list" where
  "job_tenants st = map (\<lambda>j. (j_ID j, j_TenantID j)) (jw_jobs (mg_work st))"

definition hide_options :: "QueuedTask \<Rightarrow> QueuedTask" where
  "hide_options t = t\<lparr>t_Options := ''null''\<rparr>"

definition handleAdminTasks :: "'a mg_env \<Rightarrow> time \<Rightarrow> string \<Rightarrow> query \<Rightarrow> mgmt \<Rightarrow> api_error + QueuedTask listing" where
  "handleAdminTasks ev now cookie q st = (case requireRole ev now cookie RoleViewer of Inl e \<Rightarrow> Inl e
     | Inr p \<Rightarrow> if \<not> mg_db st then Inr (empty_listing q)
         else (let tasks = jw_tasks (mg_work st); status = Get q ''status'' in
           if wantsPage q then
             (let limit = requestedPageLimit q 30
              in case ListTasksPageTenant (job_tenants st) (limit + 1) status (Get q ''cursor'') (p_TenantID p) tasks of
                   Inl e \<Rightarrow> Inl (400, FromTask e)
                 | Inr rows \<Rightarrow> Inr (page_of t_ID (CountTasksTenant (job_tenants st) status (p_TenantID p) tasks) limit
                     (map hide_options rows)))
           else Inr (Rows (map hide_options (ListTasksTenant (job_tenants st) (fst (Atoi (Get q ''limit''))) status (p_TenantID p) tasks)))))"

text \<open>The cancelled context of a running job is the only effect of \<open>CancelJobID\<close>; the run itself sees it later.\<close>

definition handleAdminCancelTask :: "'a mg_env \<Rightarrow> time \<Rightarrow> string \<Rightarrow> string \<Rightarrow> mgmt \<Rightarrow> (api_error + string) \<times> mgmt" where
  "handleAdminCancelTask ev now cookie i st = (case requireRole ev now cookie RoleOperator of Inl e \<Rightarrow> (Inl e, st)
     | Inr p \<Rightarrow> if mg_db st \<and> GetJobTenant i (p_TenantID p) (jw_jobs (mg_work st)) = None then (Inl (404, Msg ''not found''), st)
         else (let st1 = audit ev now (Actor (Some p)) ''task.cancel'' i st; running = CancelJobID i (mg_work st)
           in if mg_db st then
                (case CancelTask now i (jw_tasks (mg_work st1)) of (err, tasks) \<Rightarrow>
                  (let st2 = st1\<lparr>mg_work := (mg_work st1)\<lparr>jw_tasks := tasks\<rparr>\<rparr>
                   in case err of Some e \<Rightarrow> if \<not> running then (Inl (404, FromTask e), st2) else (Inr i, st2)
                      | None \<Rightarrow> (Inr i, st2)))
              else (Inr i, st1)))"

definition handleAdminQueue :: "'a mg_env \<Rightarrow> time \<Rightarrow> string \<Rightarrow> mgmt \<Rightarrow> api_error + (bool \<times> int \<times> (string, int) gmap) option" where
  "handleAdminQueue ev now cookie st = (case requireRole ev now cookie RoleViewer of Inl e \<Rightarrow> Inl e
     | Inr p \<Rightarrow> if \<not> mg_db st then Inr None
         else Inr (Some (que_Enabled (Queue (mg_config st)), que_EmbeddedWorkers (Queue (mg_config st)), QueueStats (jw_tasks (mg_work st)))))"

definition redact_job :: "Job \<Rightarrow> Job" where
  "redact_job j = j\<lparr>j_Options := None\<rparr>"

definition handleJobs :: "'a mg_env \<Rightarrow> time \<Rightarrow> string \<Rightarrow> query \<Rightarrow> mgmt \<Rightarrow> api_error + Job list \<times> string \<times> bool" where
  "handleJobs ev now cookie q st = (case requireRole ev now cookie RoleViewer of Inl e \<Rightarrow> Inl e
     | Inr p \<Rightarrow>
        (let l = fst (Atoi (Get q ''limit'')); limit = (if l \<le> 0 then 30 else if l > 100 then 100 else l); cursor = Get q ''cursor'';
             found = (if mg_db st then db_ListJobsPageTenant (limit + 1) cursor (p_TenantID p) (jw_jobs (mg_work st))
               else if cursor \<noteq> '''' \<and> GetJob cursor (jw_store (mg_work st)) = None then None
               else Some (ListJobsPage (limit + 1) cursor (jw_store (mg_work st))))
         in case found of None \<Rightarrow> Inl (400, Msg ''invalid cursor'')
            | Some jobs \<Rightarrow> (let hasMore = (int (length jobs) > limit); shown = (if hasMore then take (nat limit) jobs else jobs)
                in Inr (map redact_job shown, if hasMore \<and> shown \<noteq> [] then j_ID (last shown) else '''', hasMore))))"

definition handleJob :: "'a mg_env \<Rightarrow> time \<Rightarrow> string \<Rightarrow> string \<Rightarrow> mgmt \<Rightarrow> api_error + Job" where
  "handleJob ev now cookie i st = (case requireRole ev now cookie RoleViewer of Inl e \<Rightarrow> Inl e
     | Inr p \<Rightarrow> (case (if mg_db st then GetJobTenant i (p_TenantID p) (jw_jobs (mg_work st)) else GetJob i (jw_store (mg_work st))) of
         None \<Rightarrow> Inl (404, Msg ''not found'') | Some j \<Rightarrow> Inr (redact_job j)))"

definition handleJobEvents :: "'a mg_env \<Rightarrow> time \<Rightarrow> string \<Rightarrow> string \<Rightarrow> query \<Rightarrow> mgmt \<Rightarrow> api_error + JobEvent list" where
  "handleJobEvents ev now cookie i q st = (case requireRole ev now cookie RoleViewer of Inl e \<Rightarrow> Inl e
     | Inr p \<Rightarrow> if \<not> mg_db st then Inr []
         else (case ListJobEventsTenant i (fst (Atoi (Get q ''after''))) 500 (p_TenantID p) (jw_jobs (mg_work st)) (jw_events (mg_work st)) of
             None \<Rightarrow> Inl (500, FromDb NoRows) | Some es \<Rightarrow> Inr es))"

text \<open>\<open>Submit\<close>: through the queue, or started at once; the run of a started job is a step of its own.\<close>

definition json_string :: "string \<Rightarrow> string" where
  "json_string s = [CHR 0x22] @ s @ [CHR 0x22]"

definition Submit :: "'a mg_env \<Rightarrow> time \<Rightarrow> string \<Rightarrow> string \<Rightarrow> job_opts \<Rightarrow> mgmt \<Rightarrow> (job_error + Job) \<times> mgmt" where
  "Submit ev now i typ opts st =
     (if que_Enabled (Queue (mg_config st)) then
        (case submit_begin (mv_opts_json ev) (mg_config st) now i typ opts (mg_work st) of
           (Some e, j, w) \<Rightarrow> (Inl e, st\<lparr>mg_work := w\<rparr>)
         | (None, j, w) \<Rightarrow> (case submit_end now j w of (j', w') \<Rightarrow> (Inr j', st\<lparr>mg_work := w'\<rparr>)))
      else if typ \<notin> set job_types then (Inl (UnsupportedJob typ), st)
      else (case start_job (mg_config st) now i typ opts (mg_work st) of
           Inl e \<Rightarrow> (Inl e, st)
         | Inr (j, w) \<Rightarrow> (Inr j, audit ev now (j_Actor j) ''job.start'' (typ @ '' '' @ i) (st\<lparr>mg_work := w\<rparr>))))"

text \<open>\<open>trace\<close> is the request id and the two trace headers the propagator injects, empty when absent.\<close>

definition job_options :: "Principal \<Rightarrow> string \<times> string \<times> string \<Rightarrow> job_opts \<Rightarrow> job_opts" where
  "job_options p trace opts0 = (case trace of (request_id, traceparent, tracestate) \<Rightarrow>
     (let opts = gput ''_actor'' (json_string (Actor (Some p))) opts0;
          opts = gput ''_tenant'' (json_string (p_TenantID p)) opts;
          opts = gput ''_request_id'' (json_string request_id) opts;
          opts = (if traceparent \<noteq> '''' then gput ''_traceparent'' (json_string traceparent) opts else opts)
      in if tracestate \<noteq> '''' then gput ''_tracestate'' (json_string tracestate) opts else opts))"

definition startJob :: "'a mg_env \<Rightarrow> time \<Rightarrow> string \<Rightarrow> string \<Rightarrow> string + job_opts \<Rightarrow> string \<times> string \<times> string \<Rightarrow> string \<Rightarrow>
    mgmt \<Rightarrow> (api_error + Job) \<times> mgmt" where
  "startJob ev now cookie typ body trace i st = (case requireRole ev now cookie RoleOperator of Inl e \<Rightarrow> (Inl e, st)
     | Inr p \<Rightarrow> (case body of Inl msg \<Rightarrow> (Inl (400, Msg msg), st)
       | Inr opts \<Rightarrow> (case Submit ev now i typ (job_options p trace opts) st of
           (Inl e, st') \<Rightarrow> (Inl (409, FromJob e), st') | (Inr j, st') \<Rightarrow> (Inr j, st'))))"

definition handleCancelJob :: "'a mg_env \<Rightarrow> time \<Rightarrow> string \<Rightarrow> mgmt \<Rightarrow> api_error + bool" where
  "handleCancelJob ev now cookie st = (case requireRole ev now cookie RoleOperator of Inl e \<Rightarrow> Inl e
     | Inr p \<Rightarrow> Inr (jw_active (mg_work st) \<noteq> []))"


subsection \<open>Configuration versions\<close>

definition SaveConfigVersion :: "time \<Rightarrow> ConfigVersion \<Rightarrow> ConfigVersion list \<Rightarrow> db_error + ConfigVersion list" where
  "SaveConfigVersion now v rows = (if cv_ID v \<in> cv_ID ` set rows then Inl Constraint
     else Inr (rows @ [v\<lparr>cv_CreatedAt := (if cv_CreatedAt v = 0 then FormatRFC3339 now else cv_CreatedAt v)\<rparr>]))"

definition later_version :: "ConfigVersion \<Rightarrow> ConfigVersion \<Rightarrow> bool" where
  "later_version a b \<longleftrightarrow> cv_CreatedAt a > cv_CreatedAt b \<or> (cv_CreatedAt a = cv_CreatedAt b \<and> cv_ID a > cv_ID b)"

definition LatestConfigVersion :: "ConfigVersion list \<Rightarrow> ConfigVersion option" where
  "LatestConfigVersion rows = (case SliceStable later_version rows of [] \<Rightarrow> None | v # _ \<Rightarrow> Some v)"

definition ListConfigVersions :: "int \<Rightarrow> ConfigVersion list \<Rightarrow> ConfigVersion list" where
  "ListConfigVersions limit rows = take (nat (if limit \<le> 0 \<or> limit > 100 then 20 else limit)) (SliceStable later_version rows)"

text \<open>\<open>UpdateRuntimeConfig\<close> with its version row, audit entry and the refreshed cache; \<open>i\<close> is the random id.\<close>

definition update_config :: "'a mg_env \<Rightarrow> time \<Rightarrow> string \<Rightarrow> string \<Rightarrow> RuntimePatch \<Rightarrow> mgmt \<Rightarrow> (cause + ConfigVersion) \<times> mgmt" where
  "update_config ev now actor i patch st =
     (case UpdateRuntimeConfig (mv_libs ev) (mg_config st) patch of Inl e \<Rightarrow> (Inl (FromConfig e), st)
      | Inr (cfg, stored) \<Rightarrow>
         (let v = \<lparr>cv_ID = i, cv_Actor = actor, cv_Checksum = sha256_hex (mv_hashes ev) (mv_patch_json ev stored), cv_Patch = stored, cv_CreatedAt = 0\<rparr>
          in case (if mg_db st then SaveConfigVersion now v (mg_versions st) else Inr (mg_versions st)) of
               Inl e \<Rightarrow> (Inl (FromDb e), st)
             | Inr rows \<Rightarrow> (Inr v, snd (refresh_cache ev now
                 ((audit ev now actor ''config.update'' (cv_Checksum v) (st\<lparr>mg_versions := rows\<rparr>))\<lparr>mg_config := cfg\<rparr>)))))"

definition handleAdminUpdateConfig :: "'a mg_env \<Rightarrow> time \<Rightarrow> string \<Rightarrow> string + bool \<times> RuntimePatch \<Rightarrow> string \<Rightarrow> mgmt \<Rightarrow>
    (api_error + ConfigVersion \<times> RuntimePatch) \<times> mgmt" where
  "handleAdminUpdateConfig ev now cookie body i st = (case requireSystemAdmin ev now cookie of Inl e \<Rightarrow> (Inl e, st)
     | Inr p \<Rightarrow> (case body of Inl msg \<Rightarrow> (Inl (400, Msg msg), st)
       | Inr (confirmed, patch) \<Rightarrow> if \<not> confirmed then (Inl (400, Msg ''confirm=true is required''), st)
           else (case update_config ev now (Actor (Some p)) i patch st of
               (Inl e, st') \<Rightarrow> (Inl (400, e), st')
             | (Inr v, st') \<Rightarrow> (Inr (v, runtimePatchFromConfig (mg_config st')), st'))))"

definition handleAdminConfigVersions :: "'a mg_env \<Rightarrow> time \<Rightarrow> string \<Rightarrow> query \<Rightarrow> mgmt \<Rightarrow> api_error + ConfigVersion list" where
  "handleAdminConfigVersions ev now cookie q st = (case requireSystemAdmin ev now cookie of Inl e \<Rightarrow> Inl e
     | Inr p \<Rightarrow> if \<not> mg_db st then Inr [] else Inr (ListConfigVersions (fst (Atoi (Get q ''limit''))) (mg_versions st)))"

subsection \<open>Alerts\<close>

definition default_tenant_only :: "Principal \<Rightarrow> api_error option" where
  "default_tenant_only p = (if p_TenantID p \<noteq> ''default'' then Some (403, Msg ''system alerts require the default tenant'') else None)"

definition handleAdminAlerts :: "'a mg_env \<Rightarrow> time \<Rightarrow> string \<Rightarrow> query \<Rightarrow> mgmt \<Rightarrow> api_error + Alert listing" where
  "handleAdminAlerts ev now cookie q st = (case requireRole ev now cookie RoleViewer of Inl e \<Rightarrow> Inl e
     | Inr p \<Rightarrow> (case default_tenant_only p of Some e \<Rightarrow> Inl e
       | None \<Rightarrow> if \<not> mg_db st then Inr (empty_listing q)
           else (let activeOnly = (Get q ''active'' \<noteq> ''false''); rows = jw_alerts (mg_work st) in
             if wantsPage q then
               (let limit = requestedPageLimit q 30
                in case ListAlertsPage activeOnly (limit + 1) (Get q ''cursor'') rows of None \<Rightarrow> Inl (400, FromDb NoRows)
                   | Some found \<Rightarrow> Inr (page_of al_ID (CountAlerts activeOnly rows) limit found))
             else Inr (Rows (ListAlerts activeOnly (fst (Atoi (Get q ''limit''))) rows)))))"

definition changeAlert :: "'a mg_env \<Rightarrow> time \<Rightarrow> string \<Rightarrow> string \<Rightarrow> bool \<Rightarrow> mgmt \<Rightarrow> (api_error + string \<times> bool) \<times> mgmt" where
  "changeAlert ev now cookie i acknowledge st = (case requireRole ev now cookie RoleOperator of Inl e \<Rightarrow> (Inl e, st)
     | Inr p \<Rightarrow> (case default_tenant_only p of Some e \<Rightarrow> (Inl e, st)
       | None \<Rightarrow> if \<not> mg_db st then (Inl (503, Msg ''database disabled''), st)
           else (case (if acknowledge then AcknowledgeAlert now i (Actor (Some p)) (jw_alerts (mg_work st))
                       else ResolveAlert now i (jw_alerts (mg_work st))) of (ok, rows) \<Rightarrow>
             if \<not> ok then (Inl (404, Msg ''alert not found''), st)
             else (Inr (i, acknowledge), audit ev now (Actor (Some p)) (if acknowledge then ''alert.acknowledge'' else ''alert.resolve'') i
               (st\<lparr>mg_work := (mg_work st)\<lparr>jw_alerts := rows\<rparr>\<rparr>)))))"

subsection \<open>Nodes\<close>

definition redactNode :: "node \<Rightarrow> node" where
  "redactNode n = n\<lparr>n_UUID := '''', n_Password := '''', n_RawURI := '''', n_Extra := [], n_Fingerprint := ''''\<rparr>"

definition is_on :: "string \<Rightarrow> bool" where
  "is_on v \<longleftrightarrow> v = ''1'' \<or> v = ''true''"

definition nodes_filter :: "'a mg_env \<Rightarrow> time \<Rightarrow> query \<Rightarrow> mgmt \<Rightarrow> NodeFilter" where
  "nodes_filter ev now q st =
     (let f = no_filter\<lparr>nf_Protocol := Get q ''protocol'', nf_Source := Get q ''source'', nf_Grade := Get q ''grade'',
        nf_Country := Get q ''country'', nf_AliveOnly := is_on (Get q ''alive''), nf_MinScore := fst (mv_float ev (Get q ''min_score'')),
        nf_AIKey := Get q ''ai'', nf_Search := Get q ''q'', nf_Limit := 0, nf_HighQuality := is_on (Get q ''hq''),
        nf_VerifiedOnly := is_on (Get q ''verified'')\<rparr>
      in if nf_VerifiedOnly f then f\<lparr>nf_DialTestedAfter := verifiedAfter now (mg_config st), nf_DialEngine := verifiedEngine (mg_config st)\<rparr>
         else f)"

text \<open>The answer holds the page of nodes, the total and the next cursor.\<close>

definition handleNodes :: "'a mg_env \<Rightarrow> time \<Rightarrow> string \<Rightarrow> query \<Rightarrow> mgmt \<Rightarrow> api_error + node list \<times> int \<times> string" where
  "handleNodes ev now cookie q st =
     (let l = fst (Atoi (Get q ''limit'')); limit = (if l \<le> 0 then 100 else if l > 500 then 500 else l);
          nodes = ListNodes (nodes_filter ev now q st) (jw_store (mg_work st))
      in case pageSlice nodes (Get q ''cursor'') limit n_ID of None \<Rightarrow> Inl (400, Msg ''invalid cursor'')
         | Some (rows, next_cursor) \<Rightarrow>
             Inr (if hasRole ev now cookie RoleAdmin then rows else map redactNode rows, int (length nodes), next_cursor))"

definition handleNode :: "'a mg_env \<Rightarrow> time \<Rightarrow> string \<Rightarrow> string \<Rightarrow> mgmt \<Rightarrow> api_error + node" where
  "handleNode ev now cookie i st = (case GetNode i (jw_store (mg_work st)) of None \<Rightarrow> Inl (404, Msg ''not found'')
     | Some n \<Rightarrow> Inr (if hasRole ev now cookie RoleAdmin then n else redactNode n))"

definition ensureExport :: "'a mg_env \<Rightarrow> time \<Rightarrow> string \<Rightarrow> string \<Rightarrow> mgmt \<Rightarrow> (api_error + Principal) \<times> mgmt" where
  "ensureExport ev now cookie path st = (case requireRole ev now cookie RoleOperator of Inl e \<Rightarrow> (Inl e, st)
     | Inr p \<Rightarrow> (Inr p, audit ev now (Actor (Some p)) ''export.download'' path st))"

definition exportFilter :: "'a mg_env \<Rightarrow> query \<Rightarrow> NodeFilter" where
  "exportFilter ev q =
     (let l = fst (Atoi (Get q ''limit'')); limit = (if l \<le> 0 then 500 else l);
          m = fst (mv_float ev (Get q ''min_score'')); minScore = (if m = 0 \<and> is_on (Get q ''hq'') then 70 else m)
      in no_filter\<lparr>nf_Protocol := Get q ''protocol'', nf_Country := Get q ''country'', nf_AliveOnly := (Get q ''alive'' \<noteq> ''0''),
           nf_MinScore := minScore, nf_AIKey := Get q ''ai'', nf_Limit := limit, nf_HighQuality := (Get q ''hq'' = ''1'')\<rparr>)"

definition nodesFromExportQuery :: "'a mg_env \<Rightarrow> time \<Rightarrow> query \<Rightarrow> mgmt \<Rightarrow> node list" where
  "nodesFromExportQuery ev now q st = (let nodes = ListNodes (exportFilter ev q) (jw_store (mg_work st))
     in if nodes = [] then SelectPublishNodes now (mg_config st) (jw_store (mg_work st)) else nodes)"

definition handleExport :: "'a mg_env \<Rightarrow> (codecs \<Rightarrow> node option list \<Rightarrow> string) \<Rightarrow> time \<Rightarrow> string \<Rightarrow> string \<Rightarrow> query \<Rightarrow> mgmt \<Rightarrow>
    (api_error + string) \<times> mgmt" where
  "handleExport ev render now cookie path q st = (case ensureExport ev now cookie path st of (Inl e, st') \<Rightarrow> (Inl e, st')
     | (Inr p, st') \<Rightarrow> (Inr (render (mv_codecs ev) (map Some (nodesFromExportQuery ev now q st'))), st'))"

definition handlePoolExportRaw :: "'a mg_env \<Rightarrow> time \<Rightarrow> string \<Rightarrow> string \<Rightarrow> string \<Rightarrow> mgmt \<Rightarrow> (api_error + string) \<times> mgmt" where
  "handlePoolExportRaw ev now cookie path key st = (case ensureExport ev now cookie path st of (Inl e, st') \<Rightarrow> (Inl e, st')
     | (Inr p, st') \<Rightarrow> (case Find (mg_config st') key of None \<Rightarrow> (Inl (404, Msg ''unknown pool''), st')
         | Some pool \<Rightarrow> (Inr (RenderRaw (mv_codecs ev) (map Some (Select now pool (jw_store (mg_work st'))))), st')))"

record pool_row =
  pr_Key :: string
  pr_Title :: string
  pr_Description :: string
  pr_Count :: int
  pr_RefreshSec :: int
  pr_MinScore :: float64
  pr_MaxNodes :: int
  pr_Raw :: string
  pr_Base64 :: string
  pr_Clash :: string

definition handlePools :: "time \<Rightarrow> mgmt \<Rightarrow> pool_row list" where
  "handlePools now st = (let cfg = mg_config st; url = (\<lambda>p f. pub_PathPrefix (Publish cfg) @ ''/pool/'' @ np_Key p @ f) in
     map (\<lambda>p. \<lparr>pr_Key = np_Key p, pr_Title = np_Title p, pr_Description = np_Description p,
       pr_Count = int (length (Select now p (jw_store (mg_work st)))), pr_RefreshSec = np_RefreshSec p, pr_MinScore = np_MinScore p,
       pr_MaxNodes = np_MaxNodes p, pr_Raw = url p ''/raw'', pr_Base64 = url p ''/base64'', pr_Clash = url p ''/clash''\<rparr>)
       (Configured cfg))"

end
