(* ===== verification/Tenants.thy ===== *)
theory Tenants
  imports Management
begin

text \<open>
  What one tenant can see and change through the management handlers. A request is one of the
  operations below; \<open>perform\<close> is its effect on the state. Answers of the reading handlers are
  compared between the whole state and the state reduced to the rows of the caller's tenant.
\<close>

subsection \<open>Requests that change the state\<close>

datatype op =
    CreateTokenOp "string + token_body" "string \<times> string \<times> string"
  | DeleteTokenOp string
  | EnableTokenOp string bool
  | CreateUserOp "string + user_body" "string \<Rightarrow> string + string" "string option"
  | EnableUserOp string bool
  | RefreshOp
  | EnableSourceOp string bool
  | CancelTaskOp string
  | StartJobOp string "string + job_opts" "string \<times> string \<times> string" string
  | UpdateConfigOp "string + bool \<times> RuntimePatch" string
  | AlertOp string bool
  | ExportOp string
  | CancelAllOp

fun perform :: "'a mg_env \<Rightarrow> time \<Rightarrow> string \<Rightarrow> op \<Rightarrow> mgmt \<Rightarrow> mgmt" where
  "perform ev now cookie (CreateTokenOp body fresh) st = snd (handleAdminCreateToken ev now cookie body fresh st)"
| "perform ev now cookie (DeleteTokenOp i) st = snd (handleAdminDeleteToken ev now cookie i st)"
| "perform ev now cookie (EnableTokenOp i en) st = snd (setTokenEnabled ev now cookie i en st)"
| "perform ev now cookie (CreateUserOp body gen i) st = snd (handleAdminCreateUser ev now cookie body gen i st)"
| "perform ev now cookie (EnableUserOp i en) st = snd (setUserEnabled ev now cookie i en st)"
| "perform ev now cookie RefreshOp st = snd (handleAdminRefreshPublish ev now cookie st)"
| "perform ev now cookie (EnableSourceOp name en) st = snd (setSourceEnabled ev now cookie name en st)"
| "perform ev now cookie (CancelTaskOp i) st = snd (handleAdminCancelTask ev now cookie i st)"
| "perform ev now cookie (StartJobOp typ body trace i) st = snd (startJob ev now cookie typ body trace i st)"
| "perform ev now cookie (UpdateConfigOp body i) st = snd (handleAdminUpdateConfig ev now cookie body i st)"
| "perform ev now cookie (AlertOp i ack) st = snd (changeAlert ev now cookie i ack st)"
| "perform ev now cookie (ExportOp path) st = snd (ensureExport ev now cookie path st)"
| "perform ev now cookie CancelAllOp st = st"

fun required_role :: "op \<Rightarrow> Role" where
  "required_role (CreateTokenOp _ _) = RoleAdmin"
| "required_role (DeleteTokenOp _) = RoleAdmin"
| "required_role (EnableTokenOp _ _) = RoleAdmin"
| "required_role (CreateUserOp _ _ _) = RoleAdmin"
| "required_role (EnableUserOp _ _) = RoleAdmin"
| "required_role (EnableSourceOp _ _) = RoleAdmin"
| "required_role (UpdateConfigOp _ _) = RoleAdmin"
| "required_role _ = RoleOperator"

subsection \<open>Who acts\<close>

lemma requireRole_Inr:
  "requireRole ev now cookie required = Inr p \<longleftrightarrow>
     RequestPrincipal (ed_auth (mv_edge ev)) now (ed_manager (mv_edge ev)) cookie = Inr p \<and> p_Authenticated p \<and> Allows (p_Role p) required"
  by (auto simp: requireRole_def split: sum.splits)

lemma requireSystemAdmin_Inr:
  "requireSystemAdmin ev now cookie = Inr p \<longleftrightarrow> requireRole ev now cookie RoleAdmin = Inr p \<and> p_TenantID p = ''default''"
  by (auto simp: requireSystemAdmin_def split: sum.splits)

lemma principal_tenant:
  assumes "RequestPrincipal libs now m cookie = Inr p"
  shows "p_TenantID p \<noteq> ''''" and "tenantOrDefault (p_TenantID p) = p_TenantID p" and "auth_tenant (p_TenantID p) = p_TenantID p"
proof -
  have t: "auth_tenant t \<noteq> ''''" "auth_tenant (auth_tenant t) = auth_tenant t" for t
    by (auto simp: auth_tenant_def) (code_simp)
  have "TrimSpace ''public'' = ''public''" by code_simp
  then have "p_TenantID p = ''public'' \<and> auth_tenant ''public'' = ''public'' \<or> (\<exists>t. p_TenantID p = auth_tenant t)"
    using assms by (auto simp: RequestPrincipal_def ValidateSession_def session_principal_def auth_tenant_def
        split: if_splits list.splits option.splits)
  then show "p_TenantID p \<noteq> ''''" "auth_tenant (p_TenantID p) = p_TenantID p" using t by auto
  then show "tenantOrDefault (p_TenantID p) = p_TenantID p" by (simp add: tenantOrDefault_def)
qed


subsection \<open>Rows of other tenants\<close>

definition foreign :: "string \<Rightarrow> mgmt \<Rightarrow> Token list \<times> User list \<times> Job list \<times> QueuedTask list" where
  "foreign t st = (filter (\<lambda>x. tok_TenantID x \<noteq> t) (mg_tokens st), filter (\<lambda>u. usr_TenantID u \<noteq> t) (mg_users st),
     filter (\<lambda>j. j_TenantID j \<noteq> t) (jw_jobs (mg_work st)),
     filter (\<lambda>k. (t_ID k, t) \<notin> set (job_tenants st)) (jw_tasks (mg_work st)))"

text \<open>What belongs to no tenant: the configuration, its versions, the sources and the nodes.\<close>

definition system :: "mgmt \<Rightarrow> config \<times> ConfigVersion list \<times> source_world \<times> (string, node) gmap" where
  "system st = (mg_config st, mg_versions st, mg_sources st, st_nodes (jw_store (mg_work st)))"

definition audited :: "string \<Rightarrow> mgmt \<Rightarrow> mgmt \<Rightarrow> bool" where
  "audited actor st st' \<longleftrightarrow> (\<exists>new. snd (mg_audit st') = snd (mg_audit st) @ new \<and> (\<forall>r \<in> set new. aud_actor r = actor))"

lemma update_dropped_rows:
  assumes "\<And>r. p r \<Longrightarrow> \<not> keep r \<and> \<not> keep (f r)"
  shows "filter keep (update_where p f rows) = filter keep rows"
  using assms by (induction rows) (auto simp: update_where_def)

lemma update_own_rows:
  assumes "\<And>r. p r \<Longrightarrow> owner r = t" and "\<And>r. owner (f r) = owner r"
  shows "filter (\<lambda>r. owner r \<noteq> t) (update_where p f rows) = filter (\<lambda>r. owner r \<noteq> t) rows"
  by (rule update_dropped_rows) (simp add: assms)

lemma delete_own_rows:
  assumes "\<And>r. p r \<Longrightarrow> owner r = t"
  shows "filter (\<lambda>r. owner r \<noteq> t) (filter (\<lambda>r. \<not> p r) rows) = filter (\<lambda>r. owner r \<noteq> t) rows"
  using assms by (auto simp: filter_filter intro!: filter_cong)

lemma audit_frame [simp]:
  "mg_db (audit ev now a b d st) = mg_db st" "mg_tokens (audit ev now a b d st) = mg_tokens st"
  "mg_users (audit ev now a b d st) = mg_users st" "mg_work (audit ev now a b d st) = mg_work st"
  "mg_config (audit ev now a b d st) = mg_config st" "mg_versions (audit ev now a b d st) = mg_versions st"
  "mg_sources (audit ev now a b d st) = mg_sources st" "mg_cache (audit ev now a b d st) = mg_cache st"
  by (simp_all add: audit_def)

lemma audited_refl [simp]: "audited actor st st"
  by (simp add: audited_def)

lemma audited_audit [simp]: "audited actor st st' \<Longrightarrow> audited actor st (audit ev now actor b d st')"
  by (auto simp: audited_def audit_def Audit_def)

lemma audited_cong: "mg_audit st' = mg_audit st \<Longrightarrow> audited actor st st'"
  by (simp add: audited_def)

lemma foreign_cong:
  "mg_tokens st' = mg_tokens st \<Longrightarrow> mg_users st' = mg_users st \<Longrightarrow> jw_jobs (mg_work st') = jw_jobs (mg_work st) \<Longrightarrow>
   jw_tasks (mg_work st') = jw_tasks (mg_work st) \<Longrightarrow> foreign t st' = foreign t st"
  by (simp add: foreign_def job_tenants_def)

text \<open>What a single request leaves as it was: the conclusion for each operation.\<close>

definition confined :: "Principal \<Rightarrow> mgmt \<Rightarrow> mgmt \<Rightarrow> bool" where
  "confined p st st' \<longleftrightarrow> foreign (p_TenantID p) st' = foreign (p_TenantID p) st \<and>
     (p_TenantID p \<noteq> ''default'' \<longrightarrow> system st' = system st) \<and> audited (Actor (Some p)) st st'"

lemma confined_refl [simp]: "confined p st st"
  by (simp add: confined_def)

lemma confined_audit: "confined p st st' \<Longrightarrow> confined p st (audit ev now (Actor (Some p)) b d st')"
  by (simp add: confined_def foreign_def system_def job_tenants_def)

lemma confined_tokens:
  "filter (\<lambda>x. tok_TenantID x \<noteq> p_TenantID p) tokens = filter (\<lambda>x. tok_TenantID x \<noteq> p_TenantID p) (mg_tokens st) \<Longrightarrow>
   confined p st (st\<lparr>mg_tokens := tokens\<rparr>)"
  by (simp add: confined_def foreign_def system_def job_tenants_def audited_cong)

lemma confined_users:
  "filter (\<lambda>u. usr_TenantID u \<noteq> p_TenantID p) users = filter (\<lambda>u. usr_TenantID u \<noteq> p_TenantID p) (mg_users st) \<Longrightarrow>
   confined p st (st\<lparr>mg_users := users\<rparr>)"
  by (simp add: confined_def foreign_def system_def job_tenants_def audited_cong)

lemma InsertToken_own:
  assumes "InsertToken tok rows = Inr rows'" and "tenantOrDefault (tok_TenantID tok) = t"
  shows "filter (\<lambda>x. tok_TenantID x \<noteq> t) rows' = filter (\<lambda>x. tok_TenantID x \<noteq> t) rows"
  using assms by (auto simp: InsertToken_def split: if_splits)

lemma DeleteToken_own:
  assumes "DeleteTokenTenant i t rows = Inr rows'" and "tenantOrDefault t = t"
  shows "filter (\<lambda>x. tok_TenantID x \<noteq> t) rows' = filter (\<lambda>x. tok_TenantID x \<noteq> t) rows"
  using assms delete_own_rows [of "\<lambda>x. tok_ID x = i \<and> tok_TenantID x = t" tok_TenantID t rows]
  by (auto simp: DeleteTokenTenant_def Let_def split: if_splits)

lemma EnableToken_own:
  assumes "SetTokenEnabledTenant i t en rows = Inr rows'" and "tenantOrDefault t = t"
  shows "filter (\<lambda>x. tok_TenantID x \<noteq> t) rows' = filter (\<lambda>x. tok_TenantID x \<noteq> t) rows"
  using assms update_own_rows [of "\<lambda>x. tok_ID x = i \<and> tok_TenantID x = t" tok_TenantID t "\<lambda>x. x\<lparr>tok_Enabled := en\<rparr>" rows]
  by (simp add: SetTokenEnabledTenant_def Let_def split: if_splits)

lemma EnableUser_own:
  assumes "SetUserEnabled i t en rows = Inr rows'" and "tenantOrDefault t = t"
  shows "filter (\<lambda>x. usr_TenantID x \<noteq> t) rows' = filter (\<lambda>x. usr_TenantID x \<noteq> t) rows"
  using assms update_own_rows [of "\<lambda>x. usr_ID x = i \<and> usr_TenantID x = t" usr_TenantID t "\<lambda>x. x\<lparr>usr_Enabled := en\<rparr>" rows]
  by (simp add: SetUserEnabled_def Let_def split: if_splits)

lemma InsertUser_own:
  assumes "InsertUser now (Some u) rows = Inr rows'" and "tenantOrDefault (usr_TenantID u) = t"
  shows "filter (\<lambda>x. usr_TenantID x \<noteq> t) rows' = filter (\<lambda>x. usr_TenantID x \<noteq> t) rows"
  using assms by (auto simp: InsertUser_def Let_def split: if_splits)

subsection \<open>Each operation is confined\<close>

lemma confined_token_ops:
  assumes "RequestPrincipal (ed_auth (mv_edge ev)) now (ed_manager (mv_edge ev)) cookie = Inr p"
  shows "confined p st (snd (handleAdminCreateToken ev now cookie body fresh st))"
    and "confined p st (snd (handleAdminDeleteToken ev now cookie i st))"
    and "confined p st (snd (setTokenEnabled ev now cookie i en st))"
proof -
  note tenant = principal_tenant [OF assms]
  have who: "q = p" if "requireRole ev now cookie rl = Inr q" for q rl
    using that assms by (simp add: requireRole_Inr)
  have c: "filter (\<lambda>x. tok_TenantID x \<noteq> p_TenantID p) rows = filter (\<lambda>x. tok_TenantID x \<noteq> p_TenantID p) (mg_tokens st)"
    if "CreateToken now pl j h nm note_text (p_TenantID p) cs ps days rps quota (Some (mg_tokens st)) = Inr (tok, rows)"
    for pl j h nm note_text cs ps days rps quota tok rows
    using that tenant by (auto simp: CreateToken_def Let_def split: sum.splits intro!: InsertToken_own)
  show "confined p st (snd (handleAdminCreateToken ev now cookie body fresh st))"
    using c by (auto simp: handleAdminCreateToken_def Let_def CreateToken_def [of _ _ _ _ _ _ _ _ _ _ _ _ None]
        split: sum.splits if_splits prod.splits dest!: who intro!: confined_audit confined_tokens)
  show "confined p st (snd (handleAdminDeleteToken ev now cookie i st))"
    using tenant by (auto simp: handleAdminDeleteToken_def split: sum.splits
        dest!: who intro!: confined_audit confined_tokens DeleteToken_own)
  show "confined p st (snd (setTokenEnabled ev now cookie i en st))"
    using tenant by (auto simp: setTokenEnabled_def split: sum.splits
        dest!: who intro!: confined_audit confined_tokens EnableToken_own)
qed

lemma confined_user_ops:
  assumes "RequestPrincipal (ed_auth (mv_edge ev)) now (ed_manager (mv_edge ev)) cookie = Inr p"
  shows "confined p st (snd (handleAdminCreateUser ev now cookie body gen i st))"
    and "confined p st (snd (setUserEnabled ev now cookie uid en st))"
proof -
  note tenant = principal_tenant [OF assms]
  have who: "q = p" if "requireRole ev now cookie rl = Inr q" for q rl
    using that assms by (simp add: requireRole_Inr)
  show "confined p st (snd (handleAdminCreateUser ev now cookie body gen i st))"
    using tenant by (auto simp: handleAdminCreateUser_def Let_def split: sum.splits option.splits
        dest!: who intro!: confined_audit confined_users intro: InsertUser_own)
  show "confined p st (snd (setUserEnabled ev now cookie uid en st))"
    using tenant by (auto simp: setUserEnabled_def split: sum.splits
        dest!: who intro!: confined_audit confined_users EnableUser_own)
qed


lemma confined_cong:
  assumes "mg_tokens st' = mg_tokens st" and "mg_users st' = mg_users st" and "mg_audit st' = mg_audit st"
    and "jw_jobs (mg_work st') = jw_jobs (mg_work st)" and "jw_tasks (mg_work st') = jw_tasks (mg_work st)"
    and "p_TenantID p = ''default'' \<or> system st' = system st"
  shows "confined p st st'"
  using assms by (auto simp: confined_def audited_cong intro!: foreign_cong)

lemma refresh_cache_frame:
  "snd (refresh_cache ev now st) = st\<lparr>mg_cache := mg_cache (snd (refresh_cache ev now st))\<rparr>"
  by (simp add: refresh_cache_def split: prod.splits)

lemma confined_refresh: "confined p st st' \<Longrightarrow> confined p st (snd (refresh_cache ev now st'))"
  by (subst refresh_cache_frame) (simp add: confined_def foreign_def system_def job_tenants_def audited_def)

lemma confined_system_ops:
  assumes "RequestPrincipal (ed_auth (mv_edge ev)) now (ed_manager (mv_edge ev)) cookie = Inr p"
  shows "confined p st (snd (handleAdminRefreshPublish ev now cookie st))"
    and "confined p st (snd (setSourceEnabled ev now cookie name en st))"
    and "confined p st (snd (handleAdminUpdateConfig ev now cookie cbody i st))"
    and "confined p st (snd (changeAlert ev now cookie i ack st))"
    and "confined p st (snd (ensureExport ev now cookie path st))"
proof -
  have who: "q = p" if "requireRole ev now cookie rl = Inr q" for q rl
    using that assms by (simp add: requireRole_Inr)
  have sys: "q = p \<and> p_TenantID p = ''default''" if "requireSystemAdmin ev now cookie = Inr q" for q
    using that who by (auto simp: requireSystemAdmin_Inr)
  have "confined p st (snd (refresh_cache ev now st))" by (simp add: confined_refresh)
  then show "confined p st (snd (handleAdminRefreshPublish ev now cookie st))"
    by (auto simp: handleAdminRefreshPublish_def split: sum.splits prod.splits dest!: who intro!: confined_audit)
  show "confined p st (snd (setSourceEnabled ev now cookie name en st))"
    by (auto simp: setSourceEnabled_def split: sum.splits dest!: sys intro!: confined_audit confined_cong)
  show "confined p st (snd (changeAlert ev now cookie i ack st))"
    by (auto simp: changeAlert_def default_tenant_only_def split: sum.splits prod.splits if_splits option.splits
        dest!: who intro!: confined_audit confined_cong)
  show "confined p st (snd (ensureExport ev now cookie path st))"
    by (auto simp: ensureExport_def split: sum.splits dest!: who intro!: confined_audit)
  have upd: "confined p st (snd (update_config ev now (Actor (Some p)) i patch st))" if d: "p_TenantID p = ''default''" for patch
  proof (cases "fst (update_config ev now (Actor (Some p)) i patch st)")
    case (Inl e)
    then have "snd (update_config ev now (Actor (Some p)) i patch st) = st"
      by (auto simp: update_config_def Let_def split: sum.splits prod.splits)
    then show ?thesis by simp
  next
    case (Inr v)
    then obtain rows cfg where "snd (update_config ev now (Actor (Some p)) i patch st) = snd (refresh_cache ev now
        ((audit ev now (Actor (Some p)) ''config.update'' (cv_Checksum v) (st\<lparr>mg_versions := rows\<rparr>))\<lparr>mg_config := cfg\<rparr>))"
      by (auto simp: update_config_def Let_def split: sum.splits prod.splits)
    moreover have "confined p st (audit ev now (Actor (Some p)) ''config.update'' (cv_Checksum v) (st\<lparr>mg_versions := rows\<rparr>))"
      by (intro confined_audit confined_cong) (simp_all add: d)
    then have "confined p st ((audit ev now (Actor (Some p)) ''config.update'' (cv_Checksum v) (st\<lparr>mg_versions := rows\<rparr>))\<lparr>mg_config := cfg\<rparr>)"
      using d by (simp add: confined_def foreign_def job_tenants_def audited_def)
    ultimately show ?thesis by (simp add: confined_refresh)
  qed
  show "confined p st (snd (handleAdminUpdateConfig ev now cookie cbody i st))"
  proof (cases "requireSystemAdmin ev now cookie")
    case (Inl e)
    then show ?thesis by (simp add: handleAdminUpdateConfig_def)
  next
    case (Inr q)
    then have q: "q = p" "p_TenantID p = ''default''" using sys by auto
    have "snd (handleAdminUpdateConfig ev now cookie cbody i st) = st \<or>
        (\<exists>patch. snd (handleAdminUpdateConfig ev now cookie cbody i st) = snd (update_config ev now (Actor (Some p)) i patch st))"
      using Inr q by (auto simp: handleAdminUpdateConfig_def split: sum.splits prod.splits) (metis snd_conv)+
    then show ?thesis using upd [OF q(2)] by auto
  qed
qed


lemma confined_cancel:
  assumes "RequestPrincipal (ed_auth (mv_edge ev)) now (ed_manager (mv_edge ev)) cookie = Inr p"
  shows "confined p st (snd (handleAdminCancelTask ev now cookie i st))"
proof (cases "requireRole ev now cookie RoleOperator")
  case (Inl e)
  then show ?thesis by (simp add: handleAdminCancelTask_def)
next
  case (Inr q)
  then have q: "q = p" using assms by (simp add: requireRole_Inr)
  note tenant = principal_tenant [OF assms]
  let ?st1 = "audit ev now (Actor (Some p)) ''task.cancel'' i st"
  let ?st2 = "?st1\<lparr>mg_work := (mg_work st)\<lparr>jw_tasks := snd (CancelTask now i (jw_tasks (mg_work st)))\<rparr>\<rparr>"
  have own: "confined p st ?st2" if "GetJobTenant i (p_TenantID p) (jw_jobs (mg_work st)) \<noteq> None"
  proof -
    have "(i, p_TenantID p) \<in> set (job_tenants st)"
      using that tenant by (force simp: GetJobTenant_def job_tenants_def job_in_def dest: find_SomeD)
    then have "filter (\<lambda>k. (t_ID k, p_TenantID p) \<notin> set (job_tenants st)) (snd (CancelTask now i (jw_tasks (mg_work st)))) =
        filter (\<lambda>k. (t_ID k, p_TenantID p) \<notin> set (job_tenants st)) (jw_tasks (mg_work st))"
      by (simp add: CancelTask_def Let_def) (rule update_dropped_rows, auto simp: cancel_def)
    then show ?thesis by (simp add: confined_def foreign_def system_def job_tenants_def audited_def audit_def Audit_def)
  qed
  have "snd (handleAdminCancelTask ev now cookie i st) \<in> {st, ?st1} \<or>
    (GetJobTenant i (p_TenantID p) (jw_jobs (mg_work st)) \<noteq> None \<and> snd (handleAdminCancelTask ev now cookie i st) = ?st2)"
    using Inr q by (auto simp: handleAdminCancelTask_def Let_def split: prod.splits option.splits)
  then show ?thesis using own confined_audit [OF confined_refl] by auto
qed


subsection \<open>Starting a job\<close>

text \<open>A step of one job: every row with its id belongs to \<open>t\<close>, no other row is touched.\<close>

definition own_id :: "string \<Rightarrow> string \<Rightarrow> job_world \<Rightarrow> bool" where
  "own_id i t w \<longleftrightarrow> (\<forall>r \<in> set (jw_jobs w). j_ID r = i \<longrightarrow> j_TenantID r = t)"

definition pairs :: "job_world \<Rightarrow> (string \<times> string) set" where
  "pairs w = (\<lambda>j. (j_ID j, j_TenantID j)) ` set (jw_jobs w)"

definition own_step :: "string \<Rightarrow> string \<Rightarrow> job_world \<Rightarrow> job_world \<Rightarrow> bool" where
  "own_step i t w w' \<longleftrightarrow> own_id i t w' \<and>
     filter (\<lambda>j. j_TenantID j \<noteq> t) (jw_jobs w') = filter (\<lambda>j. j_TenantID j \<noteq> t) (jw_jobs w) \<and>
     pairs w \<subseteq> pairs w' \<and> pairs w' \<subseteq> insert (i, t) (pairs w) \<and> st_nodes (jw_store w') = st_nodes (jw_store w)"

lemma own_step_trans: "own_step i t w1 w2 \<Longrightarrow> own_step i t w2 w3 \<Longrightarrow> own_step i t w1 w3"
  by (auto simp: own_step_def)

lemma own_step_refl: "own_id i t w \<Longrightarrow> own_step i t w w"
  by (auto simp: own_step_def)

lemma own_step_cong:
  "own_step i t w w' \<Longrightarrow> jw_jobs w'' = jw_jobs w' \<Longrightarrow> st_nodes (jw_store w'') = st_nodes (jw_store w') \<Longrightarrow> own_step i t w w''"
  by (simp add: own_step_def own_id_def pairs_def)

lemma st_nodes_SaveJob [simp]: "st_nodes (SaveJob j s) = st_nodes s"
  by (simp add: SaveJob_def)

lemma own_step_save:
  assumes "own_id i t w" and "j_ID j = i" and "tenantOrDefault (j_TenantID j) = t"
    and "jw_jobs w' = db_SaveJob j (jw_jobs w)" and "st_nodes (jw_store w') = st_nodes (jw_store w)"
  shows "own_step i t w w' \<and> (i, t) \<in> pairs w'"
proof (cases "i \<in> j_ID ` set (jw_jobs w)")
  case True
  then have j: "jw_jobs w' = update_where (\<lambda>r. j_ID r = i) (overwrite_job j) (jw_jobs w)"
    using assms by (simp add: db_SaveJob_def)
  have o: "j_ID (overwrite_job j r) = j_ID r" "j_TenantID (overwrite_job j r) = t" for r
    using assms(3) by (simp_all add: overwrite_job_def)
  have "filter (\<lambda>r. j_TenantID r \<noteq> t) (map (\<lambda>r. if j_ID r = i then overwrite_job j r else r) rows) = filter (\<lambda>r. j_TenantID r \<noteq> t) rows"
    if "\<forall>r \<in> set rows. j_ID r = i \<longrightarrow> j_TenantID r = t" for rows
    using that by (induction rows) (auto simp: o)
  then have "filter (\<lambda>r. j_TenantID r \<noteq> t) (jw_jobs w') = filter (\<lambda>r. j_TenantID r \<noteq> t) (jw_jobs w)"
    using assms(1) by (simp add: j own_id_def update_where_def)
  moreover have "pairs w' = pairs w"
    unfolding pairs_def j set_update_where image_image using assms(1) by (intro image_cong) (auto simp: o own_id_def)
  moreover have "(i, t) \<in> pairs w" using True assms(1) by (force simp: pairs_def own_id_def)
  ultimately show ?thesis using assms(1,5) o by (auto simp: own_step_def own_id_def j set_update_where)
next
  case False
  then have "jw_jobs w' = jw_jobs w @ [j\<lparr>j_TenantID := t\<rparr>]" using assms by (simp add: db_SaveJob_def)
  with assms(1,2,5) show ?thesis by (auto simp: own_step_def own_id_def pairs_def)
qed

lemma own_step_updateJob:
  assumes "own_id i t w" and "j_ID j = i" and "tenantOrDefault (j_TenantID j) = t" and "updateJob now j status pr msg w = (j', w')"
  shows "own_step i t w w'" and "jw_tasks w' = jw_tasks w" and "j_ID j' = i" and "j_TenantID j' = j_TenantID j"
proof -
  show "jw_tasks w' = jw_tasks w" "j_ID j' = i" "j_TenantID j' = j_TenantID j"
    using assms(2,4) by (auto simp: updateJob_def Let_def)
  show "own_step i t w w'"
    using assms by (intro conjunct1 [OF own_step_save [of i t w "j\<lparr>j_Status := status, j_Progress := pr, j_Message := msg, j_UpdatedAt := now\<rparr>"]])
      (auto simp: updateJob_def Let_def)
qed

lemma own_step_fail:
  assumes "own_id i t w" and "j_ID j = i" and "tenantOrDefault (j_TenantID j) = t" and "fail_job cfg now j e w = (j', w')"
  shows "own_step i t w w'" and "jw_tasks w' = jw_tasks w"
proof -
  obtain j1 w1 where u: "updateJob now (j\<lparr>j_EndedAt := Some now, j_Error := fst e\<rparr>) (if snd e then JobCanceled else JobFailed)
      (j_Progress j) (fst e) w = (j1, w1)" by (metis surj_pair)
  have w': "w' = w1 \<or> w' = failure_alert cfg now j1 w1"
    using assms(4) u by (auto simp: fail_job_def Let_def split: prod.splits if_splits)
  have "st_nodes (jw_store (failure_alert cfg now j1 w1)) = st_nodes (jw_store w1)"
    by (simp add: failure_alert_def Let_def)
  then show "own_step i t w w'" "jw_tasks w' = jw_tasks w"
    using w' own_step_updateJob(1,2) [OF assms(1) _ _ u] assms(2,3) by (auto intro: own_step_cong)
qed


lemma as_string_json [simp]: "as_string (Some (json_string s)) = s"
  by (simp add: as_string_def json_string_def butlast_append)

lemma new_job_owner:
  assumes "map_of opts ''_tenant'' = Some (json_string t)" and "map_of opts ''_actor'' = Some (json_string a)" and "t \<noteq> ''''" and "a \<noteq> ''''"
  shows "j_ID (new_job now i typ opts) = i" "j_TenantID (new_job now i typ opts) = t" "j_Actor (new_job now i typ opts) = a"
  using assms by (simp_all add: new_job_def Let_def)

definition own_work :: "string \<Rightarrow> string \<Rightarrow> job_world \<Rightarrow> job_world \<Rightarrow> bool" where
  "own_work i t w w' \<longleftrightarrow> own_step i t w w' \<and> (jw_tasks w' = jw_tasks w \<or>
     ((i, t) \<in> pairs w' \<and> (\<exists>k. t_ID k = i \<and> jw_tasks w' = jw_tasks w @ [k])))"

lemma submit_own:
  assumes "own_id i t w" and "i \<noteq> ''''" and "tenantOrDefault t = t"
    and j: "j_ID (new_job now i typ opts) = i" "j_TenantID (new_job now i typ opts) = t"
    and "submit_begin enc cfg now i typ opts w = (err, job, w')"
  shows "own_work i t w w'" and "err = None \<Longrightarrow> job = new_job now i typ opts \<and> (i, t) \<in> pairs w'"
proof -
  let ?j = "new_job now i typ opts"
  let ?w1 = "w\<lparr>jw_store := SaveJob ?j (jw_store w), jw_jobs := db_SaveJob ?j (jw_jobs w)\<rparr>"
  have s: "own_step i t w ?w1" "(i, t) \<in> pairs ?w1"
    using own_step_save [of i t w ?j ?w1] assms(1,3) j by auto
  then have own: "own_id i t ?w1" by (simp add: own_step_def)
  let ?enq = "EnqueueTask now i (Some (submit_task enc cfg i typ opts)) (que_MaxPending (Queue cfg)) (jw_tasks w)"
  have b: "submit_begin enc cfg now i typ opts w = (if typ \<notin> set job_types then (Some (UnsupportedJob typ), ?j, w)
      else case ?enq of Inl e \<Rightarrow> (case fail_job cfg now ?j (error_text (EnqueueFailed e), False) ?w1 of (j', w2) \<Rightarrow> (Some (EnqueueFailed e), j', w2))
        | Inr tasks \<Rightarrow> (None, ?j, ?w1\<lparr>jw_tasks := tasks\<rparr>))"
    unfolding submit_begin_def Let_def by simp
  have "own_work i t w w' \<and> (err = None \<longrightarrow> job = ?j \<and> (i, t) \<in> pairs w')"
  proof (cases "typ \<in> set job_types")
    case False
    then have "w' = w" "err \<noteq> None" using assms(6) unfolding b by auto
    then show ?thesis using own_step_refl [OF assms(1)] by (auto simp: own_work_def)
  next
    case True
    show ?thesis
    proof (cases ?enq)
      case (Inl e)
      obtain j' w2 where f: "fail_job cfg now ?j (error_text (EnqueueFailed e), False) ?w1 = (j', w2)" by (metis surj_pair)
      then have r: "w' = w2" "err \<noteq> None" using assms(6) True Inl unfolding b by auto
      from own_step_fail [OF own j(1) _ f] j(2) assms(3) have "own_step i t ?w1 w2" "jw_tasks w2 = jw_tasks w" by auto
      with own_step_trans [OF s(1)] r show ?thesis by (auto simp: own_work_def)
    next
      case (Inr tasks)
      then have r: "w' = ?w1\<lparr>jw_tasks := tasks\<rparr>" "err = None" "job = ?j" using assms(6) True unfolding b by auto
      have "\<exists>k. t_ID k = i \<and> tasks = jw_tasks w @ [k]"
        using Inr assms(2) by (auto simp: EnqueueTask_def submit_task_def Let_def split: if_splits)
      moreover have "own_step i t w w'" using own_step_cong [OF s(1), of w'] r(1) by simp
      moreover have "(i, t) \<in> pairs w'" using s(2) r(1) by (simp add: pairs_def)
      ultimately show ?thesis using r by (simp add: own_work_def)
    qed
  qed
  then show "own_work i t w w'" "err = None \<Longrightarrow> job = ?j \<and> (i, t) \<in> pairs w'" by blast+
qed

lemma confined_work:
  assumes "own_work i (p_TenantID p) (mg_work st) w'" and "i \<notin> t_ID ` set (jw_tasks (mg_work st))"
  shows "confined p st (st\<lparr>mg_work := w'\<rparr>)"
proof -
  let ?t = "p_TenantID p"
  have jt: "set (job_tenants (st\<lparr>mg_work := w\<rparr>)) = pairs w" for w by (auto simp: job_tenants_def pairs_def)
  have jt0: "set (job_tenants st) = pairs (mg_work st)" by (auto simp: job_tenants_def pairs_def)
  have s: "own_step i ?t (mg_work st) w'" using assms(1) by (simp add: own_work_def)
  have "filter (\<lambda>k. (t_ID k, ?t) \<notin> pairs w') (jw_tasks (mg_work st)) = filter (\<lambda>k. (t_ID k, ?t) \<notin> pairs (mg_work st)) (jw_tasks (mg_work st))"
    using s assms(2) by (intro filter_cong) (auto simp: own_step_def)
  then have "filter (\<lambda>k. (t_ID k, ?t) \<notin> pairs w') (jw_tasks w') = filter (\<lambda>k. (t_ID k, ?t) \<notin> pairs (mg_work st)) (jw_tasks (mg_work st))"
    using assms(1) by (auto simp: own_work_def)
  with s show ?thesis
    by (simp add: confined_def foreign_def system_def audited_def jt jt0 own_step_def)
qed


definition fresh_id :: "string \<Rightarrow> mgmt \<Rightarrow> bool" where
  "fresh_id i st \<longleftrightarrow> i \<noteq> '''' \<and> i \<notin> j_ID ` set (jw_jobs (mg_work st)) \<and> i \<notin> t_ID ` set (jw_tasks (mg_work st))"

lemma own_work_update:
  assumes "own_work i t w w1" and "(i, t) \<in> pairs w1" and "j_ID j = i" and "j_TenantID j = t" and "tenantOrDefault t = t"
  shows "own_work i t w (snd (updateJob now j status pr msg w1))"
proof -
  obtain j' w2 where u: "updateJob now j status pr msg w1 = (j', w2)" by (metis surj_pair)
  have "own_id i t w1" using assms(1) by (simp add: own_work_def own_step_def)
  from own_step_updateJob(1,2) [OF this assms(3) _ u] assms(4,5) have "own_step i t w1 w2" "jw_tasks w2 = jw_tasks w1" by auto
  moreover have "own_step i t w w1" using assms(1) by (simp add: own_work_def)
  ultimately have "own_step i t w w2" "pairs w1 \<subseteq> pairs w2" "jw_tasks w2 = jw_tasks w1"
    using own_step_trans [of i t w w1 w2] by (auto simp: own_step_def)
  with assms(1,2) show ?thesis unfolding own_work_def u snd_conv by auto
qed

lemma confined_start:
  assumes "RequestPrincipal (ed_auth (mv_edge ev)) now (ed_manager (mv_edge ev)) cookie = Inr p" and "fresh_id i st"
  shows "confined p st (snd (startJob ev now cookie typ body trace i st))"
proof (cases "\<exists>opts0. requireRole ev now cookie RoleOperator = Inr p \<and> body = Inr opts0")
  case False
  then have "snd (startJob ev now cookie typ body trace i st) = st"
    using assms(1) by (auto simp: startJob_def requireRole_Inr split: sum.splits)
  then show ?thesis by simp
next
  case True
  then obtain opts0 where role: "requireRole ev now cookie RoleOperator = Inr p" "body = Inr opts0" by blast
  then have auth: "p_Authenticated p" by (simp add: requireRole_Inr)
  let ?t = "p_TenantID p" and ?w = "mg_work st"
  note tenant = principal_tenant [OF assms(1)]
  have actor: "Actor (Some p) \<noteq> ''''"
    using auth assms(1) by (auto simp: RequestPrincipal_def ValidateSession_def session_principal_def valid_claims_def Actor_def
        zero_principal_def split: if_splits list.splits option.splits)
  define opts where "opts = job_options p trace opts0"
  have o: "snd (startJob ev now cookie typ body trace i st) = snd (Submit ev now i typ opts st)"
    "map_of opts ''_tenant'' = Some (json_string ?t)" "map_of opts ''_actor'' = Some (json_string (Actor (Some p)))"
    by (auto simp: startJob_def role opts_def job_options_def Let_def split: sum.splits prod.splits)
  note j = new_job_owner [OF o(2,3) tenant(1) actor]
  have own: "own_id i ?t ?w" and tasks: "i \<notin> t_ID ` set (jw_tasks ?w)" and i: "i \<noteq> ''''"
    using assms(2) by (auto simp: fresh_id_def own_id_def)
  have "confined p st (snd (Submit ev now i typ opts st))"
  proof (cases "que_Enabled (Queue (mg_config st))")
    case True
    obtain err job w1 where b: "submit_begin (mv_opts_json ev) (mg_config st) now i typ opts ?w = (err, job, w1)" by (metis surj_pair)
    note s = submit_own [OF own i tenant(2) j(1,2) b]
    show ?thesis
    proof (cases err)
      case None
      then have e: "job = new_job now i typ opts" "(i, ?t) \<in> pairs w1" using s(2) by auto
      have "snd (Submit ev now i typ opts st) = st\<lparr>mg_work := snd (submit_end now job w1)\<rparr>"
        using True b None by (simp add: Submit_def split: prod.splits)
      moreover have "own_work i ?t ?w (snd (submit_end now job w1))"
        unfolding submit_end_def using own_work_update [OF s(1) e(2)] j e(1) tenant(2) by simp
      ultimately show ?thesis using confined_work tasks by metis
    next
      case (Some e)
      then have "snd (Submit ev now i typ opts st) = st\<lparr>mg_work := w1\<rparr>" using True b by (simp add: Submit_def)
      then show ?thesis using confined_work [OF s(1) tasks] by simp
    qed
  next
    case False
    show ?thesis
    proof (cases "snd (Submit ev now i typ opts st) = st")
      case no: False
      let ?j = "new_job now i typ opts"
      have none: "GetJobTenant i '''' (jw_jobs ?w) = None"
        using assms(2) by (auto simp: GetJobTenant_def find_None_iff fresh_id_def)
      obtain w1 where w1: "snd (Submit ev now i typ opts st) = audit ev now (j_Actor ?j) ''job.start'' (typ @ '' '' @ i) (st\<lparr>mg_work := w1\<rparr>)"
        "jw_jobs w1 = db_SaveJob ?j (jw_jobs ?w)" "jw_tasks w1 = jw_tasks ?w" "st_nodes (jw_store w1) = st_nodes (jw_store ?w)"
        using no False none by (auto simp: Submit_def start_job_def Let_def split: sum.splits if_splits)
      then have "own_work i ?t ?w w1" using own_step_save [OF own j(1) _ w1(2,4)] j(2) tenant(2) by (simp add: own_work_def)
      then show ?thesis using w1(1) confined_work tasks by (simp add: j(3) confined_audit)
    qed simp
  qed
  then show ?thesis using o(1) by simp
qed


subsection \<open>Changes are confined\<close>

fun fresh_op :: "op \<Rightarrow> mgmt \<Rightarrow> bool" where
  "fresh_op (StartJobOp _ _ _ i) st = fresh_id i st"
| "fresh_op _ st = True"

lemma refused_or_allowed:
  "perform ev now cookie op st = st \<or> (\<exists>p. requireRole ev now cookie (required_role op) = Inr p)"
proof (cases "requireRole ev now cookie (required_role op)")
  case (Inl e)
  then have "perform ev now cookie op st = st"
    by (cases op) (auto simp: handleAdminCreateToken_def handleAdminDeleteToken_def setTokenEnabled_def handleAdminCreateUser_def
        setUserEnabled_def handleAdminRefreshPublish_def setSourceEnabled_def handleAdminCancelTask_def startJob_def
        handleAdminUpdateConfig_def changeAlert_def ensureExport_def requireSystemAdmin_def)
  then show ?thesis ..
qed blast


subsection \<open>Answers depend on the caller's tenant only\<close>

text \<open>The state with the rows of one tenant only.\<close>

definition restrict_to :: "string \<Rightarrow> mgmt \<Rightarrow> mgmt" where
  "restrict_to t st = st\<lparr>mg_tokens := filter (\<lambda>x. tok_TenantID x = t) (mg_tokens st),
     mg_users := filter (\<lambda>u. usr_TenantID u = t) (mg_users st),
     mg_work := (mg_work st)\<lparr>jw_jobs := filter (\<lambda>j. j_TenantID j = t) (jw_jobs (mg_work st)),
       jw_tasks := filter (\<lambda>k. (t_ID k, t) \<in> set (job_tenants st)) (jw_tasks (mg_work st)),
       jw_events := (fst (jw_events (mg_work st)),
         filter (\<lambda>e. (je_JobID e, t) \<in> set (job_tenants st)) (snd (jw_events (mg_work st))))\<rparr>\<rparr>"

lemma restrict_to_fields [simp]:
  "mg_db (restrict_to t st) = mg_db st" "mg_usage (restrict_to t st) = mg_usage st"
  "mg_tokens (restrict_to t st) = filter (\<lambda>x. tok_TenantID x = t) (mg_tokens st)"
  "mg_users (restrict_to t st) = filter (\<lambda>u. usr_TenantID u = t) (mg_users st)"
  "jw_jobs (mg_work (restrict_to t st)) = filter (\<lambda>j. j_TenantID j = t) (jw_jobs (mg_work st))"
  "jw_tasks (mg_work (restrict_to t st)) = filter (\<lambda>k. (t_ID k, t) \<in> set (job_tenants st)) (jw_tasks (mg_work st))"
  "snd (jw_events (mg_work (restrict_to t st))) = filter (\<lambda>e. (je_JobID e, t) \<in> set (job_tenants st)) (snd (jw_events (mg_work st)))"
  by (simp_all add: restrict_to_def)

text \<open>A query that asks for rows of a tenant sees the same rows when the others are gone.\<close>

lemma own_rows:
  assumes "\<And>r. T r \<Longrightarrow> own r"
  shows "filter T (filter own rows) = filter T rows"
    and "filter (\<lambda>r. T r \<and> Q r) (filter own rows) = filter (\<lambda>r. T r \<and> Q r) rows"
    and "find (\<lambda>r. K r \<and> T r) (filter own rows) = find (\<lambda>r. K r \<and> T r) rows"
    and "affected T (filter own rows) = affected T rows"
proof -
  show f: "filter T (filter own rows) = filter T rows"
    and "filter (\<lambda>r. T r \<and> Q r) (filter own rows) = filter (\<lambda>r. T r \<and> Q r) rows"
    and "find (\<lambda>r. K r \<and> T r) (filter own rows) = find (\<lambda>r. K r \<and> T r) rows"
    by (induction rows) (auto dest: assms)
  show "affected T (filter own rows) = affected T rows"
    unfolding affected_def f ..
qed

lemma view_tokens:
  assumes "t \<noteq> ''''" and "tenantOrDefault t = t"
  shows "ListTokensTenant now usage t (filter (\<lambda>x. tok_TenantID x = t) rows) = ListTokensTenant now usage t rows"
    and "ListTokensPageTenant now usage l c t (filter (\<lambda>x. tok_TenantID x = t) rows) = ListTokensPageTenant now usage l c t rows"
    and "CountTokensTenant t (filter (\<lambda>x. tok_TenantID x = t) rows) = CountTokensTenant t rows"
proof -
  have "token_in t x \<Longrightarrow> tok_TenantID x = t" "t = '''' \<or> tok_TenantID x = t \<Longrightarrow> tok_TenantID x = t" for x
    using assms by (auto simp: token_in_def)
  note own = own_rows [of "token_in t" "\<lambda>x. tok_TenantID x = t", OF this(1)]
    own_rows(1) [of "\<lambda>x. t = '''' \<or> tok_TenantID x = t" "\<lambda>x. tok_TenantID x = t", OF this(2)]
  show "ListTokensTenant now usage t (filter (\<lambda>x. tok_TenantID x = t) rows) = ListTokensTenant now usage t rows"
    "ListTokensPageTenant now usage l c t (filter (\<lambda>x. tok_TenantID x = t) rows) = ListTokensPageTenant now usage l c t rows"
    "CountTokensTenant t (filter (\<lambda>x. tok_TenantID x = t) rows) = CountTokensTenant t rows"
    by (simp_all only: ListTokensTenant_def ListTokensPageTenant_def CountTokensTenant_def own)
qed

lemma view_users:
  assumes "t \<noteq> ''''" and "tenantOrDefault t = t"
  shows "ListUsers t (filter (\<lambda>x. usr_TenantID x = t) rows) = ListUsers t rows"
    and "ListUsersPage t l c (filter (\<lambda>x. usr_TenantID x = t) rows) = ListUsersPage t l c rows"
    and "CountUsers t (filter (\<lambda>x. usr_TenantID x = t) rows) = CountUsers t rows"
proof -
  have "user_in t x \<Longrightarrow> usr_TenantID x = t" for x
    using assms by (auto simp: user_in_def)
  note own = own_rows [of "user_in t" "\<lambda>x. usr_TenantID x = t", OF this]
  show "ListUsers t (filter (\<lambda>x. usr_TenantID x = t) rows) = ListUsers t rows"
    "ListUsersPage t l c (filter (\<lambda>x. usr_TenantID x = t) rows) = ListUsersPage t l c rows"
    "CountUsers t (filter (\<lambda>x. usr_TenantID x = t) rows) = CountUsers t rows"
    by (simp_all only: ListUsers_def ListUsersPage_def CountUsers_def own)
qed

lemma view_jobs:
  assumes "t \<noteq> ''''" and "tenantOrDefault t = t"
  shows "GetJobTenant i t (filter (\<lambda>x. j_TenantID x = t) rows) = GetJobTenant i t rows"
    and "db_ListJobsPageTenant l c t (filter (\<lambda>x. j_TenantID x = t) rows) = db_ListJobsPageTenant l c t rows"
proof -
  have "job_in t x \<Longrightarrow> j_TenantID x = t" for x
    using assms by (auto simp: job_in_def)
  note own = own_rows [of "job_in t" "\<lambda>x. j_TenantID x = t", OF this]
  show "GetJobTenant i t (filter (\<lambda>x. j_TenantID x = t) rows) = GetJobTenant i t rows"
    "db_ListJobsPageTenant l c t (filter (\<lambda>x. j_TenantID x = t) rows) = db_ListJobsPageTenant l c t rows"
    by (simp_all only: GetJobTenant_def db_ListJobsPageTenant_def own)
qed

lemma view_tasks:
  fixes st :: mgmt
  assumes "t \<noteq> ''''" and "tenantOrDefault t = t"
  defines "own \<equiv> \<lambda>k. (t_ID k, t) \<in> set (job_tenants st)"
  shows "ListTasksTenant (job_tenants (restrict_to t st)) l status t (filter own rows) = ListTasksTenant (job_tenants st) l status t rows"
    and "ListTasksPageTenant (job_tenants (restrict_to t st)) l status c t (filter own rows) =
      ListTasksPageTenant (job_tenants st) l status c t rows"
    and "CountTasksTenant (job_tenants (restrict_to t st)) status t (filter own rows) = CountTasksTenant (job_tenants st) status t rows"
proof -
  have i: "in_tenant (job_tenants (restrict_to t st)) t = in_tenant (job_tenants st) t"
    using assms(1,2) by (auto simp: fun_eq_iff in_tenant_def job_tenants_def)
  then have f: "taskFilters (job_tenants (restrict_to t st)) status t = taskFilters (job_tenants st) status t"
    by (simp add: fun_eq_iff taskFilters_def)
  have "taskFilters (job_tenants st) status t k \<Longrightarrow> own k" "in_tenant (job_tenants st) t (t_ID k) \<Longrightarrow> own k" for k
    using assms by (auto simp: taskFilters_def in_tenant_def)
  note o = own_rows [of "taskFilters (job_tenants st) status t" own, OF this(1)]
    own_rows(3) [of "\<lambda>k. in_tenant (job_tenants st) t (t_ID k)" own, OF this(2)]
  show "ListTasksTenant (job_tenants (restrict_to t st)) l status t (filter own rows) = ListTasksTenant (job_tenants st) l status t rows"
    "ListTasksPageTenant (job_tenants (restrict_to t st)) l status c t (filter own rows) =
      ListTasksPageTenant (job_tenants st) l status c t rows"
    "CountTasksTenant (job_tenants (restrict_to t st)) status t (filter own rows) = CountTasksTenant (job_tenants st) status t rows"
    by (simp_all only: ListTasksTenant_def ListTasksPageTenant_def CountTasksTenant_def i f o)
qed

lemma view_events:
  assumes "t \<noteq> ''''" and "tenantOrDefault t = t"
  shows "ListJobEventsTenant i a l t (jw_jobs (mg_work (restrict_to t st))) (jw_events (mg_work (restrict_to t st))) =
    ListJobEventsTenant i a l t (jw_jobs (mg_work st)) (jw_events (mg_work st))"
proof (cases "GetJobTenant i t (jw_jobs (mg_work st))")
  case (Some j)
  then have "(i, t) \<in> set (job_tenants st)"
    using assms by (force simp: GetJobTenant_def find_Some_iff job_in_def job_tenants_def)
  then have "je_JobID e = i \<and> je_ID e > a \<Longrightarrow> (je_JobID e, t) \<in> set (job_tenants st)" for e :: JobEvent by simp
  note own = own_rows(1) [of "\<lambda>e::JobEvent. je_JobID e = i \<and> je_ID e > a" "\<lambda>e. (je_JobID e, t) \<in> set (job_tenants st)", OF this]
  show ?thesis by (simp only: ListJobEventsTenant_def restrict_to_fields view_jobs [OF assms] own)
qed (use assms in \<open>simp add: ListJobEventsTenant_def view_jobs\<close>)



subsection \<open>A server with two tenants\<close>

definition example_env :: "string mg_env" where
  "example_env = \<lparr>mv_edge = example_edge, mv_libs = plain_libs, mv_hashes = plain_hashes, mv_codecs = tiny_codecs,
     mv_text = (\<lambda>t. ''''), mv_day = (\<lambda>s. None), mv_rfc3339 = (\<lambda>s. None), mv_float = (\<lambda>s. (0, False)), mv_ci = True,
     mv_policy = (\<lambda>p. None), mv_patch_json = (\<lambda>p. ''{}''), mv_opts_json = (\<lambda>opts. ''{}''), mv_file_ok = (\<lambda>f. True),
     mv_shared = Unavailable\<rparr>"

definition two_tenants :: mgmt where
  "two_tenants = \<lparr>mg_db = True,
     mg_tokens = [example_token, example_token\<lparr>tok_ID := ''t2'', tok_TokenHash := ''$2other'', tok_TenantID := ''acme''\<rparr>],
     mg_usage = [], mg_users = [], mg_audit = (1, []),
     mg_work = \<lparr>jw_store = NewMemory, jw_jobs = [], jw_events = (1, []), jw_alerts = [], jw_tasks = [], jw_active = []\<rparr>,
     mg_sources = \<lparr>sw_mem = [], sw_db = []\<rparr>, mg_versions = [], mg_config = example_config,
     mg_cache = \<lparr>c_disk = \<lparr>pd_raw = None, pd_b64 = None, pd_clash = None, pd_meta = None\<rparr>, c_ptr = None\<rparr>,
     mg_login = NewTokenBucket 1 5\<rparr>"

lemma example_principal_valid:
  "RequestPrincipal (ed_auth (mv_edge example_env)) (150 * second) (ed_manager (mv_edge example_env)) example_session =
     Inr (session_principal example_claims)"
  by code_simp



end
