(* ===== verification/Outbound.thy ===== *)
theory Outbound
  imports Exporter
begin

text \<open>
  What a proxy core is told about a node: \<open>internal/dialer/outbound.go\<close> (sing-box),
  \<open>internal/dialer/xray.go\<close> (xray) and \<open>coreConfig\<close> of \<open>internal/dialer/dialer.go\<close>, which writes the
  configuration file of one probe for the three cores. The objects are the \<open>map[string]any\<close> values of
  theory \<open>Dynamic\<close>; JSON and YAML are codec parameters.
\<close>

subsection \<open>Helpers\<close>

datatype outbound_error = BadNode | ExternalPlugin string | Lacking string | NoSupport string | FromClash proxy_error | NoEncoding

definition nonEmptySlice :: "string \<Rightarrow> any" where
  "nonEmptySlice s = (if TrimSpace s = '''' then ANil else AList [AStr s])"

definition str_list :: "string list \<Rightarrow> any" where
  "str_list xs = AList (map AStr xs)"

abbreviation obj :: "(string \<times> any) list \<Rightarrow> any" where
  "obj kvs \<equiv> AMap (fmap_of_list kvs)"

text \<open>One item of a port list: a number, or a range \<open>left-right\<close> rewritten as \<open>left:right\<close>.\<close>

definition port_item :: "string \<Rightarrow> string option" where
  "port_item item0 = (let item = TrimSpace item0 in
     if item = '''' then None
     else (case Cut item ''-'' of
         (left, right, found) \<Rightarrow>
           if found then (if snd (Atoi (TrimSpace left)) \<and> snd (Atoi (TrimSpace right))
             then Some (TrimSpace left @ '':'' @ TrimSpace right) else None)
           else if snd (Atoi item) then Some item else None))"

definition singBoxServerPorts :: "string \<Rightarrow> string list" where
  "singBoxServerPorts v = somes (map port_item (Split CHR '','' v))"

definition singBoxHopInterval :: "string \<Rightarrow> string" where
  "singBoxHopInterval v0 = (let v = TrimSpace v0 in
     if v = '''' \<or> Contains v ''-'' then ''''
     else if snd (Atoi v) then v @ ''s'' else v)"

definition SupportsEngine :: "node option \<Rightarrow> string \<Rightarrow> bool" where
  "SupportsEngine p engine0 = (case p of None \<Rightarrow> False | Some n \<Rightarrow>
     (let engine = ToLower (TrimSpace engine0); network = ToLower (TrimSpace (n_Network n));
          clash = (engine = ''mihomo'' \<or> engine = ''both'')
      in if (network = ''xhttp'' \<or> network = ''splithttp'') \<and> \<not> clash then False
         else if n_Protocol n = ProtoSS then xget n ''plugin'' = '''' \<or> clash
         else if n_Protocol n \<in> {ProtoTrojan, ProtoVMess, ProtoVLESS} then True
         else if n_Protocol n = ProtoHysteria2 then engine \<noteq> ''xray''
         else if n_Protocol n = ProtoTUIC then engine \<noteq> ''xray'' \<and> (xget n ''token'' = '''' \<or> clash)
         else if n_Protocol n = ProtoSSR then clash
         else False))"

definition Supports :: "node option \<Rightarrow> bool" where
  "Supports p = SupportsEngine p ''mihomo''"

subsection \<open>sing-box\<close>

definition buildTransport :: "node \<Rightarrow> any option" where
  "buildTransport n = (let netw = ToLower (n_Network n);
       http = obj [(''type'', AStr ''http''), (''host'', nonEmptySlice (n_Host n)), (''path'', AStr (firstNonEmpty [n_Path n, ''/'']))]
     in if netw = '''' \<or> netw = ''tcp'' then
          (if xget n ''headerType'' = ''http'' \<or> xget n ''type'' = ''http'' then Some http else None)
        else if netw = ''ws'' \<or> netw = ''websocket'' then
          Some (obj ([(''type'', AStr ''ws''), (''path'', AStr (firstNonEmpty [n_Path n, ''/'']))] @
            (if n_Host n \<noteq> '''' then [(''headers'', obj [(''Host'', AStr (n_Host n))])] else [])))
        else if netw = ''grpc'' then
          (let svc = (if xget n ''serviceName'' = '''' then TrimPrefix (n_Path n) ''/'' else xget n ''serviceName'')
           in Some (obj [(''type'', AStr ''grpc''), (''service_name'', AStr (firstNonEmpty [svc, ''GunService'']))]))
        else if netw = ''http'' \<or> netw = ''h2'' then Some http
        else if netw = ''httpupgrade'' then
          Some (obj ([(''type'', AStr ''httpupgrade''), (''path'', AStr (firstNonEmpty [n_Path n, ''/'']))] @
            (if n_Host n \<noteq> '''' then [(''host'', AStr (n_Host n))] else [])))
        else None)"

definition utls :: "string \<Rightarrow> any" where
  "utls fp = obj [(''enabled'', ABool True), (''fingerprint'', AStr fp)]"

definition reality :: "node \<Rightarrow> any" where
  "reality n = obj [(''enabled'', ABool True), (''public_key'', AStr (xget n ''pbk'')), (''short_id'', AStr (xget n ''sid''))]"

text \<open>The entries every TLS object starts with, then fingerprint and ALPN where given.\<close>

definition tls_base :: "node \<Rightarrow> amap" where
  "tls_base n = (let m = fmap_of_list [(''enabled'', ABool True), (''server_name'', AStr (firstNonEmpty [n_SNI n, n_Host n, n_Server n]))]
     in if SkipTLSVerify (Some n) then fmupd ''insecure'' (ABool True) m else m)"

definition put_alpn :: "node \<Rightarrow> amap \<Rightarrow> amap" where
  "put_alpn n m = (if n_ALPN n \<noteq> '''' then fmupd ''alpn'' (str_list (splitCSV (n_ALPN n))) m else m)"

definition put_fp :: "node \<Rightarrow> amap \<Rightarrow> amap" where
  "put_fp n m = (if xget n ''fp'' \<noteq> '''' then fmupd ''utls'' (utls (xget n ''fp'')) m else m)"

definition put_transport :: "node \<Rightarrow> amap \<Rightarrow> amap" where
  "put_transport n m = (case buildTransport n of None \<Rightarrow> m | Some tr \<Rightarrow> fmupd ''transport'' tr m)"

definition out_base :: "node \<Rightarrow> string \<Rightarrow> amap" where
  "out_base n typ = fmap_of_list [(''type'', AStr typ), (''tag'', AStr ''proxy''), (''server'', AStr (n_Server n)),
     (''server_port'', AInt (n_Port n))]"

definition ss_outbound :: "node \<Rightarrow> outbound_error + amap" where
  "ss_outbound n = (if xget n ''plugin'' \<noteq> '''' then Inl (ExternalPlugin ''sing-box'')
     else if n_Password n = '''' then Inl (Lacking ''ss missing password'')
     else Inr (put_all [(''method'', AStr (if n_Method n = '''' then ''aes-256-gcm'' else n_Method n)),
       (''password'', AStr (n_Password n))] (out_base n ''shadowsocks'')))"

definition trojan_tls :: "node \<Rightarrow> amap" where
  "trojan_tls n = (let m = put_fp n (put_alpn n (tls_base n)) in
     if EqualFold (n_Security n) ''reality'' \<or> xget n ''pbk'' \<noteq> ''''
     then fmupd ''reality'' (reality n) (fmupd ''utls'' (utls (firstNonEmpty [xget n ''fp'', ''chrome''])) m) else m)"

definition trojan_outbound :: "node \<Rightarrow> outbound_error + amap" where
  "trojan_outbound n = (if n_Password n = '''' then Inl (Lacking ''trojan missing password'')
     else Inr (put_transport n (put_all [(''password'', AStr (n_Password n)), (''tls'', AMap (trojan_tls n))] (out_base n ''trojan''))))"

definition vmess_outbound :: "node \<Rightarrow> outbound_error + amap" where
  "vmess_outbound n = (if n_UUID n = '''' then Inl (Lacking ''vmess missing uuid'')
     else (let aid = (if xget n ''aid'' \<noteq> '''' \<and> snd (Atoi (xget n ''aid'')) then fst (Atoi (xget n ''aid'')) else 0);
         o0 = put_all [(''uuid'', AStr (n_UUID n)), (''security'', AStr (if n_Method n = '''' then ''auto'' else n_Method n)),
           (''alter_id'', AInt aid)] (out_base n ''vmess'');
         o1 = (if n_TLS n \<or> n_Security n = ''tls'' then fmupd ''tls'' (AMap (put_alpn n (put_fp n (tls_base n)))) o0 else o0)
       in Inr (put_transport n o1)))"

definition vless_tls :: "node \<Rightarrow> string \<Rightarrow> amap" where
  "vless_tls n sec = (let m = fmupd ''utls'' (utls (if xget n ''fp'' \<noteq> '''' then xget n ''fp'' else ''chrome'')) (tls_base n);
       m = (if sec = ''reality'' \<or> xget n ''pbk'' \<noteq> '''' then fmupd ''reality'' (reality n) m else m)
     in put_alpn n m)"

definition vless_outbound :: "node \<Rightarrow> outbound_error + amap" where
  "vless_outbound n = (if n_UUID n = '''' then Inl (Lacking ''vless missing uuid'')
     else (let o0 = put_str ''flow'' (n_Flow n) (fmupd ''uuid'' (AStr (n_UUID n)) (out_base n ''vless''));
         sec = ToLower (n_Security n);
         o1 = (if n_TLS n \<or> sec = ''tls'' \<or> sec = ''reality'' then fmupd ''tls'' (AMap (vless_tls n sec)) o0 else o0)
       in Inr (put_transport n o1)))"

definition hysteria2_outbound :: "node \<Rightarrow> outbound_error + amap" where
  "hysteria2_outbound n = (if n_Password n = '''' then Inl (Lacking ''hysteria2 missing password'')
     else (let o0 = fmupd ''password'' (AStr (n_Password n)) (out_base n ''hysteria2'');
         ports = singBoxServerPorts (xget n ''ports'');
         o1 = (if ports \<noteq> [] then fmupd ''server_ports'' (str_list ports) (fmdrop ''server_port'' o0) else o0);
         o2 = put_str ''hop_interval'' (singBoxHopInterval (xget n ''hop-interval'')) o1;
         o3 = fmupd ''tls'' (AMap (put_fp n (put_alpn n (tls_base n)))) o2
       in Inr (if xget n ''obfs'' \<noteq> ''''
           then fmupd ''obfs'' (obj [(''type'', AStr (xget n ''obfs'')), (''password'', AStr (xget n ''obfs-password''))]) o3 else o3)))"

definition tuic_outbound :: "node \<Rightarrow> outbound_error + amap" where
  "tuic_outbound n = (if n_UUID n = '''' \<or> n_Password n = '''' then Inl (Lacking ''tuic missing uuid/password'')
     else Inr (put_all [(''uuid'', AStr (n_UUID n)), (''password'', AStr (n_Password n)),
       (''congestion_control'', AStr (firstNonEmpty [xget n ''congestion_control'', ''cubic''])),
       (''udp_relay_mode'', AStr (firstNonEmpty [xget n ''udp_relay_mode'', ''native''])),
       (''tls'', AMap (put_fp n (put_alpn n (tls_base n))))] (out_base n ''tuic'')))"

definition BuildOutbound :: "node option \<Rightarrow> outbound_error + amap" where
  "BuildOutbound p = (case p of None \<Rightarrow> Inl BadNode | Some n \<Rightarrow>
     if \<not> IsValid (Some n) then Inl BadNode
     else if n_Protocol n = ProtoSS then ss_outbound n
     else if n_Protocol n = ProtoTrojan then trojan_outbound n
     else if n_Protocol n = ProtoVMess then vmess_outbound n
     else if n_Protocol n = ProtoVLESS then vless_outbound n
     else if n_Protocol n = ProtoHysteria2 then hysteria2_outbound n
     else if n_Protocol n = ProtoTUIC then tuic_outbound n
     else Inl (NoSupport (n_Protocol n)))"

subsection \<open>xray\<close>

definition server_list :: "string \<Rightarrow> (string \<times> any) list \<Rightarrow> node \<Rightarrow> any" where
  "server_list k kvs n = obj [(k, AList [obj ([(''address'', AStr (n_Server n)), (''port'', AInt (n_Port n))] @ kvs)])]"

definition xray_settings :: "node \<Rightarrow> outbound_error + string \<times> any" where
  "xray_settings n =
     (if n_Protocol n = ProtoSS then
        (if xget n ''plugin'' \<noteq> '''' then Inl (ExternalPlugin ''xray'')
         else if n_Password n = '''' then Inl (Lacking ''ss missing password'')
         else Inr (''shadowsocks'', server_list ''servers'' [(''method'', AStr (firstNonEmpty [n_Method n, ''aes-256-gcm''])),
           (''password'', AStr (n_Password n))] n))
      else if n_Protocol n = ProtoTrojan then
        (if n_Password n = '''' then Inl (Lacking ''trojan missing password'')
         else Inr (''trojan'', server_list ''servers'' [(''password'', AStr (n_Password n))] n))
      else if n_Protocol n = ProtoVMess then
        (if n_UUID n = '''' then Inl (Lacking ''vmess missing uuid'')
         else Inr (''vmess'', server_list ''vnext'' [(''users'', AList [obj [(''id'', AStr (n_UUID n)),
           (''alterId'', AInt (fst (Atoi (xget n ''aid'')))), (''security'', AStr (firstNonEmpty [n_Method n, ''auto'']))]])] n))
      else if n_Protocol n = ProtoVLESS then
        (if n_UUID n = '''' then Inl (Lacking ''vless missing uuid'')
         else Inr (''vless'', server_list ''vnext'' [(''users'', AList [AMap (put_str ''flow'' (n_Flow n)
           (fmap_of_list [(''id'', AStr (n_UUID n)), (''encryption'', AStr ''none'')]))])] n))
      else Inl (NoSupport (n_Protocol n)))"

definition xray_network :: "node \<Rightarrow> amap" where
  "xray_network n = (let net0 = ToLower (firstNonEmpty [n_Network n, ''tcp'']); network = (if net0 = ''websocket'' then ''ws'' else net0);
       stream = fmap_of_list [(''network'', AStr network)]
     in if network = ''ws'' then fmupd ''wsSettings'' (obj [(''path'', AStr (firstNonEmpty [n_Path n, ''/''])),
          (''headers'', obj (if n_Host n \<noteq> '''' then [(''Host'', AStr (n_Host n))] else []))]) stream
        else if network = ''grpc'' then fmupd ''grpcSettings'' (obj [(''serviceName'',
          AStr (firstNonEmpty [xget n ''serviceName'', TrimPrefix (n_Path n) ''/'', ''GunService'']))]) stream
        else if network = ''http'' \<or> network = ''h2'' then put_all [(''network'', AStr ''h2''),
          (''httpSettings'', obj [(''host'', nonEmptySlice (n_Host n)), (''path'', AStr (firstNonEmpty [n_Path n, ''/'']))])] stream
        else stream)"

definition buildXrayStream :: "node \<Rightarrow> amap" where
  "buildXrayStream n = (let stream = xray_network n; security = ToLower (n_Security n);
       named = [(''serverName'', AStr (firstNonEmpty [n_SNI n, n_Host n, n_Server n])),
         (''fingerprint'', AStr (firstNonEmpty [xget n ''fp'', ''chrome'']))]
     in if security = ''reality'' \<or> xget n ''pbk'' \<noteq> '''' then
          put_all [(''security'', AStr ''reality''), (''realitySettings'',
            obj (named @ [(''publicKey'', AStr (xget n ''pbk'')), (''shortId'', AStr (xget n ''sid''))]))] stream
        else if n_TLS n \<or> security = ''tls'' \<or> n_Protocol n = ProtoTrojan then
          put_all [(''security'', AStr ''tls''), (''tlsSettings'', AMap (put_alpn n
            (if SkipTLSVerify (Some n) then fmupd ''allowInsecure'' (ABool True) (fmap_of_list named) else fmap_of_list named)))] stream
        else stream)"

definition BuildXrayOutbound :: "node option \<Rightarrow> outbound_error + amap" where
  "BuildXrayOutbound p = (case p of None \<Rightarrow> Inl BadNode | Some n \<Rightarrow>
     if \<not> IsValid (Some n) then Inl BadNode
     else (case xray_settings n of Inl e \<Rightarrow> Inl e
       | Inr (protocol, settings) \<Rightarrow>
          (let o0 = fmap_of_list [(''tag'', AStr ''proxy''), (''protocol'', AStr protocol), (''settings'', settings)];
               stream = buildXrayStream n
           in Inr (if stream \<noteq> fmempty then fmupd ''streamSettings'' (AMap stream) o0 else o0))))"

subsection \<open>The configuration file of a probe\<close>

definition mihomo_config :: "amap \<Rightarrow> int \<Rightarrow> amap" where
  "mihomo_config proxy port = fmap_of_list [(''mixed-port'', AInt port), (''allow-lan'', ABool False), (''mode'', AStr ''rule''),
     (''log-level'', AStr ''error''), (''ipv6'', ABool True), (''unified-delay'', ABool True), (''proxies'', AList [AMap proxy]),
     (''proxy-groups'', AList [obj [(''name'', AStr ''nodeharvest-probe''), (''type'', AStr ''select''),
       (''proxies'', str_list [''nodeharvest-proxy''])]]), (''rules'', str_list [''MATCH,nodeharvest-probe''])]"

definition xray_config :: "amap \<Rightarrow> int \<Rightarrow> string \<Rightarrow> amap" where
  "xray_config outbound port logPath = fmap_of_list [(''log'', obj [(''loglevel'', AStr ''warning''), (''error'', AStr logPath)]),
     (''inbounds'', AList [obj [(''listen'', AStr ''127.0.0.1''), (''port'', AInt port), (''protocol'', AStr ''socks''),
       (''settings'', obj [(''auth'', AStr ''noauth''), (''udp'', ABool True)])]]), (''outbounds'', AList [AMap outbound])]"

definition singbox_config :: "amap \<Rightarrow> int \<Rightarrow> string \<Rightarrow> amap" where
  "singbox_config outbound port logPath = fmap_of_list [(''log'', obj [(''level'', AStr ''error''), (''output'', AStr logPath)]),
     (''inbounds'', AList [obj [(''type'', AStr ''socks''), (''tag'', AStr ''socks-in''), (''listen'', AStr ''127.0.0.1''),
       (''listen_port'', AInt port)]]),
     (''outbounds'', AList [AMap outbound, obj [(''type'', AStr ''direct''), (''tag'', AStr ''direct'')]]),
     (''route'', obj [(''final'', AStr ''proxy'')])]"

definition encoded :: "(any \<Rightarrow> string option) \<Rightarrow> amap \<Rightarrow> outbound_error + string" where
  "encoded marshal m = (case marshal (AMap m) of None \<Rightarrow> Inl NoEncoding | Some raw \<Rightarrow> Inr raw)"

definition coreConfig :: "codecs \<Rightarrow> string \<Rightarrow> node \<Rightarrow> int \<Rightarrow> string \<Rightarrow> outbound_error + string" where
  "coreConfig c engine n port logPath =
     (if engine = ''mihomo'' then (case BuildClashProxy c (Some n) ''nodeharvest-proxy'' of Inl e \<Rightarrow> Inl (FromClash e)
        | Inr proxy \<Rightarrow> encoded (yaml_Marshal c) (mihomo_config proxy port))
      else if engine = ''xray'' then (case BuildXrayOutbound (Some n) of Inl e \<Rightarrow> Inl e
        | Inr outbound \<Rightarrow> encoded (json_Marshal c) (xray_config outbound port logPath))
      else (case BuildOutbound (Some n) of Inl e \<Rightarrow> Inl e
        | Inr outbound \<Rightarrow> encoded (json_Marshal c) (singbox_config outbound port logPath)))"


subsection \<open>Supported nodes get a configuration\<close>

text \<open>The secrets a protocol cannot do without.\<close>

definition credentials :: "node \<Rightarrow> bool" where
  "credentials n \<longleftrightarrow>
     (n_Protocol n \<in> {ProtoSS, ProtoTrojan, ProtoHysteria2} \<longrightarrow> n_Password n \<noteq> '''') \<and>
     (n_Protocol n \<in> {ProtoVMess, ProtoVLESS} \<longrightarrow> n_UUID n \<noteq> '''') \<and>
     (n_Protocol n = ProtoTUIC \<longrightarrow> n_UUID n \<noteq> '''' \<and> n_Password n \<noteq> '''')"

definition dials :: "node \<Rightarrow> amap \<Rightarrow> bool" where
  "dials n out \<longleftrightarrow> fmlookup out ''tag'' = Some (AStr ''proxy'') \<and> fmlookup out ''server'' = Some (AStr (n_Server n)) \<and>
     (fmlookup out ''server_port'' = Some (AInt (n_Port n)) \<or>
      singBoxServerPorts (xget n ''ports'') \<noteq> [] \<and>
      fmlookup out ''server_ports'' = Some (str_list (singBoxServerPorts (xget n ''ports''))))"

lemma dials_base: "dials n (out_base n typ)"
  by (simp add: dials_def out_base_def)

lemma dials_upd:
  "dials n out \<Longrightarrow> k \<notin> {''tag'', ''server'', ''server_port'', ''server_ports''} \<Longrightarrow> dials n (fmupd k v out)"
  by (auto simp: dials_def)

lemma dials_transport: "dials n out \<Longrightarrow> dials n (put_transport n out)"
  by (simp add: put_transport_def dials_upd split: option.split)

lemma dials_put_str:
  "dials n out \<Longrightarrow> k \<notin> {''tag'', ''server'', ''server_port'', ''server_ports''} \<Longrightarrow> dials n (put_str k v out)"
  by (simp add: put_str_def dials_upd)

lemma dials_ports: "dials n out \<Longrightarrow> ps = singBoxServerPorts (xget n ''ports'') \<Longrightarrow> ps \<noteq> [] \<Longrightarrow>
    dials n (fmupd ''server_ports'' (str_list ps) (fmdrop ''server_port'' out))"
  by (simp add: dials_def)

lemmas dials_intros = dials_base dials_upd dials_transport dials_put_str dials_ports

lemma outbound_dials: "BuildOutbound (Some n) = Inr out \<Longrightarrow> dials n out"
  by (auto simp: BuildOutbound_def ss_outbound_def trojan_outbound_def vmess_outbound_def vless_outbound_def
      hysteria2_outbound_def tuic_outbound_def Let_def dials_intros split: if_splits)

lemma singbox_outcome:
  assumes "IsValid (Some n)" and "SupportsEngine (Some n) ''sing-box''"
  shows "case BuildOutbound (Some n) of Inl e \<Rightarrow> \<not> credentials n \<and> (\<exists>msg. e = Lacking msg) | Inr out \<Rightarrow> credentials n"
  using assms
  by (auto simp: BuildOutbound_def SupportsEngine_def ss_outbound_def trojan_outbound_def vmess_outbound_def vless_outbound_def
      hysteria2_outbound_def tuic_outbound_def credentials_def Let_def go_defs split: if_splits)

lemma xray_outcome:
  assumes "IsValid (Some n)" and "SupportsEngine (Some n) ''xray''"
  shows "case BuildXrayOutbound (Some n) of Inl e \<Rightarrow> \<not> credentials n \<and> (\<exists>msg. e = Lacking msg)
    | Inr out \<Rightarrow> credentials n \<and> fmlookup out ''tag'' = Some (AStr ''proxy'')"
  using assms
  by (auto simp: BuildXrayOutbound_def SupportsEngine_def xray_settings_def credentials_def Let_def go_defs split: if_splits)


text \<open>
  C34. A valid node that an engine supports fails to get a probe configuration for one reason only:
  it lacks the secret its protocol needs (password, uuid or both), and the error says so. Every other
  supported node gets one, and the sing-box configuration connects to the node's own server, at its
  port or at the port ranges it announces.
\<close>

theorem core_config_ok:
  assumes "IsValid (Some n)" and "SupportsEngine (Some n) engine" and "engine = ''sing-box'' \<or> engine = ''xray''"
    and "\<forall>m. json_Marshal c (AMap m) \<noteq> None"
  shows "case coreConfig c engine n port logPath of
      Inl e \<Rightarrow> \<not> credentials n \<and> (\<exists>msg. e = Lacking msg)
    | Inr raw \<Rightarrow> credentials n \<and> (engine = ''sing-box'' \<longrightarrow>
        (\<exists>out. dials n out \<and> json_Marshal c (AMap (singbox_config out port logPath)) = Some raw))"
proof -
  have enc: "\<exists>raw. encoded (json_Marshal c) m = Inr raw \<and> json_Marshal c (AMap m) = Some raw" for m
    using spec [OF assms(4), of m] by (auto simp: encoded_def)
  show ?thesis
  proof (cases "engine = ''xray''")
    case e: True
    show ?thesis
    proof (cases "BuildXrayOutbound (Some n)")
      case (Inl err)
      then show ?thesis using xray_outcome [of n] assms(1,2) e by (simp add: coreConfig_def)
    next
      case (Inr out)
      obtain raw where "encoded (json_Marshal c) (xray_config out port logPath) = Inr raw" using enc by blast
      moreover have "credentials n" using xray_outcome [of n] assms(1,2) e Inr by simp
      ultimately show ?thesis using Inr e by (simp add: coreConfig_def)
    qed
  next
    case False
    with assms(3) have e: "engine = ''sing-box''" by simp
    show ?thesis
    proof (cases "BuildOutbound (Some n)")
      case (Inl err)
      then show ?thesis using singbox_outcome [of n] assms(1,2) e by (simp add: coreConfig_def)
    next
      case (Inr out)
      obtain raw where "encoded (json_Marshal c) (singbox_config out port logPath) = Inr raw"
        "json_Marshal c (AMap (singbox_config out port logPath)) = Some raw" using enc by blast
      moreover have "credentials n" "dials n out"
        using singbox_outcome [of n] assms(1,2) e Inr outbound_dials by simp_all
      ultimately show ?thesis using Inr e by (auto simp: coreConfig_def)
    qed
  qed
qed

definition ss_node :: node where
  "ss_node = example_node\<lparr>n_Protocol := ProtoSS, n_Server := ''h'', n_Port := 443, n_Password := ''secret'', n_Extra := [], n_Network := ''''\<rparr>"

theorem core_config_ok_witness:
  "\<exists>raw. coreConfig tiny_codecs ''sing-box'' ss_node 19000 ''log'' = Inr raw"
proof -
  have v: "IsValid (Some ss_node)" "SupportsEngine (Some ss_node) ''sing-box''"
    by (simp_all add: IsValid_def SupportsEngine_def ss_node_def gget_def Let_def go_defs)
  have c: "\<forall>m. json_Marshal tiny_codecs (AMap m) \<noteq> None" by (simp add: tiny_codecs_def)
  have "credentials ss_node" by (simp add: credentials_def ss_node_def)
  with core_config_ok [OF v _ c, of 19000 "''log''"] show ?thesis by (auto split: sum.splits)
qed

end
