(* ===== verification/Dialer.thy ===== *)
theory Dialer
  imports Outbound
begin

text \<open>
  The probe of a node through a real proxy core: \<open>internal/dialer/dialer.go\<close>. What the operating system
  and the network answer is an argument: which programs exist, which ports are free, how a started core
  behaves and what the request through it returns. One goroutine per node writes only its own node, so
  a run of \<open>TestAll\<close> is one test per node.
\<close>

subsection \<open>Finding the core\<close>

record files =
  look_path :: "string \<Rightarrow> string option"
  file_exists :: "string \<Rightarrow> bool"

datatype bin_error = UnsupportedEngine string | BinaryMissing string string | NoBinary string | NoWorkDir

definition filepath_Base :: "string \<Rightarrow> string" where
  "filepath_Base p = (if p = '''' then ''.'' else (let q = TrimRight p ''/'' in
     if q = '''' then ''/'' else last (Split CHR ''/'' q)))"

definition engine_of_name :: "string \<Rightarrow> string" where
  "engine_of_name bin = (let base = ToLower (filepath_Base bin) in
     if Contains base ''mihomo'' \<or> Contains base ''clash-meta'' then ''mihomo''
     else if Contains base ''xray'' then ''xray'' else ''sing-box'')"

definition core_candidates :: "string \<Rightarrow> (string \<times> string) list" where
  "core_candidates engine =
     (if engine = ''xray'' then
        [(''xray'', ''xray''), (''/usr/local/bin/xray'', ''xray''), (''/usr/bin/xray'', ''xray''),
         (''/opt/nodeharvest/bin/xray'', ''xray''), (''/app/bin/xray'', ''xray'')]
      else if engine = ''mihomo'' then
        [(''mihomo'', ''mihomo''), (''clash-meta'', ''mihomo''), (''/usr/local/bin/mihomo'', ''mihomo''),
         (''/usr/bin/mihomo'', ''mihomo''), (''/opt/nodeharvest/bin/mihomo'', ''mihomo''), (''/app/bin/mihomo'', ''mihomo'')]
      else if engine = ''sing-box'' then
        [(''sing-box'', ''sing-box''), (''/usr/local/bin/sing-box'', ''sing-box''), (''/usr/bin/sing-box'', ''sing-box''),
         (''/opt/sing-box/sing-box'', ''sing-box''), (''/opt/nodeharvest/bin/sing-box'', ''sing-box''), (''/app/bin/sing-box'', ''sing-box'')]
      else
        [(''sing-box'', ''sing-box''), (''mihomo'', ''mihomo''), (''clash-meta'', ''mihomo''), (''xray'', ''xray''),
         (''/usr/local/bin/sing-box'', ''sing-box''), (''/usr/bin/sing-box'', ''sing-box''), (''/usr/local/bin/mihomo'', ''mihomo''),
         (''/usr/bin/mihomo'', ''mihomo''), (''/usr/local/bin/xray'', ''xray''), (''/opt/sing-box/sing-box'', ''sing-box''),
         (''/opt/nodeharvest/bin/sing-box'', ''sing-box''), (''/opt/nodeharvest/bin/mihomo'', ''mihomo''),
         (''/app/bin/sing-box'', ''sing-box''), (''/app/bin/mihomo'', ''mihomo'')])"

fun first_found :: "files \<Rightarrow> (string \<times> string) list \<Rightarrow> (string \<times> string) option" where
  "first_found fs [] = None"
| "first_found fs ((path, eng) # cs) = (case look_path fs path of Some p \<Rightarrow> Some (p, eng)
     | None \<Rightarrow> if file_exists fs path then Some (path, eng) else first_found fs cs)"

definition asked_engine :: "string \<Rightarrow> string" where
  "asked_engine engine = (let e = ToLower (TrimSpace engine) in if e = ''auto'' then '''' else e)"

definition known_engines :: "string list" where
  "known_engines = [''sing-box'', ''xray'', ''mihomo'']"

definition resolveBinary :: "files \<Rightarrow> string \<Rightarrow> string \<Rightarrow> bin_error + string \<times> string" where
  "resolveBinary fs bin engine0 = (let engine = asked_engine engine0 in
     if engine \<noteq> '''' \<and> engine \<notin> set known_engines then Inl (UnsupportedEngine engine)
     else if bin \<noteq> '''' then
       (if file_exists fs bin then Inr (bin, if engine = '''' then engine_of_name bin else engine)
        else Inl (BinaryMissing (firstNonEmpty [engine, ''dial'']) bin))
     else (case first_found fs (core_candidates engine) of Some found \<Rightarrow> Inr found
       | None \<Rightarrow> Inl (NoBinary (firstNonEmpty [engine, ''sing-box/mihomo/xray'']))))"

definition Available :: "files \<Rightarrow> bin_error + string \<times> string" where
  "Available fs = resolveBinary fs '''' ''auto''"

definition AvailableFor :: "files \<Rightarrow> string \<Rightarrow> string \<Rightarrow> bin_error + string \<times> string" where
  "AvailableFor fs bin engine = resolveBinary fs bin engine"

lemma first_found_in: "first_found fs cs = Some (p, e) \<Longrightarrow> e \<in> snd ` set cs"
  by (induction fs cs rule: first_found.induct) (auto split: option.splits if_splits)

lemma candidate_engines:
  "e \<in> snd ` set (core_candidates engine) \<Longrightarrow> e \<in> set known_engines \<and> (engine \<in> set known_engines \<longrightarrow> e = engine)"
  by (auto simp: core_candidates_def known_engines_def split: if_splits)

text \<open>The engine that runs is one the program knows, and the one asked for unless any will do.\<close>

lemma resolveBinary_engine:
  assumes "resolveBinary fs bin engine = Inr (p, e)"
  shows "e \<in> set known_engines \<and> (asked_engine engine \<noteq> '''' \<longrightarrow> e = asked_engine engine)"
proof (cases "bin = ''''")
  case True
  with assms have "first_found fs (core_candidates (asked_engine engine)) = Some (p, e)"
    "asked_engine engine \<noteq> '''' \<longrightarrow> asked_engine engine \<in> set known_engines"
    by (auto simp: resolveBinary_def Let_def split: if_splits option.splits)
  then show ?thesis using first_found_in candidate_engines by blast
next
  case False
  have "engine_of_name bin \<in> set known_engines" by (simp add: engine_of_name_def known_engines_def Let_def)
  with assms False show ?thesis by (auto simp: resolveBinary_def Let_def split: if_splits)
qed

subsection \<open>A dialer\<close>

record dial_options =
  do_Bin :: string
  do_Engine :: string
  do_Concurrency :: int
  do_Timeout :: duration
  do_TestURL :: string
  do_DownloadBytes :: int
  do_WorkDir :: string
  do_BasePort :: int

record dialer =
  dr_opts :: dial_options
  dr_bin :: string
  dr_engine :: string
  dr_next :: int

definition dial_defaults :: "string \<Rightarrow> dial_options \<Rightarrow> dial_options" where
  "dial_defaults tmp o0 = \<lparr>do_Bin = do_Bin o0, do_Engine = do_Engine o0,
     do_Concurrency = (if do_Concurrency o0 \<le> 0 then 4 else do_Concurrency o0),
     do_Timeout = (if do_Timeout o0 \<le> 0 then 18 * second else do_Timeout o0),
     do_TestURL = (if do_TestURL o0 = '''' then ''https://www.cloudflare.com/cdn-cgi/trace'' else do_TestURL o0),
     do_DownloadBytes = (if do_DownloadBytes o0 \<le> 0 then 262144 else do_DownloadBytes o0),
     do_WorkDir = (if do_WorkDir o0 = '''' then tmp @ ''/nodeharvest-dial'' else do_WorkDir o0),
     do_BasePort = (if do_BasePort o0 \<le> 0 then 19000 else do_BasePort o0)\<rparr>"

text \<open>\<open>made\<close> says whether the work directory could be created.\<close>

definition dialer_New :: "files \<Rightarrow> string \<Rightarrow> bool \<Rightarrow> dial_options \<Rightarrow> bin_error + dialer" where
  "dialer_New fs tmp made o0 = (let opts = dial_defaults tmp o0 in
     if \<not> made then Inl NoWorkDir
     else (case resolveBinary fs (do_Bin opts) (do_Engine opts) of Inl e \<Rightarrow> Inl e
       | Inr (bin, engine) \<Rightarrow> Inr \<lparr>dr_opts = opts, dr_bin = bin, dr_engine = engine, dr_next = do_BasePort opts\<rparr>))"

text \<open>The loop of \<open>allocPort\<close>: \<open>width\<close> is the width of the port range, \<open>free\<close> which ports can be bound.\<close>

fun port_loop :: "(int \<Rightarrow> bool) \<Rightarrow> int \<Rightarrow> int \<Rightarrow> nat \<Rightarrow> int \<Rightarrow> int option \<times> int" where
  "port_loop free base width 0 nxt = (None, nxt)"
| "port_loop free base width (Suc k) nxt =
     (let after = (if nxt + 1 > base + width then base else nxt + 1)
      in if free nxt then (Some nxt, after) else port_loop free base width k after)"

definition allocPort :: "(int \<Rightarrow> bool) \<Rightarrow> int \<Rightarrow> dialer \<Rightarrow> int \<times> dialer" where
  "allocPort free nanos d = (let base = do_BasePort (dr_opts d) in
     case port_loop free base 5000 200 (dr_next d) of
       (Some p, nxt) \<Rightarrow> (p, d\<lparr>dr_next := nxt\<rparr>)
     | (None, nxt) \<Rightarrow> (base + nanos mod 3000, d\<lparr>dr_next := nxt\<rparr>))"

lemma port_loop_range:
  assumes "base \<le> nxt" and "nxt \<le> base + width" and "port_loop free base width k nxt = (p, nxt')"
  shows "base \<le> nxt' \<and> nxt' \<le> base + width \<and> (\<forall>q. p = Some q \<longrightarrow> base \<le> q \<and> q \<le> base + width \<and> free q)"
  using assms
proof (induction k arbitrary: nxt)
  case (Suc k)
  let ?after = "if nxt + 1 > base + width then base else nxt + 1"
  have r: "base \<le> ?after" "?after \<le> base + width" using Suc.prems(1,2) by auto
  show ?case
  proof (cases "free nxt")
    case True
    with Suc.prems r show ?thesis by (auto simp: Let_def)
  next
    case False
    with Suc.prems(3) show ?thesis using Suc.IH [OF r] by (simp add: Let_def)
  qed
qed auto

text \<open>Within 200 attempts a free port is found when one of the next 200 is free.\<close>

lemma port_loop_finds:
  assumes "base \<le> nxt" and "nxt + int j \<le> base + width" and "j < k" and "free (nxt + int j)"
  shows "fst (port_loop free base width k nxt) \<noteq> None"
  using assms
proof (induction j arbitrary: k nxt)
  case 0
  then obtain k' where "k = Suc k'" by (cases k) auto
  with 0 show ?case by (simp add: Let_def)
next
  case (Suc j)
  then obtain k' where k: "k = Suc k'" by (cases k) auto
  have "fst (port_loop free base width k' (nxt + 1)) \<noteq> None"
    by (rule Suc.IH) (use Suc.prems k in \<open>auto simp: algebra_simps\<close>)
  moreover have "\<not> nxt + 1 > base + width" using Suc.prems(2) by simp
  ultimately show ?case using k by (simp add: Let_def)
qed

subsection \<open>One test\<close>

record httpMeasurement =
  hm_StatusCode :: int
  hm_HeaderMS :: int
  hm_TotalMS :: int
  hm_Bytes :: int
  hm_ThroughputBPS :: int

text \<open>What the client and the body reader return, with the clock readings.\<close>

record http_io =
  hi_err :: "string option"
  hi_header_ms :: int
  hi_status :: int
  hi_bytes :: int
  hi_copy_err :: "string option"
  hi_body_ns :: int
  hi_total_ms :: int

definition measureHTTP :: "int \<Rightarrow> http_io \<Rightarrow> httpMeasurement \<times> string option" where
  "measureHTTP maxBytes io = (case hi_err io of
     Some e \<Rightarrow> (\<lparr>hm_StatusCode = 0, hm_HeaderMS = hi_header_ms io, hm_TotalMS = hi_header_ms io, hm_Bytes = 0, hm_ThroughputBPS = 0\<rparr>, Some e)
   | None \<Rightarrow> (let bytes = min (hi_bytes io) maxBytes
       in (\<lparr>hm_StatusCode = hi_status io, hm_HeaderMS = hi_header_ms io, hm_TotalMS = hi_total_ms io, hm_Bytes = bytes,
           hm_ThroughputBPS = (if bytes > 0 then quot (wrap64 (bytes * second)) (max (hi_body_ns io) 1) else 0)\<rparr>, hi_copy_err io)))"

text \<open>How far a started probe gets.\<close>

datatype core_run = NoProbeDir string | NoConfigFile string | CoreNotStarted string | SocksNotReady | SocksTimeout
  | NoSocksDialer string | NoRequest string | Answered http_io

definition replaceTag :: "string list \<Rightarrow> string \<Rightarrow> string \<Rightarrow> string list" where
  "replaceTag tags remove add = filter (\<lambda>t. t \<noteq> remove \<and> t \<noteq> add) tags @ [add]"

definition appendCoreError :: "string option \<Rightarrow> DialFields \<Rightarrow> DialFields" where
  "appendCoreError written r = (if dial_OK r \<or> dial_Error r = '''' then r
     else (case written of None \<Rightarrow> r
       | Some body0 \<Rightarrow> (let body = (if length body0 > 500 then drop (length body0 - 500) body0 else body0); msg = TrimSpace body
           in if msg \<noteq> '''' \<and> \<not> Contains (dial_Error r) msg then r\<lparr>dial_Error := dial_Error r @ '' | '' @ msg\<rparr> else r)))"

definition canceled_result :: "string \<Rightarrow> time \<Rightarrow> DialResult" where
  "canceled_result engine now = DialResult \<lparr>dial_OK = False, dial_LatencyMS = 0, dial_StatusCode = 0, dial_Target = '''',
     dial_Engine = engine, dial_HTTPMS = 0, dial_DownloadBytes = 0, dial_ThroughputBPS = 0, dial_Error = ''canceled'',
     dial_TestedAt = now\<rparr> []"

definition markCanceled :: "time \<Rightarrow> string \<Rightarrow> node \<Rightarrow> node" where
  "markCanceled now engine n = n\<lparr>n_Dial := Some (canceled_result engine now), n_Verified := False,
     n_Tags := replaceTag (n_Tags n) ''verified'' ''dial-fail''\<rparr>"

definition status_ok :: "int \<Rightarrow> bool" where
  "status_ok code \<longleftrightarrow> 200 \<le> code \<and> code < 400"

text \<open>The request through the core, once its SOCKS port answers.\<close>

definition answered :: "int \<Rightarrow> http_io \<Rightarrow> DialFields \<Rightarrow> DialFields" where
  "answered maxBytes io r0 = (case measureHTTP maxBytes io of (m, err) \<Rightarrow>
     (let r = r0\<lparr>dial_LatencyMS := hm_HeaderMS m, dial_HTTPMS := hm_TotalMS m, dial_DownloadBytes := hm_Bytes m,
          dial_ThroughputBPS := hm_ThroughputBPS m\<rparr>
      in case err of Some e \<Rightarrow> r\<lparr>dial_Error := e\<rparr>
         | None \<Rightarrow> (let r = r\<lparr>dial_StatusCode := hm_StatusCode m\<rparr>
             in if status_ok (hm_StatusCode m) then r\<lparr>dial_OK := True\<rparr>
                else r\<lparr>dial_Error := ''http '' @ itoa (hm_StatusCode m)\<rparr>)))"

definition core_result :: "dialer \<Rightarrow> core_run \<Rightarrow> DialFields \<Rightarrow> DialFields" where
  "core_result d run r = (case run of
     NoProbeDir e \<Rightarrow> r
   | NoConfigFile e \<Rightarrow> r\<lparr>dial_Error := ''write config: '' @ e\<rparr>
   | CoreNotStarted e \<Rightarrow> r\<lparr>dial_Error := ''start '' @ dr_engine d @ '': '' @ e\<rparr>
   | SocksNotReady \<Rightarrow> r\<lparr>dial_Error := ''socks not ready''\<rparr>
   | SocksTimeout \<Rightarrow> r\<lparr>dial_Error := ''timeout waiting socks''\<rparr>
   | NoSocksDialer e \<Rightarrow> r\<lparr>dial_Error := ''socks dialer: '' @ e\<rparr>
   | NoRequest e \<Rightarrow> r\<lparr>dial_Error := e\<rparr>
   | Answered io \<Rightarrow> answered (do_DownloadBytes (dr_opts d)) io r)"

text \<open>
  One probe: the time it starts, its port, log path, course and log text; \<open>text\<close> prints the errors of
  the configuration builders.
\<close>

record probe =
  pb_start :: time
  pb_port :: int
  pb_logPath :: string
  pb_run :: core_run
  pb_log :: "string option"

definition dial_outcome :: "codecs \<Rightarrow> (outbound_error \<Rightarrow> string) \<Rightarrow> dialer \<Rightarrow> probe \<Rightarrow> node \<Rightarrow> DialFields" where
  "dial_outcome c text d pb n =
     (let r = \<lparr>dial_OK = False, dial_LatencyMS = 0, dial_StatusCode = 0, dial_Target = do_TestURL (dr_opts d),
            dial_Engine = dr_engine d, dial_HTTPMS = 0, dial_DownloadBytes = 0, dial_ThroughputBPS = 0, dial_Error = '''',
            dial_TestedAt = pb_start pb\<rparr>
      in if \<not> SupportsEngine (Some n) (dr_engine d) then r\<lparr>dial_Error := ''unsupported protocol''\<rparr>
         else (case pb_run pb of NoProbeDir e \<Rightarrow> r\<lparr>dial_Error := ''create probe directory: '' @ e\<rparr>
           | run \<Rightarrow> appendCoreError (pb_log pb)
               (case coreConfig c (dr_engine d) n (pb_port pb) (pb_logPath pb) of Inl e \<Rightarrow> r\<lparr>dial_Error := text e\<rparr>
                | Inr raw \<Rightarrow> core_result d run r)))"

definition store_dial :: "DialFields \<Rightarrow> node \<Rightarrow> node" where
  "store_dial r n = (let n = n\<lparr>n_Dial := Some (DialResult r []), n_Verified := dial_OK r\<rparr> in
     if dial_OK r then n\<lparr>n_Latency := (if dial_LatencyMS r > 0 then wrap64 (dial_LatencyMS r * millisecond) else n_Latency n),
       n_Alive := True, n_Tags := replaceTag (n_Tags n) ''dial-fail'' ''verified''\<rparr>
     else n\<lparr>n_Tags := replaceTag (n_Tags n) ''verified'' ''dial-fail''\<rparr>)"

definition dial_testOne :: "codecs \<Rightarrow> (outbound_error \<Rightarrow> string) \<Rightarrow> dialer \<Rightarrow> probe \<Rightarrow> node \<Rightarrow> node" where
  "dial_testOne c text d pb n = store_dial (dial_outcome c text d pb n) n"

text \<open>\<open>None\<close> for a node whose turn comes after the context was canceled, at the time of the mark.\<close>

definition dial_TestAll :: "codecs \<Rightarrow> (outbound_error \<Rightarrow> string) \<Rightarrow> dialer \<Rightarrow> (node \<Rightarrow> time + probe) \<Rightarrow> node list \<Rightarrow> node list" where
  "dial_TestAll c text d answers nodes = map (\<lambda>n. case answers n of Inl now \<Rightarrow> markCanceled now (dr_engine d) n
     | Inr pb \<Rightarrow> dial_testOne c text d pb n) nodes"

definition dial_Summary :: "node list \<Rightarrow> string" where
  "dial_Summary nodes = (let rs = map dial (somes (map n_Dial nodes)); good = filter dial_OK rs;
       avg = (if good = [] then 0 else quot (sum_list (map dial_LatencyMS good)) (int (length good)))
     in ''dial ok='' @ itoa (int (length good)) @ '' fail='' @ itoa (int (length rs - length good)) @
        '' skip='' @ itoa (int (length nodes - length rs)) @ '' avg_ms='' @ itoa avg)"


subsection \<open>What a passed test means\<close>

lemma appendCoreError_fields [simp]:
  "dial_OK (appendCoreError l r) = dial_OK r" "dial_Engine (appendCoreError l r) = dial_Engine r"
  "dial_TestedAt (appendCoreError l r) = dial_TestedAt r"
  by (simp_all add: appendCoreError_def Let_def split: option.split)

lemma answered_fields [simp]:
  "dial_Engine (answered b io r) = dial_Engine r" "dial_TestedAt (answered b io r) = dial_TestedAt r"
  by (simp_all add: answered_def Let_def split: option.split prod.split)

lemma core_result_fields [simp]:
  "dial_Engine (core_result d run r) = dial_Engine r" "dial_TestedAt (core_result d run r) = dial_TestedAt r"
  by (simp_all add: core_result_def split: core_run.split)

lemma dial_outcome_fields [simp]:
  "dial_Engine (dial_outcome c text d pb n) = dr_engine d" "dial_TestedAt (dial_outcome c text d pb n) = pb_start pb"
  by (simp_all add: dial_outcome_def Let_def split: core_run.split sum.split)

text \<open>The test passed: the engine supports the node, it got a configuration, and the request through it was answered with 2xx or 3xx.\<close>

definition reached :: "codecs \<Rightarrow> string \<Rightarrow> probe \<Rightarrow> node \<Rightarrow> bool" where
  "reached c engine pb n \<longleftrightarrow> SupportsEngine (Some n) engine \<and>
     (\<exists>raw. coreConfig c engine n (pb_port pb) (pb_logPath pb) = Inr raw) \<and>
     (\<exists>io. pb_run pb = Answered io \<and> hi_err io = None \<and> hi_copy_err io = None \<and> status_ok (hi_status io))"

lemma dial_outcome_ok: "dial_OK (dial_outcome c text d pb n) \<Longrightarrow> reached c (dr_engine d) pb n"
  by (auto simp: dial_outcome_def reached_def core_result_def answered_def measureHTTP_def Let_def
      split: core_run.splits sum.splits option.splits prod.splits if_splits)

lemma store_dial_fields [simp]:
  "n_Dial (store_dial r n) = Some (DialResult r [])" "n_Verified (store_dial r n) = dial_OK r"
  by (simp_all add: store_dial_def Let_def)

lemma dial_testOne_fields [simp]:
  "n_Dial (dial_testOne c text d pb n) = Some (DialResult (dial_outcome c text d pb n) [])"
  "n_Verified (dial_testOne c text d pb n) = dial_OK (dial_outcome c text d pb n)"
  by (simp_all add: dial_testOne_def)

end
