(* ===== verification/NodeTable.thy ===== *)
theory NodeTable
  imports Quality Database
begin

text \<open>
  The durable nodes and their measurements: \<open>internal/db/nodes.go\<close> (tables \<open>nodes\<close> and
  \<open>node_metrics\<close>), and the two methods of \<open>internal/service/service.go\<close> through which every stage
  writes nodes, \<open>replaceNodes\<close> and \<open>upsertNodes\<close>, with the part of \<open>NewWithOptions\<close> that loads them
  back. A table with a primary key is a map from the key to the row; \<open>payload_json\<close> is the node as JSON
  keeps it (\<open>json_node\<close>). Times are stored with a fixed width in one zone, so their text order is the
  order of the instants; the zero time is the empty text and comes first.
\<close>

subsection \<open>The table of nodes\<close>

record node_row =
  nr_ID :: string
  nr_Fingerprint :: string
  nr_Protocol :: string
  nr_Server :: string
  nr_Port :: int
  nr_Country :: string
  nr_ASN :: string
  nr_EntryType :: string
  nr_Score :: float64
  nr_Alive :: int
  nr_FirstSeenAt :: time
  nr_LastSeenAt :: time
  nr_payload :: node
  nr_UpdatedAt :: time

type_synonym node_table = "(string, node_row) gmap"

definition node_row_of :: "time \<Rightarrow> node \<Rightarrow> node_row" where
  "node_row_of now n = \<lparr>nr_ID = n_ID n, nr_Fingerprint = n_Fingerprint n, nr_Protocol = n_Protocol n, nr_Server = n_Server n,
     nr_Port = n_Port n, nr_Country = n_Country n, nr_ASN = n_ASN n, nr_EntryType = n_EntryType n, nr_Score = n_Score n,
     nr_Alive = (if n_Alive n then 1 else 0), nr_FirstSeenAt = n_FirstSeenAt n, nr_LastSeenAt = n_LastSeenAt n,
     nr_payload = json_node n, nr_UpdatedAt = now\<rparr>"

text \<open>One transaction; nil nodes and nodes without an id are skipped.\<close>

definition db_SaveNodes :: "time \<Rightarrow> node option list \<Rightarrow> node_table \<Rightarrow> node_table" where
  "db_SaveNodes now nodes tbl = fold (\<lambda>n tbl. gput (n_ID n) (node_row_of now n) tbl)
     (filter (\<lambda>n. n_ID n \<noteq> '''') (somes nodes)) tbl"

definition db_ReplaceNodes :: "time \<Rightarrow> node option list \<Rightarrow> node_table \<Rightarrow> node_table" where
  "db_ReplaceNodes now nodes tbl =
     (let keep = map n_ID (filter (\<lambda>n. n_ID n \<noteq> '''') (somes nodes))
      in filter (\<lambda>(i, r). i \<in> set keep) (db_SaveNodes now nodes tbl))"

definition later_seen :: "node_row \<Rightarrow> node_row \<Rightarrow> bool" where
  "later_seen a b \<longleftrightarrow> nr_LastSeenAt a > nr_LastSeenAt b \<or> (nr_LastSeenAt a = nr_LastSeenAt b \<and> nr_ID a < nr_ID b)"

definition LoadNodes :: "int \<Rightarrow> node_table \<Rightarrow> node list" where
  "LoadNodes limit tbl = map nr_payload (take (nat (if limit \<le> 0 then 10000 else limit)) (SliceStable later_seen (vals tbl)))"

definition DeleteNodesMissingSince :: "time \<Rightarrow> node_table \<Rightarrow> int \<times> node_table" where
  "DeleteNodesMissingSince cutoff tbl = (let gone = (\<lambda>(i, r). nr_LastSeenAt r < cutoff)
     in (int (length (filter gone tbl)), filter (\<lambda>e. \<not> gone e) tbl))"

subsection \<open>Measurements\<close>

record NodeMetric =
  nm_NodeID :: string
  nm_MeasuredAt :: time
  nm_Success :: bool
  nm_LatencyMS :: int
  nm_JitterMS :: int
  nm_TLSMS :: int
  nm_HTTPMS :: int
  nm_ThroughputBPS :: int
  nm_Score :: float64

definition measured_at :: "time \<Rightarrow> node \<Rightarrow> time" where
  "measured_at now n =
     (let tested = (case n_Dial n of None \<Rightarrow> n_TestedAt n
        | Some d \<Rightarrow> if dial_TestedAt (dial d) > n_TestedAt n then dial_TestedAt (dial d) else n_TestedAt n)
      in if IsZero tested then now else tested)"

definition metricFromNode :: "time \<Rightarrow> node \<Rightarrow> NodeMetric" where
  "metricFromNode now n =
     (let m0 = \<lparr>nm_NodeID = n_ID n, nm_MeasuredAt = measured_at now n, nm_Success = n_Alive n, nm_LatencyMS = LatencyMS n,
            nm_JitterMS = 0, nm_TLSMS = 0, nm_HTTPMS = 0, nm_ThroughputBPS = 0, nm_Score = n_Score n\<rparr>;
          m1 = (case n_Quality n of None \<Rightarrow> m0
            | Some q \<Rightarrow> m0\<lparr>nm_JitterMS := q_JitterMS q, nm_TLSMS := q_TLSMS q, nm_HTTPMS := q_HTTPMS q,
                nm_ThroughputBPS := q_ThroughputBPS q\<rparr>)
      in case n_Dial n of None \<Rightarrow> m1
         | Some d \<Rightarrow> m1\<lparr>nm_Success := dial_OK (dial d), nm_HTTPMS := dial_HTTPMS (dial d), nm_ThroughputBPS := dial_ThroughputBPS (dial d),
             nm_LatencyMS := (if nm_LatencyMS m1 = 0 then dial_LatencyMS (dial d) else nm_LatencyMS m1)\<rparr>)"

definition RecordNodeMetrics :: "time \<Rightarrow> node option list \<Rightarrow> NodeMetric list \<Rightarrow> NodeMetric list" where
  "RecordNodeMetrics now nodes rows = rows @ map (metricFromNode now)
     (filter (\<lambda>n. n_ID n \<noteq> '''' \<and> \<not> (IsZero (n_TestedAt n) \<and> n_Dial n = None)) (somes nodes))"

record DailyMetric =
  dm_Day :: int
  dm_Samples :: int
  dm_SuccessRate :: float64
  dm_P50LatencyMS :: int
  dm_P95LatencyMS :: int
  dm_AvgScore :: float64
  dm_AvgThroughput :: int

definition percentile :: "int list \<Rightarrow> float64 \<Rightarrow> int" where
  "percentile values p = (if values = [] then 0
     else (let i = \<lceil>of_nat (length values) * p\<rceil> - 1; i = (if i < 0 then 0 else i);
               i = (if i \<ge> int (length values) then int (length values) - 1 else i)
           in values ! nat i))"

definition daily_metric :: "int \<Rightarrow> NodeMetric list \<Rightarrow> DailyMetric" where
  "daily_metric day rows =
     (let latencies = sort (filter (\<lambda>l. l > 0) (map nm_LatencyMS rows)); n = length rows
      in \<lparr>dm_Day = day, dm_Samples = int n,
          dm_SuccessRate = of_nat (length (filter nm_Success rows)) / of_nat n,
          dm_P50LatencyMS = percentile latencies (1 / 2), dm_P95LatencyMS = percentile latencies (95 / 100),
          dm_AvgScore = sum_list (map nm_Score rows) / of_nat n,
          dm_AvgThroughput = quot (sum_list (map nm_ThroughputBPS rows)) (int n)\<rparr>)"

definition in_window :: "time \<Rightarrow> int \<Rightarrow> NodeMetric \<Rightarrow> bool" where
  "in_window now days m \<longleftrightarrow> nm_MeasuredAt m \<ge> now - days * (24 * hour)"

definition DailyNodeMetrics :: "time \<Rightarrow> string \<Rightarrow> int \<Rightarrow> NodeMetric list \<Rightarrow> DailyMetric list" where
  "DailyNodeMetrics now i days rows =
     (let found = filter (\<lambda>m. in_window now (if days \<le> 0 then 30 else days) m \<and> (i = '''' \<or> nm_NodeID m = i)) rows;
          day = (\<lambda>m. shanghai_day (nm_MeasuredAt m))
      in map (\<lambda>d. daily_metric d (filter (\<lambda>m. day m = d) found)) (sort (remdups (map day found))))"

definition NodeStabilities :: "time \<Rightarrow> int \<Rightarrow> NodeMetric list \<Rightarrow> (string, float64) gmap" where
  "NodeStabilities now days rows =
     (let found = filter (in_window now (if days \<le> 0 then 7 else days)) rows
      in map (\<lambda>i. let own = filter (\<lambda>m. nm_NodeID m = i) found
           in (i, of_nat (length (filter nm_Success own)) / of_nat (length own))) (remdups (map nm_NodeID found)))"

subsection \<open>Writing nodes from the service\<close>

text \<open>The hot store and, when there is a database, its tables.\<close>

record node_world =
  nw_store :: store
  nw_db :: "(node_table \<times> NodeMetric list) option"

abbreviation stored :: "node_world \<Rightarrow> string \<Rightarrow> node option" where
  "stored w i \<equiv> map_of (st_nodes (nw_store w)) i"

definition service_replaceNodes :: "hashes \<Rightarrow> time \<Rightarrow> node option list \<Rightarrow> node_world \<Rightarrow> node_world" where
  "service_replaceNodes h now nodes w = (case ReplaceNodes h now nodes (nw_store w) of (ns, s) \<Rightarrow>
     \<lparr>nw_store = s, nw_db = map_option (\<lambda>(tbl, ms). (db_ReplaceNodes now (map Some ns) tbl, ms)) (nw_db w)\<rparr>)"

text \<open>\<open>UpsertNodes\<close> writes the ids into the caller's nodes before they are saved.\<close>

definition with_id :: "hashes \<Rightarrow> node \<Rightarrow> node" where
  "with_id h n = n\<lparr>n_ID := nodeID h n\<rparr>"

definition service_upsertNodes :: "hashes \<Rightarrow> time \<Rightarrow> node list \<Rightarrow> bool \<Rightarrow> node_world \<Rightarrow> node_world" where
  "service_upsertNodes h now nodes recordMetrics w =
     (let saved = map (\<lambda>n. Some (with_id h n)) nodes
      in \<lparr>nw_store = UpsertNodes h now nodes (nw_store w),
          nw_db = map_option (\<lambda>(tbl, ms). (db_SaveNodes now saved tbl,
            if recordMetrics then RecordNodeMetrics now saved ms else ms)) (nw_db w)\<rparr>)"

text \<open>The pruning step of \<open>doQuality\<close>, carried over to the table.\<close>

definition prune_nodes :: "time \<Rightarrow> PruneOptions \<Rightarrow> node_world \<Rightarrow> int \<times> node_world" where
  "prune_nodes now opt w = (case Prune opt (nw_store w) of (pruned, s) \<Rightarrow>
     (pruned, \<lparr>nw_store = s, nw_db = map_option (\<lambda>(tbl, ms). (db_ReplaceNodes now (map Some (AllNodes s)) tbl, ms)) (nw_db w)\<rparr>))"

text \<open>A new process with the store \<open>s\<close> and the tables of the database.\<close>

definition start_nodes :: "hashes \<Rightarrow> time \<Rightarrow> int \<Rightarrow> store \<Rightarrow> (node_table \<times> NodeMetric list) option \<Rightarrow> node_world" where
  "start_nodes h now limit s db =
     \<lparr>nw_store = (case db of None \<Rightarrow> s
        | Some (tbl, ms) \<Rightarrow> if LoadNodes limit tbl = [] then s else snd (ReplaceNodes h now (map Some (LoadNodes limit tbl)) s)),
      nw_db = db\<rparr>"


subsection \<open>The table mirrors the store\<close>

definition settled :: "hashes \<Rightarrow> node \<Rightarrow> bool" where
  "settled h n \<longleftrightarrow> n_ID n = nodeID h n \<and> n_Fingerprint n = Key h n \<and> n_FirstSeenAt n \<noteq> 0 \<and> n_LastSeenAt n \<noteq> 0"

definition mirrors :: "hashes \<Rightarrow> string \<Rightarrow> node \<Rightarrow> node_row \<Rightarrow> bool" where
  "mirrors h i m r \<longleftrightarrow> nr_ID r = i \<and> n_ID (nr_payload r) = i \<and> settled h (nr_payload r) \<and> cloneNode (nr_payload r) = json_node m"

definition mirrored :: "hashes \<Rightarrow> (string, node) gmap \<Rightarrow> node_table \<Rightarrow> bool" where
  "mirrored h nodes tbl \<longleftrightarrow> distinct (keys tbl) \<and> (\<forall>i. rel_option (mirrors h i) (map_of nodes i) (map_of tbl i))"

lemma settled_copies [simp]: "settled h (cloneNode n) = settled h n" "settled h (json_node n) = settled h n"
  by (simp_all add: settled_def cloneNode_def json_node_def nodeID_def Key_def canonical_def)

lemma clone_json: "cloneNode (json_node n) = json_node (cloneNode n)"
  by (simp add: cloneNode_def json_node_def LatencyMS_def)

lemma somes_map [simp]: "somes (map (\<lambda>x. Some (f x)) xs) = map f xs"
  by (induction xs) auto

lemma clone_clone [simp]: "cloneNode (cloneNode n) = cloneNode n"
proof -
  have "cloneDial (cloneDial d) = cloneDial d" for d
    by (cases d) (simp add: cloneDial_def comp_def)
  then show ?thesis by (simp add: cloneNode_def option.map_comp comp_def)
qed

definition usual_latency :: "node \<Rightarrow> bool" where
  "usual_latency n \<longleftrightarrow> 0 \<le> n_Latency n \<and> n_Latency n < 1000 * second"

lemma json_json:
  assumes "usual_latency n"
  shows "json_node (json_node n) = json_node n"
proof -
  have pos: "0 < millisecond" by (simp add: millisecond_def)
  have l: "n_Latency (json_node n) = (n_Latency n div millisecond) * millisecond"
    using assms latency_json_roundtrip by (simp add: usual_latency_def json_node_def)
  then have "0 \<le> n_Latency (json_node n)" "n_Latency (json_node n) \<le> n_Latency n"
    using assms pos by (simp_all add: usual_latency_def pos_imp_zdiv_nonneg_iff minus_mod_eq_div_mult [symmetric] zmod_le_nonneg_dividend)
  then have "UnmarshalLatency 0 (Some (LatencyMS (json_node n))) = n_Latency (json_node n)"
    using assms pos latency_json_roundtrip [of "json_node n"] unfolding l by (simp add: usual_latency_def)
  then show ?thesis unfolding json_node_def by simp
qed

lemma mirrors_settled: "mirrors h i m r \<Longrightarrow> settled h m \<and> cloneNode m = m"
proof -
  assume r: "mirrors h i m r"
  then have "settled h (json_node m)" by (metis mirrors_def settled_copies(1))
  moreover have "json_node (cloneNode m) = json_node m"
    using r by (metis mirrors_def clone_clone clone_json)
  then have "cloneNode m = m"
    by (cases m) (simp add: json_node_def cloneNode_def)
  ultimately show ?thesis by simp
qed

lemma mirrors_saved: "settled h n \<Longrightarrow> mirrors h (n_ID n) (cloneNode n) (node_row_of now n)"
  by (simp add: mirrors_def node_row_of_def clone_json)

abbreviation put_row :: "time \<Rightarrow> node \<Rightarrow> node_table \<Rightarrow> node_table" where
  "put_row now n tbl \<equiv> gput (n_ID n) (node_row_of now n) tbl"

lemma mirrored_put: "mirrored h nodes tbl \<Longrightarrow> settled h n \<Longrightarrow> mirrored h (put_node n nodes) (put_row now n tbl)"
  using mirrors_saved [of h n now] by (simp add: mirrored_def put_node_def)

lemma mirrored_puts:
  "mirrored h nodes tbl \<Longrightarrow> \<forall>n \<in> set ns. settled h n \<Longrightarrow> mirrored h (fold put_node ns nodes) (fold (put_row now) ns tbl)"
  by (induction ns arbitrary: nodes tbl) (simp_all add: mirrored_put)

lemma put_rows_lookup:
  "map_of (fold (put_row now) ns tbl) i = (if i \<in> n_ID ` set ns then map_of (fold (put_row now) ns []) i else map_of tbl i)"
  by (induction ns rule: rev_induct) auto

lemma put_rows_distinct: "distinct (keys tbl) \<Longrightarrow> distinct (keys (fold (put_row now) ns tbl))"
  by (induction ns rule: rev_induct) simp_all

lemma mirrored_replace:
  assumes "distinct (keys tbl)" and "\<forall>n \<in> set ns. settled h n \<and> n_ID n \<noteq> ''''"
  shows "mirrored h (fold put_node ns []) (db_ReplaceNodes now (map Some ns) tbl)"
proof -
  let ?keep = "\<lambda>(i, r). i \<in> n_ID ` set ns" and ?tbl = "fold (put_row now) ns tbl"
  have ns: "filter (\<lambda>n. n_ID n \<noteq> '''') ns = ns" using assms(2) by (simp add: filter_id_conv)
  have eq: "db_ReplaceNodes now (map Some ns) tbl = filter ?keep ?tbl"
    by (simp add: db_ReplaceNodes_def db_SaveNodes_def ns Let_def)
  have kept: "map_of (filter ?keep m) i = (if i \<in> n_ID ` set ns then map_of m i else None)" for m i
    by (induction m) auto
  have "map_of (filter ?keep ?tbl) i = map_of (fold (put_row now) ns []) i" for i
    using put_rows_lookup [of now ns tbl i] put_rows_lookup [of now ns "[]" i] unfolding kept
    by (cases "i \<in> n_ID ` set ns") simp_all
  moreover have "mirrored h (fold put_node ns []) (fold (put_row now) ns [])"
    using assms(2) by (intro mirrored_puts) (auto simp: mirrored_def)
  moreover have "distinct (keys (filter ?keep ?tbl))"
    using put_rows_distinct [OF assms(1)] by (simp add: distinct_map_filter)
  ultimately show ?thesis unfolding eq mirrored_def by simp
qed


text \<open>A stage writes back nodes it read: nothing it leaves empty would be kept from the stored node.\<close>

definition refreshes :: "hashes \<Rightarrow> (string, node) gmap \<Rightarrow> node \<Rightarrow> bool" where
  "refreshes h nodes n = (case map_of nodes (nodeID h n) of None \<Rightarrow> False
     | Some old \<Rightarrow> upsert_into (cloneNode (with_id h n)) old = cloneNode (with_id h n))"

lemma fold_upsert_put:
  assumes "distinct (map (nodeID h) ns)" and "\<forall>n \<in> set ns. refreshes h nodes n"
  shows "fold (upsert_node h) ns nodes = fold put_node (map (with_id h) ns) nodes"
  using assms
proof (induction ns arbitrary: nodes)
  case (Cons n ns)
  have "upsert_node h n nodes = put_node (with_id h n) nodes"
    using Cons.prems(2) by (auto simp: refreshes_def upsert_node_def put_node_def with_id_def Let_def split: option.splits)
  moreover have "refreshes h (put_node (with_id h n) nodes) n'" if "n' \<in> set ns" for n'
  proof -
    have "nodeID h n' \<noteq> nodeID h n" using Cons.prems(1) that by (auto simp: image_iff)
    then show ?thesis using Cons.prems(2) that by (simp add: refreshes_def put_node_def with_id_def)
  qed
  ultimately show ?case using Cons by simp
qed simp

lemma refreshed_settled:
  assumes "refreshes h nodes n" and "map_of nodes (nodeID h n) = Some old" and "settled h old"
  shows "settled h (with_id h n)"
proof -
  let ?n = "cloneNode (with_id h n)"
  have eq: "upsert_into ?n old = ?n" using assms(1,2) by (simp add: refreshes_def)
  have "n_Fingerprint ?n = n_Fingerprint old" "n_FirstSeenAt ?n = 0 \<Longrightarrow> n_FirstSeenAt old = 0"
    "n_LastSeenAt ?n = 0 \<Longrightarrow> n_LastSeenAt old = 0"
    using arg_cong [OF eq, of n_Fingerprint] arg_cong [OF eq, of n_FirstSeenAt] arg_cong [OF eq, of n_LastSeenAt]
    by (simp_all add: upsert_into_def IsZero_def)
  moreover have "Key h ?n = Key h old" using eq Key_observations(5) by metis
  moreover have "n_ID ?n = nodeID h ?n" by (simp add: with_id_def)
  ultimately have "settled h ?n" using assms(3) unfolding settled_def by auto
  then show ?thesis by simp
qed

definition durable :: "hashes \<Rightarrow> node_world \<Rightarrow> bool" where
  "durable h w \<longleftrightarrow> store_ok h (nw_store w) \<and>
     (case nw_db w of None \<Rightarrow> False | Some (tbl, ms) \<Rightarrow> mirrored h (st_nodes (nw_store w)) tbl)"

lemma durable_replaced:
  assumes "durable h w" and "0 < now" and "\<forall>x. sha1_id h x \<noteq> ''''"
  shows "durable h (service_replaceNodes h now nodes w)"
proof -
  obtain tbl ms where w: "nw_db w = Some (tbl, ms)" "mirrored h (st_nodes (nw_store w)) tbl"
    using assms(1) by (auto simp: durable_def split: option.splits)
  let ?ns = "map (replace_node h now (by_key h (st_nodes (nw_store w)))) (somes nodes)"
  have "settled h n \<and> n_ID n \<noteq> ''''" if "n \<in> set ?ns" for n
    using that assms(2,3) by (auto simp: settled_def replace_node_def nodeID_def IsZero_def Let_def split: option.splits if_splits)
  then have "mirrored h (fold put_node ?ns []) (db_ReplaceNodes now (map Some ?ns) tbl)"
    using w(2) by (intro mirrored_replace) (auto simp: mirrored_def)
  moreover have "store_ok h (snd (ReplaceNodes h now nodes (nw_store w)))" by (rule replace_ok)
  ultimately show ?thesis
    using w(1) by (simp add: durable_def service_replaceNodes_def ReplaceNodes_def Let_def)
qed

lemma durable_upserted:
  assumes "durable h w" and "distinct (map (nodeID h) ns)" and "\<forall>n \<in> set ns. refreshes h (st_nodes (nw_store w)) n"
    and "\<forall>x. sha1_id h x \<noteq> ''''"
  shows "durable h (service_upsertNodes h now ns recordMetrics w)"
proof -
  let ?m = "st_nodes (nw_store w)" and ?ns = "map (with_id h) ns"
  obtain tbl ms where w: "nw_db w = Some (tbl, ms)" "mirrored h ?m tbl" and ok: "store_ok h (nw_store w)"
    using assms(1) by (auto simp: durable_def split: option.splits)
  have s: "settled h (with_id h n)" if "n \<in> set ns" for n
  proof -
    have "refreshes h ?m n" using assms(3) that by blast
    then obtain old where old: "map_of ?m (nodeID h n) = Some old"
      unfolding refreshes_def by (cases "map_of ?m (nodeID h n)") auto
    moreover have "settled h old"
      using w(2) old mirrors_settled unfolding mirrored_def by (metis option_rel_Some1)
    ultimately show ?thesis using refreshed_settled assms(3) that by blast
  qed
  have ids: "filter (\<lambda>n. n_ID n \<noteq> '''') ?ns = ?ns"
    using assms(4) by (simp add: filter_id_conv with_id_def nodeID_def)
  have "mirrored h (fold put_node ?ns ?m) (fold (put_row now) ?ns tbl)"
    using w(2) s by (intro mirrored_puts) auto
  moreover have "db_SaveNodes now (map (\<lambda>n. Some (with_id h n)) ns) tbl = fold (put_row now) ?ns tbl"
    using ids by (simp add: db_SaveNodes_def)
  moreover have "store_ok h (UpsertNodes h now ns (nw_store w))"
    using ok gmap_inv_fold [OF upsert_node_ok] by (simp add: store_ok_def UpsertNodes_def)
  ultimately show ?thesis
    using w(1) fold_upsert_put [OF assms(2,3)]
    by (simp add: durable_def service_upsertNodes_def UpsertNodes_def Let_def)
qed


lemma upserted_lookup:
  assumes "distinct (map n_ID ns)" and "\<forall>n \<in> set ns. with_id h n = n \<and> refreshes h (st_nodes s) n"
  shows "map_of (st_nodes (UpsertNodes h now ns s)) i =
    (case find (\<lambda>n. n_ID n = i) ns of None \<Rightarrow> map_of (st_nodes s) i | Some n \<Rightarrow> Some (cloneNode n))"
proof -
  have "nodeID h n = n_ID n" if "n \<in> set ns" for n using assms(2) that by (metis with_id_def node.select_convs(1) node.ext_inject node.surjective node.update_convs(1))
  then have "map (nodeID h) ns = map n_ID ns" by simp
  then have d: "distinct (map (nodeID h) ns)" using assms(1) by (simp only:)
  have "fold (upsert_node h) ns (st_nodes s) = fold put_node (map (with_id h) ns) (st_nodes s)"
    using assms(2) by (intro fold_upsert_put [OF d]) auto
  also have "map (with_id h) ns = ns" using assms(2) by (simp add: map_idI)
  also have "fold put_node ns (st_nodes s) = fold (\<lambda>n m. gput (n_ID n) (cloneNode n) m) ns (st_nodes s)"
    by (intro fold_cong) (simp_all add: put_node_def fun_eq_iff)
  finally show ?thesis using map_of_fold_gput [OF assms(1), of cloneNode "st_nodes s" i]
    by (simp add: UpsertNodes_def)
qed


definition awaits :: "hashes \<Rightarrow> node_world \<Rightarrow> node list \<Rightarrow> bool" where
  "awaits h w ns \<longleftrightarrow> distinct (map n_ID ns) \<and> (\<forall>n \<in> set ns. n_ID n = nodeID h n \<and> map_of (st_nodes (nw_store w)) (n_ID n) = Some n)"

lemma durable_cloned: "durable h w \<Longrightarrow> stored w i = Some n \<Longrightarrow> cloneNode n = n"
  using mirrors_settled unfolding durable_def mirrored_def
  by (metis (no_types, lifting) option.case_eq_if option_rel_Some1 prod.case_eq_if)

lemma awaits_append:
  "awaits h w (xs @ ys) \<longleftrightarrow> awaits h w xs \<and> awaits h w ys \<and> set (map n_ID xs) \<inter> set (map n_ID ys) = {}"
  unfolding awaits_def map_append distinct_append set_append by blast

text \<open>Writing back nodes that were read: each replaces its stored version.\<close>

definition renews :: "hashes \<Rightarrow> node_world \<Rightarrow> node \<Rightarrow> node \<Rightarrow> bool" where
  "renews h w n n' \<longleftrightarrow> with_id h n' = n' \<and> n_ID n' = n_ID n \<and> refreshes h (st_nodes (nw_store w)) n'"

lemma renews_intro:
  assumes "n_ID n = nodeID h n" and "stored w (n_ID n) = Some n" and "n_ID n' = n_ID n" and "Key h n' = Key h n"
    and "upsert_into (cloneNode n') n = cloneNode n'"
  shows "renews h w n n'"
proof -
  have nid: "nodeID h n' = nodeID h n" using assms(4) by (simp add: nodeID_def)
  then have "with_id h n' = n'" using assms(1,3) by (simp add: with_id_def)
  then show ?thesis using assms by (simp add: renews_def refreshes_def nid)
qed

lemma renews_same: "n_ID n = nodeID h n \<Longrightarrow> stored w (n_ID n) = Some n \<Longrightarrow> cloneNode n = n \<Longrightarrow> renews h w n n"
  by (rule renews_intro) (cases n, simp_all add: upsert_into_def new_or_def IsZero_def)

lemma write_back:
  assumes "durable h w" and "awaits h w ns0" and l2: "list_all2 (\<lambda>n n'. renews h w n n' \<and> R n (cloneNode n')) ns0 ns"
    and "\<forall>x. sha1_id h x \<noteq> ''''"
  shows "durable h (service_upsertNodes h t ns b w)"
    and "i \<notin> set (map n_ID ns0) \<Longrightarrow> stored (service_upsertNodes h t ns b w) i = stored w i"
    and "n \<in> set ns0 \<Longrightarrow> \<exists>m. stored (service_upsertNodes h t ns b w) (n_ID n) = Some m \<and> R n m"
proof -
  have ids: "map n_ID ns = map n_ID ns0" using l2 by (induction rule: list_all2_induct) (auto simp: renews_def)
  then have dist: "distinct (map n_ID ns)" using assms(2) by (simp add: awaits_def)
  have all: "\<forall>n \<in> set ns. with_id h n = n \<and> refreshes h (st_nodes (nw_store w)) n"
    using l2 by (induction rule: list_all2_induct) (auto simp: renews_def)
  have "map (nodeID h) ns = map n_ID ns" using all by (auto simp: with_id_def) (metis node.select_convs(1) node.surjective node.update_convs(1))
  then have "distinct (map (nodeID h) ns)" using dist by (simp only:)
  then show "durable h (service_upsertNodes h t ns b w)" using assms(1,4) all by (intro durable_upserted) auto
  have look: "stored (service_upsertNodes h t ns b w) i = (case find (\<lambda>n. n_ID n = i) ns of None \<Rightarrow> stored w i | Some n \<Rightarrow> Some (cloneNode n))" for i
    using upserted_lookup [OF dist all] by (simp add: service_upsertNodes_def Let_def)
  show "stored (service_upsertNodes h t ns b w) i = stored w i" if "i \<notin> set (map n_ID ns0)"
  proof -
    have "find (\<lambda>n. n_ID n = i) ns = None" using that unfolding ids [symmetric] by (auto simp: find_None_iff)
    then show ?thesis by (simp add: look)
  qed
  show "\<exists>m. stored (service_upsertNodes h t ns b w) (n_ID n) = Some m \<and> R n m" if n: "n \<in> set ns0"
  proof -
    obtain k where k: "k < length ns0" "ns0 ! k = n" using n by (metis in_set_conv_nth)
    define n' where "n' = ns ! k"
    have n': "n' \<in> set ns" "n_ID n' = n_ID n" "R n (cloneNode n')"
      using list_all2_nthD [OF l2 k(1)] k list_all2_lengthD [OF l2] by (simp_all add: n'_def renews_def)
    have "find (\<lambda>x. n_ID x = n_ID n') ns = Some n'" using dist n'(1) by (rule find_key)
    then show ?thesis using n' by (auto simp: look)
  qed
qed



text \<open>
  The contract of a stage that measures nodes it read and writes them back: what it does to a node
  (\<open>seen n n'\<close>) keeps the identity and leaves nothing empty that the stored node would fill in again.
  Then the store holds exactly the measured nodes, nothing else has changed, and the table still mirrors it.
\<close>

locale observation =
  fixes seen :: "node \<Rightarrow> node \<Rightarrow> bool"
  assumes renewed: "seen n n' \<Longrightarrow> n_ID n = nodeID h n \<Longrightarrow> stored w (n_ID n) = Some n \<Longrightarrow> cloneNode n = n \<Longrightarrow>
    renews h w n n' \<and> seen n (cloneNode n')"
begin

lemma written:
  assumes "durable h w" and "awaits h w ns0" and "list_all2 seen ns0 ns" and "\<forall>x. sha1_id h x \<noteq> ''''"
  shows "durable h (service_upsertNodes h t ns b w)"
    and "i \<notin> set (map n_ID ns0) \<Longrightarrow> stored (service_upsertNodes h t ns b w) i = stored w i"
    and "n \<in> set ns0 \<Longrightarrow> \<exists>m. stored (service_upsertNodes h t ns b w) (n_ID n) = Some m \<and> seen n m"
proof -
  have "renews h w n n' \<and> seen n (cloneNode n')" if "n \<in> set ns0" "seen n n'" for n n'
    using renewed [OF that(2)] that(1) assms(2) durable_cloned [OF assms(1)] unfolding awaits_def by blast
  then have l2: "list_all2 (\<lambda>n n'. renews h w n n' \<and> seen n (cloneNode n')) ns0 ns"
    by (rule list.rel_mono_strong [OF assms(3)])
  note wb = write_back [OF assms(1,2) l2 assms(4), where t = t and b = b]
  show "durable h (service_upsertNodes h t ns b w)" by (rule wb(1))
  show "i \<notin> set (map n_ID ns0) \<Longrightarrow> stored (service_upsertNodes h t ns b w) i = stored w i" by (rule wb(2))
  show "n \<in> set ns0 \<Longrightarrow> \<exists>m. stored (service_upsertNodes h t ns b w) (n_ID n) = Some m \<and> seen n m" by (rule wb(3))
qed

end

text \<open>What a stage reads from the store is there as it was read.\<close>

lemma awaits_listed:
  assumes "durable h w" and "distinct (map n_ID ns)"
    and "\<And>n. n \<in> set ns \<Longrightarrow> n_ID n = nodeID h n \<and> (\<exists>m. stored w (n_ID n) = Some m \<and> n = cloneNode m)"
  shows "awaits h w ns"
  using assms durable_cloned [OF assms(1)] unfolding awaits_def by metis

lemma put_AllNodes:
  assumes "store_ok h s" and "\<And>n. n \<in> set (vals (st_nodes s)) \<Longrightarrow> cloneNode n = n"
  shows "map_of (fold put_node (AllNodes s) []) i = map_of (st_nodes s) i"
proof -
  let ?ns = "vals (st_nodes s)"
  have ids: "n_ID n = nodeID h n" if "n \<in> set (AllNodes s)" for n using AllNodes_ids(2) [OF assms(1) that] .
  then have "map n_ID (AllNodes s) = map (nodeID h) (AllNodes s)" by simp
  then have dist: "distinct (map n_ID (AllNodes s))" using AllNodes_ids(1) [OF assms(1)] by metis
  have same: "map cloneNode ?ns = ?ns" using assms(2) by (simp add: map_idI)
  have "fold put_node (AllNodes s) [] = fold (\<lambda>n m. gput (n_ID n) n m) (AllNodes s) []"
  proof (rule fold_cong [OF refl refl])
    fix n assume "n \<in> set (AllNodes s)"
    then have "n \<in> set ?ns" unfolding AllNodes_eq same set_SliceStable .
    then show "put_node n = (\<lambda>m. gput (n_ID n) n m)" using assms(2) by (simp add: put_node_def fun_eq_iff)
  qed
  then have "map_of (fold put_node (AllNodes s) []) i = find (\<lambda>n. n_ID n = i) (AllNodes s)"
    using map_of_fold_gput [OF dist, of "\<lambda>n. n" "[]" i] by (simp split: option.split)
  also have "\<dots> = find (\<lambda>n. nodeID h n = i) (AllNodes s)"
    using ids by (intro find_cong) auto
  also have "\<dots> = find (\<lambda>n. nodeID h n = i) ?ns"
    by (rule find_perm [OF AllNodes_ids(1) [OF assms(1)]]) (simp only: AllNodes_eq same mset_SliceStable)
  finally show ?thesis using stored_order_irrelevant(2) [OF assms(1), of i] by simp
qed

lemma durable_pruned:
  assumes "durable h w" and "\<forall>x. sha1_id h x \<noteq> ''''"
  shows "durable h (snd (prune_nodes now opt w))"
proof -
  let ?s = "snd (Prune opt (nw_store w))"
  obtain tbl ms where w: "nw_db w = Some (tbl, ms)" "mirrored h (st_nodes (nw_store w)) tbl" and ok: "store_ok h (nw_store w)"
    using assms(1) by (auto simp: durable_def split: option.splits)
  have ok': "store_ok h ?s" using ok by (rule prune_store_ok)
  have m: "settled h n \<and> cloneNode n = n" if "map_of (st_nodes ?s) i = Some n" for i n
    using w(2) Prune_lookup [OF ok that] mirrors_settled unfolding mirrored_def by (metis option_rel_Some1)
  have dist: "distinct (keys (st_nodes ?s))" using ok' by (simp add: store_ok_def gmap_inv_def)
  have stored: "settled h n \<and> cloneNode n = n" if "n \<in> set (vals (st_nodes ?s))" for n
    using that m dist by (auto simp: map_of_eq_Some_iff)
  then have "map cloneNode (vals (st_nodes ?s)) = vals (st_nodes ?s)" by (simp add: map_idI)
  then have "set (AllNodes ?s) = set (vals (st_nodes ?s))"
    unfolding AllNodes_eq set_SliceStable by (simp only:)
  moreover have "n_ID n \<noteq> ''''" if "settled h n" for n using that assms(2) by (simp add: settled_def nodeID_def)
  ultimately have "\<forall>n \<in> set (AllNodes ?s). settled h n \<and> n_ID n \<noteq> ''''"
    using stored by blast
  then have "mirrored h (fold put_node (AllNodes ?s) []) (db_ReplaceNodes now (map Some (AllNodes ?s)) tbl)"
    using w(2) by (intro mirrored_replace) (auto simp: mirrored_def)
  moreover have "map_of (fold put_node (AllNodes ?s) []) i = map_of (st_nodes ?s) i" for i
    by (rule put_AllNodes [OF ok']) (use stored in blast)
  ultimately have "mirrored h (st_nodes ?s) (db_ReplaceNodes now (map Some (AllNodes ?s)) tbl)"
    by (simp add: mirrored_def)
  moreover have "snd (prune_nodes now opt w) = \<lparr>nw_store = ?s, nw_db = Some (db_ReplaceNodes now (map Some (AllNodes ?s)) tbl, ms)\<rparr>"
    by (simp add: prune_nodes_def w(1) case_prod_beta)
  ultimately show ?thesis using ok' by (simp add: durable_def)
qed


subsection \<open>Nodes survive a restart\<close>

text \<open>What a store knows agrees with another one: each of its nodes is the other's, as JSON keeps it.\<close>

definition knows :: "hashes \<Rightarrow> store \<Rightarrow> store \<Rightarrow> bool" where
  "knows h s0 s \<longleftrightarrow> store_ok h s0 \<and> list_all (\<lambda>(i, n). map_option json_node (map_of (st_nodes s) i) = Some n) (st_nodes s0)"

definition load_limit :: "int \<Rightarrow> int" where
  "load_limit limit = (if limit \<le> 0 then 10000 else limit)"

lemma merge_known:
  assumes "settled h n" and "old = cloneNode n"
  shows "mergeObservations n old = n"
proof -
  have "merge_seen old n = n" "merge_test old n = n" "merge_country old n = n" "merge_probes old n = n"
    unfolding assms(2) using assms(1)
    by (simp_all add: settled_def merge_seen_def merge_test_def merge_country_def merge_probes_def IsZero_def cloneNode_def)
  then show ?thesis by (simp add: mergeObservations_def)
qed

lemma replace_settled:
  assumes "settled h n" and "map_of nodes (Key h n) = None \<or> map_of nodes (Key h n) = Some (cloneNode n)"
  shows "replace_node h now nodes n = n"
  using assms(2)
proof
  assume "map_of nodes (Key h n) = Some (cloneNode n)"
  then show ?thesis using assms(1) merge_known [OF assms(1) refl]
    by (simp add: replace_node_def settled_def IsZero_def Let_def)
qed (use assms(1) in \<open>simp add: replace_node_def settled_def IsZero_def Let_def\<close>)

lemma by_key_hit:
  assumes "store_ok h s" and "map_of (by_key h (st_nodes s)) (Key h n) = Some old" and "n_ID n = nodeID h n"
  shows "map_of (st_nodes s) (n_ID n) = Some old"
proof -
  have "gmap_inv (\<lambda>k v. k = Key h v \<and> v \<in> set (vals (st_nodes s))) (by_key h (st_nodes s))"
    unfolding by_key_def by (intro gmap_inv_fold gmap_inv_gput) auto
  from gmap_inv_lookup [OF this assms(2)] have old: "Key h n = Key h old" "old \<in> set (vals (st_nodes s))" by auto
  then obtain i where i: "(i, old) \<in> set (st_nodes s)" by auto
  then have "i = nodeID h old" using assms(1) by (force simp: store_ok_def gmap_inv_def entry_ok_def)
  then show ?thesis
    using i old(1) assms(1,3) by (simp add: store_ok_def gmap_inv_def nodeID_def map_of_eq_Some_iff)
qed

lemma find_mapped: "find (\<lambda>y. key y = i) (map f xs) = map_option f (find (\<lambda>x. (key \<circ> f) x = i) xs)"
  by (induction xs) auto

lemma loaded_lookup:
  assumes "mirrored h nodes tbl" and "int (length tbl) \<le> load_limit limit"
  shows "distinct (map (nodeID h) (LoadNodes limit tbl))"
    and "find (\<lambda>n. nodeID h n = i) (LoadNodes limit tbl) = map_option nr_payload (map_of tbl i)"
    and "n \<in> set (LoadNodes limit tbl) \<Longrightarrow> settled h n"
proof -
  let ?rows = "SliceStable later_seen (vals tbl)"
  have d: "distinct (keys tbl)" using assms(1) by (simp add: mirrored_def)
  have row: "nodeID h (nr_payload r) = k \<and> settled h (nr_payload r)" if "(k, r) \<in> set tbl" for k r
  proof -
    have "map_of tbl k = Some r" using d that by simp
    then obtain m where "mirrors h k m r" using assms(1) unfolding mirrored_def by (metis option_rel_Some2)
    then show ?thesis by (auto simp: mirrors_def settled_def)
  qed
  have load: "LoadNodes limit tbl = map nr_payload ?rows"
    using assms(2) by (simp add: LoadNodes_def load_limit_def)
  have keys: "map (nodeID h \<circ> nr_payload) (vals tbl) = keys tbl"
    using row by (simp add: map_eq_conv)
  then have dv: "distinct (map (nodeID h \<circ> nr_payload) (vals tbl))" using d by (simp only:)
  then have dr: "distinct (map (nodeID h \<circ> nr_payload) ?rows)"
    by (metis mset_SliceStable mset_eq_imp_distinct_iff mset_map)
  then show "distinct (map (nodeID h) (LoadNodes limit tbl))" by (simp add: load)
  have "find (\<lambda>n. nodeID h n = i) (LoadNodes limit tbl) = map_option nr_payload (find (\<lambda>r. (nodeID h \<circ> nr_payload) r = i) ?rows)"
    unfolding load by (rule find_mapped)
  also have "find (\<lambda>r. (nodeID h \<circ> nr_payload) r = i) ?rows = find (\<lambda>r. (nodeID h \<circ> nr_payload) r = i) (vals tbl)"
    by (rule find_perm [OF dr]) (simp only: mset_SliceStable)
  also have "\<dots> = map_of tbl i"
    using row by (induction tbl) auto
  finally show "find (\<lambda>n. nodeID h n = i) (LoadNodes limit tbl) = map_option nr_payload (map_of tbl i)" .
  show "settled h n" if "n \<in> set (LoadNodes limit tbl)"
  proof -
    have "n \<in> nr_payload ` set (vals tbl)" using that unfolding load by simp
    then show ?thesis using row by auto
  qed
qed


lemma restored_lookup:
  assumes "durable h w" and "nw_db w = Some (tbl, ms)" and "int (length tbl) \<le> load_limit limit" and "knows h s (nw_store w)"
  shows "map_of (st_nodes (nw_store (start_nodes h now limit s (nw_db w)))) i = map_option json_node (map_of (st_nodes (nw_store w)) i)"
proof -
  let ?nodes = "st_nodes (nw_store w)" and ?ns = "LoadNodes limit tbl"
  have m: "mirrored h ?nodes tbl" using assms(1,2) by (simp add: durable_def)
  have pair: "rel_option (mirrors h i) (map_of ?nodes i) (map_of tbl i)" for i using m by (simp add: mirrored_def)
  note load = loaded_lookup [OF m assms(3)]
  have known: "map_of (st_nodes s) k = Some old \<Longrightarrow> map_option json_node (map_of ?nodes k) = Some old" for k old
    using assms(4) by (auto simp: knows_def list_all_iff dest!: map_of_SomeD)
  have keep: "replace_node h now (by_key h (st_nodes s)) n = n" if n: "n \<in> set ?ns" for n
  proof (rule replace_settled [OF load(3) [OF n]])
    have id: "n_ID n = nodeID h n" using load(3) [OF n] by (simp add: settled_def)
    have "find (\<lambda>x. nodeID h x = nodeID h n) ?ns = Some n" using load(1) n by (rule find_key)
    then obtain r where r: "map_of tbl (n_ID n) = Some r" "nr_payload r = n" using load(2) id by auto
    then obtain x where x: "map_of ?nodes (n_ID n) = Some x" "mirrors h (n_ID n) x r"
      using pair [of "n_ID n"] by (auto simp: option_rel_Some2)
    show "map_of (by_key h (st_nodes s)) (Key h n) = None \<or> map_of (by_key h (st_nodes s)) (Key h n) = Some (cloneNode n)"
    proof (cases "map_of (by_key h (st_nodes s)) (Key h n)")
      case (Some old)
      have old: "map_of (st_nodes s) (n_ID n) = Some old"
        using by_key_hit [OF _ Some id] assms(4) by (simp add: knows_def)
      then have "old = cloneNode n" using known [OF old] x r(2) by (simp add: mirrors_def)
      with Some show ?thesis by simp
    qed simp
  qed
  show ?thesis
  proof (cases "?ns = []")
    case True
    then have none: "map_of tbl k = None" for k using load(2) [of k] by simp
    then have "map_of ?nodes k = None" for k using pair [of k] by simp
    moreover from this have "map_of (st_nodes s) k = None" for k using known [of k] by (cases "map_of (st_nodes s) k") auto
    ultimately show ?thesis using True assms(2) by (simp add: start_nodes_def)
  next
    case False
    have "map_of (st_nodes (snd (ReplaceNodes h now (map Some ?ns) s))) i =
        map_option (\<lambda>n. cloneNode (replace_node h now (by_key h (st_nodes s)) n)) (find (\<lambda>n. nodeID h n = i) ?ns)"
      using ReplaceNodes_lookup [of h "map Some ?ns" now s i] load(1) by simp
    also have "\<dots> = map_option cloneNode (find (\<lambda>n. nodeID h n = i) ?ns)"
      using keep by (cases "find (\<lambda>n. nodeID h n = i) ?ns") (auto dest: find_SomeD)
    also have "\<dots> = map_option json_node (map_of ?nodes i)"
      using pair [of i] unfolding load(2) by (cases "map_of ?nodes i") (auto simp: option_rel_Some1 mirrors_def)
    finally show ?thesis using False assms(2) by (simp add: start_nodes_def)
  qed
qed

lemma durable_started:
  assumes "durable h w" and "nw_db w = Some (tbl, ms)" and "int (length tbl) \<le> load_limit limit" and "knows h s (nw_store w)"
    and "list_all (\<lambda>(i, n). usual_latency n) (st_nodes (nw_store w))"
  shows "durable h (start_nodes h now limit s (nw_db w))"
proof -
  let ?w = "start_nodes h now limit s (nw_db w)"
  have "rel_option (mirrors h i) (map_of (st_nodes (nw_store ?w)) i) (map_of tbl i)" for i
  proof -
    have r: "rel_option (mirrors h i) (map_of (st_nodes (nw_store w)) i) (map_of tbl i)"
      using assms(1,2) by (simp add: durable_def mirrored_def)
    have "mirrors h i (json_node m) r" if "map_of (st_nodes (nw_store w)) i = Some m" "mirrors h i m r" for m r
      using that json_json assms(5) by (auto simp: mirrors_def list_all_iff dest!: map_of_SomeD)
    then show ?thesis
      unfolding restored_lookup [OF assms(1-4)] using r by (cases "map_of (st_nodes (nw_store w)) i") (auto simp: option_rel_Some1)
  qed
  moreover have "store_ok h (nw_store ?w)"
    using assms(2,4) replace_ok by (simp add: start_nodes_def knows_def)
  moreover have "distinct (keys tbl)" using assms(1,2) by (simp add: durable_def mirrored_def)
  moreover have "nw_db ?w = Some (tbl, ms)" using assms(2) by (simp add: start_nodes_def)
  ultimately show ?thesis by (simp add: durable_def mirrored_def)
qed

text \<open>The life of the nodes of a service with a database: what its stages and its restarts do.\<close>

inductive node_life :: "hashes \<Rightarrow> node_world \<Rightarrow> bool" for h where
  first: "st_nodes (nw_store w) = [] \<Longrightarrow> nw_db w = Some ([], ms) \<Longrightarrow> node_life h w"
| fetched: "node_life h w \<Longrightarrow> 0 < now \<Longrightarrow> node_life h (service_replaceNodes h now nodes w)"
| measured: "node_life h w \<Longrightarrow> distinct (map (nodeID h) ns) \<Longrightarrow> list_all (refreshes h (st_nodes (nw_store w))) ns \<Longrightarrow>
    node_life h (service_upsertNodes h now ns recordMetrics w)"
| pruned: "node_life h w \<Longrightarrow> node_life h (snd (prune_nodes now opt w))"
| restarted: "node_life h w \<Longrightarrow> nw_db w = Some (tbl, ms) \<Longrightarrow> int (length tbl) \<le> load_limit limit \<Longrightarrow>
    knows h s (nw_store w) \<Longrightarrow> list_all (\<lambda>(i, n). usual_latency n) (st_nodes (nw_store w)) \<Longrightarrow>
    node_life h (start_nodes h now limit s (nw_db w))"

lemma life_durable:
  assumes "\<forall>x. sha1_id h x \<noteq> ''''" and "node_life h w"
  shows "durable h w"
  using assms(2)
proof induction
  case (first w ms)
  then show ?case by (simp add: durable_def mirrored_def store_ok_def)
next
  case (fetched w now nodes)
  then show ?case using durable_replaced assms(1) by blast
next
  case (measured w ns now recordMetrics)
  then show ?case using durable_upserted assms(1) by (simp add: list_all_iff)
next
  case (pruned w now opt)
  then show ?case using durable_pruned assms(1) by blast
next
  case (restarted w tbl ms limit s now)
  then show ?case using durable_started by blast
qed



definition id_hashes :: hashes where
  "id_hashes = \<lparr>sha256_hex = (\<lambda>s. s), sha1_id = (\<lambda>s. CHR ''n'' # s)\<rparr>"

definition empty_world :: node_world where
  "empty_world = \<lparr>nw_store = NewMemory, nw_db = Some ([], [])\<rparr>"


end
