(* ===== verification/DialStage.thy ===== *)
theory DialStage
  imports Dialer Publish NodeTable
begin

text \<open>
  The dial stage of a job: \<open>doDial\<close>, \<open>pickDialCandidates\<close> and their helpers in
  \<open>internal/service/service.go\<close>. Candidates are chosen from the store, dialled in rounds by every
  configured engine, and each round is written back to store and database before the next one starts.
  The options of a job are a \<open>map[string]any\<close>. The progress reports (\<open>updateJob\<close>) and the refresh of the
  publish cache after a round are steps of theories \<open>Jobs\<close> and \<open>PublishCache\<close>.
\<close>

subsection \<open>Choosing what to dial\<close>

definition hasTag :: "string list \<Rightarrow> string \<Rightarrow> bool" where
  "hasTag tags want = (want \<in> set tags)"

definition boolScore :: "bool \<Rightarrow> float64" where
  "boolScore b = (if b then 1 else 0)"

definition pool_limit :: "int \<Rightarrow> bool \<Rightarrow> int" where
  "pool_limit maxDial allHQ = (if \<not> allHQ \<and> maxDial > 0 then
     (let l = maxDial * 25; l = (if l < 200 then 200 else l) in if l > 8000 then 8000 else l) else 0)"

definition dial_pool :: "config \<Rightarrow> int \<Rightarrow> bool \<Rightarrow> store \<Rightarrow> node list" where
  "dial_pool cfg maxDial allHQ s =
     (let minScore = (if flt_MinScore (Filter cfg) > 0 then flt_MinScore (Filter cfg) else 0); l = pool_limit maxDial allHQ;
          found = ListNodes (no_filter\<lparr>nf_AliveOnly := True, nf_HighQuality := (minScore \<ge> 70 \<or> minScore \<le> 0),
            nf_MinScore := minScore, nf_Limit := l\<rparr>) s
      in if found = [] then ListNodes (no_filter\<lparr>nf_AliveOnly := True, nf_Limit := l\<rparr>) s else found)"

definition recent_result :: "time \<Rightarrow> config \<Rightarrow> node \<Rightarrow> bool" where
  "recent_result now cfg n = (case n_Dial n of None \<Rightarrow> False
     | Some d \<Rightarrow> HasEngine (Some d) (dl_Engine (Dial cfg)) \<and> \<not> IsZero (dial_TestedAt (dial d)) \<and>
         dial_TestedAt (dial d) > verifiedAfter now cfg)"

definition dial_eligible :: "time \<Rightarrow> config \<Rightarrow> bool \<Rightarrow> node \<Rightarrow> bool" where
  "dial_eligible now cfg onlyUnverified n \<longleftrightarrow> SupportsEngine (Some n) (dl_Engine (Dial cfg)) \<and>
     \<not> (onlyUnverified \<and> recent_result now cfg n)"

definition dial_score :: "node \<Rightarrow> float64" where
  "dial_score n =
     (let lat0 = Milliseconds (n_Latency n);
          lat = (if lat0 \<le> 0 then (case n_Quality n of Some q \<Rightarrow> q_AvgLatencyMS q | None \<Rightarrow> lat0) else lat0);
          sc = n_Score n;
          sc = (if lat > 0 \<and> lat < 8 then sc - 25 else if lat \<ge> 15 \<and> lat \<le> 800 then sc + 8 else if lat > 1500 then sc - 10 else sc);
          sc = (if n_Verified n then sc + 5 else sc);
          sc = (if n_Protocol n \<in> {ProtoSS, ProtoTrojan, ProtoHysteria2} then sc + 3 else sc)
      in if hasTag (n_Tags n) ''dial-fail'' then sc - 5 else sc)"

definition ranked_before :: "node \<Rightarrow> node \<Rightarrow> bool" where
  "ranked_before a b \<longleftrightarrow> (if dial_score a \<noteq> dial_score b then dial_score a > dial_score b else n_Latency a < n_Latency b)"

definition dial_ranked :: "time \<Rightarrow> config \<Rightarrow> int \<Rightarrow> bool \<Rightarrow> bool \<Rightarrow> store \<Rightarrow> node list" where
  "dial_ranked now cfg maxDial onlyUnverified allHQ s =
     SliceStable ranked_before (filter (dial_eligible now cfg onlyUnverified) (dial_pool cfg maxDial allHQ s))"

definition spread_key :: "node \<Rightarrow> string" where
  "spread_key n = (let cc = ToUpper (n_Country n) in (if cc = '''' then ''XX'' else cc) @ ''|'' @ n_Protocol n)"

text \<open>The two passes of the limited mode; \<open>k\<close> nodes are chosen already.\<close>

fun spread :: "int \<Rightarrow> int \<Rightarrow> (string, int) gmap \<Rightarrow> (string, int) gmap \<Rightarrow> int \<Rightarrow> node list \<Rightarrow> node list \<times> (string, int) gmap" where
  "spread maxDial perKey usedKey usedServer k [] = ([], usedServer)"
| "spread maxDial perKey usedKey usedServer k (n # ns) =
     (if k \<ge> maxDial then ([], usedServer)
      else if gget 0 usedKey (spread_key n) \<ge> perKey \<or> gget 0 usedServer (n_Server n) \<ge> 2
      then spread maxDial perKey usedKey usedServer k ns
      else (case spread maxDial perKey (gincr (spread_key n) usedKey) (gincr (n_Server n) usedServer) (k + 1) ns of
        (out, hosts) \<Rightarrow> (n # out, hosts)))"

fun refill :: "int \<Rightarrow> string set \<Rightarrow> (string, int) gmap \<Rightarrow> int \<Rightarrow> node list \<Rightarrow> node list" where
  "refill maxDial seen usedServer k [] = []"
| "refill maxDial seen usedServer k (n # ns) =
     (if k \<ge> maxDial then []
      else if n_ID n \<in> seen \<or> gget 0 usedServer (n_Server n) \<ge> 3 then refill maxDial seen usedServer k ns
      else n # refill maxDial seen (gincr (n_Server n) usedServer) (k + 1) ns)"

definition per_key :: "int \<Rightarrow> int" where
  "per_key maxDial = (let p = quot maxDial 8 + 2; p = (if p < 3 then 3 else p) in if p > 12 then 12 else p)"

definition limited_pick :: "int \<Rightarrow> node list \<Rightarrow> node list" where
  "limited_pick maxDial ranked = (case spread maxDial (per_key maxDial) [] [] 0 ranked of (out, hosts) \<Rightarrow>
     out @ refill maxDial (set (map n_ID out)) hosts (int (length out)) ranked)"

definition pickDialCandidates :: "time \<Rightarrow> config \<Rightarrow> int \<Rightarrow> bool \<Rightarrow> bool \<Rightarrow> store \<Rightarrow> node list" where
  "pickDialCandidates now cfg maxDial onlyUnverified allHQ s =
     (let ranked = dial_ranked now cfg maxDial onlyUnverified allHQ s
      in if allHQ \<or> maxDial \<le> 0 then ranked else limited_pick maxDial ranked)"

subsection \<open>Results of several engines\<close>

definition configuredDialEngines :: "config \<Rightarrow> (string \<times> string) list" where
  "configuredDialEngines cfg = (let d = Dial cfg in
     if dl_Engine d \<noteq> ''both'' then
       [(dl_Engine d, if dl_Engine d = ''mihomo'' \<and> dl_MihomoBin d \<noteq> '''' then dl_MihomoBin d else dl_Bin d)]
     else [(''sing-box'', dl_Bin d), (''mihomo'', dl_MihomoBin d)])"

definition is_mihomo :: "DialResult option \<Rightarrow> bool" where
  "is_mihomo check = (case check of None \<Rightarrow> False | Some r \<Rightarrow> dial_Engine (dial r) = ''mihomo'')"

definition latest_check :: "DialResult option list \<Rightarrow> time \<Rightarrow> time" where
  "latest_check checks t = fold (\<lambda>c t. case c of None \<Rightarrow> t
     | Some r \<Rightarrow> if dial_TestedAt (dial r) > t then dial_TestedAt (dial r) else t) checks t"

definition combineDialChecks :: "DialResult option list \<Rightarrow> DialResult option" where
  "combineDialChecks checks = (if checks = [] then None
     else (case (case find is_mihomo checks of Some c \<Rightarrow> c | None \<Rightarrow> last checks) of None \<Rightarrow> None
       | Some a \<Rightarrow> if length checks = 1 then Some (DialResult (dial a) [])
           else Some (DialResult ((dial a)\<lparr>dial_Engine := ''both'', dial_TestedAt := latest_check checks (dial_TestedAt (dial a))\<rparr>) checks)))"

definition setDialTag :: "string list \<Rightarrow> bool \<Rightarrow> string list" where
  "setDialTag tags verified = (let add = (if verified then ''verified'' else ''dial-fail''); remove = (if verified then ''dial-fail'' else ''verified'')
     in filter (\<lambda>t. t \<noteq> add \<and> t \<noteq> remove) tags @ [add])"

text \<open>
  What a run meets from outside: what each probe of a round finds, whether the core binaries and the work
  directory are there when an engine starts, the clock, and where the context is found canceled: before a
  round, or after the tests of an engine.
\<close>

record dial_run =
  run_answers :: "nat \<Rightarrow> string \<Rightarrow> node \<Rightarrow> time + probe"
  run_files :: "nat \<Rightarrow> files"
  run_workdir :: "nat \<Rightarrow> string \<Rightarrow> bool"
  run_clock :: "nat \<Rightarrow> time"
  run_stop :: "nat \<Rightarrow> bool"
  run_cut :: "nat \<Rightarrow> string \<Rightarrow> bool"

datatype dial_error = DialDisabled | NothingDialable string | CoreUnavailable bin_error | DialCanceled

type_synonym engine_stats = "(string, int \<times> int) gmap"

record dial_stats =
  dst_planned :: int
  dst_ok :: int
  dst_fail :: int
  dst_latency :: int
  dst_done :: int
  dst_verified :: int
  dst_engines :: engine_stats

definition engine_options :: "config \<Rightarrow> string \<Rightarrow> string \<Rightarrow> dial_options" where
  "engine_options cfg engine bin = \<lparr>do_Bin = bin, do_Engine = engine, do_Concurrency = dl_Concurrency (Dial cfg),
     do_Timeout = wrap64 (dl_TimeoutSec (Dial cfg) * second), do_TestURL = dl_TestURL (Dial cfg),
     do_DownloadBytes = dl_DownloadBytes (Dial cfg), do_WorkDir = ''data/dial-tmp/'' @ engine, do_BasePort = 0\<rparr>"

definition add_check :: "node \<Rightarrow> DialResult option list \<Rightarrow> DialResult option list" where
  "add_check n checks = (case n_Dial n of None \<Rightarrow> checks | Some d \<Rightarrow> checks @ [Some (DialResult (dial d) [])])"

definition count_check :: "string \<Rightarrow> node \<Rightarrow> engine_stats \<Rightarrow> engine_stats" where
  "count_check engine n st = (case n_Dial n of None \<Rightarrow> st
     | Some d \<Rightarrow> (case gget (0, 0) st engine of (good, bad) \<Rightarrow>
         gput engine (if dial_OK (dial d) then (good + 1, bad) else (good, bad + 1)) st))"

text \<open>A batch through the engines one after the other: each starts from what the last one left.\<close>

fun run_engines :: "codecs \<Rightarrow> (outbound_error \<Rightarrow> string) \<Rightarrow> config \<Rightarrow> dial_run \<Rightarrow> nat \<Rightarrow> (string \<times> string) list \<Rightarrow>
    node list \<Rightarrow> DialResult option list list \<Rightarrow> engine_stats \<Rightarrow> dial_error + node list \<times> DialResult option list list \<times> engine_stats" where
  "run_engines c text cfg run r [] batch checks st = Inr (batch, checks, st)"
| "run_engines c text cfg run r ((engine, bin) # es) batch checks st =
     (case dialer_New (run_files run r) '''' (run_workdir run r engine) (engine_options cfg engine bin) of
        Inl e \<Rightarrow> Inl (CoreUnavailable e)
      | Inr d \<Rightarrow> if run_cut run r engine then Inl DialCanceled
          else (let batch' = dial_TestAll c text d (run_answers run r engine) batch
                in run_engines c text cfg run r es batch' (map2 add_check batch' checks) (fold (count_check engine) batch' st)))"

definition with_checks :: "DialResult option list \<Rightarrow> node \<Rightarrow> node" where
  "with_checks checks n = (let d = combineDialChecks checks; ok = (case d of None \<Rightarrow> False | Some r \<Rightarrow> dial_OK (dial r))
     in n\<lparr>n_Dial := d, n_Verified := ok, n_Tags := setDialTag (n_Tags n) ok\<rparr>)"

definition rescored :: "config \<Rightarrow> node \<Rightarrow> node" where
  "rescored cfg n = (case n_Dial n of None \<Rightarrow> n
     | Some d \<Rightarrow> (let q = (case n_Quality n of None \<Rightarrow> zero_quality\<lparr>q_SuccessRate := boolScore (dial_OK (dial d))\<rparr> | Some q \<Rightarrow> q)
         in ApplyV2 (n\<lparr>n_Quality := Some (q\<lparr>q_HTTPMS := dial_HTTPMS (dial d), q_ThroughputBPS := dial_ThroughputBPS (dial d)\<rparr>)\<rparr>)
              (Some (qualityWeights (Some cfg)))))"

definition settle_batch :: "config \<Rightarrow> node list \<Rightarrow> DialResult option list list \<Rightarrow> node list" where
  "settle_batch cfg batch checks = map2 (\<lambda>n ch. rescored cfg (with_checks ch n)) batch checks"

subsection \<open>The stage\<close>

definition opt_int :: "amap \<Rightarrow> string \<Rightarrow> int \<Rightarrow> int" where
  "opt_int opts key def = (case aget opts key of AFloat v \<Rightarrow> go_int v | AInt v \<Rightarrow> v | _ \<Rightarrow> def)"

definition opt_true :: "amap \<Rightarrow> string \<Rightarrow> bool" where
  "opt_true opts key = (case aget opts key of ABool b \<Rightarrow> b | _ \<Rightarrow> False)"

definition dial_mode :: "config \<Rightarrow> amap \<Rightarrow> int \<times> bool" where
  "dial_mode cfg opts = (let maxDial = opt_int opts ''max_dial'' (dl_MaxNodes (Dial cfg))
     in if opt_true opts ''all_hq'' then (0, True) else (maxDial, maxDial \<le> 0))"

definition batch_size :: "config \<Rightarrow> amap \<Rightarrow> int" where
  "batch_size cfg opts = (let b = (if dl_BatchSize (Dial cfg) \<le> 0 then 200 else dl_BatchSize (Dial cfg))
     in case aget opts ''batch_size'' of AFloat v \<Rightarrow> if go_int v > 0 then go_int v else b | _ \<Rightarrow> b)"

fun resolve_all :: "files \<Rightarrow> (string \<times> string) list \<Rightarrow> bin_error + (string \<times> string) list" where
  "resolve_all fs [] = Inr []"
| "resolve_all fs ((engine, bin) # es) = (case AvailableFor fs bin engine of Inl e \<Rightarrow> Inl e
     | Inr (bin', engine') \<Rightarrow> (case resolve_all fs es of Inl e \<Rightarrow> Inl e | Inr rest \<Rightarrow> Inr ((engine', bin') # rest)))"

definition rounds_of :: "nat \<Rightarrow> nat \<Rightarrow> nat" where
  "rounds_of m b = (m + b - 1) div b"

definition batch_at :: "nat \<Rightarrow> 'a list \<Rightarrow> nat \<Rightarrow> 'a list" where
  "batch_at b xs r = take b (drop (r * b) xs)"

definition dialed_ok :: "node \<Rightarrow> bool" where
  "dialed_ok n = (case n_Dial n of None \<Rightarrow> False | Some d \<Rightarrow> dial_OK (dial d))"

definition dialed_ms :: "node \<Rightarrow> int" where
  "dialed_ms n = (case n_Dial n of None \<Rightarrow> 0 | Some d \<Rightarrow> dial_LatencyMS (dial d))"

definition verified_total :: "time \<Rightarrow> config \<Rightarrow> store \<Rightarrow> int" where
  "verified_total now cfg s = int (length (ListNodes (no_filter\<lparr>nf_VerifiedOnly := True,
     nf_DialTestedAfter := verifiedAfter now cfg, nf_DialEngine := verifiedEngine cfg, nf_Limit := 20000\<rparr>) s))"

definition tally :: "node list \<Rightarrow> dial_stats \<Rightarrow> dial_stats" where
  "tally ns st = (let good = filter dialed_ok ns in
     st\<lparr>dst_ok := dst_ok st + int (length good), dst_fail := dst_fail st + int (length ns - length good),
       dst_latency := dst_latency st + sum_list (map dialed_ms good), dst_done := dst_done st + int (length ns)\<rparr>)"

fun dial_rounds :: "hashes \<Rightarrow> codecs \<Rightarrow> (outbound_error \<Rightarrow> string) \<Rightarrow> config \<Rightarrow> dial_run \<Rightarrow> (string \<times> string) list \<Rightarrow> nat \<Rightarrow>
    node list \<Rightarrow> nat list \<Rightarrow> dial_stats \<Rightarrow> node_world \<Rightarrow> dial_error option \<times> dial_stats \<times> node_world" where
  "dial_rounds h c text cfg run engines b xs [] st w = (None, st, w)"
| "dial_rounds h c text cfg run engines b xs (r # rs) st w =
     (if run_stop run r then (Some DialCanceled, st, w)
      else (case run_engines c text cfg run r engines (batch_at b xs r) (map (\<lambda>n. []) (batch_at b xs r)) (dst_engines st) of
          Inl e \<Rightarrow> (Some e, st, w)
        | Inr (batch, checks, es) \<Rightarrow>
            (let ns = settle_batch cfg batch checks;
                 w' = service_upsertNodes h (run_clock run r) ns True w
             in dial_rounds h c text cfg run engines b xs rs
                  (tally ns (st\<lparr>dst_engines := es, dst_verified := verified_total (run_clock run r) cfg (nw_store w')\<rparr>)) w')))"

definition no_stats :: "int \<Rightarrow> string list \<Rightarrow> dial_stats" where
  "no_stats planned engines = \<lparr>dst_planned = planned, dst_ok = 0, dst_fail = 0, dst_latency = 0, dst_done = 0, dst_verified = 0,
     dst_engines = fold (\<lambda>e. gput e (0, 0)) engines []\<rparr>"

definition doDial :: "hashes \<Rightarrow> codecs \<Rightarrow> (outbound_error \<Rightarrow> string) \<Rightarrow> files \<Rightarrow> time \<Rightarrow> config \<Rightarrow> amap \<Rightarrow> dial_run \<Rightarrow> node_world \<Rightarrow>
    dial_error option \<times> dial_stats \<times> node_world" where
  "doDial h c text fs now cfg opts run w =
     (if \<not> dl_Enabled (Dial cfg) then (Some DialDisabled, no_stats 0 [], w)
      else (case dial_mode cfg opts of (maxDial, allHQ) \<Rightarrow>
        (let onlyUnverified = (\<not> opt_true opts ''force'');
             xs = pickDialCandidates now cfg maxDial onlyUnverified allHQ (nw_store w)
         in if xs = [] then
              (if onlyUnverified \<and> pickDialCandidates now cfg maxDial False allHQ (nw_store w) \<noteq> [] then (None, no_stats 0 [], w)
               else (Some (NothingDialable (dl_Engine (Dial cfg))), no_stats 0 [], w))
            else (case resolve_all fs (configuredDialEngines cfg) of Inl e \<Rightarrow> (Some (CoreUnavailable e), no_stats (int (length xs)) [], w)
              | Inr engines \<Rightarrow> (let b = nat (batch_size cfg opts)
                  in dial_rounds h c text cfg run engines b xs [0..<rounds_of (length xs) b]
                       (no_stats (int (length xs)) (map fst engines)) w)))))"

definition dial_average :: "dial_stats \<Rightarrow> int" where
  "dial_average st = (if dst_ok st > 0 then quot (dst_latency st) (dst_ok st) else 0)"



subsection \<open>The candidates\<close>

lemma Match_alive: "Match (f\<lparr>nf_AliveOnly := True\<rparr>) m \<Longrightarrow> n_Alive m"
  by (simp add: Match_def split: option.splits if_splits)

lemma pool_ids:
  assumes "store_ok h s"
  shows "distinct (map n_ID (dial_pool cfg maxDial allHQ s))"
    and "n \<in> set (dial_pool cfg maxDial allHQ s) \<Longrightarrow>
      n_ID n = nodeID h n \<and> (\<exists>m. map_of (st_nodes s) (n_ID n) = Some m \<and> n = cloneNode m) \<and> n_Alive n"
proof -
  have "\<exists>f. dial_pool cfg maxDial allHQ s = ListNodes (f\<lparr>nf_AliveOnly := True\<rparr>) s"
  proof -
    have f: "no_filter\<lparr>nf_AliveOnly := True, nf_HighQuality := q, nf_MinScore := a, nf_Limit := l\<rparr> =
        (no_filter\<lparr>nf_HighQuality := q, nf_MinScore := a, nf_Limit := l\<rparr>)\<lparr>nf_AliveOnly := True\<rparr>"
      "no_filter\<lparr>nf_AliveOnly := True, nf_Limit := l\<rparr> = (no_filter\<lparr>nf_Limit := l\<rparr>)\<lparr>nf_AliveOnly := True\<rparr>" for q a l
      by simp_all
    show ?thesis unfolding dial_pool_def Let_def f by (metis (full_types))
  qed
  then obtain f where f: "dial_pool cfg maxDial allHQ s = ListNodes (f\<lparr>nf_AliveOnly := True\<rparr>) s" ..
  show "distinct (map n_ID (dial_pool cfg maxDial allHQ s))" unfolding f by (rule ListNodes_ids(1) [OF assms])
  show "n_ID n = nodeID h n \<and> (\<exists>m. map_of (st_nodes s) (n_ID n) = Some m \<and> n = cloneNode m) \<and> n_Alive n"
    if "n \<in> set (dial_pool cfg maxDial allHQ s)"
    using ListNodes_ids(2) [OF assms that [unfolded f]] Match_alive by (auto simp: cloneNode_def)
qed

lemma ranked_ids:
  assumes "store_ok h s"
  shows "distinct (map n_ID (dial_ranked now cfg maxDial only allHQ s))"
    and "set (dial_ranked now cfg maxDial only allHQ s) = {n \<in> set (dial_pool cfg maxDial allHQ s). dial_eligible now cfg only n}"
proof -
  have "distinct (map n_ID (filter (dial_eligible now cfg only) (dial_pool cfg maxDial allHQ s)))"
    using pool_ids(1) [OF assms] by (rule distinct_map_filter)
  then show "distinct (map n_ID (dial_ranked now cfg maxDial only allHQ s))"
    unfolding dial_ranked_def by (metis mset_SliceStable mset_eq_imp_distinct_iff mset_map)
qed (simp add: dial_ranked_def)

interpretation dial_order: keyed_less ranked_before "\<lambda>n. (- dial_score n, n_Latency n)"
  by unfold_locales (auto simp: ranked_before_def)

lemma spread_ok:
  assumes "spread m p used_keys hosts k ns = (out, hosts')" and "distinct (map n_ID ns)" and "\<forall>sv. gget 0 hosts sv \<le> 2"
  shows "set out \<subseteq> set ns \<and> distinct (map n_ID out) \<and> k + int (length out) \<le> max k m \<and>
    (\<forall>sv. gget 0 hosts' sv = gget 0 hosts sv + int (count_list (map n_Server out) sv)) \<and> (\<forall>sv. gget 0 hosts' sv \<le> 2)"
  using assms
proof (induction m p used_keys hosts k ns arbitrary: out hosts' rule: spread.induct)
  case (2 m p used_keys hosts k n ns)
  let ?skip = "gget 0 used_keys (spread_key n) \<ge> p \<or> gget 0 hosts (n_Server n) \<ge> 2"
  consider "k \<ge> m" | "\<not> k \<ge> m" ?skip | "\<not> k \<ge> m" "\<not> ?skip" by blast
  then show ?case
  proof cases
    case 1 then show ?thesis using 2(3-5) by auto
  next
    case c: 2
    then have "spread m p used_keys hosts k ns = (out, hosts')" using 2(3) by simp
    then show ?thesis using 2(1) [OF c] 2(4,5) by fastforce
  next
    case c: 3
    obtain out1 where o: "spread m p (gincr (spread_key n) used_keys) (gincr (n_Server n) hosts) (k + 1) ns = (out1, hosts')" "out = n # out1"
      using 2(3) c by (auto split: prod.splits)
    have "\<forall>sv. gget 0 (gincr (n_Server n) hosts) sv \<le> 2" using 2(5) c(2) by (auto simp: gget_gincr)
    with 2(2) [OF c o(1)] 2(4) have ih: "set out1 \<subseteq> set ns \<and> distinct (map n_ID out1) \<and> k + 1 + int (length out1) \<le> max (k + 1) m \<and>
        (\<forall>sv. gget 0 hosts' sv = gget 0 (gincr (n_Server n) hosts) sv + int (count_list (map n_Server out1) sv)) \<and> (\<forall>sv. gget 0 hosts' sv \<le> 2)"
      by (metis distinct.simps(2) list.simps(9))
    moreover have "n_ID n \<notin> n_ID ` set out1" using ih 2(4) by auto
    ultimately have "set out \<subseteq> set (n # ns) \<and> distinct (map n_ID out) \<and> k + int (length out) \<le> max k m"
      using o(2) c(1) by auto
    moreover have "gget 0 hosts' sv = gget 0 hosts sv + int (count_list (map n_Server out) sv)" for sv
      using ih by (simp add: gget_gincr o(2))
    moreover have "gget 0 hosts' sv \<le> 2" for sv using ih by blast
    ultimately show ?thesis by blast
  qed
qed auto

lemma refill_ok:
  assumes "distinct (map n_ID ns)" and "\<forall>sv. gget 0 hosts sv \<le> 3"
  shows "set (refill m seen hosts k ns) \<subseteq> set ns \<and> distinct (map n_ID (refill m seen hosts k ns)) \<and>
    (\<forall>n \<in> set (refill m seen hosts k ns). n_ID n \<notin> seen) \<and> k + int (length (refill m seen hosts k ns)) \<le> max k m \<and>
    (\<forall>sv. gget 0 hosts sv + int (count_list (map n_Server (refill m seen hosts k ns)) sv) \<le> 3) \<and>
    (k + int (length (refill m seen hosts k ns)) < m \<longrightarrow>
      (\<forall>n \<in> set ns. n_ID n \<in> seen \<or> n \<in> set (refill m seen hosts k ns) \<or>
        gget 0 hosts (n_Server n) + int (count_list (map n_Server (refill m seen hosts k ns)) (n_Server n)) = 3))"
  using assms
proof (induction m seen hosts k ns rule: refill.induct)
  case (2 m seen hosts k n ns)
  let ?skip = "n_ID n \<in> seen \<or> gget 0 hosts (n_Server n) \<ge> 3"
  consider "k \<ge> m" | "\<not> k \<ge> m" ?skip | "\<not> k \<ge> m" "\<not> ?skip" by blast
  then show ?case
  proof cases
    case 1 then show ?thesis using 2(3,4) by simp
  next
    case c: 2
    then have r: "refill m seen hosts k (n # ns) = refill m seen hosts k ns" by simp
    have "gget 0 hosts (n_Server n) \<le> 3" using 2(4) by blast
    moreover have "distinct (map n_ID ns)" using 2(3) by simp
    note ih = 2(1) [OF c this 2(4)]
    moreover have "0 \<le> int (count_list (map n_Server (refill m seen hosts k ns)) (n_Server n))" by simp
    ultimately have "n_ID n \<in> seen \<or> gget 0 hosts (n_Server n) +
        int (count_list (map n_Server (refill m seen hosts k ns)) (n_Server n)) = 3"
      using c(2) by (metis add.right_neutral add_mono antisym)
    with ih show ?thesis unfolding r by (simp add: subset_insertI2) blast
  next
    case c: 3
    let ?rest = "refill m seen (gincr (n_Server n) hosts) (k + 1) ns"
    have r: "refill m seen hosts k (n # ns) = n # ?rest" using c by simp
    have "\<forall>sv. gget 0 (gincr (n_Server n) hosts) sv \<le> 3" using 2(4) c(2) by (auto simp: gget_gincr)
    with 2(2) [OF c] 2(3) have ih: "set ?rest \<subseteq> set ns \<and> distinct (map n_ID ?rest) \<and>
        (\<forall>x \<in> set ?rest. n_ID x \<notin> seen) \<and> k + 1 + int (length ?rest) \<le> max (k + 1) m \<and>
        (\<forall>sv. gget 0 (gincr (n_Server n) hosts) sv + int (count_list (map n_Server ?rest) sv) \<le> 3) \<and>
        (k + 1 + int (length ?rest) < m \<longrightarrow> (\<forall>x \<in> set ns. n_ID x \<in> seen \<or> x \<in> set ?rest \<or>
          gget 0 (gincr (n_Server n) hosts) (n_Server x) + int (count_list (map n_Server ?rest) (n_Server x)) = 3))"
      by simp
    moreover have "gget 0 (gincr (n_Server n) hosts) sv + int (count_list (map n_Server ?rest) sv) =
        gget 0 hosts sv + int (count_list (map n_Server (n # ?rest)) sv)" for sv
      by (simp add: gget_gincr)
    moreover have "n_ID n \<notin> n_ID ` set ?rest" using ih 2(3) by auto
    ultimately show ?thesis unfolding r using c(1,2) by auto
  qed
qed auto


lemma map_avoids: "\<forall>x \<in> set xs. f x \<notin> S \<Longrightarrow> S \<inter> set (map f xs) = {}"
  by auto

lemma limited_pick_ok:
  assumes "distinct (map n_ID ranked)" and "0 < m"
  shows "set (limited_pick m ranked) \<subseteq> set ranked \<and> distinct (map n_ID (limited_pick m ranked)) \<and>
    int (length (limited_pick m ranked)) \<le> m \<and> (\<forall>sv. count_list (map n_Server (limited_pick m ranked)) sv \<le> 3) \<and>
    (int (length (limited_pick m ranked)) < m \<longrightarrow> (\<forall>n \<in> set ranked - set (limited_pick m ranked).
      count_list (map n_Server (limited_pick m ranked)) (n_Server n) = 3))"
proof -
  obtain out hosts where sp: "spread m (per_key m) [] [] 0 ranked = (out, hosts)" by (metis surj_pair)
  let ?re = "refill m (set (map n_ID out)) hosts (int (length out)) ranked"
  have pick: "limited_pick m ranked = out @ ?re" by (simp add: limited_pick_def sp)
  have "\<forall>sv. gget (0::int) [] (sv::string) \<le> 2" by (simp add: gget_def)
  note out = spread_ok [OF sp assms(1) this]
  have count: "gget 0 hosts sv = int (count_list (map n_Server out) sv)" for sv using out by (simp add: gget_def)
  have two: "\<forall>sv. gget 0 hosts sv \<le> 2" using out by blast
  have "gget 0 hosts sv \<le> 3" for sv using two [rule_format, of sv] by linarith
  then have "\<forall>sv. gget 0 hosts sv \<le> 3" by blast
  note re = refill_ok [OF assms(1) this, of m "set (map n_ID out)" "int (length out)"]
  have both: "int (count_list (map n_Server (out @ ?re)) sv) = gget 0 hosts sv + int (count_list (map n_Server ?re) sv)" for sv
    by (simp add: count)
  have len: "int (length (out @ ?re)) = int (length out) + int (length ?re)" by simp
  have "set (out @ ?re) \<subseteq> set ranked" using out re by simp
  moreover have "\<forall>x \<in> set ?re. n_ID x \<notin> set (map n_ID out)" using re by blast
  then have "set (map n_ID out) \<inter> set (map n_ID ?re) = {}" by (rule map_avoids)
  then have "distinct (map n_ID (out @ ?re))" using out re unfolding map_append distinct_append by blast
  moreover have "int (length (out @ ?re)) \<le> m" using out re assms(2) unfolding len by linarith
  moreover have "count_list (map n_Server (out @ ?re)) sv \<le> 3" for sv
    using re both [of sv] by (metis of_nat_le_iff of_nat_numeral)
  moreover have "count_list (map n_Server (out @ ?re)) (n_Server n) = 3"
    if small: "int (length (out @ ?re)) < m" and n: "n \<in> set ranked - set (out @ ?re)" for n
  proof -
    have "n_ID n \<notin> set (map n_ID out)"
    proof
      assume "n_ID n \<in> set (map n_ID out)"
      then obtain x where x: "x \<in> set out" "n_ID x = n_ID n" by auto
      then have "x \<in> set ranked" using out by blast
      then have "x = n" using n x(2) assms(1) by (auto simp: distinct_map inj_on_def)
      then show False using n x(1) by simp
    qed
    then have "gget 0 hosts (n_Server n) + int (count_list (map n_Server ?re) (n_Server n)) = 3"
      using re n small unfolding len by auto
    then show ?thesis using both [of "n_Server n"] by linarith
  qed
  ultimately show ?thesis unfolding pick by blast
qed


definition dial_config :: config where
  "dial_config = publish_config\<lparr>Dial := (Dial publish_config)\<lparr>dl_Enabled := True, dl_Engine := ''sing-box'', dl_Bin := ''sing-box''\<rparr>\<rparr>"


subsection \<open>The rounds\<close>

lemma batches: "0 < b \<Longrightarrow> concat (map (batch_at b xs) [0..<rounds_of (length xs) b]) = xs"
proof -
  assume b: "0 < b"
  have "concat (map (batch_at b xs) [0..<r]) = take (r * b) xs" for r
    by (induction r) (simp_all add: batch_at_def take_add [symmetric] add.commute)
  moreover have "length xs \<le> rounds_of (length xs) b * b"
  proof -
    have "length xs + b - 1 < b + ((length xs + b - 1) div b) * b" using b by (rule dividend_less_div_times)
    then show ?thesis using b by (simp add: rounds_of_def)
  qed
  ultimately show ?thesis by simp
qed

lemma batch_size_pos: "0 < batch_size cfg opts"
  by (simp add: batch_size_def Let_def split: any.split)


text \<open>A node without what a dial measures.\<close>

definition undialed :: "node \<Rightarrow> node" where
  "undialed n = n\<lparr>n_Dial := None, n_Verified := False, n_Latency := 0, n_Alive := False, n_Tags := [], n_Quality := None,
     n_Score := 0, n_Grade := ''''\<rparr>"

text \<open>In some round a core got a request through this node answered.\<close>

definition proven :: "codecs \<Rightarrow> dial_run \<Rightarrow> node \<Rightarrow> bool" where
  "proven c run n \<longleftrightarrow> (\<exists>r engine e n0 pb. undialed n0 = undialed n \<and> run_answers run r engine n0 = Inr pb \<and> reached c e pb n0)"

text \<open>What a finished dial leaves of the candidate \<open>n\<close>.\<close>

definition dialed :: "codecs \<Rightarrow> dial_run \<Rightarrow> node \<Rightarrow> node \<Rightarrow> bool" where
  "dialed c run n m \<longleftrightarrow> undialed m = undialed n \<and> n_Dial m \<noteq> None \<and> n_Verified m = dialed_ok m \<and>
     (''verified'' \<in> set (n_Tags m) \<longleftrightarrow> n_Verified m) \<and> (''dial-fail'' \<in> set (n_Tags m) \<longleftrightarrow> \<not> n_Verified m) \<and>
     (n_Verified m \<longrightarrow> proven c run n)"

lemma undialed_test [simp]: "undialed (dial_testOne c text d pb n) = undialed n" "undialed (markCanceled t e n) = undialed n"
  by (simp_all add: undialed_def dial_testOne_def store_dial_def markCanceled_def Let_def)

lemma undialed_settled [simp]: "undialed (with_checks ch n) = undialed n" "undialed (rescored cfg n) = undialed n"
  by (simp_all add: undialed_def with_checks_def rescored_def ApplyV2_def Let_def split: option.split)

text \<open>The checks a node collects: all present, and a passed one is proven.\<close>

definition sound_check :: "codecs \<Rightarrow> dial_run \<Rightarrow> node \<Rightarrow> DialResult option \<Rightarrow> bool" where
  "sound_check c run n x = (case x of None \<Rightarrow> False | Some d \<Rightarrow> dial_OK (dial d) \<longrightarrow> proven c run n)"

lemma sound_same: "undialed n = undialed n' \<Longrightarrow> sound_check c run n = sound_check c run n'"
  by (simp add: sound_check_def proven_def fun_eq_iff split: option.split)

lemma tested_check:
  assumes "n' = (case run_answers run r engine n of Inl now \<Rightarrow> markCanceled now (dr_engine d) n | Inr pb \<Rightarrow> dial_testOne c text d pb n)"
    and "\<forall>x \<in> set ch. sound_check c run n x"
  shows "undialed n' = undialed n \<and> (\<forall>x \<in> set (add_check n' ch). sound_check c run n' x) \<and> [] \<noteq> add_check n' ch"
proof -
  have u: "undialed n' = undialed n" using assms(1) by (simp split: sum.split)
  have "\<exists>f. n_Dial n' = Some (DialResult f []) \<and> (dial_OK f \<longrightarrow> proven c run n)"
  proof (cases "run_answers run r engine n")
    case (Inl t)
    then show ?thesis using assms(1) by (simp add: markCanceled_def canceled_result_def)
  next
    case (Inr pb)
    have "proven c run n" if "dial_OK (dial_outcome c text d pb n)"
      using dial_outcome_ok [OF that] Inr unfolding proven_def by blast
    then show ?thesis using assms(1) Inr by simp
  qed
  then show ?thesis using assms(2) u sound_same [OF u] by (auto simp: add_check_def sound_check_def)
qed

definition sound_checks :: "codecs \<Rightarrow> dial_run \<Rightarrow> node \<Rightarrow> DialResult option list \<Rightarrow> bool" where
  "sound_checks c run n ch \<longleftrightarrow> (\<forall>x \<in> set ch. sound_check c run n x)"

lemma tested_batch:
  assumes "list_all2 (sound_checks c run) ns checks" and "ns' = dial_TestAll c text d (run_answers run r engine) ns"
  shows "map undialed ns' = map undialed ns \<and> list_all2 (sound_checks c run) ns' (map2 add_check ns' checks) \<and>
    [] \<notin> set (map2 add_check ns' checks)"
  using assms(1) unfolding assms(2)
proof (induction rule: list_all2_induct)
  case (Cons n ns ch checks)
  let ?n' = "case run_answers run r engine n of Inl now \<Rightarrow> markCanceled now (dr_engine d) n | Inr pb \<Rightarrow> dial_testOne c text d pb n"
  have "\<forall>x \<in> set ch. sound_check c run n x" using Cons(1) by (simp add: sound_checks_def)
  from tested_check [OF refl this] Cons(3) show ?case
    by (simp add: dial_TestAll_def sound_checks_def)
qed (simp add: dial_TestAll_def)

lemma run_engines_ok:
  assumes "run_engines c text cfg run r es ns checks st = Inr (ns', checks', st')" and "list_all2 (sound_checks c run) ns checks"
  shows "map undialed ns' = map undialed ns \<and> list_all2 (sound_checks c run) ns' checks' \<and>
    (es \<noteq> [] \<or> [] \<notin> set checks \<longrightarrow> [] \<notin> set checks')"
  using assms
proof (induction c "text" cfg run r es ns checks st rule: run_engines.induct)
  case (2 c msg cfg run r engine bin es ns checks st)
  obtain d where d: "dialer_New (run_files run r) '''' (run_workdir run r engine) (engine_options cfg engine bin) = Inr d"
    "\<not> run_cut run r engine"
    using 2(2) by (auto split: sum.splits if_splits)
  let ?ns = "dial_TestAll c msg d (run_answers run r engine) ns"
  note t = tested_batch [OF 2(3) refl, of msg d r engine]
  have "run_engines c msg cfg run r es ?ns (map2 add_check ?ns checks) (fold (count_check engine) ?ns st) = Inr (ns', checks', st')"
    using 2(2) d by (simp add: Let_def)
  from 2(1) [OF d refl this] t show ?case by simp
qed simp

lemma combine_sound:
  assumes "sound_checks c run n ch" and "ch \<noteq> []"
  shows "\<exists>d. combineDialChecks ch = Some d \<and> (dial_OK (dial d) \<longrightarrow> proven c run n)"
proof -
  define a where "a = (case find is_mihomo ch of Some x \<Rightarrow> x | None \<Rightarrow> last ch)"
  have "a \<in> set ch"
    using assms(2) by (auto simp: a_def find_Some_iff split: option.split)
  then have "sound_check c run n a" using assms(1) by (simp add: sound_checks_def)
  then obtain d where "a = Some d" "dial_OK (dial d) \<longrightarrow> proven c run n" by (auto simp: sound_check_def split: option.splits)
  then show ?thesis using assms(2) by (simp add: combineDialChecks_def a_def [symmetric])
qed

lemma setDialTag_tags: "''verified'' \<in> set (setDialTag tags ok) \<longleftrightarrow> ok" "''dial-fail'' \<in> set (setDialTag tags ok) \<longleftrightarrow> \<not> ok"
  by (auto simp: setDialTag_def Let_def)

lemma settled_dialed:
  assumes "sound_checks c run n ch" and "ch \<noteq> []"
  shows "dialed c run n (rescored cfg (with_checks ch n))"
proof -
  obtain d where d: "combineDialChecks ch = Some d" "dial_OK (dial d) \<longrightarrow> proven c run n" using combine_sound [OF assms] by blast
  then have "n_Dial (rescored cfg (with_checks ch n)) = Some d" "n_Verified (rescored cfg (with_checks ch n)) = dial_OK (dial d)"
    "n_Tags (rescored cfg (with_checks ch n)) = setDialTag (n_Tags n) (dial_OK (dial d))"
    by (simp_all add: rescored_def with_checks_def ApplyV2_def Let_def)
  then show ?thesis using d(2) by (simp add: dialed_def dialed_ok_def setDialTag_tags)
qed

lemma settle_batch_dialed:
  assumes "list_all2 (sound_checks c run) ns checks" and "[] \<notin> set checks"
  shows "list_all2 (dialed c run) ns (settle_batch cfg ns checks)"
  using assms by (induction rule: list_all2_induct) (auto simp: settle_batch_def settled_dialed)


text \<open>Writing a dialled node back replaces the stored one.\<close>

lemma dialed_refreshes:
  assumes "dialed c run n n'" and "n_ID n = nodeID h n" and "map_of nodes (n_ID n) = Some n" and "cloneNode n = n"
  shows "with_id h n' = n'" and "n_ID n' = n_ID n" and "refreshes h nodes n'" and "dialed c run n (cloneNode n')"
proof -
  have u: "undialed n' = undialed n" and dial: "n_Dial n' \<noteq> None" and tags: "n_Tags n' \<noteq> []"
    using assms(1) by (auto simp: dialed_def)
  have eq: "n' = n\<lparr>n_Dial := n_Dial n', n_Verified := n_Verified n', n_Latency := n_Latency n', n_Alive := n_Alive n',
      n_Tags := n_Tags n', n_Quality := n_Quality n', n_Score := n_Score n', n_Grade := n_Grade n'\<rparr>"
    using u by (cases n; cases n') (simp add: undialed_def)
  show id: "n_ID n' = n_ID n" by (subst eq) simp
  have "nodeID h (undialed x) = nodeID h x" for x
    by (simp add: undialed_def nodeID_def Key_def canonical_def)
  then have nid: "nodeID h n' = nodeID h n" using u by metis
  show wid: "with_id h n' = n'" using id nid assms(2) by (simp add: with_id_def)
  have ai: "map_option (filter (\<lambda>(k, v). v \<noteq> None)) (n_AIAccess n) = n_AIAccess n"
    using arg_cong [OF assms(4), of n_AIAccess] by (simp add: cloneNode_def)
  have "n_AIAccess n' = n_AIAccess n" by (subst eq) simp
  then have clone: "cloneNode n' = n'\<lparr>n_Dial := map_option cloneDial (n_Dial n')\<rparr>" using ai by (cases n') (simp add: cloneNode_def)
  have "upsert_into (cloneNode n') n = cloneNode n'"
    unfolding clone by (subst (1 2) eq) (use dial tags in \<open>cases n, simp add: upsert_into_def new_or_def IsZero_def\<close>)
  then show "refreshes h nodes n'"
    using assms(2,3) by (simp add: refreshes_def nid wid)
  have "dialed_ok (cloneNode n') = dialed_ok n'"
    unfolding clone by (simp add: dialed_ok_def cloneDial_def split: option.split)
  moreover have "undialed (cloneNode n') = undialed n'" unfolding clone by (simp add: undialed_def)
  ultimately show "dialed c run n (cloneNode n')" using assms(1) unfolding clone by (simp add: dialed_def)
qed

definition dialed_to :: "codecs \<Rightarrow> dial_run \<Rightarrow> node \<Rightarrow> node option \<Rightarrow> bool" where
  "dialed_to c run n x = (case x of None \<Rightarrow> False | Some m \<Rightarrow> dialed c run n m)"

interpretation dial_obs: observation "dialed c run" for c run
proof unfold_locales
  fix n n' h w
  assume a: "dialed c run n n'" "n_ID n = nodeID h n" "stored w (n_ID n) = Some n" "cloneNode n = n"
  show "renews h w n n' \<and> dialed c run n (cloneNode n')" using dialed_refreshes [OF a] unfolding renews_def by blast
qed

lemma dialed_same: "undialed n = undialed n' \<Longrightarrow> dialed c run n = dialed c run n'"
  by (simp add: dialed_def proven_def fun_eq_iff)

lemma engines_dialed:
  assumes "run_engines c text cfg run r es ns (map (\<lambda>n. []) ns) st = Inr (ns', checks, st')" and "es \<noteq> []"
  shows "list_all2 (dialed c run) ns (settle_batch cfg ns' checks)"
proof -
  have "list_all2 (sound_checks c run) ns (map (\<lambda>n. []) ns)" by (simp add: list_all2_conv_all_nth sound_checks_def)
  note ok = run_engines_ok [OF assms(1) this]
  then have "list_all2 (dialed c run) ns' (settle_batch cfg ns' checks)" using assms(2) by (intro settle_batch_dialed) auto
  moreover have "map undialed ns' = map undialed ns" using ok by blast
  then have "length ns' = length ns" "\<forall>i < length ns. undialed (ns ! i) = undialed (ns' ! i)"
    by (metis length_map, metis length_map nth_map)
  ultimately show ?thesis using dialed_same
    by (intro list_all2_all_nthI) (metis list_all2_lengthD, metis list_all2_nthD)
qed

text \<open>Where the rounds may stop: every state on the way is durable, and a candidate is either as it was or dialled.\<close>

lemma dial_rounds_ok:
  assumes "dial_rounds h c text cfg run es b xs rs st w = (e, st', w')" and "durable h w"
    and "awaits h w (concat (map (batch_at b xs) rs))" and "es \<noteq> []" and "\<forall>x. sha1_id h x \<noteq> ''''"
  shows "durable h w' \<and> (\<forall>i. i \<notin> n_ID ` set (concat (map (batch_at b xs) rs)) \<longrightarrow> stored w' i = stored w i) \<and>
    (\<forall>n \<in> set (concat (map (batch_at b xs) rs)). dialed_to c run n (stored w' (n_ID n)) \<or> e \<noteq> None \<and> stored w' (n_ID n) = Some n) \<and>
    dst_planned st' = dst_planned st \<and> dst_ok st' + dst_fail st' - dst_done st' = dst_ok st + dst_fail st - dst_done st \<and>
    dst_done st \<le> dst_done st' \<and> dst_done st' \<le> dst_done st + int (length (concat (map (batch_at b xs) rs))) \<and>
    (e = None \<longrightarrow> dst_done st' = dst_done st + int (length (concat (map (batch_at b xs) rs))))"
  using assms(1-3)
proof (induction rs arbitrary: st w)
  case Nil
  then show ?case by simp
next
  case (Cons r rs)
  let ?ns = "batch_at b xs r" and ?rest = "concat (map (batch_at b xs) rs)"
  let ?run = "run_engines c text cfg run r es ?ns (map (\<lambda>n. []) ?ns) (dst_engines st)"
  show ?case
  proof (cases "run_stop run r \<or> isl ?run")
    case True
    then obtain er where "e = Some er \<and> st' = st \<and> w' = w" using Cons(2) by (auto split: sum.splits if_splits)
    moreover have "\<forall>n \<in> set (concat (map (batch_at b xs) (r # rs))). stored w (n_ID n) = Some n"
      using Cons(4) unfolding awaits_def by blast
    ultimately show ?thesis using Cons(3) by simp
  next
    case False
    then obtain ns' checks est where run: "?run = Inr (ns', checks, est)" by (metis prod_cases3 sum.collapse(2))
    let ?ns' = "settle_batch cfg ns' checks"
    let ?w = "service_upsertNodes h (run_clock run r) ?ns' True w"
    let ?st = "tally ?ns' (st\<lparr>dst_engines := est, dst_verified := verified_total (run_clock run r) cfg (nw_store ?w)\<rparr>)"
    have next_: "dial_rounds h c text cfg run es b xs rs ?st ?w = (e, st', w')"
      using Cons(2) False run by (simp add: Let_def)
    have l2: "list_all2 (dialed c run) ?ns ?ns'" using engines_dialed [OF run assms(4)] .
    have aw: "awaits h w ?ns" "set (map n_ID ?ns) \<inter> set (map n_ID ?rest) = {}" "awaits h w ?rest"
      using awaits_append [of h w ?ns ?rest] Cons(4) by simp_all
    note now = dial_obs.written [OF Cons(3) aw(1) l2 assms(5), where t = "run_clock run r" and b = True]
    have "awaits h ?w ?rest" using aw now(2) unfolding awaits_def by (metis disjoint_iff image_eqI set_map)
    note later = Cons(1) [OF next_ now(1) this]
    have len: "length ?ns' = length ?ns" using l2 by (metis list_all2_lengthD)
    have tally: "dst_planned ?st = dst_planned st" "dst_done ?st = dst_done st + int (length ?ns)"
      "dst_ok ?st + dst_fail ?st - dst_done ?st = dst_ok st + dst_fail st - dst_done st"
      using length_filter_le [of dialed_ok ?ns'] by (simp_all add: tally_def Let_def len)
    have "dialed_to c run n (stored w' (n_ID n))" if "n \<in> set ?ns" for n
    proof -
      have "n_ID n \<notin> n_ID ` set ?rest" using that aw(2) by auto
      then have "stored w' (n_ID n) = stored ?w (n_ID n)" using later by metis
      then show ?thesis using now(3) [OF that] by (auto simp: dialed_to_def)
    qed
    moreover have "stored w' i = stored w i" if "i \<notin> n_ID ` set (concat (map (batch_at b xs) (r # rs)))" for i
    proof -
      have "i \<notin> n_ID ` set ?rest" "i \<notin> set (map n_ID ?ns)" using that by auto
      then show ?thesis using later now(2) by metis
    qed
    ultimately show ?thesis using later tally unfolding list.map(2) concat.simps(2) set_append length_append of_nat_add by force
  qed
qed


text \<open>Nothing interrupts the run: the context is not canceled and every engine starts.\<close>

definition undisturbed :: "config \<Rightarrow> dial_run \<Rightarrow> (string \<times> string) list \<Rightarrow> bool" where
  "undisturbed cfg run es \<longleftrightarrow> (\<forall>r. \<not> run_stop run r \<and> (\<forall>(engine, bin) \<in> set es. \<not> run_cut run r engine \<and>
     \<not> isl (dialer_New (run_files run r) '''' (run_workdir run r engine) (engine_options cfg engine bin))))"

lemma run_engines_total:
  assumes "undisturbed cfg run all" and "set es \<subseteq> set all"
  shows "\<not> isl (run_engines c text cfg run r es ns checks st)"
  using assms
proof (induction c "text" cfg run r es ns checks st rule: run_engines.induct)
  case (2 c msg cfg run r engine bin es ns checks st)
  then have d: "\<not> run_cut run r engine"
    "\<not> isl (dialer_New (run_files run r) '''' (run_workdir run r engine) (engine_options cfg engine bin))"
    unfolding undisturbed_def by auto
  then obtain d where "dialer_New (run_files run r) '''' (run_workdir run r engine) (engine_options cfg engine bin) = Inr d"
    by (auto simp: isl_def) (meson sum.exhaust)
  with 2 d(1) show ?case by (simp add: Let_def)
qed simp

lemma dial_rounds_total: "undisturbed cfg run es \<Longrightarrow> fst (dial_rounds h c text cfg run es b xs rs st w) = None"
proof (induction rs arbitrary: st w)
  case (Cons r rs)
  have "\<not> isl (run_engines c text cfg run r es (batch_at b xs r) (map (\<lambda>n. []) (batch_at b xs r)) (dst_engines st))"
    using run_engines_total [OF Cons.prems] by blast
  then show ?case
    using Cons by (auto simp: undisturbed_def Let_def split: sum.split)
qed simp

definition dial_plan :: "time \<Rightarrow> config \<Rightarrow> amap \<Rightarrow> store \<Rightarrow> node list" where
  "dial_plan now cfg opts s = pickDialCandidates now cfg (fst (dial_mode cfg opts)) (\<not> opt_true opts ''force'') (snd (dial_mode cfg opts)) s"

lemma plan_awaits:
  assumes "durable h w"
  shows "awaits h w (dial_plan now cfg opts (nw_store w))"
proof -
  let ?m = "fst (dial_mode cfg opts)" and ?all = "snd (dial_mode cfg opts)" and ?only = "\<not> opt_true opts ''force''"
  have ok: "store_ok h (nw_store w)" using assms by (simp add: durable_def)
  note ranked = ranked_ids [OF ok, of now cfg ?m ?only ?all]
  have "distinct (map n_ID (dial_plan now cfg opts (nw_store w))) \<and>
      set (dial_plan now cfg opts (nw_store w)) \<subseteq> set (dial_ranked now cfg ?m ?only ?all (nw_store w))"
  proof (cases "?all \<or> ?m \<le> 0")
    case False
    then have "0 < ?m" by simp
    with False show ?thesis using limited_pick_ok [OF ranked(1)] by (simp add: dial_plan_def pickDialCandidates_def Let_def)
  qed (use ranked(1) in \<open>simp add: dial_plan_def pickDialCandidates_def Let_def\<close>)
  moreover have "n_ID n = nodeID h n \<and> stored w (n_ID n) = Some n" if "n \<in> set (dial_ranked now cfg ?m ?only ?all (nw_store w))" for n
  proof -
    have "n \<in> set (dial_pool cfg ?m ?all (nw_store w))" using that unfolding ranked(2) by blast
    from pool_ids(2) [OF ok this] obtain m where m: "stored w (n_ID n) = Some m" "n = cloneNode m" "n_ID n = nodeID h n" by blast
    then have "n = m" using durable_cloned [OF assms m(1)] by simp
    with m show ?thesis by simp
  qed
  ultimately show ?thesis unfolding awaits_def by blast
qed

lemma resolve_all_length: "resolve_all fs es = Inr es' \<Longrightarrow> length es' = length es"
  by (induction fs es arbitrary: es' rule: resolve_all.induct) (auto split: sum.splits prod.splits)

lemma resolved_nonempty: "resolve_all fs (configuredDialEngines cfg) = Inr es \<Longrightarrow> es \<noteq> []"
  by (drule resolve_all_length) (auto simp: configuredDialEngines_def Let_def split: if_splits)



definition alive_world :: node_world where
  "alive_world = service_replaceNodes id_hashes 5 [Some (ss_node\<lparr>n_Alive := True\<rparr>)] empty_world"

definition calm_run :: dial_run where
  "calm_run = \<lparr>run_answers = (\<lambda>r engine n. Inl 7), run_files = (\<lambda>r. \<lparr>look_path = Some, file_exists = (\<lambda>p. True)\<rparr>),
     run_workdir = (\<lambda>r engine. True), run_clock = (\<lambda>r. 8), run_stop = (\<lambda>r. False), run_cut = (\<lambda>r engine. False)\<rparr>"

lemma alive_planned: "dial_plan 6 dial_config fmempty (nw_store alive_world) \<noteq> []"
proof -
  let ?n = "ss_node\<lparr>n_Alive := True\<rparr>"
  define n where "n = cloneNode (replace_node id_hashes 5 [] ?n)"
  have "st_nodes (nw_store alive_world) = [(n_ID n, n)]"
    by (simp add: n_def alive_world_def service_replaceNodes_def empty_world_def ReplaceNodes_def NewMemory_def by_key_def put_node_def
        gput_def Let_def)
  moreover have "n_Alive n" "n_Dial n = None" "SupportsEngine (Some n) ''sing-box''"
    by (simp_all add: n_def replace_node_def cloneNode_def ss_node_def SupportsEngine_def gget_def go_defs Let_def example_node_def zero_node_def)
  ultimately have n: "st_nodes (nw_store alive_world) = [(n_ID n, n)]" "n_Alive n" "n_Dial n = None" "SupportsEngine (Some n) ''sing-box''" .
  have "Match (no_filter\<lparr>nf_AliveOnly := True, nf_Limit := l\<rparr>) n" for l
    using n(2) by (simp add: Match_def no_filter_def IsZero_def)
  then have "dial_pool dial_config m a (nw_store alive_world) = [cloneNode n]" for m a
    by (simp add: dial_pool_def ListNodes_def n(1) SliceStable_def limit_to_def Let_def)
  moreover have "dial_eligible 6 dial_config True (cloneNode n)"
    using n(3,4) by (simp add: dial_eligible_def recent_result_def dial_config_def n_def)
  moreover have "snd (dial_mode dial_config fmempty)" "\<not> opt_true fmempty ''force''"
    by (simp_all add: dial_mode_def opt_int_def opt_true_def aget_def dial_config_def publish_config_def Default_def)
  ultimately show ?thesis
    by (simp add: dial_plan_def pickDialCandidates_def dial_ranked_def SliceStable_def Let_def)
qed


end
