(* ===== verification/Fetch.thy ===== *)
theory Fetch
  imports Sources LinkRoundTrip Cleaner NodeTable
begin

text \<open>
  Collecting the sources: the fetcher (\<open>internal/fetcher/fetcher.go\<close>) with its limits and retries, and
  the fetch stage of a job (\<open>doFetch\<close> and \<open>ProbeSource\<close> in \<open>internal/service/service.go\<close>), which puts
  fetcher, parsers, cleaner, source states, store and database together.

  The network answers through parameters: what each attempt meets, the clock, and when the context is
  canceled. The goroutines of \<open>FetchAll\<close> only decide in which order the documents arrive.
\<close>

subsection \<open>One document\<close>

record Document = fetch_doc +
  dc_Body :: string
  dc_Err :: "string option"

text \<open>A response: the body bytes that arrive and the error after them, if the connection breaks.\<close>

record http_response =
  hr_status :: int
  hr_length :: int
  hr_body :: string
  hr_broken :: "string option"

datatype attempt_io = NoRequest string | NoResponse string | Response http_response

definition bare_doc :: "Source \<Rightarrow> Document" where
  "bare_doc src = \<lparr>fd_Source = src, fd_Latency = 0, fd_Bytes = 0, fd_StatusCode = 0, fd_Attempts = 0, dc_Body = '''', dc_Err = None\<rparr>"

definition looksLikeHTMLError :: "string \<Rightarrow> bool" where
  "looksLikeHTMLError body = (let sample0 = ToLower body; sample = (if length sample0 > 512 then take 512 sample0 else sample0)
     in Contains sample ''<html'' \<or> Contains sample ''<!doctype html'' \<or> Contains sample ''<title>404'' \<or>
        Contains sample ''repository not found'')"

definition retryable :: "int \<Rightarrow> string option \<Rightarrow> bool" where
  "retryable status err = (if err = None then False else if status = 0 then True
     else status \<in> {408, 425, 429, 500, 502, 503, 504})"

text \<open>\<open>io.ReadAll(io.LimitReader(body, n))\<close>: a body of \<open>n\<close> bytes or more is cut before it can break.\<close>

definition read_limited :: "int \<Rightarrow> http_response \<Rightarrow> string + string" where
  "read_limited n r = (if n \<le> int (length (hr_body r)) then Inr (take (nat n) (hr_body r))
     else (case hr_broken r of Some e \<Rightarrow> Inl e | None \<Rightarrow> Inr (hr_body r)))"

definition max_bytes :: "Source \<Rightarrow> int" where
  "max_bytes src = (if src_MaxBytes src \<le> 0 then 33554432 else src_MaxBytes src)"

definition fetchAttempt :: "Source \<Rightarrow> attempt_io \<Rightarrow> Document" where
  "fetchAttempt src io = (let doc = bare_doc src in case io of
     NoRequest e \<Rightarrow> doc\<lparr>dc_Err := Some e\<rparr>
   | NoResponse e \<Rightarrow> doc\<lparr>dc_Err := Some e\<rparr>
   | Response r \<Rightarrow> (let doc = doc\<lparr>fd_StatusCode := hr_status r\<rparr>; m = max_bytes src in
       if hr_status r < 200 \<or> hr_status r \<ge> 300 then doc\<lparr>dc_Err := Some (''http '' @ itoa (hr_status r))\<rparr>
       else if hr_length r > m
       then doc\<lparr>dc_Err := Some (''response too large: '' @ itoa (hr_length r) @ '' > '' @ itoa m @ '' bytes'')\<rparr>
       else (case read_limited (wrap64 (m + 1)) r of
           Inl e \<Rightarrow> doc\<lparr>dc_Err := Some e\<rparr>
         | Inr b \<Rightarrow> if int (length b) > m then doc\<lparr>dc_Err := Some (''response exceeds '' @ itoa m @ '' bytes'')\<rparr>
             else (let doc = doc\<lparr>dc_Body := b, fd_Bytes := int (length b)\<rparr>
               in if looksLikeHTMLError b then doc\<lparr>dc_Err := Some ''html error page''\<rparr> else doc))))"

text \<open>What one fetch meets: each attempt, the time since the start, and a cancellation while waiting after it.\<close>

record fetch_net =
  net_io :: "nat \<Rightarrow> attempt_io"
  net_elapsed :: "nat \<Rightarrow> duration"
  net_canceled :: "nat \<Rightarrow> string option"

function fetch_from :: "Source \<Rightarrow> fetch_net \<Rightarrow> Document \<Rightarrow> nat \<Rightarrow> Document" where
  "fetch_from src net doc attempt =
     (if attempt > 3 then doc
      else (let doc = (fetchAttempt src (net_io net attempt))\<lparr>fd_Attempts := int attempt, fd_Latency := net_elapsed net attempt\<rparr>
            in if dc_Err doc = None \<or> \<not> retryable (fd_StatusCode doc) (dc_Err doc) \<or> attempt = 3 then doc
               else (case net_canceled net attempt of Some e \<Rightarrow> doc\<lparr>dc_Err := Some e\<rparr>
                 | None \<Rightarrow> fetch_from src net doc (attempt + 1))))"
  by pat_completeness auto
termination by (relation "measure (\<lambda>(src, net, doc, attempt). 4 - attempt)") auto

declare fetch_from.simps [simp del]

definition FetchOne :: "Source \<Rightarrow> fetch_net \<Rightarrow> Document" where
  "FetchOne src net = fetch_from src net (bare_doc src) 1"

definition doc_before :: "Document \<Rightarrow> Document \<Rightarrow> bool" where
  "doc_before a b \<longleftrightarrow> (if src_Priority (fd_Source a) \<noteq> src_Priority (fd_Source b)
     then src_Priority (fd_Source a) > src_Priority (fd_Source b) else src_Name (fd_Source a) < src_Name (fd_Source b))"

text \<open>\<open>arrived\<close>: the sources in the order in which the workers are done with them.\<close>

definition FetchAll :: "(Source \<Rightarrow> fetch_net) \<Rightarrow> Source list \<Rightarrow> Document list" where
  "FetchAll net arrived = SliceStable doc_before (map (\<lambda>s. FetchOne s (net s)) arrived)"

subsection \<open>The stage\<close>

record fetch_io =
  fi_net :: "Source \<Rightarrow> fetch_net"
  fi_arrived :: "Source list \<Rightarrow> Source list"
  fi_canceled :: bool
  fi_seen :: time
  fi_recorded :: "string \<Rightarrow> time \<times> time"
  fi_stored :: time

datatype fetch_error = NoEnabledSources | FetchCanceled | AllSourcesFailed int | AllParsedEmpty

record fetch_stats =
  fst_ok :: int
  fst_failed :: int
  fst_carried :: int
  fst_parsed :: int
  fst_unique :: int

definition record_doc :: "config \<Rightarrow> fetch_io \<Rightarrow> Document \<Rightarrow> string option \<Rightarrow> source_world \<Rightarrow> source_world" where
  "record_doc cfg io d err sw = (case fi_recorded io (src_Name (fd_Source d)) of (now, now_db) \<Rightarrow>
     recordSource cfg now now_db (fetch_doc.truncate d) err sw)"

definition doc_error :: "link_env \<Rightarrow> Document \<Rightarrow> string option" where
  "doc_error env d = (case dc_Err d of Some e \<Rightarrow> Some e
     | None \<Rightarrow> if ParseContent env (dc_Body d) (src_Name (fd_Source d)) = [] then Some ''no supported nodes parsed'' else None)"

definition doc_nodes :: "link_env \<Rightarrow> time \<Rightarrow> Document \<Rightarrow> node list" where
  "doc_nodes env now d = map (\<lambda>n. n\<lparr>n_LastSeenAt := now\<rparr>) (ParseContent env (dc_Body d) (src_Name (fd_Source d)))"

text \<open>The loop over the documents: the source states, how many succeeded, the nodes and the failed names.\<close>

fun take_docs :: "config \<Rightarrow> link_env \<Rightarrow> fetch_io \<Rightarrow> Document list \<Rightarrow> source_world \<Rightarrow>
    source_world \<times> int \<times> node list \<times> string set" where
  "take_docs cfg env io [] sw = (sw, 0, [], {})"
| "take_docs cfg env io (d # ds) sw =
     (case take_docs cfg env io ds (record_doc cfg io d (doc_error env d) sw) of (sw', oks, nodes, failed) \<Rightarrow>
        (case doc_error env d of
           Some e \<Rightarrow> (sw', oks, nodes, insert (src_Name (fd_Source d)) failed)
         | None \<Rightarrow> (sw', oks + 1, doc_nodes env (fi_seen io) d @ nodes, failed)))"

definition carried_nodes :: "string set \<Rightarrow> store \<Rightarrow> node list" where
  "carried_nodes failed s = (if failed = {} then [] else filter (\<lambda>n. n_Source n \<in> failed) (AllNodes s))"

definition no_fetch_stats :: fetch_stats where
  "no_fetch_stats = \<lparr>fst_ok = 0, fst_failed = 0, fst_carried = 0, fst_parsed = 0, fst_unique = 0\<rparr>"

definition doFetch :: "hashes \<Rightarrow> config \<Rightarrow> link_env \<Rightarrow> time \<Rightarrow> fetch_io \<Rightarrow> node_world \<Rightarrow> source_world \<Rightarrow>
    fetch_error option \<times> fetch_stats \<times> node_world \<times> source_world" where
  "doFetch h cfg env now io w sw =
     (let sources = service_EnabledSources cfg now (sw_mem sw) in
      if sources = [] then (Some NoEnabledSources, no_fetch_stats, w, sw)
      else if fi_canceled io then (Some FetchCanceled, no_fetch_stats, w, sw)
      else (case take_docs cfg env io (FetchAll (fi_net io) (fi_arrived io sources)) sw of (sw', oks, parsed, failed) \<Rightarrow>
        if oks = 0 then (Some (AllSourcesFailed (int (length sources))), no_fetch_stats, w, sw')
        else (let carried = carried_nodes failed (nw_store w);
                  unique = Clean h (map Some (parsed @ carried)) cfg
              in if unique = [] then (Some AllParsedEmpty, no_fetch_stats, w, sw')
                 else (None, \<lparr>fst_ok = oks, fst_failed = int (card failed), fst_carried = int (length carried),
                     fst_parsed = int (length (parsed @ carried)), fst_unique = int (length unique)\<rparr>,
                   service_replaceNodes h (fi_stored io) (map Some unique) w,
                   updateSourceContributions cfg
                     (map Some (fst (ReplaceNodes h (fi_stored io) (map Some unique) (nw_store w)))) sw'))))"

text \<open>Probing one source by hand records the outcome and stores no nodes.\<close>

datatype probe_error = UnknownSource string | ProbeFailed string

definition ProbeSource :: "config \<Rightarrow> link_env \<Rightarrow> fetch_io \<Rightarrow> string \<Rightarrow> source_world \<Rightarrow> (probe_error option \<times> SourceState) \<times> source_world" where
  "ProbeSource cfg env io name sw = (case find (\<lambda>s. src_Name s = name) (Sources cfg) of
     None \<Rightarrow> ((Some (UnknownSource name), zero_source), sw)
   | Some src \<Rightarrow> (let doc = FetchOne src (fi_net io src); err = doc_error env doc; sw' = record_doc cfg io doc err sw
       in ((map_option ProbeFailed err, gget zero_source (sw_mem sw') name), sw')))"


subsection \<open>What a document guarantees\<close>

lemma fetchAttempt_source [simp]: "fd_Source (fetchAttempt src io) = src"
  by (simp add: fetchAttempt_def bare_doc_def Let_def split: attempt_io.split sum.split)

lemma fetchAttempt_good:
  assumes "dc_Err (fetchAttempt src io) = None"
  shows "200 \<le> fd_StatusCode (fetchAttempt src io) \<and> fd_StatusCode (fetchAttempt src io) < 300 \<and>
    fd_Bytes (fetchAttempt src io) = int (length (dc_Body (fetchAttempt src io))) \<and>
    int (length (dc_Body (fetchAttempt src io))) \<le> max_bytes src \<and> \<not> looksLikeHTMLError (dc_Body (fetchAttempt src io))"
proof (cases io)
  case (Response r)
  with assms show ?thesis
    by (auto simp: fetchAttempt_def bare_doc_def Let_def split: if_splits sum.splits)
qed (use assms in \<open>simp_all add: fetchAttempt_def Let_def\<close>)

abbreviation attempt_doc :: "Source \<Rightarrow> fetch_net \<Rightarrow> nat \<Rightarrow> Document" where
  "attempt_doc src net k \<equiv> fetchAttempt src (net_io net k)"

abbreviation retries :: "Source \<Rightarrow> fetch_net \<Rightarrow> nat \<Rightarrow> bool" where
  "retries src net k \<equiv> retryable (fd_StatusCode (attempt_doc src net k)) (dc_Err (attempt_doc src net k))"

lemma retryable_error: "retryable status err \<Longrightarrow> err \<noteq> None"
  by (simp add: retryable_def split: if_splits)

text \<open>The attempt whose outcome is returned, and what the attempts before it were like.\<close>

lemma fetch_from_ok:
  assumes "k \<le> 3" and "1 \<le> k"
  shows "\<exists>a. k \<le> a \<and> a \<le> 3 \<and> fd_Attempts (fetch_from src net doc k) = int a \<and>
    (\<forall>j. k \<le> j \<and> j < a \<longrightarrow> retries src net j \<and> net_canceled net j = None) \<and>
    (dc_Err (fetch_from src net doc k) = dc_Err (attempt_doc src net a) \<and> (dc_Err (attempt_doc src net a) = None \<or> \<not> retries src net a \<or> a = 3) \<or>
     retries src net a \<and> a < 3 \<and> net_canceled net a \<noteq> None \<and> dc_Err (fetch_from src net doc k) = net_canceled net a) \<and>
    fd_Source (fetch_from src net doc k) = src \<and> dc_Body (fetch_from src net doc k) = dc_Body (attempt_doc src net a) \<and>
    fd_StatusCode (fetch_from src net doc k) = fd_StatusCode (attempt_doc src net a) \<and>
    fd_Bytes (fetch_from src net doc k) = fd_Bytes (attempt_doc src net a)"
  using assms
proof (induction src net doc k rule: fetch_from.induct)
  case (1 src net doc k)
  let ?doc = "(attempt_doc src net k)\<lparr>fd_Attempts := int k, fd_Latency := net_elapsed net k\<rparr>"
  let ?out = "fetch_from src net doc k"
  consider "dc_Err ?doc = None \<or> \<not> retries src net k \<or> k = 3"
    | e where "\<not> (dc_Err ?doc = None \<or> \<not> retries src net k \<or> k = 3)" "net_canceled net k = Some e"
    | "\<not> (dc_Err ?doc = None \<or> \<not> retries src net k \<or> k = 3)" "net_canceled net k = None"
    by (meson not_None_eq)
  then show ?case
  proof cases
    case 1
    then have "?out = ?doc" using \<open>k \<le> 3\<close> by (subst fetch_from.simps) (simp add: Let_def)
    with 1 \<open>k \<le> 3\<close> show ?thesis by (intro exI [of _ k]) auto
  next
    case 2
    then have "?out = ?doc\<lparr>dc_Err := Some e\<rparr>" using \<open>k \<le> 3\<close> by (subst fetch_from.simps) (simp add: Let_def)
    with 2 \<open>k \<le> 3\<close> show ?thesis by (intro exI [of _ k]) auto
  next
    case c: 3
    then have k: "k < 3" "retries src net k" using \<open>k \<le> 3\<close> by auto
    have out: "?out = fetch_from src net ?doc (k + 1)" using c \<open>k \<le> 3\<close> by (subst fetch_from.simps) (auto simp: Let_def)
    have "\<exists>a. k + 1 \<le> a \<and> a \<le> 3 \<and> fd_Attempts ?out = int a \<and>
        (\<forall>j. k + 1 \<le> j \<and> j < a \<longrightarrow> retries src net j \<and> net_canceled net j = None) \<and>
        (dc_Err ?out = dc_Err (attempt_doc src net a) \<and> (dc_Err (attempt_doc src net a) = None \<or> \<not> retries src net a \<or> a = 3) \<or>
         retries src net a \<and> a < 3 \<and> net_canceled net a \<noteq> None \<and> dc_Err ?out = net_canceled net a) \<and>
        fd_Source ?out = src \<and> dc_Body ?out = dc_Body (attempt_doc src net a) \<and>
        fd_StatusCode ?out = fd_StatusCode (attempt_doc src net a) \<and> fd_Bytes ?out = fd_Bytes (attempt_doc src net a)"
      unfolding out by (rule 1(1)) (use c k \<open>k \<le> 3\<close> in simp_all)
    then obtain a where a: "k + 1 \<le> a" "\<forall>j. k + 1 \<le> j \<and> j < a \<longrightarrow> retries src net j \<and> net_canceled net j = None"
      and rest: "a \<le> 3 \<and> fd_Attempts ?out = int a \<and>
        (dc_Err ?out = dc_Err (attempt_doc src net a) \<and> (dc_Err (attempt_doc src net a) = None \<or> \<not> retries src net a \<or> a = 3) \<or>
         retries src net a \<and> a < 3 \<and> net_canceled net a \<noteq> None \<and> dc_Err ?out = net_canceled net a) \<and>
        fd_Source ?out = src \<and> dc_Body ?out = dc_Body (attempt_doc src net a) \<and>
        fd_StatusCode ?out = fd_StatusCode (attempt_doc src net a) \<and> fd_Bytes ?out = fd_Bytes (attempt_doc src net a)"
      by blast
    have "\<forall>j. k \<le> j \<and> j < a \<longrightarrow> retries src net j \<and> net_canceled net j = None"
      using a(2) k(2) c(2) by (metis Suc_eq_plus1 Suc_leI le_neq_implies_less)
    moreover have "k \<le> a" using a(1) by simp
    ultimately show ?thesis using rest by blast
  qed
qed


text \<open>
  C27. Fetching a source ends after one to three attempts. An attempt is repeated only after an error that
  is worth repeating and while the context lives; the last one is returned as it is. A document without
  error was answered with a 2xx status, is complete within the size limit of its source and is no error page.
\<close>

theorem fetch_one_ok:
  "\<exists>a. 1 \<le> a \<and> a \<le> 3 \<and> fd_Attempts (FetchOne src net) = int a \<and> fd_Source (FetchOne src net) = src \<and>
    (\<forall>j. 1 \<le> j \<and> j < a \<longrightarrow> retries src net j \<and> net_canceled net j = None) \<and>
    (dc_Err (FetchOne src net) = None \<longleftrightarrow> dc_Err (attempt_doc src net a) = None) \<and>
    (dc_Err (FetchOne src net) \<noteq> None \<longrightarrow> \<not> retries src net a \<or> a = 3 \<or> net_canceled net a \<noteq> None) \<and>
    (dc_Err (FetchOne src net) = None \<longrightarrow>
      200 \<le> fd_StatusCode (FetchOne src net) \<and> fd_StatusCode (FetchOne src net) < 300 \<and>
      fd_Bytes (FetchOne src net) = int (length (dc_Body (FetchOne src net))) \<and>
      int (length (dc_Body (FetchOne src net))) \<le> max_bytes src \<and> \<not> looksLikeHTMLError (dc_Body (FetchOne src net)))"
proof -
  let ?d = "FetchOne src net"
  obtain a where a: "1 \<le> a \<and> a \<le> 3 \<and> fd_Attempts ?d = int a \<and>
    (\<forall>j. 1 \<le> j \<and> j < a \<longrightarrow> retries src net j \<and> net_canceled net j = None) \<and>
    (dc_Err ?d = dc_Err (attempt_doc src net a) \<and> (dc_Err (attempt_doc src net a) = None \<or> \<not> retries src net a \<or> a = 3) \<or>
     retries src net a \<and> a < 3 \<and> net_canceled net a \<noteq> None \<and> dc_Err ?d = net_canceled net a) \<and>
    fd_Source ?d = src \<and> dc_Body ?d = dc_Body (attempt_doc src net a) \<and>
    fd_StatusCode ?d = fd_StatusCode (attempt_doc src net a) \<and> fd_Bytes ?d = fd_Bytes (attempt_doc src net a)"
    using fetch_from_ok [of 1 src net "bare_doc src"] unfolding FetchOne_def by auto
  have err: "dc_Err ?d = None \<longleftrightarrow> dc_Err (attempt_doc src net a) = None" using a retryable_error by metis
  have good: "dc_Err (attempt_doc src net a) = None \<Longrightarrow> 200 \<le> fd_StatusCode ?d \<and> fd_StatusCode ?d < 300 \<and>
      fd_Bytes ?d = int (length (dc_Body ?d)) \<and> int (length (dc_Body ?d)) \<le> max_bytes src \<and> \<not> looksLikeHTMLError (dc_Body ?d)"
    using fetchAttempt_good [of src "net_io net a"] a by simp
  show ?thesis
    by (rule exI [of _ a]) (use a err good in metis)
qed

definition flaky_net :: fetch_net where
  "flaky_net = \<lparr>net_io = (\<lambda>k. if k = 1 then NoResponse ''reset'' else Response \<lparr>hr_status = 200, hr_length = 2, hr_body = ''ok'', hr_broken = None\<rparr>),
     net_elapsed = (\<lambda>k. int k), net_canceled = (\<lambda>k. None)\<rparr>"

theorem fetch_one_ok_witness:
  "dc_Err (FetchOne example_source flaky_net) = None \<and> fd_StatusCode (FetchOne example_source flaky_net) < 300 \<and>
   fd_Attempts (FetchOne example_source flaky_net) = 2"
proof -
  have "dc_Err (FetchOne example_source flaky_net) = None \<and> fd_Attempts (FetchOne example_source flaky_net) = 2"
    by (simp add: FetchOne_def fetch_from.simps flaky_net_def fetchAttempt_def bare_doc_def retryable_def read_limited_def
        max_bytes_def wrap64_def looksLikeHTMLError_def example_source_def go_defs Let_def)
  note good = this
  obtain a where "dc_Err (FetchOne example_source flaky_net) = None \<longrightarrow>
      200 \<le> fd_StatusCode (FetchOne example_source flaky_net) \<and> fd_StatusCode (FetchOne example_source flaky_net) < 300 \<and> a"
    using fetch_one_ok [of example_source flaky_net] by auto
  with good show ?thesis by simp
qed

text \<open>With distinct names the documents come in one order, however the workers are scheduled.\<close>

interpretation doc_order: keyed_less doc_before "\<lambda>d. (- src_Priority (fd_Source d), src_Name (fd_Source d))"
  by unfold_locales (auto simp: doc_before_def)

lemma FetchOne_source [simp]: "fd_Source (FetchOne src net) = src"
  using fetch_from_ok [of 1 src net "bare_doc src"] by (auto simp: FetchOne_def)

lemma FetchAll_order:
  assumes "mset xs = mset ys" and "distinct (map src_Name xs)"
  shows "FetchAll net xs = FetchAll net ys"
proof -
  let ?f = "\<lambda>s. FetchOne s (net s)"
  have "mset (map ?f xs) = mset (map ?f ys)" using assms(1) by simp
  moreover have "inj_on (\<lambda>d. (- src_Priority (fd_Source d), src_Name (fd_Source d))) (set (map ?f xs))"
    using assms(2) by (auto simp: inj_on_def distinct_map)
  ultimately show ?thesis unfolding FetchAll_def by (rule doc_order.order_independent)
qed


subsection \<open>The stage keeps the last good nodes\<close>

definition delivered :: "link_env \<Rightarrow> time \<Rightarrow> Document list \<Rightarrow> node list" where
  "delivered env now ds = concat (map (doc_nodes env now) (filter (\<lambda>d. doc_error env d = None) ds))"

definition failed_sources :: "link_env \<Rightarrow> Document list \<Rightarrow> string set" where
  "failed_sources env ds = (\<lambda>d. src_Name (fd_Source d)) ` {d \<in> set ds. doc_error env d \<noteq> None}"

lemma take_docs_ok:
  assumes "take_docs cfg env io ds sw = (sw', oks, nodes, failed)"
  shows "oks = int (length (filter (\<lambda>d. doc_error env d = None) ds)) \<and> nodes = delivered env (fi_seen io) ds \<and>
    failed = failed_sources env ds \<and> (synced sw \<longrightarrow> synced sw')"
  using assms
proof (induction ds arbitrary: sw oks nodes failed)
  case (Cons d ds)
  obtain oks1 nodes1 failed1 where rest: "take_docs cfg env io ds (record_doc cfg io d (doc_error env d) sw) = (sw', oks1, nodes1, failed1)"
    using Cons(2) by (auto split: prod.splits option.splits)
  have "synced (record_doc cfg io d (doc_error env d) sw)" if "synced sw"
    using that by (auto simp: record_doc_def synced_recordSource split: prod.split)
  then show ?case using Cons(1) [OF rest] Cons(2) rest
    by (cases "doc_error env d") (auto simp: delivered_def failed_sources_def)
qed (simp add: delivered_def failed_sources_def)

text \<open>A stored node whose identity does not change when it is cleaned again.\<close>

definition tidy :: "hashes \<Rightarrow> node \<Rightarrow> bool" where
  "tidy h n \<longleftrightarrow> Key h (normalize_node h n) = Key h n"

lemma Key_normalize: "Key h (normalize_node h n) = Key h (trim_fields n)"
  by (simp add: normalize_node_def Key_def canonical_def Let_def)

lemma Key_trim_trim: "Key h (trim_fields (trim_fields n)) = Key h (trim_fields n)"
  by (simp add: trim_fields_def Key_def canonical_def)

lemma canonical_cong_trim: "Key h (trim_fields (normalize_node h n)) = Key h (trim_fields n)"
  by (simp add: normalize_node_def trim_fields_def Key_def canonical_def Let_def)

lemma tidy_cleaned:
  assumes "m \<in> set (Clean h nodes cfg)"
  shows "tidy h m"
proof -
  have "best_of h cfg (candidates h cfg nodes) m" using assms by (rule Clean_facts(3))
  then obtain n where m: "m = (normalize_node h n)\<lparr>n_Sources := n_Sources m\<rparr>"
    by (auto simp: best_of_def list_ex_iff candidates_def)
  have "Key h (trim_fields (x\<lparr>n_Sources := ss\<rparr>)) = Key h (trim_fields x)" "Key h (x\<lparr>n_Sources := ss\<rparr>) = Key h x" for x ss
    by (simp_all add: trim_fields_def Key_def canonical_def)
  then show ?thesis unfolding tidy_def Key_normalize using m canonical_cong_trim [of h n] Key_normalize [of h n] by metis
qed


lemma stored_after_replace:
  "stored (service_replaceNodes h t (map Some ns) w) i \<noteq> None \<longleftrightarrow> i \<in> nodeID h ` set ns"
  "stored (service_replaceNodes h t (map Some ns) w) i = Some m \<Longrightarrow>
    \<exists>n \<in> set ns. m = cloneNode (replace_node h t (by_key h (st_nodes (nw_store w))) n)"
proof -
  let ?f = "replace_node h t (by_key h (st_nodes (nw_store w)))"
  have eq: "st_nodes (nw_store (service_replaceNodes h t (map Some ns) w)) = fold put_node (map ?f ns) []"
    by (simp add: service_replaceNodes_def ReplaceNodes_def Let_def)
  have dom: "(map_of (fold put_node xs m) i \<noteq> None) = (i \<in> n_ID ` set xs \<or> map_of m i \<noteq> None)" for xs m i
    by (induction xs arbitrary: m) (auto simp: put_node_def)
  show "stored (service_replaceNodes h t (map Some ns) w) i \<noteq> None \<longleftrightarrow> i \<in> nodeID h ` set ns"
    unfolding eq dom by (auto simp: image_iff)
  have range: "map_of (fold put_node xs m) i = Some x \<Longrightarrow> (\<exists>n \<in> set xs. x = cloneNode n) \<or> map_of m i = Some x" for xs m i x
    by (induction xs rule: rev_induct) (auto simp: put_node_def split: if_splits)
  show "\<exists>n \<in> set ns. m = cloneNode (?f n)" if "stored (service_replaceNodes h t (map Some ns) w) i = Some m"
    using range [of "map ?f ns" "[]" i m] that unfolding eq by auto
qed

lemma tidy_observed [simp]: "tidy h (cloneNode (replace_node h t m n)) = tidy h n"
proof -
  have "Key h (trim_fields (cloneNode (replace_node h t m n))) = Key h (trim_fields n)"
    by (simp add: trim_fields_def Key_def canonical_def cloneNode_def replace_node_def merge_defs Let_def split: option.split)
  then show ?thesis by (simp add: tidy_def Key_normalize)
qed

lemma carried_stored:
  assumes "durable h w" and "stored w i = Some n" and "n_Source n \<in> failed"
  shows "n \<in> set (carried_nodes failed (nw_store w))"
proof -
  have "(i, n) \<in> set (st_nodes (nw_store w))" using assms(2) by (rule map_of_SomeD)
  then have "cloneNode n \<in> set (AllNodes (nw_store w))" unfolding AllNodes_eq by force
  moreover have "cloneNode n = n" using assms(1,2) by (rule durable_cloned)
  ultimately show ?thesis using assms(3) by (auto simp: carried_nodes_def)
qed


definition fetched_docs :: "config \<Rightarrow> time \<Rightarrow> fetch_io \<Rightarrow> source_world \<Rightarrow> Document list" where
  "fetched_docs cfg now io sw = FetchAll (fi_net io) (fi_arrived io (service_EnabledSources cfg now (sw_mem sw)))"

definition fetch_pool :: "config \<Rightarrow> link_env \<Rightarrow> time \<Rightarrow> fetch_io \<Rightarrow> node_world \<Rightarrow> source_world \<Rightarrow> node list" where
  "fetch_pool cfg env now io w sw = delivered env (fi_seen io) (fetched_docs cfg now io sw) @
     carried_nodes (failed_sources env (fetched_docs cfg now io sw)) (nw_store w)"

lemma doFetch_cases:
  assumes "doFetch h cfg env now io w sw = (e, st, w', sw')"
  obtains (kept) er where "e = Some er" "w' = w" "synced sw \<longrightarrow> synced sw'"
  | (replaced) "e = None" "w' = service_replaceNodes h (fi_stored io) (map Some (Clean h (map Some (fetch_pool cfg env now io w sw)) cfg)) w"
      "synced sw \<longrightarrow> synced sw'" "Clean h (map Some (fetch_pool cfg env now io w sw)) cfg \<noteq> []"
      "fst_unique st = int (length (Clean h (map Some (fetch_pool cfg env now io w sw)) cfg))" "fst_ok st > 0"
proof -
  let ?docs = "fetched_docs cfg now io sw"
  obtain sw1 oks parsed failed where t: "take_docs cfg env io ?docs sw = (sw1, oks, parsed, failed)" by (metis prod_cases4)
  note ok = take_docs_ok [OF t]
  have d: "FetchAll (fi_net io) (fi_arrived io (service_EnabledSources cfg now (sw_mem sw))) = ?docs" by (simp add: fetched_docs_def)
  let ?unique = "Clean h (map Some (fetch_pool cfg env now io w sw)) cfg"
  have pool: "parsed @ carried_nodes failed (nw_store w) = fetch_pool cfg env now io w sw" using ok by (simp add: fetch_pool_def)
  show thesis
  proof (cases "service_EnabledSources cfg now (sw_mem sw) = [] \<or> fi_canceled io \<or> oks = 0 \<or> ?unique = []")
    case True
    then have "e \<noteq> None \<and> w' = w \<and> (sw' = sw \<or> sw' = sw1)"
      using assms unfolding doFetch_def Let_def d t prod.case pool by (auto split: if_splits)
    then show thesis using kept ok by auto
  next
    case False
    then have "e = None \<and> w' = service_replaceNodes h (fi_stored io) (map Some ?unique) w \<and> fst_unique st = int (length ?unique) \<and>
        fst_ok st = oks \<and> (\<exists>ns. sw' = updateSourceContributions cfg ns sw1)"
      using assms unfolding doFetch_def Let_def d t prod.case pool by auto
    then show thesis using replaced ok False synced_updateSourceContributions by auto
  qed
qed



definition flaky_io :: fetch_io where
  "flaky_io = \<lparr>fi_net = (\<lambda>s. flaky_net), fi_arrived = (\<lambda>ss. ss), fi_canceled = False, fi_seen = 7, fi_recorded = (\<lambda>name. (8, 8)), fi_stored = 9\<rparr>"

definition one_node :: node_world where
  "one_node = service_replaceNodes id_hashes 5 [Some example_node] empty_world"


end
