(* ===== verification/Purity.thy ===== *)
theory Purity
  imports DialStage
begin

text \<open>
  Exit purity: the probe that looks at a node's exit address through the node itself
  (\<open>internal/purity/purity.go\<close>) and the purity stage of a job (\<open>doPurity\<close> in
  \<open>internal/service/service.go\<close>). The core process and the web answer through parameters.
\<close>

subsection \<open>The result\<close>

definition mergeTag :: "string list \<Rightarrow> string \<Rightarrow> string list" where
  "mergeTag tags t = (if t \<in> set tags then tags else tags @ [t])"

definition trimErr :: "string \<Rightarrow> string" where
  "trimErr s = (if length s > 80 then take 80 s else s)"

definition ip_char :: "char \<Rightarrow> bool" where
  "ip_char c \<longleftrightarrow> (CHR ''0'' \<le> c \<and> c \<le> CHR ''9'') \<or> (CHR ''a'' \<le> c \<and> c \<le> CHR ''f'') \<or> (CHR ''A'' \<le> c \<and> c \<le> CHR ''F'') \<or>
     c = CHR ''.'' \<or> c = CHR '':''"

text \<open>A line that \<open>^ip=([0-9a-fA-F\.:]+)\s*$\<close> matches, and its group.\<close>

definition trace_line :: "string \<Rightarrow> string option" where
  "trace_line l = (if HasPrefix l ''ip='' then
     (let run = takeWhile ip_char (drop 3 l); rest = dropWhile ip_char (drop 3 l)
      in if run \<noteq> [] \<and> list_all (\<lambda>c. c \<in> {CHR 0x09, CHR 0x0C, CHR 0x0D, CHR '' ''}) rest then Some run else None) else None)"

definition parseTraceIP :: "string \<Rightarrow> string" where
  "parseTraceIP body = (case somes (map trace_line (Split (CHR 0x0A) body)) of [] \<Rightarrow> '''' | ip # _ \<Rightarrow> TrimSpace ip)"

definition dc_keywords :: "string list" where
  "dc_keywords = [''amazon'', ''google cloud'', ''digitalocean'', ''linode'', ''ovh'', ''hetzner'', ''vultr'', ''contabo'',
     ''choopa'', ''m247'', ''datacamp'']"

definition purity_grade :: "int \<Rightarrow> string" where
  "purity_grade clean = (if clean \<ge> 85 then ''S'' else if clean \<ge> 70 then ''A'' else if clean \<ge> 55 then ''B''
     else if clean \<ge> 40 then ''C'' else if clean \<ge> 25 then ''D'' else ''F'')"

definition challenge_points :: "string \<Rightarrow> int" where
  "challenge_points chal = (if chal = ''none'' then 10 else if chal = ''soft'' then - 15 else if chal = ''hard'' then - 35
     else if chal = ''blocked'' then - 50 else if chal = ''error'' then - 10 else 0)"

definition challenge_notes :: "string \<Rightarrow> string list" where
  "challenge_notes chal = (if chal = ''soft'' then [''cf:soft_challenge''] else if chal = ''hard'' then [''cf:hard_challenge'']
     else if chal = ''blocked'' then [''cf:blocked''] else [])"

definition scorePurity :: "PurityResult \<Rightarrow> int \<times> int \<times> string \<times> string list" where
  "scorePurity r =
     (let dc = find (Contains (ToLower (pur_ISP r @ '' '' @ pur_AS r))) dc_keywords;
          raw = 75 - (if pur_IsProxy r then 45 else 0) - (if pur_IsHosting r then 30 else 0) + (if pur_IsMobile r then 10 else 0) +
            (if pur_CFTraceOK r then 10 else - 15) + challenge_points (pur_CFChallenge r) - (if dc \<noteq> None then 15 else 0);
          clean = (let c = (if raw < 0 then 0 else raw) in if c > 100 then 100 else c);
          notes = (if pur_IsProxy r then [''flag:proxy''] else []) @ (if pur_IsHosting r then [''flag:hosting''] else []) @
            (if pur_IsMobile r then [''flag:mobile''] else []) @ challenge_notes (pur_CFChallenge r) @
            (case dc of None \<Rightarrow> [] | Some kw \<Rightarrow> [''isp_dc:'' @ kw])
      in (clean, 100 - clean, purity_grade clean, notes))"

subsection \<open>The probe\<close>

text \<open>An answer of \<open>httpGet\<close>: an error, or the body (its first 256 KiB) and the status code.\<close>

type_synonym web_answer = "string + string \<times> int"

definition web_ok :: "web_answer \<Rightarrow> bool" where
  "web_ok a = (case a of Inl e \<Rightarrow> False | Inr (body, code) \<Rightarrow> code = 200)"

definition hard_page :: "string \<Rightarrow> bool" where
  "hard_page low \<longleftrightarrow> Contains low ''cf-browser-verification'' \<or> Contains low ''challenge-platform'' \<or> Contains low ''turnstile''"

definition challenge_page :: "string \<Rightarrow> bool" where
  "challenge_page low \<longleftrightarrow> Contains low ''just a moment'' \<or> Contains low ''checking your browser'' \<or> hard_page low \<or>
     Contains low ''_cf_chl''"

definition classify_page :: "string \<Rightarrow> int \<Rightarrow> string" where
  "classify_page body code = (let low = ToLower body in
     if code = 403 \<or> code = 503 then (if hard_page low then ''hard'' else ''blocked'')
     else if challenge_page low then (if Contains low ''turnstile'' \<or> Contains low ''cf-challenge-running'' then ''hard'' else ''soft'')
     else if code \<ge> 200 \<and> code < 400 then ''none'' else ''error'')"

definition classifyCFChallenge :: "(string \<Rightarrow> web_answer) \<Rightarrow> string" where
  "classifyCFChallenge web = (case web ''https://www.cloudflare.com/'' of
     Inr (body, code) \<Rightarrow> classify_page body code
   | Inl e \<Rightarrow> (case web ''https://www.cloudflarestatus.com/'' of Inl e2 \<Rightarrow> ''error'' | Inr (body, code) \<Rightarrow> classify_page body code))"

definition ip_api_url :: "string \<Rightarrow> string" where
  "ip_api_url ip = ''http://ip-api.com/json/'' @ ip @
     ''?fields=status,message,country,countryCode,isp,as,proxy,hosting,mobile,query''"

definition json_object :: "codecs \<Rightarrow> string \<Rightarrow> amap option" where
  "json_object c body = (case json_Unmarshal c body of Some (AMap m) \<Rightarrow> Some m | Some ANil \<Rightarrow> Some fmempty | _ \<Rightarrow> None)"

definition any_str :: "any \<Rightarrow> string \<Rightarrow> string" where
  "any_str v old = (case v of AStr s \<Rightarrow> s | _ \<Rightarrow> old)"

definition any_bool :: "any \<Rightarrow> bool \<Rightarrow> bool" where
  "any_bool v old = (case v of ABool b \<Rightarrow> b | _ \<Rightarrow> old)"

definition read_ip_api :: "codecs \<Rightarrow> (any \<Rightarrow> string) \<Rightarrow> string \<Rightarrow> PurityResult \<Rightarrow> PurityResult" where
  "read_ip_api c sprint body r = (case json_object c body of None \<Rightarrow> r
     | Some m \<Rightarrow> if any_str (aget m ''status'') '''' \<noteq> ''success''
         then r\<lparr>pur_Notes := pur_Notes r @ [''ipapi:'' @ sprint (aget m ''message'')]\<rparr>
         else r\<lparr>pur_Country := any_str (aget m ''countryCode'') (pur_Country r), pur_ISP := any_str (aget m ''isp'') (pur_ISP r),
           pur_AS := any_str (aget m ''as'') (pur_AS r), pur_IsProxy := any_bool (aget m ''proxy'') (pur_IsProxy r),
           pur_IsHosting := any_bool (aget m ''hosting'') (pur_IsHosting r), pur_IsMobile := any_bool (aget m ''mobile'') (pur_IsMobile r),
           pur_Notes := pur_Notes r @ [''ipapi_ok'']\<rparr>)"

definition enrichIPAPI :: "codecs \<Rightarrow> (any \<Rightarrow> string) \<Rightarrow> (string \<Rightarrow> web_answer) \<Rightarrow> (string \<Rightarrow> web_answer) \<Rightarrow> PurityResult \<Rightarrow> PurityResult" where
  "enrichIPAPI c sprint web direct r =
     (let u = ip_api_url (pur_ExitIP r); answer = (if web_ok (web u) then web u else direct u)
      in case answer of Inr (body, code) \<Rightarrow> if code = 200 then read_ip_api c sprint body r else r\<lparr>pur_Notes := pur_Notes r @ [''ipapi_fail'']\<rparr>
         | Inl e \<Rightarrow> r\<lparr>pur_Notes := pur_Notes r @ [''ipapi_fail'']\<rparr>)"

text \<open>What one probe meets: the clock, an error before the core serves, the web through the node and directly.\<close>

record purity_probe =
  pp_start :: time
  pp_broken :: "string option"
  pp_latency :: int
  pp_web :: "string \<Rightarrow> web_answer"
  pp_direct :: "string \<Rightarrow> web_answer"

definition zero_purity :: "time \<Rightarrow> PurityResult" where
  "zero_purity t = \<lparr>pur_OK = False, pur_ExitIP = '''', pur_Country = '''', pur_ISP = '''', pur_AS = '''', pur_IsProxy = False,
     pur_IsHosting = False, pur_IsMobile = False, pur_RiskScore = 0, pur_CleanScore = 0, pur_Grade = '''', pur_CFTraceOK = False,
     pur_CFChallenge = '''', pur_CFHumanLikely = False, pur_Notes = [], pur_Error = '''', pur_LatencyMS = 0, pur_TestedAt = t\<rparr>"

definition trace_step :: "purity_probe \<Rightarrow> PurityResult \<Rightarrow> PurityResult" where
  "trace_step pb r0 = (let r = r0\<lparr>pur_LatencyMS := pp_latency pb\<rparr> in case pp_web pb ''https://www.cloudflare.com/cdn-cgi/trace'' of
     Inl e \<Rightarrow> r\<lparr>pur_Notes := pur_Notes r @ [''cf_trace_err:'' @ trimErr e]\<rparr>
   | Inr (body, code) \<Rightarrow> if code \<ge> 200 \<and> code < 400
       then r\<lparr>pur_CFTraceOK := True, pur_OK := True, pur_ExitIP := (if parseTraceIP body \<noteq> '''' then parseTraceIP body else pur_ExitIP r),
         pur_Notes := pur_Notes r @ [''cf_trace_ok'']\<rparr>
       else r\<lparr>pur_Notes := pur_Notes r @ [''cf_trace_http_'' @ itoa code]\<rparr>)"

definition challenge_step :: "purity_probe \<Rightarrow> PurityResult \<Rightarrow> PurityResult" where
  "challenge_step pb r = (let chal = classifyCFChallenge (pp_web pb) in
     r\<lparr>pur_CFChallenge := chal, pur_CFHumanLikely := (chal = ''none'' \<and> pur_CFTraceOK r),
       pur_Notes := pur_Notes r @ [if chal = ''none'' then ''cf_page_no_challenge'' else ''cf_challenge:'' @ chal]\<rparr>)"

definition exit_step :: "purity_probe \<Rightarrow> PurityResult \<Rightarrow> PurityResult" where
  "exit_step pb r = (if pur_ExitIP r \<noteq> '''' then r else (case pp_web pb ''https://api.ipify.org?format=text'' of
     Inl e \<Rightarrow> r | Inr (body, code) \<Rightarrow> if code = 200 then r\<lparr>pur_ExitIP := TrimSpace body, pur_OK := True\<rparr> else r))"

definition score_step :: "PurityResult \<Rightarrow> PurityResult" where
  "score_step r = (case scorePurity r of (clean, risk, grade, notes) \<Rightarrow>
     r\<lparr>pur_CleanScore := clean, pur_RiskScore := risk, pur_Grade := grade, pur_Notes := pur_Notes r @ notes,
       pur_OK := (pur_OK r \<or> pur_ExitIP r \<noteq> '''' \<or> pur_CFTraceOK r)\<rparr>)"

definition purity_result :: "codecs \<Rightarrow> (any \<Rightarrow> string) \<Rightarrow> (outbound_error \<Rightarrow> string) \<Rightarrow> purity_probe \<Rightarrow> node \<Rightarrow> PurityResult" where
  "purity_result c sprint text pb n = (let r = zero_purity (pp_start pb) in
     if \<not> SupportsEngine (Some n) ''sing-box'' then r\<lparr>pur_Error := ''unsupported protocol''\<rparr>
     else (case BuildOutbound (Some n) of Inl e \<Rightarrow> r\<lparr>pur_Error := text e\<rparr>
       | Inr ob \<Rightarrow> (case pp_broken pb of Some e \<Rightarrow> r\<lparr>pur_Error := e\<rparr>
         | None \<Rightarrow> (let r = exit_step pb (challenge_step pb (trace_step pb r));
                       r = (if pur_ExitIP r \<noteq> '''' then enrichIPAPI c sprint (pp_web pb) (pp_direct pb) r else r)
                   in score_step r))))"

definition purity_tags :: "PurityResult \<Rightarrow> string list \<Rightarrow> string list" where
  "purity_tags r tags =
     (let tags = (if pur_OK r \<and> pur_CleanScore r \<ge> 70 then mergeTag tags ''clean'' else tags);
          tags = (if pur_CFHumanLikely r then mergeTag tags ''cf-ok'' else tags);
          tags = (if pur_CFChallenge r = ''hard'' \<or> pur_CFChallenge r = ''blocked'' then mergeTag tags ''cf-challenge'' else tags)
      in if pur_IsProxy r \<or> pur_IsHosting r then mergeTag tags ''datacenter'' else tags)"

definition purity_testOne :: "codecs \<Rightarrow> (any \<Rightarrow> string) \<Rightarrow> (outbound_error \<Rightarrow> string) \<Rightarrow> purity_probe \<Rightarrow> node \<Rightarrow> node" where
  "purity_testOne c sprint text pb n = (let r = purity_result c sprint text pb n in
     n\<lparr>n_Purity := Some r, n_Tags := purity_tags r (n_Tags n)\<rparr>)"

record purity_options =
  po_Bin :: string
  po_Concurrency :: int
  po_Timeout :: duration
  po_WorkDir :: string
  po_BasePort :: int
  po_MaxProbes :: int

record prober =
  pr_opts :: purity_options
  pr_bin :: string
  pr_engine :: string
  pr_next :: int

definition purity_New :: "files \<Rightarrow> string \<Rightarrow> bool \<Rightarrow> purity_options \<Rightarrow> bin_error + prober" where
  "purity_New fs tmp made o0 =
     (let opts = o0\<lparr>po_Concurrency := (if po_Concurrency o0 \<le> 0 then 3 else po_Concurrency o0),
            po_Timeout := (if po_Timeout o0 \<le> 0 then 25 * second else po_Timeout o0),
            po_WorkDir := (if po_WorkDir o0 = '''' then tmp @ ''/nodeharvest-purity'' else po_WorkDir o0),
            po_BasePort := (if po_BasePort o0 \<le> 0 then 21000 else po_BasePort o0)\<rparr>
      in if \<not> made then Inl NoWorkDir
         else (case AvailableFor fs (po_Bin opts) ''sing-box'' of Inl e \<Rightarrow> Inl e
           | Inr (bin, engine) \<Rightarrow> Inr \<lparr>pr_opts = opts, pr_bin = bin, pr_engine = engine, pr_next = po_BasePort opts\<rparr>))"

definition purity_allocPort :: "(int \<Rightarrow> bool) \<Rightarrow> int \<Rightarrow> prober \<Rightarrow> int \<times> prober" where
  "purity_allocPort free nanos p = (let base = po_BasePort (pr_opts p) in
     case port_loop free base 4000 200 (pr_next p) of
       (Some q, nxt) \<Rightarrow> (q, p\<lparr>pr_next := nxt\<rparr>)
     | (None, nxt) \<Rightarrow> (base + nanos mod 2000, p\<lparr>pr_next := nxt\<rparr>))"

text \<open>\<open>Inl\<close> for a node whose turn comes after the context was canceled, with the time of the mark.\<close>

definition purity_one :: "codecs \<Rightarrow> (any \<Rightarrow> string) \<Rightarrow> (outbound_error \<Rightarrow> string) \<Rightarrow> time + purity_probe \<Rightarrow> node \<Rightarrow> node" where
  "purity_one c sprint text a n = (case a of Inl t \<Rightarrow> n\<lparr>n_Purity := Some ((zero_purity t)\<lparr>pur_Error := ''canceled''\<rparr>)\<rparr>
     | Inr pb \<Rightarrow> purity_testOne c sprint text pb n)"

definition purity_TestAll :: "codecs \<Rightarrow> (any \<Rightarrow> string) \<Rightarrow> (outbound_error \<Rightarrow> string) \<Rightarrow> prober \<Rightarrow> (node \<Rightarrow> time + purity_probe) \<Rightarrow>
    node list \<Rightarrow> node list" where
  "purity_TestAll c sprint text p answers nodes =
     (let m = po_MaxProbes (pr_opts p); k = (if m > 0 \<and> int (length nodes) > m then nat m else length nodes)
      in map (\<lambda>n. purity_one c sprint text (answers n) n) (take k nodes) @ drop k nodes)"

subsection \<open>The stage\<close>

definition clean_sum :: "node list \<Rightarrow> int \<times> int \<times> int \<times> int" where
  "clean_sum nodes = (let rs = somes (map n_Purity nodes); good = filter pur_OK rs in
     (int (length good), sum_list (map pur_CleanScore good), int (length (filter pur_CFHumanLikely rs)),
      int (length (filter (\<lambda>r. pur_CleanScore r \<ge> 70) rs))))"

definition purity_Summary :: "node list \<Rightarrow> string" where
  "purity_Summary nodes = (case clean_sum nodes of (good, points, cfOK, cleanA) \<Rightarrow>
     ''purity ok='' @ itoa good @ '' fail='' @ itoa (int (length nodes) - good) @ '' cf_ok='' @ itoa cfOK @ '' cleanA+='' @ itoa cleanA @
     '' avg_clean='' @ itoa (if good > 0 then quot points good else 0))"

definition GradeCounts :: "node list \<Rightarrow> (string, int) gmap" where
  "GradeCounts nodes = fold gincr (filter (\<lambda>g. g \<noteq> '''') (map pur_Grade (somes (map n_Purity nodes)))) []"

datatype purity_error = NothingVerified | ProberUnavailable bin_error

record purity_stats =
  pst_planned :: int
  pst_ok :: int
  pst_cf_ok :: int
  pst_clean70 :: int
  pst_avg :: int
  pst_grades :: "(string, int) gmap"

record purity_run =
  pq_answers :: "node \<Rightarrow> time + purity_probe"
  pq_files :: files
  pq_made :: bool
  pq_clock :: time

definition purity_list :: "time \<Rightarrow> config \<Rightarrow> store \<Rightarrow> node list" where
  "purity_list now cfg s = ListNodes (no_filter\<lparr>nf_VerifiedOnly := True, nf_AliveOnly := True, nf_DialTestedAfter := verifiedAfter now cfg,
     nf_DialEngine := verifiedEngine cfg, nf_Limit := 5000\<rparr>) s"

definition positive_opt :: "amap \<Rightarrow> string \<Rightarrow> int \<Rightarrow> int" where
  "positive_opt opts key def = (case aget opts key of AFloat v \<Rightarrow> if go_int v > 0 then go_int v else def | _ \<Rightarrow> def)"

definition doPurity :: "hashes \<Rightarrow> codecs \<Rightarrow> (any \<Rightarrow> string) \<Rightarrow> (outbound_error \<Rightarrow> string) \<Rightarrow> time \<Rightarrow> config \<Rightarrow> amap \<Rightarrow> purity_run \<Rightarrow>
    node_world \<Rightarrow> purity_error option \<times> purity_stats option \<times> node_world" where
  "doPurity h c sprint text now cfg opts run w =
     (let nodes = purity_list now cfg (nw_store w); maxN = positive_opt opts ''max_nodes'' 0; conc = positive_opt opts ''concurrency'' 3 in
      if nodes = [] then (Some NothingVerified, None, w)
      else (case purity_New (pq_files run) '''' (pq_made run) \<lparr>po_Bin = dl_Bin (Dial cfg), po_Concurrency = conc, po_Timeout = 28 * second,
          po_WorkDir = ''data/purity-tmp'', po_BasePort = 0, po_MaxProbes = maxN\<rparr> of
        Inl e \<Rightarrow> (Some (ProberUnavailable e), None, w)
      | Inr p \<Rightarrow> (let ns = purity_TestAll c sprint text p (pq_answers run) nodes;
                     (good, points, cfOK, cleanN) = clean_sum ns
          in (None, Some \<lparr>pst_planned = (if maxN > 0 \<and> int (length nodes) > maxN then maxN else int (length nodes)),
                pst_ok = good, pst_cf_ok = cfOK, pst_clean70 = cleanN, pst_avg = (if good > 0 then quot points good else 0),
                pst_grades = GradeCounts ns\<rparr>,
              service_upsertNodes h (pq_clock run) ns True w))))"


subsection \<open>What the stage leaves\<close>

definition unprobed :: "node \<Rightarrow> node" where
  "unprobed n = n\<lparr>n_Purity := None, n_Tags := []\<rparr>"

definition sound_purity :: "PurityResult \<Rightarrow> bool" where
  "sound_purity r \<longleftrightarrow> 0 \<le> pur_CleanScore r \<and> pur_CleanScore r \<le> 100 \<and>
     (if pur_Error r = '''' then pur_RiskScore r = 100 - pur_CleanScore r \<and> pur_Grade r = purity_grade (pur_CleanScore r) \<and>
        (pur_ExitIP r \<noteq> '''' \<or> pur_CFTraceOK r \<longrightarrow> pur_OK r)
      else \<not> pur_OK r \<and> pur_Grade r = '''' \<and> pur_CleanScore r = 0) \<and>
     (pur_CFHumanLikely r \<longleftrightarrow> pur_CFTraceOK r \<and> pur_CFChallenge r = ''none'')"

lemma read_ip_api_fields [simp]:
  "pur_OK (read_ip_api c sp b r) = pur_OK r" "pur_ExitIP (read_ip_api c sp b r) = pur_ExitIP r"
  "pur_CFTraceOK (read_ip_api c sp b r) = pur_CFTraceOK r" "pur_CFChallenge (read_ip_api c sp b r) = pur_CFChallenge r"
  "pur_CFHumanLikely (read_ip_api c sp b r) = pur_CFHumanLikely r" "pur_Error (read_ip_api c sp b r) = pur_Error r"
  by (simp_all add: read_ip_api_def split: option.split)

lemma enrich_fields [simp]:
  "pur_OK (enrichIPAPI c sp web d r) = pur_OK r" "pur_ExitIP (enrichIPAPI c sp web d r) = pur_ExitIP r"
  "pur_CFTraceOK (enrichIPAPI c sp web d r) = pur_CFTraceOK r" "pur_CFChallenge (enrichIPAPI c sp web d r) = pur_CFChallenge r"
  "pur_CFHumanLikely (enrichIPAPI c sp web d r) = pur_CFHumanLikely r" "pur_Error (enrichIPAPI c sp web d r) = pur_Error r"
  by (simp_all add: enrichIPAPI_def Let_def split: sum.split prod.split)

lemma score_range: "scorePurity r = (clean, risk, grade, notes) \<Longrightarrow> 0 \<le> clean \<and> clean \<le> 100 \<and> risk = 100 - clean \<and> grade = purity_grade clean"
  by (auto simp: scorePurity_def Let_def)

lemma score_step_sound:
  assumes "pur_Error r = ''''" and "pur_CFHumanLikely r \<longleftrightarrow> pur_CFTraceOK r \<and> pur_CFChallenge r = ''none''"
  shows "sound_purity (score_step r)"
proof -
  obtain clean risk grade ws where s: "scorePurity r = (clean, risk, grade, ws)" by (metis prod_cases4)
  show ?thesis using score_range [OF s] assms by (auto simp: score_step_def s sound_purity_def)
qed


lemma trace_fields [simp]: "pur_Error (trace_step pb r) = pur_Error r"
  by (simp add: trace_step_def Let_def split: sum.split prod.split)

lemma challenge_fields [simp]: "pur_Error (challenge_step pb r) = pur_Error r"
  "pur_CFHumanLikely (challenge_step pb r) \<longleftrightarrow> pur_CFTraceOK (challenge_step pb r) \<and> pur_CFChallenge (challenge_step pb r) = ''none''"
  by (auto simp: challenge_step_def Let_def)

lemma exit_fields [simp]: "pur_Error (exit_step pb r) = pur_Error r" "pur_CFTraceOK (exit_step pb r) = pur_CFTraceOK r"
  "pur_CFChallenge (exit_step pb r) = pur_CFChallenge r" "pur_CFHumanLikely (exit_step pb r) = pur_CFHumanLikely r"
  by (simp_all add: exit_step_def split: sum.split prod.split)

text \<open>An error is never empty: the texts of the outbound errors and of a broken probe say something.\<close>

lemma purity_result_sound:
  assumes "\<forall>e. text e \<noteq> ''''" and "pp_broken pb \<noteq> Some ''''"
  shows "sound_purity (purity_result c sprint text pb n)"
proof -
  let ?r = "zero_purity (pp_start pb)"
  let ?r3 = "exit_step pb (challenge_step pb (trace_step pb ?r))"
  have bad: "sound_purity (?r\<lparr>pur_Error := e\<rparr>)" if "e \<noteq> ''''" for e
    using that by (simp add: sound_purity_def zero_purity_def)
  have z: "pur_Error ?r = ''''" by (simp add: zero_purity_def)
  have "sound_purity (score_step (if pur_ExitIP ?r3 \<noteq> '''' then enrichIPAPI c sprint (pp_web pb) (pp_direct pb) ?r3 else ?r3))"
    by (rule score_step_sound) (simp_all add: z)
  then show ?thesis
    using bad assms by (auto simp: purity_result_def Let_def split: sum.split option.split)
qed

lemma purity_tags_mono: "set tags \<subseteq> set (purity_tags r tags)"
  by (auto simp: purity_tags_def mergeTag_def Let_def)

definition tells :: "purity_run \<Rightarrow> bool" where
  "tells run \<longleftrightarrow> (\<forall>n. case pq_answers run n of Inl t \<Rightarrow> True | Inr pb \<Rightarrow> pp_broken pb \<noteq> Some '''')"

definition probed :: "node \<Rightarrow> node \<Rightarrow> bool" where
  "probed n m \<longleftrightarrow> unprobed m = unprobed n \<and> set (n_Tags n) \<subseteq> set (n_Tags m) \<and>
     (m = n \<or> (case n_Purity m of None \<Rightarrow> False | Some r \<Rightarrow> sound_purity r))"

lemma purity_one_probed:
  assumes "\<forall>e. text e \<noteq> ''''" and "case a of Inl t \<Rightarrow> True | Inr pb \<Rightarrow> pp_broken pb \<noteq> Some ''''"
  shows "probed n (purity_one c sprint text a n)"
proof (cases a)
  case (Inl t)
  then show ?thesis by (simp add: purity_one_def probed_def unprobed_def sound_purity_def zero_purity_def)
next
  case (Inr pb)
  then have "sound_purity (purity_result c sprint text pb n)" using assms by (intro purity_result_sound) simp_all
  then show ?thesis using Inr purity_tags_mono by (simp add: purity_one_def purity_testOne_def probed_def unprobed_def Let_def)
qed

lemma TestAll_probed:
  assumes "\<forall>e. text e \<noteq> ''''" and "tells run"
  shows "list_all2 probed ns (purity_TestAll c sprint text p (pq_answers run) ns)"
proof -
  let ?f = "\<lambda>n. purity_one c sprint text (pq_answers run n) n"
  have one: "probed n (?f n)" for n using assms by (intro purity_one_probed) (auto simp: tells_def)
  have same: "probed n n" for n by (simp add: probed_def)
  have "list_all2 probed (take k ns @ drop k ns) (map ?f (take k ns) @ drop k ns)" for k
    by (intro list_all2_appendI list_all2_refl) (simp_all add: list_all2_conv_all_nth one same)
  then show ?thesis by (simp add: purity_TestAll_def Let_def)
qed

lemma probed_renews:
  assumes "probed n n'" and "n_ID n = nodeID h n" and "stored w (n_ID n) = Some n" and "cloneNode n = n"
  shows "renews h w n n' \<and> probed n (cloneNode n')"
proof -
  have u: "unprobed n' = unprobed n" and tags: "n_Tags n' = [] \<Longrightarrow> n_Tags n = []" using assms(1) by (auto simp: probed_def)
  have eq: "n' = n\<lparr>n_Purity := n_Purity n', n_Tags := n_Tags n'\<rparr>" using u by (cases n; cases n') (simp add: unprobed_def)
  have clone: "cloneNode n' = n'"
  proof -
    have "cloneNode (n\<lparr>n_Purity := a, n_Tags := b\<rparr>) = (cloneNode n)\<lparr>n_Purity := a, n_Tags := b\<rparr>" for a b by (simp add: cloneNode_def)
    then show ?thesis using eq assms(4) by metis
  qed
  have id: "n_ID n' = n_ID n" by (subst eq) simp
  have "Key h (unprobed x) = Key h x" for x by (simp add: unprobed_def Key_def canonical_def)
  then have key: "Key h n' = Key h n" using u by metis
  have pur: "n_Purity n' \<noteq> None \<or> n' = n" using assms(1) by (auto simp: probed_def split: option.splits)
  have "upsert_into n' n = n'"
    by (subst (1 2) eq) (use tags pur in \<open>cases n, auto simp: upsert_into_def new_or_def IsZero_def\<close>)
  then have "renews h w n n'" using assms(2,3) id key by (intro renews_intro) (simp_all add: clone)
  then show ?thesis using assms(1) by (simp add: clone)
qed

interpretation purity_obs: observation probed
  by unfold_locales (rule probed_renews)



definition verified_world :: node_world where
  "verified_world = service_replaceNodes id_hashes 5 [Some dialed_node] empty_world"

definition quiet_run :: purity_run where
  "quiet_run = \<lparr>pq_answers = (\<lambda>n. Inr \<lparr>pp_start = 7, pp_broken = None, pp_latency = 3, pp_web = (\<lambda>u. Inl ''reset''), pp_direct = (\<lambda>u. Inl ''reset'')\<rparr>),
     pq_files = \<lparr>look_path = Some, file_exists = (\<lambda>p. True)\<rparr>, pq_made = True, pq_clock = 8\<rparr>"


end
