(* ===== verification/Geo.thy ===== *)
theory Geo
  imports Publish NodeTable IP
begin

text \<open>
  Country annotation: the name and host heuristics, the lookup with its cache (\<open>internal/geo/geo.go\<close>), the
  annotation of nodes (\<open>internal/geo/annotate.go\<close>) and the geo stage of a job (\<open>doGeo\<close> in
  \<open>internal/service/service.go\<close>).

  The tables are Go maps: a loop over one visits it in any order, which is a parameter. The MaxMind
  databases and the resolver answer through parameters, as does the Unicode category of characters
  beyond ASCII. Downloading the databases is file and network access and not modelled.
\<close>

subsection \<open>Tables\<close>

definition isoNames :: "(string \<times> string) list" where
  "isoNames = [
    (''US'', ''United States''), (''HK'', ''Hong Kong''), (''TW'', ''Taiwan''), (''JP'', ''Japan''), (''KR'', ''South Korea''),
    (''SG'', ''Singapore''), (''CN'', ''China''), (''DE'', ''Germany''), (''GB'', ''United Kingdom''),
    (''UK'', ''United Kingdom''), (''FR'', ''France''), (''NL'', ''Netherlands''), (''CA'', ''Canada''),
    (''AU'', ''Australia''), (''IN'', ''India''), (''RU'', ''Russia''), (''TR'', ''Turkey''), (''BR'', ''Brazil''),
    (''IT'', ''Italy''), (''ES'', ''Spain''), (''SE'', ''Sweden''), (''NO'', ''Norway''), (''FI'', ''Finland''),
    (''PL'', ''Poland''), (''UA'', ''Ukraine''), (''VN'', ''Vietnam''), (''TH'', ''Thailand''), (''MY'', ''Malaysia''),
    (''ID'', ''Indonesia''), (''PH'', ''Philippines''), (''MO'', ''Macau''), (''IE'', ''Ireland''), (''CH'', ''Switzerland''),
    (''AT'', ''Austria''), (''BE'', ''Belgium''), (''CZ'', ''Czechia''), (''AR'', ''Argentina''), (''MX'', ''Mexico''),
    (''ZA'', ''South Africa''), (''IL'', ''Israel''), (''AE'', ''United Arab Emirates''), (''SA'', ''Saudi Arabia''),
    (''RO'', ''Romania''), (''BG'', ''Bulgaria''), (''HU'', ''Hungary''), (''PT'', ''Portugal''), (''DK'', ''Denmark''),
    (''NZ'', ''New Zealand''), (''CL'', ''Chile''), (''CO'', ''Colombia''), (''KZ'', ''Kazakhstan''), (''UZ'', ''Uzbekistan''),
    (''IR'', ''Iran''), (''IQ'', ''Iraq''), (''PK'', ''Pakistan''), (''BD'', ''Bangladesh''), (''NG'', ''Nigeria''),
    (''EG'', ''Egypt''), (''KE'', ''Kenya''), (''LT'', ''Lithuania''), (''LV'', ''Latvia''), (''EE'', ''Estonia''),
    (''SK'', ''Slovakia''), (''SI'', ''Slovenia''), (''HR'', ''Croatia''), (''RS'', ''Serbia''), (''GR'', ''Greece''),
    (''LU'', ''Luxembourg''), (''IS'', ''Iceland''), (''MD'', ''Moldova''), (''GE'', ''Georgia''), (''AM'', ''Armenia''),
    (''AZ'', ''Azerbaijan''), (''BY'', ''Belarus''), (''SC'', ''Seychelles''), (''PA'', ''Panama''), (''CR'', ''Costa Rica''),
    (''PE'', ''Peru''), (''UY'', ''Uruguay''), (''KH'', ''Cambodia''), (''MM'', ''Myanmar''), (''NP'', ''Nepal''),
    (''LK'', ''Sri Lanka''), (''MN'', ''Mongolia''), (''CF'', ''Central African Republic''), (''XX'', ''Unknown'')]"

definition cnAliases :: "(string \<times> string) list" where
  "cnAliases = [
    ([CHR 0xE7, CHR 0xBE, CHR 0x8E, CHR 0xE5, CHR 0x9B, CHR 0xBD], ''US''),
    ([CHR 0xE7, CHR 0xBE, CHR 0x8E, CHR 0xE5, CHR 0x9C, CHR 0x8B], ''US''),
    ([CHR 0xE9, CHR 0xA6, CHR 0x99, CHR 0xE6, CHR 0xB8, CHR 0xAF], ''HK''),
    ([CHR 0xE5, CHR 0x8F, CHR 0xB0, CHR 0xE6, CHR 0xB9, CHR 0xBE], ''TW''),
    ([CHR 0xE5, CHR 0x8F, CHR 0xB0, CHR 0xE7, CHR 0x81, CHR 0xA3], ''TW''),
    ([CHR 0xE6, CHR 0x97, CHR 0xA5, CHR 0xE6, CHR 0x9C, CHR 0xAC], ''JP''),
    ([CHR 0xE9, CHR 0x9F, CHR 0xA9, CHR 0xE5, CHR 0x9B, CHR 0xBD], ''KR''),
    ([CHR 0xE9, CHR 0x9F, CHR 0x93, CHR 0xE5, CHR 0x9C, CHR 0x8B], ''KR''),
    ([CHR 0xE6, CHR 0x96, CHR 0xB0, CHR 0xE5, CHR 0x8A, CHR 0xA0, CHR 0xE5, CHR 0x9D, CHR 0xA1], ''SG''),
    ([CHR 0xE4, CHR 0xB8, CHR 0xAD, CHR 0xE5, CHR 0x9B, CHR 0xBD], ''CN''),
    ([CHR 0xE5, CHR 0xBE, CHR 0xB7, CHR 0xE5, CHR 0x9C, CHR 0x8B], ''DE''),
    ([CHR 0xE5, CHR 0xBE, CHR 0xB7, CHR 0xE5, CHR 0x9B, CHR 0xBD], ''DE''),
    ([CHR 0xE8, CHR 0x8B, CHR 0xB1, CHR 0xE5, CHR 0x9B, CHR 0xBD], ''GB''),
    ([CHR 0xE8, CHR 0x8B, CHR 0xB1, CHR 0xE5, CHR 0x9C, CHR 0x8B], ''GB''),
    ([CHR 0xE6, CHR 0xB3, CHR 0x95, CHR 0xE5, CHR 0x9B, CHR 0xBD], ''FR''),
    ([CHR 0xE6, CHR 0xB3, CHR 0x95, CHR 0xE5, CHR 0x9C, CHR 0x8B], ''FR''),
    ([CHR 0xE8, CHR 0x8D, CHR 0xB7, CHR 0xE5, CHR 0x85, CHR 0xB0], ''NL''),
    ([CHR 0xE8, CHR 0x8D, CHR 0xB7, CHR 0xE8, CHR 0x98, CHR 0xAD], ''NL''),
    ([CHR 0xE5, CHR 0x8A, CHR 0xA0, CHR 0xE6, CHR 0x8B, CHR 0xBF, CHR 0xE5, CHR 0xA4, CHR 0xA7], ''CA''),
    ([CHR 0xE6, CHR 0xBE, CHR 0xB3, CHR 0xE5, CHR 0xA4, CHR 0xA7, CHR 0xE5, CHR 0x88, CHR 0xA9, CHR 0xE4, CHR 0xBA, CHR 0x9A], ''AU''),
    ([CHR 0xE6, CHR 0xBE, CHR 0xB3, CHR 0xE6, CHR 0xB4, CHR 0xB2], ''AU''),
    ([CHR 0xE5, CHR 0x8D, CHR 0xB0, CHR 0xE5, CHR 0xBA, CHR 0xA6], ''IN''),
    ([CHR 0xE4, CHR 0xBF, CHR 0x84, CHR 0xE7, CHR 0xBD, CHR 0x97, CHR 0xE6, CHR 0x96, CHR 0xAF], ''RU''),
    ([CHR 0xE4, CHR 0xBF, CHR 0x84, CHR 0xE5, CHR 0x9C, CHR 0x8B], ''RU''),
    ([CHR 0xE5, CHR 0x9C, CHR 0x9F, CHR 0xE8, CHR 0x80, CHR 0xB3, CHR 0xE5, CHR 0x85, CHR 0xB6], ''TR''),
    ([CHR 0xE5, CHR 0xB7, CHR 0xB4, CHR 0xE8, CHR 0xA5, CHR 0xBF], ''BR''),
    ([CHR 0xE6, CHR 0x84, CHR 0x8F, CHR 0xE5, CHR 0xA4, CHR 0xA7, CHR 0xE5, CHR 0x88, CHR 0xA9], ''IT''),
    ([CHR 0xE8, CHR 0xA5, CHR 0xBF, CHR 0xE7, CHR 0x8F, CHR 0xAD, CHR 0xE7, CHR 0x89, CHR 0x99], ''ES''),
    ([CHR 0xE7, CHR 0x91, CHR 0x9E, CHR 0xE5, CHR 0x85, CHR 0xB8], ''SE''),
    ([CHR 0xE6, CHR 0x8C, CHR 0xAA, CHR 0xE5, CHR 0xA8, CHR 0x81], ''NO''),
    ([CHR 0xE8, CHR 0x8A, CHR 0xAC, CHR 0xE5, CHR 0x85, CHR 0xB0], ''FI''),
    ([CHR 0xE6, CHR 0xB3, CHR 0xA2, CHR 0xE5, CHR 0x85, CHR 0xB0], ''PL''),
    ([CHR 0xE7, CHR 0x83, CHR 0x8F, CHR 0xE5, CHR 0x85, CHR 0x8B, CHR 0xE8, CHR 0x98, CHR 0xAD], ''UA''),
    ([CHR 0xE4, CHR 0xB9, CHR 0x8C, CHR 0xE5, CHR 0x85, CHR 0x8B, CHR 0xE5, CHR 0x85, CHR 0xB0], ''UA''),
    ([CHR 0xE8, CHR 0xB6, CHR 0x8A, CHR 0xE5, CHR 0x8D, CHR 0x97], ''VN''),
    ([CHR 0xE6, CHR 0xB3, CHR 0xB0, CHR 0xE5, CHR 0x9B, CHR 0xBD], ''TH''),
    ([CHR 0xE9, CHR 0xA6, CHR 0xAC, CHR 0xE4, CHR 0xBE, CHR 0x86, CHR 0xE8, CHR 0xA5, CHR 0xBF, CHR 0xE4, CHR 0xBA, CHR 0x9E], ''MY''),
    ([CHR 0xE9, CHR 0xA9, CHR 0xAC, CHR 0xE6, CHR 0x9D, CHR 0xA5, CHR 0xE8, CHR 0xA5, CHR 0xBF, CHR 0xE4, CHR 0xBA, CHR 0x9A], ''MY''),
    ([CHR 0xE5, CHR 0x8D, CHR 0xB0, CHR 0xE5, CHR 0xB0, CHR 0xBC], ''ID''),
    ([CHR 0xE8, CHR 0x8F, CHR 0xB2, CHR 0xE5, CHR 0xBE, CHR 0x8B, CHR 0xE5, CHR 0xAE, CHR 0xBE], ''PH''),
    ([CHR 0xE6, CHR 0xBE, CHR 0xB3, CHR 0xE9, CHR 0x97, CHR 0xA8], ''MO''),
    ([CHR 0xE6, CHR 0x84, CHR 0x9B, CHR 0xE7, CHR 0x88, CHR 0xBE, CHR 0xE8, CHR 0x98, CHR 0xAD], ''IE''),
    ([CHR 0xE7, CHR 0x88, CHR 0xB1, CHR 0xE5, CHR 0xB0, CHR 0x94, CHR 0xE5, CHR 0x85, CHR 0xB0], ''IE''),
    ([CHR 0xE7, CHR 0x91, CHR 0x9E, CHR 0xE5, CHR 0xA3, CHR 0xAB], ''CH''),
    ([CHR 0xE9, CHR 0x98, CHR 0xBF, CHR 0xE8, CHR 0x81, CHR 0x94, CHR 0xE9, CHR 0x85, CHR 0x8B], ''AE''),
    ([CHR 0xE4, CHR 0xBB, CHR 0xA5, CHR 0xE8, CHR 0x89, CHR 0xB2, CHR 0xE5, CHR 0x88, CHR 0x97], ''IL''),
    ([CHR 0xE9, CHR 0x98, CHR 0xBF, CHR 0xE6, CHR 0xA0, CHR 0xB9, CHR 0xE5, CHR 0xBB, CHR 0xB7], ''AR''),
    ([CHR 0xE5, CHR 0xA2, CHR 0xA8, CHR 0xE8, CHR 0xA5, CHR 0xBF, CHR 0xE5, CHR 0x93, CHR 0xA5], ''MX''),
    ([CHR 0xE4, CHR 0xBC, CHR 0x8A, CHR 0xE6, CHR 0x9C, CHR 0x97], ''IR'')]"

definition enAliases :: "(string \<times> string) list" where
  "enAliases = [
    (''united states'', ''US''), (''america'', ''US''), (''usa'', ''US''), (''hong kong'', ''HK''), (''hongkong'', ''HK''),
    (''taiwan'', ''TW''), (''japan'', ''JP''), (''tokyo'', ''JP''), (''osaka'', ''JP''), (''korea'', ''KR''),
    (''seoul'', ''KR''), (''singapore'', ''SG''), (''germany'', ''DE''), (''frankfurt'', ''DE''), (''united kingdom'', ''GB''),
    (''london'', ''GB''), (''britain'', ''GB''), (''england'', ''GB''), (''france'', ''FR''), (''paris'', ''FR''),
    (''netherlands'', ''NL''), (''amsterdam'', ''NL''), (''canada'', ''CA''), (''toronto'', ''CA''), (''australia'', ''AU''),
    (''sydney'', ''AU''), (''india'', ''IN''), (''mumbai'', ''IN''), (''russia'', ''RU''), (''moscow'', ''RU''),
    (''turkey'', ''TR''), (''istanbul'', ''TR''), (''brazil'', ''BR''), (''italy'', ''IT''), (''spain'', ''ES''),
    (''sweden'', ''SE''), (''norway'', ''NO''), (''finland'', ''FI''), (''poland'', ''PL''), (''ukraine'', ''UA''),
    (''vietnam'', ''VN''), (''thailand'', ''TH''), (''bangkok'', ''TH''), (''malaysia'', ''MY''), (''indonesia'', ''ID''),
    (''philippines'', ''PH''), (''macau'', ''MO''), (''macao'', ''MO''), (''ireland'', ''IE''), (''switzerland'', ''CH''),
    (''austria'', ''AT''), (''belgium'', ''BE''), (''israel'', ''IL''), (''emirates'', ''AE''), (''dubai'', ''AE''),
    (''los angeles'', ''US''), (''san jose'', ''US''), (''seattle'', ''US''), (''chicago'', ''US''), (''dallas'', ''US''),
    (''new york'', ''US''), (''miami'', ''US''), (''silicon valley'', ''US''), (''cloudflare'', ''US'')]"

definition cctld :: "(string \<times> string) list" where
  "cctld = [
    (''.jp'', ''JP''), (''.kr'', ''KR''), (''.hk'', ''HK''), (''.tw'', ''TW''), (''.sg'', ''SG''), (''.de'', ''DE''),
    (''.fr'', ''FR''), (''.nl'', ''NL''), (''.gb'', ''GB''), (''.uk'', ''GB''), (''.au'', ''AU''), (''.ca'', ''CA''),
    (''.in'', ''IN''), (''.ru'', ''RU''), (''.br'', ''BR''), (''.tr'', ''TR''), (''.it'', ''IT''), (''.es'', ''ES''),
    (''.se'', ''SE''), (''.no'', ''NO''), (''.fi'', ''FI''), (''.pl'', ''PL''), (''.ua'', ''UA''), (''.vn'', ''VN''),
    (''.th'', ''TH''), (''.my'', ''MY''), (''.id'', ''ID''), (''.ph'', ''PH''), (''.mo'', ''MO''), (''.ie'', ''IE''),
    (''.ch'', ''CH''), (''.at'', ''AT''), (''.be'', ''BE''), (''.cz'', ''CZ''), (''.ar'', ''AR''), (''.mx'', ''MX''),
    (''.za'', ''ZA''), (''.il'', ''IL''), (''.ae'', ''AE''), (''.sa'', ''SA'')]"

text \<open>The order in which the loops meet the entries.\<close>

record map_order =
  ord_iso :: "(string \<times> string) list"
  ord_cn :: "(string \<times> string) list"
  ord_en :: "(string \<times> string) list"
  ord_tld :: "(string \<times> string) list"

definition orders :: "map_order \<Rightarrow> bool" where
  "orders ord \<longleftrightarrow> mset (ord_iso ord) = mset isoNames \<and> mset (ord_cn ord) = mset cnAliases \<and>
     mset (ord_en ord) = mset enAliases \<and> mset (ord_tld ord) = mset cctld"

subsection \<open>Heuristics\<close>

record GeoResult =
  gr_Code :: string
  gr_Name :: string
  gr_City :: string
  gr_ISP :: string
  gr_ASN :: string
  gr_From :: string

definition no_geo :: GeoResult where
  "no_geo = \<lparr>gr_Code = '''', gr_Name = '''', gr_City = '''', gr_ISP = '''', gr_ASN = '''', gr_From = ''''\<rparr>"

definition NormalizeCode :: "string \<Rightarrow> string" where
  "NormalizeCode code0 = (let code = ToUpper (TrimSpace code0) in if code = ''UK'' then ''GB'' else code)"

definition ISOToName :: "string \<Rightarrow> string" where
  "ISOToName code0 = (let code = ToUpper code0 in case map_of isoNames code of Some n \<Rightarrow> n | None \<Rightarrow> code)"

definition DisplayName :: "string \<Rightarrow> string" where
  "DisplayName code0 = (let code = ToUpper code0; flag = FlagEmoji code; name = ISOToName code
     in if flag \<noteq> '''' then flag @ '' '' @ name else name)"

text \<open>
  The letter of a regional indicator symbol at the front of the bytes. Its first byte never continues
  another character, so scanning bytes finds the same symbols as scanning runes.
\<close>

definition indicator :: "string \<Rightarrow> char option" where
  "indicator s = (case s of b0 # b1 # b2 # b3 # _ \<Rightarrow>
       (if b0 = CHR 0xF0 \<and> b1 = CHR 0x9F \<and> b2 = CHR 0x87 \<and> 0xA6 \<le> (of_char b3 :: nat) \<and> (of_char b3 :: nat) \<le> 0xBF
        then Some (char_of (of_char b3 - 0xA6 + 65 :: nat)) else None) | _ \<Rightarrow> None)"

fun flagEmojiToISO :: "string \<Rightarrow> string" where
  "flagEmojiToISO [] = ''''"
| "flagEmojiToISO (b # s) = (case (indicator (b # s), indicator (drop 3 s)) of
     (Some x, Some y) \<Rightarrow> if map_of isoNames [x, y] \<noteq> None then [x, y] else flagEmojiToISO s
   | _ \<Rightarrow> flagEmojiToISO s)"

text \<open>How many bytes the character at the front has; zero for a byte that starts none.\<close>

definition cont :: "nat \<Rightarrow> nat \<Rightarrow> char \<Rightarrow> bool" where
  "cont lo hi c \<longleftrightarrow> lo \<le> of_char c \<and> of_char c \<le> hi"

definition utf8_width :: "string \<Rightarrow> nat" where
  "utf8_width s = (case s of [] \<Rightarrow> 0 | c # t \<Rightarrow> (let b = (of_char c :: nat); tail = (\<lambda>k. length t \<ge> k \<and> list_all (cont 0x80 0xBF) (take k t)) in
     if b < 0x80 then 1
     else if 0xC2 \<le> b \<and> b \<le> 0xDF \<and> tail 1 then 2
     else if tail 2 \<and> (b = 0xE0 \<and> cont 0xA0 0xBF (t ! 0) \<or> 0xE1 \<le> b \<and> b \<le> 0xEC \<or> b = 0xED \<and> cont 0x80 0x9F (t ! 0) \<or> b = 0xEE \<or> b = 0xEF) then 3
     else if tail 3 \<and> (b = 0xF0 \<and> cont 0x90 0xBF (t ! 0) \<or> 0xF1 \<le> b \<and> b \<le> 0xF3 \<or> b = 0xF4 \<and> cont 0x80 0x8F (t ! 0)) then 4
     else 0))"

function runes :: "string \<Rightarrow> string list" where
  "runes s = (if s = [] then [] else (let k = utf8_width s in if k = 0 then [] # runes (tl s) else take k s # runes (drop k s)))"
  by pat_completeness auto
termination by (relation "measure length") (auto simp: Let_def)

declare runes.simps [simp del]

text \<open>
  Letters and digits: ASCII ones, and beyond ASCII what the Unicode tables (\<open>wide\<close>) say of the encoded
  character. An invalid byte is the replacement character, which is neither.
\<close>

definition word_rune :: "(string \<Rightarrow> bool) \<Rightarrow> string \<Rightarrow> bool" where
  "word_rune wide r = (case r of [] \<Rightarrow> False
     | [c] \<Rightarrow> (let b = (of_char c :: nat) in 48 \<le> b \<and> b \<le> 57 \<or> 65 \<le> b \<and> b \<le> 90 \<or> 97 \<le> b \<and> b \<le> 122)
     | _ \<Rightarrow> wide r)"

fun token_loop :: "(string \<Rightarrow> bool) \<Rightarrow> string \<Rightarrow> string list \<Rightarrow> string list" where
  "token_loop wide b [] = (if b \<noteq> [] then [b] else [])"
| "token_loop wide b (r # rs) = (if word_rune wide r then token_loop wide (b @ r) rs
     else (if b \<noteq> [] then [b] else []) @ token_loop wide [] rs)"

definition tokenize :: "(string \<Rightarrow> bool) \<Rightarrow> string \<Rightarrow> string list" where
  "tokenize wide s = token_loop wide [] (runes s)"

definition named :: "string \<Rightarrow> GeoResult" where
  "named code = no_geo\<lparr>gr_Code := code, gr_Name := ISOToName code, gr_From := ''name''\<rparr>"

definition iso_token :: "string \<Rightarrow> bool" where
  "iso_token tok \<longleftrightarrow> length (ToUpper tok) = 2 \<and> map_of isoNames (ToUpper tok) \<noteq> None"

definition FromName :: "map_order \<Rightarrow> (string \<Rightarrow> bool) \<Rightarrow> string \<Rightarrow> GeoResult" where
  "FromName ord wide name0 =
     (let name = TrimSpace name0; lower = ToLower name in
      if name = '''' then no_geo
      else if flagEmojiToISO name \<noteq> '''' then named (NormalizeCode (flagEmojiToISO name))
      else case find (\<lambda>(code, cn). Contains lower (ToLower cn)) (ord_iso ord) of
        Some (code, cn) \<Rightarrow> no_geo\<lparr>gr_Code := code, gr_Name := cn, gr_From := ''name''\<rparr>
      | None \<Rightarrow> (case find (\<lambda>(alias, code). Contains name alias) (ord_cn ord) of Some (alias, code) \<Rightarrow> named code
      | None \<Rightarrow> (case find (\<lambda>(alias, code). Contains lower alias) (ord_en ord) of Some (alias, code) \<Rightarrow> named code
      | None \<Rightarrow> (case find iso_token (tokenize wide name) of Some tok \<Rightarrow> named (ToUpper tok)
      | None \<Rightarrow> no_geo))))"

definition FromHost :: "map_order \<Rightarrow> string \<Rightarrow> GeoResult" where
  "FromHost ord host = (case find (\<lambda>(suf, code). HasSuffix (ToLower host) suf) (ord_tld ord) of
     Some (suf, code) \<Rightarrow> (named code)\<lparr>gr_From := ''host''\<rparr> | None \<Rightarrow> no_geo)"

subsection \<open>The lookup\<close>

record mmdb_country =
  mc_iso :: string
  mc_names :: "(string, string) gmap"
  mc_reg_iso :: string
  mc_reg_names :: "(string, string) gmap"

text \<open>
  What surrounds a lookup: the two databases (\<open>None\<close> while not loaded; whether the query failed, and its
  record), the resolver, the orders and the Unicode tables.
\<close>

record geo_env =
  ge_country :: "(ip \<Rightarrow> bool \<times> mmdb_country option) option"
  ge_asn :: "(ip \<Rightarrow> bool \<times> (nat \<times> string) option) option"
  ge_dns :: "string \<Rightarrow> ip list option"
  ge_order :: map_order
  ge_wide :: "string \<Rightarrow> bool"

definition pickName :: "(string, string) gmap \<Rightarrow> string" where
  "pickName names = (if gget '''' names ''en'' \<noteq> '''' then gget '''' names ''en''
     else if gget '''' names ''zh-CN'' \<noteq> '''' then gget '''' names ''zh-CN''
     else (case find (\<lambda>v. v \<noteq> '''') (vals names) of Some v \<Rightarrow> v | None \<Rightarrow> ''''))"

definition lookupIP :: "geo_env \<Rightarrow> ip \<Rightarrow> GeoResult option" where
  "lookupIP env ip = (case ge_country env of None \<Rightarrow> None | Some db \<Rightarrow> (case db ip of (failed, r) \<Rightarrow>
     (case r of None \<Rightarrow> None
      | Some m \<Rightarrow> if failed \<or> mc_iso m = ''''
          then (if mc_reg_iso m \<noteq> '''' then Some (no_geo\<lparr>gr_Code := ToUpper (mc_reg_iso m), gr_Name := pickName (mc_reg_names m)\<rparr>) else None)
          else Some (no_geo\<lparr>gr_Code := ToUpper (mc_iso m), gr_Name := pickName (mc_names m)\<rparr>))))"

definition lookupASN :: "geo_env \<Rightarrow> ip \<Rightarrow> (string \<times> string) option" where
  "lookupASN env ip = (case ge_asn env of None \<Rightarrow> None | Some db \<Rightarrow> (case db ip of (failed, r) \<Rightarrow>
     (case r of None \<Rightarrow> None | Some (num, org) \<Rightarrow> if failed \<or> num = 0 then None else Some (''AS'' @ itoa (int num), org))))"

text \<open>The first IPv4 address the resolver gives, or else its first address.\<close>

definition pick_ip :: "ip list \<Rightarrow> ip option" where
  "pick_ip ips = (case find (\<lambda>ip. To4 ip \<noteq> None) ips of Some ip \<Rightarrow> Some ip | None \<Rightarrow> (case ips of [] \<Rightarrow> None | ip # _ \<Rightarrow> Some ip))"

definition host_ip :: "geo_env \<Rightarrow> string \<Rightarrow> ip option" where
  "host_ip env host = (case ParseIP host of Some ip \<Rightarrow> Some ip
     | None \<Rightarrow> (case ge_dns env host of None \<Rightarrow> None | Some ips \<Rightarrow> pick_ip ips))"

definition clean_host :: "string \<Rightarrow> string" where
  "clean_host host = Trim (TrimSpace host) ''[]''"

definition from_ip :: "geo_env \<Rightarrow> string \<Rightarrow> GeoResult" where
  "from_ip env host = (case host_ip env host of None \<Rightarrow> no_geo
     | Some ip \<Rightarrow> (let out = (case lookupIP env ip of None \<Rightarrow> no_geo | Some r \<Rightarrow> r\<lparr>gr_Code := NormalizeCode (gr_Code r), gr_From := ''mmdb''\<rparr>)
         in case lookupASN env ip of None \<Rightarrow> out | Some (asn, org) \<Rightarrow> out\<lparr>gr_ASN := asn, gr_ISP := org\<rparr>))"

definition with_name :: "geo_env \<Rightarrow> string \<Rightarrow> GeoResult \<Rightarrow> GeoResult" where
  "with_name env nodeName out = (let nameR = FromName (ge_order env) (ge_wide env) nodeName in
     if gr_Code nameR = '''' then out
     else if gr_Code out = '''' then nameR\<lparr>gr_From := ''name''\<rparr>
     else if gr_Name out = '''' then out\<lparr>gr_Name := gr_Name nameR\<rparr> else out)"

definition with_host :: "geo_env \<Rightarrow> string \<Rightarrow> GeoResult \<Rightarrow> GeoResult" where
  "with_host env host out = (if gr_Code out \<noteq> '''' then out
     else (let r = FromHost (ge_order env) host in if gr_Code r \<noteq> '''' then r\<lparr>gr_From := ''host''\<rparr> else out))"

type_synonym geo_cache = "(string, GeoResult) gmap"

text \<open>\<open>seen\<close> is the cache as the lookup reads it, \<open>cache\<close> the one it writes to.\<close>

definition LookupHost :: "geo_env \<Rightarrow> geo_cache \<Rightarrow> string \<Rightarrow> string \<Rightarrow> geo_cache \<Rightarrow> GeoResult \<times> geo_cache" where
  "LookupHost env seen host0 nodeName cache =
     (let host = clean_host host0; key = ToLower host; hit = gget no_geo seen key in
      if gr_Code hit \<noteq> '''' then
        ((if gr_Name hit = '''' \<and> gr_Code (FromName (ge_order env) (ge_wide env) nodeName) \<noteq> ''''
          then hit\<lparr>gr_Name := gr_Name (FromName (ge_order env) (ge_wide env) nodeName)\<rparr> else hit), cache)
      else (let out = with_host env host (with_name env nodeName (from_ip env host))
            in (out, if gr_Code out \<noteq> '''' then gput key out cache else cache)))"

subsection \<open>Annotation\<close>

definition cdn_markers :: "string list" where
  "cdn_markers = [''cloudflare'', ''akamai'', ''fastly'', ''cloudfront'', ''cdn'', ''edgekey'', ''azureedge'']"

definition classifyEntry :: "node \<Rightarrow> GeoResult \<Rightarrow> string" where
  "classifyEntry n r = (if list_ex (\<lambda>(key, v). Contains (ToLower (key @ ''='' @ v)) ''relay'') (n_Extra n) then ''relay''
     else if list_ex (Contains (ToLower (Join [n_Server n, n_Host n, n_SNI n, gr_ISP r] '' ''))) cdn_markers then ''cdn'' else ''direct'')"

definition mergeTags :: "string list \<Rightarrow> string \<Rightarrow> string list" where
  "mergeTags tags t = (if t = '''' then tags else if t \<in> set tags then tags else tags @ [t])"

record annotate_options =
  ao_OnlyAlive :: bool
  ao_OnlyEmpty :: bool
  ao_HQOnly :: bool
  ao_MinScore :: float64

definition annotate_wants :: "annotate_options \<Rightarrow> node \<Rightarrow> bool" where
  "annotate_wants opt n \<longleftrightarrow> \<not> (ao_OnlyAlive opt \<and> \<not> n_Alive n) \<and> \<not> (ao_HQOnly opt \<and> n_Score n < ao_MinScore opt) \<and>
     \<not> (ao_OnlyEmpty opt \<and> n_Country n \<noteq> '''')"

definition geo_apply :: "GeoResult \<Rightarrow> node \<Rightarrow> node" where
  "geo_apply r n = (if gr_Code r = '''' then n
     else (let n = n\<lparr>n_Country := gr_Code r, n_City := (if gr_City r \<noteq> '''' then gr_City r else n_City n),
              n_ISP := (if gr_ISP r \<noteq> '''' then gr_ISP r else n_ISP n), n_ASN := (if gr_ASN r \<noteq> '''' then gr_ASN r else n_ASN n)\<rparr>
           in n\<lparr>n_EntryType := classifyEntry n r, n_Tags := mergeTags (mergeTags (n_Tags n) (gr_Code r)) (FlagEmoji (gr_Code r))\<rparr>))"

text \<open>
  Each goroutine sees the cache as it was at some moment (\<open>view\<close>); what they write to it arrives in some
  order (\<open>arrange\<close>). The nodes keep their places in the caller's list.
\<close>

definition annotate_one :: "geo_env \<Rightarrow> (node \<Rightarrow> geo_cache) \<Rightarrow> annotate_options \<Rightarrow> node \<Rightarrow> (node \<times> bool) \<times> geo_cache" where
  "annotate_one env view opt n = (if annotate_wants opt n then
     (case LookupHost env (view n) (n_Server n) (n_Name n) [] of (r, written) \<Rightarrow> ((geo_apply r n, gr_Code r \<noteq> ''''), written))
     else ((n, False), []))"

definition AnnotateNodes :: "geo_env \<Rightarrow> (node \<Rightarrow> geo_cache) \<Rightarrow> (geo_cache \<Rightarrow> geo_cache) \<Rightarrow> annotate_options \<Rightarrow> node list \<Rightarrow> geo_cache \<Rightarrow>
    node list \<times> int \<times> geo_cache" where
  "AnnotateNodes env view arrange opt nodes cache = (let rs = map (annotate_one env view opt) nodes in
     (map (fst \<circ> fst) rs, int (length (filter (snd \<circ> fst) rs)), fold (\<lambda>(k, r). gput k r) (arrange (concat (map snd rs))) cache))"

definition CountByCountry :: "node list \<Rightarrow> bool \<Rightarrow> bool \<Rightarrow> float64 \<Rightarrow> (string, int) gmap" where
  "CountByCountry nodes aliveOnly hqOnly minScore =
     fold gincr (map (\<lambda>n. if n_Country n = '''' then ''XX'' else n_Country n)
       (filter (\<lambda>n. \<not> (aliveOnly \<and> \<not> n_Alive n) \<and> \<not> (hqOnly \<and> n_Score n < minScore)) nodes)) []"

subsection \<open>The stage\<close>

text \<open>\<open>env\<close> is what the locator has after the attempt to load or download its database.\<close>

datatype geo_error = GeoDisabled

record geo_stats =
  gst_annotated :: int
  gst_mmdb :: bool
  gst_hq :: "(string, int) gmap"

definition geo_list :: "store \<Rightarrow> node list" where
  "geo_list s = (let nodes = ListNodes (no_filter\<lparr>nf_AliveOnly := True, nf_Limit := 3000\<rparr>) s
     in if length nodes < 20 then AllNodes s else nodes)"

definition force_opt :: "amap \<Rightarrow> bool" where
  "force_opt opts = (case aget opts ''force'' of ABool b \<Rightarrow> b | _ \<Rightarrow> False)"

record geo_run =
  gq_env :: geo_env
  gq_view :: "node \<Rightarrow> geo_cache"
  gq_arrange :: "geo_cache \<Rightarrow> geo_cache"
  gq_clock :: time

definition doGeo :: "hashes \<Rightarrow> config \<Rightarrow> amap \<Rightarrow> geo_run option \<Rightarrow> geo_cache \<Rightarrow> node_world \<Rightarrow>
    geo_error option \<times> geo_stats option \<times> geo_cache \<times> node_world" where
  "doGeo h cfg opts geo cache w = (case geo of None \<Rightarrow> (Some GeoDisabled, None, cache, w)
     | Some run \<Rightarrow>
         (case AnnotateNodes (gq_env run) (gq_view run) (gq_arrange run)
            \<lparr>ao_OnlyAlive = False, ao_OnlyEmpty = (\<not> force_opt opts), ao_HQOnly = False, ao_MinScore = 0\<rparr>
            (geo_list (nw_store w)) cache of (ns, k, cache') \<Rightarrow>
          (let w' = service_upsertNodes h (gq_clock run) ns False w; m = flt_MinScore (Filter cfg); minScore = (if m \<le> 0 then 70 else m)
           in (None, Some \<lparr>gst_annotated = k, gst_mmdb = (ge_country (gq_env run) \<noteq> None),
                 gst_hq = CountByCountry (AllNodes (nw_store w')) True True minScore\<rparr>, cache', w'))))"


subsection \<open>Codes are known ones\<close>

definition known_code :: "string \<Rightarrow> bool" where
  "known_code code \<longleftrightarrow> map_of isoNames code \<noteq> None"

lemma alias_codes: "list_all (\<lambda>(a, code). known_code code) cnAliases" "list_all (\<lambda>(a, code). known_code code) enAliases"
  "list_all (\<lambda>(a, code). known_code code) cctld"
  by code_simp+

lemma iso_upper: "list_all (\<lambda>(code, n). TrimSpace code = code \<and> ToUpper code = code) isoNames"
  by code_simp

lemma known_GB: "known_code ''GB''"
  by (simp add: known_code_def isoNames_def)

lemma normal_codes: "list_all (\<lambda>(code, n). known_code code \<and> known_code (NormalizeCode code)) isoNames"
proof -
  have "known_code code \<and> known_code (NormalizeCode code)" if "(code, n) \<in> set isoNames" for code n
  proof -
    have "TrimSpace code = code" "ToUpper code = code" using that iso_upper by (auto simp: list_all_iff)
    moreover have "known_code code" using weak_map_of_SomeI [OF that] by (auto simp: known_code_def)
    ultimately show ?thesis using known_GB by (simp add: NormalizeCode_def Let_def)
  qed
  then show ?thesis by (auto simp: list_all_iff)
qed

lemma find_entry:
  assumes "find P xs = Some (a, b)" and "mset xs = mset ys" and "list_all (\<lambda>(a, b). Q a b) ys"
  shows "Q a b"
proof -
  have "(a, b) \<in> set ys" using assms(1,2) by (metis find_SomeD set_mset_mset)
  then show ?thesis using assms(3) by (auto simp: list_all_iff)
qed

lemma known_isoNames: "known_code code \<Longrightarrow> known_code (NormalizeCode code)"
  using normal_codes by (auto simp: known_code_def list_all_iff dest!: map_of_SomeD)

lemma flag_known: "flagEmojiToISO s \<noteq> '''' \<Longrightarrow> known_code (flagEmojiToISO s)"
  by (induction s rule: flagEmojiToISO.induct) (auto simp: known_code_def split: option.splits if_splits)

lemma named_code [simp]: "gr_Code (named code) = code" "gr_Code no_geo = ''''"
  by (simp_all add: named_def no_geo_def)

lemma FromName_known:
  assumes "orders ord" and "gr_Code (FromName ord wide name) \<noteq> ''''"
  shows "known_code (gr_Code (FromName ord wide name))"
proof -
  let ?n = "TrimSpace name"
  have iso: "known_code code" if "find P (ord_iso ord) = Some (code, cn)" for P code cn
    using find_entry [OF that _ normal_codes] assms(1) by (simp add: orders_def)
  have cn: "known_code code" if "find P (ord_cn ord) = Some (a, code)" for P a code
    using find_entry [OF that _ alias_codes(1)] assms(1) by (simp add: orders_def)
  have en: "known_code code" if "find P (ord_en ord) = Some (a, code)" for P a code
    using find_entry [OF that _ alias_codes(2)] assms(1) by (simp add: orders_def)
  have tok: "known_code (ToUpper t)" if "find iso_token ts = Some t" for ts t
    using find_SomeD [OF that] by (simp add: iso_token_def known_code_def)
  have flag: "known_code (NormalizeCode (flagEmojiToISO ?n))" if "flagEmojiToISO ?n \<noteq> ''''"
    using known_isoNames [OF flag_known [OF that]] .
  show ?thesis
    using assms(2) iso cn en tok flag unfolding FromName_def Let_def
    by (auto simp: no_geo_def split: option.splits if_splits)
qed

lemma suffix_unique:
  assumes "HasSuffix s a" and "HasSuffix s b" and "length a = length b"
  shows "a = b"
  using assms by (simp add: HasSuffix_def HasPrefix_def)

lemma FromHost_order:
  assumes "orders ord" and "orders ord'"
  shows "FromHost ord host = FromHost ord' host"
proof -
  let ?P = "\<lambda>(suf, code). HasSuffix (ToLower host) suf"
  have tab: "list_all (\<lambda>x. length (fst x) = 3) cctld" "distinct (map fst cctld)" by code_simp+
  have one: "x = y" if "x \<in> set cctld" "y \<in> set cctld" "?P x" "?P y" for x y
  proof -
    have "length (fst x) = length (fst y)" using that(1,2) tab(1) by (simp add: list_all_iff)
    moreover have "HasSuffix (ToLower host) (fst x)" "HasSuffix (ToLower host) (fst y)" using that(3,4) by auto
    ultimately have "fst x = fst y" using suffix_unique by blast
    then show ?thesis using that(1,2) tab(2) by (metis eq_key_imp_eq_value prod.collapse)
  qed
  have sets: "set (ord_tld ord) = set cctld" "set (ord_tld ord') = set cctld"
    using assms by (metis orders_def set_mset_mset)+
  have "find ?P (ord_tld ord) = find ?P (ord_tld ord')"
  proof (cases "find ?P (ord_tld ord)")
    case None
    then have "find ?P (ord_tld ord') = None" using sets by (metis find_None_iff)
    with None show ?thesis by simp
  next
    case (Some x)
    then have x: "x \<in> set cctld" "?P x" using find_SomeD [OF Some] sets by auto
    then obtain y where y: "find ?P (ord_tld ord') = Some y" using sets by (metis find_None_iff not_None_eq)
    then have "y \<in> set cctld" "?P y" using find_SomeD [OF y] sets by auto
    then have "y = x" using one x by blast
    then show ?thesis using Some y by simp
  qed
  then show ?thesis by (simp add: FromHost_def)
qed

text \<open>
  Whatever the order in which Go visits its maps, a country guessed from a node's name or host is one
  of the known codes, and the guess from the host does not depend on that order.
\<close>

lemma guesses_known:
  assumes "orders ord" and "orders ord'"
  shows "(gr_Code (FromName ord wide name) = '''' \<or> known_code (gr_Code (FromName ord wide name))) \<and>
    (gr_Code (FromHost ord host) = '''' \<or> known_code (gr_Code (FromHost ord host))) \<and>
    FromHost ord host = FromHost ord' host"
proof -
  have "known_code (gr_Code (FromHost ord host))" if "gr_Code (FromHost ord host) \<noteq> ''''"
    using that find_entry [OF _ _ alias_codes(3)] assms(1)
    by (auto simp: FromHost_def orders_def no_geo_def split: option.splits)
  then show ?thesis using FromName_known [OF assms(1)] FromHost_order [OF assms] by blast
qed

definition file_order :: map_order where
  "file_order = \<lparr>ord_iso = isoNames, ord_cn = cnAliases, ord_en = enAliases, ord_tld = cctld\<rparr>"

text \<open>The token UK is taken as it is, though everything else calls the country GB.\<close>

lemma FromName_UK: "gr_Code (FromName file_order wide ''UK'') = ''UK''"
proof -
  have "flagEmojiToISO ''UK'' = ''''" by (simp add: indicator_def)
  moreover have "find (\<lambda>(code, cn). Contains ''uk'' (ToLower cn)) isoNames = None"
    "find (\<lambda>(a, code). Contains ''UK'' a) cnAliases = None" "find (\<lambda>(a, code). Contains ''uk'' a) enAliases = None"
    by code_simp+
  moreover have "tokenize wide ''UK'' = [''UK'']" by (simp add: tokenize_def runes.simps utf8_width_def word_rune_def Let_def)
  moreover have "\<exists>cn. map_of isoNames ''UK'' = Some cn" by (simp add: isoNames_def)
  moreover have "TrimSpace ''UK'' = ''UK''" "ToLower ''UK'' = ''uk''" "ToUpper ''UK'' = ''UK''" by code_simp+
  ultimately show ?thesis by (simp add: FromName_def file_order_def iso_token_def named_def Let_def)
qed


subsection \<open>What the stage leaves\<close>

definition unplaced :: "node \<Rightarrow> node" where
  "unplaced n = n\<lparr>n_Country := '''', n_City := '''', n_ISP := '''', n_ASN := '''', n_EntryType := '''', n_Tags := []\<rparr>"

text \<open>A node as it was, or with a country (and what came with it); nothing known is blanked.\<close>

definition placed :: "bool \<Rightarrow> node \<Rightarrow> node \<Rightarrow> bool" where
  "placed onlyEmpty n m \<longleftrightarrow> unplaced m = unplaced n \<and> set (n_Tags n) \<subseteq> set (n_Tags m) \<and>
     (n_City m = '''' \<longrightarrow> n_City n = '''') \<and> (n_ISP m = '''' \<longrightarrow> n_ISP n = '''') \<and> (n_ASN m = '''' \<longrightarrow> n_ASN n = '''') \<and>
     (m = n \<or> n_Country m \<noteq> '''' \<and> n_Country m \<in> set (n_Tags m) \<and> n_EntryType m \<in> {''relay'', ''cdn'', ''direct''} \<and>
       (onlyEmpty \<longrightarrow> n_Country n = ''''))"

lemma mergeTags_set: "set (mergeTags tags t) = set tags \<union> (if t = '''' then {} else {t})"
  by (auto simp: mergeTags_def)

lemma annotate_one_placed: "placed (ao_OnlyEmpty opt) n (fst (fst (annotate_one env view opt n)))"
proof (cases "annotate_wants opt n \<and> gr_Code (fst (LookupHost env (view n) (n_Server n) (n_Name n) [])) \<noteq> ''''")
  case True
  let ?r = "fst (LookupHost env (view n) (n_Server n) (n_Name n) [])"
  have "fst (fst (annotate_one env view opt n)) = geo_apply ?r n" using True by (simp add: annotate_one_def case_prod_beta)
  moreover have "ao_OnlyEmpty opt \<longrightarrow> n_Country n = ''''" using True by (auto simp: annotate_wants_def)
  ultimately show ?thesis using True
    by (auto simp: placed_def unplaced_def geo_apply_def classifyEntry_def mergeTags_set Let_def)
next
  case False
  then have "fst (fst (annotate_one env view opt n)) = n" by (auto simp: annotate_one_def geo_apply_def case_prod_beta)
  then show ?thesis by (simp add: placed_def)
qed

lemma placed_renews:
  assumes "placed b n n'" and "n_ID n = nodeID h n" and "stored w (n_ID n) = Some n" and "cloneNode n = n"
  shows "renews h w n n' \<and> placed b n (cloneNode n')"
proof (cases "n' = n")
  case True
  have "renews h w n n" using assms(2-4) by (rule renews_same)
  then show ?thesis using True assms(1,4) by simp
next
  case False
  have u: "unplaced n' = unplaced n" and f: "n_Tags n' \<noteq> []" "n_Country n' \<noteq> ''''" "n_EntryType n' \<noteq> ''''"
    "n_City n' = '''' \<longrightarrow> n_City n = ''''" "n_ISP n' = '''' \<longrightarrow> n_ISP n = ''''" "n_ASN n' = '''' \<longrightarrow> n_ASN n = ''''"
    using assms(1) False by (auto simp: placed_def)
  have eq: "n' = n\<lparr>n_Country := n_Country n', n_City := n_City n', n_ISP := n_ISP n', n_ASN := n_ASN n', n_EntryType := n_EntryType n',
      n_Tags := n_Tags n'\<rparr>" using u by (cases n; cases n') (simp add: unplaced_def)
  have clone: "cloneNode n' = n'"
  proof -
    have "cloneNode (n\<lparr>n_Country := a, n_City := c, n_ISP := d, n_ASN := e, n_EntryType := g, n_Tags := k\<rparr>) =
        (cloneNode n)\<lparr>n_Country := a, n_City := c, n_ISP := d, n_ASN := e, n_EntryType := g, n_Tags := k\<rparr>" for a c d e g k
      by (simp add: cloneNode_def)
    then show ?thesis using eq assms(4) by metis
  qed
  have id: "n_ID n' = n_ID n" by (subst eq) simp
  have "Key h (unplaced x) = Key h x" for x by (simp add: unplaced_def Key_def canonical_def)
  then have key: "Key h n' = Key h n" using u by metis
  have "upsert_into n' n = n'"
    by (subst (1 2) eq) (use f in \<open>cases n, auto simp: upsert_into_def new_or_def IsZero_def\<close>)
  then have "renews h w n n'" using assms(2,3) id key by (intro renews_intro) (simp_all add: clone)
  then show ?thesis using assms(1) by (simp add: clone)
qed


interpretation geo_obs: observation "placed b" for b
  by unfold_locales (rule placed_renews)

lemma geo_list_ids:
  assumes "store_ok h s"
  shows "distinct (map n_ID (geo_list s))"
    and "n \<in> set (geo_list s) \<Longrightarrow> n_ID n = nodeID h n \<and> (\<exists>m. map_of (st_nodes s) (n_ID n) = Some m \<and> n = cloneNode m)"
proof -
  have "\<exists>f. geo_list s = ListNodes f s" unfolding geo_list_def AllNodes_def Let_def by (metis (full_types))
  then obtain f where f: "geo_list s = ListNodes f s" ..
  show "distinct (map n_ID (geo_list s))" unfolding f by (rule ListNodes_ids(1) [OF assms])
  show "n_ID n = nodeID h n \<and> (\<exists>m. map_of (st_nodes s) (n_ID n) = Some m \<and> n = cloneNode m)" if "n \<in> set (geo_list s)"
    using ListNodes_ids(2) [OF assms that [unfolded f]] by blast
qed

text \<open>
  C31. A geo stage only places nodes: of the nodes it lists it changes country, city, provider, network,
  entry type and tags, never their identity or measurements, it blanks nothing, and unless forced it leaves
  a node with a country alone. Every other node is untouched, and the database still mirrors the store.
\<close>

theorem geo_stage_ok:
  assumes "doGeo h cfg opts geo cache w = (e, st, cache', w')" and "durable h w" and "\<forall>x. sha1_id h x \<noteq> ''''"
  shows "durable h w' \<and> (e \<noteq> None \<longrightarrow> w' = w) \<and>
    (\<forall>i. i \<notin> n_ID ` set (geo_list (nw_store w)) \<longrightarrow> stored w' i = stored w i) \<and>
    (\<forall>n \<in> set (geo_list (nw_store w)). \<exists>m. stored w' (n_ID n) = Some m \<and> placed (\<not> force_opt opts) n m)"
proof -
  let ?ns = "geo_list (nw_store w)"
  let ?opt = "\<lparr>ao_OnlyAlive = False, ao_OnlyEmpty = (\<not> force_opt opts), ao_HQOnly = False, ao_MinScore = 0\<rparr>"
  have ok: "store_ok h (nw_store w)" using assms(2) by (simp add: durable_def)
  have aw: "awaits h w ?ns" using geo_list_ids [OF ok] by (intro awaits_listed [OF assms(2)]) blast+
  then have here: "stored w (n_ID n) = Some n" if "n \<in> set ?ns" for n using that unfolding awaits_def by blast
  show ?thesis
  proof (cases geo)
    case None
    then have "e \<noteq> None \<and> w' = w" using assms(1) by (auto simp: doGeo_def)
    then show ?thesis using assms(2) here by (auto simp: placed_def)
  next
    case (Some run)
    let ?out = "map (\<lambda>n. fst (fst (annotate_one (gq_env run) (gq_view run) ?opt n))) ?ns"
    have w': "e = None" "w' = service_upsertNodes h (gq_clock run) ?out False w"
      using assms(1) Some by (auto simp: doGeo_def AnnotateNodes_def comp_def Let_def)
    have "list_all2 (placed (\<not> force_opt opts)) ?ns ?out"
      using annotate_one_placed [of ?opt] by (simp add: list_all2_conv_all_nth)
    note wb = geo_obs.written [OF assms(2) aw this assms(3), where t = "gq_clock run" and b = False, folded w'(2)]
    show ?thesis using w'(1) wb by (simp only: set_map) blast
  qed
qed

definition plain_geo :: geo_run where
  "plain_geo = \<lparr>gq_env = \<lparr>ge_country = None, ge_asn = None, ge_dns = (\<lambda>host. None), ge_order = file_order, ge_wide = (\<lambda>r. False)\<rparr>,
     gq_view = (\<lambda>n. []), gq_arrange = (\<lambda>ws. ws), gq_clock = 8\<rparr>"

definition placeless_world :: node_world where
  "placeless_world = service_replaceNodes id_hashes 5 [Some example_node] empty_world"

theorem geo_stage_ok_witness:
  "\<exists>st cache' w'. doGeo id_hashes Default fmempty (Some plain_geo) [] placeless_world = (None, st, cache', w') \<and> durable id_hashes w'"
proof -
  obtain e st cache' w' where r: "doGeo id_hashes Default fmempty (Some plain_geo) [] placeless_world = (e, st, cache', w')"
    by (metis prod_cases4)
  have h: "\<forall>x. sha1_id id_hashes x \<noteq> ''''" by (simp add: id_hashes_def)
  have "node_life id_hashes empty_world"
    by (rule node_life.first [of _ "[]"]) (simp_all add: empty_world_def NewMemory_def)
  then have "node_life id_hashes placeless_world" unfolding placeless_world_def by (rule node_life.fetched) simp
  with h have dur: "durable id_hashes placeless_world" by (rule life_durable)
  have "e = None" using r by (auto simp: doGeo_def Let_def split: prod.splits)
  with geo_stage_ok [OF r dur h] r show ?thesis by auto
qed

end
