(* ===== verification/AIAccess.thy ===== *)
theory AIAccess
  imports Publish NodeTable NetURL
begin

text \<open>
  Reachability of AI services: the probes and the score bonus (\<open>internal/aiaccess/aiaccess.go\<close>) and the AI
  stage of a job (\<open>doAI\<close> in \<open>internal/service/service.go\<close>). The answers of the network are parameters.
\<close>

subsection \<open>Probes\<close>

record AITarget =
  at_Key :: string
  at_Name :: string
  at_URL :: string
  at_Host :: string

definition DefaultAITargets :: "AITarget list" where
  "DefaultAITargets = [
     \<lparr>at_Key = ''chatgpt'', at_Name = ''ChatGPT'', at_URL = ''https://chatgpt.com'', at_Host = ''chatgpt.com''\<rparr>,
     \<lparr>at_Key = ''openai'', at_Name = ''OpenAI API'', at_URL = ''https://api.openai.com/v1/models'', at_Host = ''api.openai.com''\<rparr>,
     \<lparr>at_Key = ''gemini'', at_Name = ''Gemini'', at_URL = ''https://gemini.google.com'', at_Host = ''gemini.google.com''\<rparr>,
     \<lparr>at_Key = ''claude'', at_Name = ''Claude'', at_URL = ''https://claude.ai'', at_Host = ''claude.ai''\<rparr>,
     \<lparr>at_Key = ''grok'', at_Name = ''Grok'', at_URL = ''https://grok.x.ai'', at_Host = ''grok.x.ai''\<rparr>,
     \<lparr>at_Key = ''xai'', at_Name = ''xAI'', at_URL = ''https://x.ai'', at_Host = ''x.ai''\<rparr>,
     \<lparr>at_Key = ''copilot'', at_Name = ''Copilot'', at_URL = ''https://copilot.microsoft.com'', at_Host = ''copilot.microsoft.com''\<rparr>,
     \<lparr>at_Key = ''perplexity'', at_Name = ''Perplexity'', at_URL = ''https://www.perplexity.ai'', at_Host = ''www.perplexity.ai''\<rparr>]"

text \<open>What a request came to: it could not be made, it failed after so many milliseconds, or it was answered.\<close>

datatype page_answer = NotAsked string | NotAnswered string int | Answered int int

definition fresh_probe :: "AITarget \<Rightarrow> string \<Rightarrow> AIProbeResult" where
  "fresh_probe t mode = \<lparr>ai_Target = at_Key t, ai_URL = at_URL t, ai_OK = False, ai_StatusCode = 0, ai_LatencyMS = 0, ai_Error = '''', ai_Mode = mode\<rparr>"

definition probeHTTP :: "AITarget \<Rightarrow> string \<Rightarrow> page_answer \<Rightarrow> AIProbeResult" where
  "probeHTTP t mode a = (case a of
     NotAsked e \<Rightarrow> (fresh_probe t mode)\<lparr>ai_Error := e\<rparr>
   | NotAnswered e ms \<Rightarrow> (fresh_probe t mode)\<lparr>ai_LatencyMS := ms, ai_Error := e\<rparr>
   | Answered code ms \<Rightarrow> (let res = (fresh_probe t mode)\<lparr>ai_LatencyMS := ms, ai_StatusCode := code\<rparr>
       in if 0 < code \<and> code < 500 then res\<lparr>ai_OK := True\<rparr> else res\<lparr>ai_Error := ''http '' @ itoa code\<rparr>))"

text \<open>The connection of the program itself to the target: its error, if any, and how long it took.\<close>

definition probeNodeTCP :: "node \<Rightarrow> AITarget \<Rightarrow> string option \<times> int \<Rightarrow> AIProbeResult" where
  "probeNodeTCP n t conn = (let res = fresh_probe t ''heuristic'' in
     if \<not> n_Alive n then res\<lparr>ai_Error := ''node not alive''\<rparr>
     else (let res = res\<lparr>ai_LatencyMS := snd conn\<rparr> in
       case fst conn of
         Some err \<Rightarrow> res\<lparr>ai_Error := (if n_Score n \<ge> 70 then ''runner blocked; node quality high (unverified ai)''
            else ''edge unreachable from runner: '' @ err)\<rparr>
       | None \<Rightarrow> (if LatencyMS n > 0 \<and> LatencyMS n < 1200 \<and> n_Score n \<ge> 55
           then res\<lparr>ai_OK := True, ai_Error := ''heuristic candidate (not via-proxy verified)''\<rparr>
           else res\<lparr>ai_Error := ''heuristic reject (latency/score)''\<rparr>)))"

definition ai_clamp :: "float64 \<Rightarrow> float64 \<Rightarrow> float64 \<Rightarrow> float64" where
  "ai_clamp v lo hi = (if v < lo then lo else if v > hi then hi else v)"

definition ai_appendUnique :: "string list \<Rightarrow> string \<Rightarrow> string list" where
  "ai_appendUnique ss v = (if v \<in> set ss then ss else ss @ [v])"

text \<open>The verb \<open>%.0f\<close>: to the nearest integer, ties to even.\<close>

definition even_round :: "real \<Rightarrow> int" where
  "even_round x = (let f = \<lfloor>x\<rfloor>; d = x - of_int f in
     if d < 1/2 then f else if d > 1/2 then f + 1 else if even f then f else f + 1)"

definition ai_passed :: "(string, AIProbeResult option) gmap \<Rightarrow> nat" where
  "ai_passed m = length (filter (\<lambda>(k, r). case r of None \<Rightarrow> False | Some r \<Rightarrow> ai_OK r) m)"

definition boostAIScore :: "node \<Rightarrow> node" where
  "boostAIScore n = (case n_AIAccess n of None \<Rightarrow> n | Some m \<Rightarrow>
     if m = [] then n
     else (let rate = real (ai_passed m) / real (length m);
               score = ai_clamp (n_Score n + rate * 15) 0 100;
               tags = (if rate \<ge> 3/4 then ai_appendUnique (n_Tags n) ''ai-friendly'' else n_Tags n)
           in n\<lparr>n_Score := score, n_Grade := AssignGrade score, n_Tags := tags,
                n_Quality := map_option (\<lambda>q. q\<lparr>q_Score := score, q_Notes := (if rate > 0
                  then q_Notes q @ [''ai_pass='' @ itoa (even_round (rate * 100)) @ ''%''] else q_Notes q)\<rparr>) (n_Quality n)\<rparr>))"

subsection \<open>The stage\<close>

definition ai_trim :: "string \<Rightarrow> string" where
  "ai_trim s = dropWhile (\<lambda>c. c = CHR '' '' \<or> c = CHR 0x09) s"

definition ParseSocksURL :: "string \<Rightarrow> string" where
  "ParseSocksURL raw0 = (let raw = ai_trim raw0 in
     if raw = '''' then ''''
     else case url_Parse raw of Some u \<Rightarrow> if uri_Host u \<noteq> '''' then uri_Host u else raw | None \<Rightarrow> raw)"

text \<open>
  What happens around one stage: the address in the environment, whether a SOCKS client can be made for an
  address, the answers to the program itself and through a node, its plain connections, the nodes whose
  turn had not come when the job was canceled, and the time of the write.
\<close>

record ai_run =
  aq_env :: string
  aq_client :: "string \<Rightarrow> bool"
  aq_host :: "AITarget \<Rightarrow> page_answer"
  aq_page :: "node \<Rightarrow> AITarget \<Rightarrow> page_answer"
  aq_conn :: "node \<Rightarrow> AITarget \<Rightarrow> string option \<times> int"
  aq_canceled :: "node \<Rightarrow> bool"
  aq_clock :: time

definition ProbeHost :: "ai_run \<Rightarrow> AITarget list \<Rightarrow> (string, AIProbeResult) gmap" where
  "ProbeHost run targets = fold (\<lambda>t m. gput (at_Key t) (probeHTTP t ''direct'' (aq_host run t)) m) targets []"

definition ai_probe_node :: "ai_run \<Rightarrow> bool \<Rightarrow> bool \<Rightarrow> AITarget list \<Rightarrow> node \<Rightarrow> node" where
  "ai_probe_node run proxied heuristicTCP targets n = (if aq_canceled run n then n
     else boostAIScore (n\<lparr>n_AIAccess := Some (fold (\<lambda>t m. gput (at_Key t) (Some (if proxied then probeHTTP t ''via_proxy'' (aq_page run n t)
            else probeNodeTCP n t (aq_conn run n t))) m) (if proxied \<or> heuristicTCP then targets else []) [])\<rparr>))"

definition ai_candidate :: "node \<Rightarrow> bool" where
  "ai_candidate n \<longleftrightarrow> n_Alive n \<or> n_Score n \<ge> 50"

definition via_socks :: "ai_run \<Rightarrow> string \<Rightarrow> bool" where
  "via_socks run socks \<longleftrightarrow> socks \<noteq> '''' \<and> aq_client run socks"

definition ProbeNodes :: "ai_run \<Rightarrow> string \<Rightarrow> bool \<Rightarrow> AITarget list \<Rightarrow> node list \<Rightarrow> node list" where
  "ProbeNodes run socks heuristicTCP targets nodes = (let all = filter ai_candidate nodes = [] in
     map (\<lambda>n. if all \<or> ai_candidate n then ai_probe_node run (via_socks run socks) heuristicTCP targets n else n) nodes)"

record ai_stats =
  ais_nodes :: int
  ais_pass :: "(string, int) gmap"
  ais_socks :: bool

definition ai_list :: "store \<Rightarrow> node list" where
  "ai_list s = (let nodes = ListNodes (no_filter\<lparr>nf_AliveOnly := True, nf_Limit := 400\<rparr>) s
     in if length nodes < 50 then ListNodes (no_filter\<lparr>nf_Limit := 200\<rparr>) s else nodes)"

definition socks_opt :: "amap \<Rightarrow> ai_run \<Rightarrow> string" where
  "socks_opt opts run = (let socks = (case aget opts ''socks5'' of AStr v \<Rightarrow> ParseSocksURL v | _ \<Rightarrow> '''')
     in if socks = '''' then aq_env run else socks)"

definition pass_counts :: "node list \<Rightarrow> (string, int) gmap" where
  "pass_counts nodes = fold gincr (concat (map (\<lambda>n. case n_AIAccess n of None \<Rightarrow> []
     | Some m \<Rightarrow> map fst (filter (\<lambda>(k, r). case r of None \<Rightarrow> False | Some r \<Rightarrow> ai_OK r) m)) nodes)) []"

definition doAI :: "hashes \<Rightarrow> amap \<Rightarrow> ai_run \<Rightarrow> node_world \<Rightarrow> ai_stats \<times> node_world" where
  "doAI h opts run w = (let socks = socks_opt opts run;
       w1 = w\<lparr>nw_store := SetHostAI (ProbeHost run DefaultAITargets) (nw_store w)\<rparr>;
       ns = ProbeNodes run socks True DefaultAITargets (ai_list (nw_store w1))
     in (\<lparr>ais_nodes = int (length ns), ais_pass = pass_counts ns, ais_socks = (socks \<noteq> '''')\<rparr>,
         service_upsertNodes h (aq_clock run) ns False w1))"


subsection \<open>What the stage leaves\<close>

definition unassessed :: "node \<Rightarrow> node" where
  "unassessed n = n\<lparr>n_Quality := None, n_AIAccess := None, n_Score := 0, n_Grade := '''', n_Tags := []\<rparr>"

abbreviation ai_keys :: "string list" where
  "ai_keys \<equiv> map at_Key DefaultAITargets"

text \<open>A complete set of results, all of one mode; without a proxy a dead node passes none.\<close>

definition sound_ai :: "bool \<Rightarrow> node \<Rightarrow> (string, AIProbeResult option) gmap \<Rightarrow> bool" where
  "sound_ai proxied n m \<longleftrightarrow> keys m = ai_keys \<and>
     list_all (\<lambda>(k, r). case r of None \<Rightarrow> False
       | Some r \<Rightarrow> ai_Target r = k \<and> ai_Mode r = (if proxied then ''via_proxy'' else ''heuristic'')) m \<and>
     (\<not> proxied \<and> \<not> n_Alive n \<longrightarrow> ai_passed m = 0)"

definition assessed :: "bool \<Rightarrow> node \<Rightarrow> node \<Rightarrow> bool" where
  "assessed proxied n m \<longleftrightarrow> unassessed m = unassessed n \<and> set (n_Tags n) \<subseteq> set (n_Tags m) \<and>
     (m = n \<or> (case n_AIAccess m of None \<Rightarrow> False | Some ai \<Rightarrow> sound_ai proxied n ai \<and>
        n_Score m = ai_clamp (n_Score n + 15 * real (ai_passed ai) / 8) 0 100 \<and> n_Grade m = AssignGrade (n_Score m) \<and>
        (''ai-friendly'' \<in> set (n_Tags m) - set (n_Tags n) \<longrightarrow> 6 \<le> ai_passed ai) \<and>
        rel_option (\<lambda>q q'. q_Score q' = n_Score m) (n_Quality n) (n_Quality m)))"

lemma ai_keys_distinct: "distinct ai_keys"
  by (simp add: DefaultAITargets_def)



lemma answers_in_order:
  "fold (\<lambda>t m. gput (at_Key t) (g t) m) DefaultAITargets [] = map (\<lambda>t. (at_Key t, g t)) DefaultAITargets"
  using fold_gput_fresh [OF ai_keys_distinct, where m = "[]" and val = g] by simp

lemma probe_fields [simp]:
  "ai_Target (probeHTTP t mode a) = at_Key t" "ai_Mode (probeHTTP t mode a) = mode"
  "ai_Target (probeNodeTCP n t c) = at_Key t" "ai_Mode (probeNodeTCP n t c) = ''heuristic''"
  "\<not> n_Alive n \<Longrightarrow> \<not> ai_OK (probeNodeTCP n t c)"
  by (auto simp: probeHTTP_def probeNodeTCP_def fresh_probe_def Let_def split: page_answer.split option.split)

lemma boost_clamped: "0 \<le> ai_clamp v 0 100 \<and> ai_clamp v 0 100 \<le> 100"
  by (simp add: ai_clamp_def)

lemma boost_assessed:
  assumes "sound_ai proxied n ai"
  shows "assessed proxied n (boostAIScore (n\<lparr>n_AIAccess := Some ai\<rparr>))"
proof -
  have "length (keys ai) = 8" using assms by (simp add: sound_ai_def DefaultAITargets_def)
  then have len: "length ai = 8" by simp
  then have ne: "ai \<noteq> []" by auto
  have rate: "3 / 4 \<le> real (ai_passed ai) / 8 \<longleftrightarrow> 6 \<le> ai_passed ai" by auto
  have tags: "set (n_Tags n) \<subseteq> set (ai_appendUnique (n_Tags n) v)" "x \<in> set (ai_appendUnique (n_Tags n) v) - set (n_Tags n) \<Longrightarrow> x = v" for v x
    by (auto simp: ai_appendUnique_def split: if_splits)
  show ?thesis
    unfolding assessed_def boostAIScore_def using assms tags
    by (simp add: ne len rate Let_def unassessed_def rel_option_iff mult.commute split: option.split)
qed

lemma probe_node_assessed: "assessed (via_socks run socks) n (ai_probe_node run (via_socks run socks) True DefaultAITargets n)"
proof (cases "aq_canceled run n")
  case True
  then show ?thesis by (simp add: ai_probe_node_def assessed_def)
next
  case False
  let ?p = "via_socks run socks"
  let ?g = "\<lambda>t. Some (if ?p then probeHTTP t ''via_proxy'' (aq_page run n t) else probeNodeTCP n t (aq_conn run n t))"
  let ?ai = "map (\<lambda>t. (at_Key t, ?g t)) DefaultAITargets"
  have "fold (\<lambda>t m. gput (at_Key t) (?g t) m) DefaultAITargets [] = ?ai" by (rule answers_in_order)
  moreover have "sound_ai ?p n ?ai"
    by (auto simp: sound_ai_def ai_passed_def list_all_iff filter_empty_conv comp_def)
  ultimately show ?thesis using False boost_assessed [of ?p n ?ai] by (simp add: ai_probe_node_def)
qed

lemma ProbeNodes_assessed:
  "list_all2 (assessed (via_socks run socks)) ns (ProbeNodes run socks True DefaultAITargets ns)"
proof -
  have "assessed p n n" for p n by (simp add: assessed_def)
  then show ?thesis using probe_node_assessed by (simp add: ProbeNodes_def Let_def list_all2_conv_all_nth)
qed


lemma assessed_renews:
  assumes "assessed p n n'" and "n_ID n = nodeID h n" and "stored w (n_ID n) = Some n" and "cloneNode n = n"
  shows "renews h w n n' \<and> assessed p n (cloneNode n')"
proof (cases "n' = n")
  case True
  have "renews h w n n" using assms(2-4) by (rule renews_same)
  then show ?thesis using True assms(1,4) by simp
next
  case False
  obtain ai where ai: "n_AIAccess n' = Some ai" "sound_ai p n ai"
    using assms(1) False by (auto simp: assessed_def split: option.splits)
  have u: "unassessed n' = unassessed n" and tags: "n_Tags n' = [] \<longrightarrow> n_Tags n = []"
    using assms(1) by (auto simp: assessed_def)
  have eq: "n' = n\<lparr>n_Quality := n_Quality n', n_AIAccess := n_AIAccess n', n_Score := n_Score n', n_Grade := n_Grade n', n_Tags := n_Tags n'\<rparr>"
    using u by (cases n; cases n') (simp add: unassessed_def)
  have full: "filter (\<lambda>(k, v). v \<noteq> None) ai = ai"
    using ai(2) by (auto simp: sound_ai_def list_all_iff filter_id_conv split: option.splits)
  have dial: "n_Dial n' = n_Dial n" by (subst eq) simp
  have "map_option cloneDial (n_Dial n) = n_Dial n" using arg_cong [OF assms(4), of n_Dial] by (simp add: cloneNode_def)
  then have clone: "cloneNode n' = n'" using ai(1) full dial by (simp add: cloneNode_def)
  have id: "n_ID n' = n_ID n" by (subst eq) simp
  have "Key h (unassessed x) = Key h x" for x by (simp add: unassessed_def Key_def canonical_def)
  then have key: "Key h n' = Key h n" using u by metis
  have "upsert_into n' n = n'"
    by (subst (1 2) eq) (use tags in \<open>cases n, auto simp: upsert_into_def new_or_def IsZero_def\<close>)
  then have "renews h w n n'" using assms(2,3) id key by (intro renews_intro) (simp_all add: clone)
  then show ?thesis using assms(1) by (simp add: clone)
qed

interpretation ai_obs: observation "assessed p" for p
  by unfold_locales (rule assessed_renews)

lemma SetHostAI_nodes [simp]: "st_nodes (SetHostAI m s) = st_nodes s"
  by (simp add: SetHostAI_def persistLocked_def)

lemma hostAI_kept: "st_hostAI (nw_store (service_upsertNodes h t ns b w)) = st_hostAI (nw_store w)"
  by (simp add: service_upsertNodes_def UpsertNodes_def persistLocked_def Let_def)

lemma ProbeHost_keys: "keys (ProbeHost run DefaultAITargets) = ai_keys"
  unfolding ProbeHost_def answers_in_order by simp

lemma ai_list_ids:
  assumes "store_ok h s"
  shows "distinct (map n_ID (ai_list s))"
    and "n \<in> set (ai_list s) \<Longrightarrow> n_ID n = nodeID h n \<and> (\<exists>m. map_of (st_nodes s) (n_ID n) = Some m \<and> n = cloneNode m)"
proof -
  have "\<exists>f. ai_list s = ListNodes f s" unfolding ai_list_def Let_def by (metis (full_types))
  then obtain f where f: "ai_list s = ListNodes f s" by blast
  show "distinct (map n_ID (ai_list s))" unfolding f by (rule ListNodes_ids(1) [OF assms])
  show "n_ID n = nodeID h n \<and> (\<exists>m. map_of (st_nodes s) (n_ID n) = Some m \<and> n = cloneNode m)" if "n \<in> set (ai_list s)"
    using ListNodes_ids(2) [OF assms that [unfolded f]] by blast
qed

text \<open>The list depends on the nodes only, so it may be read from the world before the stage.\<close>

lemma ai_list_SetHostAI: "ai_list (SetHostAI m s) = ai_list s"
  by (simp add: ai_list_def ListNodes_def Let_def)

text \<open>
  C32. An AI stage changes only the AI results, score, grade, quality score and notes, and tags of the nodes it
  lists, and takes no tag away. A probed node has one result for each target, all measured the same way, and
  a dead node passes none unless a proxy was used; its new score is the old one plus fifteen points times the
  share of targets it passes, held within 0 and 100, its grade is that of the score, and it becomes
  \<open>ai-friendly\<close> only when it passes six of the eight. The database still mirrors the store.
\<close>

theorem ai_stage_ok:
  assumes "doAI h opts run w = (st, w')" and "durable h w" and "\<forall>x. sha1_id h x \<noteq> ''''"
  shows "durable h w' \<and> keys (st_hostAI (nw_store w')) = map at_Key DefaultAITargets \<and>
    (\<forall>i. i \<notin> n_ID ` set (ai_list (nw_store w)) \<longrightarrow> stored w' i = stored w i) \<and>
    (\<forall>n \<in> set (ai_list (nw_store w)). \<exists>m. stored w' (n_ID n) = Some m \<and> assessed (via_socks run (socks_opt opts run)) n m)"
proof -
  let ?w1 = "w\<lparr>nw_store := SetHostAI (ProbeHost run DefaultAITargets) (nw_store w)\<rparr>"
  let ?ns = "ai_list (nw_store w)" and ?p = "via_socks run (socks_opt opts run)"
  let ?out = "ProbeNodes run (socks_opt opts run) True DefaultAITargets ?ns"
  have w': "w' = service_upsertNodes h (aq_clock run) ?out False ?w1"
    using assms(1) by (auto simp: doAI_def ai_list_SetHostAI Let_def)
  have ok: "store_ok h (nw_store w)" using assms(2) by (simp add: durable_def)
  have d1: "durable h ?w1" using assms(2) by (simp add: durable_def store_ok_def split: option.splits prod.splits)
  have same: "stored ?w1 = stored w" by simp
  have aw: "awaits h ?w1 ?ns" using ai_list_ids [OF ok] by (intro awaits_listed [OF d1]) (unfold same, blast+)
  have "list_all2 (assessed ?p) ?ns ?out" by (rule ProbeNodes_assessed)
  note wb = ai_obs.written [OF d1 aw this assms(3), where t = "aq_clock run" and b = False, folded w']
  have "keys (st_hostAI (nw_store w')) = ai_keys"
    by (simp add: w' hostAI_kept SetHostAI_def persistLocked_def ProbeHost_keys)
  then show ?thesis using wb unfolding same set_map by blast
qed


definition open_run :: ai_run where
  "open_run = \<lparr>aq_env = '''', aq_client = (\<lambda>a. True), aq_host = (\<lambda>t. Answered 200 5), aq_page = (\<lambda>n t. Answered 403 9),
     aq_conn = (\<lambda>n t. (None, 4)), aq_canceled = (\<lambda>n. False), aq_clock = 8\<rparr>"

theorem ai_stage_ok_witness:
  "\<exists>st w'. doAI id_hashes fmempty open_run (service_replaceNodes id_hashes 5 [Some dialed_node] empty_world) = (st, w') \<and>
     durable id_hashes w' \<and> length (keys (st_hostAI (nw_store w'))) = 8"
proof -
  let ?w = "service_replaceNodes id_hashes 5 [Some dialed_node] empty_world"
  obtain st w' where r: "doAI id_hashes fmempty open_run ?w = (st, w')" by (metis surj_pair)
  have h: "\<forall>x. sha1_id id_hashes x \<noteq> ''''" by (simp add: id_hashes_def)
  have "node_life id_hashes empty_world"
    by (rule node_life.first [of _ "[]"]) (simp_all add: empty_world_def NewMemory_def)
  then have "node_life id_hashes ?w" by (rule node_life.fetched) simp
  with h have dur: "durable id_hashes ?w" by (rule life_durable)
  from ai_stage_ok [OF r dur h] r show ?thesis by (auto simp: DefaultAITargets_def)
qed

text \<open>The bonus is added to a score that may hold an earlier bonus: every stage adds it again.\<close>

lemma bonus_accumulates:
  assumes "n_AIAccess n = Some m" and "m \<noteq> []" and "ai_passed m = length m" and "0 \<le> n_Score n" and "n_Score n \<le> 70"
  shows "n_Score (boostAIScore (boostAIScore n)) = n_Score n + 30"
  using assms by (simp add: boostAIScore_def ai_clamp_def Let_def)

end
