(* ===== verification/Pipeline.thy ===== *)
theory Pipeline
  imports Fetch ExportDir
begin

text \<open>
  One run without a server: the reachability test (\<open>internal/tester/tester.go\<close>) and the pipeline of the
  command line program (\<open>internal/pipeline/pipeline.go\<close>), which fetches, parses, cleans, tests, filters and
  exports. The network, the codecs and the file system are parameters; log lines are left out.
\<close>

subsection \<open>The reachability test\<close>

record tester_options =
  to_Concurrency :: int
  to_Timeout :: duration
  to_PreferTLSDial :: bool

definition tester_New :: "tester_options \<Rightarrow> tester_options" where
  "tester_New opts = opts\<lparr>to_Concurrency := (if to_Concurrency opts \<le> 0 then 64 else to_Concurrency opts),
     to_Timeout := (if to_Timeout opts \<le> 0 then 6 * second else to_Timeout opts)\<rparr>"

definition scoreOf :: "duration \<Rightarrow> bool \<Rightarrow> bool \<Rightarrow> float64" where
  "scoreOf lat tlsFail hasTLS = (let ms0 = real_of_int (Milliseconds lat);
       ms = (if ms0 \<le> 0 then 1 else ms0);
       base = 100 * (1 / (1 + ms / 400));
       base = (if hasTLS then base + 3 else base);
       base = (if tlsFail then base - 15 else base);
       base = (if base < 0 then 0 else base)
     in if base > 100 then 100 else base)"

text \<open>What the network does with one node: the errors of the connection and of the handshake, and the time spent.\<close>

record tcp_probe =
  tp_start :: time
  tp_dial :: "string option"
  tp_tls :: "string option"
  tp_elapsed :: duration

definition tester_testOne :: "tester_options \<Rightarrow> tcp_probe \<Rightarrow> node \<Rightarrow> node" where
  "tester_testOne opts pb n0 = (let n = n0\<lparr>n_TestedAt := tp_start pb\<rparr> in
     case tp_dial pb of
       Some err \<Rightarrow> n\<lparr>n_Alive := False, n_Error := err, n_Latency := tp_elapsed pb\<rparr>
     | None \<Rightarrow> (case (if to_PreferTLSDial opts \<and> n_TLS n then tp_tls pb else None) of
         Some err \<Rightarrow> n\<lparr>n_Alive := True, n_Error := ''tls: '' @ err, n_Latency := tp_elapsed pb, n_Score := scoreOf (tp_elapsed pb) True True\<rparr>
       | None \<Rightarrow> n\<lparr>n_Alive := True, n_Error := '''', n_Latency := tp_elapsed pb, n_Score := scoreOf (tp_elapsed pb) False (n_TLS n)\<rparr>))"

text \<open>A node whose turn had not come when the run was canceled has no probe.\<close>

definition tester_one :: "tester_options \<Rightarrow> tcp_probe option \<Rightarrow> node \<Rightarrow> node" where
  "tester_one opts p n = (case p of None \<Rightarrow> n\<lparr>n_Alive := False, n_Error := ''canceled''\<rparr> | Some pb \<Rightarrow> tester_testOne opts pb n)"

definition tester_TestAll :: "tester_options \<Rightarrow> (node \<Rightarrow> tcp_probe option) \<Rightarrow> node list \<Rightarrow> node list" where
  "tester_TestAll opts net nodes = map (\<lambda>n. tester_one opts (net n) n) nodes"

subsection \<open>The pipeline\<close>

record run_result =
  rr_FetchedSources :: int
  rr_RawCount :: int
  rr_ParsedCount :: int
  rr_UniqueCount :: int
  rr_AliveCount :: int
  rr_ExportedCount :: int
  rr_HighQuality :: int
  rr_Nodes :: "node list"
  rr_Duration :: string

datatype pipeline_error = NoSources | RunCanceled | NoValidNodes | ExportFailed export_error

record pipeline_io =
  pi_net :: "Source \<Rightarrow> fetch_net"
  pi_arrived :: "Source list \<Rightarrow> Source list"
  pi_canceled :: bool
  pi_tests :: "node \<Rightarrow> tcp_probe option"
  pi_duration :: string
  pi_os :: os
  pi_codecs :: export_codecs
  pi_stamp :: string

definition good_docs :: "config \<Rightarrow> pipeline_io \<Rightarrow> Document list" where
  "good_docs cfg io = filter (\<lambda>d. dc_Err d = None) (FetchAll (pi_net io) (pi_arrived io (EnabledSources cfg)))"

definition parsed_nodes :: "config \<Rightarrow> link_env \<Rightarrow> pipeline_io \<Rightarrow> node list" where
  "parsed_nodes cfg env io = concat (map (\<lambda>d. ParseContent env (dc_Body d) (src_Name (fd_Source d))) (good_docs cfg io))"

definition test_options :: "config \<Rightarrow> tester_options" where
  "test_options cfg = tester_New \<lparr>to_Concurrency = app_Concurrency (App cfg), to_Timeout = TestTimeout cfg, to_PreferTLSDial = False\<rparr>"

definition Run :: "hashes \<Rightarrow> config \<Rightarrow> link_env \<Rightarrow> pipeline_io \<Rightarrow> files \<Rightarrow>
    (run_result option \<times> pipeline_error option) \<times> files" where
  "Run h cfg env io fs =
     (if EnabledSources cfg = [] then ((None, Some NoSources), fs)
      else if pi_canceled io then ((None, Some RunCanceled), fs)
      else (let oks = int (length (good_docs cfg io)); parsed = parsed_nodes cfg env io; n = int (length parsed);
                unique = Clean h (map Some parsed) cfg
        in if unique = [] then ((Some \<lparr>rr_FetchedSources = oks, rr_RawCount = n, rr_ParsedCount = n, rr_UniqueCount = 0, rr_AliveCount = 0,
               rr_ExportedCount = 0, rr_HighQuality = 0, rr_Nodes = [], rr_Duration = pi_duration io\<rparr>, Some NoValidNodes), fs)
           else (let tested = tester_TestAll (test_options cfg) (pi_tests io) unique; final = Apply (map Some tested) cfg
             in case Export (pi_os io) (pi_codecs io) (pi_stamp io) (map Some final) (config.Export cfg) fs of
                  ((paths, Some e), fs') \<Rightarrow> ((None, Some (ExportFailed e)), fs')
                | ((paths, None), fs') \<Rightarrow> ((Some \<lparr>rr_FetchedSources = oks, rr_RawCount = n, rr_ParsedCount = n,
                    rr_UniqueCount = int (length tested), rr_AliveCount = int (length (filter n_Alive tested)),
                    rr_ExportedCount = int (length final), rr_HighQuality = 0, rr_Nodes = final, rr_Duration = pi_duration io\<rparr>, None), fs'))))"

definition RunFetchOnly :: "hashes \<Rightarrow> config \<Rightarrow> link_env \<Rightarrow> pipeline_io \<Rightarrow> files \<Rightarrow>
    (run_result option \<times> pipeline_error option) \<times> files" where
  "RunFetchOnly h cfg env io fs =
     (if EnabledSources cfg = [] then ((None, Some NoSources), fs)
      else if pi_canceled io then ((None, Some RunCanceled), fs)
      else (let oks = int (length (good_docs cfg io)); parsed = parsed_nodes cfg env io; n = int (length parsed);
                unique = Clean h (map Some parsed) cfg;
                final = Apply (map Some unique) (cfg\<lparr>Filter := (Filter cfg)\<lparr>flt_MinSuccess := False\<rparr>\<rparr>)
        in case Export (pi_os io) (pi_codecs io) (pi_stamp io) (map Some final) (config.Export cfg) fs of
             ((paths, Some e), fs') \<Rightarrow> ((None, Some (ExportFailed e)), fs')
           | ((paths, None), fs') \<Rightarrow> ((Some \<lparr>rr_FetchedSources = oks, rr_RawCount = n, rr_ParsedCount = n,
               rr_UniqueCount = int (length unique), rr_AliveCount = 0,
               rr_ExportedCount = int (length final), rr_HighQuality = 0, rr_Nodes = final, rr_Duration = pi_duration io\<rparr>, None), fs')))"


subsection \<open>What a run ships\<close>

lemma scoreOf_range: "0 \<le> scoreOf lat tlsFail hasTLS \<and> scoreOf lat tlsFail hasTLS \<le> 100"
  by (simp add: scoreOf_def Let_def)

text \<open>A faster answer never scores lower.\<close>

lemma scoreOf_mono:
  assumes "Milliseconds a \<le> Milliseconds b"
  shows "scoreOf b f t \<le> scoreOf a f t"
proof -
  define ms where "ms = (\<lambda>l. if real_of_int (Milliseconds l) \<le> 0 then 1 else real_of_int (Milliseconds l))"
  have pos: "0 < ms l" for l by (simp add: ms_def)
  have "ms a \<le> ms b" using assms by (auto simp: ms_def)
  then have "100 * (1 / (1 + ms b / 400)) \<le> 100 * (1 / (1 + ms a / 400))"
    using pos [of a] by (intro mult_left_mono divide_left_mono) (auto intro!: mult_pos_pos add_pos_pos pos divide_pos_pos)
  then show ?thesis unfolding scoreOf_def Let_def ms_def by (cases f; cases t) (simp_all only: if_True if_False, auto)
qed

lemma tester_one_kept [simp]:
  "clean_key h cfg (tester_one opts p n) = clean_key h cfg n" "admissible cfg (tester_one opts p n) = admissible cfg n"
  by (auto simp: tester_one_def tester_testOne_def clean_key_def Key_def canonical_def admissible_def IsValid_def Let_def
      split: option.split)

text \<open>An alive node accepted a connection and has a score in range.\<close>

lemma tester_one_alive:
  assumes "n_Alive (tester_one opts p n)"
  shows "\<exists>pb. p = Some pb \<and> tp_dial pb = None" and "0 \<le> n_Score (tester_one opts p n) \<and> n_Score (tester_one opts p n) \<le> 100"
  using assms scoreOf_range by (auto simp: tester_one_def tester_testOne_def Let_def split: option.splits)

lemma distinct_map_perm: "mset xs = mset ys \<Longrightarrow> distinct (map f xs) \<longleftrightarrow> distinct (map f ys)"
  by (metis mset_eq_imp_distinct_iff mset_map)

lemma Apply_distinct:
  assumes "distinct (map f ns)"
  shows "distinct (map f (Apply (map Some ns) cfg))"
proof -
  let ?kept = "filter (apply_keeps cfg) ns"
  obtain rest where rest: "SliceStable (sort_before cfg) ?kept = Apply (map Some ns) cfg @ rest"
    using limit_to_prefix [of "SliceStable (sort_before cfg) ?kept" "flt_MaxNodes (Filter cfg)"] by (auto simp: Apply_def)
  have "distinct (map f (SliceStable (sort_before cfg) ?kept))"
    using assms distinct_map_filter [OF assms, of "apply_keeps cfg"]
    by (subst distinct_map_perm [OF mset_SliceStable]) simp
  then show ?thesis unfolding rest by simp
qed

lemma Apply_length:
  "int (length (Apply (map Some ns) cfg)) = (let k = int (length (filter (apply_keeps cfg) ns)); m = flt_MaxNodes (Filter cfg)
     in if 0 < m then min m k else k)"
  by (auto simp: Apply_def limit_to_def Let_def min_def)

lemma Clean_length: "length (Clean h nodes cfg) \<le> length (somes nodes)"
proof -
  let ?ks = "clean_key h cfg ` set (candidates h cfg nodes)"
  have "length (Clean h nodes cfg) = card (clean_key h cfg ` set (Clean h nodes cfg))"
    using distinct_card [OF Clean_facts(1), of h cfg nodes] by simp
  also have "\<dots> = card ?ks" by (simp only: Clean_facts(2))
  also have "\<dots> \<le> card (set (candidates h cfg nodes))" by (rule card_image_le) simp
  also have "\<dots> \<le> length (candidates h cfg nodes)" by (rule card_length)
  also have "\<dots> \<le> length (somes nodes)" unfolding candidates_def using length_filter_le [of _ "map (normalize_node h) (somes nodes)"] by simp
  finally show ?thesis .
qed


text \<open>What a finished run promises of its result.\<close>

definition shipped :: "hashes \<Rightarrow> config \<Rightarrow> link_env \<Rightarrow> pipeline_io \<Rightarrow> run_result \<Rightarrow> bool" where
  "shipped h cfg env io res \<longleftrightarrow> (let unique = Clean h (map Some (parsed_nodes cfg env io)) cfg;
       tested = tester_TestAll (test_options cfg) (pi_tests io) unique; m = flt_MaxNodes (Filter cfg);
       k = int (length (filter (apply_keeps cfg) tested))
     in distinct (map (clean_key h cfg) (rr_Nodes res)) \<and>
        list_all (\<lambda>n. n \<in> set tested \<and> admissible cfg n \<and> apply_keeps cfg n \<and>
          (n_Alive n \<longrightarrow> 0 \<le> n_Score n \<and> n_Score n \<le> 100 \<and> LatencyMS n \<le> max_latency cfg) \<and>
          (flt_MinSuccess (Filter cfg) \<longrightarrow> list_ex (\<lambda>u. clean_key h cfg u = clean_key h cfg n \<and>
             (case pi_tests io u of None \<Rightarrow> False | Some pb \<Rightarrow> tp_dial pb = None)) unique)) (rr_Nodes res) \<and>
        rr_ExportedCount res = (if 0 < m then min m k else k) \<and> rr_ExportedCount res = int (length (rr_Nodes res)) \<and>
        rr_AliveCount res \<le> rr_UniqueCount res \<and> rr_UniqueCount res \<le> rr_ParsedCount res \<and>
        rr_FetchedSources res \<le> int (length (pi_arrived io (EnabledSources cfg))))"

lemma tested_alive:
  assumes "n \<in> set (tester_TestAll opts net unique)" and "n_Alive n"
  shows "0 \<le> n_Score n \<and> n_Score n \<le> 100"
    and "list_ex (\<lambda>u. clean_key h cfg u = clean_key h cfg n \<and> (case net u of None \<Rightarrow> False | Some pb \<Rightarrow> tp_dial pb = None)) unique"
proof -
  obtain u where u: "u \<in> set unique" "n = tester_one opts (net u) u" using assms(1) by (auto simp: tester_TestAll_def)
  note alive = tester_one_alive [of opts "net u" u, folded u(2), OF assms(2)]
  show "0 \<le> n_Score n \<and> n_Score n \<le> 100" by (rule alive(2))
  have "clean_key h cfg u = clean_key h cfg n" unfolding u(2) by simp
  moreover have "case net u of None \<Rightarrow> False | Some pb \<Rightarrow> tp_dial pb = None" using alive(1) by auto
  ultimately show "list_ex (\<lambda>u. clean_key h cfg u = clean_key h cfg n \<and> (case net u of None \<Rightarrow> False | Some pb \<Rightarrow> tp_dial pb = None)) unique"
    using u(1) unfolding list_ex_iff by blast
qed

lemma apply_keeps_alive: "apply_keeps cfg n \<Longrightarrow> (flt_MinSuccess (Filter cfg) \<longrightarrow> n_Alive n) \<and> (n_Alive n \<longrightarrow> LatencyMS n \<le> max_latency cfg)"
  by (auto simp: apply_keeps_def Let_def split: if_splits)

lemma tested_nodes_ok:
  fixes h cfg env io
  defines "unique \<equiv> Clean h (map Some (parsed_nodes cfg env io)) cfg"
  defines "tested \<equiv> tester_TestAll (test_options cfg) (pi_tests io) unique"
  assumes "n \<in> set (Apply (map Some tested) cfg)"
  shows "n \<in> set tested \<and> admissible cfg n \<and> apply_keeps cfg n \<and>
    (n_Alive n \<longrightarrow> 0 \<le> n_Score n \<and> n_Score n \<le> 100 \<and> LatencyMS n \<le> max_latency cfg) \<and>
    (flt_MinSuccess (Filter cfg) \<longrightarrow> list_ex (\<lambda>u. clean_key h cfg u = clean_key h cfg n \<and>
       (case pi_tests io u of None \<Rightarrow> False | Some pb \<Rightarrow> tp_dial pb = None)) unique)"
proof -
  have t: "n \<in> set tested" "apply_keeps cfg n" using Apply_ok [of "map Some tested" cfg] assms(3) by (auto simp: list_all_iff)
  have "admissible cfg n" using t(1) Clean_facts(4) by (auto simp: tested_def tester_TestAll_def unique_def)
  then show ?thesis
    using t apply_keeps_alive [OF t(2)] tested_alive [OF t(1) [unfolded tested_def]] by blast
qed


lemma run_outcome:
  assumes "Run h cfg env io fs = ((r, e), fs')"
  shows "(e \<noteq> None \<and> (\<forall>x. e \<noteq> Some (ExportFailed x)) \<longrightarrow> fs' = fs) \<and>
    (e = None \<longrightarrow> (\<exists>res. r = Some res \<and> shipped h cfg env io res))"
proof -
  define unique where "unique = Clean h (map Some (parsed_nodes cfg env io)) cfg"
  define tested where "tested = tester_TestAll (test_options cfg) (pi_tests io) unique"
  define final where "final = Apply (map Some tested) cfg"
  have "map (clean_key h cfg) tested = map (clean_key h cfg) unique" by (simp add: tested_def tester_TestAll_def)
  then have "distinct (map (clean_key h cfg) tested)" using Clean_facts(1) by (simp add: unique_def)
  then have dist: "distinct (map (clean_key h cfg) final)" unfolding final_def by (rule Apply_distinct)
  have each: "n \<in> set tested \<and> admissible cfg n \<and> apply_keeps cfg n \<and>
    (n_Alive n \<longrightarrow> 0 \<le> n_Score n \<and> n_Score n \<le> 100 \<and> LatencyMS n \<le> max_latency cfg) \<and>
    (flt_MinSuccess (Filter cfg) \<longrightarrow> list_ex (\<lambda>u. clean_key h cfg u = clean_key h cfg n \<and>
       (case pi_tests io u of None \<Rightarrow> False | Some pb \<Rightarrow> tp_dial pb = None)) unique)" if "n \<in> set final" for n
    using tested_nodes_ok that unfolding final_def tested_def unique_def .
  have len: "length tested \<le> length (parsed_nodes cfg env io)"
    using Clean_length [of h "map Some (parsed_nodes cfg env io)" cfg] by (simp add: tested_def tester_TestAll_def unique_def)
  have docs: "length (good_docs cfg io) \<le> length (pi_arrived io (EnabledSources cfg))"
    unfolding good_docs_def FetchAll_def by (rule order_trans [OF length_filter_le]) simp
  have ship: "shipped h cfg env io res" if "rr_Nodes res = final" "rr_ExportedCount res = int (length final)"
      "rr_AliveCount res = int (length (filter n_Alive tested))" "rr_UniqueCount res = int (length tested)"
      "rr_ParsedCount res = int (length (parsed_nodes cfg env io))" "rr_FetchedSources res = int (length (good_docs cfg io))" for res
    unfolding shipped_def Let_def unique_def [symmetric] tested_def [symmetric] that list_all_iff
    using dist each len docs Apply_length [of tested cfg] by (simp add: final_def [symmetric] Let_def)
  show ?thesis
    using assms ship
    by (auto simp: Run_def Let_def unique_def [symmetric] tested_def [symmetric] final_def [symmetric] split: if_splits prod.splits option.splits)
qed


lemmas run_shipped = run_outcome [THEN conjunct2, rule_format, OF _ refl]



definition trojan_io :: pipeline_io where
  "trojan_io = \<lparr>pi_net = (\<lambda>s. \<lparr>net_io = (\<lambda>k. Response \<lparr>hr_status = 200, hr_length = - 1, hr_body = ''trojan://p@a.b:1'', hr_broken = None\<rparr>),
       net_elapsed = (\<lambda>k. 1), net_canceled = (\<lambda>k. None)\<rparr>),
     pi_arrived = (\<lambda>ss. ss), pi_canceled = False,
     pi_tests = (\<lambda>n. Some \<lparr>tp_start = 5, tp_dial = None, tp_tls = None, tp_elapsed = 40 * millisecond\<rparr>),
     pi_duration = ''1s'', pi_os = able, pi_codecs = codecs.extend tiny_codecs \<lparr>json_MarshalIndent = (\<lambda>ns. Some ''[]'')\<rparr>, pi_stamp = ''20240101-000000''\<rparr>"

definition quiet_config :: config where
  "quiet_config = example_config\<lparr>Export := (config.Export example_config)\<lparr>exp_Formats := []\<rparr>\<rparr>"



text \<open>A run canceled while it tests still exports: where success is required, an empty list.\<close>

lemma canceled_run_ships_nothing:
  assumes "Run h cfg env io fs = ((Some res, None), fs')" and "\<And>n. pi_tests io n = None" and "flt_MinSuccess (Filter cfg)"
  shows "rr_Nodes res = []"
proof -
  have "shipped h cfg env io res"
    using run_shipped [OF assms(1)] by simp
  then have "list_all (\<lambda>n. False) (rr_Nodes res)"
    using assms(2,3) by (auto simp: shipped_def list_all_iff list_ex_iff Let_def)
  then show ?thesis by (cases "rr_Nodes res") auto
qed

end
