(* ===== verification/Spec2Isabelle.thy ===== *)
theory Spec2Isabelle
  imports RuntimeConfig TaskQueue RateLimit Auth Cleaner Quality Sources Jobs ExportDir LinkRoundTrip Subscription Tenants
    DialStage Fetch Purity Geo AIAccess Pipeline
begin

text \<open>
  NodeHarvest collects proxy nodes from public sources, tests them, and publishes the good ones as
  subscriptions. This library models its Go code (under \<open>src/internal\<close>) as functions on explicit
  states and proves what the parts promise and how they work together.

  \<^bold>\<open>The program.\<close> A job (\<open>fetch\<close>, \<open>quality\<close>, \<open>full\<close>, ...) is submitted through the API or by the
  schedule, written to the job table and put into a persistent task queue. A worker leases the task
  and runs the stages of the job: sources are fetched, their content is parsed into nodes, cleaned
  and merged into the node store; nodes are probed and scored; the best are exported to files and
  rendered into the publish cache. Subscribers read the cache through rate limited and token guarded
  endpoints; operators manage tokens, users, sources, tasks and the configuration.

  \<^bold>\<open>Theories and what they model.\<close>
  \<^item> \<open>Prelude\<close>: Go's integers, strings, slices, maps and sorting, and the locales the components
    share: \<open>strict_weak_order\<close> and \<open>keyed_less\<close> (what a comparison must satisfy for \<open>sort.Slice\<close>),
    \<open>keyset\<close> (paging with a cursor), \<open>row_update\<close> (a guarded \<open>UPDATE\<close> of a table).
  \<^item> \<open>Model\<close> (\<open>model/node.go\<close>): the node, its dial, quality and purity results, its identity.
  \<^item> \<open>Config\<close>, \<open>RuntimeConfig\<close> (\<open>config/*.go\<close>, \<open>service.go\<close>): every section of the configuration,
    its defaults, normalisation and validation; changes at run time and their replay at start.
  \<^item> \<open>Database\<close>, \<open>Accounts\<close>, \<open>TaskQueue\<close> (\<open>db/sqlite.go\<close>, \<open>db/users.go\<close>, \<open>db/tasks.go\<close>,
    \<open>queue/queue.go\<close>): the tables as lists of rows, each statement as one function.
  \<^item> \<open>RateLimit\<close> (\<open>middleware/ratelimit.go\<close>): the token bucket and the client address.
  \<^item> \<open>Base64\<close>, \<open>Auth\<close> (\<open>auth/*.go\<close>): sessions, logins, subscription tokens.
  \<^item> \<open>Store\<close> (\<open>store/store.go\<close>): the node map, listing, merging, pruning, the snapshot file.
  \<^item> \<open>NodeTable\<close> (\<open>db/nodes.go\<close>, \<open>service.go\<close>): the tables of nodes and their metrics beside the store,
    and the start of a process from them. Its locale \<open>observation\<close> is the contract of every stage that
    measures stored nodes and writes them back.
  \<^item> \<open>IP\<close>, \<open>Cleaner\<close> (\<open>cleaner/cleaner.go\<close>, \<open>filter/filter.go\<close>): admission and deduplication, over the
    locale \<open>dedup\<close>.
  \<^item> \<open>Quality\<close> (\<open>quality/*.go\<close>, the quality stage of \<open>service.go\<close>): probing, both scores, batches.
  \<^item> \<open>Sources\<close> (\<open>service.go\<close>, \<open>db/sqlite.go\<close>): the health and cooldown of sources in memory and in
    their table.
  \<^item> \<open>Fetch\<close> (\<open>fetcher/fetcher.go\<close>, \<open>doFetch\<close> of \<open>service.go\<close>): attempts and limits of one fetch, and the
    stage from the sources to the stored nodes.
  \<^item> \<open>Outbound\<close>, \<open>Dialer\<close>, \<open>DialStage\<close> (\<open>dialer/*.go\<close>, \<open>doDial\<close> of \<open>service.go\<close>): the configuration of the
    proxy cores, one probe through them, and the stage: candidates, rounds, engines, write-back.
  \<^item> \<open>Purity\<close> (\<open>purity/purity.go\<close>, \<open>doPurity\<close>), \<open>Geo\<close> (\<open>geo/*.go\<close>, \<open>doGeo\<close>), \<open>AIAccess\<close>
    (\<open>aiaccess/aiaccess.go\<close>, \<open>doAI\<close>): the exit address, the country and the reachable AI services.
  \<^item> \<open>Pipeline\<close> (\<open>tester/tester.go\<close>, \<open>pipeline/pipeline.go\<close>): a single run without a server.
  \<^item> \<open>Jobs\<close> (\<open>service.go\<close>, \<open>db/alerts.go\<close>): submission, running, cancellation, events, alerts.
  \<^item> \<open>NetURL\<close>, \<open>Dynamic\<close>: the parts of \<open>net/url\<close>, \<open>net\<close> and \<open>map[string]any\<close> the parsers use.
  \<^item> \<open>ClashParser\<close>, \<open>LinkParser\<close>, \<open>LinkRoundTrip\<close> (\<open>parser/*.go\<close>): Clash entries and share links of every
    protocol.
  \<^item> \<open>Exporter\<close>, \<open>ExportDir\<close> (\<open>exporter/exporter.go\<close>): links, Clash documents, the export directory.
  \<^item> \<open>Publish\<close>, \<open>PublishCache\<close> (\<open>service.go\<close>, \<open>pools/pools.go\<close>, \<open>publish/cache.go\<close>): selection of the
    published nodes, pools, the pre-rendered subscriptions and their copy on disk.
  \<^item> \<open>Subscription\<close> (\<open>api/server.go\<close>): the subscription endpoints over all of these.
  \<^item> \<open>Boundary\<close>, \<open>Management\<close>, \<open>Tenants\<close> (\<open>api/server.go\<close>): the routes and the layers in front of them, the
    operations of the management interface, and the separation of tenants.

  \<^bold>\<open>What the lemmas show.\<close> Identity and deduplication of nodes; that a validated configuration is
  well formed and that runtime changes survive a restart; that in every interleaving of queue
  transactions attempts, leases and the number of pending tasks stay within their bounds, finished
  tasks stay finished and lost leases are fenced off; that the rate limiter and the daily quota
  admit what they promise; that only signed sessions and stored tokens are accepted, management
  routes need a session and no tenant reaches another; that the store keeps its key invariant,
  lists in a total order, and that store and node table agree through every operation, so that
  nodes survive a restart; that a fetch ends, loses no node of a failed source and changes nothing
  when it fails; that every measuring stage touches only the nodes it lists and the fields it
  measures, with results in range; that the dial candidates are spread fairly and a supported core
  gets a complete configuration; that scores are bounded and every due node is tested; that the
  source table refines the state in memory; that a worker leaves job and task in agreement; that
  exported documents have unique names; that links written are read back; that a single run ships
  distinct, admissible nodes; that published nodes pass the publishing policy, that every cached
  body was published even after torn writes, and that a subscriber receives only nodes the token
  allows.

  \<^bold>\<open>Conventions.\<close> Machine integers are \<open>int\<close> with \<open>wrap64\<close> written out where the code can overflow;
  \<open>float64\<close> is \<open>real\<close>, so rounding of floating point arithmetic is outside the model; strings are
  byte lists, and case and white space follow ASCII; times are nanoseconds with 0 for the zero time;
  Go maps are association lists without repeated keys (\<open>gmap\<close>), whose order stands for the iteration
  order; a nil pointer is \<open>None\<close>; errors are sum types. A mutex section, a database transaction and
  a statement are atomic steps, and concurrency is an arbitrary sequence of them. Code outside the
  repository (hashes, bcrypt, JSON and YAML codecs, address parsing of \<open>net/netip\<close>, the outcome of
  network and file operations) is a parameter of the definitions that use it; the witnesses
  instantiate it. Every recursion is structural or has a termination proof; where a relation can take
  any number of steps it is an \<open>inductive\<close> predicate. No fuel is used, except for the page
  readers of the task and user listings, where one more page than there are rows is enough.

  \<^bold>\<open>Not modelled.\<close> The network and the external processes themselves: what they answer is a
  parameter. The schedule (timers around \<open>Submit\<close>), the statistics and anomaly alerts at the end of
  the quality stage, the export step that strings modelled operations together, download and opening
  of the address databases, schema migrations, metrics, tracing and access logs, the Redis and S3
  clients, the JSON and HTML answers of the dashboard, the command line programs, the web console and
  the deployment files.
\<close>

end
